(* ===== verification/Prelude.thy ===== *)
theory Prelude
  imports Main "HOL-Library.Code_Target_Nat" "HOL-Library.Code_Target_Int" "HOL-Library.AList" "HOL-Library.Char_ord" "HOL-Library.List_Lexorder"
begin

section \<open>Shared vocabulary of the CLIHarbor model\<close>

text \<open>
  Vocabulary every component theory uses: Go's two ways of failing (a value with an error,
  modelled as a sum; a bare error, modelled as an option that is \<open>None\<close> for nil), Go maps
  with string keys (association lists, so that their size and a deterministic iteration
  are computable), loops that stop at the first error, and the generic lemmas the
  component proofs share.
\<close>

named_theorems model_defs \<open>definitions a component's proofs unfold together\<close>
named_theorems sum_elims \<open>inversion of successful results\<close>

subsection \<open>Errors\<close>

definition bindE :: "'e + 'a \<Rightarrow> ('a \<Rightarrow> 'e + 'b) \<Rightarrow> 'e + 'b" where
  "bindE m f = (case m of Inl e \<Rightarrow> Inl e | Inr a \<Rightarrow> f a)"

lemma bindE_simps [simp]:
  "bindE (Inl e) f = Inl e"
  "bindE (Inr a) f = f a"
  by (simp_all add: bindE_def)

lemma bindE_Inr_iff: "bindE m f = Inr b \<longleftrightarrow> (\<exists>a. m = Inr a \<and> f a = Inr b)"
  by (cases m) simp_all

lemma bindE_Inl_iff: "bindE m f = Inl e \<longleftrightarrow> m = Inl e \<or> (\<exists>a. m = Inr a \<and> f a = Inl e)"
  by (cases m) simp_all

definition liftE :: "'e option \<Rightarrow> 'e + unit" where
  "liftE c = (case c of None \<Rightarrow> Inr () | Some e \<Rightarrow> Inl e)"

lemma liftE_simps [simp]:
  "liftE None = Inr ()"
  "liftE (Some e) = Inl e"
  "(liftE c = Inr u) = (c = None)"
  by (simp_all add: liftE_def split: option.split)

text \<open>A sequence of checks of which the first failing one reports.\<close>

definition orElse :: "'e option \<Rightarrow> 'e option \<Rightarrow> 'e option" where
  "orElse a b = (case a of None \<Rightarrow> b | Some e \<Rightarrow> Some e)"

lemma orElse_simps [simp]:
  "orElse None b = b"
  "orElse (Some e) b = Some e"
  by (simp_all add: orElse_def)

lemma orElse_None [simp]: "(orElse a b = None) = (a = None \<and> b = None)"
  by (cases a) simp_all

fun first_err :: "('a \<Rightarrow> 'e option) \<Rightarrow> 'a list \<Rightarrow> 'e option" where
  "first_err f [] = None"
| "first_err f (x # xs) = orElse (f x) (first_err f xs)"

lemma first_err_None: "first_err f xs = None \<longleftrightarrow> (\<forall>x \<in> set xs. f x = None)"
  by (induction xs) simp_all

lemma first_err_cong:
  "(\<And>x. x \<in> set xs \<Longrightarrow> f x = g x) \<Longrightarrow> first_err f xs = first_err g xs"
  by (induction xs) simp_all

lemma first_err_Some: "first_err f xs = Some e \<Longrightarrow> \<exists>x \<in> set xs. f x = Some e"
  by (induction xs) (auto simp: orElse_def split: option.splits)

text \<open>The same loop with the index the code puts into its error path.\<close>

fun first_err_from :: "nat \<Rightarrow> (nat \<Rightarrow> 'a \<Rightarrow> 'e option) \<Rightarrow> 'a list \<Rightarrow> 'e option" where
  "first_err_from i f [] = None"
| "first_err_from i f (x # xs) = orElse (f i x) (first_err_from (Suc i) f xs)"

lemma first_err_from_None:
  "first_err_from i f xs = None \<longleftrightarrow> (\<forall>k < length xs. f (i + k) (xs ! k) = None)"
proof (induction xs arbitrary: i)
  case Nil
  then show ?case by simp
next
  case (Cons x xs)
  show ?case
    by (simp add: Cons.IH All_less_Suc2)
qed

lemma first_err_from_set:
  "first_err_from i f xs = None \<Longrightarrow> x \<in> set xs \<Longrightarrow> \<exists>k. f k x = None"
  by (auto simp: first_err_from_None in_set_conv_nth)

subsection \<open>Go maps with string keys\<close>

type_synonym 'v dict = "(string \<times> 'v) list"

abbreviation get :: "'v dict \<Rightarrow> string \<Rightarrow> 'v option" where
  "get d k \<equiv> map_of d k"

definition sorted_keys :: "'v dict \<Rightarrow> string list" where
  "sorted_keys d = sort (remdups (map fst d))"

lemma set_sorted_keys [simp]: "set (sorted_keys d) = fst ` set d"
  by (simp add: sorted_keys_def)

lemma distinct_sorted_keys: "distinct (sorted_keys d)"
  by (simp add: sorted_keys_def)

lemma sorted_sorted_keys: "sorted (sorted_keys d)"
  by (simp add: sorted_keys_def)

lemma get_in_keys: "get d k = Some v \<Longrightarrow> k \<in> set (sorted_keys d)"
  by (force dest: map_of_SomeD)

text \<open>Insertion and deletion keep the key list free of duplicates; its length is the map's size.\<close>

definition well_keyed :: "'v dict \<Rightarrow> bool" where
  "well_keyed d \<longleftrightarrow> distinct (map fst d)"

lemma well_keyed_Nil [simp]: "well_keyed []"
  by (simp add: well_keyed_def)

lemma well_keyed_update [simp]: "well_keyed d \<Longrightarrow> well_keyed (AList.update k v d)"
  by (simp add: well_keyed_def distinct_update)

lemma well_keyed_delete [simp]: "well_keyed d \<Longrightarrow> well_keyed (AList.delete k d)"
  by (simp add: well_keyed_def distinct_delete)

lemma well_keyed_filter [simp]: "well_keyed d \<Longrightarrow> well_keyed (filter P d)"
  by (auto simp: well_keyed_def distinct_map inj_on_def)

lemma get_update [simp]: "get (AList.update k v d) k' = (if k' = k then Some v else get d k')"
  by (simp add: update_conv')

lemma get_delete [simp]: "get (AList.delete k d) k' = (if k' = k then None else get d k')"
  by (simp add: delete_conv')

lemma length_update_new:
  "get d k = None \<Longrightarrow> length (AList.update k v d) = Suc (length d)"
  by (induction d) (auto split: if_splits)

lemma length_update_old:
  "get d k = Some w \<Longrightarrow> length (AList.update k v d) = length d"
  by (induction d) (auto split: if_splits)

lemma length_delete_old:
  assumes "well_keyed d" and "get d k = Some v"
  shows "Suc (length (AList.delete k d)) = length d"
  using assms
proof (induction d)
  case Nil
  then show ?case by simp
next
  case (Cons p d)
  show ?case
  proof (cases "fst p = k")
    case True
    with Cons.prems have "k \<notin> fst ` set d"
      by (auto simp: well_keyed_def)
    then have "AList.delete k d = d"
      by (rule delete_id)
    with True show ?thesis by (cases p) simp
  next
    case False
    with Cons show ?thesis by (cases p) (simp add: well_keyed_def)
  qed
qed

lemma get_filter_well_keyed:
  assumes "well_keyed d"
  shows "get (filter P d) k = (case get d k of None \<Rightarrow> None | Some v \<Rightarrow> if P (k, v) then Some v else None)"
  using assms
proof (induction d)
  case Nil
  then show ?case by simp
next
  case (Cons p d)
  obtain a b where p: "p = (a, b)" by (cases p)
  from Cons.prems p have notin: "a \<notin> fst ` set d" and wk: "well_keyed d"
    by (simp_all add: well_keyed_def)
  then have "get d a = None" by (simp add: map_of_eq_None_iff)
  with Cons.IH [OF wk] p show ?case by auto
qed

end
