(* ===== verification/GoText.thy ===== *)
theory GoText
  imports Prelude
begin

section \<open>Go strings: bytes, runes, trimming\<close>

text \<open>
  A Go string is a sequence of bytes; \<open>char\<close> is a byte here, so \<open>length\<close> is Go's
  \<open>len\<close>. The package unicode/utf8 is modelled by its own tables: a malformed sequence
  decodes as \<open>RuneError\<close> (U+FFFD) of width 1. The classes of package unicode that the
  program asks for (spaces, control characters, category Cf) are the tables of the
  standard library.
\<close>

definition byte :: "char \<Rightarrow> nat" where
  "byte c = of_char c"

lemma byte_less_256: "byte c < 256"
  by (simp add: byte_def)

lemma byte_char_of [simp]: "n < 256 \<Longrightarrow> byte (char_of n) = n"
  by (simp add: byte_def)

lemma char_of_byte [simp]: "char_of (byte c) = c"
  by (simp add: byte_def)

lemma byte_inject [simp]: "byte c = byte d \<longleftrightarrow> c = d"
  by (simp add: byte_def of_char_eq_iff)

definition RuneError :: nat where
  "RuneError = 0xFFFD"

definition cont_byte :: "nat \<Rightarrow> bool" where
  "cont_byte b \<longleftrightarrow> 0x80 \<le> b \<and> b \<le> 0xBF"

subsection \<open>Decoding\<close>

text \<open>\<open>utf8.DecodeRune\<close>: the rune and the number of bytes it takes.\<close>

fun decode2 :: "nat \<Rightarrow> string \<Rightarrow> nat \<times> nat" where
  "decode2 b0 (c1 # _) =
     (if cont_byte (byte c1) then ((b0 - 0xC0) * 64 + (byte c1 - 0x80), 2) else (RuneError, 1))"
| "decode2 b0 [] = (RuneError, 1)"

fun decode3 :: "nat \<Rightarrow> string \<Rightarrow> nat \<times> nat" where
  "decode3 b0 (c1 # c2 # _) =
     (let lo = (if b0 = 0xE0 then 0xA0 else 0x80);
          hi = (if b0 = 0xED then 0x9F else 0xBF)
      in if lo \<le> byte c1 \<and> byte c1 \<le> hi \<and> cont_byte (byte c2)
         then ((b0 - 0xE0) * 4096 + (byte c1 - 0x80) * 64 + (byte c2 - 0x80), 3)
         else (RuneError, 1))"
| "decode3 b0 _ = (RuneError, 1)"

fun decode4 :: "nat \<Rightarrow> string \<Rightarrow> nat \<times> nat" where
  "decode4 b0 (c1 # c2 # c3 # _) =
     (let lo = (if b0 = 0xF0 then 0x90 else 0x80);
          hi = (if b0 = 0xF4 then 0x8F else 0xBF)
      in if lo \<le> byte c1 \<and> byte c1 \<le> hi \<and> cont_byte (byte c2) \<and> cont_byte (byte c3)
         then ((b0 - 0xF0) * 262144 + (byte c1 - 0x80) * 4096 + (byte c2 - 0x80) * 64
               + (byte c3 - 0x80), 4)
         else (RuneError, 1))"
| "decode4 b0 _ = (RuneError, 1)"

fun decode_rune :: "string \<Rightarrow> nat \<times> nat" where
  "decode_rune [] = (RuneError, 0)"
| "decode_rune (c # cs) =
     (let b0 = byte c in
      if b0 < 0x80 then (b0, 1)
      else if b0 < 0xC2 \<or> 0xF4 < b0 then (RuneError, 1)
      else if b0 < 0xE0 then decode2 b0 cs
      else if b0 < 0xF0 then decode3 b0 cs
      else decode4 b0 cs)"

lemma decode_rune_width_pos: "s \<noteq> [] \<Longrightarrow> 0 < snd (decode_rune s)"
proof (cases s)
  case (Cons c cs)
  then show ?thesis
    by (cases "(byte c, cs)" rule: decode4.cases; cases "(byte c, cs)" rule: decode3.cases;
        cases cs) (auto simp: Let_def)
qed simp

lemma decode_rune_width_le: "snd (decode_rune s) \<le> length s"
proof (cases s)
  case (Cons c cs)
  then show ?thesis
    by (cases "(byte c, cs)" rule: decode4.cases; cases "(byte c, cs)" rule: decode3.cases;
        cases cs) (auto simp: Let_def)
qed simp

lemma decode_rune_ascii [simp]: "byte c < 0x80 \<Longrightarrow> decode_rune (c # cs) = (byte c, 1)"
  by (simp add: Let_def)

declare decode_rune.simps(2) [simp del]

text \<open>What ranging over a string visits: every rune with its width.\<close>

fun rune_seq :: "string \<Rightarrow> (nat \<times> nat) list" where
  "rune_seq [] = []"
| "rune_seq (c # cs) =
     (let rw = decode_rune (c # cs) in rw # rune_seq (drop (snd rw - 1) cs))"

definition runes :: "string \<Rightarrow> nat list" where
  "runes s = map fst (rune_seq s)"

definition rune_count :: "string \<Rightarrow> nat" where
  "rune_count s = length (rune_seq s)"

definition valid_utf8 :: "string \<Rightarrow> bool" where
  "valid_utf8 s \<longleftrightarrow> (RuneError, 1) \<notin> set (rune_seq s)"

lemma runes_Nil [simp]: "runes [] = []" and rune_count_Nil [simp]: "rune_count [] = 0"
  and valid_utf8_Nil [simp]: "valid_utf8 []"
  by (simp_all add: runes_def rune_count_def valid_utf8_def)

lemma rune_seq_ascii:
  "byte c < 0x80 \<Longrightarrow> rune_seq (c # cs) = (byte c, 1) # rune_seq cs"
  by (simp add: Let_def)

lemma runes_ascii [simp]: "byte c < 0x80 \<Longrightarrow> runes (c # cs) = byte c # runes cs"
  by (simp add: runes_def Let_def)

definition ascii :: "string \<Rightarrow> bool" where
  "ascii s \<longleftrightarrow> (\<forall>c \<in> set s. byte c < 0x80)"

lemma ascii_Nil [simp]: "ascii []"
  by (simp add: ascii_def)

lemma ascii_Cons [simp]: "ascii (c # cs) \<longleftrightarrow> byte c < 0x80 \<and> ascii cs"
  by (simp add: ascii_def)

lemma ascii_append [simp]: "ascii (s @ t) \<longleftrightarrow> ascii s \<and> ascii t"
  by (auto simp: ascii_def)

lemma ascii_rune_seq: "ascii s \<Longrightarrow> rune_seq s = map (\<lambda>c. (byte c, 1)) s"
  by (induction s) (simp_all add: rune_seq_ascii del: rune_seq.simps(2))

lemma ascii_valid: "ascii s \<Longrightarrow> valid_utf8 s"
  by (auto simp: valid_utf8_def ascii_rune_seq ascii_def RuneError_def)

lemma rune_seq_width: "(r, w) \<in> set (rune_seq s) \<Longrightarrow> 0 < w"
proof (induction s rule: rune_seq.induct)
  case 1
  then show ?case by simp
next
  case (2 c cs)
  have "0 < snd (decode_rune (c # cs))" by (rule decode_rune_width_pos) simp
  then have "0 < w" if "decode_rune (c # cs) = (r, w)"
    using that by simp
  with 2 show ?case
    by (auto simp: Let_def dest: sym)
qed

lemma rune_count_le_length: "rune_count s \<le> length s"
proof (induction s rule: rune_seq.induct)
  case 1
  then show ?case by simp
next
  case (2 c cs)
  then show ?case
    by (simp add: rune_count_def Let_def)
qed

subsection \<open>Character classes\<close>

definition is_space :: "nat \<Rightarrow> bool" where
  "is_space r \<longleftrightarrow> (9 \<le> r \<and> r \<le> 13) \<or> r = 0x20 \<or> r = 0x85 \<or> r = 0xA0 \<or> r = 0x1680
     \<or> (0x2000 \<le> r \<and> r \<le> 0x200A) \<or> r = 0x2028 \<or> r = 0x2029 \<or> r = 0x202F \<or> r = 0x205F \<or> r = 0x3000"

definition is_control :: "nat \<Rightarrow> bool" where
  "is_control r \<longleftrightarrow> r \<le> 0x1F \<or> (0x7F \<le> r \<and> r \<le> 0x9F)"

definition is_format :: "nat \<Rightarrow> bool" where
  "is_format r \<longleftrightarrow> r = 0xAD \<or> (0x600 \<le> r \<and> r \<le> 0x605) \<or> r = 0x61C \<or> r = 0x6DD \<or> r = 0x70F
     \<or> r = 0x890 \<or> r = 0x891 \<or> r = 0x8E2 \<or> r = 0x180E \<or> (0x200B \<le> r \<and> r \<le> 0x200F)
     \<or> (0x202A \<le> r \<and> r \<le> 0x202E) \<or> (0x2060 \<le> r \<and> r \<le> 0x2064) \<or> (0x2066 \<le> r \<and> r \<le> 0x206F)
     \<or> r = 0xFEFF \<or> (0xFFF9 \<le> r \<and> r \<le> 0xFFFB) \<or> r = 0x110BD \<or> r = 0x110CD
     \<or> (0x13430 \<le> r \<and> r \<le> 0x1343F) \<or> (0x1BCA0 \<le> r \<and> r \<le> 0x1BCA3)
     \<or> (0x1D173 \<le> r \<and> r \<le> 0x1D17A) \<or> r = 0xE0001 \<or> (0xE0020 \<le> r \<and> r \<le> 0xE007F)"

text \<open>Runes that can misrepresent displayed text; the program tests this set in several places.\<close>

definition unsafe_rune :: "nat \<Rightarrow> bool" where
  "unsafe_rune r \<longleftrightarrow> is_control r \<or> is_format r \<or> r = 0x2028 \<or> r = 0x2029"

subsection \<open>Trimming\<close>

definition rune_start :: "char \<Rightarrow> bool" where
  "rune_start c \<longleftrightarrow> \<not> cont_byte (byte c)"

text \<open>\<open>utf8.DecodeLastRune\<close>.\<close>

definition last_rune_start :: "string \<Rightarrow> nat" where
  "last_rune_start s =
     (let n = length s; starts = filter (\<lambda>i. rune_start (s ! i)) [n - 4 ..< n - 1]
      in if starts = [] then n - 5 else last starts)"

definition decode_last_rune :: "string \<Rightarrow> nat \<times> nat" where
  "decode_last_rune s =
     (if s = [] then (RuneError, 0)
      else if byte (last s) < 0x80 then (byte (last s), 1)
      else let start = last_rune_start s; rw = decode_rune (drop start s)
           in if start + snd rw = length s then rw else (RuneError, 1))"

lemma last_rune_start_less: "s \<noteq> [] \<Longrightarrow> last_rune_start s < length s"
proof -
  assume ne: "s \<noteq> []"
  define starts where "starts = filter (\<lambda>i. rune_start (s ! i)) [length s - 4 ..< length s - Suc 0]"
  have "last starts < length s" if "starts \<noteq> []"
    using last_in_set [OF that] by (auto simp: starts_def)
  with ne show ?thesis
    by (simp add: last_rune_start_def Let_def starts_def)
qed

lemma decode_last_rune_width_pos: "s \<noteq> [] \<Longrightarrow> 0 < snd (decode_last_rune s)"
  using decode_rune_width_pos [of "drop (last_rune_start s) s"] last_rune_start_less [of s]
  by (simp add: decode_last_rune_def Let_def)

fun trim_left :: "string \<Rightarrow> string" where
  "trim_left [] = []"
| "trim_left (c # cs) =
     (let rw = decode_rune (c # cs)
      in if is_space (fst rw) then trim_left (drop (snd rw - 1) cs) else c # cs)"

function trim_right :: "string \<Rightarrow> string" where
  "trim_right s =
     (let rw = decode_last_rune s
      in if s \<noteq> [] \<and> is_space (fst rw) then trim_right (take (length s - snd rw) s) else s)"
  by pat_completeness auto
termination
  by (relation "measure length") (auto simp: decode_last_rune_width_pos)

declare trim_right.simps [simp del]

text \<open>\<open>strings.TrimSpace\<close>.\<close>

definition trim_space :: "string \<Rightarrow> string" where
  "trim_space s = trim_right (trim_left s)"

lemma trim_right_Nil [simp]: "trim_right [] = []"
  by (subst trim_right.simps) simp

lemma trim_space_Nil [simp]: "trim_space [] = []"
  by (simp add: trim_space_def)

subsection \<open>Searching and cutting\<close>

definition has_prefix :: "string \<Rightarrow> string \<Rightarrow> bool" where
  "has_prefix p s \<longleftrightarrow> take (length p) s = p"

lemma has_prefix_Nil [simp]: "has_prefix [] s"
  by (simp add: has_prefix_def)

lemma has_prefix_Cons [simp]:
  "has_prefix (c # p) [] = False"
  "has_prefix (c # p) (d # s) = (c = d \<and> has_prefix p s)"
  by (auto simp: has_prefix_def)

lemma has_prefix_iff: "has_prefix p s \<longleftrightarrow> (\<exists>t. s = p @ t)"
  by (metis append_eq_conv_conj append_take_drop_id has_prefix_def)

definition has_suffix :: "string \<Rightarrow> string \<Rightarrow> bool" where
  "has_suffix p s \<longleftrightarrow> length p \<le> length s \<and> drop (length s - length p) s = p"

definition trim_suffix :: "string \<Rightarrow> string \<Rightarrow> string" where
  "trim_suffix p s = (if has_suffix p s then take (length s - length p) s else s)"

fun contains_sub :: "string \<Rightarrow> string \<Rightarrow> bool" where
  "contains_sub p [] = (p = [])"
| "contains_sub p (c # cs) = (has_prefix p (c # cs) \<or> contains_sub p cs)"

text \<open>\<open>strings.Cut\<close> at the first occurrence of a separator: the text before and after it.\<close>

fun cut :: "string \<Rightarrow> string \<Rightarrow> (string \<times> string) option" where
  "cut sep [] = (if sep = [] then Some ([], []) else None)"
| "cut sep (c # cs) =
     (if has_prefix sep (c # cs) then Some ([], drop (length sep) (c # cs))
      else map_option (\<lambda>(a, b). (c # a, b)) (cut sep cs))"

lemma cut_Some: "cut sep s = Some (a, b) \<Longrightarrow> s = a @ sep @ b"
proof (induction s arbitrary: a)
  case Nil
  then show ?case by (simp split: if_splits)
next
  case (Cons c s)
  then show ?case
    by (auto simp: has_prefix_iff split: if_splits)
qed

text \<open>\<open>strings.Split\<close> at a one-byte separator.\<close>

fun split_at :: "char \<Rightarrow> string \<Rightarrow> string list" where
  "split_at sep [] = [[]]"
| "split_at sep (c # cs) =
     (if c = sep then [] # split_at sep cs
      else case split_at sep cs of [] \<Rightarrow> [[c]] | p # ps \<Rightarrow> (c # p) # ps)"

lemma split_at_nonempty [simp]: "split_at sep s \<noteq> []"
  by (induction s) (auto split: list.split)

lemma split_at_no_sep: "p \<in> set (split_at sep s) \<Longrightarrow> sep \<notin> set p"
  by (induction s arbitrary: p) (auto split: list.splits if_splits)

subsection \<open>Case and numbers\<close>

text \<open>
  \<open>strings.ToLower\<close> as far as ASCII results go: besides the ASCII capitals, exactly two
  runes have an ASCII lower case, U+0130 (to i) and U+212A, the Kelvin sign (to k). Other
  non-ASCII text is kept as it is; the program only compares the result with ASCII text.
  \<open>strings.EqualFold\<close> is used on executable names, which the pack schema restricts to ASCII.
\<close>

definition lower_char :: "char \<Rightarrow> char" where
  "lower_char c = (if 65 \<le> byte c \<and> byte c \<le> 90 then char_of (byte c + 32) else c)"

fun to_lower :: "string \<Rightarrow> string" where
  "to_lower [] = []"
| "to_lower (c # cs) =
     (if c = CHR 0xC4 \<and> has_prefix [CHR 0xB0] cs then CHR ''i'' # to_lower (drop 1 cs)
      else if c = CHR 0xE2 \<and> has_prefix [CHR 0x84, CHR 0xAA] cs then CHR ''k'' # to_lower (drop 2 cs)
      else lower_char c # to_lower cs)"

definition equal_fold :: "string \<Rightarrow> string \<Rightarrow> bool" where
  "equal_fold s t \<longleftrightarrow> to_lower s = to_lower t"

definition digit_char :: "nat \<Rightarrow> char" where
  "digit_char d = char_of (48 + d)"

fun show_nat :: "nat \<Rightarrow> string" where
  "show_nat n = (if n < 10 then [digit_char n] else show_nat (n div 10) @ [digit_char (n mod 10)])"

declare show_nat.simps [simp del]

definition show_int :: "int \<Rightarrow> string" where
  "show_int i = (if i < 0 then CHR ''-'' # show_nat (nat (- i)) else show_nat (nat i))"

definition is_digit :: "char \<Rightarrow> bool" where
  "is_digit c \<longleftrightarrow> 48 \<le> byte c \<and> byte c \<le> 57"

lemma byte_digit_char: "d < 10 \<Longrightarrow> byte (digit_char d) = 48 + d"
  by (simp add: digit_char_def)

lemma show_nat_digits: "\<forall>c \<in> set (show_nat n). is_digit c"
proof (induction n rule: show_nat.induct)
  case (1 n)
  show ?case
  proof (cases "n < 10")
    case True
    then show ?thesis
      by (subst show_nat.simps) (simp add: is_digit_def byte_digit_char)
  next
    case False
    then show ?thesis
      using 1 by (subst show_nat.simps) (auto simp: is_digit_def byte_digit_char)
  qed
qed

lemma show_nat_nonempty [simp]: "show_nat n \<noteq> []"
  by (subst show_nat.simps) simp

end
