(* ===== verification/PackModel.thy ===== *)
theory PackModel
  imports GoText
begin

section \<open>The pack model (internal/packs/model.go)\<close>

text \<open>
  The data a trusted pack is decoded into. A Go struct is a record, a pointer field an
  option, a map with string keys a \<open>dict\<close>; the string-typed enumerations keep a
  constructor for any other text, because the code's \<open>default\<close> branches handle it.
  Integers of 64 bits are \<open>int\<close>: the program only compares them.
\<close>

datatype risk = RiskRead | RiskChange | RiskDestructive | RiskCredentialSensitive
  | RiskInteractive | RiskOther string

datatype auth_mode = AuthModeVendorSession | AuthModeOther string

datatype input_type = InputString | InputInteger | InputBoolean | InputEnum | InputMultiselect
  | InputSecret | InputOther string

datatype output_mode = OutputRaw | OutputJSON | OutputNDJSON | OutputDelimited | OutputOther string

datatype install_format = InstallFormatExecutable | InstallFormatZIP | InstallFormatOther string

datatype impact_scope = ImpactScopeSingle | ImpactScopeMultiple | ImpactScopeOther string

datatype field_type = StructuredString | StructuredInteger | StructuredBoolean
  | StructuredOther string

datatype source_kind = SourceBuiltin | SourceExplicitLocal

fun risk_text :: "risk \<Rightarrow> string" where
  "risk_text RiskRead = ''read''"
| "risk_text RiskChange = ''change''"
| "risk_text RiskDestructive = ''destructive''"
| "risk_text RiskCredentialSensitive = ''credential-sensitive''"
| "risk_text RiskInteractive = ''interactive''"
| "risk_text (RiskOther t) = t"

fun scope_text :: "impact_scope \<Rightarrow> string" where
  "scope_text ImpactScopeSingle = ''single''"
| "scope_text ImpactScopeMultiple = ''multiple''"
| "scope_text (ImpactScopeOther t) = t"

fun field_type_text :: "field_type \<Rightarrow> string" where
  "field_type_text StructuredString = ''string''"
| "field_type_text StructuredInteger = ''integer''"
| "field_type_text StructuredBoolean = ''boolean''"
| "field_type_text (StructuredOther t) = t"

record metadata =
  md_ID :: string
  md_Name :: string
  md_Version :: string
  md_Description :: string

record install_artifact =
  ia_URL :: string
  ia_SHA256 :: string
  ia_SizeBytes :: int
  ia_Format :: install_format
  ia_ExecutableName :: string
  ia_ArchivePath :: string
  ia_ExecutableSHA256 :: string
  ia_ExecutableSizeBytes :: int
  ia_RedirectHosts :: "string list"

record tool_install =
  ti_Version :: string
  ti_Artifacts :: "install_artifact dict"

record session_check =
  sc_CommandID :: string
  sc_UnauthenticatedStderrContains :: string

record version_probe =
  vp_Args :: "string list"
  vp_Parser :: string
  vp_Prefix :: string
  vp_TimeoutMillis :: int

record help_probe =
  hp_Args :: "string list"
  hp_TimeoutMillis :: int

record tool =
  tl_ExecutableNames :: "string list"
  tl_VersionProbe :: "version_probe option"
  tl_HelpProbes :: "help_probe dict"
  tl_VersionConstraint :: string
  tl_SessionCheck :: "session_check option"
  tl_Install :: "tool_install option"

record runtime =
  rt_Platforms :: "string list"
  rt_Tools :: "tool dict"

record impact =
  im_TargetInput :: string
  im_TargetLabel :: string
  im_Effect :: string
  im_Scope :: impact_scope

record stdin_spec =
  si_Input :: string
  si_YAMLTemplate :: string

record input_validation =
  iv_Min :: "int option"
  iv_Max :: "int option"
  iv_MinLength :: "int option"
  iv_MaxLength :: "int option"
  iv_Pattern :: string
  iv_Enum :: "string list"
  iv_DisallowLeadingDash :: bool

record input =
  in_ID :: string
  in_Type :: input_type
  in_Label :: string
  in_Required :: bool
  in_Validation :: input_validation

record flag_argument =
  fl_Name :: string
  fl_ValueFrom :: string
  fl_OmitWhenEmpty :: bool

record switch_argument =
  sw_Name :: string
  sw_EnabledFrom :: string

record map_argument =
  mp_ValueFrom :: string
  mp_Values :: "string dict"

record positional_argument =
  po_ValueFrom :: string
  po_OmitWhenEmpty :: bool

record argument =
  ar_Literal :: string
  ar_Flag :: "flag_argument option"
  ar_Switch :: "switch_argument option"
  ar_Map :: "map_argument option"
  ar_Positional :: "positional_argument option"

record structured_field =
  sf_Key :: string
  sf_Label :: string
  sf_Type :: field_type
  sf_Required :: bool
  sf_Sensitive :: bool

record structured_output =
  so_Fields :: "structured_field list"

record sensitivity =
  se_ContainsSecrets :: bool
  se_PersistRawOutput :: bool
  se_RevealByDefault :: bool

record output_spec =
  ou_Mode :: output_mode
  ou_Renderer :: string
  ou_Structured :: "structured_output option"
  ou_Sensitivity :: sensitivity

record requirements =
  rq_RequiresAuth :: bool
  rq_AuthMode :: auth_mode

record command =
  cm_Name :: string
  cm_Description :: string
  cm_Tool :: string
  cm_Risk :: risk
  cm_Impact :: "impact option"
  cm_Stdin :: "stdin_spec option"
  cm_Inputs :: "input list"
  cm_Argv :: "argument list"
  cm_Output :: output_spec
  cm_Requirements :: requirements

record pack =
  pk_APIVersion :: string
  pk_Kind :: string
  pk_Metadata :: metadata
  pk_Runtime :: runtime
  pk_Commands :: "command dict"

record pack_source =
  sr_Kind :: source_kind
  sr_Name :: string

record loaded_pack =
  lp_Source :: pack_source
  lp_Pack :: pack
  lp_ContentSHA256 :: string

end
