(* ===== verification/PackValidation.thy ===== *)
theory PackValidation
  imports PackModel
begin

section \<open>Semantic validation of packs (internal/packs/validation.go)\<close>

text \<open>
  \<open>validateSemantics\<close> and every check it calls, in the order of the code: a check returns
  the first error it finds, with the code and the path the code reports (the message text
  is left out). Go's regular expressions for pack patterns and the semver library are
  parameters, gathered in a record; the two fixed expressions the program compiles itself
  (the stdin placeholder and the raw enum word) are matched by hand.
\<close>

datatype pack_error_code = ErrInvalidEncoding | ErrInputTooLarge | ErrYAML | ErrYAMLFeature
  | ErrDuplicateKey | ErrUnsupportedVersion | ErrSchema | ErrSemantic | ErrDuplicatePack
  | ErrUnsafeExecutable | ErrUnsupportedLocalEntry

record validation_error =
  ve_Code :: pack_error_code
  ve_Path :: string

abbreviation validationError :: "pack_error_code \<Rightarrow> string \<Rightarrow> validation_error option" where
  "validationError code path \<equiv> Some \<lparr>ve_Code = code, ve_Path = path\<rparr>"

record ext_lib =
  re_compiles :: "string \<Rightarrow> bool"
  re_matches :: "string \<Rightarrow> string \<Rightarrow> bool"
  constraint_valid :: "string \<Rightarrow> bool"
  version_valid :: "string \<Rightarrow> bool"
  constraint_check :: "string \<Rightarrow> string \<Rightarrow> bool"
  strict_version :: "string \<Rightarrow> string option"

definition maxInstallArtifactBytes :: int where
  "maxInstallArtifactBytes = 512 * 2 ^ 20"

definition maxStdinTemplateBytes :: nat where
  "maxStdinTemplateBytes = 8 * 2 ^ 10"

abbreviation NUL :: char where "NUL \<equiv> CHR 0x00"

subsection \<open>Inputs\<close>

definition bounds_crossed :: "int option \<Rightarrow> int option \<Rightarrow> bool" where
  "bounds_crossed lo hi = (case (lo, hi) of (Some l, Some h) \<Rightarrow> l > h | _ \<Rightarrow> False)"

definition validateInput :: "ext_lib \<Rightarrow> input \<Rightarrow> string \<Rightarrow> validation_error option" where
  "validateInput lib inp path =
     (let v = in_Validation inp in
      if bounds_crossed (iv_Min v) (iv_Max v) then validationError ErrSemantic (path @ ''.validation'')
      else if bounds_crossed (iv_MinLength v) (iv_MaxLength v)
      then validationError ErrSemantic (path @ ''.validation'')
      else if iv_Pattern v \<noteq> [] \<and> \<not> re_compiles lib (iv_Pattern v)
      then validationError ErrSemantic (path @ ''.validation.pattern'')
      else case in_Type inp of
        InputMultiselect \<Rightarrow> validationError ErrSemantic (path @ ''.type'')
      | InputEnum \<Rightarrow>
          if iv_Enum v = [] then validationError ErrSemantic (path @ ''.validation.enum'') else None
      | InputString \<Rightarrow>
          if iv_Enum v \<noteq> [] then validationError ErrSemantic (path @ ''.validation.enum'')
          else if iv_Min v \<noteq> None \<or> iv_Max v \<noteq> None
          then validationError ErrSemantic (path @ ''.validation'') else None
      | InputSecret \<Rightarrow>
          if \<not> in_Required inp \<or> iv_MaxLength v = None then validationError ErrSemantic path
          else if iv_Enum v \<noteq> [] \<or> iv_Min v \<noteq> None \<or> iv_Max v \<noteq> None
          then validationError ErrSemantic (path @ ''.validation'') else None
      | InputInteger \<Rightarrow>
          if iv_Enum v \<noteq> [] \<or> iv_MinLength v \<noteq> None \<or> iv_MaxLength v \<noteq> None \<or> iv_Pattern v \<noteq> []
          then validationError ErrSemantic (path @ ''.validation'') else None
      | InputBoolean \<Rightarrow>
          if iv_Min v \<noteq> None \<or> iv_Max v \<noteq> None \<or> iv_MinLength v \<noteq> None \<or> iv_MaxLength v \<noteq> None
             \<or> iv_Pattern v \<noteq> [] \<or> iv_Enum v \<noteq> [] \<or> iv_DisallowLeadingDash v
          then validationError ErrSemantic (path @ ''.validation'') else None
      | InputOther _ \<Rightarrow> validationError ErrSemantic (path @ ''.type''))"

subsection \<open>Arguments\<close>

definition starts_dash :: "string \<Rightarrow> bool" where
  "starts_dash s \<longleftrightarrow> has_prefix ''-'' s"

text \<open>
  A flag and a positional argument put the same five conditions on the input their value
  comes from; \<open>kind\<close> is the word in the error path.
\<close>

definition validateValueSource ::
    "string \<Rightarrow> input option \<Rightarrow> bool \<Rightarrow> string \<Rightarrow> validation_error option" where
  "validateValueSource kind src omit path =
     (case src of
        None \<Rightarrow> validationError ErrSemantic (path @ kind @ ''.valueFrom'')
      | Some inp \<Rightarrow>
          if in_Type inp = InputBoolean \<or> in_Type inp = InputMultiselect \<or> in_Type inp = InputSecret
          then validationError ErrSemantic (path @ kind @ ''.valueFrom'')
          else if \<not> in_Required inp \<and> \<not> omit
          then validationError ErrSemantic (path @ kind @ ''.omitWhenEmpty'')
          else if (in_Type inp = InputString \<or> in_Type inp = InputEnum)
               \<and> \<not> iv_DisallowLeadingDash (in_Validation inp)
          then validationError ErrSemantic (path @ kind @ ''.valueFrom'')
          else if in_Type inp = InputEnum \<and> (\<exists>v \<in> set (iv_Enum (in_Validation inp)). starts_dash v)
          then validationError ErrSemantic (path @ kind @ ''.valueFrom'')
          else None)"

definition validateMapArgument ::
    "map_argument \<Rightarrow> input option \<Rightarrow> string \<Rightarrow> validation_error option" where
  "validateMapArgument m src path =
     (case src of
        None \<Rightarrow> validationError ErrSemantic (path @ ''.map.valueFrom'')
      | Some inp \<Rightarrow>
          if in_Type inp \<noteq> InputEnum then validationError ErrSemantic (path @ ''.map.valueFrom'')
          else if \<not> in_Required inp then validationError ErrSemantic (path @ ''.map.valueFrom'')
          else if length (mp_Values m) \<noteq> length (remdups (iv_Enum (in_Validation inp)))
          then validationError ErrSemantic (path @ ''.map.values'')
          else first_err (\<lambda>(key, literal).
                 if key \<notin> set (iv_Enum (in_Validation inp))
                 then validationError ErrSemantic (path @ ''.map.values'')
                 else if literal = [] \<or> NUL \<in> set literal
                 then validationError ErrSemantic (path @ ''.map.values'')
                 else None) (mp_Values m))"

definition validateArgument ::
    "argument \<Rightarrow> input dict \<Rightarrow> string \<Rightarrow> validation_error option" where
  "validateArgument arg inputs path =
     (if ar_Literal arg \<noteq> [] then
        (if NUL \<in> set (ar_Literal arg) then validationError ErrSemantic (path @ ''.literal'') else None)
      else case ar_Flag arg of
        Some f \<Rightarrow> validateValueSource ''.flag'' (get inputs (fl_ValueFrom f)) (fl_OmitWhenEmpty f) path
      | None \<Rightarrow>
      (case ar_Positional arg of
        Some p \<Rightarrow> validateValueSource ''.positional'' (get inputs (po_ValueFrom p)) (po_OmitWhenEmpty p) path
      | None \<Rightarrow>
      (case ar_Switch arg of
        Some s \<Rightarrow>
          (case get inputs (sw_EnabledFrom s) of
             None \<Rightarrow> validationError ErrSemantic (path @ ''.switch.enabledFrom'')
           | Some inp \<Rightarrow> if in_Type inp \<noteq> InputBoolean
                         then validationError ErrSemantic (path @ ''.switch.enabledFrom'') else None)
      | None \<Rightarrow>
      (case ar_Map arg of
        Some m \<Rightarrow> validateMapArgument m (get inputs (mp_ValueFrom m)) path
      | None \<Rightarrow> validationError ErrSemantic path))))"

subsection \<open>Impact\<close>

definition display_text_ok :: "string \<Rightarrow> bool" where
  "display_text_ok s \<longleftrightarrow> trim_space s = s \<and> s \<noteq> [] \<and> (\<forall>r \<in> set (runes s). 0x1F < r \<and> r \<noteq> 0x7F)"

definition validateImpact :: "impact \<Rightarrow> input dict \<Rightarrow> string \<Rightarrow> validation_error option" where
  "validateImpact im inputs path =
     (case get inputs (im_TargetInput im) of
        None \<Rightarrow> validationError ErrSemantic (path @ ''.targetInput'')
      | Some inp \<Rightarrow>
          if \<not> in_Required inp then validationError ErrSemantic (path @ ''.targetInput'')
          else if in_Type inp \<noteq> InputString \<and> in_Type inp \<noteq> InputEnum \<and> in_Type inp \<noteq> InputInteger
          then validationError ErrSemantic (path @ ''.targetInput'')
          else if im_Scope im \<noteq> ImpactScopeSingle \<and> im_Scope im \<noteq> ImpactScopeMultiple
          then validationError ErrSemantic (path @ ''.scope'')
          else if \<not> display_text_ok (im_TargetLabel im)
          then validationError ErrSemantic (path @ ''.targetLabel'')
          else if \<not> display_text_ok (im_Effect im)
          then validationError ErrSemantic (path @ ''.effect'')
          else None)"

subsection \<open>Standard input\<close>

text \<open>
  The expression \<open>StdinPlaceholder\<close>: two opening braces, a lower-case letter or digit, any
  letters, digits and dashes, two closing braces. A template is read as the sequence of
  its leftmost non-overlapping placeholders and the single characters between them.
\<close>

datatype segment = Plain char | Hole string

definition is_lower_alnum :: "char \<Rightarrow> bool" where
  "is_lower_alnum c \<longleftrightarrow> (97 \<le> byte c \<and> byte c \<le> 122) \<or> is_digit c"

definition placeholder_char :: "char \<Rightarrow> bool" where
  "placeholder_char c \<longleftrightarrow> is_lower_alnum c \<or> c = CHR ''-''"

definition placeholder_at :: "string \<Rightarrow> (string \<times> string) option" where
  "placeholder_at s =
     (if has_prefix ''{{'' s then
        (let name = takeWhile placeholder_char (drop 2 s); rest = dropWhile placeholder_char (drop 2 s)
         in if name \<noteq> [] \<and> is_lower_alnum (hd name) \<and> has_prefix ''}}'' rest
            then Some (name, drop 2 rest) else None)
      else None)"

lemma placeholder_at_shorter: "placeholder_at s = Some (n, r) \<Longrightarrow> length r < length s"
  using length_dropWhile_le [of placeholder_char "drop 2 s"]
  by (cases s) (auto simp: placeholder_at_def Let_def split: if_splits)

function template_segments :: "string \<Rightarrow> segment list" where
  "template_segments [] = []"
| "template_segments (c # cs) =
     (case placeholder_at (c # cs) of
        Some (n, rest) \<Rightarrow> Hole n # template_segments rest
      | None \<Rightarrow> Plain c # template_segments cs)"
  by pat_completeness auto
termination
  by (relation "measure length") (auto dest: placeholder_at_shorter)

fun plain_text :: "segment list \<Rightarrow> string" where
  "plain_text [] = []"
| "plain_text (Plain c # ss) = c # plain_text ss"
| "plain_text (Hole n # ss) = plain_text ss"

fun holes :: "segment list \<Rightarrow> string list" where
  "holes [] = []"
| "holes (Plain c # ss) = holes ss"
| "holes (Hole n # ss) = n # holes ss"

definition rawStdinEnumValue :: "string \<Rightarrow> bool" where
  "rawStdinEnumValue v \<longleftrightarrow> v \<noteq> [] \<and> list_all (\<lambda>c. is_lower_alnum c \<or> (65 \<le> byte c \<and> byte c \<le> 90)
     \<or> c = CHR ''_'' \<or> c = CHR '','' \<or> c = CHR '' '') v"

definition validateHole :: "input dict \<Rightarrow> string \<Rightarrow> string \<Rightarrow> validation_error option" where
  "validateHole inputs path n =
     (case get inputs n of
        None \<Rightarrow> validationError ErrSemantic (path @ ''.yamlTemplate'')
      | Some inp \<Rightarrow>
          if \<not> in_Required inp then validationError ErrSemantic (path @ ''.yamlTemplate'')
          else if in_Type inp = InputString \<or> in_Type inp = InputInteger then None
          else if in_Type inp = InputEnum then
            (if list_all rawStdinEnumValue (iv_Enum (in_Validation inp)) then None
             else validationError ErrSemantic (path @ ''.yamlTemplate''))
          else validationError ErrSemantic (path @ ''.yamlTemplate''))"

definition is_mutation :: "risk \<Rightarrow> bool" where
  "is_mutation r \<longleftrightarrow> r = RiskChange \<or> r = RiskDestructive"

definition secret_inputs :: "command \<Rightarrow> input list" where
  "secret_inputs cmd = filter (\<lambda>i. in_Type i = InputSecret) (cm_Inputs cmd)"

definition validateStdin :: "command \<Rightarrow> input dict \<Rightarrow> string \<Rightarrow> validation_error option" where
  "validateStdin cmd inputs path0 =
     (let secrets = length (secret_inputs cmd); path = path0 @ ''.stdin'' in
      case cm_Stdin cmd of
        None \<Rightarrow> if secrets \<noteq> 0 then validationError ErrSemantic path else None
      | Some sin \<Rightarrow>
          if \<not> is_mutation (cm_Risk cmd) then validationError ErrSemantic path
          else if si_Input sin \<noteq> [] \<and> si_YAMLTemplate sin = [] then
            (case get inputs (si_Input sin) of
               None \<Rightarrow> validationError ErrSemantic (path @ ''.input'')
             | Some inp \<Rightarrow> if in_Type inp \<noteq> InputSecret \<or> secrets \<noteq> 1
                           then validationError ErrSemantic (path @ ''.input'') else None)
          else if si_YAMLTemplate sin \<noteq> [] \<and> si_Input sin = [] then
            (if secrets \<noteq> 0 then validationError ErrSemantic (path @ ''.yamlTemplate'')
             else let template = si_YAMLTemplate sin; segs = template_segments template in
             if maxStdinTemplateBytes < length template \<or> NUL \<in> set template
             then validationError ErrSemantic (path @ ''.yamlTemplate'')
             else if contains_sub ''{{'' (plain_text segs) \<or> contains_sub ''}}'' (plain_text segs)
             then validationError ErrSemantic (path @ ''.yamlTemplate'')
             else first_err (validateHole inputs path) (holes segs))
          else validationError ErrSemantic path)"

subsection \<open>Session checks\<close>

definition validateSessionCheck ::
    "pack \<Rightarrow> string \<Rightarrow> session_check \<Rightarrow> validation_error option" where
  "validateSessionCheck pk toolID check =
     (let path = ''runtime.tools.'' @ toolID @ ''.sessionCheck'' in
      case get (pk_Commands pk) (sc_CommandID check) of
        None \<Rightarrow> validationError ErrSemantic (path @ ''.commandId'')
      | Some cmd \<Rightarrow>
          if cm_Tool cmd \<noteq> toolID then validationError ErrSemantic (path @ ''.commandId'')
          else if cm_Risk cmd \<noteq> RiskRead then validationError ErrSemantic (path @ ''.commandId'')
          else if cm_Inputs cmd \<noteq> [] then validationError ErrSemantic (path @ ''.commandId'')
          else if se_ContainsSecrets (ou_Sensitivity (cm_Output cmd))
          then validationError ErrSemantic (path @ ''.commandId'')
          else if \<not> rq_RequiresAuth (cm_Requirements cmd)
               \<or> rq_AuthMode (cm_Requirements cmd) \<noteq> AuthModeVendorSession
          then validationError ErrSemantic (path @ ''.commandId'')
          else let marker = sc_UnauthenticatedStderrContains check in
          if marker \<noteq> [] \<and> \<not> display_text_ok marker
          then validationError ErrSemantic (path @ ''.unauthenticatedStderrContains'')
          else None)"

subsection \<open>Portable installs\<close>

definition validInstallDigest :: "string \<Rightarrow> bool" where
  "validInstallDigest v \<longleftrightarrow> length v = 64 \<and> list_all (\<lambda>c. is_digit c
     \<or> (97 \<le> byte c \<and> byte c \<le> 102) \<or> (65 \<le> byte c \<and> byte c \<le> 70)) v"

text \<open>\<open>net.ParseIP\<close> on a host without a colon: dotted decimal, no leading zero, at most 255.\<close>

definition ipv4_field :: "string \<Rightarrow> bool" where
  "ipv4_field p \<longleftrightarrow> p \<noteq> [] \<and> length p \<le> 3 \<and> list_all is_digit p
     \<and> (hd p = CHR ''0'' \<longrightarrow> length p = 1) \<and> foldl (\<lambda>a c. a * 10 + (byte c - 48)) 0 p \<le> 255"

definition parses_as_ipv4 :: "string \<Rightarrow> bool" where
  "parses_as_ipv4 h \<longleftrightarrow> length (split_at (CHR ''.'') h) = 4 \<and> list_all ipv4_field (split_at (CHR ''.'') h)"

definition host_label_ok :: "string \<Rightarrow> bool" where
  "host_label_ok l \<longleftrightarrow> l \<noteq> [] \<and> length l \<le> 63 \<and> hd l \<noteq> CHR ''-'' \<and> last l \<noteq> CHR ''-''
     \<and> list_all (\<lambda>c. is_lower_alnum c \<or> c = CHR ''-'') l"

definition validInstallHost :: "string \<Rightarrow> bool" where
  "validInstallHost host0 =
     (let host = to_lower (trim_suffix ''.'' host0) in
      if host = [] \<or> host = ''localhost'' \<or> has_suffix ''.local'' host \<or> parses_as_ipv4 host then False
      else if (\<exists>c \<in> set host. c = CHR ''/'' \<or> c = CHR 0x5C \<or> c = CHR '':'' \<or> c = CHR ''@'') then False
      else let labels = split_at (CHR ''.'') host
           in 2 \<le> length labels \<and> list_all host_label_ok labels)"

text \<open>
  \<open>filepath.Base\<close> and \<open>filepath.Ext\<close> on a name, and the two functions of package path the
  archive check uses: \<open>Base\<close> and \<open>Clean\<close>, the latter on slash-separated components.
\<close>

definition slash :: char where "slash = CHR ''/''"

definition path_base :: "string \<Rightarrow> string" where
  "path_base p =
     (if p = [] then ''.''
      else let q = rev (dropWhile (\<lambda>c. c = slash) (rev p))
           in if q = [] then [slash] else rev (takeWhile (\<lambda>c. c \<noteq> slash) (rev q)))"

definition path_ext :: "string \<Rightarrow> string" where
  "path_ext name =
     (let tail = rev (takeWhile (\<lambda>c. c \<noteq> CHR ''.'' \<and> c \<noteq> slash) (rev name));
          before = dropWhile (\<lambda>c. c \<noteq> CHR ''.'' \<and> c \<noteq> slash) (rev name)
      in case before of c # _ \<Rightarrow> if c = CHR ''.'' then CHR ''.'' # tail else [] | [] \<Rightarrow> [])"

definition clean_step :: "bool \<Rightarrow> string list \<Rightarrow> string \<Rightarrow> string list" where
  "clean_step rooted out part =
     (if part = [] \<or> part = ''.'' then out
      else if part = ''..'' then
        (case out of
           [] \<Rightarrow> if rooted then [] else [part]
         | upper # rest \<Rightarrow> if upper = ''..'' then part # out else rest)
      else part # out)"

fun join_slash :: "string list \<Rightarrow> string" where
  "join_slash [] = []"
| "join_slash [p] = p"
| "join_slash (p # q # ps) = p @ slash # join_slash (q # ps)"

definition path_clean :: "string \<Rightarrow> string" where
  "path_clean p =
     (if p = [] then ''.''
      else let rooted = (hd p = slash);
               body = join_slash (rev (foldl (clean_step rooted) [] (split_at slash p)))
           in if rooted then slash # body else if body = [] then ''.'' else body)"

definition validArchiveExecutablePath :: "string \<Rightarrow> bool" where
  "validArchiveExecutablePath v =
     (if v = [] \<or> CHR 0x5C \<in> set v \<or> has_prefix ''/'' v then False
      else let cleaned = path_clean v
           in cleaned = v \<and> cleaned \<noteq> ''.'' \<and> cleaned \<noteq> ''..'' \<and> \<not> has_prefix ''../'' cleaned)"

definition has_path_separator :: "string \<Rightarrow> bool" where
  "has_path_separator s \<longleftrightarrow> slash \<in> set s \<or> CHR 0x5C \<in> set s"

definition matchesInstallExecutable :: "string \<Rightarrow> string list \<Rightarrow> string \<Rightarrow> bool" where
  "matchesInstallExecutable actual declared platform =
     (if path_base actual \<noteq> actual \<or> has_path_separator actual then False
      else \<exists>name \<in> set declared. equal_fold actual name
        \<or> (platform = ''windows'' \<and> path_ext name = [] \<and> equal_fold actual (name @ ''.exe'')))"

text \<open>
  The guard on an artifact's URL. \<open>url.Parse\<close> is followed exactly as far as the guard can
  tell its outcomes apart: the fragment is cut at the first hash sign and must be empty, the
  rest may hold no control byte, the scheme must be https, the authority may hold neither
  credentials nor a port (an empty port after a colon is no port), and the path's percent
  escapes must be well formed. Every other authority, an IPv6 literal included, leaves
  characters that \<open>validInstallHost\<close> refuses.
\<close>

definition scheme_char :: "char \<Rightarrow> bool" where
  "scheme_char c \<longleftrightarrow> is_lower_alnum c \<or> (65 \<le> byte c \<and> byte c \<le> 90)
     \<or> c = CHR ''+'' \<or> c = CHR ''-'' \<or> c = CHR ''.''"

definition is_hex :: "char \<Rightarrow> bool" where
  "is_hex c \<longleftrightarrow> is_digit c \<or> (97 \<le> byte c \<and> byte c \<le> 102) \<or> (65 \<le> byte c \<and> byte c \<le> 70)"

fun percent_ok :: "string \<Rightarrow> bool" where
  "percent_ok [] = True"
| "percent_ok (c # cs) =
     (if c = CHR ''%'' then (case cs of a # b # rest \<Rightarrow> is_hex a \<and> is_hex b \<and> percent_ok rest | _ \<Rightarrow> False)
      else percent_ok cs)"

definition https_source_ok :: "string \<Rightarrow> bool" where
  "https_source_ok u =
     (let main = takeWhile (\<lambda>c. c \<noteq> CHR 0x23) u; frag = drop (length main + 1) u;
          scheme = takeWhile scheme_char main; rest0 = drop (length scheme) main;
          rest = takeWhile (\<lambda>c. c \<noteq> CHR ''?'') (drop 1 rest0);
          authority = takeWhile (\<lambda>c. c \<noteq> slash) (drop 2 rest);
          path = drop (2 + length authority) rest
      in frag = [] \<and> list_all (\<lambda>c. 0x20 \<le> byte c \<and> byte c \<noteq> 0x7F) main
         \<and> to_lower scheme = ''https'' \<and> has_prefix '':'' rest0 \<and> has_prefix ''//'' rest
         \<and> validInstallHost (trim_suffix '':'' authority) \<and> percent_ok path)"

fun validateRedirectHosts :: "string list \<Rightarrow> nat \<Rightarrow> string list \<Rightarrow> string \<Rightarrow> validation_error option" where
  "validateRedirectHosts seen i [] path = None"
| "validateRedirectHosts seen i (host # hosts) path =
     (let hostPath = path @ ''.redirectHosts['' @ show_nat i @ '']'' in
      if host \<noteq> to_lower host \<or> \<not> validInstallHost host then validationError ErrSemantic hostPath
      else if to_lower host \<in> set seen then validationError ErrSemantic hostPath
      else validateRedirectHosts (to_lower host # seen) (Suc i) hosts path)"

definition validateArtifact ::
    "pack \<Rightarrow> tool \<Rightarrow> string \<Rightarrow> string \<Rightarrow> install_artifact \<Rightarrow> validation_error option" where
  "validateArtifact pk tool path platformArch a =
     (let artifactPath = path @ ''.artifacts.'' @ platformArch;
          parts = split_at (CHR ''-'') platformArch; platform = hd parts in
      if length parts \<noteq> 2 then validationError ErrSemantic artifactPath
      else if platform \<notin> set (rt_Platforms (pk_Runtime pk)) then validationError ErrSemantic artifactPath
      else if ia_SizeBytes a \<le> 0 \<or> maxInstallArtifactBytes < ia_SizeBytes a
      then validationError ErrSemantic (artifactPath @ ''.sizeBytes'')
      else if \<not> validInstallDigest (ia_SHA256 a) then validationError ErrSemantic (artifactPath @ ''.sha256'')
      else if \<not> https_source_ok (ia_URL a) then validationError ErrSemantic (artifactPath @ ''.url'')
      else if \<not> matchesInstallExecutable (ia_ExecutableName a) (tl_ExecutableNames tool) platform
      then validationError ErrSemantic (artifactPath @ ''.executableName'')
      else orElse (validateRedirectHosts [] 0 (ia_RedirectHosts a) artifactPath)
       (case ia_Format a of
          InstallFormatExecutable \<Rightarrow>
            if ia_ArchivePath a \<noteq> [] \<or> ia_ExecutableSHA256 a \<noteq> [] \<or> ia_ExecutableSizeBytes a \<noteq> 0
            then validationError ErrSemantic artifactPath else None
        | InstallFormatZIP \<Rightarrow>
            if \<not> validArchiveExecutablePath (ia_ArchivePath a)
            then validationError ErrSemantic (artifactPath @ ''.archivePath'')
            else if path_base (ia_ArchivePath a) \<noteq> ia_ExecutableName a
            then validationError ErrSemantic (artifactPath @ ''.archivePath'')
            else if \<not> validInstallDigest (ia_ExecutableSHA256 a)
            then validationError ErrSemantic (artifactPath @ ''.executableSha256'')
            else if ia_ExecutableSizeBytes a \<le> 0 \<or> maxInstallArtifactBytes < ia_ExecutableSizeBytes a
            then validationError ErrSemantic (artifactPath @ ''.executableSizeBytes'')
            else None
        | InstallFormatOther _ \<Rightarrow> validationError ErrSemantic (artifactPath @ ''.format'')))"

definition validateToolInstall ::
    "ext_lib \<Rightarrow> pack \<Rightarrow> string \<Rightarrow> tool \<Rightarrow> validation_error option" where
  "validateToolInstall lib pk toolID tool =
     (case tl_Install tool of
        None \<Rightarrow> None
      | Some ins \<Rightarrow>
          let path = ''runtime.tools.'' @ toolID @ ''.install'' in
          if tl_VersionProbe tool = None then validationError ErrSemantic path
          else if tl_VersionConstraint tool \<noteq> [] \<and> \<not> constraint_valid lib (tl_VersionConstraint tool)
          then validationError ErrSemantic (''runtime.tools.'' @ toolID @ ''.versionConstraint'')
          else if tl_VersionConstraint tool \<noteq> []
               \<and> (\<not> version_valid lib (ti_Version ins)
                  \<or> \<not> constraint_check lib (tl_VersionConstraint tool) (ti_Version ins))
          then validationError ErrSemantic (path @ ''.version'')
          else first_err (\<lambda>k. case get (ti_Artifacts ins) k of
                 None \<Rightarrow> None | Some a \<Rightarrow> validateArtifact pk tool path k a)
               (sorted_keys (ti_Artifacts ins)))"

subsection \<open>Executables\<close>

definition isForbiddenExecutable :: "string \<Rightarrow> bool" where
  "isForbiddenExecutable name =
     (let lower = to_lower name in
      if path_ext lower \<in> set [''.bat'', ''.cmd'', ''.ps1'', ''.psm1'', ''.vbs'', ''.vbe'', ''.js'', ''.jse'',
           ''.wsf'', ''.wsh'', ''.hta''] then True
      else trim_suffix ''.exe'' lower \<in> set [''cmd'', ''powershell'', ''pwsh'', ''sh'', ''bash'', ''zsh'', ''fish'',
           ''wscript'', ''cscript'', ''python'', ''python3'', ''node'', ''ruby'', ''perl'', ''mshta'',
           ''rundll32'', ''regsvr32'', ''wsl''])"

definition validateToolEntry ::
    "ext_lib \<Rightarrow> pack \<Rightarrow> string \<Rightarrow> tool \<Rightarrow> validation_error option" where
  "validateToolEntry lib pk toolID tool =
     orElse (first_err_from 0 (\<lambda>i e.
         if isForbiddenExecutable e \<or> path_base e \<noteq> e \<or> has_path_separator e
         then validationError ErrUnsafeExecutable
           (''runtime.tools.'' @ toolID @ ''.executableNames['' @ show_nat i @ '']'')
         else None) (tl_ExecutableNames tool))
       (validateToolInstall lib pk toolID tool)"

subsection \<open>Commands and the whole pack\<close>

fun validateInputs :: "ext_lib \<Rightarrow> string \<Rightarrow> nat \<Rightarrow> string list \<Rightarrow> input list \<Rightarrow> validation_error option" where
  "validateInputs lib path i seen [] = None"
| "validateInputs lib path i seen (inp # inps) =
     (let inputPath = path @ ''.inputs['' @ show_nat i @ '']'' in
      if in_ID inp \<in> set seen then validationError ErrSemantic (inputPath @ ''.id'')
      else orElse (validateInput lib inp inputPath)
             (validateInputs lib path (Suc i) (in_ID inp # seen) inps))"

definition declared_inputs :: "command \<Rightarrow> input dict" where
  "declared_inputs cmd = rev (map (\<lambda>i. (in_ID i, i)) (cm_Inputs cmd))"

fun validateFields :: "string \<Rightarrow> nat \<Rightarrow> string list \<Rightarrow> structured_field list \<Rightarrow> validation_error option" where
  "validateFields path i seen [] = None"
| "validateFields path i seen (f # fs) =
     (let fieldPath = path @ ''.output.structured.fields['' @ show_nat i @ '']'' in
      if sf_Key f \<in> set seen then validationError ErrSemantic (fieldPath @ ''.key'')
      else if sf_Sensitive f then validationError ErrSemantic (fieldPath @ ''.sensitive'')
      else validateFields path (Suc i) (sf_Key f # seen) fs)"

definition validateOutput :: "output_spec \<Rightarrow> string \<Rightarrow> validation_error option" where
  "validateOutput out path =
     (let s = ou_Sensitivity out in
      if se_ContainsSecrets s \<and> se_PersistRawOutput s
      then validationError ErrSemantic (path @ ''.output.sensitivity.persistRawOutput'')
      else if se_ContainsSecrets s \<and> se_RevealByDefault s
      then validationError ErrSemantic (path @ ''.output.sensitivity.revealByDefault'')
      else if se_ContainsSecrets s \<and> ou_Structured out \<noteq> None
      then validationError ErrSemantic (path @ ''.output.structured'')
      else case ou_Structured out of
        None \<Rightarrow> None
      | Some st \<Rightarrow>
          if ou_Mode out \<noteq> OutputJSON then validationError ErrSemantic (path @ ''.output.structured'')
          else if ou_Renderer out \<noteq> [] \<and> ou_Renderer out \<noteq> ''cards''
          then validationError ErrSemantic (path @ ''.output.renderer'')
          else validateFields path 0 [] (so_Fields st))"

definition validateRiskImpact :: "command \<Rightarrow> input dict \<Rightarrow> string \<Rightarrow> validation_error option" where
  "validateRiskImpact cmd inputs path =
     (case cm_Risk cmd of
        RiskOther _ \<Rightarrow> None
      | r \<Rightarrow>
          if is_mutation r then
            (case cm_Impact cmd of
               None \<Rightarrow> validationError ErrSemantic (path @ ''.impact'')
             | Some im \<Rightarrow> validateImpact im inputs (path @ ''.impact''))
          else if cm_Impact cmd \<noteq> None then validationError ErrSemantic (path @ ''.impact'')
          else None)"

definition validateCommand ::
    "ext_lib \<Rightarrow> pack \<Rightarrow> string \<Rightarrow> command \<Rightarrow> validation_error option" where
  "validateCommand lib pk commandID cmd =
     (let path = ''commands.'' @ commandID; inputs = declared_inputs cmd in
      if get (rt_Tools (pk_Runtime pk)) (cm_Tool cmd) = None
      then validationError ErrSemantic (path @ ''.tool'')
      else orElse (validateInputs lib path 0 [] (cm_Inputs cmd))
          (orElse (validateRiskImpact cmd inputs path)
          (orElse (first_err_from 0 (\<lambda>i arg. validateArgument arg inputs (path @ ''.argv['' @ show_nat i @ '']''))
                    (cm_Argv cmd))
          (orElse (validateStdin cmd inputs path)
                  (validateOutput (cm_Output cmd) path)))))"

definition each_sorted :: "(string \<Rightarrow> 'v \<Rightarrow> validation_error option) \<Rightarrow> 'v dict \<Rightarrow> validation_error option" where
  "each_sorted f d = first_err (\<lambda>k. case get d k of None \<Rightarrow> None | Some v \<Rightarrow> f k v) (sorted_keys d)"

definition validateSemantics :: "ext_lib \<Rightarrow> pack \<Rightarrow> validation_error option" where
  "validateSemantics lib pk =
     orElse (each_sorted (validateToolEntry lib pk) (rt_Tools (pk_Runtime pk)))
    (orElse (each_sorted (validateCommand lib pk) (pk_Commands pk))
            (each_sorted (\<lambda>toolID tool. case tl_SessionCheck tool of
                 None \<Rightarrow> None | Some check \<Rightarrow> validateSessionCheck pk toolID check)
               (rt_Tools (pk_Runtime pk))))"

lemma each_sorted_None:
  "each_sorted f d = None \<Longrightarrow> get d k = Some v \<Longrightarrow> f k v = None"
  by (frule get_in_keys) (auto simp: each_sorted_def first_err_None split: option.splits)

end
