(* ===== verification/ValidPack.thy ===== *)
theory ValidPack
  imports PackValidation
begin

section \<open>What a validated pack guarantees\<close>

text \<open>
  The consequences of \<open>validateSemantics\<close> the planner and the installer rely on: the shape of
  a command's declared inputs, where an argument's value may come from, where a secret may
  go, which names an executable may have, and that an archive path stays in the archive.
\<close>

subsection \<open>Inputs\<close>

lemma validateInputs_None:
  "validateInputs lib path i seen inps = None \<Longrightarrow>
     distinct (map in_ID inps) \<and> set (map in_ID inps) \<inter> set seen = {}
     \<and> (\<forall>inp \<in> set inps. \<exists>p. validateInput lib inp p = None)"
proof (induction lib path i seen inps rule: validateInputs.induct)
  case (1 lib path i seen)
  then show ?case by simp
next
  case (2 lib path i seen inp inps)
  then show ?case by (auto simp: Let_def split: if_splits)
qed

lemma get_declared_inputs:
  assumes "distinct (map in_ID (cm_Inputs cmd))"
  shows "get (declared_inputs cmd) k = Some inp \<longleftrightarrow> inp \<in> set (cm_Inputs cmd) \<and> in_ID inp = k"
proof -
  have "distinct (map fst (declared_inputs cmd))"
    using assms by (simp add: declared_inputs_def comp_def rev_map[symmetric])
  then show ?thesis
    by (auto simp: map_of_eq_Some_iff) (auto simp: declared_inputs_def)
qed

subsection \<open>A validated command\<close>

definition valid_command :: "ext_lib \<Rightarrow> pack \<Rightarrow> string \<Rightarrow> command \<Rightarrow> bool" where
  "valid_command lib pk cid cmd \<longleftrightarrow> validateCommand lib pk cid cmd = None"

lemma valid_command_if_pack:
  assumes "validateSemantics lib pk = None" and "get (pk_Commands pk) cid = Some cmd"
  shows "valid_command lib pk cid cmd"
  using assms each_sorted_None [of "validateCommand lib pk" "pk_Commands pk" cid cmd]
  by (simp add: validateSemantics_def valid_command_def)

lemma valid_command_inputs:
  assumes "valid_command lib pk cid cmd"
  shows "distinct (map in_ID (cm_Inputs cmd))"
    and "inp \<in> set (cm_Inputs cmd) \<Longrightarrow> \<exists>p. validateInput lib inp p = None"
  using assms validateInputs_None
  by (fastforce simp: valid_command_def validateCommand_def Let_def split: if_splits)+

lemma valid_command_parts:
  assumes "valid_command lib pk cid cmd"
  shows "arg \<in> set (cm_Argv cmd) \<Longrightarrow> \<exists>p. validateArgument arg (declared_inputs cmd) p = None"
    and "validateStdin cmd (declared_inputs cmd) (''commands.'' @ cid) = None"
    and "validateRiskImpact cmd (declared_inputs cmd) (''commands.'' @ cid) = None"
    and "validateOutput (cm_Output cmd) (''commands.'' @ cid) = None"
proof -
  have parts: "first_err_from 0 (\<lambda>i arg. validateArgument arg (declared_inputs cmd)
        (''commands.'' @ cid @ ''.argv['' @ show_nat i @ '']'')) (cm_Argv cmd) = None
      \<and> validateStdin cmd (declared_inputs cmd) (''commands.'' @ cid) = None
      \<and> validateRiskImpact cmd (declared_inputs cmd) (''commands.'' @ cid) = None
      \<and> validateOutput (cm_Output cmd) (''commands.'' @ cid) = None"
    using assms by (simp add: valid_command_def validateCommand_def Let_def split: if_splits)
  then show "validateStdin cmd (declared_inputs cmd) (''commands.'' @ cid) = None"
    and "validateRiskImpact cmd (declared_inputs cmd) (''commands.'' @ cid) = None"
    and "validateOutput (cm_Output cmd) (''commands.'' @ cid) = None"
    by simp_all
  from parts show "arg \<in> set (cm_Argv cmd) \<Longrightarrow> \<exists>p. validateArgument arg (declared_inputs cmd) p = None"
    using first_err_from_set by fastforce
qed

subsection \<open>Where values come from\<close>

definition argument_source :: "argument \<Rightarrow> string option" where
  "argument_source arg =
     (if ar_Literal arg \<noteq> [] then None
      else case ar_Flag arg of Some f \<Rightarrow> Some (fl_ValueFrom f)
      | None \<Rightarrow> (case ar_Positional arg of Some p \<Rightarrow> Some (po_ValueFrom p)
      | None \<Rightarrow> (case ar_Switch arg of Some s \<Rightarrow> Some (sw_EnabledFrom s)
      | None \<Rightarrow> (case ar_Map arg of Some m \<Rightarrow> Some (mp_ValueFrom m) | None \<Rightarrow> None))))"

text \<open>What a flag or positional argument may take its value from.\<close>

lemma validateValueSource_None:
  assumes "validateValueSource kind src omit path = None"
  obtains inp where "src = Some inp"
    and "in_Type inp \<noteq> InputSecret" "in_Type inp \<noteq> InputBoolean" "in_Type inp \<noteq> InputMultiselect"
    and "in_Type inp = InputString \<or> in_Type inp = InputEnum \<Longrightarrow> iv_DisallowLeadingDash (in_Validation inp)"
    and "in_Required inp \<or> omit"
  using assms by (auto simp: validateValueSource_def split: option.splits if_splits)

lemma validateMapArgument_None:
  assumes "validateMapArgument m src path = None"
  obtains inp where "src = Some inp" "in_Type inp = InputEnum" "in_Required inp"
    and "\<And>k v. (k, v) \<in> set (mp_Values m) \<Longrightarrow> v \<noteq> [] \<and> NUL \<notin> set v"
  using assms by (fastforce simp: validateMapArgument_def first_err_None split: option.splits if_splits)

lemma no_argument_reads_a_secret:
  assumes "validateArgument arg inputs path = None" and "argument_source arg = Some k"
    and "get inputs k = Some inp"
  shows "in_Type inp \<noteq> InputSecret"
  using assms
  by (auto simp: validateArgument_def argument_source_def split: option.splits if_splits
      elim!: validateValueSource_None validateMapArgument_None)

lemma impact_target_not_secret:
  assumes "validateImpact im inputs path = None" and "get inputs (im_TargetInput im) = Some inp"
  shows "in_Type inp \<noteq> InputSecret"
  using assms by (auto simp: validateImpact_def split: if_splits)

lemma validateRiskImpact_None:
  assumes "validateRiskImpact cmd inputs path = None"
    and "is_mutation (cm_Risk cmd)" and "cm_Impact cmd = Some im"
  shows "validateImpact im inputs (path @ ''.impact'') = None"
  using assms by (auto simp: validateRiskImpact_def is_mutation_def)

lemma hole_not_secret:
  assumes "validateHole inputs path n = None" and "get inputs n = Some inp"
  shows "in_Type inp \<noteq> InputSecret \<and> in_Required inp"
  using assms by (auto simp: validateHole_def split: if_splits)

subsection \<open>Archive paths\<close>

text \<open>
  \<open>path.Clean\<close> on a relative path leaves the parent steps it could not resolve at the front
  (at the end of the reversed component stack) and nothing else that is not a plain name.
\<close>

definition normal_name :: "string \<Rightarrow> bool" where
  "normal_name c \<longleftrightarrow> c \<noteq> [] \<and> c \<noteq> ''.'' \<and> c \<noteq> ''..''"

definition clean_stack :: "string list \<Rightarrow> bool" where
  "clean_stack out \<longleftrightarrow> (\<exists>ns k. out = ns @ replicate k ''..'' \<and> list_all normal_name ns)"

lemma clean_stack_step: "clean_stack out \<Longrightarrow> clean_stack (clean_step False out part)"
proof -
  assume "clean_stack out"
  then obtain ns k where out: "out = ns @ replicate k ''..''" and ns: "list_all normal_name ns"
    by (auto simp: clean_stack_def)
  consider "part = [] \<or> part = ''.''" | "part = ''..''" | "normal_name part"
    by (auto simp: normal_name_def)
  then show ?thesis
  proof cases
    case 1
    then show ?thesis using \<open>clean_stack out\<close> by (simp add: clean_step_def)
  next
    case 2
    show ?thesis
    proof (cases ns)
      case Nil
      have "clean_step False out part = replicate (Suc k) ''..''"
        using 2 out Nil by (cases k) (simp_all add: clean_step_def)
      then show ?thesis by (metis append_Nil clean_stack_def list.pred_inject(1))
    next
      case (Cons n ns')
      then show ?thesis
        using 2 out ns by (auto simp: clean_step_def clean_stack_def normal_name_def)
    qed
  next
    case 3
    then have "clean_step False out part = (part # ns) @ replicate k ''..''"
      using out by (simp add: clean_step_def normal_name_def)
    then show ?thesis using 3 ns clean_stack_def by (metis list.pred_inject(2))
  qed
qed

lemma clean_stack_fold: "clean_stack out \<Longrightarrow> clean_stack (foldl (clean_step False) out parts)"
  by (induction parts arbitrary: out) (simp_all add: clean_stack_step)

lemma clean_step_members: "set (clean_step r out part) \<subseteq> set out \<union> {part}"
  by (auto simp: clean_step_def split: list.splits)

lemma clean_fold_members: "set (foldl (clean_step r) out parts) \<subseteq> set out \<union> set parts"
proof (induction parts arbitrary: out)
  case Nil
  then show ?case by simp
next
  case (Cons part parts)
  then show ?case using clean_step_members [of r out part] Cons.IH [of "clean_step r out part"] by auto
qed

lemma split_no_sep: "slash \<notin> set p \<Longrightarrow> split_at slash p = [p]"
  by (induction p) auto

lemma split_append_sep: "slash \<notin> set p \<Longrightarrow> split_at slash (p @ slash # q) = p # split_at slash q"
  by (induction p) auto

lemma split_join_slash:
  "cs \<noteq> [] \<Longrightarrow> (\<And>c. c \<in> set cs \<Longrightarrow> slash \<notin> set c) \<Longrightarrow> split_at slash (join_slash cs) = cs"
  by (induction cs rule: join_slash.induct) (simp_all add: split_no_sep split_append_sep)

lemma join_slash_dotdot: "\<exists>r. join_slash (''..'' # p # cs) = ''../'' @ r"
  by (simp add: slash_def)

lemma validArchiveExecutablePath_components:
  assumes "validArchiveExecutablePath v"
  shows "list_all normal_name (split_at slash v)"
proof -
  define out where "out = foldl (clean_step False) [] (split_at slash v)"
  have v: "v \<noteq> []" "hd v \<noteq> slash" "path_clean v = v" "v \<noteq> ''.''" "v \<noteq> ''..''" "\<not> has_prefix ''../'' v"
    using assms by (cases v; auto simp: validArchiveExecutablePath_def slash_def Let_def split: if_splits)+
  then have body: "v = join_slash (rev out)" and "out \<noteq> []"
    by (auto simp: path_clean_def Let_def out_def split: if_splits)
  have "slash \<notin> set c" if "c \<in> set out" for c
    using that clean_fold_members [of False "[]" "split_at slash v"] split_at_no_sep
    unfolding out_def by auto
  with body \<open>out \<noteq> []\<close> have comps: "split_at slash v = rev out"
    using split_join_slash [of "rev out"] by simp
  obtain ns k where out: "out = ns @ replicate k ''..''" and ns: "list_all normal_name ns"
    using clean_stack_fold [of "[]" "split_at slash v"] unfolding out_def clean_stack_def by fastforce
  have "k = 0"
  proof (rule ccontr)
    assume "k \<noteq> 0"
    then obtain j where "k = Suc j" by (cases k) auto
    then have "rev out = ''..'' # (replicate j ''..'' @ rev ns)"
      using out by (simp add: replicate_append_same)
    then show False
      using v(5,6) body join_slash_dotdot
      by (cases "replicate j ''..'' @ rev ns") (auto simp: has_prefix_iff slash_def)
  qed
  then show ?thesis
    using comps out ns by simp
qed

subsection \<open>Tools\<close>

definition interpreters :: "string list" where
  "interpreters = [''cmd'', ''powershell'', ''pwsh'', ''sh'', ''bash'', ''zsh'', ''fish'',
     ''wscript'', ''cscript'', ''python'', ''python3'', ''node'', ''ruby'', ''perl'', ''mshta'',
     ''rundll32'', ''regsvr32'', ''wsl'']"

lemma valid_tool:
  assumes "validateSemantics lib pk = None" and "get (rt_Tools (pk_Runtime pk)) tid = Some t"
  shows "e \<in> set (tl_ExecutableNames t) \<Longrightarrow>
           \<not> isForbiddenExecutable e \<and> path_base e = e \<and> \<not> has_path_separator e"
    and "validateToolInstall lib pk tid t = None"
proof -
  have entry: "validateToolEntry lib pk tid t = None"
    using assms each_sorted_None [of "validateToolEntry lib pk" "rt_Tools (pk_Runtime pk)" tid t]
    by (simp add: validateSemantics_def)
  then show "validateToolInstall lib pk tid t = None"
    by (simp add: validateToolEntry_def)
  from entry show "e \<in> set (tl_ExecutableNames t) \<Longrightarrow>
      \<not> isForbiddenExecutable e \<and> path_base e = e \<and> \<not> has_path_separator e"
    unfolding validateToolEntry_def orElse_None by (auto dest!: first_err_from_set split: if_splits)
qed

lemma valid_artifact:
  assumes "validateToolInstall lib pk tid t = None" and "tl_Install t = Some ins"
    and "get (ti_Artifacts ins) k = Some a"
  shows "\<exists>p. validateArtifact pk t p k a = None"
proof -
  obtain p where "first_err (\<lambda>k. case get (ti_Artifacts ins) k of
                 None \<Rightarrow> None | Some a \<Rightarrow> validateArtifact pk t p k a) (sorted_keys (ti_Artifacts ins)) = None"
    using assms(1,2) unfolding validateToolInstall_def Let_def by (auto split: if_splits)
  moreover have "k \<in> set (sorted_keys (ti_Artifacts ins))"
    using assms(3) by (rule get_in_keys)
  ultimately have "validateArtifact pk t p k a = None"
    using assms(3) by (fastforce simp: first_err_None)
  then show ?thesis by blast
qed

lemma trim_suffix_append: "trim_suffix q (p @ q) = p"
  by (simp add: trim_suffix_def has_suffix_def)

lemma interpreter_forbidden:
  assumes "i \<in> set interpreters" and "to_lower e = i \<or> to_lower e = i @ ''.exe''"
  shows "isForbiddenExecutable e"
proof -
  have t: "trim_suffix ''.exe'' (to_lower e) = i"
  proof (cases "to_lower e = i")
    case True
    have "list_all (\<lambda>j. trim_suffix ''.exe'' j = j) interpreters" by code_simp
    with assms(1) True show ?thesis by (simp add: list_all_iff)
  next
    case False
    with assms(2) show ?thesis using trim_suffix_append [of "''.exe''" i] by simp
  qed
  then show ?thesis
    using assms(1) unfolding isForbiddenExecutable_def Let_def t interpreters_def by simp
qed

end
