(* ===== verification/Registry.thy ===== *)
theory Registry
  imports PackValidation "HOL-Library.Product_Lexorder" "HOL-Library.Multiset"
begin

section \<open>The pack registry (internal/packs/registry.go)\<close>

text \<open>
  \<open>NewRegistry\<close> orders the loaded packs, refuses two packs with one id and indexes them by
  id. The clone functions of the source give every caller its own copy of the mutable
  parts; values here are immutable, so a clone is the value itself.
\<close>

record registry =
  rg_packs :: "loaded_pack list"
  rg_byID :: "nat dict"

definition pack_id :: "loaded_pack \<Rightarrow> string" where
  "pack_id p = md_ID (pk_Metadata (lp_Pack p))"

definition pack_order_key :: "loaded_pack \<Rightarrow> string \<times> string" where
  "pack_order_key p = (pack_id p, sr_Name (lp_Source p))"

fun index_packs :: "nat \<Rightarrow> nat dict \<Rightarrow> loaded_pack list \<Rightarrow> validation_error + nat dict" where
  "index_packs i byID [] = Inr byID"
| "index_packs i byID (p # ps) =
     (case get byID (pack_id p) of
        Some _ \<Rightarrow> Inl \<lparr>ve_Code = ErrDuplicatePack, ve_Path = ''metadata.id''\<rparr>
      | None \<Rightarrow> index_packs (Suc i) (AList.update (pack_id p) i byID) ps)"

definition NewRegistry :: "loaded_pack list \<Rightarrow> validation_error + registry" where
  "NewRegistry loaded =
     (let ordered = sort_key pack_order_key loaded
      in bindE (index_packs 0 [] ordered) (\<lambda>byID. Inr \<lparr>rg_packs = ordered, rg_byID = byID\<rparr>))"

definition FindPack :: "registry \<Rightarrow> string \<Rightarrow> loaded_pack option" where
  "FindPack r pid =
     (case get (rg_byID r) pid of None \<Rightarrow> None | Some i \<Rightarrow> Some (rg_packs r ! i))"

definition FindTool :: "registry \<Rightarrow> string \<Rightarrow> string \<Rightarrow> tool option" where
  "FindTool r packID toolID =
     (case FindPack r packID of None \<Rightarrow> None | Some p \<Rightarrow> get (rt_Tools (pk_Runtime (lp_Pack p))) toolID)"

definition FindCommand :: "registry \<Rightarrow> string \<Rightarrow> string \<Rightarrow> command option" where
  "FindCommand r packID commandID =
     (case FindPack r packID of None \<Rightarrow> None | Some p \<Rightarrow> get (pk_Commands (lp_Pack p)) commandID)"

definition keyed_entries :: "'v dict \<Rightarrow> (string \<times> 'v) list" where
  "keyed_entries d = map (\<lambda>k. (k, the (get d k))) (sorted_keys d)"

definition Tools :: "registry \<Rightarrow> string \<Rightarrow> (string \<times> tool) list" where
  "Tools r packID =
     (case FindPack r packID of None \<Rightarrow> [] | Some p \<Rightarrow> keyed_entries (rt_Tools (pk_Runtime (lp_Pack p))))"

definition Commands :: "registry \<Rightarrow> string \<Rightarrow> (string \<times> command) list" where
  "Commands r packID =
     (case FindPack r packID of None \<Rightarrow> [] | Some p \<Rightarrow> keyed_entries (pk_Commands (lp_Pack p)))"

subsection \<open>What the index holds\<close>


lemma index_packs_distinct:
  "index_packs i byID ps = Inr m \<Longrightarrow>
     distinct (map pack_id ps) \<and> (\<forall>p \<in> set ps. get byID (pack_id p) = None)"
proof (induction ps arbitrary: i byID)
  case Nil
  then show ?case by simp
next
  case (Cons p ps)
  then show ?case by (fastforce split: option.splits if_splits)
qed

lemma index_packs_total:
  "distinct (map pack_id ps) \<Longrightarrow> \<forall>p \<in> set ps. get byID (pack_id p) = None \<Longrightarrow>
     \<exists>m. index_packs i byID ps = Inr m"
proof (induction ps arbitrary: i byID)
  case Nil
  then show ?case by simp
next
  case (Cons p ps)
  from Cons.prems have "\<forall>q \<in> set ps. pack_id q \<noteq> pack_id p" by (simp add: image_iff) metis
  with Cons.prems have "\<exists>m. index_packs (Suc i) (AList.update (pack_id p) i byID) ps = Inr m"
    by (intro Cons.IH) simp_all
  with Cons.prems show ?case by simp
qed

lemma index_packs_keeps:
  "index_packs i byID ps = Inr m \<Longrightarrow> k \<notin> pack_id ` set ps \<Longrightarrow> get m k = get byID k"
  by (induction ps arbitrary: i byID) (auto split: option.splits)

lemma index_packs_nth:
  "index_packs i byID ps = Inr m \<Longrightarrow> j < length ps \<Longrightarrow> get m (pack_id (ps ! j)) = Some (i + j)"
proof (induction ps arbitrary: i byID j)
  case Nil
  then show ?case by simp
next
  case (Cons p ps)
  from Cons.prems(1) have rec: "index_packs (Suc i) (AList.update (pack_id p) i byID) ps = Inr m"
    by (simp split: option.splits)
  show ?case
  proof (cases j)
    case 0
    from index_packs_distinct [OF Cons.prems(1)] have "pack_id p \<notin> pack_id ` set ps" by simp
    from index_packs_keeps [OF rec this] 0 show ?thesis by simp
  next
    case (Suc j')
    with Cons.IH [OF rec, of j'] Cons.prems(2) show ?thesis by simp
  qed
qed

lemma NewRegistry_Inr:
  assumes "NewRegistry loaded = Inr r"
  shows "rg_packs r = sort_key pack_order_key loaded" "distinct (map pack_id (rg_packs r))"
    "index_packs 0 [] (rg_packs r) = Inr (rg_byID r)"
  using assms by (auto simp: NewRegistry_def Let_def bindE_Inr_iff dest: index_packs_distinct)

lemma FindPack_iff:
  assumes "NewRegistry loaded = Inr r"
  shows "FindPack r pid = Some p \<longleftrightarrow> p \<in> set loaded \<and> pack_id p = pid"
proof -
  note reg = NewRegistry_Inr [OF assms]
  have nth: "FindPack r (pack_id (rg_packs r ! j)) = Some (rg_packs r ! j)" if "j < length (rg_packs r)" for j
    using index_packs_nth [OF reg(3) that] by (simp add: FindPack_def)
  have members: "set (rg_packs r) = set loaded" using reg(1) by simp
  show ?thesis
  proof
    assume found: "FindPack r pid = Some p"
    then have "get (rg_byID r) pid \<noteq> None" by (auto simp: FindPack_def split: option.splits)
    then have "pid \<in> pack_id ` set (rg_packs r)"
      using index_packs_keeps [OF reg(3), of pid] by (rule_tac ccontr) simp
    then obtain j where "j < length (rg_packs r)" "pid = pack_id (rg_packs r ! j)"
      by (auto simp: in_set_conv_nth)
    with nth found members show "p \<in> set loaded \<and> pack_id p = pid" by auto
  next
    assume "p \<in> set loaded \<and> pack_id p = pid"
    then obtain j where "j < length (rg_packs r)" "p = rg_packs r ! j" "pack_id p = pid"
      using members by (metis in_set_conv_nth)
    with nth show "FindPack r pid = Some p" by blast
  qed
qed

lemma NewRegistry_ok_iff: "(\<exists>r. NewRegistry loaded = Inr r) \<longleftrightarrow> distinct (map pack_id loaded)"
proof -
  have "distinct (map pack_id (sort_key pack_order_key loaded)) \<longleftrightarrow> distinct (map pack_id loaded)"
    by (rule mset_eq_imp_distinct_iff) simp
  then show ?thesis
    by (auto simp: NewRegistry_def Let_def bindE_Inr_iff dest: index_packs_distinct
        intro!: index_packs_total)
qed

lemma NewRegistry_permute:
  assumes "mset xs = mset ys" "distinct (map pack_id xs)"
  shows "NewRegistry xs = NewRegistry ys"
proof -
  have "inj_on pack_order_key (set xs)"
    using assms(2) by (auto simp: pack_order_key_def distinct_map inj_on_def)
  then have "sort_key pack_order_key xs = sort_key pack_order_key ys"
    using assms(1) by (intro sort_key_inj_key_eq) auto
  then show ?thesis by (simp add: NewRegistry_def)
qed

lemma FindCommand_iff:
  assumes "NewRegistry loaded = Inr r"
  shows "FindCommand r pid cid = Some c \<longleftrightarrow>
    (\<exists>p \<in> set loaded. pack_id p = pid \<and> get (pk_Commands (lp_Pack p)) cid = Some c)"
proof (cases "FindPack r pid")
  case None
  then show ?thesis
    using FindPack_iff [OF assms, of pid] by (auto simp: FindCommand_def)
next
  case (Some q)
  then have "p \<in> set loaded \<and> pack_id p = pid \<longleftrightarrow> p = q" for p
    using FindPack_iff [OF assms, of pid p] by auto
  with Some show ?thesis by (simp add: FindCommand_def Bex_def flip: conj_assoc)
qed

subsection \<open>Properties\<close>

text \<open>
  the registry is a function of the set of packs. \<open>NewRegistry\<close> succeeds on a list of
  packs exactly when no two of them share an id; a pack is then found under an id exactly
  when it was given and has that id; and giving the same packs in another order yields the
  same registry.
\<close>

theorem registry_is_a_map_of_packs:
  assumes "mset loaded = mset other"
  shows "(\<exists>r. NewRegistry loaded = Inr r) = distinct (map pack_id loaded)
    \<and> (\<forall>r. NewRegistry loaded = Inr r \<longrightarrow> NewRegistry other = Inr r
         \<and> (\<forall>pid p. (FindPack r pid = Some p) = (p \<in> set loaded \<and> pack_id p = pid)))"
  using NewRegistry_ok_iff [of loaded] FindPack_iff NewRegistry_permute [OF assms]
  by metis

definition sample_pack :: "string \<Rightarrow> loaded_pack" where
  "sample_pack pid =
     \<lparr>lp_Source = \<lparr>sr_Kind = SourceBuiltin, sr_Name = pid\<rparr>,
      lp_Pack = \<lparr>pk_APIVersion = ''cliharbor.dev/v1'', pk_Kind = ''CliPack'',
        pk_Metadata = \<lparr>md_ID = pid, md_Name = pid, md_Version = ''1.0.0'', md_Description = []\<rparr>,
        pk_Runtime = \<lparr>rt_Platforms = [''linux''], rt_Tools = []\<rparr>, pk_Commands = []\<rparr>,
      lp_ContentSHA256 = []\<rparr>"

theorem registry_is_a_map_of_packs_witness:
  "\<exists>r. NewRegistry [sample_pack ''b'', sample_pack ''a''] = Inr r
     \<and> NewRegistry [sample_pack ''a'', sample_pack ''b''] = Inr r
     \<and> FindPack r ''a'' = Some (sample_pack ''a'')"
proof -
  have ids: "pack_id (sample_pack s) = s" for s
    by (simp add: pack_id_def sample_pack_def)
  have m: "mset [sample_pack ''b'', sample_pack ''a''] = mset [sample_pack ''a'', sample_pack ''b'']"
    by simp
  show ?thesis using registry_is_a_map_of_packs [OF m] by (auto simp: ids)
qed

end
