(* ===== verification/GoRegexp.thy ===== *)
theory GoRegexp
  imports GoText
begin

section \<open>The regular expressions the program compiles itself\<close>

text \<open>
  A matcher for the fixed expressions of the source, with the semantics of package regexp:
  leftmost match, and among the matches at one position the first in Perl's order (greedy
  repetition tries more before less, alternatives in order). A position is the byte before
  it, if any, and the rest of the text; a match yields the list of end positions in order
  of preference. Expressions are over ASCII classes, where bytes and runes agree; a byte
  of a longer sequence is in none of them.
\<close>

type_synonym pos = "char option \<times> string"

datatype re = Cls "char \<Rightarrow> bool" | Eps | Cat re re | Alt re re | Star re | WordB | Bol | Eol

definition is_word :: "char \<Rightarrow> bool" where
  "is_word c \<longleftrightarrow> is_digit c \<or> (65 \<le> byte c \<and> byte c \<le> 90) \<or> (97 \<le> byte c \<and> byte c \<le> 122) \<or> c = CHR ''_''"

definition at_word_boundary :: "pos \<Rightarrow> bool" where
  "at_word_boundary p \<longleftrightarrow>
     (case fst p of None \<Rightarrow> False | Some c \<Rightarrow> is_word c)
     \<noteq> (case snd p of [] \<Rightarrow> False | c # _ \<Rightarrow> is_word c)"

text \<open>Greedy repetition; every round must consume, so the length of the text is enough fuel.\<close>

fun star_ends :: "(pos \<Rightarrow> pos list) \<Rightarrow> nat \<Rightarrow> pos \<Rightarrow> pos list" where
  "star_ends f 0 p = [p]"
| "star_ends f (Suc n) p =
     concat (map (star_ends f n) (filter (\<lambda>q. length (snd q) < length (snd p)) (f p))) @ [p]"

primrec ends :: "re \<Rightarrow> pos \<Rightarrow> pos list" where
  "ends (Cls P) p = (case snd p of [] \<Rightarrow> [] | c # cs \<Rightarrow> if P c then [(Some c, cs)] else [])"
| "ends Eps p = [p]"
| "ends (Cat r s) p = concat (map (ends s) (ends r p))"
| "ends (Alt r s) p = ends r p @ ends s p"
| "ends (Star r) p = star_ends (ends r) (length (snd p)) p"
| "ends WordB p = (if at_word_boundary p then [p] else [])"
| "ends Bol p = (if fst p = None then [p] else [])"
| "ends Eol p = (if snd p = [] then [p] else [])"

definition Opt :: "re \<Rightarrow> re" where "Opt r = Alt r Eps"
definition Plus :: "re \<Rightarrow> re" where "Plus r = Cat r (Star r)"

fun cats :: "re list \<Rightarrow> re" where
  "cats [] = Eps"
| "cats [r] = r"
| "cats (r # s # rs) = Cat r (cats (s # rs))"

fun alts :: "re list \<Rightarrow> re" where
  "alts [] = Cls (\<lambda>_. False)"
| "alts [r] = r"
| "alts (r # s # rs) = Alt r (alts (s # rs))"

definition times :: "nat \<Rightarrow> re \<Rightarrow> re" where
  "times n r = cats (replicate n r)"

definition Chr :: "char \<Rightarrow> re" where "Chr c = Cls (\<lambda>d. d = c)"

definition lit :: "string \<Rightarrow> re" where "lit s = cats (map Chr s)"

text \<open>A literal under the flag \<open>(?i)\<close>, for lower-case literals.\<close>

definition lit_i :: "string \<Rightarrow> re" where "lit_i s = cats (map (\<lambda>c. Cls (\<lambda>d. lower_char d = c)) s)"

text \<open>The first match at or after a position.\<close>

fun find_from :: "re \<Rightarrow> char option \<Rightarrow> string \<Rightarrow> (pos \<times> pos) option" where
  "find_from r pc [] = (case ends r (pc, []) of [] \<Rightarrow> None | q # _ \<Rightarrow> Some ((pc, []), q))"
| "find_from r pc (c # cs) =
     (case ends r (pc, c # cs) of
        q # _ \<Rightarrow> Some ((pc, c # cs), q)
      | [] \<Rightarrow> find_from r (Some c) cs)"

definition re_search :: "re \<Rightarrow> string \<Rightarrow> bool" where
  "re_search r s \<longleftrightarrow> find_from r None s \<noteq> None"

subsection \<open>Facts\<close>

lemma star_ends_length: "(\<And>p q. q \<in> set (f p) \<Longrightarrow> length (snd q) \<le> length (snd p)) \<Longrightarrow>
    q \<in> set (star_ends f n p) \<Longrightarrow> length (snd q) \<le> length (snd p)"
proof (induction n arbitrary: p)
  case 0
  then show ?case by simp
next
  case (Suc n)
  then consider "q = p" | m where "m \<in> set (f p)" "q \<in> set (star_ends f n m)" by auto
  then show ?case
  proof cases
    case 2
    with Suc.IH [of m] Suc.prems(1) [of m p] Suc.prems(1) show ?thesis by (meson order_trans)
  qed simp
qed

lemma ends_length: "q \<in> set (ends r p) \<Longrightarrow> length (snd q) \<le> length (snd p)"
proof (induction r arbitrary: p q)
  case (Star r)
  from Star.prems have "q \<in> set (star_ends (ends r) (length (snd p)) p)" by simp
  then show ?case by (rule star_ends_length [rotated]) (rule Star.IH)
next
  case (Cat r s)
  from Cat.prems obtain m where "m \<in> set (ends r p)" "q \<in> set (ends s m)" by auto
  with Cat.IH(1) [of m p] Cat.IH(2) [of q m] show ?case by simp
qed (auto split: list.splits if_splits)

text \<open>All successive non-overlapping matches, as \<open>FindAllString\<close> returns them.\<close>

lemma find_from_ends: "find_from r pc s = Some (p, q) \<Longrightarrow> q \<in> set (ends r p) \<and> length (snd p) \<le> length s"
  by (induction r pc s rule: find_from.induct) (auto split: list.splits intro: le_SucI)

function all_matches :: "re \<Rightarrow> char option \<Rightarrow> string \<Rightarrow> string list" where
  "all_matches r pc s =
     (case find_from r pc s of
        None \<Rightarrow> []
      | Some (p, q) \<Rightarrow>
          if length (snd q) < length s
          then take (length (snd p) - length (snd q)) (snd p) # all_matches r (fst q) (snd q)
          else [])"
  by pat_completeness auto
termination
  by (relation "measure (\<lambda>(r, pc, s). length s)") auto

declare all_matches.simps [simp del]

end
