(* ===== verification/Discovery.thy ===== *)
theory Discovery
  imports Registry GoRegexp
begin

section \<open>Tool discovery (internal/discovery)\<close>

text \<open>
  Tool states and the snapshot that is the program's only source of executable paths
  (types.go), the identity of an executable (executable\_identity.go), version parsing
  (probe.go) and the resolution of a tool to exactly one executable (resolver.go).

  What the file system answers is a parameter: one record of the results of the calls the
  code makes, so that two calls on one path may disagree, as they can on a machine where
  files change. The SHA-256 of a content, the semver library and the probe process are
  parameters too.
\<close>

subsection \<open>States and snapshots\<close>

datatype discovery_status = StatusReady | StatusMissing | StatusAmbiguous | StatusIncompatible
  | StatusProbeFailed | StatusInvalidOverride | StatusIdentityFailed | StatusUnsupportedPlatform

datatype tool_ref = ToolRef (ref_pack: string) (ref_tool: string)

instantiation tool_ref :: linorder
begin

definition less_eq_tool_ref :: "tool_ref \<Rightarrow> tool_ref \<Rightarrow> bool" where
  "less_eq_tool_ref a b \<longleftrightarrow> (ref_pack a, ref_tool a) \<le> (ref_pack b, ref_tool b)"

definition less_tool_ref :: "tool_ref \<Rightarrow> tool_ref \<Rightarrow> bool" where
  "less_tool_ref a b \<longleftrightarrow> (ref_pack a, ref_tool a) < (ref_pack b, ref_tool b)"

instance
proof
  fix x y z :: tool_ref
  show "(x < y) = (x \<le> y \<and> \<not> y \<le> x)"
    unfolding less_eq_tool_ref_def less_tool_ref_def by (rule less_le_not_le)
  show "x \<le> x" unfolding less_eq_tool_ref_def by (rule order_refl)
  show "x \<le> y \<Longrightarrow> y \<le> z \<Longrightarrow> x \<le> z"
    unfolding less_eq_tool_ref_def by (rule order_trans)
  show "x \<le> y \<Longrightarrow> y \<le> x \<Longrightarrow> x = y"
    unfolding less_eq_tool_ref_def by (cases x; cases y) (metis antisym prod.inject tool_ref.sel)
  show "x \<le> y \<or> y \<le> x" unfolding less_eq_tool_ref_def by (rule linear)
qed

end

record candidate =
  cd_Path :: string
  cd_ExecutableName :: string

text \<open>\<open>os.FileInfo\<close>: \<open>fi_File\<close> is what \<open>os.SameFile\<close> compares.\<close>

record file_info =
  fi_File :: nat
  fi_Regular :: bool
  fi_Symlink :: bool
  fi_AnyExec :: bool
  fi_Size :: int
  fi_ModTime :: int

record executable_identity =
  ei_Info :: "nat option"
  ei_Size :: int
  ei_ModTime :: int
  ei_Digest :: string

record tool_state =
  ts_PackID :: string
  ts_PackVersion :: string
  ts_ToolID :: string
  ts_Status :: discovery_status
  ts_Path :: string
  ts_ExecutableName :: string
  ts_Version :: string
  ts_VersionConstraint :: string
  ts_Candidates :: "candidate list"
  ts_Message :: string
  ts_Identity :: executable_identity

definition Healthy :: "tool_state \<Rightarrow> bool" where
  "Healthy s \<longleftrightarrow> ts_Status s = StatusReady"

definition state_ref :: "tool_state \<Rightarrow> tool_ref" where
  "state_ref s = ToolRef (ts_PackID s) (ts_ToolID s)"

record snapshot =
  sn_tools :: "tool_state list"
  sn_byRef :: "(tool_ref \<times> nat) list"

definition sort_candidates :: "tool_state \<Rightarrow> tool_state" where
  "sort_candidates s = s\<lparr>ts_Candidates := sort_key cd_Path (ts_Candidates s)\<rparr>"

fun index_refs :: "nat \<Rightarrow> (tool_ref \<times> nat) list \<Rightarrow> tool_state list \<Rightarrow> (tool_ref \<times> nat) list" where
  "index_refs i m [] = m"
| "index_refs i m (s # ss) = index_refs (Suc i) (AList.update (state_ref s) i m) ss"

definition NewSnapshot :: "tool_state list \<Rightarrow> snapshot" where
  "NewSnapshot states =
     (let ordered = sort_key state_ref (map sort_candidates states)
      in \<lparr>sn_tools = ordered, sn_byRef = index_refs 0 [] ordered\<rparr>)"

definition Find :: "snapshot \<Rightarrow> tool_ref \<Rightarrow> tool_state option" where
  "Find sn ref = (case map_of (sn_byRef sn) ref of None \<Rightarrow> None | Some i \<Rightarrow> Some (sn_tools sn ! i))"

definition snapshot_healthy :: "snapshot \<Rightarrow> bool" where
  "snapshot_healthy sn \<longleftrightarrow> list_all Healthy (sn_tools sn)"

lemma state_ref_sort_candidates [simp]: "state_ref (sort_candidates s) = state_ref s"
  by (simp add: state_ref_def sort_candidates_def)

lemma sort_candidates_idem [simp]: "sort_candidates (sort_candidates s) = sort_candidates s"
  by (simp add: sort_candidates_def sort_key_id_if_sorted sorted_sort_key)

lemma index_refs_keeps: "ref \<notin> state_ref ` set ss \<Longrightarrow> map_of (index_refs i m ss) ref = map_of m ref"
  by (induction ss arbitrary: i m) (simp_all add: update_conv')

lemma index_refs_nth:
  "distinct (map state_ref ss) \<Longrightarrow> j < length ss \<Longrightarrow>
     map_of (index_refs i m ss) (state_ref (ss ! j)) = Some (i + j)"
proof (induction ss arbitrary: i m j)
  case Nil
  then show ?case by simp
next
  case (Cons s ss)
  show ?case
  proof (cases j)
    case 0
    with Cons.prems(1) index_refs_keeps [of "state_ref s" ss] show ?thesis
      by (simp add: update_conv')
  next
    case (Suc j')
    with Cons.IH [of j' "Suc i"] Cons.prems show ?thesis by simp
  qed
qed

lemma Find_iff:
  assumes "distinct (map state_ref states)"
  shows "Find (NewSnapshot states) ref = Some s \<longleftrightarrow>
    (\<exists>t \<in> set states. s = sort_candidates t \<and> state_ref t = ref)"
proof -
  define ordered where "ordered = sort_key state_ref (map sort_candidates states)"
  have dist: "distinct (map state_ref ordered)"
  proof -
    have "mset (map state_ref ordered) = mset (map state_ref states)"
      by (simp add: ordered_def image_mset.compositionality o_def)
    from mset_eq_imp_distinct_iff [OF this] assms show ?thesis by simp
  qed
  have members: "set ordered = sort_candidates ` set states" by (simp add: ordered_def)
  have found: "Find (NewSnapshot states) (state_ref (ordered ! j)) = Some (ordered ! j)"
    if "j < length ordered" for j
    using index_refs_nth [OF dist that, of 0 "[]"]
    by (simp add: Find_def NewSnapshot_def Let_def flip: ordered_def)
  have absent: "Find (NewSnapshot states) ref = None" if "ref \<notin> state_ref ` set ordered"
    using index_refs_keeps [OF that, of 0 "[]"]
    by (simp add: Find_def NewSnapshot_def Let_def flip: ordered_def)
  have "Find (NewSnapshot states) ref = Some s \<longleftrightarrow> s \<in> set ordered \<and> state_ref s = ref"
  proof
    assume get: "Find (NewSnapshot states) ref = Some s"
    with absent have "ref \<in> state_ref ` set ordered" by (rule_tac ccontr) simp
    then obtain j where "j < length ordered" "ref = state_ref (ordered ! j)"
      by (auto simp: in_set_conv_nth)
    with found get show "s \<in> set ordered \<and> state_ref s = ref" by auto
  next
    assume "s \<in> set ordered \<and> state_ref s = ref"
    then show "Find (NewSnapshot states) ref = Some s"
      using found by (auto simp: in_set_conv_nth)
  qed
  then show ?thesis by (auto simp: members)
qed

subsection \<open>Executable identity\<close>

record file_system =
  fs_Lstat :: "string \<Rightarrow> file_info option"
  fs_Stat :: "string \<Rightarrow> file_info option"
  fs_OpenStat :: "string \<Rightarrow> file_info option"
  fs_Content :: "string \<Rightarrow> string option"
  fs_EvalSymlinks :: "string \<Rightarrow> string option"
  fs_Abs :: "string \<Rightarrow> string option"

definition inspectExecutableIdentity ::
    "(string \<Rightarrow> string) \<Rightarrow> file_system \<Rightarrow> string \<Rightarrow> (file_info \<times> string) option" where
  "inspectExecutableIdentity sha fs path =
     (case fs_Lstat fs path of
        None \<Rightarrow> None
      | Some pathInfo \<Rightarrow>
          if fi_Symlink pathInfo \<or> \<not> fi_Regular pathInfo then None
          else (case fs_OpenStat fs path of
              None \<Rightarrow> None
            | Some info \<Rightarrow>
                if \<not> fi_Regular info \<or> fi_File pathInfo \<noteq> fi_File info then None
                else map_option (\<lambda>content. (info, sha content)) (fs_Content fs path)))"

definition no_identity :: executable_identity where
  "no_identity = \<lparr>ei_Info = None, ei_Size = 0, ei_ModTime = 0, ei_Digest = []\<rparr>"

definition CaptureExecutableIdentity ::
    "(string \<Rightarrow> string) \<Rightarrow> file_system \<Rightarrow> string \<Rightarrow> executable_identity option" where
  "CaptureExecutableIdentity sha fs path =
     map_option (\<lambda>(info, digest). \<lparr>ei_Info = Some (fi_File info), ei_Size = fi_Size info,
         ei_ModTime = fi_ModTime info, ei_Digest = digest\<rparr>)
       (inspectExecutableIdentity sha fs path)"

definition identity_Valid :: "executable_identity \<Rightarrow> bool" where
  "identity_Valid i \<longleftrightarrow> ei_Info i \<noteq> None"

definition identity_Matches ::
    "(string \<Rightarrow> string) \<Rightarrow> file_system \<Rightarrow> executable_identity \<Rightarrow> string \<Rightarrow> bool" where
  "identity_Matches sha fs i path =
     (case ei_Info i of
        None \<Rightarrow> False
      | Some file \<Rightarrow>
          (case inspectExecutableIdentity sha fs path of
             None \<Rightarrow> False
           | Some (info, digest) \<Rightarrow> file = fi_File info \<and> ei_Size i = fi_Size info
               \<and> ei_ModTime i = fi_ModTime info \<and> ei_Digest i = digest))"

lemma capture_valid: "CaptureExecutableIdentity sha fs path = Some i \<Longrightarrow> identity_Valid i"
  by (auto simp: CaptureExecutableIdentity_def identity_Valid_def)

lemma matches_iff_capture:
  "identity_Matches sha fs i path \<longleftrightarrow> CaptureExecutableIdentity sha fs path = Some i"
  by (cases i)
    (auto simp: identity_Matches_def CaptureExecutableIdentity_def split: option.splits)

subsection \<open>Version parsing\<close>

definition VersionParserSemverText :: string where
  "VersionParserSemverText = ''semver-text''"

definition is_alnum_dash :: "char \<Rightarrow> bool" where
  "is_alnum_dash c \<longleftrightarrow> is_lower_alnum c \<or> (65 \<le> byte c \<and> byte c \<le> 90) \<or> c = CHR ''-''"

definition dotted_idents :: "char \<Rightarrow> re" where
  "dotted_idents lead = Opt (cats [Chr lead, Plus (Cls is_alnum_dash),
     Star (Cat (Chr (CHR ''.'')) (Plus (Cls is_alnum_dash)))])"

definition semver_core :: re where
  "semver_core = cats [Plus (Cls is_digit), Chr (CHR ''.''), Plus (Cls is_digit), Chr (CHR ''.''),
     Plus (Cls is_digit), dotted_idents (CHR ''-''), dotted_idents (CHR ''+'')]"

definition semverToken :: re where
  "semverToken = cats [WordB, Opt (Cls (\<lambda>c. lower_char c = CHR ''v'')), semver_core, WordB]"

definition prefixedSemverToken :: re where
  "prefixedSemverToken = cats [Bol, Star (Cls (\<lambda>c. c = CHR '' '' \<or> c = CHR 0x09)), semverToken]"

text \<open>The first group of a match: everything after the optional v.\<close>

definition version_group :: "string \<Rightarrow> string" where
  "version_group m = dropWhile (\<lambda>c. \<not> is_digit c) m"

function prefixed_tokens :: "string \<Rightarrow> string \<Rightarrow> string list" where
  "prefixed_tokens prefix rest =
     (if prefix = [] then []
      else case cut prefix rest of
        None \<Rightarrow> []
      | Some (_, after) \<Rightarrow>
          (case find_from prefixedSemverToken None after of
             None \<Rightarrow> []
           | Some (p, q) \<Rightarrow> [take (length (snd p) - length (snd q)) (snd p)])
          @ prefixed_tokens prefix after)"
  by pat_completeness auto
termination
  by (relation "measure (\<lambda>(p, r). length r)") (auto dest!: cut_Some)

declare prefixed_tokens.simps [simp del]

fun join_comma :: "string list \<Rightarrow> string" where
  "join_comma [] = []"
| "join_comma [s] = s"
| "join_comma (s # t # ss) = s @ '', '' @ join_comma (t # ss)"

definition parseVersion :: "ext_lib \<Rightarrow> version_probe \<Rightarrow> string \<Rightarrow> string + string" where
  "parseVersion lib probe text =
     (if vp_Parser probe \<noteq> VersionParserSemverText then Inl ''unsupported version parser''
      else let matches = (if vp_Prefix probe = [] then all_matches semverToken None text
                          else prefixed_tokens (vp_Prefix probe) text);
               versions = remdups (List.map_filter (\<lambda>m. strict_version lib (version_group m)) matches)
      in if versions = [] then Inl ''version output contained no semantic version''
         else if 1 < length versions
         then Inl (''version output was ambiguous: '' @ join_comma (sort versions))
         else Inr (hd versions))"

subsection \<open>Candidates\<close>

definition is_abs :: "string \<Rightarrow> bool" where
  "is_abs p \<longleftrightarrow> has_prefix ''/'' p"

definition path_join :: "string \<Rightarrow> string \<Rightarrow> string" where
  "path_join d n = path_clean (d @ slash # n)"

definition executableVariants :: "string \<Rightarrow> string \<Rightarrow> string list" where
  "executableVariants name goos =
     (if goos \<noteq> ''windows'' \<or> path_ext name \<noteq> [] then [name] else [name @ ''.exe'', name @ ''.com''])"

definition matchesDeclaredExecutable :: "string \<Rightarrow> string list \<Rightarrow> string \<Rightarrow> bool" where
  "matchesDeclaredExecutable actual declared goos =
     (\<exists>name \<in> set declared.
        if goos = ''windows'' then (\<exists>v \<in> set (executableVariants name goos). equal_fold actual v)
        else actual = name)"

definition normalizeDiscoveryDirectory :: "string \<Rightarrow> string \<Rightarrow> string" where
  "normalizeDiscoveryDirectory directory goos =
     (let d = (if goos = ''windows'' \<and> 2 \<le> length directory \<and> hd directory = CHR 0x22
                  \<and> last directory = CHR 0x22
               then butlast (tl directory) else directory)
      in if d = [] \<or> \<not> is_abs d then [] else path_clean d)"

record resolver =
  rs_goos :: string
  rs_pathValue :: string
  rs_fallbackDirs :: "string list"

definition inspectExecutable :: "file_system \<Rightarrow> string \<Rightarrow> string \<Rightarrow> string option" where
  "inspectExecutable fs goos path =
     (case fs_Stat fs path of
        None \<Rightarrow> None
      | Some info \<Rightarrow>
          if \<not> fi_Regular info then None
          else if goos \<noteq> ''windows'' \<and> \<not> fi_AnyExec info then None
          else (case fs_EvalSymlinks fs path of
              None \<Rightarrow> None
            | Some resolved \<Rightarrow> map_option path_clean (fs_Abs fs resolved)))"

definition explicitCandidate :: "file_system \<Rightarrow> resolver \<Rightarrow> string \<Rightarrow> string list \<Rightarrow> candidate option" where
  "explicitCandidate fs r path declared =
     (if \<not> is_abs path then None
      else case inspectExecutable fs (rs_goos r) (path_clean path) of
        None \<Rightarrow> None
      | Some resolved \<Rightarrow>
          if matchesDeclaredExecutable (path_base resolved) declared (rs_goos r)
          then Some \<lparr>cd_Path = resolved, cd_ExecutableName = path_base resolved\<rparr> else None)"

definition fold_case :: "string \<Rightarrow> string \<Rightarrow> string" where
  "fold_case goos s = (if goos = ''windows'' then to_lower s else s)"

text \<open>One requested file: kept when it resolves, is declared and has not been seen.\<close>

definition consider_candidate ::
    "file_system \<Rightarrow> string \<Rightarrow> string list \<Rightarrow> string \<Rightarrow> candidate list \<Rightarrow> candidate list" where
  "consider_candidate fs goos declared requested cands =
     (case inspectExecutable fs goos requested of
        None \<Rightarrow> cands
      | Some resolved \<Rightarrow>
          if \<not> matchesDeclaredExecutable (path_base resolved) declared goos then cands
          else if fold_case goos resolved \<in> set (map (fold_case goos \<circ> cd_Path) cands) then cands
          else cands @ [\<lparr>cd_Path = resolved, cd_ExecutableName = path_base resolved\<rparr>])"

fun scan_directories ::
    "file_system \<Rightarrow> string \<Rightarrow> string list \<Rightarrow> string list \<Rightarrow> candidate list \<Rightarrow> string list \<Rightarrow> candidate list" where
  "scan_directories fs goos declared seen cands [] = cands"
| "scan_directories fs goos declared seen cands (d # ds) =
     (let directory = normalizeDiscoveryDirectory d goos in
      if directory = [] then scan_directories fs goos declared seen cands ds
      else if fold_case goos directory \<in> set seen then scan_directories fs goos declared seen cands ds
      else scan_directories fs goos declared (fold_case goos directory # seen)
             (foldl (\<lambda>cs name. consider_candidate fs goos declared (path_join directory name) cs) cands
                (concat (map (\<lambda>e. executableVariants e goos) declared))) ds)"

definition directoryCandidates ::
    "file_system \<Rightarrow> string \<Rightarrow> string list \<Rightarrow> string list \<Rightarrow> candidate list" where
  "directoryCandidates fs goos declared directories =
     sort_key cd_Path (scan_directories fs goos declared [] [] directories)"

definition SplitList :: "string \<Rightarrow> string list" where
  "SplitList v = (if v = [] then [] else split_at (CHR '':'') v)"

definition tool_candidates ::
    "file_system \<Rightarrow> resolver \<Rightarrow> string list \<Rightarrow> string \<Rightarrow> candidate list option" where
  "tool_candidates fs r declared override =
     (if override \<noteq> [] then map_option (\<lambda>c. [c]) (explicitCandidate fs r override declared)
      else let onPath = directoryCandidates fs (rs_goos r) declared (SplitList (rs_pathValue r))
           in Some (if onPath = [] then directoryCandidates fs (rs_goos r) declared (rs_fallbackDirs r)
                    else onPath))"

subsection \<open>Resolving one tool\<close>

datatype discover_error = ProbeAborted | InvalidConstraint | UnknownOverride tool_ref

text \<open>
  The environment of one resolution: the file system before and after the version probe
  ran, the probe's answer (an error text or its output) and whether the context is done.
\<close>

record probe_env =
  pe_fs :: file_system
  pe_fs_after :: file_system
  pe_sha :: "string \<Rightarrow> string"
  pe_run :: "string \<Rightarrow> version_probe \<Rightarrow> string + string"
  pe_ctx_done :: bool
  pe_lib :: ext_lib

definition check_version ::
    "probe_env \<Rightarrow> tool_state \<Rightarrow> tool \<Rightarrow> version_probe \<Rightarrow> discover_error + tool_state" where
  "check_version env state tl0 probe =
     (case pe_run env (ts_Path state) probe of
        Inl msg \<Rightarrow> if pe_ctx_done env then Inl ProbeAborted
                   else Inr (state\<lparr>ts_Status := StatusProbeFailed, ts_Message := msg\<rparr>)
      | Inr text \<Rightarrow>
          if \<not> identity_Matches (pe_sha env) (pe_fs_after env) (ts_Identity state) (ts_Path state)
          then Inr (state\<lparr>ts_Status := StatusIdentityFailed,
                 ts_Message := ''resolved executable changed during version probe''\<rparr>)
          else case parseVersion (pe_lib env) probe text of
            Inl msg \<Rightarrow> Inr (state\<lparr>ts_Status := StatusProbeFailed, ts_Message := msg\<rparr>)
          | Inr version \<Rightarrow>
              let state1 = state\<lparr>ts_Version := version\<rparr> in
              if tl_VersionConstraint tl0 = [] then Inr (state1\<lparr>ts_Status := StatusReady\<rparr>)
              else if \<not> constraint_valid (pe_lib env) (tl_VersionConstraint tl0) then Inl InvalidConstraint
              else if \<not> constraint_check (pe_lib env) (tl_VersionConstraint tl0) version
              then Inr (state1\<lparr>ts_Status := StatusIncompatible,
                     ts_Message := ''detected version does not satisfy the pack constraint''\<rparr>)
              else Inr (state1\<lparr>ts_Status := StatusReady\<rparr>))"

definition resolveTool ::
    "probe_env \<Rightarrow> resolver \<Rightarrow> tool_state \<Rightarrow> tool \<Rightarrow> string \<Rightarrow> discover_error + tool_state" where
  "resolveTool env r state tl0 override =
     (case tool_candidates (pe_fs env) r (tl_ExecutableNames tl0) override of
        None \<Rightarrow> Inr (state\<lparr>ts_Status := StatusInvalidOverride, ts_Message :=
          ''configured tool path must be an absolute regular executable matching a declared executable name''\<rparr>)
      | Some cands \<Rightarrow>
          let state1 = state\<lparr>ts_Candidates := cands\<rparr> in
          (case cands of
             [] \<Rightarrow> Inr (state1\<lparr>ts_Status := StatusMissing, ts_Message :=
               ''tool was not found in the configured PATH or approved current-user fallback locations; install it or configure an explicit tool path''\<rparr>)
           | [c] \<Rightarrow>
               let state2 = state1\<lparr>ts_Path := cd_Path c, ts_ExecutableName := cd_ExecutableName c\<rparr> in
               (case CaptureExecutableIdentity (pe_sha env) (pe_fs env) (cd_Path c) of
                  None \<Rightarrow> Inr (state2\<lparr>ts_Status := StatusIdentityFailed,
                    ts_Message := ''resolved executable identity could not be recorded''\<rparr>)
                | Some i \<Rightarrow>
                    let state3 = state2\<lparr>ts_Identity := i\<rparr> in
                    (case tl_VersionProbe tl0 of
                       None \<Rightarrow> Inr (state3\<lparr>ts_Status := StatusReady\<rparr>)
                     | Some probe \<Rightarrow> check_version env state3 tl0 probe))
           | _ # _ # _ \<Rightarrow> Inr (state1\<lparr>ts_Status := StatusAmbiguous, ts_Message :=
               ''multiple matching executables were found; configure an explicit tool path''\<rparr>)))"

definition base_state :: "loaded_pack \<Rightarrow> string \<Rightarrow> tool \<Rightarrow> tool_state" where
  "base_state p toolID tl0 =
     \<lparr>ts_PackID = pack_id p, ts_PackVersion = md_Version (pk_Metadata (lp_Pack p)), ts_ToolID = toolID,
      ts_Status = StatusMissing, ts_Path = [], ts_ExecutableName = [], ts_Version = [],
      ts_VersionConstraint = tl_VersionConstraint tl0, ts_Candidates = [], ts_Message = [],
      ts_Identity = no_identity\<rparr>"

definition discover_tool ::
    "probe_env \<Rightarrow> resolver \<Rightarrow> (tool_ref \<times> string) list \<Rightarrow> loaded_pack \<Rightarrow> string \<times> tool
      \<Rightarrow> discover_error + tool_state" where
  "discover_tool env r overrides p named =
     (let base = base_state p (fst named) (snd named) in
      if rs_goos r \<notin> set (rt_Platforms (pk_Runtime (lp_Pack p)))
      then Inr (base\<lparr>ts_Status := StatusUnsupportedPlatform,
             ts_Message := ''pack does not support this operating system''\<rparr>)
      else resolveTool env r base (snd named)
             (case map_of overrides (state_ref base) of None \<Rightarrow> [] | Some o' \<Rightarrow> o'))"

fun discover_all :: "('a \<Rightarrow> 'e + 'b) \<Rightarrow> 'a list \<Rightarrow> 'e + 'b list" where
  "discover_all f [] = Inr []"
| "discover_all f (x # xs) = bindE (f x) (\<lambda>y. bindE (discover_all f xs) (\<lambda>ys. Inr (y # ys)))"

definition registry_tools :: "registry \<Rightarrow> (loaded_pack \<times> string \<times> tool) list" where
  "registry_tools reg = concat (map (\<lambda>p. map (Pair p) (Tools reg (pack_id p))) (rg_packs reg))"

definition Discover ::
    "probe_env \<Rightarrow> resolver \<Rightarrow> registry \<Rightarrow> (tool_ref \<times> string) list \<Rightarrow> discover_error + snapshot" where
  "Discover env r reg overrides =
     bindE (discover_all (\<lambda>(p, named). discover_tool env r overrides p named) (registry_tools reg)) (\<lambda>states.
       case List.find (\<lambda>(ref, _). ref \<notin> set (map state_ref states)) overrides of
         Some (ref, _) \<Rightarrow> Inl (UnknownOverride ref)
       | None \<Rightarrow> Inr (NewSnapshot states))"

subsection \<open>What a ready tool is\<close>

lemma inspectExecutable_regular:
  "inspectExecutable fs goos path = Some resolved \<Longrightarrow>
     \<exists>info. fs_Stat fs path = Some info \<and> fi_Regular info \<and> (goos = ''windows'' \<or> fi_AnyExec info)"
  by (auto simp: inspectExecutable_def split: option.splits if_splits)

definition declared_candidate :: "string list \<Rightarrow> string \<Rightarrow> candidate \<Rightarrow> bool" where
  "declared_candidate declared goos c \<longleftrightarrow>
     cd_ExecutableName c = path_base (cd_Path c) \<and> matchesDeclaredExecutable (cd_ExecutableName c) declared goos"

lemma consider_candidate_declared:
  "\<forall>c \<in> set cs. declared_candidate declared goos c \<Longrightarrow>
     \<forall>c \<in> set (consider_candidate fs goos declared q cs). declared_candidate declared goos c"
  by (auto simp: consider_candidate_def declared_candidate_def split: option.splits)

lemma consider_all_declared:
  "\<forall>c \<in> set cs. declared_candidate declared goos c \<Longrightarrow>
     \<forall>c \<in> set (foldl (\<lambda>cs n. consider_candidate fs goos declared (path_join d n) cs) cs ns).
       declared_candidate declared goos c"
proof (induction ns arbitrary: cs)
  case Nil
  then show ?case by simp
next
  case (Cons n ns)
  from Cons.IH [OF consider_candidate_declared [OF Cons.prems]] show ?case by simp
qed

lemma scan_directories_declared:
  "\<forall>c \<in> set cs. declared_candidate declared goos c \<Longrightarrow>
     \<forall>c \<in> set (scan_directories fs goos declared seen cs ds). declared_candidate declared goos c"
proof (induction fs goos declared seen cs ds rule: scan_directories.induct)
  case (2 fs goos declared seen cands d ds)
  then show ?case
    by (simp add: Let_def consider_all_declared)
qed simp

lemma tool_candidates_declared:
  assumes "tool_candidates fs r declared ov = Some cs" "c \<in> set cs"
  shows "declared_candidate declared (rs_goos r) c"
proof -
  have dir: "declared_candidate declared (rs_goos r) c"
    if "c \<in> set (directoryCandidates fs (rs_goos r) declared ds)" for ds
    using that scan_directories_declared [of "[]" declared "rs_goos r" fs "[]" ds]
    by (simp add: directoryCandidates_def)
  have explicit: "declared_candidate declared (rs_goos r) c"
    if "explicitCandidate fs r ov declared = Some c" for ov
    using that by (auto simp: explicitCandidate_def declared_candidate_def split: if_splits option.splits)
  from assms dir explicit show ?thesis
    by (auto simp: tool_candidates_def Let_def split: if_splits)
qed

lemma check_version_ready:
  assumes "check_version env state tl0 probe = Inr st" "Healthy st"
  shows "\<exists>text. pe_run env (ts_Path state) probe = Inr text
    \<and> identity_Matches (pe_sha env) (pe_fs_after env) (ts_Identity state) (ts_Path state)
    \<and> parseVersion (pe_lib env) probe text = Inr (ts_Version st)
    \<and> (tl_VersionConstraint tl0 = [] \<or> constraint_check (pe_lib env) (tl_VersionConstraint tl0) (ts_Version st))
    \<and> st = state\<lparr>ts_Version := ts_Version st, ts_Status := StatusReady\<rparr>"
  using assms
  by (auto simp: check_version_def Healthy_def Let_def split: sum.splits if_splits)

text \<open>
  C34: a tool is reported ready only when exactly one candidate was found, its file name is
  one the pack declares, its identity was captured from the file system and, where the
  pack declares a version probe, the file still had that identity after the probe ran, the
  probe's output names one version and that version satisfies the pack's constraint.
\<close>

theorem ready_tool_is_qualified:
  assumes "resolveTool env r state tl0 override = Inr st" "Healthy st"
  shows "\<exists>c. tool_candidates (pe_fs env) r (tl_ExecutableNames tl0) override = Some [c]
    \<and> ts_Path st = cd_Path c \<and> ts_ExecutableName st = path_base (ts_Path st)
    \<and> matchesDeclaredExecutable (ts_ExecutableName st) (tl_ExecutableNames tl0) (rs_goos r)
    \<and> CaptureExecutableIdentity (pe_sha env) (pe_fs env) (ts_Path st) = Some (ts_Identity st)
    \<and> (\<forall>probe. tl_VersionProbe tl0 = Some probe \<longrightarrow>
        (\<exists>text. pe_run env (ts_Path st) probe = Inr text
          \<and> CaptureExecutableIdentity (pe_sha env) (pe_fs_after env) (ts_Path st) = Some (ts_Identity st)
          \<and> parseVersion (pe_lib env) probe text = Inr (ts_Version st)
          \<and> (tl_VersionConstraint tl0 = []
             \<or> constraint_check (pe_lib env) (tl_VersionConstraint tl0) (ts_Version st))))"
proof -
  from assms obtain c i where
    cands: "tool_candidates (pe_fs env) r (tl_ExecutableNames tl0) override = Some [c]"
    and ident: "CaptureExecutableIdentity (pe_sha env) (pe_fs env) (cd_Path c) = Some i"
    and rest: "(case tl_VersionProbe tl0 of
        None \<Rightarrow> Inr (state\<lparr>ts_Candidates := [c], ts_Path := cd_Path c,
                 ts_ExecutableName := cd_ExecutableName c, ts_Identity := i, ts_Status := StatusReady\<rparr>)
      | Some probe \<Rightarrow> check_version env (state\<lparr>ts_Candidates := [c], ts_Path := cd_Path c,
                 ts_ExecutableName := cd_ExecutableName c, ts_Identity := i\<rparr>) tl0 probe) = Inr st"
    by (auto simp: resolveTool_def Healthy_def Let_def split: option.splits list.splits)
  have decl: "cd_ExecutableName c = path_base (cd_Path c)"
    "matchesDeclaredExecutable (cd_ExecutableName c) (tl_ExecutableNames tl0) (rs_goos r)"
    using tool_candidates_declared [OF cands] by (auto simp: declared_candidate_def)
  show ?thesis
  proof (cases "tl_VersionProbe tl0")
    case None
    with rest have "st = state\<lparr>ts_Candidates := [c], ts_Path := cd_Path c,
        ts_ExecutableName := cd_ExecutableName c, ts_Identity := i, ts_Status := StatusReady\<rparr>"
      by simp
    with cands ident decl None show ?thesis by auto
  next
    case (Some probe)
    let ?s = "state\<lparr>ts_Candidates := [c], ts_Path := cd_Path c,
        ts_ExecutableName := cd_ExecutableName c, ts_Identity := i\<rparr>"
    from rest Some have "check_version env ?s tl0 probe = Inr st" by simp
    from check_version_ready [OF this assms(2)] obtain out where
      t: "pe_run env (cd_Path c) probe = Inr out"
        "identity_Matches (pe_sha env) (pe_fs_after env) i (cd_Path c)"
        "parseVersion (pe_lib env) probe out = Inr (ts_Version st)"
        "tl_VersionConstraint tl0 = [] \<or> constraint_check (pe_lib env) (tl_VersionConstraint tl0) (ts_Version st)"
      and st: "st = ?s\<lparr>ts_Version := ts_Version st, ts_Status := StatusReady\<rparr>"
      by auto
    have fields: "ts_Path st = cd_Path c" "ts_ExecutableName st = cd_ExecutableName c" "ts_Identity st = i"
      by (subst st, simp)+
    from cands ident decl t Some show ?thesis
      by (auto simp: fields matches_iff_capture)
  qed
qed

text \<open>A ready tool on a machine with one executable, \<open>/bin/tool\<close>.\<close>

definition sample_file :: file_info where
  "sample_file = \<lparr>fi_File = 7, fi_Regular = True, fi_Symlink = False, fi_AnyExec = True,
     fi_Size = 10, fi_ModTime = 3\<rparr>"

definition sample_fs :: file_system where
  "sample_fs = \<lparr>fs_Lstat = (\<lambda>p. if p = ''/bin/tool'' then Some sample_file else None),
     fs_Stat = (\<lambda>p. if p = ''/bin/tool'' then Some sample_file else None),
     fs_OpenStat = (\<lambda>p. Some sample_file), fs_Content = (\<lambda>p. Some ''code''),
     fs_EvalSymlinks = Some, fs_Abs = Some\<rparr>"

definition sample_lib :: ext_lib where
  "sample_lib = \<lparr>re_compiles = (\<lambda>_. True), re_matches = (\<lambda>_ _. True),
     constraint_valid = (\<lambda>_. True), version_valid = (\<lambda>_. True),
     constraint_check = (\<lambda>c v. v \<noteq> ''0.0.0''), strict_version = Some\<rparr>"

definition sample_env :: probe_env where
  "sample_env = \<lparr>pe_fs = sample_fs, pe_fs_after = sample_fs, pe_sha = id,
     pe_run = (\<lambda>_ _. Inr ''tool v1.2.3''), pe_ctx_done = False, pe_lib = sample_lib\<rparr>"

definition sample_tool :: tool where
  "sample_tool = \<lparr>tl_ExecutableNames = [''tool''],
     tl_VersionProbe = Some \<lparr>vp_Args = [], vp_Parser = ''semver-text'', vp_Prefix = [], vp_TimeoutMillis = 0\<rparr>,
     tl_HelpProbes = [], tl_VersionConstraint = ''>=1.0.0'', tl_SessionCheck = None, tl_Install = None\<rparr>"

definition sample_resolver :: resolver where
  "sample_resolver = \<lparr>rs_goos = ''linux'', rs_pathValue = ''/bin'', rs_fallbackDirs = []\<rparr>"

definition sample_state :: tool_state where
  "sample_state =
     (case resolveTool sample_env sample_resolver (base_state (sample_pack ''p'') ''t'' sample_tool) sample_tool []
      of Inr st \<Rightarrow> st | Inl _ \<Rightarrow> base_state (sample_pack ''p'') ''t'' sample_tool)"

lemma sample_resolution:
  "resolveTool sample_env sample_resolver (base_state (sample_pack ''p'') ''t'' sample_tool) sample_tool []
     = Inr sample_state \<and> Healthy sample_state"
  by code_simp

theorem ready_tool_is_qualified_witness:
  "Healthy sample_state \<and> ts_Path sample_state = ''/bin/tool'' \<and> ts_Version sample_state = ''1.2.3''
     \<and> matchesDeclaredExecutable (ts_ExecutableName sample_state) (tl_ExecutableNames sample_tool) ''linux''"
proof -
  have "ts_Path sample_state = ''/bin/tool'' \<and> ts_Version sample_state = ''1.2.3''" by code_simp
  with ready_tool_is_qualified [OF conjunct1 [OF sample_resolution] conjunct2 [OF sample_resolution]]
  show ?thesis using sample_resolution by (auto simp: sample_resolver_def)
qed

end
