(* ===== verification/GoJson.thy ===== *)
theory GoJson
  imports GoText
begin

section \<open>The parts of encoding/json the program relies on\<close>

text \<open>
  Strings are written as \<open>json.Marshal\<close> writes them (HTML escaping on, malformed UTF-8
  replaced by an escaped U+FFFD) and read as the decoder reads them. The type-directed
  decoders at the end are \<open>Decode\<close> into a string, a 64-bit integer, a boolean and a list
  of strings followed by the program's check that nothing follows; the token machine is
  \<open>Decoder.Token\<close> and \<open>Decoder.More\<close>.
\<close>

subsection \<open>Writing strings\<close>

abbreviation dquote :: char where "dquote \<equiv> CHR 0x22"
abbreviation bslash :: char where "bslash \<equiv> CHR 0x5C"

definition hex_char :: "nat \<Rightarrow> char" where
  "hex_char d = (if d < 10 then char_of (48 + d) else char_of (87 + d))"

definition quote_ascii :: "char \<Rightarrow> string" where
  "quote_ascii c =
     (let b = byte c in
      if b = 0x22 \<or> b = 0x5C then [bslash, c]
      else if b = 0x08 then [bslash, CHR ''b'']
      else if b = 0x0C then [bslash, CHR ''f'']
      else if b = 0x0A then [bslash, CHR ''n'']
      else if b = 0x0D then [bslash, CHR ''r'']
      else if b = 0x09 then [bslash, CHR ''t'']
      else if b < 0x20 \<or> b = 0x3C \<or> b = 0x3E \<or> b = 0x26
      then bslash # ''u00'' @ [hex_char (b div 16), hex_char (b mod 16)]
      else [c])"

fun quote_body :: "string \<Rightarrow> string" where
  "quote_body [] = []"
| "quote_body (c # cs) =
     (if byte c < 0x80 then quote_ascii c @ quote_body cs
      else let rw = decode_rune (c # cs) in
        if rw = (RuneError, 1) then bslash # ''ufffd'' @ quote_body cs
        else if fst rw = 0x2028 \<or> fst rw = 0x2029
        then bslash # ''u202'' @ [hex_char (fst rw mod 16)] @ quote_body (drop (snd rw - 1) cs)
        else take (snd rw) (c # cs) @ quote_body (drop (snd rw - 1) cs))"

definition quote :: "string \<Rightarrow> string" where
  "quote s = dquote # quote_body s @ [dquote]"

subsection \<open>Reading strings\<close>

definition hex_val :: "char \<Rightarrow> nat option" where
  "hex_val c =
     (let b = byte c in
      if 48 \<le> b \<and> b \<le> 57 then Some (b - 48)
      else if 97 \<le> b \<and> b \<le> 102 then Some (b - 87)
      else if 65 \<le> b \<and> b \<le> 70 then Some (b - 55)
      else None)"

fun hex4 :: "string \<Rightarrow> (nat \<times> string) option" where
  "hex4 (a # b # c # d # rest) =
     (case (hex_val a, hex_val b, hex_val c, hex_val d) of
        (Some x, Some y, Some z, Some w) \<Rightarrow> Some (((x * 16 + y) * 16 + z) * 16 + w, rest)
      | _ \<Rightarrow> None)"
| "hex4 _ = None"

definition encode_rune :: "nat \<Rightarrow> string" where
  "encode_rune r0 =
     (let r = (if (0xD800 \<le> r0 \<and> r0 \<le> 0xDFFF) \<or> 0x10FFFF < r0 then RuneError else r0) in
      if r < 0x80 then [char_of r]
      else if r < 0x800 then [char_of (0xC0 + r div 64), char_of (0x80 + r mod 64)]
      else if r < 0x10000
      then [char_of (0xE0 + r div 4096), char_of (0x80 + (r div 64) mod 64), char_of (0x80 + r mod 64)]
      else [char_of (0xF0 + r div 262144), char_of (0x80 + (r div 4096) mod 64),
            char_of (0x80 + (r div 64) mod 64), char_of (0x80 + r mod 64)])"

definition surrogate :: "nat \<Rightarrow> bool" where
  "surrogate r \<longleftrightarrow> 0xD800 \<le> r \<and> r \<le> 0xDFFF"

text \<open>The escape after a backslash: the bytes it stands for and the rest of the input.\<close>

definition unescape_u :: "string \<Rightarrow> (string \<times> string) option" where
  "unescape_u s =
     (case hex4 s of
        None \<Rightarrow> None
      | Some (r, rest) \<Rightarrow>
          if surrogate r then
            (case (if take 2 rest = [bslash, CHR ''u''] then hex4 (drop 2 rest) else None) of
               Some (r2, rest2) \<Rightarrow>
                 if r < 0xDC00 \<and> 0xDC00 \<le> r2 \<and> r2 \<le> 0xDFFF
                 then Some (encode_rune ((r - 0xD800) * 1024 + (r2 - 0xDC00) + 0x10000), rest2)
                 else Some (encode_rune RuneError, rest)
             | None \<Rightarrow> Some (encode_rune RuneError, rest))
          else Some (encode_rune r, rest))"

fun unescape :: "string \<Rightarrow> (string \<times> string) option" where
  "unescape [] = None"
| "unescape (c # cs) =
     (if c = dquote \<or> c = bslash \<or> c = CHR ''/'' then Some ([c], cs)
      else if c = CHR ''b'' then Some ([CHR 0x08], cs)
      else if c = CHR ''f'' then Some ([CHR 0x0C], cs)
      else if c = CHR ''n'' then Some ([CHR 0x0A], cs)
      else if c = CHR ''r'' then Some ([CHR 0x0D], cs)
      else if c = CHR ''t'' then Some ([CHR 0x09], cs)
      else if c = CHR ''u'' then unescape_u cs
      else None)"

lemma hex4_length: "hex4 s = Some (r, t) \<Longrightarrow> length t < length s"
  by (cases s rule: hex4.cases) (auto split: option.splits)

lemma unescape_u_length: "unescape_u s = Some (v, t) \<Longrightarrow> length t < length s"
  by (auto simp: unescape_u_def split: option.splits prod.splits if_splits dest!: hex4_length)

lemma unescape_length: "unescape s = Some (v, t) \<Longrightarrow> length t < length s"
  by (cases s) (auto split: if_splits dest: unescape_u_length)

text \<open>
  A string literal after its opening quote: the decoded bytes and the input after the
  closing quote. Control bytes below 0x20 are refused, malformed UTF-8 is replaced.
\<close>

function lex_string :: "string \<Rightarrow> (string \<times> string) option" where
  "lex_string [] = None"
| "lex_string (c # cs) =
     (if c = dquote then Some ([], cs)
      else if c = bslash then
        (case unescape cs of
           None \<Rightarrow> None
         | Some (out, rest) \<Rightarrow> map_option (\<lambda>(v, t). (out @ v, t)) (lex_string rest))
      else if byte c < 0x20 then None
      else if byte c < 0x80 then map_option (\<lambda>(v, t). (c # v, t)) (lex_string cs)
      else let rw = decode_rune (c # cs);
               out = (if rw = (RuneError, 1) then encode_rune RuneError else take (snd rw) (c # cs))
           in map_option (\<lambda>(v, t). (out @ v, t)) (lex_string (drop (snd rw - 1) cs)))"
  by pat_completeness auto
termination
  by (relation "measure length") (auto dest: unescape_length)

lemma lex_string_length: "lex_string s = Some (v, t) \<Longrightarrow> length t < length s"
proof (induction "length s" arbitrary: s v rule: less_induct)
  case less
  show ?case
  proof (cases s)
    case Nil
    with less.prems show ?thesis by simp
  next
    case (Cons c cs)
    have IH: "length t < length s'" if "lex_string s' = Some (v', t)" "length s' \<le> length cs" for s' v'
      using less.hyps [of s' v'] that Cons by simp
    from less.prems Cons show ?thesis
      by (force simp: Let_def split: if_splits option.splits
          dest: IH unescape_length)
  qed
qed

subsection \<open>Round trip\<close>

lemma decode_rune_take:
  assumes "s \<noteq> []" and "decode_rune s \<noteq> (RuneError, 1)"
  shows "decode_rune (take (snd (decode_rune s)) s @ t) = decode_rune s"
proof (cases s)
  case (Cons c cs)
  consider (one) "byte c < 0x80" | (two) "0xC2 \<le> byte c" "byte c < 0xE0"
    | (three) "0xE0 \<le> byte c" "byte c < 0xF0" | (four) "0xF0 \<le> byte c" "byte c \<le> 0xF4"
    | (bad) "0x80 \<le> byte c" "byte c < 0xC2 \<or> 0xF4 < byte c"
    by linarith
  then show ?thesis
  proof cases
    case one
    with Cons show ?thesis by simp
  next
    case two
    with Cons assms show ?thesis
      by (cases cs) (auto simp: decode_rune.simps(2) Let_def split: if_splits)
  next
    case three
    with Cons assms show ?thesis
      by (cases "(byte c, cs)" rule: decode3.cases) (auto simp: decode_rune.simps(2) Let_def split: if_splits)
  next
    case four
    with Cons assms show ?thesis
      by (cases "(byte c, cs)" rule: decode4.cases) (auto simp: decode_rune.simps(2) Let_def split: if_splits)
  next
    case bad
    with Cons assms show ?thesis by (auto simp: decode_rune.simps(2) Let_def)
  qed
qed (use assms in simp)

lemma sep_bytes: "char_of (226 :: nat) = CHR 0xE2" "char_of (128 :: nat) = CHR 0x80"
  using char_of_byte [of "CHR 0xE2"] char_of_byte [of "CHR 0x80"] by (simp_all add: byte_def)

lemma decode_rune_separator:
  assumes "decode_rune s = (r, w)" and "r = 0x2028 \<or> r = 0x2029"
  shows "take w s = [CHR 0xE2, CHR 0x80, char_of (r - 0x2028 + 0xA8)] \<and> w = 3"
proof (cases s)
  case Nil
  with assms show ?thesis by (simp add: RuneError_def)
next
  case (Cons c cs)
  have not_err: "r \<noteq> RuneError" using assms(2) by (auto simp: RuneError_def)
  consider (one) "byte c < 0x80" | (two) "0xC2 \<le> byte c" "byte c < 0xE0"
    | (three) "0xE0 \<le> byte c" "byte c < 0xF0" | (four) "0xF0 \<le> byte c" "byte c \<le> 0xF4"
    | (bad) "0x80 \<le> byte c" "byte c < 0xC2 \<or> 0xF4 < byte c"
    by linarith
  then show ?thesis
  proof cases
    case one
    with Cons assms show ?thesis by auto
  next
    case two
    with Cons assms not_err show ?thesis
      by (cases cs) (auto simp: decode_rune.simps(2) Let_def cont_byte_def split: if_splits)
  next
    case four
    with Cons assms not_err show ?thesis
      by (cases "(byte c, cs)" rule: decode4.cases) (auto simp: decode_rune.simps(2) Let_def cont_byte_def split: if_splits)
  next
    case bad
    with Cons assms not_err show ?thesis by (auto simp: decode_rune.simps(2) Let_def)
  next
    case three
    with Cons assms not_err obtain c1 c2 rest where cs: "cs = c1 # c2 # rest"
      by (cases "(byte c, cs)" rule: decode3.cases) (auto simp: decode_rune.simps(2) Let_def)
    with Cons three assms not_err
    have r: "r = (byte c - 0xE0) * 4096 + (byte c1 - 0x80) * 64 + (byte c2 - 0x80)" and w: "w = 3"
      and b: "0x80 \<le> byte c1" "byte c1 \<le> 0xBF" "0x80 \<le> byte c2" "byte c2 \<le> 0xBF"
      by (auto simp: decode_rune.simps(2) Let_def cont_byte_def split: if_splits)
    define x y z where "x = byte c - 0xE0" and "y = byte c1 - 0x80" and "z = byte c2 - 0x80"
    have bytes: "byte c = 0xE0 + x" "byte c1 = 0x80 + y" "byte c2 = 0x80 + z"
      and bounds: "y < 64" "z < 64" and sum: "r = x * 4096 + y * 64 + z"
      using r b three by (auto simp: x_def y_def z_def)
    have "x < 3" and "\<not> x < 2" using sum bounds assms(2) by auto
    then have x: "x = 2" by simp
    have "y < 1" using sum x bounds assms(2) by auto
    then have "y = 0" by simp
    with x sum assms(2) have "byte c = 0xE2 \<and> byte c1 = 0x80 \<and> byte c2 = r - 0x2028 + 0xA8"
      by (auto simp: bytes)
    then have "c = char_of (0xE2 :: nat) \<and> c1 = char_of (0x80 :: nat) \<and> c2 = char_of (r - 0x2028 + 0xA8)"
      by (metis char_of_byte)
    with Cons cs w show ?thesis by (simp add: sep_bytes)
  qed
qed

lemma hex_val_hex_char: "d < 16 \<Longrightarrow> hex_val (hex_char d) = Some d"
  by (auto simp: hex_val_def hex_char_def Let_def)

lemma char_eq_byte: "c = char_of n \<longleftrightarrow> byte c = n" if "n < 256"
  using that by (metis byte_char_of char_of_byte)

lemma lex_string_quote_ascii:
  assumes "byte c < 0x80"
  shows "lex_string (quote_ascii c @ t) = map_option (\<lambda>(v, r). (c # v, r)) (lex_string t)"
proof -
  have hex: "hex4 (CHR ''0'' # CHR ''0'' # hex_char (byte c div 16) # hex_char (byte c mod 16) # t)
      = Some (byte c, t)" if "byte c < 0x80"
    using that by (simp add: hex_val_hex_char) (simp add: hex_val_def byte_def)
  have enc: "encode_rune (byte c) = [c]"
    using assms by (simp add: encode_rune_def Let_def)
  have lits: "(byte c = 0x22) = (c = dquote)" "(byte c = 0x5C) = (c = bslash)"
    "(byte c = 0x08) = (c = CHR 0x08)" "(byte c = 0x0C) = (c = CHR 0x0C)"
    "(byte c = 0x0A) = (c = CHR 0x0A)" "(byte c = 0x0D) = (c = CHR 0x0D)"
    "(byte c = 0x09) = (c = CHR 0x09)"
    using byte_inject [of c dquote] byte_inject [of c bslash] byte_inject [of c "CHR 0x08"]
      byte_inject [of c "CHR 0x0C"] byte_inject [of c "CHR 0x0A"] byte_inject [of c "CHR 0x0D"]
      byte_inject [of c "CHR 0x09"]
    by (simp_all add: byte_def)
  show ?thesis
    using hex [OF assms] enc assms
    by (auto simp: quote_ascii_def Let_def lits unescape_u_def surrogate_def)
qed


lemma lex_string_sep_escape:
  assumes "r = 0x2028 \<or> r = 0x2029"
  shows "lex_string (bslash # ''u202'' @ hex_char (r mod 16) # t)
    = map_option (\<lambda>(v, u). ([CHR 0xE2, CHR 0x80, char_of (r - 0x2028 + 0xA8)] @ v, u)) (lex_string t)"
proof -
  have "hex_val CHR ''2'' = Some 2" and "hex_val CHR ''0'' = Some 0"
    by (simp_all add: hex_val_def byte_def)
  with assms have "hex4 (CHR ''2'' # CHR ''0'' # CHR ''2'' # hex_char (r mod 16) # t) = Some (r, t)"
    by (auto simp: hex_val_hex_char)
  moreover from assms have "encode_rune r = [CHR 0xE2, CHR 0x80, char_of (r - 0x2028 + 0xA8)]"
    by (auto simp: encode_rune_def Let_def sep_bytes)
  ultimately show ?thesis
    using assms by (auto simp: unescape_u_def surrogate_def)
qed

lemma lex_string_nonascii:
  assumes "0x80 \<le> byte c" and "decode_rune (c # cs) \<noteq> (RuneError, 1)"
  shows "lex_string (take (snd (decode_rune (c # cs))) (c # cs) @ t)
    = map_option (\<lambda>(v, u). (take (snd (decode_rune (c # cs))) (c # cs) @ v, u)) (lex_string t)"
proof -
  define w where "w = snd (decode_rune (c # cs))"
  have w: "0 < w" "w \<le> Suc (length cs)"
    using decode_rune_width_pos [of "c # cs"] decode_rune_width_le [of "c # cs"] by (simp_all add: w_def)
  obtain k where k: "w = Suc k" using w by (cases w) auto
  have "decode_rune (c # take k cs @ t) = decode_rune (c # cs)"
    using decode_rune_take [OF _ assms(2), of t] by (simp add: k flip: w_def)
  moreover have "c \<noteq> dquote" "c \<noteq> bslash"
    using assms(1) by (auto simp: byte_def)
  ultimately show ?thesis
    using assms w by (simp add: k Let_def flip: w_def)
qed

lemma lex_string_quote_body:
  "valid_utf8 s \<Longrightarrow> lex_string (quote_body s @ dquote # rest) = Some (s, rest)"
proof (induction s rule: quote_body.induct)
  case 1
  show ?case by simp
next
  case (2 c cs)
  show ?case
  proof (cases "byte c < 0x80")
    case True
    with "2.prems" have "valid_utf8 cs"
      by (simp add: valid_utf8_def rune_seq_ascii del: rune_seq.simps(2))
    with "2.IH"(1) True show ?thesis
      by (simp add: lex_string_quote_ascii del: lex_string.simps)
  next
    case False
    define rw where "rw = decode_rune (c # cs)"
    define tl where "tl = drop (snd rw - 1) cs"
    have seq: "rune_seq (c # cs) = rw # rune_seq tl"
      by (simp add: rw_def tl_def Let_def)
    with "2.prems" have ok: "rw \<noteq> (RuneError, 1)" and tl: "valid_utf8 tl"
      by (auto simp: valid_utf8_def)
    have split: "take (snd rw) (c # cs) @ tl = c # cs"
      using decode_rune_width_pos [of "c # cs"] by (cases "snd rw") (simp_all add: tl_def flip: rw_def)
    have IH: "lex_string (quote_body tl @ dquote # rest) = Some (tl, rest)"
      using "2.IH" False ok tl by (simp add: tl_def flip: rw_def) blast
    show ?thesis
    proof (cases "fst rw = 0x2028 \<or> fst rw = 0x2029")
      case True
      have "decode_rune (c # cs) = (fst rw, snd rw)" by (simp add: rw_def)
      from decode_rune_separator [OF this True]
      have take: "take (snd rw) (c # cs) = [CHR 0xE2, CHR 0x80, char_of (fst rw - 0x2028 + 0xA8)]"
        by (rule conjunct1)
      have "quote_body (c # cs) = bslash # ''u202'' @ hex_char (fst rw mod 16) # quote_body tl"
        using False ok True by (simp add: Let_def tl_def flip: rw_def)
      then show ?thesis
        using lex_string_sep_escape [OF True, of "quote_body tl @ dquote # rest"] IH split take
        by (simp del: lex_string.simps)
    next
      case sep: False
      have "quote_body (c # cs) = take (snd rw) (c # cs) @ quote_body tl"
        using False ok sep by (simp add: Let_def tl_def flip: rw_def)
      then show ?thesis
        using lex_string_nonascii [of c cs "quote_body tl @ dquote # rest"] False ok IH split
        by (simp del: lex_string.simps flip: rw_def)
    qed
  qed
qed

theorem lex_quote: "valid_utf8 s \<Longrightarrow> lex_string (tl (quote s) @ rest) = Some (s, rest)"
  by (simp add: quote_def lex_string_quote_body)

text \<open>Two quoted strings followed by anything agree only if the strings and what follows agree.\<close>

lemma quote_append_inject:
  assumes "valid_utf8 s" "valid_utf8 t" "quote s @ u = quote t @ v"
  shows "s = t \<and> u = v"
proof -
  from assms(3) have "quote_body s @ dquote # u = quote_body t @ dquote # v"
    by (simp add: quote_def)
  then have "lex_string (quote_body s @ dquote # u) = lex_string (quote_body t @ dquote # v)"
    by simp
  with assms(1,2) show ?thesis by (simp add: lex_string_quote_body)
qed

lemma decode_rune_bytes:
  assumes "b \<in> set (take (snd (decode_rune (c # cs))) (c # cs))" and "0x80 \<le> byte c"
  shows "0x80 \<le> byte b"
proof -
  consider (two) "0x80 \<le> byte c" "byte c < 0xE0" | (three) "0xE0 \<le> byte c" "byte c < 0xF0"
    | (four) "0xF0 \<le> byte c"
    using assms(2) by linarith
  then show ?thesis
  proof cases
    case two
    with assms show ?thesis
      by (cases cs) (auto simp: decode_rune.simps(2) Let_def cont_byte_def split: if_splits)
  next
    case three
    with assms show ?thesis
      by (cases "(byte c, cs)" rule: decode3.cases)
        (auto simp: decode_rune.simps(2) Let_def cont_byte_def split: if_splits)
  next
    case four
    with assms show ?thesis
      by (cases "(byte c, cs)" rule: decode4.cases)
        (auto simp: decode_rune.simps(2) Let_def cont_byte_def split: if_splits)
  qed
qed

text \<open>A quoted string holds no control byte, so it stays on one line wherever it is inserted.\<close>

lemma quote_no_control: "b \<in> set (quote s) \<Longrightarrow> 0x20 \<le> byte b"
proof -
  have hex: "0x20 \<le> byte (hex_char d)" if "d < 16" for d
    using that by (auto simp: hex_char_def)
  have ascii: "0x20 \<le> byte b" if "b \<in> set (quote_ascii c)" "byte c < 0x80" for b c
    using that hex by (auto simp: quote_ascii_def Let_def byte_def split: if_splits)
  have multi: "0x20 \<le> byte b" if "b \<in> set (take (snd (decode_rune (c # cs))) (c # cs))" "0x80 \<le> byte c"
    for b c cs
    using decode_rune_bytes [OF that] by simp
  have "0x20 \<le> byte b" if "b \<in> set (quote_body s)" for b
    using that
  proof (induction s rule: quote_body.induct)
    case 1
    then show ?case by simp
  next
    case (2 c cs)
    then show ?case
      by (auto simp: Let_def byte_def split: if_splits
          dest: ascii multi intro: hex [unfolded byte_def])
  qed
  then show "b \<in> set (quote s) \<Longrightarrow> 0x20 \<le> byte b"
    by (auto simp: quote_def byte_def)
qed

subsection \<open>Numbers, white space and type-directed decoding\<close>

definition json_ws :: "char \<Rightarrow> bool" where
  "json_ws c \<longleftrightarrow> c = CHR '' '' \<or> c = CHR 0x09 \<or> c = CHR 0x0D \<or> c = CHR 0x0A"

abbreviation skip_ws :: "string \<Rightarrow> string" where
  "skip_ws \<equiv> dropWhile json_ws"

definition digits :: "string \<Rightarrow> string \<times> string" where
  "digits s = (takeWhile is_digit s, dropWhile is_digit s)"

definition lex_exponent :: "string \<Rightarrow> string \<Rightarrow> (string \<times> string) option" where
  "lex_exponent acc s =
     (case s of
        [] \<Rightarrow> Some (acc, [])
      | c # t \<Rightarrow>
          if c = CHR ''e'' \<or> c = CHR ''E'' then
            (let sg = (case t of d # _ \<Rightarrow> if d = CHR ''+'' \<or> d = CHR ''-'' then [d] else [] | [] \<Rightarrow> []);
                 dr = digits (drop (length sg) t)
             in if fst dr = [] then None else Some (acc @ c # sg @ fst dr, snd dr))
          else Some (acc, s))"

definition lex_fraction :: "string \<Rightarrow> string \<Rightarrow> (string \<times> string) option" where
  "lex_fraction acc s =
     (case s of
        [] \<Rightarrow> Some (acc, [])
      | c # t \<Rightarrow>
          if c = CHR ''.'' then
            (let dr = digits t
             in if fst dr = [] then None else lex_exponent (acc @ c # fst dr) (snd dr))
          else lex_exponent acc s)"

definition lex_number :: "string \<Rightarrow> (string \<times> string) option" where
  "lex_number s =
     (let sg = (case s of c # _ \<Rightarrow> if c = CHR ''-'' then [c] else [] | [] \<Rightarrow> []);
          t = drop (length sg) s
      in case t of
           [] \<Rightarrow> None
         | c # u \<Rightarrow>
             if c = CHR ''0'' then lex_fraction (sg @ [c]) u
             else if is_digit c then lex_fraction (sg @ fst (digits t)) (snd (digits t))
             else None)"

fun nat_of_digits :: "nat \<Rightarrow> string \<Rightarrow> nat" where
  "nat_of_digits acc [] = acc"
| "nat_of_digits acc (c # cs) = nat_of_digits (acc * 10 + (byte c - 48)) cs"

lemma nat_of_digits_append: "nat_of_digits a (xs @ ys) = nat_of_digits (nat_of_digits a xs) ys"
  by (induction xs arbitrary: a) simp_all

lemma nat_of_digits_show_nat: "nat_of_digits 0 (show_nat n) = n"
proof (induction n rule: show_nat.induct)
  case (1 n)
  show ?case
  proof (cases "n < 10")
    case True
    then show ?thesis by (subst show_nat.simps) (simp add: byte_digit_char)
  next
    case False
    with 1 show ?thesis by (subst show_nat.simps) (simp add: nat_of_digits_append byte_digit_char)
  qed
qed

text \<open>\<open>strconv.ParseInt(lit, 10, 64)\<close> on a JSON number literal.\<close>

definition int64_min :: int where "int64_min = - (2 ^ 63)"
definition int64_max :: int where "int64_max = 2 ^ 63 - 1"

definition parse_int64 :: "string \<Rightarrow> int option" where
  "parse_int64 lit =
     (let neg = (take 1 lit = ''-''); ds = (if neg then drop 1 lit else lit)
      in if ds = [] \<or> \<not> list_all is_digit ds then None
         else let v = (if neg then - int (nat_of_digits 0 ds) else int (nat_of_digits 0 ds))
              in if int64_min \<le> v \<and> v \<le> int64_max then Some v else None)"

lemma parse_int64_range: "parse_int64 lit = Some v \<Longrightarrow> int64_min \<le> v \<and> v \<le> int64_max"
  by (auto simp: parse_int64_def Let_def split: if_splits)

text \<open>A scalar value, as the scanner delimits it.\<close>

datatype scalar = SNull | SBool bool | SNum string | SStr string

definition lex_scalar :: "string \<Rightarrow> (scalar \<times> string) option" where
  "lex_scalar s =
     (case s of
        [] \<Rightarrow> None
      | c # t \<Rightarrow>
          if c = dquote then map_option (\<lambda>(v, r). (SStr v, r)) (lex_string t)
          else if has_prefix ''null'' s then Some (SNull, drop 4 s)
          else if has_prefix ''true'' s then Some (SBool True, drop 4 s)
          else if has_prefix ''false'' s then Some (SBool False, drop 5 s)
          else map_option (\<lambda>(v, r). (SNum v, r)) (lex_number s))"

text \<open>
  The program's \<open>strictJSON\<close>: decode one value into the target, then require end of input.
  Whatever is neither the target's kind nor null is an error of \<open>Decode\<close>; null leaves the
  target at its zero value.
\<close>

definition strict_scalar :: "string \<Rightarrow> scalar option" where
  "strict_scalar raw =
     (case lex_scalar (skip_ws raw) of
        None \<Rightarrow> None
      | Some (v, rest) \<Rightarrow> if skip_ws rest = [] then Some v else None)"

definition strict_string :: "string \<Rightarrow> string option" where
  "strict_string raw =
     (case strict_scalar raw of Some (SStr v) \<Rightarrow> Some v | Some SNull \<Rightarrow> Some [] | _ \<Rightarrow> None)"

definition strict_int64 :: "string \<Rightarrow> int option" where
  "strict_int64 raw =
     (case strict_scalar raw of Some (SNum v) \<Rightarrow> parse_int64 v | Some SNull \<Rightarrow> Some 0 | _ \<Rightarrow> None)"

definition strict_bool :: "string \<Rightarrow> bool option" where
  "strict_bool raw =
     (case strict_scalar raw of Some (SBool v) \<Rightarrow> Some v | Some SNull \<Rightarrow> Some False | _ \<Rightarrow> None)"

lemma lex_number_shorter:
  "lex_number s = Some (v, r) \<Longrightarrow> length r < length s"
proof -
  have exp: "length r \<le> length s" if "lex_exponent a s = Some (v, r)" for a s v r
    using that length_dropWhile_le [of is_digit]
    by (auto simp: lex_exponent_def digits_def Let_def split: list.splits if_splits
        intro: le_SucI order_trans)
  have frac: "length r \<le> length s" if "lex_fraction a s = Some (v, r)" for a s v r
  proof -
    have "length r \<le> Suc (length t)" if "lex_exponent b (dropWhile is_digit t) = Some (v, r)" for b t
      using exp [OF that] length_dropWhile_le [of is_digit t] by simp
    with that show ?thesis
      by (auto simp: lex_fraction_def digits_def Let_def split: list.splits if_splits dest: exp)
  qed
  have fdig: "length r \<le> length t" if "lex_fraction b (dropWhile is_digit t) = Some (v, r)" for b t
    using frac [OF that] length_dropWhile_le [of is_digit t] by simp
  assume "lex_number s = Some (v, r)"
  then show "length r < length s"
    by (auto simp: lex_number_def digits_def Let_def split: list.splits if_splits
        dest!: fdig dest: frac intro: le_imp_less_Suc le_SucI)
qed

lemma lex_scalar_length: "lex_scalar s = Some (v, r) \<Longrightarrow> length r < length s"
  by (auto simp: lex_scalar_def split: list.splits if_splits
      dest: lex_string_length lex_number_shorter)

text \<open>Decoding an array of strings: every element a string, or null for the empty string.\<close>

definition string_of_scalar :: "scalar \<Rightarrow> string option" where
  "string_of_scalar v = (case v of SStr t \<Rightarrow> Some t | SNull \<Rightarrow> Some [] | _ \<Rightarrow> None)"

function lex_elements :: "string \<Rightarrow> (string list \<times> string) option" where
  "lex_elements s =
     (case lex_scalar (skip_ws s) of
        None \<Rightarrow> None
      | Some (sc, r) \<Rightarrow>
          (case (string_of_scalar sc, skip_ws r) of
             (Some v, c # t) \<Rightarrow>
               if c = CHR '']'' then Some ([v], t)
               else if c = CHR '','' then map_option (\<lambda>(vs, u). (v # vs, u)) (lex_elements t)
               else None
           | _ \<Rightarrow> None))"
  by pat_completeness auto
termination
proof (relation "measure length", goal_cases)
  case 1
  show ?case by simp
next
  case (2 s p sc r q v l c t)
  then have "lex_scalar (skip_ws s) = Some (sc, r)" and eq: "skip_ws r = c # t" by simp_all
  then have "length r < length s"
    using lex_scalar_length [of "skip_ws s" sc r] length_dropWhile_le [of json_ws s] by simp
  moreover have "length (c # t) \<le> length r"
    using length_dropWhile_le [of json_ws r] eq by simp
  ultimately show ?case by simp
qed

declare lex_elements.simps [simp del]

definition strict_string_list :: "string \<Rightarrow> string list option" where
  "strict_string_list raw =
     (case skip_ws raw of
        [] \<Rightarrow> None
      | c # t \<Rightarrow>
          if c = CHR ''['' then
            (case (case skip_ws t of d # u \<Rightarrow> if d = CHR '']'' then Some ([], u) else lex_elements t
                   | [] \<Rightarrow> None) of
               None \<Rightarrow> None
             | Some (vs, r) \<Rightarrow> if skip_ws r = [] then Some vs else None)
          else None)"

subsection \<open>The token machine\<close>

datatype token = TDelim char | TStr string | TNum string | TBool bool | TNull

datatype tstate = TopValue | ArrayStart | ArrayValue | ArrayComma
  | ObjectStart | ObjectKey | ObjectColon | ObjectValue | ObjectComma

record decoder =
  d_rest :: string
  d_state :: tstate
  d_stack :: "tstate list"

datatype token_result = TokEOF | TokErr | Tok token decoder

definition new_decoder :: "string \<Rightarrow> decoder" where
  "new_decoder s = \<lparr>d_rest = s, d_state = TopValue, d_stack = []\<rparr>"

definition value_allowed :: "tstate \<Rightarrow> bool" where
  "value_allowed st \<longleftrightarrow> st = TopValue \<or> st = ArrayStart \<or> st = ArrayValue \<or> st = ObjectValue"

definition value_end :: "tstate \<Rightarrow> tstate" where
  "value_end st =
     (if st = ArrayStart \<or> st = ArrayValue then ArrayComma
      else if st = ObjectValue then ObjectComma else st)"

definition pop_token :: "tstate list \<Rightarrow> string \<Rightarrow> char \<Rightarrow> token_result" where
  "pop_token stk rest c =
     (case stk of
        [] \<Rightarrow> TokErr
      | st # below \<Rightarrow> Tok (TDelim c) \<lparr>d_rest = rest, d_state = value_end st, d_stack = below\<rparr>)"

definition scalar_token :: "scalar \<Rightarrow> token" where
  "scalar_token v = (case v of SNull \<Rightarrow> TNull | SBool b \<Rightarrow> TBool b | SNum n \<Rightarrow> TNum n | SStr t \<Rightarrow> TStr t)"

definition token_at :: "tstate \<Rightarrow> tstate list \<Rightarrow> char \<Rightarrow> string \<Rightarrow> token_result" where
  "token_at st stk c cs =
     (if c = CHR ''['' \<or> c = CHR ''{'' then
        (if value_allowed st
         then Tok (TDelim c) \<lparr>d_rest = cs, d_state = (if c = CHR ''['' then ArrayStart else ObjectStart),
                              d_stack = st # stk\<rparr>
         else TokErr)
      else if c = CHR '']'' then
        (if st = ArrayStart \<or> st = ArrayComma then pop_token stk cs c else TokErr)
      else if c = CHR ''}'' then
        (if st = ObjectStart \<or> st = ObjectComma then pop_token stk cs c else TokErr)
      else if c = dquote \<and> (st = ObjectStart \<or> st = ObjectKey) then
        (case lex_string cs of
           None \<Rightarrow> TokErr
         | Some (k, r) \<Rightarrow> Tok (TStr k) \<lparr>d_rest = r, d_state = ObjectColon, d_stack = stk\<rparr>)
      else if value_allowed st then
        (case lex_scalar (c # cs) of
           None \<Rightarrow> TokErr
         | Some (v, r) \<Rightarrow> Tok (scalar_token v) \<lparr>d_rest = r, d_state = value_end st, d_stack = stk\<rparr>)
      else TokErr)"

fun token_from :: "tstate \<Rightarrow> tstate list \<Rightarrow> string \<Rightarrow> token_result" where
  "token_from st stk [] = TokEOF"
| "token_from st stk (c # cs) =
     (if json_ws c then token_from st stk cs
      else if c = CHR '':'' then
        (if st = ObjectColon then token_from ObjectValue stk cs else TokErr)
      else if c = CHR '','' then
        (if st = ArrayComma then token_from ArrayValue stk cs
         else if st = ObjectComma then token_from ObjectKey stk cs else TokErr)
      else token_at st stk c cs)"

definition next_token :: "decoder \<Rightarrow> token_result" where
  "next_token d = token_from (d_state d) (d_stack d) (d_rest d)"

definition has_more :: "decoder \<Rightarrow> bool" where
  "has_more d = (case skip_ws (d_rest d) of [] \<Rightarrow> False | c # _ \<Rightarrow> c \<noteq> CHR '']'' \<and> c \<noteq> CHR ''}'')"

lemma pop_token_rest: "pop_token stk cs c = Tok t d \<Longrightarrow> d_rest d = cs"
  by (auto simp: pop_token_def split: list.splits)

lemma token_at_shorter: "token_at st stk c cs = Tok t d \<Longrightarrow> length (d_rest d) < Suc (length cs)"
  unfolding token_at_def
  by (split if_split_asm option.split_asm prod.split_asm;
      auto split: if_split_asm option.split_asm prod.split_asm
        dest: pop_token_rest lex_string_length lex_scalar_length)

lemma token_from_shorter:
  "token_from st stk s = Tok t d \<Longrightarrow> length (d_rest d) < length s"
  by (induction st stk s rule: token_from.induct)
    (auto split: if_splits dest: token_at_shorter intro: less_SucI)

lemma next_token_shorter: "next_token d = Tok t d' \<Longrightarrow> length (d_rest d') < length (d_rest d)"
  unfolding next_token_def by (rule token_from_shorter)

end
