(* ===== verification/Planner.thy ===== *)
theory Planner
  imports Discovery GoJson
begin

section \<open>The planner (internal/planner/planner.go)\<close>

text \<open>
  \<open>Build\<close> turns a browser request (a pack, a command and raw JSON values) into the exact
  plan that is previewed, approved and executed: it resolves the command against the
  registry and the discovery snapshot, checks policy, parses every declared input, and
  renders the arguments and standard input. Errors carry the code and path of the source;
  a Go nil registry is \<open>None\<close>.
\<close>

datatype planner_code = ErrUnknownPack | ErrUnknownCommand | ErrToolUnavailable | ErrStaleDiscovery
  | ErrUnknownInput | ErrMissingInput | ErrInvalidInput | ErrRiskPolicy | ErrAuthPolicy
  | ErrOutputPolicy | ErrInvalidPlanState

record planner_error =
  ple_Code :: planner_code
  ple_Path :: string

abbreviation planner_err :: "planner_code \<Rightarrow> string \<Rightarrow> planner_error" where
  "planner_err code path \<equiv> \<lparr>ple_Code = code, ple_Path = path\<rparr>"

record plan_request =
  prq_PackID :: string
  prq_CommandID :: string
  prq_Values :: "string dict"

record mutation_impact =
  mi_TargetLabel :: string
  mi_Target :: string
  mi_Effect :: string
  mi_Scope :: impact_scope

record plan =
  pl_PackID :: string
  pl_PackVersion :: string
  pl_CommandID :: string
  pl_ToolID :: string
  pl_ExecutablePath :: string
  pl_ExecutableName :: string
  pl_Identity :: executable_identity
  pl_ToolVersion :: string
  pl_Args :: "string list"
  pl_Stdin :: string
  pl_StdinSensitive :: bool
  pl_Risk :: risk
  pl_Impact :: "mutation_impact option"
  pl_Output :: output_spec
  pl_Requirements :: requirements

record pvalue =
  pv_present :: bool
  pv_text :: string
  pv_argument :: string
  pv_boolean :: bool
  pv_many :: "string list"

definition no_value :: pvalue where
  "no_value = \<lparr>pv_present = False, pv_text = [], pv_argument = [], pv_boolean = False, pv_many = []\<rparr>"

subsection \<open>Parsing one value\<close>

definition below_min :: "int option \<Rightarrow> int \<Rightarrow> bool" where
  "below_min lo n = (case lo of None \<Rightarrow> False | Some l \<Rightarrow> n < l)"

definition above_max :: "int option \<Rightarrow> int \<Rightarrow> bool" where
  "above_max hi n = (case hi of None \<Rightarrow> False | Some h \<Rightarrow> h < n)"

definition validateString :: "ext_lib \<Rightarrow> input \<Rightarrow> string \<Rightarrow> string \<Rightarrow> planner_error option" where
  "validateString lib inp text0 path =
     (let v = in_Validation inp; len = int (rune_count text0) in
      if NUL \<in> set text0 then Some (planner_err ErrInvalidInput path)
      else if below_min (iv_MinLength v) len then Some (planner_err ErrInvalidInput path)
      else if above_max (iv_MaxLength v) len then Some (planner_err ErrInvalidInput path)
      else if iv_Pattern v \<noteq> [] \<and> \<not> re_compiles lib (iv_Pattern v)
      then Some (planner_err ErrInvalidPlanState path)
      else if iv_Pattern v \<noteq> [] \<and> \<not> re_matches lib (iv_Pattern v) text0
      then Some (planner_err ErrInvalidInput path)
      else if iv_DisallowLeadingDash v \<and> starts_dash text0 then Some (planner_err ErrInvalidInput path)
      else if in_Type inp = InputEnum \<and> text0 \<notin> set (iv_Enum v) then Some (planner_err ErrInvalidInput path)
      else None)"

fun multiselect_ok :: "string list \<Rightarrow> string list \<Rightarrow> string list \<Rightarrow> bool" where
  "multiselect_ok allowed seen [] = True"
| "multiselect_ok allowed seen (x # xs) =
     (x \<in> set allowed \<and> x \<notin> set seen \<and> multiselect_ok allowed (x # seen) xs)"

definition show_bool :: "bool \<Rightarrow> string" where
  "show_bool b = (if b then ''true'' else ''false'')"

definition parseValue :: "ext_lib \<Rightarrow> input \<Rightarrow> string \<Rightarrow> planner_error + pvalue" where
  "parseValue lib inp raw =
     (let path = ''values.'' @ in_ID inp; trimmed = trim_space raw;
          text_value = (case strict_string raw of
              None \<Rightarrow> Inl (planner_err ErrInvalidInput path)
            | Some t \<Rightarrow> bindE (liftE (validateString lib inp t path))
                (\<lambda>_. Inr (no_value\<lparr>pv_present := True, pv_text := t, pv_argument := t\<rparr>)))
      in if trimmed = [] \<or> trimmed = ''null'' then Inl (planner_err ErrInvalidInput path)
      else case in_Type inp of
        InputString \<Rightarrow> text_value
      | InputEnum \<Rightarrow> text_value
      | InputSecret \<Rightarrow> text_value
      | InputInteger \<Rightarrow>
          (case strict_int64 raw of
             None \<Rightarrow> Inl (planner_err ErrInvalidInput path)
           | Some n \<Rightarrow>
               if below_min (iv_Min (in_Validation inp)) n then Inl (planner_err ErrInvalidInput path)
               else if above_max (iv_Max (in_Validation inp)) n then Inl (planner_err ErrInvalidInput path)
               else Inr (no_value\<lparr>pv_present := True, pv_argument := show_int n\<rparr>))
      | InputBoolean \<Rightarrow>
          (case strict_bool raw of
             None \<Rightarrow> Inl (planner_err ErrInvalidInput path)
           | Some b \<Rightarrow> Inr (no_value\<lparr>pv_present := True, pv_boolean := b, pv_argument := show_bool b\<rparr>))
      | InputMultiselect \<Rightarrow>
          (case strict_string_list raw of
             None \<Rightarrow> Inl (planner_err ErrInvalidInput path)
           | Some many \<Rightarrow>
               if multiselect_ok (iv_Enum (in_Validation inp)) [] many
               then Inr (no_value\<lparr>pv_present := True, pv_many := many\<rparr>)
               else Inl (planner_err ErrInvalidInput path))
      | InputOther _ \<Rightarrow> Inl (planner_err ErrInvalidPlanState path))"

text \<open>The loop over the declared inputs.\<close>

fun parse_inputs ::
    "ext_lib \<Rightarrow> string dict \<Rightarrow> input list \<Rightarrow> pvalue dict \<Rightarrow> planner_error + pvalue dict" where
  "parse_inputs lib vals [] acc = Inr acc"
| "parse_inputs lib vals (inp # inps) acc =
     (case get vals (in_ID inp) of
        None \<Rightarrow>
          if in_Required inp then Inl (planner_err ErrMissingInput (''values.'' @ in_ID inp))
          else parse_inputs lib vals inps (AList.update (in_ID inp) no_value acc)
      | Some raw \<Rightarrow>
          bindE (parseValue lib inp raw)
            (\<lambda>v. parse_inputs lib vals inps (AList.update (in_ID inp) v acc)))"

definition unknown_inputs :: "command \<Rightarrow> string dict \<Rightarrow> string list" where
  "unknown_inputs cmd vals =
     sort (filter (\<lambda>k. k \<notin> set (map in_ID (cm_Inputs cmd))) (remdups (map fst vals)))"

subsection \<open>Impact, arguments, standard input\<close>

definition deriveMutationImpact ::
    "command \<Rightarrow> pvalue dict \<Rightarrow> planner_error + mutation_impact option" where
  "deriveMutationImpact cmd values =
     (case cm_Impact cmd of
        None \<Rightarrow> Inr None
      | Some im \<Rightarrow>
          (case get values (im_TargetInput im) of
             None \<Rightarrow> Inl (planner_err ErrInvalidPlanState ''commandId'')
           | Some v \<Rightarrow>
               let target = pv_argument v; path = ''values.'' @ im_TargetInput im in
               if \<not> pv_present v \<or> target = [] then Inl (planner_err ErrInvalidPlanState ''commandId'')
               else if \<not> valid_utf8 target \<or> trim_space target \<noteq> target
               then Inl (planner_err ErrInvalidInput path)
               else if \<exists>r \<in> set (runes target). unsafe_rune r then Inl (planner_err ErrInvalidInput path)
               else Inr (Some \<lparr>mi_TargetLabel = im_TargetLabel im, mi_Target = target,
                               mi_Effect = im_Effect im, mi_Scope = im_Scope im\<rparr>)))"

definition value_args :: "pvalue option \<Rightarrow> bool \<Rightarrow> string list \<Rightarrow> string \<Rightarrow> planner_error + string list" where
  "value_args src omit front path =
     (case src of
        None \<Rightarrow> Inl (planner_err ErrInvalidPlanState path)
      | Some v \<Rightarrow>
          if \<not> pv_present v \<or> (omit \<and> pv_argument v = []) then Inr []
          else Inr (front @ [pv_argument v]))"

definition render_argument :: "argument \<Rightarrow> pvalue dict \<Rightarrow> string \<Rightarrow> planner_error + string list" where
  "render_argument arg values path =
     (if ar_Literal arg \<noteq> [] then Inr [ar_Literal arg]
      else case ar_Flag arg of
        Some f \<Rightarrow> value_args (get values (fl_ValueFrom f)) (fl_OmitWhenEmpty f) [fl_Name f] path
      | None \<Rightarrow>
      (case ar_Positional arg of
        Some p \<Rightarrow> value_args (get values (po_ValueFrom p)) (po_OmitWhenEmpty p) [] path
      | None \<Rightarrow>
      (case ar_Switch arg of
        Some s \<Rightarrow>
          (case get values (sw_EnabledFrom s) of
             None \<Rightarrow> Inl (planner_err ErrInvalidPlanState path)
           | Some v \<Rightarrow> Inr (if pv_present v \<and> pv_boolean v then [sw_Name s] else []))
      | None \<Rightarrow>
      (case ar_Map arg of
        Some m \<Rightarrow>
          (case get values (mp_ValueFrom m) of
             None \<Rightarrow> Inl (planner_err ErrInvalidPlanState path)
           | Some v \<Rightarrow>
               if \<not> pv_present v then Inl (planner_err ErrInvalidPlanState path)
               else (case get (mp_Values m) (pv_text v) of
                       None \<Rightarrow> Inl (planner_err ErrInvalidPlanState path)
                     | Some mapped \<Rightarrow> Inr [mapped]))
      | None \<Rightarrow> Inl (planner_err ErrInvalidPlanState path)))))"

fun render_argv :: "string \<Rightarrow> nat \<Rightarrow> pvalue dict \<Rightarrow> argument list \<Rightarrow> planner_error + string list" where
  "render_argv cid i values [] = Inr []"
| "render_argv cid i values (arg # rest) =
     bindE (render_argument arg values (''commands.'' @ cid @ ''.argv['' @ show_nat i @ '']''))
       (\<lambda>xs. bindE (render_argv cid (Suc i) values rest) (\<lambda>ys. Inr (xs @ ys)))"

definition render_hole :: "command \<Rightarrow> pvalue dict \<Rightarrow> string \<Rightarrow> string option" where
  "render_hole cmd values n =
     (case get values n of
        None \<Rightarrow> None
      | Some v \<Rightarrow>
          if \<not> pv_present v then None
          else if (case get (declared_inputs cmd) n of None \<Rightarrow> False | Some inp \<Rightarrow> in_Type inp = InputEnum)
          then Some (pv_text v) else Some (quote (pv_argument v)))"

fun render_segments :: "command \<Rightarrow> pvalue dict \<Rightarrow> segment list \<Rightarrow> string option" where
  "render_segments cmd values [] = Some []"
| "render_segments cmd values (Plain c # ss) = map_option (Cons c) (render_segments cmd values ss)"
| "render_segments cmd values (Hole n # ss) =
     (case (render_hole cmd values n, render_segments cmd values ss) of
        (Some x, Some y) \<Rightarrow> Some (x @ y) | _ \<Rightarrow> None)"

definition renderStdin :: "command \<Rightarrow> pvalue dict \<Rightarrow> planner_error + string" where
  "renderStdin cmd values =
     (case cm_Stdin cmd of
        None \<Rightarrow> Inr []
      | Some sin \<Rightarrow>
          if si_Input sin \<noteq> [] then
            (case get values (si_Input sin) of
               None \<Rightarrow> Inl (planner_err ErrInvalidPlanState ''commandId'')
             | Some v \<Rightarrow> if pv_present v then Inr (pv_text v)
                         else Inl (planner_err ErrInvalidPlanState ''commandId''))
          else (case render_segments cmd values (template_segments (si_YAMLTemplate sin)) of
                  None \<Rightarrow> Inl (planner_err ErrInvalidPlanState ''commandId'')
                | Some t \<Rightarrow> Inr t))"

subsection \<open>Policy and tool state\<close>

definition command_policy :: "command \<Rightarrow> planner_error option" where
  "command_policy cmd =
     (if cm_Risk cmd \<noteq> RiskRead \<and> \<not> is_mutation (cm_Risk cmd)
      then Some (planner_err ErrRiskPolicy ''commandId'')
      else if is_mutation (cm_Risk cmd) \<and> cm_Impact cmd = None
      then Some (planner_err ErrInvalidPlanState ''commandId'')
      else if rq_RequiresAuth (cm_Requirements cmd)
           \<and> rq_AuthMode (cm_Requirements cmd) \<noteq> AuthModeVendorSession
      then Some (planner_err ErrAuthPolicy ''commandId'')
      else if se_ContainsSecrets (ou_Sensitivity (cm_Output cmd))
      then Some (planner_err ErrOutputPolicy ''commandId'')
      else None)"

definition usable_tool :: "snapshot \<Rightarrow> string \<Rightarrow> string \<Rightarrow> string \<Rightarrow> planner_error + tool_state" where
  "usable_tool snap packID packVersion toolID =
     (case Find snap (ToolRef packID toolID) of
        None \<Rightarrow> Inl (planner_err ErrToolUnavailable ''tool'')
      | Some st \<Rightarrow>
          if ts_PackVersion st \<noteq> packVersion then Inl (planner_err ErrStaleDiscovery ''tool'')
          else if ts_Status st \<noteq> StatusReady \<or> ts_Path st = [] then Inl (planner_err ErrToolUnavailable ''tool'')
          else if \<not> identity_Valid (ts_Identity st) then Inl (planner_err ErrStaleDiscovery ''tool'')
          else Inr st)"

definition make_plan ::
    "plan_request \<Rightarrow> loaded_pack \<Rightarrow> command \<Rightarrow> tool_state \<Rightarrow> mutation_impact option
      \<Rightarrow> string list \<Rightarrow> string \<Rightarrow> plan" where
  "make_plan req p cmd st imp args sin =
     \<lparr>pl_PackID = prq_PackID req, pl_PackVersion = md_Version (pk_Metadata (lp_Pack p)),
      pl_CommandID = prq_CommandID req, pl_ToolID = cm_Tool cmd, pl_ExecutablePath = ts_Path st,
      pl_ExecutableName = ts_ExecutableName st, pl_Identity = ts_Identity st,
      pl_ToolVersion = ts_Version st, pl_Args = args, pl_Stdin = sin,
      pl_StdinSensitive = (case cm_Stdin cmd of None \<Rightarrow> False | Some s \<Rightarrow> si_Input s \<noteq> []),
      pl_Risk = cm_Risk cmd, pl_Impact = imp, pl_Output = cm_Output cmd,
      pl_Requirements = cm_Requirements cmd\<rparr>"

definition Build ::
    "ext_lib \<Rightarrow> registry option \<Rightarrow> snapshot \<Rightarrow> plan_request \<Rightarrow> planner_error + plan" where
  "Build lib reg0 snap req =
     (case reg0 of
        None \<Rightarrow> Inl (planner_err ErrInvalidPlanState [])
      | Some reg \<Rightarrow>
     (case FindPack reg (prq_PackID req) of
        None \<Rightarrow> Inl (planner_err ErrUnknownPack ''packId'')
      | Some p \<Rightarrow>
     (case FindCommand reg (prq_PackID req) (prq_CommandID req) of
        None \<Rightarrow> Inl (planner_err ErrUnknownCommand ''commandId'')
      | Some cmd \<Rightarrow>
          bindE (liftE (command_policy cmd)) (\<lambda>_.
          bindE (usable_tool snap (prq_PackID req) (md_Version (pk_Metadata (lp_Pack p))) (cm_Tool cmd)) (\<lambda>st.
          case unknown_inputs cmd (prq_Values req) of
            u # _ \<Rightarrow> Inl (planner_err ErrUnknownInput (''values.'' @ u))
          | [] \<Rightarrow>
          bindE (parse_inputs lib (prq_Values req) (cm_Inputs cmd) []) (\<lambda>values.
          bindE (deriveMutationImpact cmd values) (\<lambda>imp.
          bindE (render_argv (prq_CommandID req) 0 values (cm_Argv cmd)) (\<lambda>args.
          bindE (renderStdin cmd values) (\<lambda>sin.
          Inr (make_plan req p cmd st imp args sin))))))))))"

end
