(* ===== verification/Samples.thy ===== *)
theory Samples
  imports Planner Registry
begin

section \<open>A sample pack\<close>

text \<open>
  The concrete pack the witnesses run on: one tool with a portable install, a command that
  sends a secret on its standard input, one that renders a policy document, and a
  read-only one; and a machine on which discovery found the tool ready.
\<close>

definition text_rules :: input_validation where
  "text_rules = \<lparr>iv_Min = None, iv_Max = None, iv_MinLength = None, iv_MaxLength = Some 64,
     iv_Pattern = [], iv_Enum = [], iv_DisallowLeadingDash = True\<rparr>"

definition integer_rules :: input_validation where
  "integer_rules = \<lparr>iv_Min = Some 1, iv_Max = Some 100, iv_MinLength = None, iv_MaxLength = None,
     iv_Pattern = [], iv_Enum = [], iv_DisallowLeadingDash = False\<rparr>"

definition name_input :: input where
  "name_input = \<lparr>in_ID = ''name'', in_Type = InputString, in_Label = ''Name'', in_Required = True,
     in_Validation = text_rules\<rparr>"

definition secret_input :: input where
  "secret_input = \<lparr>in_ID = ''value'', in_Type = InputSecret, in_Label = ''Value'', in_Required = True,
     in_Validation = text_rules\<rparr>"

definition limit_input :: input where
  "limit_input = \<lparr>in_ID = ''limit'', in_Type = InputInteger, in_Label = ''Limit'', in_Required = False,
     in_Validation = integer_rules\<rparr>"

definition no_argument :: argument where
  "no_argument = \<lparr>ar_Literal = [], ar_Flag = None, ar_Switch = None, ar_Map = None, ar_Positional = None\<rparr>"

definition plain_output :: output_spec where
  "plain_output = \<lparr>ou_Mode = OutputRaw, ou_Renderer = [], ou_Structured = None,
     ou_Sensitivity = \<lparr>se_ContainsSecrets = False, se_PersistRawOutput = False, se_RevealByDefault = False\<rparr>\<rparr>"

definition session_required :: requirements where
  "session_required = \<lparr>rq_RequiresAuth = True, rq_AuthMode = AuthModeVendorSession\<rparr>"

definition set_secret :: command where
  "set_secret = \<lparr>cm_Name = ''Set'', cm_Description = [], cm_Tool = ''t'', cm_Risk = RiskChange,
     cm_Impact = Some \<lparr>im_TargetInput = ''name'', im_TargetLabel = ''Variable'', im_Effect = ''Sets its value'',
       im_Scope = ImpactScopeSingle\<rparr>,
     cm_Stdin = Some \<lparr>si_Input = ''value'', si_YAMLTemplate = []\<rparr>,
     cm_Inputs = [name_input, secret_input, limit_input],
     cm_Argv = [no_argument\<lparr>ar_Literal := ''set''\<rparr>,
       no_argument\<lparr>ar_Positional := Some \<lparr>po_ValueFrom = ''name'', po_OmitWhenEmpty = False\<rparr>\<rparr>,
       no_argument\<lparr>ar_Flag := Some \<lparr>fl_Name = ''--limit'', fl_ValueFrom = ''limit'', fl_OmitWhenEmpty = True\<rparr>\<rparr>],
     cm_Output = plain_output, cm_Requirements = session_required\<rparr>"

definition load_policy :: command where
  "load_policy = \<lparr>cm_Name = ''Load'', cm_Description = [], cm_Tool = ''t'', cm_Risk = RiskDestructive,
     cm_Impact = Some \<lparr>im_TargetInput = ''name'', im_TargetLabel = ''Policy'', im_Effect = ''Replaces it'',
       im_Scope = ImpactScopeMultiple\<rparr>,
     cm_Stdin = Some \<lparr>si_Input = [], si_YAMLTemplate = ''- !delete'' @ CHR 0x0A # ''  record: {{name}}''\<rparr>,
     cm_Inputs = [name_input], cm_Argv = [no_argument\<lparr>ar_Literal := ''load''\<rparr>],
     cm_Output = plain_output, cm_Requirements = session_required\<rparr>"

definition list_names :: command where
  "list_names = \<lparr>cm_Name = ''List'', cm_Description = [], cm_Tool = ''t'', cm_Risk = RiskRead,
     cm_Impact = None, cm_Stdin = None, cm_Inputs = [],
     cm_Argv = [no_argument\<lparr>ar_Literal := ''list''\<rparr>],
     cm_Output = plain_output, cm_Requirements = session_required\<rparr>"

definition sample_digest :: string where
  "sample_digest = replicate 64 CHR ''a''"

definition sample_artifact :: install_artifact where
  "sample_artifact = \<lparr>ia_URL = ''https://downloads.example.com/tool.zip'', ia_SHA256 = sample_digest,
     ia_SizeBytes = 1000, ia_Format = InstallFormatZIP, ia_ExecutableName = ''tool'',
     ia_ArchivePath = ''dist/tool'', ia_ExecutableSHA256 = sample_digest, ia_ExecutableSizeBytes = 2000,
     ia_RedirectHosts = [''cdn.example.com'']\<rparr>"

definition vault_tool :: tool where
  "vault_tool = sample_tool\<lparr>tl_Install := Some \<lparr>ti_Version = ''1.2.3'',
     ti_Artifacts = [(''linux-amd64'', sample_artifact)]\<rparr>\<rparr>"

definition vault_pack :: loaded_pack where
  "vault_pack = (sample_pack ''p'')\<lparr>lp_Pack := (lp_Pack (sample_pack ''p''))\<lparr>
     pk_Runtime := \<lparr>rt_Platforms = [''linux''], rt_Tools = [(''t'', vault_tool)]\<rparr>,
     pk_Commands := [(''set-secret'', set_secret), (''load-policy'', load_policy), (''list'', list_names)]\<rparr>\<rparr>"

lemma vault_tool_valid: "validateToolEntry sample_lib (lp_Pack vault_pack) ''t'' vault_tool = None"
proof -
  have "rt_Platforms (pk_Runtime (lp_Pack vault_pack)) = [''linux'']"
    by (simp add: vault_pack_def)
  moreover have "validateArtifact pk vault_tool ''runtime.tools.t.install'' ''linux-amd64'' sample_artifact = None"
    if "rt_Platforms (pk_Runtime pk) = [''linux'']" for pk
  proof -
    have "https_source_ok (ia_URL sample_artifact)" "validInstallDigest sample_digest"
      "validArchiveExecutablePath ''dist/tool''"
      "matchesInstallExecutable ''tool'' [''tool''] ''linux''" "path_base ''dist/tool'' = ''tool''"
      "validateRedirectHosts [] 0 [''cdn.example.com''] q = None"
      "split_at (CHR ''-'') ''linux-amd64'' = [''linux'', ''amd64'']" for q
      by code_simp+
    with that show ?thesis
      by (simp add: validateArtifact_def Let_def sample_artifact_def vault_tool_def sample_tool_def
          maxInstallArtifactBytes_def del: validateRedirectHosts.simps split_at.simps)
  qed
  moreover have "\<not> isForbiddenExecutable ''tool''" "path_base ''tool'' = ''tool''" "\<not> has_path_separator ''tool''"
    by code_simp+
  ultimately show ?thesis
    by (simp add: validateToolEntry_def validateToolInstall_def vault_tool_def sample_tool_def sample_lib_def
        sorted_keys_def)
qed

lemma vault_commands_valid:
  "validateCommand sample_lib (lp_Pack vault_pack) ''set-secret'' set_secret = None"
  "validateCommand sample_lib (lp_Pack vault_pack) ''load-policy'' load_policy = None"
  "validateCommand sample_lib (lp_Pack vault_pack) ''list'' list_names = None"
proof -
  have tl: "get (rt_Tools (pk_Runtime (lp_Pack vault_pack))) ''t'' = Some vault_tool"
    by (simp add: vault_pack_def)
  have "validateInputs sample_lib p 0 [] (cm_Inputs set_secret) = None"
    "validateRiskImpact set_secret (declared_inputs set_secret) p = None"
    "first_err_from 0 (\<lambda>i arg. validateArgument arg (declared_inputs set_secret) (q i)) (cm_Argv set_secret) = None"
    "validateStdin set_secret (declared_inputs set_secret) p = None" for p q
    by (code_simp)+
  then show "validateCommand sample_lib (lp_Pack vault_pack) ''set-secret'' set_secret = None"
    using tl by (simp add: validateCommand_def set_secret_def Let_def validateOutput_def plain_output_def)
  have "validateInputs sample_lib p 0 [] (cm_Inputs load_policy) = None"
    "validateRiskImpact load_policy (declared_inputs load_policy) p = None"
    "first_err_from 0 (\<lambda>i arg. validateArgument arg (declared_inputs load_policy) (q i)) (cm_Argv load_policy) = None"
    "validateStdin load_policy (declared_inputs load_policy) p = None" for p q
    by (code_simp)+
  then show "validateCommand sample_lib (lp_Pack vault_pack) ''load-policy'' load_policy = None"
    using tl by (simp add: validateCommand_def load_policy_def Let_def validateOutput_def plain_output_def)
  show "validateCommand sample_lib (lp_Pack vault_pack) ''list'' list_names = None"
    using tl by (simp add: validateCommand_def list_names_def Let_def validateOutput_def plain_output_def
        validateRiskImpact_def is_mutation_def validateStdin_def secret_inputs_def validateArgument_def no_argument_def)
qed

lemma vault_pack_valid: "validateSemantics sample_lib (lp_Pack vault_pack) = None"
proof -
  have "each_sorted (validateToolEntry sample_lib (lp_Pack vault_pack)) [(''t'', vault_tool)] = None"
    by (simp add: each_sorted_def sorted_keys_def vault_tool_valid)
  moreover have "each_sorted (validateCommand sample_lib (lp_Pack vault_pack))
      [(''set-secret'', set_secret), (''load-policy'', load_policy), (''list'', list_names)] = None"
    by (auto simp: each_sorted_def first_err_None vault_commands_valid)
  moreover have "rt_Tools (pk_Runtime (lp_Pack vault_pack)) = [(''t'', vault_tool)]"
    "pk_Commands (lp_Pack vault_pack) =
       [(''set-secret'', set_secret), (''load-policy'', load_policy), (''list'', list_names)]"
    by (simp_all add: vault_pack_def)
  moreover have "tl_SessionCheck vault_tool = None"
    by (simp add: vault_tool_def sample_tool_def)
  ultimately show ?thesis
    by (simp add: validateSemantics_def each_sorted_def sorted_keys_def)
qed

definition vault_registry :: registry where
  "vault_registry = \<lparr>rg_packs = [vault_pack], rg_byID = [(''p'', 0)]\<rparr>"

lemma vault_registry_built: "NewRegistry [vault_pack] = Inr vault_registry"
  by code_simp

lemma vault_find: "FindPack vault_registry pid = (if pid = ''p'' then Some vault_pack else None)"
  by (simp add: FindPack_def vault_registry_def)

definition vault_snapshot :: snapshot where
  "vault_snapshot = NewSnapshot [sample_state]"

definition set_request :: "string \<Rightarrow> plan_request" where
  "set_request secret = \<lparr>prq_PackID = ''p'', prq_CommandID = ''set-secret'',
     prq_Values = [(''name'', quote ''db''), (''value'', quote secret), (''limit'', ''7'')]\<rparr>"

definition load_request :: "string \<Rightarrow> plan_request" where
  "load_request n = \<lparr>prq_PackID = ''p'', prq_CommandID = ''load-policy'', prq_Values = [(''name'', quote n)]\<rparr>"

definition planned :: "plan_request \<Rightarrow> plan" where
  "planned req = projr (Build sample_lib (Some vault_registry) vault_snapshot req)"

lemma sample_plans:
  "Build sample_lib (Some vault_registry) vault_snapshot (set_request ''hunter2'') = Inr (planned (set_request ''hunter2''))"
  "Build sample_lib (Some vault_registry) vault_snapshot (set_request ''other'') = Inr (planned (set_request ''other''))"
  "Build sample_lib (Some vault_registry) vault_snapshot (load_request ''a'') = Inr (planned (load_request ''a''))"
  by (code_simp)+

lemma sample_empty_target:
  "Build sample_lib (Some vault_registry) vault_snapshot (load_request []) = Inl (planner_err ErrInvalidPlanState ''commandId'')"
  by code_simp

lemma sample_plan_contents:
  "pl_Args (planned (set_request ''hunter2'')) = [''set'', ''db'', ''--limit'', ''7'']"
  "pl_Stdin (planned (set_request ''hunter2'')) = ''hunter2''"
  "pl_Stdin (planned (set_request ''other'')) = ''other''"
  "pl_ExecutablePath (planned (set_request ''hunter2'')) = ''/bin/tool''"
  "pl_Stdin (planned (load_request ''a'')) = ''- !delete'' @ CHR 0x0A # ''  record: '' @ quote ''a''"
  by (code_simp)+

lemma vault_commands:
  "FindCommand vault_registry (prq_PackID (set_request s)) (prq_CommandID (set_request s)) = Some set_secret"
  "FindCommand vault_registry (prq_PackID (load_request s)) (prq_CommandID (load_request s)) = Some load_policy"
  by (simp_all add: FindCommand_def vault_find set_request_def load_request_def vault_pack_def)

end
