(* ===== verification/InstallSafety.thy ===== *)
theory InstallSafety
  imports ValidPack Samples
begin

section \<open>What a validated pack may install and launch\<close>

text \<open>
  Two consequences of validation the installer and discovery rely on: a tool's executable
  names are bare names and never an interpreter's or a script's, and an archive's executable
  is a path inside the archive, pinned by digest and size.
\<close>

text \<open>
  Executable names are bare and never an interpreter. A validated pack's tool has no
  executable name that is, in any letter case and with or without the Windows suffix, one of
  the shells and interpreters, none with a script's extension, and none with a separator.
\<close>
theorem executables_are_not_interpreters:
  assumes "validateSemantics lib pk = None" and "get (rt_Tools (pk_Runtime pk)) tid = Some t"
    and "e \<in> set (tl_ExecutableNames t)" and "i \<in> set interpreters"
  shows "to_lower e \<noteq> i \<and> to_lower e \<noteq> i @ ''.exe'' \<and> slash \<notin> set e \<and> CHR 0x5C \<notin> set e
     \<and> path_ext (to_lower e) \<notin> {''.bat'', ''.cmd'', ''.ps1'', ''.js'', ''.vbs'', ''.hta''}"
proof -
  from valid_tool(1) [OF assms(1,2,3)] have e: "\<not> isForbiddenExecutable e" "\<not> has_path_separator e"
    by simp_all
  with interpreter_forbidden [OF assms(4)] have "to_lower e \<noteq> i" "to_lower e \<noteq> i @ ''.exe''" by blast+
  moreover have "path_ext (to_lower e) \<notin> {''.bat'', ''.cmd'', ''.ps1'', ''.js'', ''.vbs'', ''.hta''}"
    using e(1) unfolding isForbiddenExecutable_def Let_def by auto
  ultimately show ?thesis
    using e(2) by (simp add: has_path_separator_def)
qed

lemma vault_tools: "get (rt_Tools (pk_Runtime (lp_Pack vault_pack))) ''t'' = Some vault_tool"
  by (simp add: vault_pack_def)

theorem executables_are_not_interpreters_witness:
  "to_lower ''tool'' \<noteq> ''bash'' \<and> to_lower ''tool'' \<noteq> ''bash.exe''"
  using executables_are_not_interpreters [OF vault_pack_valid vault_tools, of "''tool''" "''bash''"]
  by (simp add: vault_tool_def sample_tool_def interpreters_def)

text \<open>
  An installed executable stays inside its archive. Every ZIP artifact of a validated
  pack names its executable by a path whose components are all plain names (no empty, dot or
  dot-dot component, so it is relative and cannot leave the archive), whose last one is the
  executable's name, and pins the download and the executable by digest and by a size of at
  most 512 MiB; the download host is a public DNS name.
\<close>
theorem archive_executable_is_confined:
  assumes "validateSemantics lib pk = None" and "get (rt_Tools (pk_Runtime pk)) tid = Some t"
    and "tl_Install t = Some ins" and "get (ti_Artifacts ins) platform = Some a"
    and "ia_Format a = InstallFormatZIP"
  shows "list_all normal_name (split_at slash (ia_ArchivePath a))
     \<and> path_base (ia_ArchivePath a) = ia_ExecutableName a
     \<and> 0 < ia_SizeBytes a \<and> ia_SizeBytes a \<le> 536870912
     \<and> 0 < ia_ExecutableSizeBytes a \<and> ia_ExecutableSizeBytes a \<le> 536870912
     \<and> validInstallDigest (ia_SHA256 a) \<and> validInstallDigest (ia_ExecutableSHA256 a)
     \<and> https_source_ok (ia_URL a)"
proof -
  obtain p where v: "validateArtifact pk t p platform a = None"
    using valid_artifact [OF valid_tool(2) [OF assms(1,2)] assms(3,4)] by blast
  then have "validArchiveExecutablePath (ia_ArchivePath a)" "path_base (ia_ArchivePath a) = ia_ExecutableName a"
    "validInstallDigest (ia_ExecutableSHA256 a)" "0 < ia_ExecutableSizeBytes a"
    "ia_ExecutableSizeBytes a \<le> maxInstallArtifactBytes"
    using assms(5) by (auto simp: validateArtifact_def Let_def split: if_splits)
  moreover have "0 < ia_SizeBytes a" "ia_SizeBytes a \<le> maxInstallArtifactBytes"
    "validInstallDigest (ia_SHA256 a)" "https_source_ok (ia_URL a)"
    using v by (auto simp: validateArtifact_def Let_def split: if_splits)
  ultimately show ?thesis
    by (simp add: validArchiveExecutablePath_components maxInstallArtifactBytes_def)
qed

theorem archive_executable_is_confined_witness:
  "list_all normal_name (split_at slash ''dist/tool'') \<and> path_base ''dist/tool'' = ''tool''"
  using archive_executable_is_confined [OF vault_pack_valid vault_tools,
      of "\<lparr>ti_Version = ''1.2.3'', ti_Artifacts = [(''linux-amd64'', sample_artifact)]\<rparr>"
         "''linux-amd64''" sample_artifact]
  by (simp add: vault_tool_def sample_artifact_def)

end
