(* ===== verification/PlanSafety.thy ===== *)
theory PlanSafety
  imports Samples ValidPack
begin

section \<open>What a plan may depend on\<close>

text \<open>
  The guarantees \<open>Build\<close> gives for a command of a validated pack: every declared input is
  parsed by its own rule, the command line is the pack's template with user words only where
  the template puts them and never read as a flag, user text adds no line to a policy
  document, and a secret value influences the standard input and nothing else.
\<close>

subsection \<open>Parsed values\<close>

definition input_value :: "ext_lib \<Rightarrow> string dict \<Rightarrow> input \<Rightarrow> planner_error + pvalue" where
  "input_value lib vals inp =
     (case get vals (in_ID inp) of
        None \<Rightarrow> if in_Required inp then Inl (planner_err ErrMissingInput (''values.'' @ in_ID inp))
                else Inr no_value
      | Some raw \<Rightarrow> parseValue lib inp raw)"

lemma parse_inputs_step:
  "parse_inputs lib vals (inp # inps) acc =
     bindE (input_value lib vals inp)
       (\<lambda>v. parse_inputs lib vals inps (AList.update (in_ID inp) v acc))"
  by (simp add: input_value_def split: option.split)

declare parse_inputs.simps(2) [simp del]

lemma parse_inputs_keeps:
  "parse_inputs lib vals inps acc = Inr values \<Longrightarrow> k \<notin> set (map in_ID inps) \<Longrightarrow> get values k = get acc k"
  by (induction inps arbitrary: acc) (auto simp: parse_inputs_step bindE_Inr_iff)

lemma parse_inputs_get:
  assumes "parse_inputs lib vals inps acc = Inr values" and "distinct (map in_ID inps)" and "inp \<in> set inps"
  shows "\<exists>v. input_value lib vals inp = Inr v \<and> get values (in_ID inp) = Some v"
  using assms
proof (induction inps arbitrary: acc)
  case Nil
  then show ?case by simp
next
  case (Cons x xs)
  from Cons.prems(1) obtain v where v: "input_value lib vals x = Inr v"
    and rest: "parse_inputs lib vals xs (AList.update (in_ID x) v acc) = Inr values"
    by (auto simp: parse_inputs_step bindE_Inr_iff)
  show ?case
  proof (cases "inp = x")
    case True
    with v parse_inputs_keeps [OF rest] Cons.prems(2) show ?thesis by auto
  next
    case False
    with Cons.IH [OF rest] Cons.prems show ?thesis by auto
  qed
qed

text \<open>The table of values is exactly what the inputs' own rules produce.\<close>

lemma parse_inputs_table:
  assumes "parse_inputs lib vals (cm_Inputs cmd) [] = Inr values" and "distinct (map in_ID (cm_Inputs cmd))"
  shows "get values k =
    (case get (declared_inputs cmd) k of None \<Rightarrow> None
     | Some inp \<Rightarrow> (case input_value lib vals inp of Inl e \<Rightarrow> None | Inr v \<Rightarrow> Some v))"
proof (cases "get (declared_inputs cmd) k")
  case None
  then have "k \<notin> set (map in_ID (cm_Inputs cmd))"
    by (force simp: declared_inputs_def map_of_eq_None_iff)
  with parse_inputs_keeps [OF assms(1)] None show ?thesis by simp
next
  case (Some inp)
  then have "inp \<in> set (cm_Inputs cmd)" and k: "in_ID inp = k"
    using get_declared_inputs [OF assms(2)] by auto
  then obtain v where "input_value lib vals inp = Inr v" and "get values k = Some v"
    using parse_inputs_get [OF assms] by blast
  with Some show ?thesis by simp
qed

text \<open>Two requests that differ in secrets only agree on every other value.\<close>

definition same_but_secrets :: "command \<Rightarrow> string dict \<Rightarrow> string dict \<Rightarrow> bool" where
  "same_but_secrets cmd vals vals' \<longleftrightarrow>
     (\<forall>k. get vals k = get vals' k \<or> (\<exists>inp \<in> set (secret_inputs cmd). in_ID inp = k))"

lemma values_agree:
  assumes "parse_inputs lib vals (cm_Inputs cmd) [] = Inr values"
    and "parse_inputs lib vals' (cm_Inputs cmd) [] = Inr values'"
    and "distinct (map in_ID (cm_Inputs cmd))" and "same_but_secrets cmd vals vals'"
    and "\<And>inp. get (declared_inputs cmd) k = Some inp \<Longrightarrow> in_Type inp \<noteq> InputSecret"
  shows "get values k = get values' k"
proof (cases "get (declared_inputs cmd) k")
  case None
  then show ?thesis
    by (simp add: parse_inputs_table [OF assms(1,3)] parse_inputs_table [OF assms(2,3)])
next
  case (Some inp)
  then have inp: "inp \<in> set (cm_Inputs cmd)" "in_ID inp = k" "in_Type inp \<noteq> InputSecret"
    using get_declared_inputs [OF assms(3)] assms(5) by auto
  have "get vals k = get vals' k"
  proof (rule ccontr)
    assume "get vals k \<noteq> get vals' k"
    then obtain j where j: "j \<in> set (cm_Inputs cmd)" "in_ID j = k" "in_Type j = InputSecret"
      using assms(4) by (auto simp: same_but_secrets_def secret_inputs_def)
    with inp assms(3) have "j = inp" by (metis distinct_map inj_onD)
    with inp j show False by simp
  qed
  then have "input_value lib vals inp = input_value lib vals' inp"
    using inp(2) by (simp add: input_value_def)
  with Some show ?thesis
    by (simp add: parse_inputs_table [OF assms(1,3)] parse_inputs_table [OF assms(2,3)])
qed

subsection \<open>What each part of a plan reads\<close>

lemma render_argument_cong:
  "(\<And>k. argument_source arg = Some k \<Longrightarrow> get values k = get values' k) \<Longrightarrow>
     render_argument arg values p = render_argument arg values' p"
  by (simp add: render_argument_def argument_source_def split: option.splits)

lemma render_argv_cong:
  "(\<And>arg k. arg \<in> set args \<Longrightarrow> argument_source arg = Some k \<Longrightarrow> get values k = get values' k) \<Longrightarrow>
     render_argv cid i values args = render_argv cid i values' args"
proof (induction args arbitrary: i)
  case Nil
  then show ?case by simp
next
  case (Cons a args)
  have "render_argument a values p = render_argument a values' p" for p
    by (rule render_argument_cong, rule Cons.prems(1) [of a]) simp_all
  moreover have "render_argv cid (Suc i) values args = render_argv cid (Suc i) values' args"
    by (rule Cons.IH, rule Cons.prems) simp_all
  ultimately show ?case by simp
qed

lemma deriveMutationImpact_cong:
  "(\<And>im. cm_Impact cmd = Some im \<Longrightarrow> get values (im_TargetInput im) = get values' (im_TargetInput im)) \<Longrightarrow>
     deriveMutationImpact cmd values = deriveMutationImpact cmd values'"
  by (simp add: deriveMutationImpact_def split: option.split)

text \<open>Everything that happened before \<open>Build\<close> returned a plan.\<close>

lemma Build_Inr:
  assumes "Build lib (Some reg) snap req = Inr pl"
  obtains p cmd st vs imp args sin where
    "FindPack reg (prq_PackID req) = Some p" "FindCommand reg (prq_PackID req) (prq_CommandID req) = Some cmd"
    "command_policy cmd = None"
    "usable_tool snap (prq_PackID req) (md_Version (pk_Metadata (lp_Pack p))) (cm_Tool cmd) = Inr st"
    "unknown_inputs cmd (prq_Values req) = []"
    "parse_inputs lib (prq_Values req) (cm_Inputs cmd) [] = Inr vs"
    "deriveMutationImpact cmd vs = Inr imp"
    "render_argv (prq_CommandID req) 0 vs (cm_Argv cmd) = Inr args"
    "renderStdin cmd vs = Inr sin"
    "pl = make_plan req p cmd st imp args sin"
proof -
  from assms obtain p cmd where pc: "FindPack reg (prq_PackID req) = Some p"
      "FindCommand reg (prq_PackID req) (prq_CommandID req) = Some cmd"
    by (auto simp: Build_def split: option.splits)
  have "unknown_inputs cmd (prq_Values req) = []"
    using assms pc by (cases "unknown_inputs cmd (prq_Values req)") (auto simp: Build_def bindE_Inr_iff)
  with assms pc show ?thesis
    by (auto simp: Build_def bindE_Inr_iff intro: that)
qed

subsection \<open>Secrets\<close>

text \<open>
  A loaded pack that passed validation; the loader returns no other
  (\<open>validateSemantics\<close> runs on every document it decodes).
\<close>

definition validated_registry :: "ext_lib \<Rightarrow> registry \<Rightarrow> bool" where
  "validated_registry lib reg \<longleftrightarrow>
     (\<forall>pid p. FindPack reg pid = Some p \<longrightarrow> validateSemantics lib (lp_Pack p) = None)"

lemma vault_validated: "validated_registry sample_lib vault_registry"
  using vault_pack_valid by (simp add: validated_registry_def vault_find)

lemma validated_command:
  assumes "validated_registry lib reg" and "FindPack reg pid = Some p" and "FindCommand reg pid cid = Some cmd"
  shows "valid_command lib (lp_Pack p) cid cmd"
  using assms by (auto simp: validated_registry_def FindCommand_def intro: valid_command_if_pack)

lemma plan_without_stdin_secret:
  assumes "valid_command lib pk cid cmd"
    and "parse_inputs lib vals (cm_Inputs cmd) [] = Inr values"
    and "parse_inputs lib vals' (cm_Inputs cmd) [] = Inr values'"
    and "same_but_secrets cmd vals vals'" and "command_policy cmd = None"
  shows "render_argv cid i values (cm_Argv cmd) = render_argv cid i values' (cm_Argv cmd)"
    and "deriveMutationImpact cmd values = deriveMutationImpact cmd values'"
proof -
  note agree = values_agree [OF assms(2,3) valid_command_inputs(1) [OF assms(1)] assms(4)]
  show "render_argv cid i values (cm_Argv cmd) = render_argv cid i values' (cm_Argv cmd)"
  proof (rule render_argv_cong, rule agree)
    fix arg k inp
    assume "arg \<in> set (cm_Argv cmd)" "argument_source arg = Some k" "get (declared_inputs cmd) k = Some inp"
    then show "in_Type inp \<noteq> InputSecret"
      using valid_command_parts(1) [OF assms(1)] no_argument_reads_a_secret by blast
  qed
  show "deriveMutationImpact cmd values = deriveMutationImpact cmd values'"
  proof (rule deriveMutationImpact_cong, rule agree)
    fix im inp
    assume im: "cm_Impact cmd = Some im" and inp: "get (declared_inputs cmd) (im_TargetInput im) = Some inp"
    have "cm_Risk cmd = RiskRead \<or> is_mutation (cm_Risk cmd)"
      using assms(5) by (auto simp: command_policy_def split: if_splits)
    then have "is_mutation (cm_Risk cmd)"
      using valid_command_parts(3) [OF assms(1)] im
      by (auto simp: validateRiskImpact_def is_mutation_def)
    then show "in_Type inp \<noteq> InputSecret"
      using impact_target_not_secret [OF validateRiskImpact_None inp]
        valid_command_parts(3) [OF assms(1)] im by blast
  qed
qed

subsection \<open>Words of the command line\<close>

text \<open>A word a flag or positional argument may take from the request.\<close>

definition within :: "int option \<Rightarrow> int option \<Rightarrow> int \<Rightarrow> bool" where
  "within lo hi n \<longleftrightarrow> \<not> below_min lo n \<and> \<not> above_max hi n"

definition text_allowed :: "ext_lib \<Rightarrow> input_validation \<Rightarrow> string \<Rightarrow> bool" where
  "text_allowed lib v w \<longleftrightarrow> NUL \<notin> set w \<and> within (iv_MinLength v) (iv_MaxLength v) (int (rune_count w))
     \<and> (iv_Pattern v \<noteq> [] \<longrightarrow> re_matches lib (iv_Pattern v) w)
     \<and> (iv_DisallowLeadingDash v \<longrightarrow> \<not> starts_dash w)"

definition value_allowed :: "ext_lib \<Rightarrow> input \<Rightarrow> pvalue \<Rightarrow> bool" where
  "value_allowed lib inp v =
     (case in_Type inp of
        InputString \<Rightarrow> text_allowed lib (in_Validation inp) (pv_text v) \<and> pv_argument v = pv_text v
      | InputSecret \<Rightarrow> text_allowed lib (in_Validation inp) (pv_text v) \<and> pv_argument v = pv_text v
      | InputEnum \<Rightarrow> text_allowed lib (in_Validation inp) (pv_text v) \<and> pv_argument v = pv_text v
          \<and> pv_text v \<in> set (iv_Enum (in_Validation inp))
      | InputInteger \<Rightarrow> (\<exists>n. pv_argument v = show_int n \<and> int64_min \<le> n \<and> n \<le> int64_max
          \<and> within (iv_Min (in_Validation inp)) (iv_Max (in_Validation inp)) n)
      | InputBoolean \<Rightarrow> pv_argument v = show_bool (pv_boolean v)
      | InputMultiselect \<Rightarrow> set (pv_many v) \<subseteq> set (iv_Enum (in_Validation inp)) \<and> distinct (pv_many v)
      | InputOther _ \<Rightarrow> False)"

lemma validateString_None:
  "validateString lib inp w p = None \<Longrightarrow>
     text_allowed lib (in_Validation inp) w
     \<and> (in_Type inp = InputEnum \<longrightarrow> w \<in> set (iv_Enum (in_Validation inp)))"
  by (auto simp: validateString_def text_allowed_def within_def Let_def split: if_splits)

lemma multiselect_ok_iff:
  "multiselect_ok allowed seen xs \<longleftrightarrow>
     set xs \<subseteq> set allowed \<and> distinct xs \<and> set xs \<inter> set seen = {}"
  by (induction xs arbitrary: seen) auto

lemma strict_int64_range: "strict_int64 raw = Some n \<Longrightarrow> int64_min \<le> n \<and> n \<le> int64_max"
  by (auto simp: strict_int64_def dest: parse_int64_range split: option.splits scalar.splits)
    (simp_all add: int64_min_def int64_max_def)

lemma parseValue_allowed:
  assumes "parseValue lib inp raw = Inr v"
  shows "pv_present v \<and> value_allowed lib inp v"
proof (cases "in_Type inp")
  case InputInteger
  with assms show ?thesis
    by (auto simp: parseValue_def Let_def value_allowed_def within_def no_value_def
        dest: strict_int64_range split: option.splits if_splits)
qed (use assms in \<open>auto simp: parseValue_def Let_def value_allowed_def no_value_def multiselect_ok_iff
        bindE_Inr_iff dest: validateString_None split: option.splits if_splits\<close>)

lemma input_value_present:
  "input_value lib vals inp = Inr v \<Longrightarrow> pv_present v \<Longrightarrow> value_allowed lib inp v"
  by (auto simp: input_value_def no_value_def dest: parseValue_allowed split: option.splits if_splits)

lemma table_allowed:
  assumes "parse_inputs lib vals (cm_Inputs cmd) [] = Inr values" and "distinct (map in_ID (cm_Inputs cmd))"
    and "get values k = Some v" and "pv_present v" and "get (declared_inputs cmd) k = Some inp"
  shows "value_allowed lib inp v"
  using assms input_value_present by (auto simp: parse_inputs_table [OF assms(1,2)] split: sum.splits)






subsection \<open>Rendered documents\<close>

text \<open>
  A template is the text between its placeholders and the placeholders themselves. A hole is
  rendered as a JSON string, which YAML reads as one double-quoted scalar, or as an enum
  word the pack lists; neither holds a control character.
\<close>

definition control_chars :: "string \<Rightarrow> string" where
  "control_chars s = filter (\<lambda>c. byte c < 0x20) s"

fun segment_source :: "segment list \<Rightarrow> string" where
  "segment_source [] = []"
| "segment_source (Plain c # ss) = c # segment_source ss"
| "segment_source (Hole n # ss) = ''{{'' @ n @ ''}}'' @ segment_source ss"

lemma placeholder_at_Some:
  assumes "placeholder_at s = Some (n, r)"
  shows "s = ''{{'' @ n @ ''}}'' @ r \<and> list_all placeholder_char n \<and> n \<noteq> []"
proof -
  have s: "has_prefix ''{{'' s" and n: "n = takeWhile placeholder_char (drop 2 s)" "n \<noteq> []"
    and r: "has_prefix ''}}'' (dropWhile placeholder_char (drop 2 s))"
      "r = drop 2 (dropWhile placeholder_char (drop 2 s))"
    using assms by (auto simp: placeholder_at_def Let_def split: if_splits)
  from s have s': "s = ''{{'' @ drop 2 s" by (auto simp: has_prefix_iff)
  from r have "dropWhile placeholder_char (drop 2 s) = ''}}'' @ r"
    by (auto simp: has_prefix_iff)
  then have "drop 2 s = n @ ''}}'' @ r"
    by (metis n(1) takeWhile_dropWhile_id)
  with s' have "s = ''{{'' @ n @ ''}}'' @ r" by metis
  moreover have "list_all placeholder_char n"
    unfolding n(1) list_all_iff using set_takeWhileD by fast
  ultimately show ?thesis using n(2) by simp
qed

lemma template_segments_source:
  "segment_source (template_segments s) = s
     \<and> (\<forall>n \<in> set (holes (template_segments s)). list_all placeholder_char n)"
proof (induction s rule: template_segments.induct)
  case 1
  then show ?case by simp
next
  case (2 c cs)
  show ?case
  proof (cases "placeholder_at (c # cs)")
    case None
    with 2(1) [OF None] show ?thesis by simp
  next
    case (Some q)
    obtain n rest where q: "q = (n, rest)" by (cases q)
    note IH = 2(2) [OF Some q [symmetric]]
    from Some q have step: "template_segments (c # cs) = Hole n # template_segments rest" by simp
    from placeholder_at_Some [of "c # cs" n rest] Some q
    have "c # cs = ''{{'' @ n @ ''}}'' @ rest" "list_all placeholder_char n" by simp_all
    with IH show ?thesis unfolding step by simp
  qed
qed

lemma placeholder_char_visible: "placeholder_char c \<Longrightarrow> 0x20 \<le> byte c"
  by (auto simp: placeholder_char_def is_lower_alnum_def is_digit_def byte_def)

lemma control_chars_simps [simp]:
  "control_chars [] = []"
  "control_chars (s @ t) = control_chars s @ control_chars t"
  "control_chars (c # s) = (if byte c < 0x20 then c # control_chars s else control_chars s)"
  by (simp_all add: control_chars_def)

lemma control_chars_none: "(\<And>c. c \<in> set s \<Longrightarrow> 0x20 \<le> byte c) \<Longrightarrow> control_chars s = []"
  by (fastforce simp: control_chars_def filter_empty_conv)

lemma placeholder_name_visible: "list_all placeholder_char n \<Longrightarrow> control_chars n = []"
  by (rule control_chars_none) (simp add: list_all_iff placeholder_char_visible)

lemma control_chars_source:
  "(\<forall>n \<in> set (holes ss). list_all placeholder_char n) \<Longrightarrow>
     control_chars (segment_source ss) = control_chars (plain_text ss)"
  by (induction ss rule: segment_source.induct)
    (simp_all add: placeholder_name_visible byte_def)

definition hole_text :: "command \<Rightarrow> pvalue dict \<Rightarrow> string \<Rightarrow> string \<Rightarrow> bool" where
  "hole_text cmd values n w \<longleftrightarrow>
     (\<exists>v inp. get values n = Some v \<and> get (declared_inputs cmd) n = Some inp
        \<and> (if in_Type inp = InputEnum
           then w = pv_text v \<and> w \<in> set (iv_Enum (in_Validation inp)) \<and> rawStdinEnumValue w
           else w = quote (pv_argument v)))"

lemma raw_enum_visible: "rawStdinEnumValue w \<Longrightarrow> c \<in> set w \<Longrightarrow> 0x20 \<le> byte c"
  by (auto simp: rawStdinEnumValue_def list_all_iff is_lower_alnum_def is_digit_def byte_def)

lemma hole_text_visible: "hole_text cmd values n w \<Longrightarrow> control_chars w = []"
  by (rule control_chars_none) (auto simp: hole_text_def split: if_splits dest: raw_enum_visible quote_no_control)

text \<open>Fills the holes of a template from left to right.\<close>

fun fill :: "segment list \<Rightarrow> string list \<Rightarrow> string" where
  "fill [] ws = []"
| "fill (Plain c # ss) ws = c # fill ss ws"
| "fill (Hole n # ss) (w # ws) = w @ fill ss ws"
| "fill (Hole n # ss) [] = fill ss []"

lemma control_chars_fill:
  "list_all (\<lambda>w. control_chars w = []) ws \<Longrightarrow> control_chars (fill ss ws) = control_chars (plain_text ss)"
  by (induction ss ws rule: fill.induct) auto

lemma render_segments_fill:
  assumes "render_segments cmd values ss = Some out"
    and "\<And>n. n \<in> set (holes ss) \<Longrightarrow> (\<And>w. render_hole cmd values n = Some w \<Longrightarrow> hole_text cmd values n w)"
  shows "\<exists>ws. list_all2 (hole_text cmd values) (holes ss) ws \<and> out = fill ss ws"
  using assms
proof (induction ss arbitrary: out rule: segment_source.induct)
  case 1
  then show ?case by (intro exI [of _ "[]"]) simp
next
  case (2 c ss)
  then show ?case by fastforce
next
  case (3 n ss)
  from 3(2) obtain w y where w: "render_hole cmd values n = Some w"
    and y: "render_segments cmd values ss = Some y" and out: "out = w @ y"
    by (auto split: option.splits)
  obtain ws where "list_all2 (hole_text cmd values) (holes ss) ws" "y = fill ss ws"
    using 3(1) [OF y] 3(3) by auto
  with w out 3(3) show ?case by (intro exI [of _ "w # ws"]) simp
qed

lemma renderStdin_fill:
  assumes valid: "valid_command lib pk cid cmd" and sin: "cm_Stdin cmd = Some s" "si_YAMLTemplate s \<noteq> []"
    and vals: "parse_inputs lib vals (cm_Inputs cmd) [] = Inr values"
    and out: "renderStdin cmd values = Inr out"
  shows "\<exists>ws. list_all2 (hole_text cmd values) (holes (template_segments (si_YAMLTemplate s))) ws
      \<and> out = fill (template_segments (si_YAMLTemplate s)) ws"
proof -
  let ?segs = "template_segments (si_YAMLTemplate s)"
  have checked: "validateStdin cmd (declared_inputs cmd) (''commands.'' @ cid) = None"
    by (rule valid_command_parts(2) [OF valid])
  then have inp: "si_Input s = []"
    using sin by (auto simp: validateStdin_def Let_def split: if_splits)
  with checked sin obtain q where hs: "first_err (validateHole (declared_inputs cmd) q) (holes ?segs) = None"
    by (auto simp: validateStdin_def Let_def split: if_splits)
  have rendered: "render_segments cmd values ?segs = Some out"
    using out sin inp by (auto simp: renderStdin_def split: option.splits)
  show ?thesis
  proof (rule render_segments_fill [OF rendered])
    fix n w
    assume n: "n \<in> set (holes ?segs)" and w: "render_hole cmd values n = Some w"
    from hs n have h: "validateHole (declared_inputs cmd) q n = None" by (simp add: first_err_None)
    then obtain inp where i: "get (declared_inputs cmd) n = Some inp"
      by (auto simp: validateHole_def split: option.splits)
    from w obtain v where v: "get values n = Some v" "pv_present v"
      by (auto simp: render_hole_def split: option.splits if_splits)
    have "value_allowed lib inp v"
      by (rule table_allowed [OF vals valid_command_inputs(1) [OF valid] v i])
    with h i v w show "hole_text cmd values n w"
      by (auto simp: hole_text_def render_hole_def validateHole_def value_allowed_def list_all_iff split: if_splits)
  qed
qed

text \<open>Two requests that agree except on secret inputs: the plans they get.\<close>

lemma secret_plans:
  assumes "validated_registry lib reg" and "FindCommand reg (prq_PackID req) (prq_CommandID req) = Some cmd"
    and "Build lib (Some reg) snap req = Inr pl"
    and "Build lib (Some reg) snap (req\<lparr>prq_Values := vals'\<rparr>) = Inr pl'"
    and "same_but_secrets cmd (prq_Values req) vals'"
  shows "pl' = pl\<lparr>pl_Stdin := pl_Stdin pl'\<rparr> \<and> (pl_Stdin pl \<noteq> pl_Stdin pl' \<longrightarrow> pl_StdinSensitive pl)"
proof -
  from assms(3) obtain p st vs imp ws sin where a:
      "FindPack reg (prq_PackID req) = Some p" "command_policy cmd = None"
      "usable_tool snap (prq_PackID req) (md_Version (pk_Metadata (lp_Pack p))) (cm_Tool cmd) = Inr st"
      "parse_inputs lib (prq_Values req) (cm_Inputs cmd) [] = Inr vs" "deriveMutationImpact cmd vs = Inr imp"
      "render_argv (prq_CommandID req) 0 vs (cm_Argv cmd) = Inr ws" "renderStdin cmd vs = Inr sin"
      "pl = make_plan req p cmd st imp ws sin"
    by (rule Build_Inr) (use assms(2) in auto)
  from assms(4) obtain p' st' vs' imp' ws' sin' where b:
      "FindPack reg (prq_PackID req) = Some p'"
      "usable_tool snap (prq_PackID req) (md_Version (pk_Metadata (lp_Pack p'))) (cm_Tool cmd) = Inr st'"
      "parse_inputs lib vals' (cm_Inputs cmd) [] = Inr vs'" "deriveMutationImpact cmd vs' = Inr imp'"
      "render_argv (prq_CommandID req) 0 vs' (cm_Argv cmd) = Inr ws'" "renderStdin cmd vs' = Inr sin'"
      "pl' = make_plan (req\<lparr>prq_Values := vals'\<rparr>) p' cmd st' imp' ws' sin'"
    by (rule Build_Inr) (use assms(2) in auto)
  have valid: "valid_command lib (lp_Pack p) (prq_CommandID req) cmd"
    by (rule validated_command [OF assms(1) a(1) assms(2)])
  note same = plan_without_stdin_secret [OF valid a(4) b(3) assms(5) a(2)]
  from same a b have fields: "p' = p" "st' = st" "ws' = ws" "imp' = imp" by auto
  have stdin: "sin = sin'" if "\<not> pl_StdinSensitive pl"
  proof (cases "cm_Stdin cmd")
    case None
    with a(7) b(6) show ?thesis by (simp add: renderStdin_def)
  next
    case (Some s)
    with that a(8) have "si_Input s = []" by (simp add: make_plan_def)
    then have "secret_inputs cmd = []"
      using valid_command_parts(2) [OF valid] Some by (auto simp: validateStdin_def Let_def split: if_splits)
    with assms(5) have "get (prq_Values req) k = get vals' k" for k
      by (simp add: same_but_secrets_def)
    then have "parse_inputs lib (prq_Values req) inps acc = parse_inputs lib vals' inps acc" for inps acc
      by (induction inps arbitrary: acc) (simp_all add: parse_inputs_step input_value_def)
    with a b show ?thesis by simp
  qed
  show ?thesis
    using stdin a(8) b(7) fields by (auto simp: make_plan_def)
qed

subsection \<open>The properties\<close>

text \<open>
  C3: secrets reach standard input only. Two requests for one command of a validated
  pack that agree except on secret inputs get plans that agree except for the standard input:
  the arguments, the impact shown for approval, the executable and the rest of the plan are
  the same, and a plan whose standard input is the secret says so.
\<close>
theorem secrets_reach_only_stdin:
  assumes "validated_registry lib reg" and "FindCommand reg (prq_PackID req) (prq_CommandID req) = Some cmd"
    and "Build lib (Some reg) snap req = Inr pl"
    and "Build lib (Some reg) snap (req\<lparr>prq_Values := vals'\<rparr>) = Inr pl'"
    and "same_but_secrets cmd (prq_Values req) vals'"
  shows "pl' = pl\<lparr>pl_Stdin := pl_Stdin pl'\<rparr> \<and> (pl_Stdin pl \<noteq> pl_Stdin pl' \<longrightarrow> pl_StdinSensitive pl)"
  using assms by (rule secret_plans)

theorem secrets_reach_only_stdin_witness:
  "planned (set_request ''other'') = planned (set_request ''hunter2'')\<lparr>pl_Stdin := ''other''\<rparr>
     \<and> pl_Args (planned (set_request ''hunter2'')) = [''set'', ''db'', ''--limit'', ''7'']
     \<and> pl_StdinSensitive (planned (set_request ''hunter2''))"
proof -
  have req: "set_request ''other'' = set_request ''hunter2''\<lparr>prq_Values := prq_Values (set_request ''other'')\<rparr>"
    by (simp add: set_request_def)
  have diff: "same_but_secrets set_secret (prq_Values (set_request ''hunter2'')) (prq_Values (set_request ''other''))"
    by (simp add: same_but_secrets_def secret_inputs_def set_secret_def set_request_def name_input_def
        secret_input_def limit_input_def)
  have "Build sample_lib (Some vault_registry) vault_snapshot
      (set_request ''hunter2''\<lparr>prq_Values := prq_Values (set_request ''other'')\<rparr>) = Inr (planned (set_request ''other''))"
    using sample_plans(2) by (subst req [symmetric])
  note claim = secrets_reach_only_stdin [OF vault_validated vault_commands(1) sample_plans(1) this diff]
  show ?thesis
    using claim sample_plan_contents(1,2,3) by simp
qed



text \<open>
  A policy document keeps the template's shape. The standard input rendered from a
  template is the template with each placeholder replaced by one quoted scalar or one listed
  enum word, so its control characters, line breaks included, are exactly the template's.
\<close>
theorem stdin_document_keeps_shape:
  assumes "validated_registry lib reg" and "FindCommand reg (prq_PackID req) (prq_CommandID req) = Some cmd"
    and "Build lib (Some reg) snap req = Inr pl"
    and "cm_Stdin cmd = Some s" and "si_YAMLTemplate s \<noteq> []"
  shows "control_chars (pl_Stdin pl) = control_chars (si_YAMLTemplate s)
     \<and> (\<exists>values ws. list_all2 (hole_text cmd values) (holes (template_segments (si_YAMLTemplate s))) ws
          \<and> pl_Stdin pl = fill (template_segments (si_YAMLTemplate s)) ws)"
proof -
  let ?segs = "template_segments (si_YAMLTemplate s)"
  from assms(3) obtain p st vs imp ws sin where a:
      "FindPack reg (prq_PackID req) = Some p"
      "parse_inputs lib (prq_Values req) (cm_Inputs cmd) [] = Inr vs"
      "renderStdin cmd vs = Inr sin" "pl = make_plan req p cmd st imp ws sin"
    by (rule Build_Inr) (use assms(2) in auto)
  have valid: "valid_command lib (lp_Pack p) (prq_CommandID req) cmd"
    by (rule validated_command [OF assms(1) a(1) assms(2)])
  obtain fs where fs: "list_all2 (hole_text cmd vs) (holes ?segs) fs" "sin = fill ?segs fs"
    using renderStdin_fill [OF valid assms(4,5) a(2,3)] by blast
  have "list_all (\<lambda>w. control_chars w = []) fs"
    using fs(1) hole_text_visible by (induction rule: list_all2_induct) auto
  then have "control_chars sin = control_chars (plain_text ?segs)"
    using fs(2) control_chars_fill by simp
  also have "\<dots> = control_chars (si_YAMLTemplate s)"
    using template_segments_source [of "si_YAMLTemplate s"] control_chars_source [of ?segs] by simp
  finally show ?thesis
    using fs a(4) by (auto simp: make_plan_def)
qed

theorem stdin_document_keeps_shape_witness:
  "control_chars (pl_Stdin (planned (load_request ''a''))) = [CHR 0x0A]"
proof -
  from stdin_document_keeps_shape [OF vault_validated vault_commands(2) sample_plans(3)]
  have "control_chars (pl_Stdin (planned (load_request ''a'')))
      = control_chars (''- !delete'' @ CHR 0x0A # ''  record: {{name}}'')"
    by (simp add: load_policy_def)
  then show ?thesis by (simp add: control_chars_def byte_def)
qed

end
