(* ===== verification/PlanTotality.thy ===== *)
theory PlanTotality
  imports PlanSafety
begin

section \<open>The planner's internal errors\<close>

text \<open>
  \<open>ErrInvalidPlanState\<close> marks states the planner's author thought impossible once a pack
  has been validated. This theory shows which of them are: for a command of a validated
  pack the only way to that error is an impact target that is the empty text.
\<close>

abbreviation internal :: "planner_error \<Rightarrow> bool" where
  "internal e \<equiv> ple_Code e = ErrInvalidPlanState"

text \<open>Go's maps have no duplicate key; the dictionaries of a command's map arguments neither.\<close>

definition proper_maps :: "command \<Rightarrow> bool" where
  "proper_maps cmd \<longleftrightarrow>
     (\<forall>arg m. arg \<in> set (cm_Argv cmd) \<longrightarrow> ar_Map arg = Some m \<longrightarrow> well_keyed (mp_Values m))"

lemma validateInput_known:
  "validateInput lib inp p = None \<Longrightarrow>
     (\<forall>t. in_Type inp \<noteq> InputOther t) \<and> in_Type inp \<noteq> InputMultiselect
     \<and> (iv_Pattern (in_Validation inp) \<noteq> [] \<longrightarrow> re_compiles lib (iv_Pattern (in_Validation inp)))"
  by (auto simp: validateInput_def Let_def split: if_splits)

lemma validateString_not_internal:
  "validateString lib inp w q = Some e \<Longrightarrow>
     (iv_Pattern (in_Validation inp) \<noteq> [] \<longrightarrow> re_compiles lib (iv_Pattern (in_Validation inp))) \<Longrightarrow> \<not> internal e"
  by (auto simp: validateString_def Let_def split: if_splits)

lemma parseValue_not_internal:
  assumes "parseValue lib inp raw = Inl e" and "validateInput lib inp p = None"
  shows "\<not> internal e"
  using assms(1) validateInput_known [OF assms(2)]
  by (cases "in_Type inp")
    (auto simp: parseValue_def Let_def bindE_Inl_iff liftE_def dest: validateString_not_internal
      split: option.splits if_splits)

lemma input_value_not_internal:
  "input_value lib vals inp = Inl e \<Longrightarrow> validateInput lib inp p = None \<Longrightarrow> \<not> internal e"
  by (auto simp: input_value_def dest: parseValue_not_internal split: option.splits if_splits)

lemma parse_inputs_not_internal:
  "parse_inputs lib vals inps acc = Inl e \<Longrightarrow> (\<And>i. i \<in> set inps \<Longrightarrow> \<exists>p. validateInput lib i p = None) \<Longrightarrow>
     \<not> internal e"
proof (induction inps arbitrary: acc)
  case Nil
  then show ?case by simp
next
  case (Cons i rest)
  from Cons.prems(2) obtain p where "validateInput lib i p = None" by auto
  with Cons input_value_not_internal show ?case
    by (fastforce simp: parse_inputs_step bindE_Inl_iff)
qed

text \<open>Every declared input has a value, a required one a present value.\<close>

lemma declared_value:
  assumes "parse_inputs lib vals (cm_Inputs cmd) [] = Inr values" and "distinct (map in_ID (cm_Inputs cmd))"
    and "get (declared_inputs cmd) k = Some inp"
  obtains v where "get values k = Some v" "input_value lib vals inp = Inr v" "in_Required inp \<Longrightarrow> pv_present v"
proof -
  from assms(3) have inp: "inp \<in> set (cm_Inputs cmd)" "in_ID inp = k"
    using get_declared_inputs [OF assms(2)] by auto
  from parse_inputs_get [OF assms(1,2) inp(1)] inp(2) obtain v where
    v: "input_value lib vals inp = Inr v" "get values k = Some v" by auto
  moreover have "pv_present v" if "in_Required inp"
    using v(1) that parseValue_allowed by (fastforce simp: input_value_def split: option.splits if_splits)
  ultimately show thesis using that by blast
qed

text \<open>A map with as many keys as the enumeration and keys of it only covers the enumeration.\<close>

lemma map_covers:
  assumes "validateMapArgument m (Some inp) p = None" and "well_keyed (mp_Values m)"
    and "x \<in> set (iv_Enum (in_Validation inp))"
  shows "\<exists>w. get (mp_Values m) x = Some w"
proof -
  let ?E = "set (iv_Enum (in_Validation inp))" and ?K = "fst ` set (mp_Values m)"
  have len: "length (mp_Values m) = length (remdups (iv_Enum (in_Validation inp)))"
    and sub: "?K \<subseteq> ?E"
    using assms(1) by (fastforce simp: validateMapArgument_def first_err_None split: if_splits)+
  have "card ?K = length (mp_Values m)"
    using assms(2) distinct_card [of "map fst (mp_Values m)"] by (simp add: well_keyed_def)
  also have "\<dots> = card ?E"
    using len by (simp add: length_remdups_card_conv)
  finally have "?K = ?E"
    using sub by (simp add: card_subset_eq)
  with assms(3) show ?thesis
    by (metis domD dom_map_of_conv_image_fst)
qed

lemma value_args_total:
  assumes "validateValueSource kind (get (declared_inputs cmd) k) om p = None"
    and "parse_inputs lib vals (cm_Inputs cmd) [] = Inr values" and "distinct (map in_ID (cm_Inputs cmd))"
  shows "\<exists>ws. value_args (get values k) om front path = Inr ws"
  using assms(1)
proof (rule validateValueSource_None)
  fix inp assume "get (declared_inputs cmd) k = Some inp"
  with declared_value [OF assms(2,3)] obtain v where "get values k = Some v" by blast
  then show ?thesis by (simp add: value_args_def)
qed

lemma render_map_total:
  assumes valid: "validateMapArgument m (get (declared_inputs cmd) (mp_ValueFrom m)) p = None"
    and "well_keyed (mp_Values m)"
    and vals: "parse_inputs lib vals (cm_Inputs cmd) [] = Inr values" and dist: "distinct (map in_ID (cm_Inputs cmd))"
  shows "\<exists>v w. get values (mp_ValueFrom m) = Some v \<and> pv_present v \<and> get (mp_Values m) (pv_text v) = Some w"
  using valid
proof (rule validateMapArgument_None)
  fix inp assume inp: "get (declared_inputs cmd) (mp_ValueFrom m) = Some inp" "in_Type inp = InputEnum" "in_Required inp"
  from declared_value [OF vals dist inp(1)] inp(3) obtain v where
    v: "get values (mp_ValueFrom m) = Some v" "pv_present v" by blast
  with table_allowed [OF vals dist v inp(1)] inp(2) have "pv_text v \<in> set (iv_Enum (in_Validation inp))"
    by (simp add: value_allowed_def)
  with map_covers [of m inp p] valid inp(1) assms(2) v show ?thesis by auto
qed

lemma render_argument_total:
  assumes "validateArgument arg (declared_inputs cmd) p = None"
    and "\<And>m. ar_Map arg = Some m \<Longrightarrow> well_keyed (mp_Values m)"
    and "parse_inputs lib vals (cm_Inputs cmd) [] = Inr values" and "distinct (map in_ID (cm_Inputs cmd))"
  shows "\<exists>ws. render_argument arg values path = Inr ws"
proof (cases "ar_Literal arg = [] \<and> ar_Flag arg = None \<and> ar_Positional arg = None")
  case False
  then show ?thesis
    using assms(1) value_args_total [OF _ assms(3,4)]
    by (auto simp: validateArgument_def render_argument_def split: option.splits if_splits)
next
  case True
  show ?thesis
  proof (cases "ar_Switch arg")
    case (Some s)
    with True assms(1) obtain inp where "get (declared_inputs cmd) (sw_EnabledFrom s) = Some inp"
      by (auto simp: validateArgument_def split: option.splits)
    with declared_value [OF assms(3,4)] obtain v where "get values (sw_EnabledFrom s) = Some v" by blast
    with True Some show ?thesis by (simp add: render_argument_def)
  next
    case None
    with True assms(1) obtain m where m: "ar_Map arg = Some m"
      "validateMapArgument m (get (declared_inputs cmd) (mp_ValueFrom m)) p = None"
      by (auto simp: validateArgument_def split: option.splits)
    from render_map_total [OF m(2) assms(2) [OF m(1)] assms(3,4)] True None m(1)
    show ?thesis by (auto simp: render_argument_def)
  qed
qed

lemma render_argv_total:
  assumes "\<And>arg. arg \<in> set args \<Longrightarrow> \<forall>path. \<exists>ws. render_argument arg values path = Inr ws"
  shows "\<exists>ws. render_argv cid i values args = Inr ws"
  using assms
proof (induction args arbitrary: i)
  case Nil
  then show ?case by simp
next
  case (Cons a args)
  obtain ws where "render_argument a values (''commands.'' @ cid @ ''.argv['' @ show_nat i @ '']'') = Inr ws"
    using Cons.prems by (meson list.set_intros(1))
  moreover obtain ys where "render_argv cid (Suc i) values args = Inr ys"
    using Cons.IH Cons.prems by (meson list.set_intros(2))
  ultimately show ?case by simp
qed

lemma render_segments_total:
  "(\<And>n. n \<in> set (holes ss) \<Longrightarrow> \<exists>w. render_hole cmd values n = Some w) \<Longrightarrow>
     \<exists>out. render_segments cmd values ss = Some out"
  by (induction ss rule: segment_source.induct) fastforce+

lemma renderStdin_total:
  assumes valid: "valid_command lib pk cid cmd"
    and vals: "parse_inputs lib vals (cm_Inputs cmd) [] = Inr values"
  shows "\<exists>t. renderStdin cmd values = Inr t"
proof (cases "cm_Stdin cmd")
  case None
  then show ?thesis by (simp add: renderStdin_def)
next
  case (Some s)
  have dist: "distinct (map in_ID (cm_Inputs cmd))" by (rule valid_command_inputs(1) [OF valid])
  have checked: "validateStdin cmd (declared_inputs cmd) (''commands.'' @ cid) = None"
    by (rule valid_command_parts(2) [OF valid])
  show ?thesis
  proof (cases "si_Input s = []")
    case False
    with checked Some obtain inp where inp: "get (declared_inputs cmd) (si_Input s) = Some inp" "in_Type inp = InputSecret"
      by (auto simp: validateStdin_def Let_def split: if_splits option.splits)
    have "inp \<in> set (cm_Inputs cmd)"
      using inp(1) get_declared_inputs [OF dist] by blast
    from valid_command_inputs(2) [OF valid this] inp(2) have "in_Required inp"
      by (auto simp: validateInput_def Let_def split: if_splits)
    with declared_value [OF vals dist inp(1)] obtain v where
      "get values (si_Input s) = Some v" "pv_present v" by metis
    with Some False show ?thesis by (simp add: renderStdin_def)
  next
    case True
    with checked Some obtain q where
      "first_err (validateHole (declared_inputs cmd) q) (holes (template_segments (si_YAMLTemplate s))) = None"
      by (auto simp: validateStdin_def Let_def split: if_splits)
    then have holes: "\<exists>inp. get (declared_inputs cmd) n = Some inp \<and> in_Required inp"
      if "n \<in> set (holes (template_segments (si_YAMLTemplate s)))" for n
      using that by (auto simp: first_err_None validateHole_def split: option.splits if_splits)
    have "\<exists>w. render_hole cmd values n = Some w" if "n \<in> set (holes (template_segments (si_YAMLTemplate s)))" for n
    proof -
      from holes [OF that] obtain inp where inp: "get (declared_inputs cmd) n = Some inp" "in_Required inp"
        by blast
      with declared_value [OF vals dist inp(1)] obtain v where "get values n = Some v" "pv_present v" by metis
      then show ?thesis by (simp add: render_hole_def)
    qed
    then obtain out where "render_segments cmd values (template_segments (si_YAMLTemplate s)) = Some out"
      using render_segments_total by blast
    with True Some show ?thesis by (simp add: renderStdin_def)
  qed
qed

text \<open>The impact shown for approval: its target is a required, declared input.\<close>

lemma deriveMutationImpact_internal:
  assumes valid: "valid_command lib pk cid cmd" and known: "\<And>r. cm_Risk cmd \<noteq> RiskOther r"
    and vals: "parse_inputs lib vals (cm_Inputs cmd) [] = Inr values"
    and err: "deriveMutationImpact cmd values = Inl e" and internal: "internal e"
  shows "\<exists>im inp v. cm_Impact cmd = Some im \<and> get (declared_inputs cmd) (im_TargetInput im) = Some inp
      \<and> input_value lib vals inp = Inr v \<and> pv_present v \<and> pv_argument v = []"
proof -
  have dist: "distinct (map in_ID (cm_Inputs cmd))" by (rule valid_command_inputs(1) [OF valid])
  from err obtain im where im: "cm_Impact cmd = Some im"
    by (auto simp: deriveMutationImpact_def split: option.splits)
  with valid_command_parts(3) [OF valid] known have "is_mutation (cm_Risk cmd)"
    by (auto simp: validateRiskImpact_def is_mutation_def split: risk.splits)
  from validateRiskImpact_None [OF valid_command_parts(3) [OF valid] this im] obtain inp where
    inp: "get (declared_inputs cmd) (im_TargetInput im) = Some inp" "in_Required inp"
    by (auto simp: validateImpact_def split: option.splits if_splits)
  from declared_value [OF vals dist inp(1)] inp(2) obtain v where
    v: "get values (im_TargetInput im) = Some v" "input_value lib vals inp = Inr v" "pv_present v" by metis
  from err im v(1) internal v(3) have "pv_argument v = []"
    by (auto simp: deriveMutationImpact_def Let_def split: if_splits)
  with im inp v show ?thesis by blast
qed

lemma command_policy_not_internal:
  assumes "valid_command lib pk cid cmd" and "command_policy cmd = Some e"
  shows "\<not> internal e"
  using assms(2) valid_command_parts(3) [OF assms(1)]
  by (auto simp: command_policy_def validateRiskImpact_def is_mutation_def split: if_splits)

lemma usable_tool_not_internal: "usable_tool snap a b c = Inl e \<Longrightarrow> \<not> internal e"
  by (auto simp: usable_tool_def split: option.splits if_splits)

text \<open>
  C35: validation rules out the planner's internal errors. For a command of a validated
  pack \<open>Build\<close> never answers that its own state is invalid, except for one request: the
  input shown as the target of a mutation was sent as the empty text.
\<close>
theorem validated_pack_has_no_internal_error:
  assumes "validated_registry lib reg" and "FindCommand reg (prq_PackID req) (prq_CommandID req) = Some cmd"
    and "proper_maps cmd" and "Build lib (Some reg) snap req = Inl e" and "ple_Code e = ErrInvalidPlanState"
  shows "\<exists>im inp v. cm_Impact cmd = Some im \<and> get (declared_inputs cmd) (im_TargetInput im) = Some inp
      \<and> input_value lib (prq_Values req) inp = Inr v \<and> pv_argument v = []"
proof -
  from assms(2) obtain p where p: "FindPack reg (prq_PackID req) = Some p"
    by (auto simp: FindCommand_def split: option.splits)
  have valid: "valid_command lib (lp_Pack p) (prq_CommandID req) cmd"
    by (rule validated_command [OF assms(1) p assms(2)])
  note dist = valid_command_inputs(1) [OF valid]
  let ?parsed = "parse_inputs lib (prq_Values req) (cm_Inputs cmd) []"
  have policy: "command_policy cmd = None"
    using command_policy_not_internal [OF valid] assms(4,5) p assms(2)
    by (cases "command_policy cmd") (auto simp: Build_def)
  then have known: "cm_Risk cmd \<noteq> RiskOther r" for r
    by (auto simp: command_policy_def is_mutation_def split: if_splits)
  obtain st where st: "usable_tool snap (prq_PackID req) (md_Version (pk_Metadata (lp_Pack p))) (cm_Tool cmd) = Inr st"
    using usable_tool_not_internal assms(4,5) p assms(2) policy
    by (cases "usable_tool snap (prq_PackID req) (md_Version (pk_Metadata (lp_Pack p))) (cm_Tool cmd)")
      (auto simp: Build_def)
  have known_keys: "unknown_inputs cmd (prq_Values req) = []"
    using assms(4,5) p assms(2) policy st
    by (cases "unknown_inputs cmd (prq_Values req)") (auto simp: Build_def)
  obtain vs where vs: "?parsed = Inr vs"
    using parse_inputs_not_internal [OF _ valid_command_inputs(2) [OF valid]]
      assms(4,5) p assms(2) policy st known_keys
    by (cases ?parsed) (auto simp: Build_def)
  have args: "\<exists>ws. render_argv (prq_CommandID req) 0 vs (cm_Argv cmd) = Inr ws"
  proof (rule render_argv_total, rule allI)
    fix arg path assume arg: "arg \<in> set (cm_Argv cmd)"
    from valid_command_parts(1) [OF valid arg] obtain q where
      "validateArgument arg (declared_inputs cmd) q = None" ..
    then show "\<exists>ws. render_argument arg vs path = Inr ws"
      by (rule render_argument_total [OF _ _ vs dist]) (use assms(3) arg in \<open>auto simp: proper_maps_def\<close>)
  qed
  have "deriveMutationImpact cmd vs = Inl e"
    using assms(4) p assms(2) policy st known_keys vs args renderStdin_total [OF valid vs]
    by (auto simp: Build_def bindE_Inl_iff)
  from deriveMutationImpact_internal [OF valid known vs this assms(5)] show ?thesis by blast
qed

text \<open>The exceptional request: an input without a minimum length, sent as the empty text.\<close>

theorem validated_pack_has_no_internal_error_witness:
  "\<exists>im inp v. cm_Impact load_policy = Some im \<and> get (declared_inputs load_policy) (im_TargetInput im) = Some inp
      \<and> input_value sample_lib (prq_Values (load_request [])) inp = Inr v \<and> pv_argument v = []"
proof -
  have "proper_maps load_policy"
    by (auto simp: proper_maps_def load_policy_def no_argument_def)
  from validated_pack_has_no_internal_error [OF vault_validated vault_commands(2) this sample_empty_target]
  show ?thesis by simp
qed

end
