(* ===== verification/AuditLock.thy ===== *)
theory AuditLock
  imports GoText
begin

section \<open>The journal's lock file (internal/audittrail/lock.go)\<close>

text \<open>
  The permanent lock file beside the journal: it is created with a marker, or opened and
  accepted only with exactly that marker. The file system is a record of outcomes: whether the
  file existed, what it held, and whether each check of the path, the operating system's lock
  and the input and output succeed.
\<close>

definition auditLockMarker :: string where
  "auditLockMarker = ''CLIHarbor mutation audit lock v2'' @ [CHR 0x0A]"

record lock_env =
  lk_existing :: "string option"
  lk_opened :: bool
  lk_pathBefore :: bool
  lk_osLock :: bool
  lk_pathLocked :: bool
  lk_written :: nat
  lk_synced :: bool
  lk_read :: bool
  lk_pathAfter :: bool

datatype lock_error = LockUnavailable | LockRedirected | LockHeld | LockIO | LockLegacy | LockUnknown

text \<open>
  The result and the content of the file afterwards; a new file that fails half way keeps the
  bytes that were written.
\<close>

definition acquireAuditLock :: "lock_env \<Rightarrow> lock_error option \<times> string option" where
  "acquireAuditLock env =
     (let created = (lk_existing env = None); before = (if created then Some [] else lk_existing env) in
      if \<not> lk_opened env then (Some LockUnavailable, lk_existing env)
      else if \<not> lk_pathBefore env then (Some LockRedirected, before)
      else if \<not> lk_osLock env then (Some LockHeld, before)
      else if \<not> lk_pathLocked env then (Some LockRedirected, before)
      else if created then
        (let written = Some (take (lk_written env) auditLockMarker) in
         if lk_written env < length auditLockMarker then (Some LockIO, written)
         else if \<not> lk_synced env then (Some LockIO, written)
         else if \<not> lk_pathAfter env then (Some LockRedirected, written)
         else (None, written))
      else if \<not> lk_read env then (Some LockIO, before)
      else let content = take (length auditLockMarker + 1) (the (lk_existing env)) in
        if content = [] then (Some LockLegacy, before)
        else if content \<noteq> auditLockMarker then (Some LockUnknown, before)
        else if \<not> lk_pathAfter env then (Some LockRedirected, before)
        else (None, before))"

text \<open>
  The lock is only ever held on a file that consists of the marker, and whatever an existing
  lock file holds, an old empty one included, is never changed by trying to take it.
\<close>
theorem lock_file_is_never_altered:
  shows "(fst (acquireAuditLock env) = None \<longrightarrow> snd (acquireAuditLock env) = Some auditLockMarker)
    \<and> (lk_existing env \<noteq> None \<longrightarrow> snd (acquireAuditLock env) = lk_existing env)"
proof -
  have whole: "s = auditLockMarker" if "take (length auditLockMarker + 1) s = auditLockMarker" for s
  proof -
    have "length s = length auditLockMarker"
      using arg_cong [OF that, of length] by (simp add: min_def split: if_splits)
    with that show ?thesis by simp
  qed
  show ?thesis
    using whole by (auto simp: acquireAuditLock_def Let_def split: if_splits)
qed

definition sample_lock :: lock_env where
  "sample_lock = \<lparr>lk_existing = Some [], lk_opened = True, lk_pathBefore = True, lk_osLock = True, lk_pathLocked = True,
     lk_written = 0, lk_synced = True, lk_read = True, lk_pathAfter = True\<rparr>"

theorem lock_file_is_never_altered_witness:
  "fst (acquireAuditLock sample_lock) = Some LockLegacy \<and> snd (acquireAuditLock sample_lock) = Some []"
proof -
  have "fst (acquireAuditLock sample_lock) = Some LockLegacy" by code_simp
  with lock_file_is_never_altered [of sample_lock] show ?thesis by (simp add: sample_lock_def)
qed

end
