(* ===== verification/Structured.thy ===== *)
theory Structured
  imports PackModel GoJson
begin

section \<open>Structured output (internal/structured)\<close>

text \<open>
  A run's standard output is turned into typed fields only if it is one flat JSON object whose
  members are exactly declared, unsecret fields. The context is an oracle: \<open>stop n\<close> is whether
  the \<open>n\<close>-th check finds it cancelled.
\<close>

datatype structured_status = StructuredAvailable | StructuredInvalid | StructuredUnavailable

datatype structured_code = ErrInvalidEncoding | ErrOutputTooLarge | ErrMalformedJSON | ErrUnexpectedSchema
  | ErrDuplicateKey | ErrUnexpectedField | ErrMissingField | ErrWrongType | ErrInvalidInteger
  | ErrStringTooLarge | ErrUnsafeControl | ErrParserCancelled | ErrNonzeroExit | ErrRunCancelled
  | ErrRunTimedOut | ErrExecutionFailed | ErrSensitiveOutput

record result_field =
  rf_Key :: string
  rf_Label :: string
  rf_Type :: field_type
  rf_Present :: bool
  rf_Value :: string

record structured_result =
  sr_Status :: structured_status
  sr_Renderer :: string
  sr_Error :: "structured_code option"
  sr_Fields :: "result_field list"

definition MaxInputBytes :: nat where "MaxInputBytes = 65536"
definition MaxStringBytes :: nat where "MaxStringBytes = 8192"
definition MaxFields :: nat where "MaxFields = 32"

definition normalizeRenderer :: "string \<Rightarrow> string" where
  "normalizeRenderer r = (if r = [] then ''cards'' else r)"

definition Unavailable :: "string \<Rightarrow> structured_code \<Rightarrow> structured_result" where
  "Unavailable r code =
     \<lparr>sr_Status = StructuredUnavailable, sr_Renderer = normalizeRenderer r, sr_Error = Some code, sr_Fields = []\<rparr>"

definition Invalid :: "string \<Rightarrow> structured_code \<Rightarrow> structured_result" where
  "Invalid r code =
     \<lparr>sr_Status = StructuredInvalid, sr_Renderer = normalizeRenderer r, sr_Error = Some code, sr_Fields = []\<rparr>"

text \<open>One value of the declared type: its text and the decoder after it.\<close>

definition typed_value :: "structured_field \<Rightarrow> token \<Rightarrow> structured_code + string" where
  "typed_value f tok =
     (case sf_Type f of
        StructuredString \<Rightarrow>
          (case tok of
             TStr v \<Rightarrow>
               if MaxStringBytes < length v then Inl ErrStringTooLarge
               else if \<exists>r \<in> set (runes v). is_control r \<and> r \<noteq> 9 \<and> r \<noteq> 10 \<and> r \<noteq> 13 then Inl ErrUnsafeControl
               else Inr v
           | _ \<Rightarrow> Inl ErrWrongType)
      | StructuredInteger \<Rightarrow>
          (case tok of
             TNum n \<Rightarrow> (case parse_int64 n of None \<Rightarrow> Inl ErrInvalidInteger | Some v \<Rightarrow> Inr (show_int v))
           | _ \<Rightarrow> Inl ErrWrongType)
      | StructuredBoolean \<Rightarrow>
          (case tok of TBool b \<Rightarrow> Inr (if b then ''true'' else ''false'') | _ \<Rightarrow> Inl ErrWrongType)
      | StructuredOther _ \<Rightarrow> Inl ErrUnexpectedSchema)"

definition parseFieldValue :: "decoder \<Rightarrow> structured_field \<Rightarrow> structured_code + (string \<times> decoder)" where
  "parseFieldValue d f =
     (case next_token d of
        Tok tok d' \<Rightarrow> (case typed_value f tok of Inl code \<Rightarrow> Inl code | Inr v \<Rightarrow> Inr (v, d'))
      | _ \<Rightarrow> Inl ErrMalformedJSON)"

lemma parseFieldValue_shorter: "parseFieldValue d f = Inr (v, d') \<Longrightarrow> length (d_rest d') < length (d_rest d)"
  unfolding parseFieldValue_def
  by (auto split: token_result.splits sum.splits dest: next_token_shorter)

text \<open>
  The loop over the members. \<open>Inl None\<close> is a cancelled context; \<open>Inl (Some code)\<close> an invalid
  document; the decoder after the last member otherwise.
\<close>

function parse_members ::
    "(nat \<Rightarrow> bool) \<Rightarrow> nat \<Rightarrow> structured_field dict \<Rightarrow> string dict \<Rightarrow> decoder
      \<Rightarrow> structured_code option + (string dict \<times> decoder)" where
  "parse_members stop n declared seen d =
     (if \<not> has_more d then Inr (seen, d)
      else if stop n then Inl None
      else case next_token d of
        Tok (TStr key) d1 \<Rightarrow>
          (if get seen key \<noteq> None then Inl (Some ErrDuplicateKey)
           else case get declared key of
             None \<Rightarrow> Inl (Some ErrUnexpectedField)
           | Some f \<Rightarrow>
               (case parseFieldValue d1 f of
                  Inl code \<Rightarrow> Inl (Some code)
                | Inr (v, d2) \<Rightarrow> parse_members stop (Suc n) declared (AList.update key v seen) d2))
      | _ \<Rightarrow> Inl (Some ErrMalformedJSON))"
  by pat_completeness auto
termination
proof (relation "measure (\<lambda>(stop, n, declared, seen, d). length (d_rest d))", goal_cases)
  case 1
  show ?case by simp
next
  case (2 stop n declared seen d tok d1 key f p v d2)
  then have "length (d_rest d1) < length (d_rest d)" "length (d_rest d2) < length (d_rest d1)"
    by (auto dest: next_token_shorter parseFieldValue_shorter)
  then show ?case by simp
qed

declare parse_members.simps [simp del]

text \<open>The declarations by key; a sensitive or repeated field refuses the document.\<close>

fun declare_fields ::
    "structured_field list \<Rightarrow> structured_field dict \<Rightarrow> (bool \<times> structured_code) + structured_field dict" where
  "declare_fields [] declared = Inr declared"
| "declare_fields (f # fs) declared =
     (if sf_Sensitive f then Inl (True, ErrSensitiveOutput)
      else if get declared (sf_Key f) \<noteq> None then Inl (False, ErrUnexpectedSchema)
      else declare_fields fs (AList.update (sf_Key f) f declared))"

definition collect_field :: "string dict \<Rightarrow> structured_field \<Rightarrow> result_field" where
  "collect_field seen f =
     \<lparr>rf_Key = sf_Key f, rf_Label = sf_Label f, rf_Type = sf_Type f, rf_Present = get seen (sf_Key f) \<noteq> None,
      rf_Value = (case get seen (sf_Key f) of None \<Rightarrow> [] | Some v \<Rightarrow> v)\<rparr>"

definition closing_ok :: "decoder \<Rightarrow> bool" where
  "closing_ok d =
     (case next_token d of Tok t d' \<Rightarrow> t = TDelim (CHR ''}'') \<and> next_token d' = TokEOF | _ \<Rightarrow> False)"

definition Parse :: "(nat \<Rightarrow> bool) \<Rightarrow> string \<Rightarrow> structured_output \<Rightarrow> string \<Rightarrow> structured_result" where
  "Parse stop input spec renderer0 =
     (let renderer = normalizeRenderer renderer0 in
      if stop 0 then Unavailable renderer ErrParserCancelled
      else if MaxInputBytes < length input then Invalid renderer ErrOutputTooLarge
      else if \<not> valid_utf8 input then Invalid renderer ErrInvalidEncoding
      else if so_Fields spec = [] \<or> MaxFields < length (so_Fields spec) then Invalid renderer ErrUnexpectedSchema
      else case declare_fields (so_Fields spec) [] of
        Inl (sensitive, code) \<Rightarrow> if sensitive then Unavailable renderer code else Invalid renderer code
      | Inr declared \<Rightarrow>
          (case next_token (new_decoder input) of
             Tok t d \<Rightarrow>
               if t \<noteq> TDelim (CHR ''{'') then Invalid renderer ErrUnexpectedSchema
               else (case parse_members stop 1 declared [] d of
                  Inl None \<Rightarrow> Unavailable renderer ErrParserCancelled
                | Inl (Some code) \<Rightarrow> Invalid renderer code
                | Inr (seen, d') \<Rightarrow>
                    if \<not> closing_ok d' then Invalid renderer ErrMalformedJSON
                    else if \<exists>f \<in> set (so_Fields spec). sf_Required f \<and> get seen (sf_Key f) = None
                    then Invalid renderer ErrMissingField
                    else \<lparr>sr_Status = StructuredAvailable, sr_Renderer = renderer, sr_Error = None,
                          sr_Fields = map (collect_field seen) (so_Fields spec)\<rparr>)
           | _ \<Rightarrow> Invalid renderer ErrMalformedJSON))"

end
