(* ===== verification/StructuredSafety.thy ===== *)
theory StructuredSafety
  imports Structured
begin

section \<open>What a structured result shows\<close>

text \<open>The texts a field of a declared type may show.\<close>

definition shown_as :: "structured_field \<Rightarrow> string \<Rightarrow> bool" where
  "shown_as f v \<longleftrightarrow> (case sf_Type f of
       StructuredString \<Rightarrow> length v \<le> 8192 \<and> (\<forall>r \<in> set (runes v). is_control r \<longrightarrow> r = 9 \<or> r = 10 \<or> r = 13)
     | StructuredInteger \<Rightarrow> (\<exists>i. v = show_int i \<and> int64_min \<le> i \<and> i \<le> int64_max)
     | StructuredBoolean \<Rightarrow> v = ''true'' \<or> v = ''false''
     | StructuredOther _ \<Rightarrow> False)"

lemma typed_value_shown: "typed_value f tok = Inr v \<Longrightarrow> shown_as f v"
  unfolding typed_value_def shown_as_def MaxStringBytes_def
  by (auto split: field_type.splits token.splits option.splits if_splits dest!: parse_int64_range)

lemma declare_fields_ok:
  "declare_fields fs declared = Inr out \<Longrightarrow>
     distinct (map sf_Key fs) \<and> (\<forall>f \<in> set fs. \<not> sf_Sensitive f \<and> get declared (sf_Key f) = None \<and> get out (sf_Key f) = Some f)
     \<and> (\<forall>k. k \<notin> set (map sf_Key fs) \<longrightarrow> get out k = get declared k)"
proof (induction fs declared rule: declare_fields.induct)
  case (2 f fs declared)
  then have f: "\<not> sf_Sensitive f" "get declared (sf_Key f) = None"
    "declare_fields fs (AList.update (sf_Key f) f declared) = Inr out" by (auto split: if_splits)
  have "\<not> get declared (sf_Key f) \<noteq> None" using f(2) by simp
  note IH = 2(1) [OF f(1) this f(3)]
  then have key: "sf_Key f \<notin> set (map sf_Key fs)" using f(2) by auto
  then have "get out (sf_Key f) = Some f" using IH f(2) by simp
  moreover have "get declared (sf_Key g) = None" if "g \<in> set fs" for g
  proof -
    have "sf_Key g \<noteq> sf_Key f" using that key by (metis image_eqI list.set_map)
    moreover have "get (AList.update (sf_Key f) f declared) (sf_Key g) = None" using IH that by blast
    ultimately show ?thesis by simp
  qed
  ultimately show ?case using IH key f by auto
qed simp

lemma parse_members_ok:
  "parse_members stop n declared seen d = Inr (out, d') \<Longrightarrow>
     \<forall>k v. get seen k = Some v \<longrightarrow> (\<exists>f. get declared k = Some f \<and> shown_as f v)
     \<Longrightarrow> \<forall>k v. get out k = Some v \<longrightarrow> (\<exists>f. get declared k = Some f \<and> shown_as f v)"
proof (induction stop n declared seen d rule: parse_members.induct)
  case (1 stop n declared seen d)
  show ?case
  proof (cases "has_more d")
    case True
    with 1(2) obtain key d1 f v d2 where step: "\<not> stop n" "next_token d = Tok (TStr key) d1" "get seen key = None"
      "get declared key = Some f" "parseFieldValue d1 f = Inr (v, d2)"
      "parse_members stop (Suc n) declared (AList.update key v seen) d2 = Inr (out, d')"
      by (auto simp: parse_members.simps [of stop n declared seen d]
          split: if_split_asm token_result.split_asm token.split_asm option.split_asm sum.split_asm)
    from step(5) have "shown_as f v"
      by (auto simp: parseFieldValue_def intro: typed_value_shown split: token_result.split_asm sum.split_asm)
    with 1(3) step(4) have "\<forall>k u. get (AList.update key v seen) k = Some u \<longrightarrow> (\<exists>f. get declared k = Some f \<and> shown_as f u)"
      by simp
    from 1(1) [OF _ step(1,2) refl _ step(4,5) refl step(6) this] True step(3) show ?thesis by simp
  qed (use 1(2,3) in \<open>simp add: parse_members.simps [of stop n declared seen d]\<close>)
qed

text \<open>
  C28: An available structured result shows the declared fields and nothing else: one per
  declaration and in its order, none of them sensitive, the required ones present, and each
  value a text of its declared type within its bounds.
\<close>
theorem structured_fields_are_typed:
  assumes "sr_Status (Parse stop input spec renderer) = StructuredAvailable"
  shows "let res = Parse stop input spec renderer in sr_Error res = None
    \<and> map (\<lambda>v. (rf_Key v, rf_Label v, rf_Type v)) (sr_Fields res) = map (\<lambda>f. (sf_Key f, sf_Label f, sf_Type f)) (so_Fields spec)
    \<and> distinct (map rf_Key (sr_Fields res)) \<and> length (sr_Fields res) \<le> 32
    \<and> (\<forall>f \<in> set (so_Fields spec). \<not> sf_Sensitive f)
    \<and> list_all2 (\<lambda>f v. (sf_Required f \<longrightarrow> rf_Present v) \<and> (if rf_Present v then shown_as f (rf_Value v) else rf_Value v = []))
        (so_Fields spec) (sr_Fields res)"
proof -
  from assms obtain declared d seen d' where p: "length (so_Fields spec) \<le> 32"
    "declare_fields (so_Fields spec) [] = Inr declared" "parse_members stop 1 declared [] d = Inr (seen, d')"
    "\<forall>f \<in> set (so_Fields spec). sf_Required f \<longrightarrow> get seen (sf_Key f) \<noteq> None"
    "Parse stop input spec renderer = \<lparr>sr_Status = StructuredAvailable, sr_Renderer = normalizeRenderer renderer,
       sr_Error = None, sr_Fields = map (collect_field seen) (so_Fields spec)\<rparr>"
    unfolding Parse_def Let_def Invalid_def Unavailable_def MaxFields_def
    by (auto split: if_split_asm sum.split_asm prod.split_asm token_result.split_asm option.split_asm)
  note declared = declare_fields_ok [OF p(2)]
  have typed: "\<forall>k v. get seen k = Some v \<longrightarrow> (\<exists>f. get declared k = Some f \<and> shown_as f v)"
    by (rule parse_members_ok [OF p(3)]) simp
  have "list_all2 (\<lambda>f v. (sf_Required f \<longrightarrow> rf_Present v) \<and> (if rf_Present v then shown_as f (rf_Value v) else rf_Value v = []))
        (so_Fields spec) (map (collect_field seen) (so_Fields spec))"
    unfolding list_all2_map2
  proof (rule list_all2I, clarify)
    fix f g assume "(f, g) \<in> set (zip (so_Fields spec) (so_Fields spec))"
    then have "g = f" "f \<in> set (so_Fields spec)" by (auto simp: zip_same)
    with declared p(4) typed show "(sf_Required f \<longrightarrow> rf_Present (collect_field seen g))
        \<and> (if rf_Present (collect_field seen g) then shown_as f (rf_Value (collect_field seen g))
           else rf_Value (collect_field seen g) = [])"
      by (fastforce simp: collect_field_def)
  qed simp
  with p declared show ?thesis by (simp add: collect_field_def comp_def)
qed

definition sample_spec :: structured_output where
  "sample_spec = \<lparr>so_Fields = [
     \<lparr>sf_Key = ''name'', sf_Label = ''Name'', sf_Type = StructuredString, sf_Required = True, sf_Sensitive = False\<rparr>,
     \<lparr>sf_Key = ''n'', sf_Label = ''Count'', sf_Type = StructuredInteger, sf_Required = False, sf_Sensitive = False\<rparr>]\<rparr>"

theorem structured_fields_are_typed_witness:
  "shown_as \<lparr>sf_Key = ''name'', sf_Label = ''Name'', sf_Type = StructuredString, sf_Required = True, sf_Sensitive = False\<rparr>
     (rf_Value (hd (sr_Fields (Parse (\<lambda>_. False) (CHR ''{'' # quote ''name'' @ CHR '':'' # quote ''x'' @ ''}'') sample_spec []))))"
proof -
  let ?res = "Parse (\<lambda>_. False) (CHR ''{'' # quote ''name'' @ CHR '':'' # quote ''x'' @ ''}'') sample_spec []"
  have "sr_Status ?res = StructuredAvailable" by code_simp
  from structured_fields_are_typed [OF this] show ?thesis
    by (auto simp: sample_spec_def Let_def list_all2_Cons1 split: if_splits)
qed

end
