(* ===== verification/Approval.thy ===== *)
theory Approval
  imports Planner
begin

section \<open>Mutation approvals (internal/runs/approval.go)\<close>

text \<open>
  A mutation runs only with an approval issued by the backend for exactly that plan and
  operator context: the table of pending approvals, the text an operator must type, the
  fingerprint that binds an approval to a plan, expiry, eviction and consumption. Times are
  integers (nanoseconds), \<open>sha256\<close> is a parameter, and a call that Go answers with a plain
  error is \<open>Unexpected\<close>.
\<close>

datatype run_error_code = ErrInvalidRequest | ErrRunToolUnavailable | ErrToolChanged | ErrPolicyBlocked
  | ErrContextUnavailable | ErrApprovalRequired | ErrCapacity | ErrNotFound | ErrClosed
  | ErrInvalidCursor | ErrAuditUnavailable

datatype run_error = RunError run_error_code string | Unexpected

abbreviation run_err :: "run_error_code \<Rightarrow> run_error" where
  "run_err code \<equiv> RunError code []"

datatype approval_mode = ApprovalModeNone | ApprovalModeExplicit | ApprovalModeTyped

record context_field =
  cf_Label :: string
  cf_Value :: string

type_synonym execution_context = "context_field list"

record approval_challenge =
  ac_ID :: string
  ac_ExpiresAt :: int
  ac_Mode :: approval_mode
  ac_RequiredText :: string

record approval_submission =
  as_ID :: string
  as_Confirmation :: string

record approval_record =
  apr_Fingerprint :: string
  apr_ExpiresAt :: int
  apr_IssuedAt :: int
  apr_Mode :: approval_mode
  apr_RequiredText :: string

definition requiresApproval :: "plan \<Rightarrow> bool" where
  "requiresApproval p \<longleftrightarrow> pl_Risk p = RiskChange \<or> pl_Risk p = RiskDestructive"

definition approvalRequirement :: "plan \<Rightarrow> unit + (approval_mode \<times> string)" where
  "approvalRequirement p =
     (if \<not> requiresApproval p then Inr (ApprovalModeNone, [])
      else case pl_Impact p of
        None \<Rightarrow> Inl ()
      | Some im \<Rightarrow>
          if mi_Scope im = ImpactScopeMultiple then
            (if pl_Risk p = RiskDestructive then Inr (ApprovalModeTyped, ''DELETE MULTIPLE: '' @ mi_Target im)
             else Inr (ApprovalModeTyped, ''APPROVE MULTIPLE: '' @ mi_Target im))
          else if pl_Risk p = RiskDestructive then Inr (ApprovalModeTyped, ''DELETE: '' @ mi_Target im)
          else Inr (ApprovalModeExplicit, []))"

subsection \<open>The fingerprint\<close>

text \<open>
  \<open>json.Marshal\<close> of the payload struct: the fields in order, texts quoted, a nil slice and a
  nil pointer as \<open>null\<close>. The copy \<open>append([]string(nil), args...)\<close> of no arguments is nil.
\<close>

definition json_field :: "string \<Rightarrow> string \<Rightarrow> string" where
  "json_field k v = quote k @ '':'' @ v"

fun json_join :: "string list \<Rightarrow> string" where
  "json_join [] = []"
| "json_join [x] = x"
| "json_join (x # y # xs) = x @ '','' @ json_join (y # xs)"

definition json_object :: "string list \<Rightarrow> string" where
  "json_object members = ''{'' @ json_join members @ ''}''"

definition json_slice :: "string list \<Rightarrow> string" where
  "json_slice xs = (if xs = [] then ''null'' else ''['' @ json_join xs @ '']'')"

definition encode_impact :: "mutation_impact option \<Rightarrow> string" where
  "encode_impact imp =
     (case imp of
        None \<Rightarrow> ''null''
      | Some im \<Rightarrow> json_object
          [json_field ''TargetLabel'' (quote (mi_TargetLabel im)), json_field ''Target'' (quote (mi_Target im)),
           json_field ''Effect'' (quote (mi_Effect im)), json_field ''Scope'' (quote (scope_text (mi_Scope im)))])"

definition encode_context_field :: "context_field \<Rightarrow> string" where
  "encode_context_field f =
     json_object [json_field ''label'' (quote (cf_Label f)), json_field ''value'' (quote (cf_Value f))]"

definition encode_context :: "execution_context \<Rightarrow> string" where
  "encode_context ctx = json_object [json_field ''fields'' (json_slice (map encode_context_field ctx))]"

definition approval_payload :: "plan \<Rightarrow> execution_context \<Rightarrow> string" where
  "approval_payload p ctx = json_object
     [json_field ''packId'' (quote (pl_PackID p)),
      json_field ''packVersion'' (quote (pl_PackVersion p)),
      json_field ''commandId'' (quote (pl_CommandID p)),
      json_field ''toolId'' (quote (pl_ToolID p)),
      json_field ''toolVersion'' (quote (pl_ToolVersion p)),
      json_field ''executablePath'' (quote (pl_ExecutablePath p)),
      json_field ''executableName'' (quote (pl_ExecutableName p)),
      json_field ''args'' (json_slice (map quote (pl_Args p))),
      json_field ''stdin'' (quote (pl_Stdin p)),
      json_field ''risk'' (quote (risk_text (pl_Risk p))),
      json_field ''impact'' (encode_impact (pl_Impact p)),
      json_field ''context'' (encode_context ctx)]"

definition approvalFingerprint :: "(string \<Rightarrow> string) \<Rightarrow> plan \<Rightarrow> execution_context \<Rightarrow> string" where
  "approvalFingerprint sha256 p ctx = sha256 (approval_payload p ctx)"

subsection \<open>The operator's context\<close>

definition safeContextText :: "string \<Rightarrow> nat \<Rightarrow> bool" where
  "safeContextText v limit \<longleftrightarrow>
     v \<noteq> [] \<and> length v \<le> limit \<and> valid_utf8 v \<and> trim_space v = v
     \<and> (\<forall>r \<in> set (runes v). \<not> unsafe_rune r)"

fun context_fields_ok :: "string list \<Rightarrow> execution_context \<Rightarrow> bool" where
  "context_fields_ok seen [] = True"
| "context_fields_ok seen (f # fs) =
     (safeContextText (cf_Label f) 80 \<and> safeContextText (cf_Value f) 2048 \<and> cf_Label f \<notin> set seen
      \<and> context_fields_ok (cf_Label f # seen) fs)"

definition validateExecutionContext :: "execution_context \<Rightarrow> bool" where
  "validateExecutionContext ctx \<longleftrightarrow> ctx \<noteq> [] \<and> length ctx \<le> 8 \<and> context_fields_ok [] ctx"

definition executionContextFor ::
    "(plan \<Rightarrow> unit + execution_context) option \<Rightarrow> plan \<Rightarrow> run_error + execution_context" where
  "executionContextFor resolver0 p =
     (if \<not> requiresApproval p then Inr []
      else case resolver0 of
        None \<Rightarrow> Inl (run_err ErrContextUnavailable)
      | Some resolve \<Rightarrow>
          (case resolve p of
             Inl _ \<Rightarrow> Inl (run_err ErrContextUnavailable)
           | Inr ctx \<Rightarrow> if validateExecutionContext ctx then Inr ctx
                        else Inl (run_err ErrContextUnavailable)))"

subsection \<open>The table of pending approvals\<close>

definition validRunID :: "string \<Rightarrow> bool" where
  "validRunID v \<longleftrightarrow> length v = 32 \<and> list_all is_hex v"

definition pruneApprovals :: "int \<Rightarrow> approval_record dict \<Rightarrow> approval_record dict" where
  "pruneApprovals now t = filter (\<lambda>(i, r). now < apr_ExpiresAt r) t"

text \<open>The eviction loop, in whatever order the map yields its entries.\<close>

definition older :: "(string \<times> int) \<Rightarrow> (string \<times> approval_record) \<Rightarrow> (string \<times> int)" where
  "older best entry =
     (let (bid, bt) = best; (i, r) = entry in
      if bid = [] \<or> apr_IssuedAt r < bt \<or> (apr_IssuedAt r = bt \<and> i < bid) then (i, apr_IssuedAt r) else best)"

definition evictOldestApproval :: "approval_record dict \<Rightarrow> approval_record dict" where
  "evictOldestApproval t =
     (let oldest = fst (foldl older ([], 0) t) in if oldest \<noteq> [] then AList.delete oldest t else t)"

definition store_approval ::
    "nat \<Rightarrow> int \<Rightarrow> string \<Rightarrow> approval_record \<Rightarrow> approval_record dict \<Rightarrow> approval_record dict" where
  "store_approval maxApprovals now i r t =
     (let t' = pruneApprovals now t; t'' = (if maxApprovals \<le> length t' then evictOldestApproval t' else t')
      in AList.update i r t'')"

text \<open>
  \<open>issueApproval\<close>: \<open>newID\<close> is the generator's answer, \<open>closed\<close> whether the manager was closed
  when the lock was taken.
\<close>

definition issueApproval ::
    "(string \<Rightarrow> string) \<Rightarrow> nat \<Rightarrow> int \<Rightarrow> bool \<Rightarrow> int \<Rightarrow> string option \<Rightarrow> plan \<Rightarrow> execution_context
      \<Rightarrow> approval_record dict \<Rightarrow> (run_error + approval_challenge) \<times> approval_record dict" where
  "issueApproval sha256 maxApprovals ttl closed now newID p ctx t =
     (case approvalRequirement p of
        Inl _ \<Rightarrow> (Inl (run_err ErrPolicyBlocked), t)
      | Inr (mode, required) \<Rightarrow>
          (case newID of
             None \<Rightarrow> (Inl Unexpected, t)
           | Some i \<Rightarrow>
               if \<not> validRunID i then (Inl Unexpected, t)
               else if closed then (Inl (run_err ErrClosed), t)
               else (Inr \<lparr>ac_ID = i, ac_ExpiresAt = now + ttl, ac_Mode = mode, ac_RequiredText = required\<rparr>,
                     store_approval maxApprovals now i
                       \<lparr>apr_Fingerprint = approvalFingerprint sha256 p ctx, apr_ExpiresAt = now + ttl,
                        apr_IssuedAt = now, apr_Mode = mode, apr_RequiredText = required\<rparr> t)))"

definition consumeApproval ::
    "string \<Rightarrow> approval_submission option \<Rightarrow> int \<Rightarrow> approval_record dict
      \<Rightarrow> run_error option \<times> approval_record dict" where
  "consumeApproval fingerprint submission now t =
     (let t' = pruneApprovals now t; refused = Some (run_err ErrApprovalRequired) in
      case submission of
        None \<Rightarrow> (refused, t')
      | Some s \<Rightarrow>
          if \<not> validRunID (as_ID s) then (refused, t')
          else (case get t' (as_ID s) of
             None \<Rightarrow> (refused, t')
           | Some r \<Rightarrow>
               if apr_Fingerprint r \<noteq> fingerprint then (refused, AList.delete (as_ID s) t')
               else if apr_Mode r = ApprovalModeTyped \<and> as_Confirmation s \<noteq> apr_RequiredText r then (refused, t')
               else if apr_Mode r = ApprovalModeExplicit \<and> as_Confirmation s \<noteq> [] then (refused, t')
               else (None, AList.delete (as_ID s) t')))"

subsection \<open>The payload determines the plan\<close>

text \<open>
  Every part of the payload is a prefix code: two encodings followed by anything agree only if
  the parts agree. Stated as conditional rewrite rules, so that the payload's members peel off.
\<close>

lemma quote_peel [simp]:
  "valid_utf8 s \<Longrightarrow> valid_utf8 t \<Longrightarrow> (quote s @ u = quote t @ v) = (s = t \<and> u = v)"
  using quote_append_inject by blast

lemma quote_Cons: "\<exists>r. quote s = dquote # r"
  by (simp add: quote_def)

lemma json_join_peel:
  assumes "\<And>x y u v. x \<in> set xs \<Longrightarrow> y \<in> set ys \<Longrightarrow> (f x @ u = f y @ v) = (x = y \<and> u = v)"
    and "xs \<noteq> []" and "ys \<noteq> []"
    and "json_join (map f xs) @ CHR '']'' # u = json_join (map f ys) @ CHR '']'' # v"
  shows "xs = ys \<and> u = v"
  using assms
proof (induction xs arbitrary: ys)
  case Nil
  then show ?case by simp
next
  case (Cons x xs)
  obtain y ys' where ys: "ys = y # ys'" using Cons.prems(3) by (cases ys) auto
  have peel: "(f x @ a = f y @ b) = (x = y \<and> a = b)" for a b
    using Cons.prems(1) ys by simp
  show ?case
  proof (cases xs)
    case Nil
    with Cons.prems(4) ys show ?thesis by (cases ys') (auto simp: peel)
  next
    case xs: (Cons x' xs')
    show ?thesis
    proof (cases ys')
      case Nil
      with Cons.prems(4) ys xs show ?thesis by (auto simp: peel)
    next
      case (Cons y' ys'')
      from Cons.prems(4) ys xs Cons have "x = y" and
        rest: "json_join (map f xs) @ CHR '']'' # u = json_join (map f ys') @ CHR '']'' # v"
        by (auto simp: peel)
      from Cons.IH [OF _ _ _ rest] xs Cons Cons.prems(1) ys have "xs = ys' \<and> u = v" by auto
      with \<open>x = y\<close> ys show ?thesis by simp
    qed
  qed
qed

lemma json_slice_peel:
  assumes "\<And>x y u v. x \<in> set xs \<Longrightarrow> y \<in> set ys \<Longrightarrow> (f x @ u = f y @ v) = (x = y \<and> u = v)"
  shows "(json_slice (map f xs) @ u = json_slice (map f ys) @ v) = (xs = ys \<and> u = v)"
proof (cases "xs = [] \<or> ys = []")
  case True
  then show ?thesis by (auto simp: json_slice_def)
next
  case False
  then show ?thesis
    using json_join_peel [of xs ys f u v] assms by (auto simp: json_slice_def)
qed

lemma args_peel [simp]:
  "list_all valid_utf8 xs \<Longrightarrow> list_all valid_utf8 ys \<Longrightarrow>
     (json_slice (map quote xs) @ u = json_slice (map quote ys) @ v) = (xs = ys \<and> u = v)"
  by (rule json_slice_peel) (auto simp: list_all_iff)

text \<open>What an approval shows of the impact, and which texts a plan is made of.\<close>

definition impact_view :: "mutation_impact option \<Rightarrow> (string \<times> string \<times> string \<times> string) option" where
  "impact_view = map_option (\<lambda>im. (mi_TargetLabel im, mi_Target im, mi_Effect im, scope_text (mi_Scope im)))"

definition impact_texts :: "mutation_impact option \<Rightarrow> string list" where
  "impact_texts imp = (case imp of None \<Rightarrow> []
     | Some im \<Rightarrow> [mi_TargetLabel im, mi_Target im, mi_Effect im, scope_text (mi_Scope im)])"

definition plan_texts :: "plan \<Rightarrow> string list" where
  "plan_texts p = [pl_PackID p, pl_PackVersion p, pl_CommandID p, pl_ToolID p, pl_ToolVersion p,
     pl_ExecutablePath p, pl_ExecutableName p, pl_Stdin p, risk_text (pl_Risk p)]
     @ pl_Args p @ impact_texts (pl_Impact p)"

definition context_texts :: "execution_context \<Rightarrow> string list" where
  "context_texts ctx = concat (map (\<lambda>f. [cf_Label f, cf_Value f]) ctx)"

lemma impact_peel [simp]:
  "list_all valid_utf8 (impact_texts a) \<Longrightarrow> list_all valid_utf8 (impact_texts b) \<Longrightarrow>
     (encode_impact a @ u = encode_impact b @ v) = (impact_view a = impact_view b \<and> u = v)"
  by (cases a; cases b)
    (auto simp: encode_impact_def impact_view_def impact_texts_def json_object_def json_field_def)

lemma context_peel [simp]:
  assumes "list_all valid_utf8 (context_texts a)" and "list_all valid_utf8 (context_texts b)"
  shows "(encode_context a @ u = encode_context b @ v) = (a = b \<and> u = v)"
proof -
  have "(encode_context_field x @ s = encode_context_field y @ w) = (x = y \<and> s = w)"
    if "x \<in> set a" "y \<in> set b" for x y s w
  proof -
    have "valid_utf8 (cf_Label x)" "valid_utf8 (cf_Value x)" "valid_utf8 (cf_Label y)" "valid_utf8 (cf_Value y)"
      using assms that by (auto simp: context_texts_def list_all_iff)
    then show ?thesis
      by (auto simp: encode_context_field_def json_object_def json_field_def intro: context_field.equality)
  qed
  from json_slice_peel [of a b encode_context_field, OF this]
  show ?thesis by (auto simp: encode_context_def json_object_def json_field_def)
qed

lemma context_peel_end [simp]:
  "list_all valid_utf8 (context_texts a) \<Longrightarrow> list_all valid_utf8 (context_texts b) \<Longrightarrow>
     (encode_context a = encode_context b) = (a = b)"
  using context_peel [of a b "[]" "[]"] by simp

lemma approval_payload_inject:
  assumes "list_all valid_utf8 (plan_texts p)" "list_all valid_utf8 (plan_texts q)"
    and "list_all valid_utf8 (context_texts c)" "list_all valid_utf8 (context_texts d)"
    and "approval_payload p c = approval_payload q d"
  shows "pl_PackID p = pl_PackID q \<and> pl_PackVersion p = pl_PackVersion q \<and> pl_CommandID p = pl_CommandID q
    \<and> pl_ToolID p = pl_ToolID q \<and> pl_ToolVersion p = pl_ToolVersion q
    \<and> pl_ExecutablePath p = pl_ExecutablePath q \<and> pl_ExecutableName p = pl_ExecutableName q
    \<and> pl_Args p = pl_Args q \<and> pl_Stdin p = pl_Stdin q \<and> risk_text (pl_Risk p) = risk_text (pl_Risk q)
    \<and> impact_view (pl_Impact p) = impact_view (pl_Impact q) \<and> c = d"
  using assms by (auto simp: approval_payload_def json_object_def json_field_def plan_texts_def)

subsection \<open>The table\<close>

lemma get_prune:
  assumes "well_keyed t"
  shows "get (pruneApprovals now t) i = Some r \<longleftrightarrow> get t i = Some r \<and> now < apr_ExpiresAt r"
  using get_filter_well_keyed [OF assms, of "\<lambda>(i, r). now < apr_ExpiresAt r" i]
  by (auto simp: pruneApprovals_def split: option.splits)

lemma well_keyed_prune [simp]: "well_keyed t \<Longrightarrow> well_keyed (pruneApprovals now t)"
  by (simp add: pruneApprovals_def)

lemma length_prune: "length (pruneApprovals now t) \<le> length t"
  by (simp add: pruneApprovals_def)

definition age_le :: "(string \<times> int) \<Rightarrow> (string \<times> int) \<Rightarrow> bool" where
  "age_le a b \<longleftrightarrow> snd a < snd b \<or> (snd a = snd b \<and> fst a \<le> fst b)"

lemma age_le_trans: "age_le a b \<Longrightarrow> age_le b c \<Longrightarrow> age_le a c"
  by (auto simp: age_le_def)

lemma age_le_refl: "age_le a a"
  by (simp add: age_le_def)

lemma foldl_older:
  assumes "\<forall>(i, r) \<in> set t. i \<noteq> []" and "fst best \<noteq> []"
  shows "let b = foldl older best t in fst b \<noteq> [] \<and> age_le b best
      \<and> (b = best \<or> (\<exists>r. (fst b, r) \<in> set t \<and> snd b = apr_IssuedAt r))
      \<and> (\<forall>(i, r) \<in> set t. age_le b (i, apr_IssuedAt r))"
  using assms
proof (induction t arbitrary: best)
  case Nil
  then show ?case by (simp add: age_le_refl)
next
  case (Cons e t)
  obtain i r where e: "e = (i, r)" by (cases e)
  define best' where "best' = older best e"
  have ne: "fst best' \<noteq> []"
    using Cons.prems e by (auto simp: best'_def older_def Let_def split: prod.splits)
  have le: "age_le best' best" "age_le best' (i, apr_IssuedAt r)"
    using Cons.prems e by (auto simp: best'_def older_def age_le_def Let_def split: prod.splits)
  have in': "best' = best \<or> best' = (i, apr_IssuedAt r)"
    using e by (auto simp: best'_def older_def Let_def split: prod.splits)
  from Cons.IH [of best'] Cons.prems ne have IH: "let b = foldl older best' t in fst b \<noteq> [] \<and> age_le b best'
      \<and> (b = best' \<or> (\<exists>r. (fst b, r) \<in> set t \<and> snd b = apr_IssuedAt r))
      \<and> (\<forall>(i, r) \<in> set t. age_le b (i, apr_IssuedAt r))" by simp
  define b where "b = foldl older best' t"
  have b: "foldl older best (e # t) = b" by (simp add: b_def best'_def)
  from IH [folded b_def, unfolded Let_def] have
    "fst b \<noteq> []" "age_le b best'" and mem: "b = best' \<or> (\<exists>r. (fst b, r) \<in> set t \<and> snd b = apr_IssuedAt r)"
    and all: "\<forall>(i, r) \<in> set t. age_le b (i, apr_IssuedAt r)" by simp_all
  moreover have "age_le b best" "age_le b (i, apr_IssuedAt r)"
    using age_le_trans \<open>age_le b best'\<close> le by blast+
  moreover have "b = best \<or> (\<exists>r. (fst b, r) \<in> set (e # t) \<and> snd b = apr_IssuedAt r)"
    using mem in' e by (cases "b = best'") auto
  ultimately show ?case unfolding b Let_def using e by simp
qed

text \<open>Eviction removes the approval issued first, ties broken by the smaller id.\<close>

lemma evict_oldest:
  assumes "well_keyed t" and "t \<noteq> []" and "\<forall>(i, r) \<in> set t. i \<noteq> []"
  shows "\<exists>i r. get t i = Some r \<and> evictOldestApproval t = AList.delete i t
      \<and> (\<forall>j s. get t j = Some s \<longrightarrow> age_le (i, apr_IssuedAt r) (j, apr_IssuedAt s))"
proof -
  obtain e t' where t: "t = e # t'" using assms(2) by (cases t) auto
  obtain i0 r0 where e: "e = (i0, r0)" by (cases e)
  define b where "b = foldl older (i0, apr_IssuedAt r0) t'"
  have fold: "foldl older ([], 0) t = b"
    by (simp add: t e b_def older_def)
  have "fst (i0, apr_IssuedAt r0) \<noteq> []" "\<forall>(i, r) \<in> set t'. i \<noteq> []" using assms(3) t e by auto
  from foldl_older [OF this(2,1)] have b: "fst b \<noteq> []" "age_le b (i0, apr_IssuedAt r0)"
    "b = (i0, apr_IssuedAt r0) \<or> (\<exists>r. (fst b, r) \<in> set t' \<and> snd b = apr_IssuedAt r)"
    "\<forall>(i, r) \<in> set t'. age_le b (i, apr_IssuedAt r)"
    by (simp_all add: b_def Let_def)
  obtain r where r: "(fst b, r) \<in> set t" "snd b = apr_IssuedAt r"
    using b(3) t e by (metis fst_conv snd_conv list.set_intros(1) list.set_intros(2))
  then have "get t (fst b) = Some r"
    using assms(1) by (simp add: map_of_eq_Some_iff well_keyed_def)
  moreover have "evictOldestApproval t = AList.delete (fst b) t"
    using b(1) by (simp add: evictOldestApproval_def fold)
  moreover have "age_le (fst b, apr_IssuedAt r) (j, apr_IssuedAt s)" if "get t j = Some s" for j s
  proof -
    from that have "(j, s) \<in> set t" by (rule map_of_SomeD)
    with b(2,4) t e have "age_le b (j, apr_IssuedAt s)" by auto
    moreover have "b = (fst b, apr_IssuedAt r)" using r(2) by (cases b) simp
    ultimately show ?thesis by simp
  qed
  ultimately show ?thesis by blast
qed

lemma evict_length:
  assumes "well_keyed t" and "t \<noteq> []" and "\<forall>(i, r) \<in> set t. i \<noteq> []"
  shows "Suc (length (evictOldestApproval t)) = length t"
  using evict_oldest [OF assms] length_delete_old [OF assms(1)] by auto

text \<open>The invariant of the table: one entry per id, every id well formed, at most the maximum.\<close>

definition approvals_ok :: "nat \<Rightarrow> approval_record dict \<Rightarrow> bool" where
  "approvals_ok maxApprovals t \<longleftrightarrow> well_keyed t \<and> (\<forall>i r. get t i = Some r \<longrightarrow> validRunID i) \<and> length t \<le> maxApprovals"

lemma approvals_ok_ids:
  assumes "approvals_ok m t"
  shows "\<forall>(i, r) \<in> set t. i \<noteq> []"
proof clarify
  fix r assume "([], r) \<in> set t"
  then have "get t [] = Some r"
    using assms by (simp add: approvals_ok_def well_keyed_def map_of_eq_Some_iff)
  with assms show False by (auto simp: approvals_ok_def validRunID_def)
qed

lemma approvals_ok_prune: "approvals_ok m t \<Longrightarrow> approvals_ok m (pruneApprovals now t)"
  using length_prune [of now t] by (auto simp: approvals_ok_def get_prune)

lemma approvals_ok_delete: "approvals_ok m t \<Longrightarrow> approvals_ok m (AList.delete i t)"
  using length_delete_le [of i t] by (auto simp: approvals_ok_def split: if_splits)

lemma get_evict: "get (evictOldestApproval u) j = Some s \<Longrightarrow> get u j = Some s"
  by (auto simp: evictOldestApproval_def Let_def split: if_splits)

lemma get_store_approval:
  assumes "well_keyed t" and "get (store_approval m now i r t) j = Some s"
  shows "(j = i \<and> s = r) \<or> (get t j = Some s \<and> now < apr_ExpiresAt s)"
  using assms get_evict [of "pruneApprovals now t" j s] get_prune [OF assms(1), of now j s]
  by (simp add: store_approval_def Let_def split: if_splits)

lemma get_store_same: "get (store_approval m now i r t) i = Some r"
  by (simp add: store_approval_def Let_def)

lemma approvals_ok_store:
  assumes ok: "approvals_ok m t" and "0 < m" and "validRunID i"
  shows "approvals_ok m (store_approval m now i r t)"
proof -
  define t' where "t' = pruneApprovals now t"
  define t'' where "t'' = (if m \<le> length t' then evictOldestApproval t' else t')"
  have ok': "approvals_ok m t'" unfolding t'_def by (rule approvals_ok_prune [OF ok])
  then have wk: "well_keyed t'" by (simp add: approvals_ok_def)
  have t'': "well_keyed t''" "length t'' < m" "\<forall>j s. get t'' j = Some s \<longrightarrow> get t' j = Some s"
  proof -
    show "well_keyed t''" using wk by (simp add: t''_def evictOldestApproval_def Let_def)
    show "\<forall>j s. get t'' j = Some s \<longrightarrow> get t' j = Some s"
      by (auto simp: t''_def evictOldestApproval_def Let_def split: if_splits)
    show "length t'' < m"
    proof (cases "m \<le> length t'")
      case True
      with assms(2) have "t' \<noteq> []" by auto
      from evict_length [OF wk this approvals_ok_ids [OF ok']] True ok' show ?thesis
        by (simp add: t''_def approvals_ok_def)
    qed (simp add: t''_def)
  qed
  have "length (AList.update i r t'') \<le> m"
    using t''(2) length_update_new [of t'' i r] length_update_old [of t'' i _ r] by (cases "get t'' i") auto
  moreover have "store_approval m now i r t = AList.update i r t''"
    by (simp add: store_approval_def Let_def t''_def t'_def)
  ultimately show ?thesis
    using t'' ok' assms(3) by (auto simp: approvals_ok_def split: if_splits)
qed

lemma issueApproval_Inr:
  "issueApproval sha m ttl closed now new p ctx t = (Inr ch, t') \<Longrightarrow>
     new = Some (ac_ID ch) \<and> validRunID (ac_ID ch) \<and> \<not> closed
     \<and> approvalRequirement p = Inr (ac_Mode ch, ac_RequiredText ch)
     \<and> t' = store_approval m now (ac_ID ch) \<lparr>apr_Fingerprint = approvalFingerprint sha p ctx,
          apr_ExpiresAt = now + ttl, apr_IssuedAt = now, apr_Mode = ac_Mode ch, apr_RequiredText = ac_RequiredText ch\<rparr> t"
  by (auto simp: issueApproval_def split: sum.splits option.splits if_splits)

lemma issueApproval_Inl: "issueApproval sha m ttl closed now new p ctx t = (Inl e, t') \<Longrightarrow> t' = t"
  by (auto simp: issueApproval_def split: sum.splits option.splits if_splits)

lemma consumeApproval_ok:
  assumes "well_keyed t"
  shows "consumeApproval fp (Some s) now t = (None, t') \<longleftrightarrow>
     (\<exists>r. get t (as_ID s) = Some r \<and> now < apr_ExpiresAt r \<and> apr_Fingerprint r = fp \<and> validRunID (as_ID s)
        \<and> (apr_Mode r = ApprovalModeTyped \<longrightarrow> as_Confirmation s = apr_RequiredText r)
        \<and> (apr_Mode r = ApprovalModeExplicit \<longrightarrow> as_Confirmation s = [])
        \<and> t' = AList.delete (as_ID s) (pruneApprovals now t))"
  using get_prune [OF assms, of now "as_ID s"]
  by (auto simp: consumeApproval_def Let_def split: option.splits if_splits)

lemma consume_smaller:
  "snd (consumeApproval fp s now t) = pruneApprovals now t
     \<or> (\<exists>i. snd (consumeApproval fp s now t) = AList.delete i (pruneApprovals now t))"
  by (auto simp: consumeApproval_def Let_def split: option.splits)

lemma get_consume:
  assumes "well_keyed t" and "get (snd (consumeApproval fp s now t)) i = Some r"
  shows "get t i = Some r \<and> now < apr_ExpiresAt r"
  using assms consume_smaller [of fp s now t] by (auto simp: get_prune split: if_splits)

lemma approvals_ok_consume: "approvals_ok m t \<Longrightarrow> approvals_ok m (snd (consumeApproval fp s now t))"
  using consume_smaller [of fp s now t] by (auto simp: approvals_ok_prune approvals_ok_delete)

lemmas approvals_ok_steps = approvals_ok_prune approvals_ok_delete approvals_ok_store approvals_ok_consume

end
