(* ===== verification/AuditTrail.thy ===== *)
theory AuditTrail
  imports Approval
begin

section \<open>The mutation journal (internal/audittrail)\<close>

text \<open>
  An append-only file of JSON lines, one per approved mutation and one per completion, each
  carrying the hash of the one before it: the entry format and its decoder, the checks of
  \<open>readEntries\<close>, the store with \<open>Append\<close> and \<open>List\<close>, \<open>Open\<close>, \<open>Verify\<close> and
  \<open>Quarantine\<close>. SHA-256 (as hexadecimal text) is a parameter; a time is its RFC 3339 text, and
  package time is the parameter \<open>tm\<close>: the text that decoding and encoding a text again gives,
  and whether a text is the zero time.
\<close>

text \<open>The event the run manager records (type \<open>AuditEvent\<close> of internal/runs/manager.go).\<close>

record audit_event =
  ae_RunID :: string
  ae_Action :: string
  ae_PackID :: string
  ae_CommandID :: string
  ae_Risk :: string
  ae_TargetLabel :: string
  ae_Target :: string
  ae_Effect :: string
  ae_Scope :: string
  ae_Status :: string
  ae_ExitCode :: "int option"

record time_lib =
  tm_canon :: "string \<Rightarrow> string option"
  tm_is_zero :: "string \<Rightarrow> bool"

record entry =
  en_Sequence :: nat
  en_PreviousHash :: string
  en_Hash :: string
  en_RunID :: string
  en_Time :: string
  en_Action :: string
  en_PackID :: string
  en_CommandID :: string
  en_Risk :: string
  en_TargetLabel :: string
  en_Target :: string
  en_Effect :: string
  en_Scope :: string
  en_Status :: string
  en_ExitCode :: "int option"
  en_Undo :: string

definition zero_time :: string where
  "zero_time = ''0001-01-01T00:00:00Z''"

definition zero_entry :: entry where
  "zero_entry = \<lparr>en_Sequence = 0, en_PreviousHash = [], en_Hash = [], en_RunID = [], en_Time = zero_time,
     en_Action = [], en_PackID = [], en_CommandID = [], en_Risk = [], en_TargetLabel = [], en_Target = [],
     en_Effect = [], en_Scope = [], en_Status = [], en_ExitCode = None, en_Undo = []\<rparr>"

definition maxBytes :: nat where "maxBytes = 16777216"
definition maxEntries :: nat where "maxEntries = 25000"

subsection \<open>The line of an entry\<close>

text \<open>\<open>json.Marshal\<close> of an entry; \<open>opt\<close> is an \<open>omitempty\<close> text field.\<close>

definition opt_field :: "string \<Rightarrow> string \<Rightarrow> string list" where
  "opt_field k v = (if v = [] then [] else [json_field k (quote v)])"

definition entry_members :: "entry \<Rightarrow> string list" where
  "entry_members e =
     [json_field ''sequence'' (show_nat (en_Sequence e)),
      json_field ''previousHash'' (quote (en_PreviousHash e)),
      json_field ''hash'' (quote (en_Hash e)),
      json_field ''runId'' (quote (en_RunID e)),
      json_field ''time'' (quote (en_Time e)),
      json_field ''action'' (quote (en_Action e))]
     @ opt_field ''packId'' (en_PackID e) @ opt_field ''commandId'' (en_CommandID e)
     @ opt_field ''risk'' (en_Risk e) @ opt_field ''targetLabel'' (en_TargetLabel e)
     @ opt_field ''target'' (en_Target e) @ opt_field ''effect'' (en_Effect e)
     @ opt_field ''scope'' (en_Scope e) @ opt_field ''status'' (en_Status e)
     @ (case en_ExitCode e of None \<Rightarrow> [] | Some c \<Rightarrow> [json_field ''exitCode'' (show_int c)])
     @ [json_field ''undo'' (quote (en_Undo e))]"

definition encode_entry :: "entry \<Rightarrow> string" where
  "encode_entry e = json_object (entry_members e)"

text \<open>
  Decoding a flat object into the entry: a key is matched exactly or else ignoring case (two
  non-ASCII letters fold to s and k), an unknown key and a value of another kind are errors,
  null leaves a field as it is, the last of two equal keys wins. A nested value is an error in
  every field, so the reader below stops at it.
\<close>

fun json_fold :: "string \<Rightarrow> string" where
  "json_fold [] = []"
| "json_fold (c # cs) =
     (if c = CHR 0xC5 \<and> has_prefix [CHR 0xBF] cs then CHR ''s'' # json_fold (drop 1 cs)
      else if c = CHR 0xE2 \<and> has_prefix [CHR 0x84, CHR 0xAA] cs then CHR ''k'' # json_fold (drop 2 cs)
      else lower_char c # json_fold cs)"

definition entry_keys :: "string list" where
  "entry_keys = [''sequence'', ''previousHash'', ''hash'', ''runId'', ''time'', ''action'', ''packId'', ''commandId'',
     ''risk'', ''targetLabel'', ''target'', ''effect'', ''scope'', ''status'', ''exitCode'', ''undo'']"

definition field_of_key :: "string \<Rightarrow> string option" where
  "field_of_key k = (if k \<in> set entry_keys then Some k
     else find (\<lambda>f. json_fold f = json_fold k) entry_keys)"

definition parse_uint64 :: "string \<Rightarrow> nat option" where
  "parse_uint64 ds =
     (if ds = [] \<or> \<not> list_all is_digit ds then None
      else let n = nat_of_digits 0 ds in if n < 2 ^ 64 then Some n else None)"

definition text_value :: "string \<Rightarrow> scalar \<Rightarrow> string option" where
  "text_value old v = (case v of SStr t \<Rightarrow> Some t | SNull \<Rightarrow> Some old | _ \<Rightarrow> None)"

definition set_field ::
    "time_lib \<Rightarrow> string \<Rightarrow> scalar \<Rightarrow> entry \<Rightarrow> entry option" where
  "set_field tm f v e =
     (if f = ''sequence'' then
        (case v of SNum n \<Rightarrow> map_option (\<lambda>q. e\<lparr>en_Sequence := q\<rparr>) (parse_uint64 n) | SNull \<Rightarrow> Some e | _ \<Rightarrow> None)
      else if f = ''time'' then
        (case v of SStr t \<Rightarrow> map_option (\<lambda>q. e\<lparr>en_Time := q\<rparr>) (tm_canon tm t) | SNull \<Rightarrow> Some e | _ \<Rightarrow> None)
      else if f = ''exitCode'' then
        (case v of SNum n \<Rightarrow> map_option (\<lambda>q. e\<lparr>en_ExitCode := Some q\<rparr>) (parse_int64 n)
         | SNull \<Rightarrow> Some (e\<lparr>en_ExitCode := None\<rparr>) | _ \<Rightarrow> None)
      else if f = ''previousHash'' then map_option (\<lambda>t. e\<lparr>en_PreviousHash := t\<rparr>) (text_value (en_PreviousHash e) v)
      else if f = ''hash'' then map_option (\<lambda>t. e\<lparr>en_Hash := t\<rparr>) (text_value (en_Hash e) v)
      else if f = ''runId'' then map_option (\<lambda>t. e\<lparr>en_RunID := t\<rparr>) (text_value (en_RunID e) v)
      else if f = ''action'' then map_option (\<lambda>t. e\<lparr>en_Action := t\<rparr>) (text_value (en_Action e) v)
      else if f = ''packId'' then map_option (\<lambda>t. e\<lparr>en_PackID := t\<rparr>) (text_value (en_PackID e) v)
      else if f = ''commandId'' then map_option (\<lambda>t. e\<lparr>en_CommandID := t\<rparr>) (text_value (en_CommandID e) v)
      else if f = ''risk'' then map_option (\<lambda>t. e\<lparr>en_Risk := t\<rparr>) (text_value (en_Risk e) v)
      else if f = ''targetLabel'' then map_option (\<lambda>t. e\<lparr>en_TargetLabel := t\<rparr>) (text_value (en_TargetLabel e) v)
      else if f = ''target'' then map_option (\<lambda>t. e\<lparr>en_Target := t\<rparr>) (text_value (en_Target e) v)
      else if f = ''effect'' then map_option (\<lambda>t. e\<lparr>en_Effect := t\<rparr>) (text_value (en_Effect e) v)
      else if f = ''scope'' then map_option (\<lambda>t. e\<lparr>en_Scope := t\<rparr>) (text_value (en_Scope e) v)
      else if f = ''status'' then map_option (\<lambda>t. e\<lparr>en_Status := t\<rparr>) (text_value (en_Status e) v)
      else if f = ''undo'' then map_option (\<lambda>t. e\<lparr>en_Undo := t\<rparr>) (text_value (en_Undo e) v)
      else None)"

text \<open>One member of an object: a key, a colon and a scalar, with the rest of the input.\<close>

definition lex_member :: "string \<Rightarrow> ((string \<times> scalar) \<times> string) option" where
  "lex_member s =
     (case skip_ws s of
        [] \<Rightarrow> None
      | c # t \<Rightarrow>
          if c \<noteq> dquote then None
          else (case lex_string t of
              None \<Rightarrow> None
            | Some (k, r) \<Rightarrow>
                (case skip_ws r of
                   [] \<Rightarrow> None
                 | d # u \<Rightarrow>
                     if d \<noteq> CHR '':'' then None
                     else map_option (\<lambda>(v, w). ((k, v), w)) (lex_scalar (skip_ws u)))))"

lemma lex_member_shorter: "lex_member s = Some (m, r) \<Longrightarrow> length r < length s"
proof -
  assume "lex_member s = Some (m, r)"
  then obtain t k r1 u v where a: "skip_ws s = dquote # t" "lex_string t = Some (k, r1)"
      "skip_ws r1 = CHR '':'' # u" "lex_scalar (skip_ws u) = Some (v, r)"
    by (auto simp: lex_member_def split: list.splits if_splits option.splits)
  have "length (dquote # t) \<le> length s" using length_dropWhile_le [of json_ws s] a(1) by simp
  moreover have "length r1 < length t" by (rule lex_string_length [OF a(2)])
  moreover have "length (CHR '':'' # u) \<le> length r1" using length_dropWhile_le [of json_ws r1] a(3) by simp
  moreover have "length r < length (skip_ws u)" by (rule lex_scalar_length [OF a(4)])
  moreover have "length (skip_ws u) \<le> length u" by (rule length_dropWhile_le)
  ultimately show "length r < length s" by simp
qed

function lex_members :: "string \<Rightarrow> ((string \<times> scalar) list \<times> string) option" where
  "lex_members s =
     (case lex_member s of
        None \<Rightarrow> None
      | Some (m, r) \<Rightarrow>
          (case skip_ws r of
             [] \<Rightarrow> None
           | c # t \<Rightarrow>
               if c = CHR ''}'' then Some ([m], t)
               else if c = CHR '','' then map_option (\<lambda>(ms, u). (m # ms, u)) (lex_members t)
               else None))"
  by pat_completeness auto
termination
proof (relation "measure length", goal_cases)
  case 1
  show ?case by simp
next
  case (2 s p m r c t)
  then have "lex_member s = Some (m, r)" and eq: "skip_ws r = c # t" by simp_all
  then have "length r < length s" using lex_member_shorter by blast
  moreover have "length (c # t) \<le> length r"
    using length_dropWhile_le [of json_ws r] eq by simp
  ultimately show ?case by simp
qed

declare lex_members.simps [simp del]

definition lex_object :: "string \<Rightarrow> ((string \<times> scalar) list \<times> string) option" where
  "lex_object s =
     (case skip_ws s of
        [] \<Rightarrow> None
      | c # t \<Rightarrow>
          if c \<noteq> CHR ''{'' then None
          else (case skip_ws t of
              d # u \<Rightarrow> if d = CHR ''}'' then Some ([], u) else lex_members t
            | [] \<Rightarrow> None))"

fun set_fields :: "time_lib \<Rightarrow> (string \<times> scalar) list \<Rightarrow> entry \<Rightarrow> entry option" where
  "set_fields tm [] e = Some e"
| "set_fields tm ((k, v) # ms) e =
     (case field_of_key k of
        None \<Rightarrow> None
      | Some f \<Rightarrow> (case set_field tm f v e of None \<Rightarrow> None | Some e' \<Rightarrow> set_fields tm ms e'))"

text \<open>
  A line decoded with \<open>DisallowUnknownFields\<close> and no trailing value. The value \<open>null\<close> leaves
  the entry at its zero value, which no journal accepts.
\<close>

definition decode_entry :: "time_lib \<Rightarrow> string \<Rightarrow> entry option" where
  "decode_entry tm line =
     (if strict_scalar line = Some SNull then Some zero_entry
      else case lex_object line of
        None \<Rightarrow> None
      | Some (ms, rest) \<Rightarrow> if skip_ws rest = [] then set_fields tm ms zero_entry else None)"

subsection \<open>Checking entries\<close>

definition visible_text :: "string \<Rightarrow> bool" where
  "visible_text v \<longleftrightarrow> length v \<le> 2048 \<and> (\<forall>r \<in> set (runes v). 32 \<le> r \<and> r \<noteq> 127)"

definition lower_hex :: "string \<Rightarrow> bool" where
  "lower_hex v \<longleftrightarrow> list_all (\<lambda>c. is_digit c \<or> (97 \<le> byte c \<and> byte c \<le> 102)) v"

definition validEntry :: "time_lib \<Rightarrow> entry \<Rightarrow> bool" where
  "validEntry tm e \<longleftrightarrow>
     length (en_RunID e) = 32 \<and> \<not> tm_is_zero tm (en_Time e) \<and> en_Undo e = ''not-available''
     \<and> lower_hex (en_RunID e)
     \<and> (en_Action e = ''approved'' \<or> en_Action e = ''completed'')
     \<and> (en_Action e = ''approved'' \<longrightarrow>
          (en_Risk e = ''change'' \<or> en_Risk e = ''destructive'') \<and> en_PackID e \<noteq> [] \<and> en_CommandID e \<noteq> []
          \<and> en_TargetLabel e \<noteq> [] \<and> en_Effect e \<noteq> [] \<and> (en_Scope e = ''single'' \<or> en_Scope e = ''multiple'')
          \<and> en_Status e = [] \<and> en_ExitCode e = None)
     \<and> (en_Action e = ''completed'' \<longrightarrow>
          en_Status e \<in> set [''exited'', ''cancelled'', ''timed-out'', ''failed'']
          \<and> en_PackID e = [] \<and> en_CommandID e = [] \<and> en_Risk e = [] \<and> en_TargetLabel e = [] \<and> en_Target e = []
          \<and> en_Effect e = [] \<and> en_Scope e = [])
     \<and> list_all visible_text [en_PackID e, en_CommandID e, en_Risk e, en_TargetLabel e, en_Target e,
          en_Effect e, en_Scope e, en_Status e]"

definition calculateHash :: "(string \<Rightarrow> string) \<Rightarrow> entry \<Rightarrow> string" where
  "calculateHash sha e = sha (encode_entry (e\<lparr>en_Hash := []\<rparr>))"

text \<open>The pending-approval map: \<open>true\<close> after an approval, \<open>false\<close> after its completion.\<close>

definition action_allowed :: "bool dict \<Rightarrow> entry \<Rightarrow> bool" where
  "action_allowed seen e =
     (if en_Action e = ''approved'' then get seen (en_RunID e) = None
      else get seen (en_RunID e) = Some True)"

definition note_action :: "entry \<Rightarrow> bool dict \<Rightarrow> bool dict" where
  "note_action e seen = AList.update (en_RunID e) (en_Action e = ''approved'') seen"

definition entry_follows :: "(string \<Rightarrow> string) \<Rightarrow> time_lib \<Rightarrow> entry list \<Rightarrow> string \<Rightarrow> entry \<Rightarrow> bool" where
  "entry_follows sha tm es prev e \<longleftrightarrow>
     length es < maxEntries \<and> en_Sequence e = length es + 1 \<and> en_PreviousHash e = prev
     \<and> validEntry tm e \<and> en_Hash e = calculateHash sha e"

definition newline :: char where "newline = CHR 0x0A"

text \<open>The loop of \<open>readEntries\<close> over the remaining content.\<close>

function read_loop ::
    "(string \<Rightarrow> string) \<Rightarrow> time_lib \<Rightarrow> entry list \<Rightarrow> bool dict \<Rightarrow> string \<Rightarrow> string \<Rightarrow> entry list option" where
  "read_loop sha tm es seen prev content =
     (if content = [] then Some es
      else let line = takeWhile (\<lambda>c. c \<noteq> newline) content; after = dropWhile (\<lambda>c. c \<noteq> newline) content in
        if after = [] \<or> 4096 < length line + 1 then None
        else case decode_entry tm (line @ [newline]) of
          None \<Rightarrow> None
        | Some e \<Rightarrow>
            if entry_follows sha tm es prev e \<and> action_allowed seen e
            then read_loop sha tm (es @ [e]) (note_action e seen) (en_Hash e) (tl after) else None)"
  by pat_completeness auto
termination
proof (relation "measure (\<lambda>(sha, tm, es, seen, prev, content). length content)", goal_cases)
  case 1
  show ?case by simp
next
  case (2 sha tm es seen prev content line after e)
  then have "after \<noteq> []" "length after \<le> length content"
    by (simp_all add: length_dropWhile_le)
  then show ?case by (cases after) simp_all
qed

declare read_loop.simps [simp del]

definition readEntries :: "(string \<Rightarrow> string) \<Rightarrow> time_lib \<Rightarrow> string \<Rightarrow> entry list option" where
  "readEntries sha tm content = read_loop sha tm [] [] [] content"

subsection \<open>The store\<close>

record store =
  st_content :: string
  st_open :: bool
  st_entries :: "entry list"
  st_seen :: "bool dict"
  st_size :: nat
  st_failed :: bool

text \<open>
  What the clock and the file system do in one \<open>Append\<close>: the time, how many bytes the write
  took, whether it reported an error and whether the sync succeeded.
\<close>

record append_env =
  ap_time :: string
  ap_written :: nat
  ap_writeErr :: bool
  ap_synced :: bool

datatype audit_error = AuditUnavailable | AuditCapacity | AuditInvalid | AuditDuplicate | AuditNoPending
  | AuditWriteFailed | AuditSyncFailed

definition new_entry :: "string \<Rightarrow> audit_event \<Rightarrow> entry list \<Rightarrow> entry" where
  "new_entry now ev es =
     \<lparr>en_Sequence = length es + 1, en_PreviousHash = (if es = [] then [] else en_Hash (last es)), en_Hash = [],
      en_RunID = ae_RunID ev, en_Time = now, en_Action = ae_Action ev, en_PackID = ae_PackID ev,
      en_CommandID = ae_CommandID ev, en_Risk = ae_Risk ev, en_TargetLabel = ae_TargetLabel ev,
      en_Target = ae_Target ev, en_Effect = ae_Effect ev, en_Scope = ae_Scope ev, en_Status = ae_Status ev,
      en_ExitCode = ae_ExitCode ev, en_Undo = ''not-available''\<rparr>"

definition write_entry :: "append_env \<Rightarrow> entry \<Rightarrow> string \<Rightarrow> store \<Rightarrow> audit_error option \<times> store" where
  "write_entry env e raw st =
     (let st' = st\<lparr>st_content := st_content st @ take (ap_written env) raw\<rparr> in
      if ap_writeErr env \<or> ap_written env \<noteq> length raw then (Some AuditWriteFailed, st'\<lparr>st_failed := True\<rparr>)
      else if \<not> ap_synced env then (Some AuditSyncFailed, st'\<lparr>st_failed := True\<rparr>)
      else (None, st'\<lparr>st_size := st_size st + length raw, st_entries := st_entries st @ [e],
                      st_seen := note_action e (st_seen st)\<rparr>))"

definition Append ::
    "(string \<Rightarrow> string) \<Rightarrow> time_lib \<Rightarrow> append_env \<Rightarrow> audit_event \<Rightarrow> store \<Rightarrow> audit_error option \<times> store" where
  "Append sha tm env ev st =
     (if st_failed st \<or> \<not> st_open st then (Some AuditUnavailable, st)
      else if maxEntries \<le> length (st_entries st) \<or> maxBytes \<le> st_size st then (Some AuditCapacity, st)
      else let e0 = new_entry (ap_time env) ev (st_entries st) in
      if \<not> validEntry tm e0 then (Some AuditInvalid, st)
      else if en_Action e0 = ''approved'' \<and> get (st_seen st) (en_RunID e0) \<noteq> None then (Some AuditDuplicate, st)
      else if en_Action e0 \<noteq> ''approved'' \<and> get (st_seen st) (en_RunID e0) \<noteq> Some True
      then (Some AuditNoPending, st)
      else let e = e0\<lparr>en_Hash := calculateHash sha e0\<rparr>; raw = encode_entry e @ [newline] in
      if 4096 < length raw \<or> maxBytes < st_size st + length raw then (Some AuditCapacity, st)
      else write_entry env e raw st)"

text \<open>\<open>List\<close>: the last hundred entries, newest first. \<open>Close\<close> gives the file up.\<close>

definition audit_List :: "store \<Rightarrow> entry list" where
  "audit_List st = rev (drop (length (st_entries st) - 100) (st_entries st))"

definition audit_Close :: "store \<Rightarrow> store" where
  "audit_Close st = st\<lparr>st_open := False\<rparr>"

subsection \<open>Opening, verifying, setting aside\<close>

record open_env =
  op_abs :: bool
  op_dirPrivate :: bool
  op_regularOrAbsent :: bool
  op_locked :: bool
  op_opened :: bool
  op_regular :: bool
  op_private :: bool
  op_content :: string

datatype open_error = OpenRefused | ErrIntegrity

fun seen_of :: "entry list \<Rightarrow> bool dict \<Rightarrow> bool dict" where
  "seen_of [] seen = seen"
| "seen_of (e # es) seen = seen_of es (note_action e seen)"

definition audit_Open :: "(string \<Rightarrow> string) \<Rightarrow> time_lib \<Rightarrow> open_env \<Rightarrow> open_error + store" where
  "audit_Open sha tm env =
     (if \<not> op_abs env \<or> \<not> op_dirPrivate env \<or> \<not> op_regularOrAbsent env \<or> \<not> op_locked env \<or> \<not> op_opened env
      then Inl OpenRefused
      else if \<not> op_regular env \<or> maxBytes < length (op_content env) \<or> \<not> op_private env then Inl OpenRefused
      else case readEntries sha tm (op_content env) of
        None \<Rightarrow> Inl ErrIntegrity
      | Some es \<Rightarrow> Inr \<lparr>st_content = op_content env, st_open = True, st_entries = es, st_seen = seen_of es [],
                       st_size = length (op_content env), st_failed = False\<rparr>)"

text \<open>Files by absolute path, as far as \<open>Verify\<close> and \<open>Quarantine\<close> see them.\<close>

datatype node = Regular string | Irregular

type_synonym disk = "node dict"

definition Verify :: "(string \<Rightarrow> string) \<Rightarrow> time_lib \<Rightarrow> disk \<Rightarrow> string \<Rightarrow> open_error + nat" where
  "Verify sha tm d path =
     (case get d path of
        None \<Rightarrow> Inl OpenRefused
      | Some Irregular \<Rightarrow> Inl OpenRefused
      | Some (Regular content) \<Rightarrow>
          if maxBytes < length content then Inl ErrIntegrity
          else (case readEntries sha tm content of None \<Rightarrow> Inl ErrIntegrity | Some es \<Rightarrow> Inr (length es)))"

definition preserved_name :: "string \<Rightarrow> string \<Rightarrow> string" where
  "preserved_name path stamp = trim_suffix ''.jsonl'' path @ ''.quarantined-'' @ stamp @ ''.jsonl''"

text \<open>
  \<open>locked\<close> is whether the audit lock was taken, \<open>renamed\<close> whether the rename succeeded; a failed
  rename removes the placeholder again. The result is the preserved path and its digest.
\<close>

definition Quarantine ::
    "(string \<Rightarrow> string) \<Rightarrow> time_lib \<Rightarrow> bool \<Rightarrow> bool \<Rightarrow> string \<Rightarrow> string \<Rightarrow> disk \<Rightarrow> (string \<times> string) option \<times> disk" where
  "Quarantine sha tm locked renamed stamp path d =
     (if path = [] \<or> \<not> is_abs path then (None, d)
      else case get d path of
        None \<Rightarrow> (None, d)
      | Some Irregular \<Rightarrow> (None, d)
      | Some (Regular content) \<Rightarrow>
          if \<not> locked then (None, d)
          else if Verify sha tm d path \<noteq> Inl ErrIntegrity then (None, d)
          else let p = preserved_name path stamp in
            if get d p \<noteq> None then (None, d)
            else if \<not> renamed then (None, d)
            else (Some (p, sha content), AList.update p (Regular content) (AList.delete path d)))"

end
