(* ===== verification/GoJsonTree.thy ===== *)
theory GoJsonTree
  imports AuditTrail
begin

section \<open>JSON documents as trees\<close>

text \<open>
  \<open>json.Unmarshal\<close> of a document with nested values: the document is checked as a whole (nesting
  up to 10000), then its values are assigned to the target in the order they are written, an
  exact key first and else one that agrees up to case, unknown keys ignored. Assigning a list
  reuses the elements the target's array already holds, as package json does when a key is
  repeated. A number read into an interface is the nearest 64-bit float.
\<close>

datatype jvalue = JNull | JBool bool | JNum string | JStr string
  | JArr "jvalue list" | JObj "(string \<times> jvalue) list"

definition maxNestingDepth :: nat where "maxNestingDepth = 10000"

definition jscalar :: "scalar \<Rightarrow> jvalue" where
  "jscalar v = (case v of SNull \<Rightarrow> JNull | SBool b \<Rightarrow> JBool b | SNum n \<Rightarrow> JNum n | SStr t \<Rightarrow> JStr t)"

text \<open>A key and its colon.\<close>

definition lex_key :: "string \<Rightarrow> (string \<times> string) option" where
  "lex_key s =
     (case skip_ws s of
        [] \<Rightarrow> None
      | c # t \<Rightarrow>
          if c \<noteq> dquote then None
          else (case lex_string t of
              None \<Rightarrow> None
            | Some (k, r) \<Rightarrow> (case skip_ws r of [] \<Rightarrow> None | d # u \<Rightarrow> if d \<noteq> CHR '':'' then None else Some (k, u))))"

lemma skip_ws_length: "length (skip_ws s) \<le> length s"
  by (rule length_dropWhile_le)

lemma skip_ws_Cons: "skip_ws s = c # t \<Longrightarrow> length t < length s"
  using skip_ws_length [of s] by simp

lemma lex_key_shorter: "lex_key s = Some (k, r) \<Longrightarrow> length r < length s"
  by (fastforce simp: lex_key_def split: list.splits if_splits option.splits
      dest: skip_ws_Cons lex_string_length)

text \<open>The guards on the length of the rest always hold (\<open>parse_value_shorter\<close>).\<close>

function parse_value :: "nat \<Rightarrow> string \<Rightarrow> (jvalue \<times> string) option"
  and parse_elements :: "nat \<Rightarrow> string \<Rightarrow> (jvalue list \<times> string) option"
  and parse_pairs :: "nat \<Rightarrow> string \<Rightarrow> ((string \<times> jvalue) list \<times> string) option" where
  "parse_value depth s =
     (case skip_ws s of
        [] \<Rightarrow> None
      | c # t \<Rightarrow>
          if c = CHR ''['' then
            (if depth = 0 then None
             else case skip_ws t of
                [] \<Rightarrow> None
              | d # u \<Rightarrow> if d = CHR '']'' then Some (JArr [], u)
                        else map_option (\<lambda>(vs, r). (JArr vs, r)) (parse_elements (depth - 1) t))
          else if c = CHR ''{'' then
            (if depth = 0 then None
             else case skip_ws t of
                [] \<Rightarrow> None
              | d # u \<Rightarrow> if d = CHR ''}'' then Some (JObj [], u)
                        else map_option (\<lambda>(ms, r). (JObj ms, r)) (parse_pairs (depth - 1) t))
          else map_option (\<lambda>(v, r). (jscalar v, r)) (lex_scalar (c # t)))"
| "parse_elements depth s =
     (case parse_value depth s of
        None \<Rightarrow> None
      | Some (v, r) \<Rightarrow>
          (case skip_ws r of
             [] \<Rightarrow> None
           | c # t \<Rightarrow>
               if c = CHR '']'' then Some ([v], t)
               else if c = CHR '','' \<and> length t < length s
               then map_option (\<lambda>(vs, u). (v # vs, u)) (parse_elements depth t)
               else None))"
| "parse_pairs depth s =
     (case lex_key s of
        None \<Rightarrow> None
      | Some (k, s1) \<Rightarrow>
          (case parse_value depth s1 of
             None \<Rightarrow> None
           | Some (v, r) \<Rightarrow>
               (case skip_ws r of
                  [] \<Rightarrow> None
                | c # t \<Rightarrow>
                    if c = CHR ''}'' then Some ([(k, v)], t)
                    else if c = CHR '','' \<and> length t < length s
                    then map_option (\<lambda>(ms, u). ((k, v) # ms, u)) (parse_pairs depth t)
                    else None)))"
  by pat_completeness auto
termination
  by (relation "measure (\<lambda>x. case x of Inl (d, s) \<Rightarrow> 2 * length s
       | Inr (Inl (d, s)) \<Rightarrow> 2 * length s + 1 | Inr (Inr (d, s)) \<Rightarrow> 2 * length s + 1)")
    (auto dest: skip_ws_Cons lex_key_shorter)

declare parse_value.simps [simp del] parse_elements.simps [simp del] parse_pairs.simps [simp del]

lemma parse_value_shorter:
  "parse_value d s = Some (v, r) \<Longrightarrow> length r < length s"
  "parse_elements d s = Some (vs, r) \<Longrightarrow> length r < length s"
  "parse_pairs d s = Some (ms, r) \<Longrightarrow> length r < length s"
proof (induction d s and d s and d s arbitrary: v r and vs r and ms r
    rule: parse_value_parse_elements_parse_pairs.induct)
  case (1 depth s)
  obtain c t where s: "skip_ws s = c # t"
    using 1(3) by (cases "skip_ws s") (simp_all add: parse_value.simps del: dropWhile_eq_Nil_conv)
  note t = skip_ws_Cons [OF s]
  consider (open1) "c = CHR ''[''" | (open2) "c = CHR ''{''" | (flat) "c \<noteq> CHR ''[''" "c \<noteq> CHR ''{''" by blast
  then show ?case
  proof cases
    case open1
    with 1(3) s obtain d u where u: "depth \<noteq> 0" "skip_ws t = d # u"
      by (cases "skip_ws t") (simp_all add: parse_value.simps del: dropWhile_eq_Nil_conv split: if_splits)
    show ?thesis
    proof (cases "d = CHR '']''")
      case True
      with 1(3) s open1 u t skip_ws_Cons [OF u(2)] show ?thesis by (simp add: parse_value.simps)
    next
      case False
      with 1(3) s open1 u obtain vs where "parse_elements (depth - 1) t = Some (vs, r)"
        by (auto simp: parse_value.simps)
      with 1(1) [OF s open1 u False] open1 t show ?thesis by (simp add: less_trans)
    qed
  next
    case open2
    with 1(3) s obtain d u where u: "depth \<noteq> 0" "skip_ws t = d # u"
      by (cases "skip_ws t") (simp_all add: parse_value.simps del: dropWhile_eq_Nil_conv split: if_splits)
    show ?thesis
    proof (cases "d = CHR ''}''")
      case True
      with 1(3) s open2 u t skip_ws_Cons [OF u(2)] show ?thesis by (simp add: parse_value.simps)
    next
      case False
      with 1(3) s open2 u obtain ms where "parse_pairs (depth - 1) t = Some (ms, r)"
        by (auto simp: parse_value.simps)
      with 1(2) [OF s _ open2 u False] open2 t show ?thesis by (simp add: less_trans)
    qed
  next
    case flat
    with 1(3) s have "\<exists>x. lex_scalar (c # t) = Some (x, r)" by (auto simp: parse_value.simps)
    with lex_scalar_length skip_ws_length [of s] s show ?thesis by fastforce
  qed
next
  case (2 depth s)
  obtain x q where x: "parse_value depth s = Some (x, q)"
    using 2(3) by (cases "parse_value depth s") (auto simp: parse_elements.simps)
  obtain c t where q: "skip_ws q = c # t"
    using 2(3) x by (cases "skip_ws q") (simp_all add: parse_elements.simps del: dropWhile_eq_Nil_conv)
  have "length q < length s" using 2(1) [OF x] .
  with skip_ws_Cons [OF q] have t: "length t < length s" by simp
  from 2(3) x q t show ?case
    using 2(2) [OF x refl q]
    by (auto simp: parse_elements.simps [of depth s] split: if_splits dest: less_trans)
next
  case (3 depth s)
  obtain k s1 where k: "lex_key s = Some (k, s1)"
    using 3(3) by (cases "lex_key s") (auto simp: parse_pairs.simps)
  obtain x q where x: "parse_value depth s1 = Some (x, q)"
    using 3(3) k by (cases "parse_value depth s1") (auto simp: parse_pairs.simps)
  obtain c t where q: "skip_ws q = c # t"
    using 3(3) k x by (cases "skip_ws q") (simp_all add: parse_pairs.simps del: dropWhile_eq_Nil_conv)
  have "length q < length s1" using 3(1) [OF k refl x] .
  with skip_ws_Cons [OF q] lex_key_shorter [OF k] have t: "length t < length s" by simp
  from 3(3) k x q t show ?case
    using 3(2) [OF k refl x refl q]
    by (auto simp: parse_pairs.simps [of depth s] split: if_splits dest: less_trans)
qed

definition json_document :: "string \<Rightarrow> jvalue option" where
  "json_document s =
     (case parse_value maxNestingDepth s of
        None \<Rightarrow> None
      | Some (v, r) \<Rightarrow> if skip_ws r = [] then Some v else None)"

subsection \<open>Assigning values\<close>

definition match_key :: "string list \<Rightarrow> string \<Rightarrow> string option" where
  "match_key keys k = (if k \<in> set keys then Some k else find (\<lambda>f. json_fold f = json_fold k) keys)"

definition assign_text :: "string \<Rightarrow> jvalue \<Rightarrow> string option" where
  "assign_text old v = (case v of JStr t \<Rightarrow> Some t | JNull \<Rightarrow> Some old | _ \<Rightarrow> None)"

definition assign_int :: "int \<Rightarrow> jvalue \<Rightarrow> int option" where
  "assign_int old v = (case v of JNum n \<Rightarrow> parse_int64 n | JNull \<Rightarrow> Some old | _ \<Rightarrow> None)"

text \<open>A slice: its elements, and what its array still holds beyond them.\<close>

type_synonym 'a slice = "'a list \<times> 'a list"

fun assign_elements :: "('a \<Rightarrow> jvalue \<Rightarrow> 'a option) \<Rightarrow> 'a \<Rightarrow> 'a list \<Rightarrow> jvalue list \<Rightarrow> 'a list option" where
  "assign_elements f zero old [] = Some []"
| "assign_elements f zero [] (v # vs) =
     (case f zero v of None \<Rightarrow> None | Some x \<Rightarrow> map_option ((#) x) (assign_elements f zero [] vs))"
| "assign_elements f zero (a # as) (v # vs) =
     (case f a v of None \<Rightarrow> None | Some x \<Rightarrow> map_option ((#) x) (assign_elements f zero as vs))"

definition assign_slice :: "('a \<Rightarrow> jvalue \<Rightarrow> 'a option) \<Rightarrow> 'a \<Rightarrow> 'a slice \<Rightarrow> jvalue \<Rightarrow> 'a slice option" where
  "assign_slice f zero old v =
     (case v of
        JNull \<Rightarrow> Some ([], [])
      | JArr [] \<Rightarrow> Some ([], [])
      | JArr vs \<Rightarrow> map_option (\<lambda>new. (new, drop (length new) (fst old @ snd old)))
                    (assign_elements f zero (fst old @ snd old) vs)
      | _ \<Rightarrow> None)"

text \<open>A struct: \<open>set\<close> assigns one known field.\<close>

fun assign_members :: "string list \<Rightarrow> (string \<Rightarrow> 'a \<Rightarrow> jvalue \<Rightarrow> 'a option) \<Rightarrow> 'a \<Rightarrow> (string \<times> jvalue) list \<Rightarrow> 'a option" where
  "assign_members keys f old [] = Some old"
| "assign_members keys f old ((k, v) # ms) =
     (case match_key keys k of
        None \<Rightarrow> assign_members keys f old ms
      | Some key \<Rightarrow> (case f key old v of None \<Rightarrow> None | Some new \<Rightarrow> assign_members keys f new ms))"

definition assign_struct :: "string list \<Rightarrow> (string \<Rightarrow> 'a \<Rightarrow> jvalue \<Rightarrow> 'a option) \<Rightarrow> 'a \<Rightarrow> jvalue \<Rightarrow> 'a option" where
  "assign_struct keys f old v =
     (case v of JObj ms \<Rightarrow> assign_members keys f old ms | JNull \<Rightarrow> Some old | _ \<Rightarrow> None)"

subsection \<open>Whole numbers read as floats\<close>

fun log2_floor :: "nat \<Rightarrow> nat" where
  "log2_floor n = (if n < 2 then 0 else Suc (log2_floor (n div 2)))"

declare log2_floor.simps [simp del]

text \<open>The sign of a number literal, and its value as a quotient.\<close>

definition literal_quotient :: "string \<Rightarrow> bool \<times> nat \<times> nat" where
  "literal_quotient num =
     (let neg = (take 1 num = ''-''); t = (if neg then drop 1 num else num);
          whole = takeWhile is_digit t; r = dropWhile is_digit t;
          dotted = (take 1 r = ''.''); frac = (if dotted then takeWhile is_digit (drop 1 r) else []);
          e = drop 1 (if dotted then dropWhile is_digit (drop 1 r) else r);
          eneg = (take 1 e = ''-''); edigits = (if eneg \<or> take 1 e = ''+'' then drop 1 e else e);
          ten = (if eneg then - int (nat_of_digits 0 edigits) else int (nat_of_digits 0 edigits)) - int (length frac);
          m = nat_of_digits 0 (whole @ frac)
      in (neg, if ten < 0 then (m, 10 ^ nat (- ten)) else (m * 10 ^ nat ten, 1)))"

text \<open>
  The float nearest to \<open>p / q\<close> (ties to the even significand), if it is a whole number below
  \<open>limit\<close>, which is itself a float: below half the smallest float it is 0, from the middle
  between 1 and its predecessor on it is 1, and from 1 on the spacing is \<open>1 / unit\<close>.
\<close>

definition whole_float :: "nat \<Rightarrow> nat \<Rightarrow> nat \<Rightarrow> nat option" where
  "whole_float limit p q =
     (if p * 2 ^ 1075 \<le> q then Some 0
      else if p < q then (if (2 ^ 54 - 1) * q \<le> 2 ^ 54 * p then Some 1 else None)
      else if limit \<le> p div q then None
      else let unit = 2 ^ (52 - log2_floor (p div q)); d = p * unit div q; r = p * unit mod q;
               m = (if q < 2 * r \<or> (2 * r = q \<and> odd d) then Suc d else d)
           in if m mod unit = 0 \<and> m div unit < limit then Some (m div unit) else None)"

definition float_index :: "string \<Rightarrow> nat option" where
  "float_index num =
     (let (neg, p, q) = literal_quotient num in
      case whole_float 1000000000000 p q of
        None \<Rightarrow> None
      | Some n \<Rightarrow> if neg \<and> n \<noteq> 0 then None else Some n)"

lemma whole_float_exact: "n < limit \<Longrightarrow> whole_float limit n 1 = Some n"
proof -
  assume n: "n < limit"
  have unit: "(0 :: nat) < 2 ^ k" for k by simp
  show ?thesis
  proof (cases "n = 0")
    case False
    have "\<not> n * 2 ^ 1075 \<le> 1" using False by (cases n) (simp_all add: not_le less_Suc_eq_le)
    with n False unit show ?thesis by (simp add: whole_float_def Let_def)
  qed (simp add: whole_float_def)
qed

lemma whole_float_less: "whole_float limit p q = Some n \<Longrightarrow> 1 < limit \<Longrightarrow> n < limit"
  by (auto simp: whole_float_def Let_def split: if_splits)

text \<open>A plain decimal index below the limit is read as itself.\<close>

lemma float_index_show_nat:
  assumes "n < 1000000000000"
  shows "float_index (show_nat n) = Some n"
proof -
  have digits: "\<forall>c \<in> set (show_nat n). is_digit c" by (rule show_nat_digits)
  then have parts: "takeWhile is_digit (show_nat n) = show_nat n" "dropWhile is_digit (show_nat n) = []"
    by (auto simp: takeWhile_eq_all_conv dropWhile_eq_Nil_conv)
  have sign: "(take 1 (show_nat n) = ''-'') = False"
    using digits by (cases "show_nat n") (auto simp: is_digit_def byte_def)
  have "literal_quotient (show_nat n) = (False, n, 1)"
    unfolding literal_quotient_def Let_def sign if_False parts by (simp add: nat_of_digits_show_nat)
  with whole_float_exact [OF assms] show ?thesis by (simp add: float_index_def)
qed

end
