(* ===== verification/Executor.thy ===== *)
theory Executor
  imports Planner
begin

section \<open>The executor (internal/executor)\<close>

text \<open>
  \<open>Run\<close> checks a plan once more, starts the planned executable and turns its output into
  bounded events for a sink. The process and the operating system are a record of outcomes; the
  sink is any state with an emit operation (a locale names what it promises).
\<close>

text \<open>\<open>ExecZero\<close> is the zero value of a result that was never filled in.\<close>

datatype exec_status = ExecZero | ExecExited | ExecCancelled | ExecTimedOut | ExecFailed

datatype event_type = EventStarted | EventStdout | EventStderr | EventExited | EventCancelled
  | EventTimedOut | EventFailed

record exec_event =
  ee_RunID :: string
  ee_Type :: event_type
  ee_Timestamp :: int
  ee_Data :: string
  ee_ExitCode :: "int option"

datatype exec_code = ErrInvalidPlan | ErrExecutableChanged | ErrStart | ErrOutputLimit | ErrSink | ErrWait

record 'c exec_error =
  xe_Code :: exec_code
  xe_Cause :: "'c option"

abbreviation exec_err :: "exec_code \<Rightarrow> 'c exec_error" where
  "exec_err code \<equiv> \<lparr>xe_Code = code, xe_Cause = None\<rparr>"

record exec_result =
  er_RunID :: string
  er_Status :: exec_status
  er_StartedAt :: int
  er_EndedAt :: int
  er_ExitCode :: int

record exec_config =
  ec_Timeout :: int
  ec_WaitDelay :: int
  ec_ChunkBytes :: int
  ec_MaxOutputBytesPerStream :: int

definition second :: int where "second = 1000000000"

definition defaultMaxOutput :: int where "defaultMaxOutput = 2097152"

text \<open>\<open>New\<close>: the configuration with its defaults filled in.\<close>

definition New :: "exec_config \<Rightarrow> exec_config" where
  "New c =
     \<lparr>ec_Timeout = (if ec_Timeout c \<le> 0 then 30 * second else ec_Timeout c),
      ec_WaitDelay = (if ec_WaitDelay c \<le> 0 then 2 * second else ec_WaitDelay c),
      ec_ChunkBytes = (if ec_ChunkBytes c \<le> 0 \<or> defaultMaxOutput < ec_ChunkBytes c then 16384 else ec_ChunkBytes c),
      ec_MaxOutputBytesPerStream =
        (if ec_MaxOutputBytesPerStream c \<le> 0 then defaultMaxOutput else ec_MaxOutputBytesPerStream c)\<rparr>"

subsection \<open>Checking the plan\<close>

definition validatePlan :: "plan \<Rightarrow> 'c exec_error option" where
  "validatePlan p =
     (if pl_Risk p \<noteq> RiskRead \<and> \<not> is_mutation (pl_Risk p) then Some (exec_err ErrInvalidPlan)
      else if is_mutation (pl_Risk p) \<and> pl_Impact p = None then Some (exec_err ErrInvalidPlan)
      else if rq_RequiresAuth (pl_Requirements p) \<and> rq_AuthMode (pl_Requirements p) \<noteq> AuthModeVendorSession
      then Some (exec_err ErrInvalidPlan)
      else if se_ContainsSecrets (ou_Sensitivity (pl_Output p)) then Some (exec_err ErrInvalidPlan)
      else if pl_ExecutablePath p = [] \<or> \<not> is_abs (pl_ExecutablePath p) \<or> pl_ExecutableName p = []
        \<or> \<not> identity_Valid (pl_Identity p)
      then Some (exec_err ErrInvalidPlan)
      else if \<exists>a \<in> set (pl_Args p). NUL \<in> set a then Some (exec_err ErrInvalidPlan)
      else None)"

definition revalidateExecutable ::
    "(string \<Rightarrow> string) \<Rightarrow> file_system \<Rightarrow> string \<Rightarrow> plan \<Rightarrow> 'c exec_error option" where
  "revalidateExecutable sha fs goos p =
     (let clean = path_clean (pl_ExecutablePath p); changed = Some (exec_err ErrExecutableChanged) in
      if \<not> identity_Matches sha fs (pl_Identity p) clean then changed
      else case fs_Lstat fs clean of
        None \<Rightarrow> changed
      | Some info \<Rightarrow>
          if fi_Symlink info \<or> \<not> fi_Regular info then changed
          else if goos \<noteq> ''windows'' \<and> \<not> fi_AnyExec info then changed
          else if fs_EvalSymlinks fs clean = None then changed
          else if (if goos = ''windows'' then \<not> equal_fold (path_base clean) (pl_ExecutableName p)
                   else path_base clean \<noteq> pl_ExecutableName p)
          then changed else None)"

subsection \<open>Events\<close>

text \<open>
  \<open>streamState\<close>: the first error sticks and cancels the process. \<open>emit\<close> is the sink's
  operation on its own state \<open>'s\<close>; \<open>'c\<close> is the error type of the sink.
\<close>

record ('s, 'c) stream_state =
  ss_sink :: 's
  ss_first :: "'c exec_error option"
  ss_cancelled :: bool

type_synonym ('s, 'c) sink = "exec_event \<Rightarrow> 's \<Rightarrow> 'c option \<times> 's"

definition stream_emit ::
    "('s, 'c) sink \<Rightarrow> exec_event \<Rightarrow> ('s, 'c) stream_state \<Rightarrow> 'c exec_error option \<times> ('s, 'c) stream_state" where
  "stream_emit emit e s =
     (case ss_first s of
        Some err \<Rightarrow> (Some err, s)
      | None \<Rightarrow>
          (case emit e (ss_sink s) of
             (None, k) \<Rightarrow> (None, s\<lparr>ss_sink := k\<rparr>)
           | (Some c, k) \<Rightarrow>
               (let err = \<lparr>xe_Code = ErrSink, xe_Cause = Some c\<rparr>
                in (Some err, s\<lparr>ss_sink := k, ss_first := Some err, ss_cancelled := True\<rparr>))))"

definition stream_fail :: "'c exec_error \<Rightarrow> ('s, 'c) stream_state \<Rightarrow> ('s, 'c) stream_state" where
  "stream_fail err s =
     (if ss_first s = None then s\<lparr>ss_first := Some err, ss_cancelled := True\<rparr> else s)"

record event_writer =
  ew_RunID :: string
  ew_Type :: event_type
  ew_ChunkBytes :: nat
  ew_MaxBytes :: nat
  ew_Total :: nat

definition data_event :: "event_writer \<Rightarrow> int \<Rightarrow> string \<Rightarrow> exec_event" where
  "data_event w now d =
     \<lparr>ee_RunID = ew_RunID w, ee_Type = ew_Type w, ee_Timestamp = now, ee_Data = d, ee_ExitCode = None\<rparr>"

text \<open>
  The loop of \<open>eventWriter.Write\<close> over the accepted bytes. Each round takes at least one byte
  when the chunk size is positive, so the length of the data is fuel enough; a chunk size of
  zero would loop for ever, which is \<open>None\<close>. The writer's total already counts the accepted bytes,
  so that a chunk's offset in its stream is the total less what is left; the clock is read once
  for every chunk, which is known by its stream and offset.
\<close>

type_synonym chunk_clock = "event_type \<Rightarrow> nat \<Rightarrow> int"

fun write_chunks ::
    "nat \<Rightarrow> ('s, 'c) sink \<Rightarrow> event_writer \<Rightarrow> chunk_clock \<Rightarrow> string \<Rightarrow> ('s, 'c) stream_state
      \<Rightarrow> ('c exec_error option \<times> ('s, 'c) stream_state) option" where
  "write_chunks fuel emit w clock [] s = Some (None, s)"
| "write_chunks 0 emit w clock p s = None"
| "write_chunks (Suc fuel) emit w clock p s =
     (let n = min (length p) (ew_ChunkBytes w) in
      case stream_emit emit (data_event w (clock (ew_Type w) (ew_Total w - length p)) (take n p)) s of
        (Some err, s') \<Rightarrow> Some (Some err, s')
      | (None, s') \<Rightarrow> write_chunks fuel emit w clock (drop n p) s')"

definition writer_Write ::
    "('s, 'c) sink \<Rightarrow> chunk_clock \<Rightarrow> string \<Rightarrow> event_writer \<Rightarrow> ('s, 'c) stream_state
      \<Rightarrow> (nat \<times> 'c exec_error option \<times> event_writer \<times> ('s, 'c) stream_state) option" where
  "writer_Write emit clock p0 w s =
     (let over = ew_MaxBytes w < ew_Total w + length p0;
          p = (if over then take (ew_MaxBytes w - ew_Total w) p0 else p0);
          w' = w\<lparr>ew_Total := ew_Total w + length p\<rparr>
      in case write_chunks (length p) emit w' clock p s of
           None \<Rightarrow> None
         | Some (Some err, s') \<Rightarrow> Some (0, Some err, w', s')
         | Some (None, s') \<Rightarrow>
             if over then Some (0, Some (exec_err ErrOutputLimit), w', stream_fail (exec_err ErrOutputLimit) s')
             else Some (length p0, None, w', s'))"

subsection \<open>One run\<close>

text \<open>
  What the operating system and the process do in one run. The process's output is the
  sequence of writes its two streams make, in the order the writers take them; a stream whose
  write failed is not copied any further. \<open>re_cut\<close> is where the copying was cut off: when the wait
  delay passed while a descendant still held the pipes open, the writers had taken that many of
  the writes and the rest is lost. Context errors are \<open>None\<close>, \<open>Some ExecTimedOut\<close>
  (deadline) or \<open>Some ExecCancelled\<close>.
\<close>

datatype wait_outcome = WaitOk | WaitExit int | WaitDelayed "int option" | WaitOther

record run_env =
  re_runID :: "string option"
  re_ctxBefore :: "exec_status option"
  re_workdir :: bool
  re_controller :: bool
  re_configured :: bool
  re_started :: bool
  re_attached :: bool
  re_ctxAtStart :: "exec_status option"
  re_output :: "(event_type \<times> string) list"
  re_cut :: "nat option"
  re_wait :: wait_outcome
  re_closed :: bool
  re_cancelApplied :: bool
  re_runCtx :: "exec_status option"
  re_parentCancelled :: bool
  re_now :: int
  re_clock :: chunk_clock
  re_end :: int

text \<open>The writers of a run, one per stream; \<open>None\<close> is a stream that has stopped.\<close>

type_synonym writers = "event_type \<Rightarrow> event_writer option"

fun pump ::
    "('s, 'c) sink \<Rightarrow> chunk_clock \<Rightarrow> (event_type \<times> string) list \<Rightarrow> writers \<Rightarrow> ('s, 'c) stream_state
      \<Rightarrow> ('s, 'c) stream_state option" where
  "pump emit clock [] ws s = Some s"
| "pump emit clock ((ty, p) # rest) ws s =
     (case ws ty of
        None \<Rightarrow> pump emit clock rest ws s
      | Some w \<Rightarrow>
          (case writer_Write emit clock p w s of
             None \<Rightarrow> None
           | Some (n, err, w', s') \<Rightarrow>
               pump emit clock rest (ws(ty := if err = None then Some w' else None)) s'))"

definition taken :: "nat option \<Rightarrow> 'w list \<Rightarrow> 'w list" where
  "taken limit ws = (case limit of None \<Rightarrow> ws | Some n \<Rightarrow> take n ws)"

definition run_writers :: "exec_config \<Rightarrow> string \<Rightarrow> writers" where
  "run_writers cfg rid ty =
     (if ty = EventStdout \<or> ty = EventStderr
      then Some \<lparr>ew_RunID = rid, ew_Type = ty, ew_ChunkBytes = nat (ec_ChunkBytes cfg),
                 ew_MaxBytes = nat (ec_MaxOutputBytesPerStream cfg), ew_Total = 0\<rparr>
      else None)"

definition lifecycle_event :: "string \<Rightarrow> event_type \<Rightarrow> int \<Rightarrow> int option \<Rightarrow> exec_event" where
  "lifecycle_event rid ty now code =
     \<lparr>ee_RunID = rid, ee_Type = ty, ee_Timestamp = now, ee_Data = [], ee_ExitCode = code\<rparr>"

definition no_result :: exec_result where
  "no_result = \<lparr>er_RunID = [], er_Status = ExecZero, er_StartedAt = 0, er_EndedAt = 0, er_ExitCode = 0\<rparr>"

definition result_of :: "string \<Rightarrow> exec_status \<Rightarrow> int \<Rightarrow> int \<Rightarrow> int \<Rightarrow> exec_result" where
  "result_of rid st started ended code =
     \<lparr>er_RunID = rid, er_Status = st, er_StartedAt = started, er_EndedAt = ended, er_ExitCode = code\<rparr>"

text \<open>What follows the end of the process: the branches after \<open>cmd.Wait\<close>.\<close>

definition finish_run ::
    "('s, 'c) sink \<Rightarrow> run_env \<Rightarrow> string \<Rightarrow> ('s, 'c) stream_state
      \<Rightarrow> (exec_result \<times> 'c exec_error option) \<times> ('s, 'c) stream_state" where
  "finish_run emit env rid s =
     (let failed = result_of rid ExecFailed (re_now env) (re_end env) (-1) in
      case ss_first s of
        Some err \<Rightarrow> ((failed, Some err), s)
      | None \<Rightarrow>
      if \<not> re_closed env then ((failed, Some (exec_err ErrWait)), s)
      else if re_cancelApplied env \<and> re_runCtx env = Some ExecTimedOut then
        ((result_of rid ExecTimedOut (re_now env) (re_end env) (-1), None),
         snd (stream_emit emit (lifecycle_event rid EventTimedOut (re_end env) None) s))
      else if re_cancelApplied env \<and> (re_runCtx env = Some ExecCancelled \<or> re_parentCancelled env) then
        ((result_of rid ExecCancelled (re_now env) (re_end env) (-1), None),
         snd (stream_emit emit (lifecycle_event rid EventCancelled (re_end env) None) s))
      else case (case re_wait env of WaitOk \<Rightarrow> Some 0 | WaitExit c \<Rightarrow> Some c
                 | WaitDelayed c \<Rightarrow> c | WaitOther \<Rightarrow> None) of
        None \<Rightarrow> ((failed, Some (exec_err ErrWait)),
                 snd (stream_emit emit (lifecycle_event rid EventFailed (re_end env) None) s))
      | Some code \<Rightarrow>
          (case stream_emit emit (lifecycle_event rid EventExited (re_end env) (Some code)) s of
             (Some err, s') \<Rightarrow> ((result_of rid ExecFailed (re_now env) (re_end env) code, Some err), s')
           | (None, s') \<Rightarrow> ((result_of rid ExecExited (re_now env) (re_end env) code, None), s')))"

definition start_run ::
    "exec_config \<Rightarrow> ('s, 'c) sink \<Rightarrow> run_env \<Rightarrow> string \<Rightarrow> ('s, 'c) stream_state
      \<Rightarrow> ((exec_result \<times> 'c exec_error option) \<times> ('s, 'c) stream_state) option" where
  "start_run cfg emit env rid s0 =
     (let failed = result_of rid ExecFailed (re_now env) (re_now env) (-1);
          stopped = (case re_ctxAtStart env of
            Some st \<Rightarrow> Some ((result_of rid st (re_now env) (re_now env) (-1), None), s0)
          | None \<Rightarrow> Some ((failed, Some (exec_err ErrStart)), s0)) in
      if \<not> re_configured env then Some ((failed, Some (exec_err ErrStart)), s0)
      else if \<not> re_started env then stopped
      else if \<not> re_attached env then stopped
      else case stream_emit emit (lifecycle_event rid EventStarted (re_now env) None) s0 of
        (Some err, s1) \<Rightarrow>
          Some ((result_of rid ExecFailed (re_now env) (re_end env) (-1), Some err), s1)
      | (None, s1) \<Rightarrow>
          map_option (finish_run emit env rid)
            (pump emit (re_clock env) (taken (re_cut env) (re_output env)) (run_writers cfg rid) s1))"

definition Run ::
    "(string \<Rightarrow> string) \<Rightarrow> file_system \<Rightarrow> string \<Rightarrow> exec_config \<Rightarrow> ('s, 'c) sink \<Rightarrow> run_env \<Rightarrow> plan \<Rightarrow> 's
      \<Rightarrow> ((exec_result \<times> 'c exec_error option) \<times> 's) option" where
  "Run sha fs goos cfg emit env p k =
     (case validatePlan p of
        Some err \<Rightarrow> Some ((no_result, Some err), k)
      | None \<Rightarrow>
     (case revalidateExecutable sha fs goos p of
        Some err \<Rightarrow> Some ((no_result, Some err), k)
      | None \<Rightarrow>
     (case re_runID env of
        None \<Rightarrow> Some ((no_result, Some (exec_err ErrInvalidPlan)), k)
      | Some rid \<Rightarrow>
          if rid = [] then Some ((no_result, Some (exec_err ErrInvalidPlan)), k)
          else (case re_ctxBefore env of
            Some st \<Rightarrow> Some ((result_of rid st (re_now env) (re_now env) (-1), None), k)
          | None \<Rightarrow>
              if \<not> re_workdir env then Some ((no_result, Some (exec_err ErrStart)), k)
              else if \<not> re_controller env
              then Some ((no_result\<lparr>er_RunID := rid, er_Status := ExecFailed, er_ExitCode := -1\<rparr>, Some (exec_err ErrStart)), k)
              else map_option (\<lambda>(r, s). (r, ss_sink s))
                (start_run (New cfg) emit env rid \<lparr>ss_sink = k, ss_first = None, ss_cancelled = False\<rparr>)))))"

subsection \<open>What a sink promises and what the streams deliver\<close>

text \<open>
  A sink keeps a log: an accepted event is appended to it, a refused one leaves it as it is.
  The code relies on nothing else; the run manager's \<open>recordEvent\<close> provides it.
\<close>

definition stream_data :: "event_type \<Rightarrow> exec_event list \<Rightarrow> string" where
  "stream_data ty es = concat (map ee_Data (filter (\<lambda>e. ee_Type e = ty) es))"

definition written :: "event_type \<Rightarrow> (event_type \<times> string) list \<Rightarrow> string" where
  "written ty ws = concat (map snd (filter (\<lambda>w. fst w = ty) ws))"

lemma stream_data_simps [simp]:
  "stream_data ty [] = []"
  "stream_data ty (e # es) = (if ee_Type e = ty then ee_Data e else []) @ stream_data ty es"
  "stream_data ty (es @ fs) = stream_data ty es @ stream_data ty fs"
  by (simp_all add: stream_data_def)

lemma written_simps [simp]:
  "written ty [] = []"
  "written ty (w # ws) = (if fst w = ty then snd w else []) @ written ty ws"
  by (simp_all add: written_def)

lemma taken_None [simp]: "taken None ws = ws"
  by (simp add: taken_def)

lemma taken_set: "w \<in> set (taken n ws) \<Longrightarrow> w \<in> set ws"
  by (auto simp: taken_def dest: in_set_takeD split: option.split_asm)

lemma written_append: "written ty (vs @ ws) = written ty vs @ written ty ws"
  by (simp add: written_def)

lemma written_taken: "\<exists>lost. written ty ws = written ty (taken n ws) @ lost"
proof (cases n)
  case (Some k)
  have "written ty ws = written ty (take k ws) @ written ty (drop k ws)"
    by (metis append_take_drop_id written_append)
  with Some show ?thesis by (auto simp: taken_def)
qed simp

definition chunks_of :: "event_writer \<Rightarrow> exec_event list \<Rightarrow> bool" where
  "chunks_of w es \<longleftrightarrow> (\<forall>e \<in> set es. ee_Type e = ew_Type w \<and> ee_RunID e = ew_RunID w \<and> ee_Data e \<noteq> []
     \<and> length (ee_Data e) \<le> ew_ChunkBytes w)"

lemma stream_data_own: "chunks_of w es \<Longrightarrow> ty \<noteq> ew_Type w \<Longrightarrow> stream_data ty es = []"
  by (induction es) (auto simp: chunks_of_def)

lemma stream_emit_sticky: "ss_first s = Some err \<Longrightarrow> stream_emit emit e s = (Some err, s)"
  by (simp add: stream_emit_def)

lemma stream_fail_first: "ss_first (stream_fail err s) \<noteq> None"
  by (simp add: stream_fail_def)

lemma stream_fail_sink [simp]: "ss_sink (stream_fail err s) = ss_sink s"
  by (simp add: stream_fail_def)

locale event_sink =
  fixes emit :: "exec_event \<Rightarrow> 's \<Rightarrow> 'c option \<times> 's"
    and delivered :: "'s \<Rightarrow> 'v list"
    and view :: "exec_event \<Rightarrow> 'v"
  assumes accepted: "emit e k = (None, k') \<Longrightarrow> delivered k' = delivered k @ [view e]"
    and refused: "emit e k = (Some c, k') \<Longrightarrow> delivered k' = delivered k"
begin

abbreviation log_of :: "('s, 'c) stream_state \<Rightarrow> 'v list" where
  "log_of s \<equiv> delivered (ss_sink s)"

lemma stream_emit_ok:
  "stream_emit emit e s = (None, s') \<Longrightarrow> log_of s' = log_of s @ [view e] \<and> ss_first s = None \<and> ss_first s' = None"
  by (auto simp: stream_emit_def accepted Let_def split: option.splits prod.splits)

lemma stream_emit_err:
  "stream_emit emit e s = (Some err, s') \<Longrightarrow> log_of s' = log_of s \<and> ss_first s' = Some err"
  by (auto simp: stream_emit_def refused Let_def split: option.splits prod.splits)

lemma write_chunks_delivers:
  assumes "0 < ew_ChunkBytes w" and "length p \<le> fuel"
  shows "\<exists>r s' es. write_chunks fuel emit w clock p s = Some (r, s')
     \<and> log_of s' = log_of s @ map view es \<and> chunks_of w es
     \<and> (\<exists>q. p = stream_data (ew_Type w) es @ q \<and> (r = None \<longrightarrow> q = []))
     \<and> (r = None \<longrightarrow> ss_first s' = ss_first s) \<and> (r \<noteq> None \<longrightarrow> ss_first s' \<noteq> None)"
  using assms(2)
proof (induction fuel arbitrary: p s)
  case 0
  then show ?case by (intro exI [of _ None] exI [of _ s] exI [of _ "[]"]) (simp add: chunks_of_def)
next
  case (Suc fuel)
  show ?case
  proof (cases p)
    case Nil
    then show ?thesis by (intro exI [of _ None] exI [of _ s] exI [of _ "[]"]) (simp add: chunks_of_def)
  next
    case (Cons c cs)
    define n where "n = min (length p) (ew_ChunkBytes w)"
    define e where "e = data_event w (clock (ew_Type w) (ew_Total w - length p)) (take n p)"
    have n: "0 < n" "n \<le> ew_ChunkBytes w" "length (take n p) = n"
      using assms(1) Cons by (simp_all add: n_def)
    have e: "chunks_of w [e]" "stream_data (ew_Type w) [e] = take n p" "ee_Type e = ew_Type w" "ee_Data e = take n p"
      using n Cons by (auto simp: e_def data_event_def chunks_of_def)
    obtain r s1 where emit1: "stream_emit emit e s = (r, s1)" by fastforce
    have step: "write_chunks (Suc fuel) emit w clock p s =
        (case stream_emit emit e s of (Some err, s') \<Rightarrow> Some (Some err, s')
         | (None, s') \<Rightarrow> write_chunks fuel emit w clock (drop n p) s')"
      unfolding e_def n_def Cons write_chunks.simps Let_def by (rule refl)
    show ?thesis
    proof (cases r)
      case (Some err)
      with emit1 step stream_emit_err show ?thesis
        by (intro exI [of _ "Some err"] exI [of _ s1] exI [of _ "[]"]) (auto simp: chunks_of_def)
    next
      case None
      have "length (drop n p) \<le> fuel" using Suc.prems n by simp
      from Suc.IH [OF this, of s1] obtain r' s' es where IH:
        "write_chunks fuel emit w clock (drop n p) s1 = Some (r', s')"
        "log_of s' = log_of s1 @ map view es" "chunks_of w es"
        "\<exists>q. drop n p = stream_data (ew_Type w) es @ q \<and> (r' = None \<longrightarrow> q = [])"
        "r' = None \<longrightarrow> ss_first s' = ss_first s1" "r' \<noteq> None \<longrightarrow> ss_first s' \<noteq> None"
        by blast
      note ok = stream_emit_ok [OF emit1 [unfolded None]]
      obtain q where q: "drop n p = stream_data (ew_Type w) es @ q" "r' = None \<longrightarrow> q = []"
        using IH(4) by blast
      have "p = (take n p @ stream_data (ew_Type w) es) @ q"
        using append_take_drop_id [of n p] q(1) by simp
      with q(2) e(3,4) have "\<exists>q. p = stream_data (ew_Type w) (e # es) @ q \<and> (r' = None \<longrightarrow> q = [])"
        by (intro exI [of _ q]) simp
      moreover have "chunks_of w (e # es)" using e(1) IH(3) by (auto simp: chunks_of_def)
      ultimately show ?thesis
        using IH ok step emit1 None
        by (intro exI [of _ r'] exI [of _ s'] exI [of _ "e # es"]) simp
    qed
  qed
qed

text \<open>
  One write: the events carry a prefix of the data that keeps the stream within its limit,
  all of it when the write succeeds; a write that fails leaves the error behind.
\<close>

lemma writer_Write_delivers:
  assumes chunk: "0 < ew_ChunkBytes w" and total: "ew_Total w \<le> ew_MaxBytes w"
  shows "\<exists>n r w' s' es. writer_Write emit clock p w s = Some (n, r, w', s')
     \<and> log_of s' = log_of s @ map view es \<and> chunks_of w es
     \<and> (\<exists>q. p = stream_data (ew_Type w) es @ q \<and> (r = None \<longrightarrow> q = []))
     \<and> ew_Total w + length (stream_data (ew_Type w) es) \<le> ew_Total w'
     \<and> w' = w\<lparr>ew_Total := ew_Total w'\<rparr> \<and> ew_Total w' \<le> ew_MaxBytes w
     \<and> (r = None \<longrightarrow> ss_first s' = ss_first s) \<and> (r \<noteq> None \<longrightarrow> ss_first s' \<noteq> None)"
proof -
  define over where "over \<longleftrightarrow> ew_MaxBytes w < ew_Total w + length p"
  define p' where "p' = (if over then take (ew_MaxBytes w - ew_Total w) p else p)"
  define w' where "w' = w\<lparr>ew_Total := ew_Total w + length p'\<rparr>"
  have fits: "ew_Total w + length p' \<le> ew_MaxBytes w"
    using total by (auto simp: p'_def over_def)
  obtain rest where p: "p = p' @ rest" "\<not> over \<longrightarrow> rest = []"
    by (cases over) (auto simp: p'_def intro: that [of "drop (ew_MaxBytes w - ew_Total w) p"])
  have same: "ew_ChunkBytes w' = ew_ChunkBytes w" "ew_Type w' = ew_Type w" "chunks_of w' es = chunks_of w es" for es
    by (simp_all add: w'_def chunks_of_def)
  have "0 < ew_ChunkBytes w'" using chunk same(1) by simp
  from write_chunks_delivers [OF this order_refl, of p' clock s, unfolded same(2,3)] obtain r s1 es where c:
    "write_chunks (length p') emit w' clock p' s = Some (r, s1)"
    "log_of s1 = log_of s @ map view es" "chunks_of w es"
    "\<exists>q. p' = stream_data (ew_Type w) es @ q \<and> (r = None \<longrightarrow> q = [])"
    "r = None \<longrightarrow> ss_first s1 = ss_first s" "r \<noteq> None \<longrightarrow> ss_first s1 \<noteq> None" by blast
  from c(4) have len: "length (stream_data (ew_Type w) es) \<le> length p'" by auto
  from c(4) p(1) have pre: "\<exists>q. p = stream_data (ew_Type w) es @ q" by auto
  have W: "writer_Write emit clock p w s =
      (case r of Some err \<Rightarrow> Some (0, Some err, w', s1)
       | None \<Rightarrow> if over then Some (0, Some (exec_err ErrOutputLimit), w', stream_fail (exec_err ErrOutputLimit) s1)
                 else Some (length p, None, w', s1))"
    unfolding writer_Write_def Let_def over_def [symmetric] p'_def [symmetric] w'_def [symmetric] c(1)
    by (cases r) simp_all
  have w': "w' = w\<lparr>ew_Total := ew_Total w'\<rparr>" "ew_Total w' \<le> ew_MaxBytes w"
    "ew_Total w + length (stream_data (ew_Type w) es) \<le> ew_Total w'"
    using fits len by (simp_all add: w'_def)
  show ?thesis
  proof (cases "r = None \<and> \<not> over")
    case True
    with c(4) p have "p = stream_data (ew_Type w) es" by auto
    with True W c w' show ?thesis by fastforce
  next
    case False
    then obtain err s2 where "writer_Write emit clock p w s = Some (0, Some err, w', s2)"
      "ss_sink s2 = ss_sink s1" "ss_first s2 \<noteq> None"
      using W c(6) stream_fail_first by (cases r) auto
    with c(2,3) pre w' show ?thesis by fastforce
  qed
qed

text \<open>
  All the writes of a run: each stream's events carry a prefix of what the process wrote to
  it, within the limit, in chunks of bounded size; and unless an error was left behind, all
  of it.
\<close>

definition writer_ok :: "nat \<Rightarrow> nat \<Rightarrow> string \<Rightarrow> event_type \<Rightarrow> event_writer \<Rightarrow> bool" where
  "writer_ok c m rid ty w \<longleftrightarrow> ew_Type w = ty \<and> ew_RunID w = rid \<and> ew_ChunkBytes w = c \<and> ew_MaxBytes w = m
     \<and> ew_Total w \<le> m"

definition room :: "event_writer option \<Rightarrow> nat" where
  "room w = (case w of None \<Rightarrow> 0 | Some w \<Rightarrow> ew_MaxBytes w - ew_Total w)"

definition pumped ::
    "(event_type \<times> string) list \<Rightarrow> writers \<Rightarrow> ('s, 'c) stream_state \<Rightarrow> ('s, 'c) stream_state \<Rightarrow> exec_event list \<Rightarrow> bool" where
  "pumped out ws s s' es \<longleftrightarrow> log_of s' = log_of s @ map view es
     \<and> (\<forall>ty. (\<exists>q. written ty out = stream_data ty es @ q) \<and> length (stream_data ty es) \<le> room (ws ty))
     \<and> (ss_first s \<noteq> None \<longrightarrow> ss_first s' \<noteq> None)
     \<and> ((\<forall>w \<in> set out. ws (fst w) \<noteq> None) \<and> ss_first s' = None \<longrightarrow> (\<forall>ty. written ty out = stream_data ty es))"

lemma pumped_stopped: "pumped out ws s s' es \<Longrightarrow> ws ty = None \<Longrightarrow> stream_data ty es = []"
  unfolding pumped_def by (drule conjunct2, drule conjunct1, drule spec [of _ ty]) (simp add: room_def)

lemma pump_delivers:
  assumes "0 < c" and "\<And>ty w. ws ty = Some w \<Longrightarrow> writer_ok c m rid ty w"
  shows "\<exists>s' es. pump emit clock out ws s = Some s' \<and> pumped out ws s s' es
     \<and> (\<forall>e \<in> set es. ee_RunID e = rid \<and> ee_Type e \<in> fst ` set out \<and> ee_Data e \<noteq> [] \<and> length (ee_Data e) \<le> c)"
  using assms(2)
proof (induction out arbitrary: ws s)
  case Nil
  show ?case by (intro exI [of _ s] exI [of _ "[]"]) (simp add: pumped_def)
next
  case (Cons o1 rest)
  obtain ty p where o1: "o1 = (ty, p)" by (cases o1)
  show ?case
  proof (cases "ws ty")
    case None
    from Cons.IH [of ws s, OF Cons.prems] obtain s' es where IH:
      "pump emit clock rest ws s = Some s'" "pumped rest ws s s' es"
      "\<forall>e \<in> set es. ee_RunID e = rid \<and> ee_Type e \<in> fst ` set rest \<and> ee_Data e \<noteq> [] \<and> length (ee_Data e) \<le> c"
      by blast
    have "stream_data ty es = []" by (rule pumped_stopped [OF IH(2) None])
    with IH(2) None o1 have "pumped (o1 # rest) ws s s' es"
      unfolding pumped_def by auto
    with IH o1 None show ?thesis by (intro exI [of _ s'] exI [of _ es]) auto
  next
    case (Some w)
    have w: "ew_Type w = ty" "ew_RunID w = rid" "ew_ChunkBytes w = c" "ew_MaxBytes w = m" "ew_Total w \<le> m"
      using Cons.prems [OF Some] by (simp_all add: writer_ok_def)
    have "0 < ew_ChunkBytes w" "ew_Total w \<le> ew_MaxBytes w" using w assms(1) by simp_all
    from writer_Write_delivers [OF this, of clock p s, unfolded w(1,4)] obtain n r w' s1 ds where W:
      "writer_Write emit clock p w s = Some (n, r, w', s1)"
      "log_of s1 = log_of s @ map view ds" "chunks_of w ds"
      "\<exists>q. p = stream_data ty ds @ q \<and> (r = None \<longrightarrow> q = [])"
      "ew_Total w + length (stream_data ty ds) \<le> ew_Total w'"
      "w' = w\<lparr>ew_Total := ew_Total w'\<rparr>" "ew_Total w' \<le> m"
      "r = None \<longrightarrow> ss_first s1 = ss_first s" "r \<noteq> None \<longrightarrow> ss_first s1 \<noteq> None" by blast
    define ws' where "ws' = ws(ty := if r = None then Some w' else None)"
    have "writer_ok c m rid ty w'"
      using w W(7) by (subst W(6)) (simp add: writer_ok_def)
    then have "writer_ok c m rid ty2 w2" if "ws' ty2 = Some w2" for ty2 w2
      using that Cons.prems by (auto simp: ws'_def split: if_splits)
    from Cons.IH [of ws' s1, OF this] obtain s' es where IH:
      "pump emit clock rest ws' s1 = Some s'" "pumped rest ws' s1 s' es"
      "\<forall>e \<in> set es. ee_RunID e = rid \<and> ee_Type e \<in> fst ` set rest \<and> ee_Data e \<noteq> [] \<and> length (ee_Data e) \<le> c"
      by blast
    have run: "pump emit clock (o1 # rest) ws s = Some s'"
      using o1 Some W(1) IH(1) by (simp add: ws'_def)
    have shape: "\<forall>e \<in> set (ds @ es). ee_RunID e = rid \<and> ee_Type e \<in> fst ` set (o1 # rest)
        \<and> ee_Data e \<noteq> [] \<and> length (ee_Data e) \<le> c"
      using W(3) w IH(3) o1 by (auto simp: chunks_of_def)
    have other: "stream_data ty2 ds = []" if "ty2 \<noteq> ty" for ty2
      using stream_data_own [OF W(3)] that w by simp
    have "pumped (o1 # rest) ws s s' (ds @ es)"
    proof (cases r)
      case None
      with W(4) have p: "p = stream_data ty ds" by simp
      have "ew_MaxBytes w' = m" using w by (subst W(6)) simp
      then have room: "length (stream_data ty ds) + room (ws' ty) \<le> room (ws ty)"
        using None W(5,7) w Some by (simp add: room_def ws'_def)
      have "(\<exists>q. written ty2 (o1 # rest) = stream_data ty2 (ds @ es) @ q)
          \<and> length (stream_data ty2 (ds @ es)) \<le> room (ws ty2)" for ty2
        using IH(2) room other [of ty2] p o1 unfolding pumped_def
        by (cases "ty2 = ty") (auto simp: ws'_def dest: spec [of _ ty2])
      moreover have "written ty2 (o1 # rest) = stream_data ty2 (ds @ es)"
        if "\<forall>v \<in> set (o1 # rest). ws (fst v) \<noteq> None" "ss_first s' = None" for ty2
        using IH(2) that None other [of ty2] p o1 unfolding pumped_def by (auto simp: ws'_def)
      ultimately show ?thesis
        using IH(2) W(2,8) None unfolding pumped_def by simp
    next
      case (Some err)
      then have stop: "ws' ty = None" "ss_first s' \<noteq> None"
        using W(9) IH(2) unfolding pumped_def by (simp_all add: ws'_def)
      have gone: "stream_data ty es = []" by (rule pumped_stopped [OF IH(2) stop(1)])
      have room: "length (stream_data ty ds) \<le> room (ws ty)"
        using W(5,7) w \<open>ws ty = Some w\<close> by (simp add: room_def)
      have "(\<exists>q. written ty2 (o1 # rest) = stream_data ty2 (ds @ es) @ q)
          \<and> length (stream_data ty2 (ds @ es)) \<le> room (ws ty2)" for ty2
        using IH(2) room other [of ty2] W(4) o1 gone unfolding pumped_def
        by (cases "ty2 = ty") (auto simp: ws'_def dest: spec [of _ ty2])
      then show ?thesis
        using IH(2) W(2) stop(2) unfolding pumped_def by auto
    qed
    with run shape show ?thesis by blast
  qed
qed

end

end
