(* ===== verification/ReadOnlyProbe.thy ===== *)
theory ReadOnlyProbe
  imports Executor
begin

section \<open>Read-only probes (internal/executor/read\_only\_probe.go, internal/processenv)\<close>

text \<open>
  \<open>RunReadOnlyProbe\<close> starts one executable with fixed arguments in an empty directory with a
  minimal environment and keeps a bounded prefix of each output stream. What the operating
  system answers is a record of outcomes; the result says what was started, if anything.
\<close>

subsection \<open>Environment\<close>

definition minimal_names :: "string \<Rightarrow> string list" where
  "minimal_names goos = (if goos = ''windows'' then [''SystemRoot'', ''WINDIR'', ''TEMP'', ''TMP'']
     else [''LANG'', ''LC_ALL'', ''LC_CTYPE'', ''TMPDIR''])"

definition env_entry :: "string \<Rightarrow> string \<Rightarrow> string" where
  "env_entry name val = name @ ''='' @ val"

definition Minimal :: "string \<Rightarrow> (string \<Rightarrow> string option) \<Rightarrow> string list" where
  "Minimal goos lookup =
     concat (map (\<lambda>n. case lookup n of Some v \<Rightarrow> if v \<noteq> [] then [env_entry n v] else [] | None \<Rightarrow> [])
       (minimal_names goos))"

definition NeutralHome :: "string \<Rightarrow> (string \<Rightarrow> string option) \<Rightarrow> string \<Rightarrow> string list" where
  "NeutralHome goos lookup home =
     (if home = [] then Minimal goos lookup
      else Minimal goos lookup @ [env_entry ''HOME'' home]
        @ (if goos = ''windows'' then [env_entry ''USERPROFILE'' home] else []))"

fun env_name_ok :: "bool \<Rightarrow> string \<Rightarrow> bool" where
  "env_name_ok first [] = True"
| "env_name_ok first (c # cs) =
     ((c = CHR ''_'' \<or> (65 \<le> byte c \<and> byte c \<le> 90) \<or> (\<not> first \<and> is_digit c)) \<and> env_name_ok False cs)"

definition validExtraEnv :: "string \<Rightarrow> bool" where
  "validExtraEnv entry =
     (case cut ''='' entry of
        None \<Rightarrow> False
      | Some (name, val) \<Rightarrow> name \<noteq> [] \<and> length entry \<le> 256 \<and> NUL \<notin> set val \<and> env_name_ok True name)"

subsection \<open>Bounded output\<close>

record probe_buffer =
  pb_buf :: string
  pb_max :: int
  pb_truncated :: bool

definition probe_Write :: "string \<Rightarrow> probe_buffer \<Rightarrow> probe_buffer" where
  "probe_Write p b =
     (let remaining = pb_max b - int (length (pb_buf b)) in
      if remaining \<le> 0 then b\<lparr>pb_truncated := True\<rparr>
      else if remaining < int (length p)
      then b\<lparr>pb_buf := pb_buf b @ take (nat remaining) p, pb_truncated := True\<rparr>
      else b\<lparr>pb_buf := pb_buf b @ p\<rparr>)"

definition empty_buffer :: "int \<Rightarrow> probe_buffer" where
  "empty_buffer limit = \<lparr>pb_buf = [], pb_max = limit, pb_truncated = False\<rparr>"

lemma probe_Write_fields [simp]: "pb_max (probe_Write p b) = pb_max b"
  by (simp add: probe_Write_def Let_def)

text \<open>A buffer holds the first \<open>pb_max\<close> bytes of what was written and knows when that is not all.\<close>

lemma probe_writes:
  assumes "0 < limit" and "\<forall>p \<in> set ps. p \<noteq> []"
  shows "foldl (\<lambda>b p. probe_Write p b) (empty_buffer limit) ps =
    \<lparr>pb_buf = take (nat limit) (concat ps), pb_max = limit, pb_truncated = (limit < int (length (concat ps)))\<rparr>"
  using assms(2)
proof (induction ps rule: rev_induct)
  case Nil
  with assms(1) show ?case by (simp add: empty_buffer_def)
next
  case (snoc p ps)
  let ?s = "concat ps"
  have p: "p \<noteq> []" and ih: "foldl (\<lambda>b p. probe_Write p b) (empty_buffer limit) ps =
      \<lparr>pb_buf = take (nat limit) ?s, pb_max = limit, pb_truncated = (limit < int (length ?s))\<rparr>"
    using snoc by auto
  have step: "foldl (\<lambda>b p. probe_Write p b) (empty_buffer limit) (ps @ [p])
      = probe_Write p \<lparr>pb_buf = take (nat limit) ?s, pb_max = limit, pb_truncated = (limit < int (length ?s))\<rparr>"
    by (simp add: ih)
  consider (full) "limit \<le> int (length ?s)"
    | (cuts) "int (length ?s) < limit" "limit < int (length ?s + length p)"
    | (fits) "int (length ?s + length p) \<le> limit" by linarith
  then show ?case
  proof cases
    case full
    with p have "limit < int (length (?s @ p))" and "nat limit \<le> length ?s" by (auto simp: less_le)
    with full assms(1) show ?thesis unfolding step by (simp add: probe_Write_def Let_def min_def)
  next
    case cuts
    then have "nat (limit - int (length ?s)) = nat limit - length ?s" and "length ?s \<le> nat limit" by simp_all
    with cuts show ?thesis unfolding step by (simp add: probe_Write_def Let_def min_def)
  next
    case fits
    with p have "length ?s < nat limit" by (cases p) auto
    with fits show ?thesis unfolding step by (simp add: probe_Write_def Let_def min_def)
  qed
qed

subsection \<open>The probe\<close>

record probe_config =
  pcf_Timeout :: int
  pcf_MaxOutputBytes :: int
  pcf_Input :: "string option"
  pcf_ExtraEnv :: "string list"

record probe_result =
  prs_Stdout :: string
  prs_Stderr :: string
  prs_ExitCode :: int
  prs_TimedOut :: bool
  prs_Cancelled :: bool
  prs_Truncated :: bool
  prs_StartedAt :: int
  prs_EndedAt :: int

datatype probe_error = ProbeRefused | ProbeSetup | ProbeStart | ProbeOwnership | ProbeWait

text \<open>How waiting for the process ended: cleanly, with a lingering child, with an exit status, or not.\<close>

datatype wait_outcome = WaitClean | WaitDelayed | WaitExit | WaitBroken

text \<open>
  The writes of the process to each stream, and where the copying of one was cut off because the
  wait delay passed while a lingering child held the pipe open.
\<close>

record probe_os =
  pos_goos :: string
  pos_lookup :: "string \<Rightarrow> string option"
  pos_workdir :: "string option"
  pos_controller :: bool
  pos_configure :: bool
  pos_start :: bool
  pos_afterStart :: bool
  pos_stdout :: "string list"
  pos_stderr :: "string list"
  pos_outCut :: "nat option"
  pos_errCut :: "nat option"
  pos_wait :: wait_outcome
  pos_exitCode :: "int option"
  pos_deadline :: bool
  pos_cancelled :: bool
  pos_started :: int
  pos_ended :: int

text \<open>The process that was started.\<close>

record launch =
  ln_Path :: string
  ln_Args :: "string list"
  ln_Dir :: string
  ln_Env :: "string list"
  ln_Stdin :: "string option"
  ln_Timeout :: int

definition no_probe_result :: probe_result where
  "no_probe_result = \<lparr>prs_Stdout = [], prs_Stderr = [], prs_ExitCode = 0, prs_TimedOut = False,
     prs_Cancelled = False, prs_Truncated = False, prs_StartedAt = 0, prs_EndedAt = 0\<rparr>"

definition probe_timeout :: "probe_config \<Rightarrow> int" where
  "probe_timeout c = (if pcf_Timeout c \<le> 0 then 3 * second else pcf_Timeout c)"

definition probe_max :: "probe_config \<Rightarrow> int" where
  "probe_max c = (if pcf_MaxOutputBytes c \<le> 0 then 65536 else pcf_MaxOutputBytes c)"

definition probe_refused :: "string \<Rightarrow> string list \<Rightarrow> probe_config \<Rightarrow> bool" where
  "probe_refused path args c \<longleftrightarrow>
     \<not> is_abs path \<or> NUL \<in> set path \<or> (\<exists>a \<in> set args. NUL \<in> set a)
     \<or> 10 * second < probe_timeout c
     \<or> (case pcf_Input c of None \<Rightarrow> False | Some d \<Rightarrow> 262144 < length d)
     \<or> (\<exists>e \<in> set (pcf_ExtraEnv c). \<not> validExtraEnv e)
     \<or> 65536 < probe_max c"

text \<open>The end of a started probe: the captured streams and how the process ended.\<close>

definition probe_end :: "probe_os \<Rightarrow> int \<Rightarrow> probe_result \<times> probe_error option" where
  "probe_end os limit =
     (let out = foldl (\<lambda>b p. probe_Write p b) (empty_buffer limit) (taken (pos_outCut os) (pos_stdout os));
          err = foldl (\<lambda>b p. probe_Write p b) (empty_buffer limit) (taken (pos_errCut os) (pos_stderr os));
          res = \<lparr>prs_Stdout = pb_buf out, prs_Stderr = pb_buf err,
                 prs_ExitCode = (case pos_exitCode os of None \<Rightarrow> -1 | Some c \<Rightarrow> c), prs_TimedOut = False,
                 prs_Cancelled = False, prs_Truncated = (pb_truncated out \<or> pb_truncated err),
                 prs_StartedAt = pos_started os, prs_EndedAt = pos_ended os\<rparr>
      in case pos_wait os of
           WaitClean \<Rightarrow> (res, None)
         | WaitDelayed \<Rightarrow> (res, None)
         | WaitExit \<Rightarrow>
             (if pos_deadline os then res\<lparr>prs_TimedOut := True\<rparr>
              else if pos_cancelled os then res\<lparr>prs_Cancelled := True\<rparr> else res, None)
         | WaitBroken \<Rightarrow> (res, Some ProbeWait))"

definition probe_launch ::
    "probe_os \<Rightarrow> string \<Rightarrow> string list \<Rightarrow> probe_config \<Rightarrow> string \<Rightarrow> launch" where
  "probe_launch os path args c workdir =
     \<lparr>ln_Path = path, ln_Args = args, ln_Dir = workdir,
      ln_Env = NeutralHome (pos_goos os) (pos_lookup os) workdir @ pcf_ExtraEnv c,
      ln_Stdin = pcf_Input c, ln_Timeout = probe_timeout c\<rparr>"

definition RunReadOnlyProbe ::
    "probe_os \<Rightarrow> string \<Rightarrow> string list \<Rightarrow> probe_config
      \<Rightarrow> launch option \<times> probe_result \<times> probe_error option" where
  "RunReadOnlyProbe os path args c =
     (if probe_refused path args c then (None, no_probe_result, Some ProbeRefused)
      else case pos_workdir os of
        None \<Rightarrow> (None, no_probe_result, Some ProbeSetup)
      | Some workdir \<Rightarrow>
          let unfinished = no_probe_result\<lparr>prs_ExitCode := -1, prs_StartedAt := pos_started os,
                prs_EndedAt := pos_ended os\<rparr>;
              started = Some (probe_launch os path args c workdir) in
          if \<not> pos_controller os \<or> \<not> pos_configure os then (None, no_probe_result, Some ProbeSetup)
          else if \<not> pos_start os then (None, unfinished, Some ProbeStart)
          else if \<not> pos_afterStart os then (started, unfinished, Some ProbeOwnership)
          else (started, probe_end os (probe_max c)))"

subsection \<open>What a probe shows and what it may start\<close>

lemma RunReadOnlyProbe_ok:
  assumes "RunReadOnlyProbe os path args c = (l, r, None)"
  obtains w where "\<not> probe_refused path args c" "pos_workdir os = Some w"
    "l = Some (probe_launch os path args c w)" "probe_end os (probe_max c) = (r, None)"
  using assms unfolding RunReadOnlyProbe_def Let_def
  by (auto split: if_split_asm option.split_asm)

lemma probe_max_bounds: "\<not> probe_refused path args c \<Longrightarrow> 0 < probe_max c \<and> probe_max c \<le> 65536"
  by (auto simp: probe_refused_def probe_max_def)

lemma probe_end_streams:
  assumes "probe_end os limit = (r, None)" and "0 < limit"
    and "\<forall>p \<in> set (taken (pos_outCut os) (pos_stdout os)). p \<noteq> []" and "\<forall>p \<in> set (taken (pos_errCut os) (pos_stderr os)). p \<noteq> []"
  shows "prs_Stdout r = take (nat limit) (concat (taken (pos_outCut os) (pos_stdout os)))"
    and "prs_Stderr r = take (nat limit) (concat (taken (pos_errCut os) (pos_stderr os)))"
    and "prs_Truncated r \<longleftrightarrow> limit < int (length (concat (taken (pos_outCut os) (pos_stdout os)))) \<or> limit < int (length (concat (taken (pos_errCut os) (pos_stderr os))))"
  using assms(1) unfolding probe_end_def Let_def probe_writes [OF assms(2,3)] probe_writes [OF assms(2,4)]
  by (auto split: wait_outcome.splits if_splits)

text \<open>
  C37: A probe's output is bounded and honest. Of what was read of each stream exactly the first
  bytes up to the configured limit are kept, at most 64 KiB, and the result says when that is not
  everything that was read, which is all the process wrote unless a lingering child outlived the wait;
  the process started is the given executable with the given arguments, no shell in between, in
  the fresh directory that is also its home.
\<close>
theorem probe_keeps_bounded_prefix:
  assumes "RunReadOnlyProbe os path args c = (l, r, None)"
    and "list_all (\<lambda>p. p \<noteq> []) (pos_stdout os @ pos_stderr os)"
  shows "prs_Stdout r = take (nat (probe_max c)) (concat (taken (pos_outCut os) (pos_stdout os)))
    \<and> prs_Stderr r = take (nat (probe_max c)) (concat (taken (pos_errCut os) (pos_stderr os)))
    \<and> length (prs_Stdout r) \<le> 65536 \<and> length (prs_Stderr r) \<le> 65536
    \<and> (\<not> prs_Truncated r \<longleftrightarrow> prs_Stdout r = concat (taken (pos_outCut os) (pos_stdout os)) \<and> prs_Stderr r = concat (taken (pos_errCut os) (pos_stderr os)))
    \<and> (\<exists>w ln. pos_workdir os = Some w \<and> l = Some ln \<and> ln_Path ln = path \<and> ln_Args ln = args \<and> ln_Dir ln = w
         \<and> (w \<noteq> [] \<longrightarrow> ''HOME='' @ w \<in> set (ln_Env ln)))"
proof -
  from assms(1) obtain w where w: "\<not> probe_refused path args c" "pos_workdir os = Some w"
    "l = Some (probe_launch os path args c w)" "probe_end os (probe_max c) = (r, None)"
    by (rule RunReadOnlyProbe_ok)
  have limit: "0 < probe_max c" "probe_max c \<le> 65536" using probe_max_bounds [OF w(1)] by simp_all
  have chunks: "\<forall>p \<in> set (taken (pos_outCut os) (pos_stdout os)). p \<noteq> []"
    "\<forall>p \<in> set (taken (pos_errCut os) (pos_stderr os)). p \<noteq> []"
    using assms(2) by (auto simp: list_all_iff dest!: taken_set)
  note streams = probe_end_streams [OF w(4) limit(1) chunks]
  have fits: "take (nat (probe_max c)) xs = xs \<longleftrightarrow> \<not> probe_max c < int (length xs)" for xs :: string
    using limit(1) by (auto simp: take_all_iff)
  have "\<not> prs_Truncated r \<longleftrightarrow> prs_Stdout r = concat (taken (pos_outCut os) (pos_stdout os)) \<and> prs_Stderr r = concat (taken (pos_errCut os) (pos_stderr os))"
    unfolding streams fits by simp
  moreover have "length (prs_Stdout r) \<le> 65536" "length (prs_Stderr r) \<le> 65536"
    using limit(2) by (simp_all add: streams)
  moreover have "''HOME='' @ w \<in> set (ln_Env (probe_launch os path args c w))" if "w \<noteq> []"
    using that by (simp add: probe_launch_def NeutralHome_def env_entry_def)
  ultimately show ?thesis
    using streams(1,2) w(2,3) by (simp add: probe_launch_def)
qed

definition sample_probe_os :: probe_os where
  "sample_probe_os = \<lparr>pos_goos = ''linux'', pos_lookup = (\<lambda>_. None), pos_workdir = Some ''/tmp/p'', pos_controller = True,
     pos_configure = True, pos_start = True, pos_afterStart = True, pos_stdout = [''one'', ''two''], pos_stderr = [],
     pos_outCut = None, pos_errCut = None, pos_wait = WaitClean, pos_exitCode = Some 0, pos_deadline = False, pos_cancelled = False,
     pos_started = 1, pos_ended = 2\<rparr>"

theorem probe_keeps_bounded_prefix_witness:
  "prs_Stdout (fst (snd (RunReadOnlyProbe sample_probe_os ''/bin/tool'' [''version'']
     \<lparr>pcf_Timeout = 0, pcf_MaxOutputBytes = 4, pcf_Input = None, pcf_ExtraEnv = []\<rparr>))) = ''onet''"
proof -
  let ?c = "\<lparr>pcf_Timeout = 0, pcf_MaxOutputBytes = 4, pcf_Input = None, pcf_ExtraEnv = []\<rparr>"
  obtain l r e where run: "RunReadOnlyProbe sample_probe_os ''/bin/tool'' [''version''] ?c = (l, r, e)"
    by (cases "RunReadOnlyProbe sample_probe_os ''/bin/tool'' [''version''] ?c") blast
  moreover have "snd (snd (RunReadOnlyProbe sample_probe_os ''/bin/tool'' [''version''] ?c)) = None"
    by (simp add: RunReadOnlyProbe_def probe_refused_def is_abs_def probe_timeout_def probe_max_def second_def
        sample_probe_os_def probe_end_def Let_def)
  ultimately have "e = None" by simp
  from probe_keeps_bounded_prefix [OF run [unfolded this]] have "prs_Stdout r = ''onet''"
    by (simp add: sample_probe_os_def probe_max_def)
  with run show ?thesis by simp
qed

end
