(* ===== verification/TerraformState.thy ===== *)
theory TerraformState
  imports GoJsonTree ReadOnlyProbe
begin

section \<open>Terraform projects and local state files (internal/platforms/terraform/platform.go)\<close>

text \<open>
  The directories the operator approved at startup, the state files directly inside them, the
  stable reading of one state file, and the inventory of resource addresses a state holds. What
  the operating system answers at each call is an observation passed as an argument, since
  files may change between calls.
\<close>

subsection \<open>Approved roots\<close>

record approved_root =
  ar_path :: string
  ar_file :: nat

text \<open>A directory's identity and whether it is one.\<close>

type_synonym dir_info = "nat \<times> bool"

text \<open>\<open>New\<close>: \<open>resolve\<close> is \<open>EvalSymlinks\<close> and \<open>stat\<close> is \<open>Stat\<close> of a path.\<close>

fun approve_roots ::
    "string \<Rightarrow> (string \<Rightarrow> string option) \<Rightarrow> (string \<Rightarrow> dir_info option) \<Rightarrow> string list \<Rightarrow> string list
      \<Rightarrow> approved_root list option" where
  "approve_roots goos resolve stat seen [] = Some []"
| "approve_roots goos resolve stat seen (path # paths) =
     (if path = [] \<or> \<not> is_abs path \<or> NUL \<in> set path then None
      else if goos = ''windows'' \<and> has_prefix [CHR 0x5C, CHR 0x5C] path then None
      else let cleaned = path_clean path in
      case resolve cleaned of
        None \<Rightarrow> None
      | Some resolved \<Rightarrow>
          if resolved \<noteq> cleaned \<and> \<not> (goos = ''windows'' \<and> equal_fold resolved cleaned) then None
          else (case stat resolved of
             None \<Rightarrow> None
           | Some (file, dir) \<Rightarrow>
               let key = (if goos = ''windows'' then to_lower resolved else resolved) in
               if \<not> dir \<or> key \<in> set seen then None
               else map_option ((#) \<lparr>ar_path = resolved, ar_file = file\<rparr>)
                      (approve_roots goos resolve stat (key # seen) paths)))"

definition New_roots ::
    "string \<Rightarrow> (string \<Rightarrow> string option) \<Rightarrow> (string \<Rightarrow> dir_info option) \<Rightarrow> string list \<Rightarrow> approved_root list option" where
  "New_roots goos resolve stat paths =
     (if 16 < length paths then None else approve_roots goos resolve stat [] paths)"

text \<open>
  What the operating system answers about a root: \<open>Stat\<close> of its path, its resolved path, the
  pinned directory that \<open>OpenRoot\<close> gives, and the entries of that directory.
\<close>

record dir_entry =
  den_Name :: string
  den_Symlink :: bool
  den_Dir :: bool
  den_Regular :: bool
  den_Size :: int

record root_obs =
  ro_stat :: "dir_info option"
  ro_resolved :: "string option"
  ro_open :: "dir_info option"
  ro_entries :: "dir_entry list option"

definition project_name :: "nat \<Rightarrow> string" where
  "project_name i = ''project-'' @ show_nat (Suc i)"

fun find_project :: "nat \<Rightarrow> approved_root list \<Rightarrow> string \<Rightarrow> approved_root option" where
  "find_project i [] pid = None"
| "find_project i (r # rs) pid = (if pid = project_name i then Some r else find_project (Suc i) rs pid)"

definition platform_root :: "approved_root list \<Rightarrow> root_obs \<Rightarrow> string \<Rightarrow> approved_root option" where
  "platform_root roots obs pid =
     (case find_project 0 roots pid of
        None \<Rightarrow> None
      | Some r \<Rightarrow>
          if ro_stat obs = Some (ar_file r, True) \<and> ro_resolved obs = Some (ar_path r) then Some r else None)"

definition openApprovedRoot :: "approved_root \<Rightarrow> root_obs \<Rightarrow> bool" where
  "openApprovedRoot r obs \<longleftrightarrow> ro_open obs = Some (ar_file r, True)"

definition boundedDirectoryEntries :: "approved_root \<Rightarrow> root_obs \<Rightarrow> dir_entry list option" where
  "boundedDirectoryEntries r obs =
     (if \<not> openApprovedRoot r obs then None
      else case ro_entries obs of
        None \<Rightarrow> None
      | Some files \<Rightarrow> if 4096 < length files then None else Some files)"

definition state_entry :: "dir_entry \<Rightarrow> bool" where
  "state_entry e \<longleftrightarrow> \<not> den_Symlink e \<and> has_suffix ''.tfstate'' (to_lower (den_Name e)) \<and> \<not> den_Dir e \<and> den_Regular e"

definition stateID :: "(string \<Rightarrow> string) \<Rightarrow> string \<Rightarrow> string" where
  "stateID sha name = ''state-'' @ take 24 (sha name)"

text \<open>The state files of a root by name; more than 128 are refused.\<close>

definition root_states :: "approved_root \<Rightarrow> root_obs \<Rightarrow> string list option" where
  "root_states r obs =
     (case boundedDirectoryEntries r obs of
        None \<Rightarrow> None
      | Some files \<Rightarrow>
          let names = map den_Name (filter state_entry files)
          in if 128 < length names then None else Some (sort names))"

definition selectState ::
    "(string \<Rightarrow> string) \<Rightarrow> approved_root list \<Rightarrow> root_obs \<Rightarrow> string \<Rightarrow> string \<Rightarrow> (approved_root \<times> string) option" where
  "selectState sha roots obs pid sid =
     (case platform_root roots obs pid of
        None \<Rightarrow> None
      | Some r \<Rightarrow>
          (case root_states r obs of
             None \<Rightarrow> None
           | Some names \<Rightarrow> map_option (Pair r) (find (\<lambda>n. stateID sha n = sid) names)))"

subsection \<open>One stable reading of a state file\<close>

definition maxStateBytes :: nat where "maxStateBytes = 8388608"

definition sameSnapshotIdentity :: "file_info \<Rightarrow> file_info \<Rightarrow> bool" where
  "sameSnapshotIdentity a b \<longleftrightarrow> fi_File a = fi_File b \<and> fi_Size a = fi_Size b \<and> fi_ModTime a = fi_ModTime b"

record state_obs =
  so_before :: "file_info option"
  so_opened :: "file_info option"
  so_content :: "string option"
  so_after :: "file_info option"
  so_openedAfter :: "file_info option"

definition readStateFile :: "state_obs \<Rightarrow> (string \<times> file_info) option" where
  "readStateFile o1 =
     (case (so_before o1, so_opened o1, so_content o1, so_after o1, so_openedAfter o1) of
        (Some before, Some opened, Some content, Some after, Some openedAfter) \<Rightarrow>
          if \<not> fi_Regular before \<or> fi_Size before < 0 \<or> int maxStateBytes < fi_Size before then None
          else if \<not> fi_Regular opened \<or> fi_File before \<noteq> fi_File opened then None
          else let payload = take (maxStateBytes + 1) content in
          if maxStateBytes < length payload then None
          else if \<not> sameSnapshotIdentity before after \<or> \<not> sameSnapshotIdentity before openedAfter then None
          else Some (payload, before)
      | _ \<Rightarrow> None)"

subsection \<open>The document\<close>

record tf_instance =
  tin_IndexKey :: "jvalue option"

record tf_object =
  tob_Module :: string
  tob_Mode :: string
  tob_Type :: string
  tob_Name :: string
  tob_Instances :: "tf_instance slice"

record tf_snapshot =
  tsn_Version :: int
  tsn_Resources :: "tf_object slice"

record tf_header =
  thd_Serial :: "int option"
  thd_Lineage :: string

definition zero_instance :: tf_instance where "zero_instance = \<lparr>tin_IndexKey = None\<rparr>"

definition zero_object :: tf_object where
  "zero_object = \<lparr>tob_Module = [], tob_Mode = [], tob_Type = [], tob_Name = [], tob_Instances = ([], [])\<rparr>"

text \<open>A raw message takes any value as it is, null included.\<close>

definition assign_instance :: "tf_instance \<Rightarrow> jvalue \<Rightarrow> tf_instance option" where
  "assign_instance = assign_struct [''index_key''] (\<lambda>_ i v. Some (i\<lparr>tin_IndexKey := Some v\<rparr>))"

definition set_object :: "string \<Rightarrow> tf_object \<Rightarrow> jvalue \<Rightarrow> tf_object option" where
  "set_object key r v =
     (if key = ''module'' then map_option (\<lambda>t. r\<lparr>tob_Module := t\<rparr>) (assign_text (tob_Module r) v)
      else if key = ''mode'' then map_option (\<lambda>t. r\<lparr>tob_Mode := t\<rparr>) (assign_text (tob_Mode r) v)
      else if key = ''type'' then map_option (\<lambda>t. r\<lparr>tob_Type := t\<rparr>) (assign_text (tob_Type r) v)
      else if key = ''name'' then map_option (\<lambda>t. r\<lparr>tob_Name := t\<rparr>) (assign_text (tob_Name r) v)
      else map_option (\<lambda>l. r\<lparr>tob_Instances := l\<rparr>) (assign_slice assign_instance zero_instance (tob_Instances r) v))"

definition assign_object :: "tf_object \<Rightarrow> jvalue \<Rightarrow> tf_object option" where
  "assign_object = assign_struct [''module'', ''mode'', ''type'', ''name'', ''instances''] set_object"

definition set_snapshot :: "string \<Rightarrow> tf_snapshot \<Rightarrow> jvalue \<Rightarrow> tf_snapshot option" where
  "set_snapshot key s v =
     (if key = ''version'' then map_option (\<lambda>n. s\<lparr>tsn_Version := n\<rparr>) (assign_int (tsn_Version s) v)
      else map_option (\<lambda>l. s\<lparr>tsn_Resources := l\<rparr>) (assign_slice assign_object zero_object (tsn_Resources s) v))"

definition decode_snapshot :: "jvalue \<Rightarrow> tf_snapshot option" where
  "decode_snapshot = assign_struct [''version'', ''resources''] set_snapshot
     \<lparr>tsn_Version = 0, tsn_Resources = ([], [])\<rparr>"

definition set_header :: "string \<Rightarrow> tf_header \<Rightarrow> jvalue \<Rightarrow> tf_header option" where
  "set_header key h v =
     (if key = ''serial'' then
        (case v of
           JNull \<Rightarrow> Some (h\<lparr>thd_Serial := None\<rparr>)
         | JNum n \<Rightarrow> map_option (\<lambda>i. h\<lparr>thd_Serial := Some i\<rparr>) (parse_int64 n)
         | _ \<Rightarrow> None)
      else map_option (\<lambda>t. h\<lparr>thd_Lineage := t\<rparr>) (assign_text (thd_Lineage h) v))"

definition decode_header :: "jvalue \<Rightarrow> tf_header option" where
  "decode_header = assign_struct [''serial'', ''lineage''] set_header \<lparr>thd_Serial = None, thd_Lineage = []\<rparr>"

subsection \<open>Addresses\<close>

definition ident_start :: "char \<Rightarrow> bool" where
  "ident_start c \<longleftrightarrow> (65 \<le> byte c \<and> byte c \<le> 90) \<or> (97 \<le> byte c \<and> byte c \<le> 122) \<or> c = CHR ''_''"

definition ident_re :: re where
  "ident_re = Cat (Cls ident_start) (Star (Cls (\<lambda>c. ident_start c \<or> is_digit c \<or> c = CHR ''-'')))"

definition tf_identifier :: "string \<Rightarrow> bool" where
  "tf_identifier s \<longleftrightarrow> re_search (cats [Bol, ident_re, Eol]) s"

definition module_index_re :: re where
  "module_index_re = Opt (cats [Chr (CHR ''[''),
     Alt (Plus (Cls is_digit))
       (cats [Chr dquote,
          Star (Alt (Cls (\<lambda>c. c \<noteq> dquote \<and> c \<noteq> bslash)) (Cat (Chr bslash) (Cls (\<lambda>c. c \<noteq> CHR 0x0A)))),
          Chr dquote]),
     Chr (CHR '']'')])"

definition moduleAddress :: "string \<Rightarrow> bool" where
  "moduleAddress s \<longleftrightarrow> re_search (cats [Bol, lit ''module.'', ident_re, module_index_re,
     Star (cats [lit ''.module.'', ident_re, module_index_re]), Eol]) s"

text \<open>The bracketed key of an instance; \<open>None\<close> is a key the code refuses.\<close>

definition instance_key :: "jvalue option \<Rightarrow> string option" where
  "instance_key k =
     (case k of
        None \<Rightarrow> Some []
      | Some JNull \<Rightarrow> Some []
      | Some (JStr v) \<Rightarrow> if 128 < length v then None else Some (CHR ''['' # quote v @ '']'')
      | Some (JNum n) \<Rightarrow> map_option (\<lambda>i. CHR ''['' # show_nat i @ '']'') (float_index n)
      | _ \<Rightarrow> None)"

definition maxResources :: nat where "maxResources = 5000"

definition object_ok :: "tf_object \<Rightarrow> bool" where
  "object_ok r \<longleftrightarrow> tf_identifier (tob_Type r) \<and> tf_identifier (tob_Name r)
     \<and> (tob_Module r = [] \<or> moduleAddress (tob_Module r)) \<and> (tob_Mode r = ''managed'' \<or> tob_Mode r = ''data'')"

definition object_base :: "tf_object \<Rightarrow> string" where
  "object_base r =
     (let base = tob_Type r @ ''.'' @ tob_Name r;
          base1 = (if tob_Mode r = ''data'' then ''data.'' @ base else base)
      in if tob_Module r \<noteq> [] then tob_Module r @ ''.'' @ base1 else base1)"

record tf_resource =
  trs_Address :: string
  trs_Type :: string
  trs_Module :: string
  trs_Category :: string

text \<open>The loops over resources and their instances, with the resources listed so far.\<close>

fun list_instances :: "tf_object \<Rightarrow> tf_instance list \<Rightarrow> tf_resource list \<Rightarrow> tf_resource list option" where
  "list_instances r [] acc = Some acc"
| "list_instances r (i # xs) acc =
     (case instance_key (tin_IndexKey i) of
        None \<Rightarrow> None
      | Some key \<Rightarrow>
          let address = object_base r @ key in
          if 512 < length address \<or> address \<in> trs_Address ` set acc then None
          else if maxResources \<le> length acc then None
          else list_instances r xs (acc @ [\<lparr>trs_Address = address, trs_Type = tob_Type r,
                 trs_Module = tob_Module r, trs_Category = tob_Mode r\<rparr>]))"

fun list_objects :: "tf_object list \<Rightarrow> tf_resource list \<Rightarrow> tf_resource list option" where
  "list_objects [] acc = Some acc"
| "list_objects (r # rs) acc =
     (if \<not> object_ok r then None
      else case list_instances r (fst (tob_Instances r)) acc of
        None \<Rightarrow> None
      | Some acc' \<Rightarrow> list_objects rs acc')"

record inventory =
  inv_serial :: int
  inv_lineage :: string
  inv_resources :: "tf_resource list"
  inv_addresses :: "string list"

definition parseInventory :: "string \<Rightarrow> inventory option" where
  "parseInventory payload =
     (case json_document payload of
        None \<Rightarrow> None
      | Some doc \<Rightarrow>
          (case (decode_snapshot doc, decode_header doc) of
             (Some snap, Some header) \<Rightarrow>
               if tsn_Version snap \<noteq> 4 \<or> maxResources < length (fst (tsn_Resources snap)) then None
               else (case list_objects (fst (tsn_Resources snap)) [] of
                  None \<Rightarrow> None
                | Some rs \<Rightarrow>
                    Some \<lparr>inv_serial = (case thd_Serial header of None \<Rightarrow> -1 | Some n \<Rightarrow> n),
                          inv_lineage = thd_Lineage header, inv_resources = sort_key trs_Address rs,
                          inv_addresses = map trs_Address rs\<rparr>)
           | _ \<Rightarrow> None))"

definition Resources ::
    "(string \<Rightarrow> string) \<Rightarrow> approved_root list \<Rightarrow> root_obs \<Rightarrow> root_obs \<Rightarrow> state_obs \<Rightarrow> string \<Rightarrow> string
      \<Rightarrow> tf_resource list option" where
  "Resources sha roots obs obs2 so pid sid =
     (case selectState sha roots obs pid sid of
        None \<Rightarrow> None
      | Some (r, name) \<Rightarrow>
          if \<not> openApprovedRoot r obs2 then None
          else (case readStateFile so of
             None \<Rightarrow> None
           | Some (payload, _) \<Rightarrow> map_option inv_resources (parseInventory payload)))"

subsection \<open>Facts\<close>

lemma list_instances_distinct:
  "list_instances r xs acc = Some out \<Longrightarrow> distinct (map trs_Address acc) \<Longrightarrow> length acc \<le> maxResources
     \<Longrightarrow> distinct (map trs_Address out) \<and> length out \<le> maxResources"
  by (induction r xs acc rule: list_instances.induct)
    (auto simp: Let_def split: option.splits if_splits)

lemma list_objects_distinct:
  "list_objects rs acc = Some out \<Longrightarrow> distinct (map trs_Address acc) \<Longrightarrow> length acc \<le> maxResources
     \<Longrightarrow> distinct (map trs_Address out) \<and> length out \<le> maxResources"
  by (induction rs acc rule: list_objects.induct)
    (auto split: option.splits if_splits dest: list_instances_distinct)

lemma parseInventory_addresses:
  assumes "parseInventory payload = Some i"
  shows "distinct (inv_addresses i)" and "length (inv_addresses i) \<le> 5000"
    and "set (map trs_Address (inv_resources i)) = set (inv_addresses i)"
  using assms by (auto simp: parseInventory_def maxResources_def split: option.splits if_splits
      dest!: list_objects_distinct)

lemma readStateFile_bounded: "readStateFile o1 = Some (payload, i) \<Longrightarrow> length payload \<le> maxStateBytes"
  by (auto simp: readStateFile_def Let_def split: option.splits if_splits)

lemma platform_root_mem: "platform_root roots obs pid = Some r \<Longrightarrow> r \<in> set roots"
proof -
  have "find_project i rs pid = Some r \<Longrightarrow> r \<in> set rs" for i rs
    by (induction rs arbitrary: i) (auto split: if_splits)
  then show "platform_root roots obs pid = Some r \<Longrightarrow> r \<in> set roots"
    by (auto simp: platform_root_def split: option.splits if_splits)
qed

lemma selectState_root: "selectState sha roots obs pid sid = Some (r, name) \<Longrightarrow> r \<in> set roots"
  by (auto simp: selectState_def split: option.splits if_splits dest: platform_root_mem)

end
