(* ===== verification/AppError.thy ===== *)
theory AppError
  imports GoText
begin

section \<open>Operator-facing failures (internal/apperror)\<close>

text \<open>
  The closed set of failure details the browser may see: every code has a fixed category,
  message and remediation, and anything else is answered as an internal error. A field name is
  attached only when it names an operator input.
\<close>

datatype category = CategoryValidation | CategorySecurity | CategoryDiscovery | CategoryPolicy | CategoryCapacity | CategoryLifecycle | CategoryStream | CategoryExecution | CategoryInternal

text \<open>Go's \<open>Code\<close> is a string; \<open>CodeOther\<close> stands for every text outside the constants.\<close>

datatype app_code =
  CodeInvalidRequest | CodeInvalidInput | CodeRequestTooLarge | CodeMethodNotAllowed
  | CodeRequestForbidden | CodeSessionUnavailable | CodeAuthenticationUnsupported | CodeAuthenticationFailed
  | CodeAuthenticationUnavailable | CodeAuthenticationBusy | CodeResourceNotFound | CodeCommandBlocked
  | CodeApprovalRequired | CodeAuditUnavailable | CodeExecutionContextUnavailable | CodeToolUnavailable
  | CodeToolChanged | CodeRunCapacity | CodeRunNotFound | CodeRuntimeClosed
  | CodeInvalidCursor | CodeStreamCapacity | CodeStreamUnavailable | CodeExecutionFailed
  | CodeOutputLimit | CodeEventCapacity | CodeInternalError
  | CodeOther string

record detail =
  de_Code :: app_code
  de_Category :: category
  de_Message :: string
  de_Remediation :: string
  de_Retryable :: bool
  de_Field :: string

definition detail_of :: "app_code \<Rightarrow> category \<Rightarrow> string \<Rightarrow> string \<Rightarrow> bool \<Rightarrow> detail" where
  "detail_of c k m r y =
     \<lparr>de_Code = c, de_Category = k, de_Message = m, de_Remediation = r, de_Retryable = y, de_Field = []\<rparr>"

definition internal_detail :: detail where
  "internal_detail = detail_of CodeInternalError CategoryInternal
     (''CLIHarbor encountered an internal local error.'')
     (''Run cliharbor doctor for local diagnostics before retrying.'') False"

primrec DetailFor :: "app_code \<Rightarrow> detail" where
  "DetailFor CodeInvalidRequest = detail_of CodeInvalidRequest CategoryValidation
     (''The request was not accepted.'')
     (''Review the task and submit only the fields CLIHarbor provides.'') False"
| "DetailFor CodeInvalidInput = detail_of CodeInvalidInput CategoryValidation
     (''One or more task inputs are invalid.'')
     (''Correct the highlighted field and retry.'') False"
| "DetailFor CodeRequestTooLarge = detail_of CodeRequestTooLarge CategoryValidation
     (''The request is larger than CLIHarbor accepts.'')
     (''Reduce the task input and retry.'') False"
| "DetailFor CodeMethodNotAllowed = detail_of CodeMethodNotAllowed CategoryValidation
     (''That operation is not supported on this local endpoint.'')
     ('''') False"
| "DetailFor CodeRequestForbidden = detail_of CodeRequestForbidden CategorySecurity
     (''The local request was rejected by CLIHarbor'' @ [CHR 0x27] @ ''s browser security boundary.'')
     (''Reload CLIHarbor from its launcher and retry.'') False"
| "DetailFor CodeSessionUnavailable = detail_of CodeSessionUnavailable CategorySecurity
     (''The local browser session is not active.'')
     (''Relaunch CLIHarbor to establish a new secure session.'') False"
| "DetailFor CodeAuthenticationUnsupported = detail_of CodeAuthenticationUnsupported CategoryPolicy
     (''Credential sign-in is not supported for this vendor session.'')
     (''Use the vendor-owned authentication flow approved for this configured authentication mode.'') False"
| "DetailFor CodeAuthenticationFailed = detail_of CodeAuthenticationFailed CategorySecurity
     (''Vendor authentication was not accepted.'')
     (''Re-enter the credential or use your organization'' @ [CHR 0x27] @ ''s approved vendor authentication flow.'') False"
| "DetailFor CodeAuthenticationUnavailable = detail_of CodeAuthenticationUnavailable CategoryLifecycle
     (''Vendor authentication is not currently available.'')
     (''Check network/TLS reachability, vendor configuration, and credential-storage policy, then retry.'') True"
| "DetailFor CodeAuthenticationBusy = detail_of CodeAuthenticationBusy CategoryCapacity
     (''A vendor sign-in attempt is already in progress.'')
     (''Wait for the current sign-in attempt to finish, then retry.'') True"
| "DetailFor CodeResourceNotFound = detail_of CodeResourceNotFound CategoryLifecycle
     (''The requested local resource is unavailable.'')
     (''Reload CLIHarbor and retry from the current task list.'') False"
| "DetailFor CodeCommandBlocked = detail_of CodeCommandBlocked CategoryPolicy
     (''The task is not permitted by the current local execution policy.'')
     (''Choose a task currently exposed by CLIHarbor. Use cliharbor doctor if the browser metadata appears stale.'') False"
| "DetailFor CodeApprovalRequired = detail_of CodeApprovalRequired CategoryPolicy
     (''This change requires a fresh explicit approval.'')
     (''Preview the task again, verify its exact target and environment, then approve it.'') False"
| "DetailFor CodeAuditUnavailable = detail_of CodeAuditUnavailable CategorySecurity
     (''CLIHarbor cannot safely record this change in its local audit trail.'')
     (''Do not retry blindly. Check the journal under your user configuration'' @ [CHR 0x27] @ ''s CLIHarbor/audit directory, available disk space and any stale lock. Verify prior operation outcomes before repairing audit storage.'') False"
| "DetailFor CodeExecutionContextUnavailable = detail_of CodeExecutionContextUnavailable CategoryPolicy
     (''CLIHarbor could not establish trusted environment context for this change.'')
     (''Verify the vendor connection/account configuration, then preview the task again before approving it.'') False"
| "DetailFor CodeToolUnavailable = detail_of CodeToolUnavailable CategoryDiscovery
     (''The required tool is not ready for execution.'')
     (''Run cliharbor doctor, then install or configure the declared tool with an explicit backend --tool-path if needed.'') False"
| "DetailFor CodeToolChanged = detail_of CodeToolChanged CategoryDiscovery
     (''The executable changed after CLIHarbor discovered it.'')
     (''Relaunch CLIHarbor to collect fresh discovery evidence, then retry.'') True"
| "DetailFor CodeRunCapacity = detail_of CodeRunCapacity CategoryCapacity
     (''CLIHarbor is already running the maximum number of tasks.'')
     (''Wait for an active run to finish or cancel one, then retry.'') True"
| "DetailFor CodeRunNotFound = detail_of CodeRunNotFound CategoryLifecycle
     (''This run is no longer available in local retention.'')
     (''Start the task again if you still need the result.'') False"
| "DetailFor CodeRuntimeClosed = detail_of CodeRuntimeClosed CategoryLifecycle
     (''CLIHarbor is shutting down and cannot start new work.'')
     (''Relaunch CLIHarbor and retry.'') False"
| "DetailFor CodeInvalidCursor = detail_of CodeInvalidCursor CategoryStream
     (''The requested live-stream position is not valid.'')
     (''Refresh the run status and reopen live updates.'') True"
| "DetailFor CodeStreamCapacity = detail_of CodeStreamCapacity CategoryCapacity
     (''CLIHarbor has reached its live-stream observer limit.'')
     (''Close another live run view or retry live updates shortly.'') True"
| "DetailFor CodeStreamUnavailable = detail_of CodeStreamUnavailable CategoryStream
     (''Live run updates are temporarily unavailable.'')
     (''Refresh the run status and retry live updates if the run is still active.'') True"
| "DetailFor CodeExecutionFailed = detail_of CodeExecutionFailed CategoryExecution
     (''CLIHarbor could not complete the local process lifecycle.'')
     (''Review the run state and use cliharbor doctor for local diagnostics before retrying.'') False"
| "DetailFor CodeOutputLimit = detail_of CodeOutputLimit CategoryExecution
     (''Run output exceeded CLIHarbor'' @ [CHR 0x27] @ ''s local safety limit.'')
     (''Narrow the task input or use the trusted CLI directly if complete local output is required.'') False"
| "DetailFor CodeEventCapacity = detail_of CodeEventCapacity CategoryExecution
     (''CLIHarbor reached the local retained-event limit for this run.'')
     (''Narrow the task output and start a new run.'') False"
| "DetailFor CodeInternalError = internal_detail"
| "DetailFor (CodeOther s) = internal_detail"

definition validField :: "string \<Rightarrow> bool" where
  "validField f \<longleftrightarrow>
     f = ''packId'' \<or> f = ''commandId'' \<or> f = ''installRoot''
     \<or> (has_prefix ''values.'' f
        \<and> (let i = drop 7 f in i \<noteq> [] \<and> length i \<le> 63 \<and> 97 \<le> byte (hd i) \<and> byte (hd i) \<le> 122
             \<and> (\<forall>r \<in> set (runes (tl i)). (97 \<le> r \<and> r \<le> 122) \<or> (48 \<le> r \<and> r \<le> 57) \<or> r = 45)))"

definition WithField :: "detail \<Rightarrow> string \<Rightarrow> detail" where
  "WithField d f = (if validField f then d\<lparr>de_Field := f\<rparr> else d)"

end
