(* ===== verification/RunManager.thy ===== *)
theory RunManager
  imports Approval Executor Structured AppError AuditTrail
begin

section \<open>The run manager (internal/runs/manager.go)\<close>

text \<open>
  The one place where requests become processes: the table of active and retained runs, the
  admission of a run in two critical sections, the recording of its bounded events, its end,
  and the operations the server calls. Every critical section is one function on the manager's
  state. Run and approval identifiers, clocks, the vendor's processes and the audit sink's
  outcome (\<open>'w\<close>, on a sink state \<open>'a\<close>) are arguments; a run's pointer is its identifier.
\<close>

datatype run_status = StatusRunning | StatusExited | StatusCancelled | StatusTimedOut | StatusFailed

record run_event =
  ev_Sequence :: nat
  ev_Type :: event_type
  ev_Timestamp :: int
  ev_DataBase64 :: string
  ev_ExitCode :: "int option"

record run_request =
  rn_PackID :: string
  rn_CommandID :: string
  rn_Values :: "string dict"
  rn_Approval :: "approval_submission option"

record run_preview =
  pw_PackID :: string
  pw_CommandID :: string
  pw_ToolID :: string
  pw_ToolVersion :: string
  pw_ExecutableName :: string
  pw_Args :: "string list"
  pw_Stdin :: string
  pw_Risk :: risk
  pw_Impact :: "mutation_impact option"
  pw_Context :: "execution_context option"
  pw_Approval :: "approval_challenge option"

record run_record =
  rr_runID :: string
  rr_packID :: string
  rr_commandID :: string
  rr_toolID :: string
  rr_toolVersion :: string
  rr_status :: run_status
  rr_startedAt :: "int option"
  rr_endedAt :: "int option"
  rr_exitCode :: "int option"
  rr_events :: "run_event list"
  rr_eventBytes :: int
  rr_nextSeq :: nat
  rr_cancelled :: bool
  rr_structuredSpec :: "structured_output option"
  rr_structuredRenderer :: string
  rr_structuredStdout :: string
  rr_structuredTooLarge :: bool
  rr_structuredResult :: "structured_result option"
  rr_failure :: "detail option"
  rr_audited :: bool

record run_snapshot =
  rs_RunID :: string
  rs_PackID :: string
  rs_CommandID :: string
  rs_ToolID :: string
  rs_ToolVersion :: string
  rs_Status :: run_status
  rs_StartedAt :: "int option"
  rs_EndedAt :: "int option"
  rs_ExitCode :: "int option"
  rs_Structured :: "structured_result option"
  rs_Failure :: "detail option"
  rs_Events :: "run_event list"

record run_summary =
  su_RunID :: string
  su_PackID :: string
  su_CommandID :: string
  su_ToolID :: string
  su_ToolVersion :: string
  su_Status :: run_status
  su_StartedAt :: "int option"
  su_EndedAt :: "int option"
  su_ExitCode :: "int option"

record event_batch =
  eb_RunID :: string
  eb_Events :: "run_event list"
  eb_Status :: run_status
  eb_ExitCode :: "int option"
  eb_Structured :: "structured_result option"
  eb_Failure :: "detail option"
  eb_Complete :: bool

subsection \<open>Configuration\<close>

text \<open>
  \<open>mc_Audit\<close> answers whether the event was recorded. A guard returns the approved bytes or
  refuses; a plan without a guard is \<open>None\<close>.
\<close>

type_synonym output_guard = "string \<Rightarrow> unit + string"

record ('w, 'a) manager_config =
  mc_MaxActive :: int
  mc_MaxRetained :: int
  mc_Timeout :: int
  mc_WaitDelay :: int
  mc_ChunkBytes :: int
  mc_MaxOutputBytesPerStream :: int
  mc_MaxEventBytesPerRun :: int
  mc_ApprovalTTL :: int
  mc_MaxApprovals :: int
  mc_Resolve :: "(plan \<Rightarrow> unit + execution_context) option"
  mc_OutputGuard :: "(plan \<Rightarrow> output_guard option) option"
  mc_Audit :: "('w \<Rightarrow> audit_event \<Rightarrow> 'a \<Rightarrow> bool \<times> 'a) option"

definition eventOverheadBytes :: int where "eventOverheadBytes = 64"

definition positive_or :: "int \<Rightarrow> int \<Rightarrow> int" where
  "positive_or d v = (if v \<le> 0 then d else v)"

text \<open>The manager. \<open>mg_ctxDone\<close> is whether its context was cancelled; \<open>mg_audit\<close> the sink's state.\<close>

record 'a manager =
  mg_discovery :: snapshot
  mg_ctxDone :: bool
  mg_runs :: "run_record dict"
  mg_order :: "string list"
  mg_approvals :: "approval_record dict"
  mg_active :: int
  mg_auditFailed :: bool
  mg_closed :: bool
  mg_audit :: 'a

definition wrap64 :: "int \<Rightarrow> int" where
  "wrap64 x = (x + 2 ^ 63) mod 2 ^ 64 - 2 ^ 63"

definition with_defaults :: "('w, 'a) manager_config \<Rightarrow> ('w, 'a) manager_config" where
  "with_defaults c = c\<lparr>mc_MaxActive := positive_or 4 (mc_MaxActive c),
     mc_MaxRetained := positive_or 32 (mc_MaxRetained c),
     mc_Timeout := positive_or (30 * second) (mc_Timeout c),
     mc_WaitDelay := positive_or (2 * second) (mc_WaitDelay c),
     mc_ChunkBytes := positive_or 16384 (mc_ChunkBytes c),
     mc_MaxOutputBytesPerStream := positive_or 262144 (mc_MaxOutputBytesPerStream c),
     mc_MaxEventBytesPerRun := positive_or 2097152 (mc_MaxEventBytesPerRun c),
     mc_ApprovalTTL := positive_or (120 * second) (mc_ApprovalTTL c),
     mc_MaxApprovals := positive_or 64 (mc_MaxApprovals c)\<rparr>"

definition NewManager ::
    "bool \<Rightarrow> registry option \<Rightarrow> snapshot \<Rightarrow> ('w, 'a) manager_config \<Rightarrow> 'a
      \<Rightarrow> ('w, 'a) manager_config option \<times> 'a manager option" where
  "NewManager hasParent reg snap config0 audit =
     (let c = with_defaults config0 in
      if \<not> hasParent \<or> reg = None then (None, None)
      else if mc_MaxRetained c < mc_MaxActive c then (None, None)
      else if mc_MaxEventBytesPerRun c < wrap64 (mc_MaxOutputBytesPerStream c * 2) then (None, None)
      else (Some c, Some \<lparr>mg_discovery = snap, mg_ctxDone = False, mg_runs = [], mg_order = [], mg_approvals = [],
              mg_active = 0, mg_auditFailed = False, mg_closed = False, mg_audit = audit\<rparr>))"

subsection \<open>Copies handed out\<close>

definition record_snapshot :: "run_record \<Rightarrow> run_snapshot" where
  "record_snapshot r =
     \<lparr>rs_RunID = rr_runID r, rs_PackID = rr_packID r, rs_CommandID = rr_commandID r, rs_ToolID = rr_toolID r,
      rs_ToolVersion = rr_toolVersion r, rs_Status = rr_status r, rs_StartedAt = rr_startedAt r,
      rs_EndedAt = rr_endedAt r, rs_ExitCode = rr_exitCode r, rs_Structured = rr_structuredResult r,
      rs_Failure = rr_failure r, rs_Events = rr_events r\<rparr>"

definition record_summary :: "run_record \<Rightarrow> run_summary" where
  "record_summary r =
     \<lparr>su_RunID = rr_runID r, su_PackID = rr_packID r, su_CommandID = rr_commandID r, su_ToolID = rr_toolID r,
      su_ToolVersion = rr_toolVersion r, su_Status = rr_status r, su_StartedAt = rr_startedAt r,
      su_EndedAt = rr_endedAt r, su_ExitCode = rr_exitCode r\<rparr>"

definition cloneEventsAfter :: "run_event list \<Rightarrow> nat \<Rightarrow> run_event list" where
  "cloneEventsAfter events after = dropWhile (\<lambda>e. ev_Sequence e \<le> after) events"

definition encodeBase64_digit :: "nat \<Rightarrow> char" where
  "encodeBase64_digit n =
     char_of (if n < 26 then 65 + n else if n < 52 then 71 + n else if n < 62 then n - 4
              else if n = 62 then 43 else 47 :: nat)"

fun encodeBase64 :: "string \<Rightarrow> string" where
  "encodeBase64 [] = []"
| "encodeBase64 [a] =
     [encodeBase64_digit (byte a div 4), encodeBase64_digit (byte a mod 4 * 16), CHR ''='', CHR ''='']"
| "encodeBase64 [a, b] =
     [encodeBase64_digit (byte a div 4), encodeBase64_digit (byte a mod 4 * 16 + byte b div 16),
      encodeBase64_digit (byte b mod 16 * 4), CHR ''='']"
| "encodeBase64 (a # b # c # cs) =
     encodeBase64_digit (byte a div 4) # encodeBase64_digit (byte a mod 4 * 16 + byte b div 16)
     # encodeBase64_digit (byte b mod 16 * 4 + byte c div 64) # encodeBase64_digit (byte c mod 64)
     # encodeBase64 cs"

subsection \<open>Errors\<close>

definition classifyPlannerError :: "planner_error \<Rightarrow> run_error" where
  "classifyPlannerError e =
     (case ple_Code e of
        ErrUnknownPack \<Rightarrow> RunError ErrInvalidRequest (ple_Path e)
      | ErrUnknownCommand \<Rightarrow> RunError ErrInvalidRequest (ple_Path e)
      | ErrUnknownInput \<Rightarrow> RunError ErrInvalidRequest (ple_Path e)
      | ErrMissingInput \<Rightarrow> RunError ErrInvalidRequest (ple_Path e)
      | ErrInvalidInput \<Rightarrow> RunError ErrInvalidRequest (ple_Path e)
      | ErrToolUnavailable \<Rightarrow> run_err ErrRunToolUnavailable
      | ErrStaleDiscovery \<Rightarrow> run_err ErrToolChanged
      | ErrRiskPolicy \<Rightarrow> run_err ErrPolicyBlocked
      | ErrAuthPolicy \<Rightarrow> run_err ErrPolicyBlocked
      | ErrOutputPolicy \<Rightarrow> run_err ErrPolicyBlocked
      | ErrInvalidPlanState \<Rightarrow> Unexpected)"

text \<open>What recording an event may answer, and why a run failed.\<close>

datatype record_error = RunInactive | EventCapacity

datatype run_failure = FailedExecution "record_error exec_error" | GuardTooLarge | GuardRefused
  | FailedRecord record_error

definition classifyExecutionFailure :: "run_failure \<Rightarrow> detail" where
  "classifyExecutionFailure f =
     (case f of
        FailedRecord EventCapacity \<Rightarrow> DetailFor CodeEventCapacity
      | FailedExecution err \<Rightarrow>
          if xe_Cause err = Some EventCapacity then DetailFor CodeEventCapacity
          else if xe_Code err = ErrExecutableChanged then DetailFor CodeToolChanged
          else if xe_Code err = ErrOutputLimit then DetailFor CodeOutputLimit
          else DetailFor CodeExecutionFailed
      | _ \<Rightarrow> DetailFor CodeExecutionFailed)"

definition statusFromExecutor :: "exec_status \<Rightarrow> run_status" where
  "statusFromExecutor st =
     (case st of ExecExited \<Rightarrow> StatusExited | ExecCancelled \<Rightarrow> StatusCancelled
      | ExecTimedOut \<Rightarrow> StatusTimedOut | _ \<Rightarrow> StatusFailed)"

definition status_text :: "run_status \<Rightarrow> string" where
  "status_text st =
     (case st of StatusRunning \<Rightarrow> ''running'' | StatusExited \<Rightarrow> ''exited'' | StatusCancelled \<Rightarrow> ''cancelled''
      | StatusTimedOut \<Rightarrow> ''timed-out'' | StatusFailed \<Rightarrow> ''failed'')"

subsection \<open>Tools and previews\<close>

text \<open>What the backend holds fixed: libraries, digest, packs and the platform.\<close>

record backend =
  ba_lib :: ext_lib
  ba_sha :: "string \<Rightarrow> string"
  ba_registry :: "registry option"
  ba_goos :: string

definition manager_closed :: "'a manager \<Rightarrow> bool" where
  "manager_closed m \<longleftrightarrow> mg_closed m \<or> mg_ctxDone m"

definition ActivateTool ::
    "(string \<Rightarrow> string) \<Rightarrow> file_system \<Rightarrow> tool_state \<Rightarrow> 'a manager \<Rightarrow> run_error option \<times> 'a manager" where
  "ActivateTool sha fs st m =
     (let ref = ToolRef (ts_PackID st) (ts_ToolID st) in
      if manager_closed m then (Some (run_err ErrClosed), m)
      else case Find (mg_discovery m) ref of
        None \<Rightarrow> (Some Unexpected, m)
      | Some previous \<Rightarrow>
          if ts_Status previous \<noteq> StatusMissing \<or> \<not> Healthy st \<or> ts_PackVersion st \<noteq> ts_PackVersion previous
            \<or> ts_VersionConstraint st \<noteq> ts_VersionConstraint previous \<or> \<not> identity_Valid (ts_Identity st)
            \<or> \<not> identity_Matches sha fs (ts_Identity st) (ts_Path st)
          then (Some Unexpected, m)
          else (None, m\<lparr>mg_discovery := NewSnapshot
            (map (\<lambda>s. if state_ref s = ref then st else s) (sn_tools (mg_discovery m)))\<rparr>))"

definition build_request :: "backend \<Rightarrow> snapshot \<Rightarrow> run_request \<Rightarrow> run_error + plan" where
  "build_request b snap req =
     (case Build (ba_lib b) (ba_registry b) snap
        \<lparr>prq_PackID = rn_PackID req, prq_CommandID = rn_CommandID req, prq_Values = rn_Values req\<rparr> of
        Inl e \<Rightarrow> Inl (classifyPlannerError e)
      | Inr p \<Rightarrow> Inr p)"

text \<open>The plan as the browser sees it: no path, no identity, and no sensitive standard input.\<close>

definition preview_of :: "plan \<Rightarrow> run_preview" where
  "preview_of p =
     \<lparr>pw_PackID = pl_PackID p, pw_CommandID = pl_CommandID p, pw_ToolID = pl_ToolID p,
      pw_ToolVersion = pl_ToolVersion p, pw_ExecutableName = pl_ExecutableName p, pw_Args = pl_Args p,
      pw_Stdin = (if pl_StdinSensitive p then [] else pl_Stdin p), pw_Risk = pl_Risk p, pw_Impact = pl_Impact p,
      pw_Context = None, pw_Approval = None\<rparr>"

text \<open>
  \<open>Preview\<close> on the state \<open>m\<close> it reads; the approval is issued on the state \<open>m'\<close> at its second
  lock.
\<close>

definition Preview ::
    "('w, 'a) manager_config \<Rightarrow> backend \<Rightarrow> int \<Rightarrow> string option \<Rightarrow> run_request \<Rightarrow> 'a manager \<Rightarrow> 'a manager
      \<Rightarrow> (run_error + run_preview) \<times> 'a manager" where
  "Preview cfg b now newID req m m' =
     (if manager_closed m then (Inl (run_err ErrClosed), m')
      else case build_request b (mg_discovery m) req of
        Inl e \<Rightarrow> (Inl e, m')
      | Inr p \<Rightarrow>
          if \<not> requiresApproval p then (Inr (preview_of p), m')
          else (case executionContextFor (mc_Resolve cfg) p of
             Inl e \<Rightarrow> (Inl e, m')
           | Inr ctx \<Rightarrow>
               (case issueApproval (ba_sha b) (nat (mc_MaxApprovals cfg)) (mc_ApprovalTTL cfg) (manager_closed m') now
                   newID p ctx (mg_approvals m') of
                  (Inl e, t) \<Rightarrow> (Inl e, m'\<lparr>mg_approvals := t\<rparr>)
                | (Inr ch, t) \<Rightarrow> (Inr ((preview_of p)\<lparr>pw_Context := Some ctx, pw_Approval := Some ch\<rparr>),
                                m'\<lparr>mg_approvals := t\<rparr>))))"

subsection \<open>Admitting a run\<close>

definition finished :: "run_record \<Rightarrow> bool" where
  "finished r \<longleftrightarrow> rr_status r \<noteq> StatusRunning"

text \<open>The oldest finished run, with the order that remains without it.\<close>

fun first_finished :: "run_record dict \<Rightarrow> string list \<Rightarrow> (string \<times> string list) option" where
  "first_finished runs [] = None"
| "first_finished runs (i # rest) =
     (if (case get runs i of None \<Rightarrow> False | Some r \<Rightarrow> finished r) then Some (i, rest)
      else map_option (\<lambda>(j, more). (j, i # more)) (first_finished runs rest))"

lemma first_finished_shorter: "first_finished runs order = Some (i, rest) \<Longrightarrow> length rest < length order"
  by (induction order arbitrary: rest) (auto split: if_splits option.splits)

function makeRetentionRoom ::
    "int \<Rightarrow> run_record dict \<Rightarrow> string list \<Rightarrow> run_error option \<times> run_record dict \<times> string list" where
  "makeRetentionRoom maxRetained runs order =
     (if int (length runs) < maxRetained then (None, runs, order)
      else case first_finished runs order of
        None \<Rightarrow> (Some (run_err ErrCapacity), runs, order)
      | Some (i, rest) \<Rightarrow> makeRetentionRoom maxRetained (AList.delete i runs) rest)"
  by pat_completeness auto
termination
  by (relation "measure (\<lambda>(n, runs, order). length order)") (auto dest: first_finished_shorter)

declare makeRetentionRoom.simps [simp del]

definition new_record :: "string \<Rightarrow> plan \<Rightarrow> run_record" where
  "new_record rid p =
     \<lparr>rr_runID = rid, rr_packID = pl_PackID p, rr_commandID = pl_CommandID p, rr_toolID = pl_ToolID p,
      rr_toolVersion = pl_ToolVersion p, rr_status = StatusRunning, rr_startedAt = None, rr_endedAt = None,
      rr_exitCode = None, rr_events = [], rr_eventBytes = 0, rr_nextSeq = 0, rr_cancelled = False,
      rr_structuredSpec = ou_Structured (pl_Output p), rr_structuredRenderer = ou_Renderer (pl_Output p),
      rr_structuredStdout = [], rr_structuredTooLarge = False, rr_structuredResult = None, rr_failure = None,
      rr_audited = requiresApproval p\<rparr>"

definition approved_event :: "string \<Rightarrow> plan \<Rightarrow> mutation_impact \<Rightarrow> audit_event" where
  "approved_event rid p im =
     \<lparr>ae_RunID = rid, ae_Action = ''approved'', ae_PackID = pl_PackID p, ae_CommandID = pl_CommandID p,
      ae_Risk = risk_text (pl_Risk p), ae_TargetLabel = mi_TargetLabel im, ae_Target = mi_Target im,
      ae_Effect = mi_Effect im, ae_Scope = scope_text (mi_Scope im), ae_Status = [], ae_ExitCode = None\<rparr>"

text \<open>Before the second lock: the first look at the manager, the plan and its fingerprint.\<close>

definition Start_check :: "('w, 'a) manager_config \<Rightarrow> 'a manager \<Rightarrow> run_error + snapshot" where
  "Start_check cfg m =
     (if manager_closed m then Inl (run_err ErrClosed)
      else if mc_MaxActive cfg \<le> mg_active m then Inl (run_err ErrCapacity)
      else Inr (mg_discovery m))"

definition plan_fingerprint :: "('w, 'a) manager_config \<Rightarrow> backend \<Rightarrow> plan \<Rightarrow> run_error + string" where
  "plan_fingerprint cfg b p =
     (if \<not> requiresApproval p then Inr []
      else case executionContextFor (mc_Resolve cfg) p of
        Inl e \<Rightarrow> Inl e
      | Inr ctx \<Rightarrow> Inr (approvalFingerprint (ba_sha b) p ctx))"

text \<open>The mutation's part of the second critical section: approval, then audit record.\<close>

definition authorise ::
    "('w, 'a) manager_config \<Rightarrow> 'w \<Rightarrow> int \<Rightarrow> string \<Rightarrow> plan \<Rightarrow> string \<Rightarrow> approval_submission option \<Rightarrow> 'a manager
      \<Rightarrow> run_error option \<times> 'a manager" where
  "authorise cfg w now rid p fp approval m =
     (if \<not> requiresApproval p then (None, m)
      else case mc_Audit cfg of
        None \<Rightarrow> (Some (run_err ErrAuditUnavailable), m)
      | Some record_audit \<Rightarrow>
          if mg_auditFailed m then (Some (run_err ErrAuditUnavailable), m)
          else (case consumeApproval fp approval now (mg_approvals m) of
             (Some e, t) \<Rightarrow> (Some e, m\<lparr>mg_approvals := t\<rparr>)
           | (None, t) \<Rightarrow>
               (let m1 = m\<lparr>mg_approvals := t\<rparr> in
                case pl_Impact p of
                  None \<Rightarrow> (Some (run_err ErrPolicyBlocked), m1)
                | Some im \<Rightarrow>
                    (case record_audit w (approved_event rid p im) (mg_audit m1) of
                       (True, a) \<Rightarrow> (None, m1\<lparr>mg_audit := a\<rparr>)
                     | (False, a) \<Rightarrow> (Some (run_err ErrAuditUnavailable), m1\<lparr>mg_audit := a, mg_auditFailed := True\<rparr>)))))"

definition register_run :: "('w, 'a) manager_config \<Rightarrow> string \<Rightarrow> plan \<Rightarrow> 'a manager \<Rightarrow> (run_error + run_snapshot) \<times> 'a manager" where
  "register_run cfg rid p m =
     (case makeRetentionRoom (mc_MaxRetained cfg) (mg_runs m) (mg_order m) of
        (Some e, runs, order) \<Rightarrow> (Inl e, m\<lparr>mg_runs := runs, mg_order := order\<rparr>)
      | (None, runs, order) \<Rightarrow>
          (Inr (record_snapshot (new_record rid p)),
           m\<lparr>mg_runs := AList.update rid (new_record rid p) runs, mg_order := order @ [rid],
             mg_active := mg_active m + 1\<rparr>))"

definition Start_commit ::
    "('w, 'a) manager_config \<Rightarrow> 'w \<Rightarrow> int \<Rightarrow> string \<Rightarrow> plan \<Rightarrow> string \<Rightarrow> approval_submission option \<Rightarrow> 'a manager
      \<Rightarrow> (run_error + run_snapshot) \<times> 'a manager" where
  "Start_commit cfg w now rid p fp approval m =
     (if manager_closed m then (Inl (run_err ErrClosed), m)
      else if mc_MaxActive cfg \<le> mg_active m then (Inl (run_err ErrCapacity), m)
      else if get (mg_runs m) rid \<noteq> None then (Inl Unexpected, m)
      else case authorise cfg w now rid p fp approval m of
        (Some e, m1) \<Rightarrow> (Inl e, m1)
      | (None, m1) \<Rightarrow> register_run cfg rid p m1)"

text \<open>
  \<open>Start\<close>: \<open>m\<close> is the state at the first lock, \<open>m'\<close> at the second. The last component is the plan
  that \<open>execute\<close> is started with.
\<close>

definition Start ::
    "('w, 'a) manager_config \<Rightarrow> backend \<Rightarrow> 'w \<Rightarrow> int \<Rightarrow> string option \<Rightarrow> run_request \<Rightarrow> 'a manager \<Rightarrow> 'a manager
      \<Rightarrow> (run_error + (run_snapshot \<times> plan)) \<times> 'a manager" where
  "Start cfg b w now newID req m m' =
     (case bindE (Start_check cfg m) (\<lambda>snap. bindE (build_request b snap req) (\<lambda>p.
             bindE (plan_fingerprint cfg b p) (\<lambda>fp. Inr (p, fp)))) of
        Inl e \<Rightarrow> (Inl e, m')
      | Inr (p, fp) \<Rightarrow>
          (case newID of
             None \<Rightarrow> (Inl Unexpected, m')
           | Some rid \<Rightarrow>
               if \<not> validRunID rid then (Inl Unexpected, m')
               else (case Start_commit cfg w now rid p fp (rn_Approval req) m' of
                  (Inl e, m2) \<Rightarrow> (Inl e, m2)
                | (Inr sn, m2) \<Rightarrow> (Inr (sn, p), m2))))"

subsection \<open>Recording events\<close>

definition collect_stdout :: "exec_event \<Rightarrow> run_record \<Rightarrow> run_record" where
  "collect_stdout e r =
     (if rr_structuredSpec r \<noteq> None \<and> ee_Type e = EventStdout \<and> ee_Data e \<noteq> [] \<and> \<not> rr_structuredTooLarge r
      then (if MaxInputBytes - length (rr_structuredStdout r) < length (ee_Data e)
            then r\<lparr>rr_structuredTooLarge := True, rr_structuredStdout := []\<rparr>
            else r\<lparr>rr_structuredStdout := rr_structuredStdout r @ ee_Data e\<rparr>)
      else r)"

definition event_charge :: "exec_event \<Rightarrow> int" where
  "event_charge e = (if ee_Data e = [] then 0 else int (length (ee_Data e)) + eventOverheadBytes)"

definition stored_event :: "nat \<Rightarrow> exec_event \<Rightarrow> run_event" where
  "stored_event n e =
     \<lparr>ev_Sequence = n, ev_Type = ee_Type e, ev_Timestamp = ee_Timestamp e,
      ev_DataBase64 = (if ee_Data e = [] then [] else encodeBase64 (ee_Data e)), ev_ExitCode = ee_ExitCode e\<rparr>"

definition append_event :: "exec_event \<Rightarrow> run_record \<Rightarrow> run_record" where
  "append_event e r =
     (let r1 = collect_stdout e r; n = rr_nextSeq r1 + 1 in
      r1\<lparr>rr_nextSeq := n, rr_events := rr_events r1 @ [stored_event n e],
         rr_eventBytes := rr_eventBytes r1 + event_charge e,
         rr_startedAt := (if ee_Type e = EventStarted \<and> rr_startedAt r1 = None then Some (ee_Timestamp e)
                          else rr_startedAt r1)\<rparr>)"

definition recordEvent ::
    "('w, 'a) manager_config \<Rightarrow> string \<Rightarrow> exec_event \<Rightarrow> 'a manager \<Rightarrow> record_error option \<times> 'a manager" where
  "recordEvent cfg rid e m =
     (case get (mg_runs m) rid of
        None \<Rightarrow> (Some RunInactive, m)
      | Some r \<Rightarrow>
          if finished r then (Some RunInactive, m)
          else if mc_MaxEventBytesPerRun cfg < rr_eventBytes r + event_charge e then (Some EventCapacity, m)
          else (None, m\<lparr>mg_runs := AList.update rid (append_event e r) (mg_runs m)\<rparr>))"

subsection \<open>Executing a run\<close>

definition executor_config :: "('w, 'a) manager_config \<Rightarrow> exec_config" where
  "executor_config cfg =
     \<lparr>ec_Timeout = mc_Timeout cfg, ec_WaitDelay = mc_WaitDelay cfg, ec_ChunkBytes = mc_ChunkBytes cfg,
      ec_MaxOutputBytesPerStream = mc_MaxOutputBytesPerStream cfg\<rparr>"

text \<open>The sink of a run: the manager, the quarantined standard output, and whether that overflowed.\<close>

type_synonym 'a run_sink = "'a manager \<times> string \<times> bool"

definition run_emit ::
    "('w, 'a) manager_config \<Rightarrow> string \<Rightarrow> bool \<Rightarrow> exec_event \<Rightarrow> 'a run_sink \<Rightarrow> record_error option \<times> 'a run_sink" where
  "run_emit cfg rid guarded e k =
     (let (m, held, over) = k; recorded = (let (r, m') = recordEvent cfg rid e m in (r, (m', held, over))) in
      if \<not> guarded \<or> ee_Type e = EventStarted then recorded
      else if ee_Type e = EventStdout then
        (if MaxInputBytes - length held < length (ee_Data e) then (None, (m, [], True))
         else if \<not> over then (None, (m, held @ ee_Data e, over))
         else (None, (m, held, over)))
      else (None, (m, held, over)))"

text \<open>The clocks after the process has ended, the parser's context and the audit sink's outcome.\<close>

record 'w end_env =
  xn_guardTime :: int
  xn_terminalTime :: int
  xn_failTime :: int
  xn_stop :: "nat \<Rightarrow> bool"
  xn_audit :: 'w

definition terminal_type :: "bool \<Rightarrow> exec_status \<Rightarrow> event_type" where
  "terminal_type ok st =
     (if \<not> ok then EventFailed
      else case st of ExecExited \<Rightarrow> EventExited | ExecCancelled \<Rightarrow> EventCancelled | ExecTimedOut \<Rightarrow> EventTimedOut
      | _ \<Rightarrow> EventFailed)"

text \<open>What follows the process of a guarded plan: the guard's verdict, then the terminal event.\<close>

definition guard_verdict ::
    "('w, 'a) manager_config \<Rightarrow> string \<Rightarrow> int \<Rightarrow> output_guard \<Rightarrow> bool \<Rightarrow> string \<Rightarrow> 'a manager \<Rightarrow> run_failure option \<times> 'a manager" where
  "guard_verdict cfg rid now guard over held m =
     (if over then (Some GuardTooLarge, m)
      else case guard held of
        Inl _ \<Rightarrow> (Some GuardRefused, m)
      | Inr approved \<Rightarrow>
          if approved = [] then (None, m)
          else (case recordEvent cfg rid \<lparr>ee_RunID = rid, ee_Type = EventStdout, ee_Timestamp = now,
                     ee_Data = approved, ee_ExitCode = None\<rparr> m of
                  (None, m') \<Rightarrow> (None, m')
                | (Some c, m') \<Rightarrow> (Some (FailedRecord c), m')))"

definition guarded_end ::
    "('w, 'a) manager_config \<Rightarrow> string \<Rightarrow> 'w end_env \<Rightarrow> output_guard \<Rightarrow> exec_result \<Rightarrow> run_failure option
      \<Rightarrow> 'a run_sink \<Rightarrow> run_failure option \<times> 'a manager" where
  "guarded_end cfg rid env guard res failed k =
     (let (m, held, over) = k;
          (f1, m1) = (if failed = None \<and> er_Status res = ExecExited \<and> er_ExitCode res = 0
                      then guard_verdict cfg rid (xn_guardTime env) guard over held m else (failed, m));
          ty = terminal_type (f1 = None) (er_Status res);
          (r, m2) = recordEvent cfg rid \<lparr>ee_RunID = rid, ee_Type = ty, ee_Timestamp = xn_terminalTime env, ee_Data = [],
                      ee_ExitCode = (if ty = EventExited then Some (er_ExitCode res) else None)\<rparr> m1
      in (case f1 of Some f \<Rightarrow> Some f | None \<Rightarrow> map_option FailedRecord r, m2))"

definition structured_value ::
    "(nat \<Rightarrow> bool) \<Rightarrow> exec_result \<Rightarrow> bool \<Rightarrow> run_record \<Rightarrow> structured_result option" where
  "structured_value stop res failed r =
     (case rr_structuredSpec r of
        None \<Rightarrow> None
      | Some spec \<Rightarrow> Some
          (let renderer = rr_structuredRenderer r in
           if failed then Unavailable renderer ErrExecutionFailed
           else if er_Status res = ExecCancelled then Unavailable renderer ErrRunCancelled
           else if er_Status res = ExecTimedOut then Unavailable renderer ErrRunTimedOut
           else if er_Status res \<noteq> ExecExited then Unavailable renderer ErrExecutionFailed
           else if er_ExitCode res \<noteq> 0 then Unavailable renderer ErrNonzeroExit
           else if rr_structuredTooLarge r then Invalid renderer ErrOutputTooLarge
           else Parse stop (rr_structuredStdout r) spec renderer))"

definition set_outcome :: "int \<Rightarrow> exec_result \<Rightarrow> run_failure option \<Rightarrow> run_record \<Rightarrow> run_record" where
  "set_outcome now res failed r =
     (case failed of
        Some f \<Rightarrow> r\<lparr>rr_status := StatusFailed, rr_failure := Some (classifyExecutionFailure f), rr_endedAt := Some now,
                    rr_exitCode := None\<rparr>
      | None \<Rightarrow> r\<lparr>rr_status := statusFromExecutor (er_Status res),
                rr_startedAt := (if er_StartedAt res \<noteq> 0 then Some (er_StartedAt res) else rr_startedAt r),
                rr_endedAt := (if er_EndedAt res \<noteq> 0 then Some (er_EndedAt res) else rr_endedAt r),
                rr_exitCode := (if er_Status res = ExecExited then Some (er_ExitCode res) else rr_exitCode r)\<rparr>)"

definition completed_event :: "run_record \<Rightarrow> audit_event" where
  "completed_event r =
     \<lparr>ae_RunID = rr_runID r, ae_Action = ''completed'', ae_PackID = [], ae_CommandID = [], ae_Risk = [],
      ae_TargetLabel = [], ae_Target = [], ae_Effect = [], ae_Scope = [],
      ae_Status = status_text (rr_status r), ae_ExitCode = rr_exitCode r\<rparr>"

definition audit_completion :: "('w, 'a) manager_config \<Rightarrow> 'w \<Rightarrow> run_record \<Rightarrow> 'a manager \<Rightarrow> 'a manager" where
  "audit_completion cfg w r m =
     (case mc_Audit cfg of
        None \<Rightarrow> m
      | Some record_audit \<Rightarrow>
          if \<not> rr_audited r then m
          else (case record_audit w (completed_event r) (mg_audit m) of
             (True, a) \<Rightarrow> m\<lparr>mg_audit := a\<rparr>
           | (False, a) \<Rightarrow> m\<lparr>mg_audit := a, mg_auditFailed := True\<rparr>))"

text \<open>The last critical section of \<open>execute\<close>: the run ends, once.\<close>

definition finish ::
    "('w, 'a) manager_config \<Rightarrow> string \<Rightarrow> 'w end_env \<Rightarrow> exec_result \<Rightarrow> run_failure option \<Rightarrow> 'a manager \<Rightarrow> 'a manager" where
  "finish cfg rid env res failed m =
     (case get (mg_runs m) rid of
        None \<Rightarrow> m
      | Some r \<Rightarrow>
          if finished r then m
          else (let parsed = structured_value (xn_stop env) res (failed \<noteq> None) r;
                    r1 = set_outcome (xn_failTime env) res failed r;
                    m1 = audit_completion cfg (xn_audit env) r1 (m\<lparr>mg_active := mg_active m - 1\<rparr>);
                    r2 = r1\<lparr>rr_structuredResult := parsed, rr_structuredSpec := None, rr_structuredRenderer := [],
                            rr_structuredStdout := [], rr_structuredTooLarge := False\<rparr>
                in m1\<lparr>mg_runs := AList.update rid r2 (mg_runs m)\<rparr>))"

text \<open>
  \<open>execute\<close> with no other operation in between; the step relation below lets others interleave.
  \<open>None\<close> would be a write loop that does not end.
\<close>

definition execute ::
    "('w, 'a) manager_config \<Rightarrow> backend \<Rightarrow> file_system \<Rightarrow> run_env \<Rightarrow> 'w end_env \<Rightarrow> string \<Rightarrow> plan \<Rightarrow> 'a manager
      \<Rightarrow> 'a manager option" where
  "execute cfg b fs env fin rid p m =
     (let guard = (case mc_OutputGuard cfg of None \<Rightarrow> None | Some f \<Rightarrow> f p) in
      case Run (ba_sha b) fs (ba_goos b) (executor_config cfg) (run_emit cfg rid (guard \<noteq> None))
             (env\<lparr>re_runID := Some rid\<rparr>) p (m, [], False) of
        None \<Rightarrow> None
      | Some ((res, err), k) \<Rightarrow>
          (let (failed, m1) = (case guard of
                 None \<Rightarrow> (map_option FailedExecution err, fst k)
               | Some g \<Rightarrow> guarded_end cfg rid fin g res (map_option FailedExecution err) k)
           in Some (finish cfg rid fin res failed m1)))"

subsection \<open>The other operations\<close>

definition Get :: "string \<Rightarrow> 'a manager \<Rightarrow> run_snapshot option" where
  "Get rid m = (if \<not> validRunID rid then None else map_option record_snapshot (get (mg_runs m) rid))"

definition runs_List :: "'a manager \<Rightarrow> run_summary list" where
  "runs_List m = List.map_filter (\<lambda>i. map_option record_summary (get (mg_runs m) i)) (rev (mg_order m))"

text \<open>One look of \<open>WaitEvents\<close> and of \<open>Wait\<close>; \<open>Inr None\<close> waits for a change.\<close>

definition WaitEvents :: "string \<Rightarrow> nat \<Rightarrow> 'a manager \<Rightarrow> run_error + event_batch option" where
  "WaitEvents rid after m =
     (if \<not> validRunID rid then Inl (run_err ErrNotFound)
      else case get (mg_runs m) rid of
        None \<Rightarrow> Inl (run_err ErrNotFound)
      | Some r \<Rightarrow>
          if rr_nextSeq r < after then Inl (run_err ErrInvalidCursor)
          else (let es = cloneEventsAfter (rr_events r) after; complete = finished r in
            if es \<noteq> [] \<or> complete
            then Inr (Some \<lparr>eb_RunID = rr_runID r, eb_Events = es, eb_Status = rr_status r, eb_ExitCode = rr_exitCode r,
                       eb_Structured = rr_structuredResult r, eb_Failure = rr_failure r, eb_Complete = complete\<rparr>)
            else Inr None))"

definition Wait :: "string \<Rightarrow> 'a manager \<Rightarrow> run_error + run_snapshot option" where
  "Wait rid m =
     (if \<not> validRunID rid then Inl (run_err ErrNotFound)
      else case get (mg_runs m) rid of
        None \<Rightarrow> Inl (run_err ErrNotFound)
      | Some r \<Rightarrow> Inr (if finished r then Some (record_snapshot r) else None))"

definition Cancel :: "string \<Rightarrow> 'a manager \<Rightarrow> run_error option \<times> 'a manager" where
  "Cancel rid m =
     (if \<not> validRunID rid then (Some (run_err ErrNotFound), m)
      else case get (mg_runs m) rid of
        None \<Rightarrow> (Some (run_err ErrNotFound), m)
      | Some r \<Rightarrow> if finished r then (None, m)
                  else (None, m\<lparr>mg_runs := AList.update rid (r\<lparr>rr_cancelled := True\<rparr>) (mg_runs m)\<rparr>))"

text \<open>\<open>Shutdown\<close> up to the wait for the active runs; it is over when none is active.\<close>

definition Shutdown :: "'a manager \<Rightarrow> 'a manager" where
  "Shutdown m = m\<lparr>mg_closed := True, mg_ctxDone := mg_ctxDone m \<or> \<not> mg_closed m, mg_approvals := []\<rparr>"

definition shutdown_complete :: "'a manager \<Rightarrow> bool" where
  "shutdown_complete m \<longleftrightarrow> mg_closed m \<and> mg_active m = 0"

subsection \<open>Steps\<close>

text \<open>
  Every critical section that changes the state, for any arguments the operations can be called
  with; a commit uses a plan built from whatever discovery snapshot its first section read.
\<close>

inductive step :: "('w, 'a) manager_config \<Rightarrow> backend \<Rightarrow> 'a manager \<Rightarrow> 'a manager \<Rightarrow> bool"
  for cfg :: "('w, 'a) manager_config" and b :: backend where
  preview: "Preview cfg b now newID req m0 m = (r, m') \<Longrightarrow> step cfg b m m'"
| commit: "build_request b snap req = Inr p \<Longrightarrow> plan_fingerprint cfg b p = Inr fp \<Longrightarrow> validRunID rid
    \<Longrightarrow> Start_commit cfg w now rid p fp approval m = (r, m') \<Longrightarrow> step cfg b m m'"
| event: "recordEvent cfg rid e m = (r, m') \<Longrightarrow> step cfg b m m'"
| ended: "step cfg b m (finish cfg rid env res failed m)"
| cancel: "Cancel rid m = (r, m') \<Longrightarrow> step cfg b m m'"
| activate: "ActivateTool (ba_sha b) fs st m = (r, m') \<Longrightarrow> step cfg b m m'"
| shutdown: "step cfg b m (Shutdown m)"
| context_done: "step cfg b m (m\<lparr>mg_ctxDone := True\<rparr>)"

inductive steps :: "('w, 'a) manager_config \<Rightarrow> backend \<Rightarrow> 'a manager \<Rightarrow> 'a manager \<Rightarrow> bool"
  for cfg :: "('w, 'a) manager_config" and b :: backend where
  steps_none: "steps cfg b m m"
| steps_more: "steps cfg b m m1 \<Longrightarrow> step cfg b m1 m2 \<Longrightarrow> steps cfg b m m2"

end
