(* ===== verification/StateRemoval.thy ===== *)
theory StateRemoval
  imports TerraformState RunManager
begin

section \<open>Guarded state removal (internal/platforms/terraform/state\_removal.go)\<close>

text \<open>
  A preview runs Terraform's dry run against one reading of a state file and leaves a one-use,
  short-lived record; the execution consumes it and lets Terraform change the file only after
  the checks, an audit record and a verified backup. An operation answers with what the code
  returns and with the effects it had, in order. The slot admits one operation at a time, so an
  operation is one step; what the world answers in the meantime is its environment.
\<close>

datatype removal_error = RemovalInvalid | RemovalStale | RemovalBusy | RemovalUnavailable
  | RemovalToolChanged | RemovalRejected | RemovalAudit

record removal_preview =
  rp_projectID :: string
  rp_stateID :: string
  rp_stateName :: string
  rp_rootPath :: string
  rp_addresses :: "string list"
  rp_digest :: string
  rp_identity :: file_info
  rp_serial :: int
  rp_lineage :: string
  rp_toolPath :: string
  rp_toolHash :: string
  rp_expires :: int

text \<open>The sink is \<open>None\<close> until \<open>SetAudit\<close> wires it; \<open>'w\<close> is the outcome of one append, as for the run manager.\<close>

record ('w, 'a) tf_platform =
  tp_roots :: "approved_root list"
  tp_tool :: tool_state
  tp_slotTaken :: bool
  tp_previews :: "removal_preview dict"
  tp_audit :: "('w \<Rightarrow> audit_event \<Rightarrow> 'a \<Rightarrow> bool \<times> 'a) option"

datatype removal_effect =
    Launched launch
  | Audited audit_event bool
  | BackedUp string string

definition removalPreviewTTL :: int where "removalPreviewTTL = 300 * second"
definition maxPendingRemovals :: nat where "maxPendingRemovals = 8"

definition removal_probe_config :: probe_config where
  "removal_probe_config = \<lparr>pcf_Timeout = 10 * second, pcf_MaxOutputBytes = 65536, pcf_Input = None,
     pcf_ExtraEnv = [''CHECKPOINT_DISABLE=1'', ''TF_IN_AUTOMATION=1'', ''TF_INPUT=0'']\<rparr>"

definition SetAudit :: "('w \<Rightarrow> audit_event \<Rightarrow> 'a \<Rightarrow> bool \<times> 'a) option \<Rightarrow> ('w, 'a) tf_platform \<Rightarrow> ('w, 'a) tf_platform" where
  "SetAudit sink p = p\<lparr>tp_audit := sink\<rparr>"

definition tf_ActivateTool :: "tool_state \<Rightarrow> ('w, 'a) tf_platform \<Rightarrow> ('w, 'a) tf_platform" where
  "tf_ActivateTool st p =
     (if ts_PackID st \<noteq> ''terraform-cli'' \<or> ts_ToolID st \<noteq> ''terraform'' then p else p\<lparr>tp_tool := st\<rparr>)"

definition tf_TaskAvailable :: "string \<Rightarrow> string \<Rightarrow> bool" where
  "tf_TaskAvailable packID commandID \<longleftrightarrow> packID = ''terraform-cli''
     \<and> commandID \<in> set [''version'', ''command-reference'', ''provider-reference'', ''formatting-reference'',
         ''workflow-reference'']"

definition readyTool :: "(string \<Rightarrow> string) \<Rightarrow> file_system \<Rightarrow> tool_state \<Rightarrow> removal_error option" where
  "readyTool sha fs st =
     (if ts_Status st \<noteq> StatusReady \<or> \<not> identity_Valid (ts_Identity st) \<or> ts_Path st = [] then Some RemovalUnavailable
      else if \<not> identity_Matches sha fs (ts_Identity st) (ts_Path st) then Some RemovalToolChanged else None)"

subsection \<open>Addresses and the command line\<close>

definition normalizedAddresses :: "string list \<Rightarrow> string list option" where
  "normalizedAddresses as =
     (let sorted = sort as in
      if as = [] \<or> 50 < length as then None
      else if \<exists>a \<in> set sorted. a = [] \<or> has_prefix ''-'' a then None
      else if \<not> distinct sorted then None
      else Some sorted)"

definition stateRemovalArgs :: "string \<Rightarrow> string \<Rightarrow> bool \<Rightarrow> string list \<Rightarrow> string list" where
  "stateRemovalArgs statePath backupPath dryRun as =
     [''state'', ''rm''] @ (if dryRun then [''-dry-run''] else [''-backup='' @ backupPath])
     @ [''-lock=true'', ''-lock-timeout=0s'', ''-state='' @ statePath, ''--''] @ as"

text \<open>Deleting the colour codes, and the lines of \<open>bufio.Scanner\<close>, which stops at a line of 64 KiB.\<close>

definition ansiEscape :: re where
  "ansiEscape = cats [Chr (CHR 0x1B), Chr (CHR ''[''), Star (Cls (\<lambda>c. is_digit c \<or> c = CHR '';'')),
     Cls (\<lambda>c. (65 \<le> byte c \<and> byte c \<le> 90) \<or> (97 \<le> byte c \<and> byte c \<le> 122))]"

function strip_matches :: "re \<Rightarrow> char option \<Rightarrow> string \<Rightarrow> string" where
  "strip_matches r pc s =
     (case find_from r pc s of
        None \<Rightarrow> s
      | Some (p, q) \<Rightarrow>
          if length (snd q) < length s
          then take (length s - length (snd p)) s @ strip_matches r (fst q) (snd q)
          else s)"
  by pat_completeness auto
termination
  by (relation "measure (\<lambda>(r, pc, s). length s)") auto

declare strip_matches.simps [simp del]

definition scan_lines :: "string \<Rightarrow> string list" where
  "scan_lines s =
     (let parts = split_at (CHR 0x0A) s; lines = (if last parts = [] then butlast parts else parts)
      in takeWhile (\<lambda>l. length l < 65536) lines)"

definition trim_cr :: "string \<Rightarrow> string" where
  "trim_cr l = rev (dropWhile (\<lambda>c. c = CHR 0x0D) (rev l))"

definition reportedAddresses :: "string \<Rightarrow> string \<Rightarrow> string list" where
  "reportedAddresses stdout prefix =
     sort (List.map_filter (\<lambda>l. let t = trim_cr l in if has_prefix prefix t then Some (drop (length prefix) t) else None)
       (scan_lines (strip_matches ansiEscape None stdout)))"

subsection \<open>Preview\<close>

text \<open>\<open>base64.RawURLEncoding\<close>: the standard text with two other digits and no padding.\<close>

definition encodeRawURL :: "string \<Rightarrow> string" where
  "encodeRawURL s =
     map (\<lambda>c. if c = CHR ''+'' then CHR ''-'' else if c = CHR ''/'' then CHR ''_'' else c)
       (filter (\<lambda>c. c \<noteq> CHR ''='') (encodeBase64 s))"

definition previewKey :: "(string \<Rightarrow> string) \<Rightarrow> string \<Rightarrow> string" where
  "previewKey sha token = sha token"

text \<open>The oldest preview in the order the map yields them; the loop makes room for one more.\<close>

definition oldest_preview :: "removal_preview dict \<Rightarrow> string" where
  "oldest_preview t =
     (case t of
        [] \<Rightarrow> []
      | e # es \<Rightarrow> fst (foldl (\<lambda>(k, x) (j, r). if rp_expires r < x then (j, rp_expires r) else (k, x))
                    (fst e, rp_expires (snd e)) es))"

lemma oldest_preview_mem: "t \<noteq> [] \<Longrightarrow> oldest_preview t \<in> fst ` set t"
proof -
  have "fst (foldl (\<lambda>(k, x) (j, r). if rp_expires r < x then (j, rp_expires r) else (k, x)) (k, x) es)
      \<in> insert k (fst ` set es)" for k x and es :: "removal_preview dict"
    by (induction es arbitrary: k x) fastforce+
  then show "t \<noteq> [] \<Longrightarrow> oldest_preview t \<in> fst ` set t"
    by (cases t) (auto simp: oldest_preview_def)
qed

lemma length_delete_mem: "k \<in> fst ` set t \<Longrightarrow> length (AList.delete k t) < length t"
  by (induction t) (auto simp: AList.delete_eq intro: le_less_trans [OF length_filter_le])

function evict_previews :: "removal_preview dict \<Rightarrow> removal_preview dict" where
  "evict_previews t =
     (if maxPendingRemovals \<le> length t then evict_previews (AList.delete (oldest_preview t) t) else t)"
  by pat_completeness auto
termination
proof (relation "measure length", goal_cases)
  case (2 t)
  then have "t \<noteq> []" by (auto simp: maxPendingRemovals_def)
  then show ?case by (simp add: length_delete_mem oldest_preview_mem)
qed simp

declare evict_previews.simps [simp del]

definition store_preview ::
    "int \<Rightarrow> string \<Rightarrow> removal_preview \<Rightarrow> removal_preview dict \<Rightarrow> removal_preview dict" where
  "store_preview now key pv t =
     AList.update key pv (evict_previews (filter (\<lambda>(k, r). now < rp_expires r) t))"

record preview_request =
  prr_ProjectID :: string
  prr_StateID :: string
  prr_Addresses :: "string list"

text \<open>What the world answers during a preview, in the order of the calls.\<close>

record preview_env =
  pve_root :: root_obs
  pve_fs :: file_system
  pve_dir :: root_obs
  pve_state :: state_obs
  pve_probe :: probe_os
  pve_fs2 :: file_system
  pve_state2 :: state_obs
  pve_token :: "string option"
  pve_now :: int

record preview_answer =
  pa_PreviewID :: string
  pa_ProjectID :: string
  pa_StateID :: string
  pa_StateName :: string
  pa_Addresses :: "string list"
  pa_Serial :: int
  pa_TerraformVersion :: string
  pa_ExpiresAt :: int

text \<open>The dry run is accepted only if it ended well and named exactly the requested addresses.\<close>

definition dry_run_ok :: "probe_result \<Rightarrow> probe_error option \<Rightarrow> string list \<Rightarrow> bool" where
  "dry_run_ok res err as \<longleftrightarrow> err = None \<and> prs_ExitCode res = 0 \<and> \<not> prs_TimedOut res \<and> \<not> prs_Cancelled res
     \<and> \<not> prs_Truncated res \<and> reportedAddresses (prs_Stdout res) ''Would remove '' = as"

definition launched :: "launch option \<Rightarrow> removal_effect list" where
  "launched l = (case l of None \<Rightarrow> [] | Some ln \<Rightarrow> [Launched ln])"

definition new_preview ::
    "(string \<Rightarrow> string) \<Rightarrow> preview_request \<Rightarrow> approved_root \<Rightarrow> string \<Rightarrow> tool_state \<Rightarrow> string list \<Rightarrow> string \<Rightarrow> file_info
      \<Rightarrow> inventory \<Rightarrow> int \<Rightarrow> removal_preview" where
  "new_preview sha req r name tl0 as payload i v now =
     \<lparr>rp_projectID = prr_ProjectID req, rp_stateID = prr_StateID req, rp_stateName = name, rp_rootPath = ar_path r,
      rp_addresses = as, rp_digest = sha payload, rp_identity = i, rp_serial = inv_serial v, rp_lineage = inv_lineage v,
      rp_toolPath = ts_Path tl0, rp_toolHash = ei_Digest (ts_Identity tl0), rp_expires = now + removalPreviewTTL\<rparr>"

text \<open>After the dry run: the tool and the file must be as before, then the preview is minted.\<close>

definition preview_finish ::
    "(string \<Rightarrow> string) \<Rightarrow> preview_env \<Rightarrow> preview_request \<Rightarrow> approved_root \<Rightarrow> string \<Rightarrow> string list \<Rightarrow> string \<Rightarrow> file_info
      \<Rightarrow> inventory \<Rightarrow> probe_result \<Rightarrow> probe_error option \<Rightarrow> ('w, 'a) tf_platform
      \<Rightarrow> (removal_error + preview_answer) \<times> ('w, 'a) tf_platform" where
  "preview_finish sha env req r name as payload i v res err p =
     (let tl0 = tp_tool p in
      if \<not> identity_Matches sha (pve_fs2 env) (ts_Identity tl0) (ts_Path tl0) then (Inl RemovalToolChanged, p)
      else if \<not> dry_run_ok res err as then (Inl RemovalRejected, p)
      else case readStateFile (pve_state2 env) of
        None \<Rightarrow> (Inl RemovalStale, p)
      | Some (after, j) \<Rightarrow>
          if \<not> sameSnapshotIdentity i j \<or> sha after \<noteq> sha payload then (Inl RemovalStale, p)
          else (case pve_token env of
             None \<Rightarrow> (Inl RemovalUnavailable, p)
           | Some token \<Rightarrow>
               let pid = encodeRawURL token; pv = new_preview sha req r name tl0 as payload i v (pve_now env)
               in (Inr \<lparr>pa_PreviewID = pid, pa_ProjectID = prr_ProjectID req, pa_StateID = prr_StateID req,
                        pa_StateName = name, pa_Addresses = as, pa_Serial = inv_serial v,
                        pa_TerraformVersion = ts_Version tl0, pa_ExpiresAt = rp_expires pv\<rparr>,
                   p\<lparr>tp_previews := store_preview (pve_now env) (previewKey sha pid) pv (tp_previews p)\<rparr>)))"

definition PreviewStateRemoval ::
    "(string \<Rightarrow> string) \<Rightarrow> preview_env \<Rightarrow> preview_request \<Rightarrow> ('w, 'a) tf_platform
      \<Rightarrow> ((removal_error + preview_answer) \<times> removal_effect list) \<times> ('w, 'a) tf_platform" where
  "PreviewStateRemoval sha env req p =
     (case normalizedAddresses (prr_Addresses req) of
        None \<Rightarrow> ((Inl RemovalInvalid, []), p)
      | Some as \<Rightarrow>
      if tp_slotTaken p then ((Inl RemovalBusy, []), p)
      else case selectState sha (tp_roots p) (pve_root env) (prr_ProjectID req) (prr_StateID req) of
        None \<Rightarrow> ((Inl RemovalStale, []), p)
      | Some (r, name) \<Rightarrow>
      (case readyTool sha (pve_fs env) (tp_tool p) of
        Some e \<Rightarrow> ((Inl e, []), p)
      | None \<Rightarrow>
      if \<not> openApprovedRoot r (pve_dir env) then ((Inl RemovalStale, []), p)
      else case readStateFile (pve_state env) of
        None \<Rightarrow> ((Inl RemovalStale, []), p)
      | Some (payload, i) \<Rightarrow>
      (case parseInventory payload of
        None \<Rightarrow> ((Inl RemovalStale, []), p)
      | Some v \<Rightarrow>
      if inv_serial v < 0 \<or> inv_lineage v = [] then ((Inl RemovalStale, []), p)
      else if \<not> set as \<subseteq> set (inv_addresses v) then ((Inl RemovalInvalid, []), p)
      else let (l, res, err) = RunReadOnlyProbe (pve_probe env) (ts_Path (tp_tool p))
                 (stateRemovalArgs (path_join (ar_path r) name) [] True as) removal_probe_config;
               (answer, p') = preview_finish sha env req r name as payload i v res err p
           in ((answer, launched l), p'))))"

subsection \<open>Execution\<close>

text \<open>\<open>consumePreview\<close>: the record is gone whatever comes of it.\<close>

definition consumePreview ::
    "(string \<Rightarrow> string) \<Rightarrow> int \<Rightarrow> string \<Rightarrow> removal_preview dict \<Rightarrow> removal_preview option \<times> removal_preview dict" where
  "consumePreview sha now pid t =
     (let key = previewKey sha pid; t' = AList.delete key t in
      case get t key of
        None \<Rightarrow> (None, t')
      | Some pv \<Rightarrow> (if now < rp_expires pv then Some pv else None, t'))"

record execute_request =
  xrr_PreviewID :: string
  xrr_Confirm :: string

record backup_obs =
  bo_created :: bool
  bo_written :: bool
  bo_synced :: bool
  bo_closed :: bool
  bo_reread :: state_obs

record 'w execute_env =
  exe_now :: int
  exe_root :: root_obs
  exe_fs :: file_system
  exe_dir :: root_obs
  exe_state :: state_obs
  exe_runID :: "string option"
  exe_approval :: 'w
  exe_stamp :: string
  exe_suffix :: "string option"
  exe_backup :: backup_obs
  exe_state2 :: state_obs
  exe_fs2 :: file_system
  exe_probe :: probe_os
  exe_completedAt :: string
  exe_state3 :: state_obs
  exe_completion :: 'w
  exe_backupSeen :: bool
  exe_tfBackup :: state_obs
  exe_root2 :: root_obs

datatype removal_outcome = OutcomeRemoved | OutcomeUnverified

record removal_result =
  rvr_Outcome :: removal_outcome
  rvr_ProjectID :: string
  rvr_StateID :: string
  rvr_StateName :: string
  rvr_Removed :: "string list"
  rvr_Serial :: int
  rvr_Backup :: string
  rvr_TerraformBackup :: string
  rvr_Problem :: string
  rvr_CompletedAt :: string

definition removalAuditApproval :: "string \<Rightarrow> approved_root \<Rightarrow> string \<Rightarrow> string list \<Rightarrow> audit_event" where
  "removalAuditApproval runID r name as =
     (let joined = join_comma as; n = show_nat (length as);
          target = (if 2000 < length joined then n @ '' resource instances'' else joined);
          label = path_base (ar_path r) @ ''/'' @ name
      in \<lparr>ae_RunID = runID, ae_Action = ''approved'', ae_PackID = ''terraform-cli'', ae_CommandID = ''state-rm'',
          ae_Risk = ''destructive'', ae_TargetLabel = (if 512 < length label then name else label),
          ae_Target = target,
          ae_Effect = ''Forget '' @ n
            @ '' resource instance(s) from local Terraform state. Real infrastructure is not destroyed.'',
          ae_Scope = (if 1 < length as then ''multiple'' else ''single''), ae_Status = [], ae_ExitCode = None\<rparr>)"

definition removal_completion :: "string \<Rightarrow> string \<Rightarrow> int option \<Rightarrow> audit_event" where
  "removal_completion runID status code =
     \<lparr>ae_RunID = runID, ae_Action = ''completed'', ae_PackID = [], ae_CommandID = [], ae_Risk = [],
      ae_TargetLabel = [], ae_Target = [], ae_Effect = [], ae_Scope = [], ae_Status = status, ae_ExitCode = code\<rparr>"

definition writeVerifiedBackup :: "(string \<Rightarrow> string) \<Rightarrow> backup_obs \<Rightarrow> string \<Rightarrow> string option" where
  "writeVerifiedBackup sha b digest =
     (if \<not> bo_created b \<or> \<not> bo_written b \<or> \<not> bo_synced b \<or> \<not> bo_closed b then None
      else case readStateFile (bo_reread b) of
        None \<Rightarrow> None
      | Some (bytes, _) \<Rightarrow> if sha bytes \<noteq> digest then None else Some bytes)"

text \<open>\<open>verifyRemoval\<close>: empty only when nothing is wrong; which of two problems the map's order reports is left open by it.\<close>

definition backup_problem :: string where
  "backup_problem = ''Terraform's backup does not match the previewed snapshot, so another writer may have changed the state.''"

definition verifyRemoval ::
    "inventory \<Rightarrow> removal_preview \<Rightarrow> string option \<Rightarrow> string option \<Rightarrow> string" where
  "verifyRemoval before pv afterPayload backupPayload =
     (case afterPayload of
        None \<Rightarrow> ''The state file could not be re-read after removal.''
      | Some payload \<Rightarrow>
      (case parseInventory payload of
        None \<Rightarrow> ''The new state file could not be parsed.''
      | Some after \<Rightarrow>
      if inv_lineage after \<noteq> inv_lineage before \<or> inv_serial after \<le> inv_serial before
      then ''The new state has an unexpected lineage or serial.''
      else let removed = set (rp_addresses pv); kept = filter (\<lambda>a. a \<notin> removed) (inv_addresses before) in
      if \<exists>a \<in> set (inv_addresses before). a \<in> removed \<and> a \<in> set (inv_addresses after)
      then ''A previewed address is still present in the state.''
      else if \<not> set kept \<subseteq> set (inv_addresses after)
      then ''An address that was not previewed is missing from the new state.''
      else if length (inv_addresses after) \<noteq> length kept
      then ''The new state contains addresses that were not in the previewed snapshot.''
      else case backupPayload of
        None \<Rightarrow> ''Terraform's backup is missing, so CLIHarbor cannot prove which state it changed.''
      | Some bytes \<Rightarrow>
      (case parseInventory bytes of
        None \<Rightarrow> backup_problem
      | Some backup \<Rightarrow>
          if inv_lineage backup \<noteq> inv_lineage before \<or> inv_serial backup \<noteq> inv_serial before
            \<or> length (inv_addresses backup) \<noteq> length (inv_addresses before)
            \<or> \<not> set (inv_addresses before) \<subseteq> set (inv_addresses backup)
          then backup_problem else [])))"

text \<open>Appending to the sink: the effect and the sink's new state.\<close>

definition audit_append ::
    "('w \<Rightarrow> audit_event \<Rightarrow> 'a \<Rightarrow> bool \<times> 'a) \<Rightarrow> 'w \<Rightarrow> audit_event \<Rightarrow> 'a \<Rightarrow> bool \<times> removal_effect \<times> 'a" where
  "audit_append sink w ev a = (let (ok, a') = sink w ev a in (ok, Audited ev ok, a'))"

text \<open>The part after Terraform was started: what it left behind decides what is answered.\<close>

definition probe_status :: "probe_result \<Rightarrow> probe_error option \<Rightarrow> string" where
  "probe_status res err = (if err \<noteq> None then ''failed'' else if prs_TimedOut res then ''timed-out''
     else if prs_Cancelled res then ''cancelled'' else ''exited'')"

definition removal_verdict ::
    "(string \<Rightarrow> string) \<Rightarrow> 'w execute_env \<Rightarrow> approved_root list \<Rightarrow> string \<Rightarrow> inventory \<Rightarrow> removal_preview \<Rightarrow> string \<Rightarrow> string
      \<Rightarrow> probe_result \<Rightarrow> probe_error option \<Rightarrow> removal_error + removal_result" where
  "removal_verdict sha env roots name before pv backupName tfBackupName res err =
     (let outcome = \<lparr>rvr_Outcome = OutcomeUnverified, rvr_ProjectID = rp_projectID pv, rvr_StateID = rp_stateID pv,
            rvr_StateName = name, rvr_Removed = [], rvr_Serial = inv_serial before, rvr_Backup = backupName,
            rvr_TerraformBackup = [], rvr_Problem = [], rvr_CompletedAt = exe_completedAt env\<rparr>;
          afterPayload = map_option fst (readStateFile (exe_state3 env));
          unchanged = (case afterPayload of None \<Rightarrow> False | Some a \<Rightarrow> sha a = rp_digest pv) in
      if probe_status res err \<noteq> ''exited'' \<or> prs_ExitCode res \<noteq> 0 then
        (if unchanged then Inl RemovalRejected
         else Inr (outcome\<lparr>rvr_Problem := ''Terraform did not finish cleanly and the state file changed. Compare it with the backups before doing anything else.''\<rparr>))
      else let outcome1 = (if exe_backupSeen env then outcome\<lparr>rvr_TerraformBackup := tfBackupName\<rparr> else outcome);
             problem0 = verifyRemoval before pv afterPayload (map_option fst (readStateFile (exe_tfBackup env)));
             problem = (if platform_root roots (exe_root2 env) (rp_projectID pv) = None
                        then ''The approved project directory changed during removal.'' else problem0);
             serial = (case afterPayload of None \<Rightarrow> inv_serial before
               | Some a \<Rightarrow> (case parseInventory a of None \<Rightarrow> inv_serial before | Some v \<Rightarrow> inv_serial v))
        in if problem \<noteq> [] then Inr (outcome1\<lparr>rvr_Problem := problem, rvr_Serial := serial\<rparr>)
           else Inr (outcome1\<lparr>rvr_Outcome := OutcomeRemoved, rvr_Removed := rp_addresses pv, rvr_Serial := serial\<rparr>))"

definition backup_names :: "string \<Rightarrow> string \<Rightarrow> string \<Rightarrow> string \<times> string" where
  "backup_names name stamp suffix =
     (name @ ''.cliharbor-'' @ stamp @ ''-'' @ suffix @ ''.backup'',
      name @ ''.terraform-'' @ stamp @ ''-'' @ suffix @ ''.backup'')"

text \<open>From the audit record on: backup, last look at the file and the tool, Terraform.\<close>

definition removal_run ::
    "(string \<Rightarrow> string) \<Rightarrow> 'w execute_env \<Rightarrow> ('w \<Rightarrow> audit_event \<Rightarrow> 'a \<Rightarrow> bool \<times> 'a) \<Rightarrow> approved_root list \<Rightarrow> tool_state
      \<Rightarrow> removal_preview \<Rightarrow> approved_root \<Rightarrow> string \<Rightarrow> file_info \<Rightarrow> inventory \<Rightarrow> string \<Rightarrow> 'a
      \<Rightarrow> ((removal_error + removal_result) \<times> removal_effect list) \<times> 'a" where
  "removal_run sha env sink roots tl0 pv r name i before runID a =
     (let complete = (\<lambda>status code. audit_append sink (exe_completion env) (removal_completion runID status code) a);
          aborted = (\<lambda>e effs. let (_, eff, a') = complete ''failed'' None in ((Inl e, effs @ [eff]), a')) in
      case exe_suffix env of
        None \<Rightarrow> aborted RemovalUnavailable []
      | Some suffix \<Rightarrow>
      let (backupName, tfBackupName) = backup_names name (exe_stamp env) suffix in
      (case writeVerifiedBackup sha (exe_backup env) (rp_digest pv) of
        None \<Rightarrow> aborted RemovalRejected []
      | Some bytes \<Rightarrow>
      if (case readStateFile (exe_state2 env) of None \<Rightarrow> True | Some (_, j) \<Rightarrow> \<not> sameSnapshotIdentity i j)
        \<or> \<not> identity_Matches sha (exe_fs2 env) (ts_Identity tl0) (ts_Path tl0)
      then aborted RemovalStale [BackedUp backupName bytes]
      else let (l, res, err) = RunReadOnlyProbe (exe_probe env) (ts_Path tl0)
                 (stateRemovalArgs (path_join (ar_path r) name) (path_join (ar_path r) tfBackupName) False (rp_addresses pv))
                 removal_probe_config;
               status = probe_status res err;
               (_, eff, a') = complete status (if status = ''exited'' then Some (prs_ExitCode res) else None)
           in ((removal_verdict sha env roots name before pv backupName tfBackupName res err,
                BackedUp backupName bytes # launched l @ [eff]), a')))"

definition ExecuteStateRemoval ::
    "(string \<Rightarrow> string) \<Rightarrow> 'w execute_env \<Rightarrow> execute_request \<Rightarrow> ('w, 'a) tf_platform \<Rightarrow> 'a
      \<Rightarrow> ((removal_error + removal_result) \<times> removal_effect list) \<times> ('w, 'a) tf_platform \<times> 'a" where
  "ExecuteStateRemoval sha env req p a =
     (if tp_slotTaken p then ((Inl RemovalBusy, []), p, a)
      else let (pv0, t') = consumePreview sha (exe_now env) (xrr_PreviewID req) (tp_previews p);
             p' = p\<lparr>tp_previews := t'\<rparr>; refuse = (\<lambda>e. ((Inl e, []), p', a)) in
      case pv0 of
        None \<Rightarrow> refuse RemovalStale
      | Some pv \<Rightarrow>
      if xrr_Confirm req \<noteq> rp_stateName pv then refuse RemovalInvalid
      else case tp_audit p of
        None \<Rightarrow> refuse RemovalAudit
      | Some sink \<Rightarrow>
      (case selectState sha (tp_roots p) (exe_root env) (rp_projectID pv) (rp_stateID pv) of
        None \<Rightarrow> refuse RemovalStale
      | Some (r, name) \<Rightarrow>
      if name \<noteq> rp_stateName pv \<or> ar_path r \<noteq> rp_rootPath pv then refuse RemovalStale
      else case readyTool sha (exe_fs env) (tp_tool p) of
        Some e \<Rightarrow> refuse e
      | None \<Rightarrow>
      if ts_Path (tp_tool p) \<noteq> rp_toolPath pv \<or> ei_Digest (ts_Identity (tp_tool p)) \<noteq> rp_toolHash pv
      then refuse RemovalToolChanged
      else if \<not> openApprovedRoot r (exe_dir env) then refuse RemovalStale
      else case readStateFile (exe_state env) of
        None \<Rightarrow> refuse RemovalStale
      | Some (payload, i) \<Rightarrow>
      if \<not> sameSnapshotIdentity (rp_identity pv) i \<or> sha payload \<noteq> rp_digest pv then refuse RemovalStale
      else case parseInventory payload of
        None \<Rightarrow> refuse RemovalStale
      | Some before \<Rightarrow>
      (case exe_runID env of
        None \<Rightarrow> refuse RemovalUnavailable
      | Some runID \<Rightarrow>
          let (ok, eff, a1) = audit_append sink (exe_approval env) (removalAuditApproval runID r name (rp_addresses pv)) a in
          if \<not> ok then ((Inl RemovalAudit, [eff]), p', a1)
          else let ((answer, effs), a2) = removal_run sha env sink (tp_roots p) (tp_tool p) pv r name i before runID a1
               in ((answer, eff # effs), p', a2))))"

end
