(* ===== verification/RemovalSafety.thy ===== *)
theory RemovalSafety
  imports StateRemoval
begin

section \<open>What state removal guarantees\<close>

text \<open>
  The order of an execution's effects, what an answer says about the state file, and the life
  of a preview, over the operations of \<open>StateRemoval\<close>.
\<close>

subsection \<open>Addresses and previews\<close>

lemma normalizedAddresses_Some:
  assumes "normalizedAddresses as = Some ns"
  shows "sorted ns" "distinct ns" "set ns = set as" "ns \<noteq> []" "length ns \<le> 50"
    "\<forall>a \<in> set ns. a \<noteq> [] \<and> \<not> has_prefix ''-'' a"
proof -
  have "ns = sort as" "as \<noteq> []" "length as \<le> 50" "distinct (sort as)" "\<forall>a \<in> set as. a \<noteq> [] \<and> \<not> has_prefix ''-'' a"
    using assms unfolding normalizedAddresses_def Let_def
    by (simp_all only: split: if_split_asm) auto
  then show "sorted ns" "distinct ns" "set ns = set as" "ns \<noteq> []" "length ns \<le> 50"
    "\<forall>a \<in> set ns. a \<noteq> [] \<and> \<not> has_prefix ''-'' a"
    by (simp_all, metis length_0_conv length_sort)
qed

text \<open>A stored preview names addresses of a state whose digest it pins.\<close>

definition preview_ok :: "(string \<Rightarrow> string) \<Rightarrow> removal_preview \<Rightarrow> bool" where
  "preview_ok sha pv \<longleftrightarrow> rp_addresses pv \<noteq> [] \<and> length (rp_addresses pv) \<le> 50 \<and> distinct (rp_addresses pv)
     \<and> (\<forall>a \<in> set (rp_addresses pv). a \<noteq> [] \<and> \<not> has_prefix ''-'' a)
     \<and> (\<exists>payload v. sha payload = rp_digest pv \<and> parseInventory payload = Some v
          \<and> set (rp_addresses pv) \<subseteq> set (inv_addresses v))"

definition previews_ok :: "(string \<Rightarrow> string) \<Rightarrow> removal_preview dict \<Rightarrow> bool" where
  "previews_ok sha t \<longleftrightarrow> well_keyed t \<and> length t \<le> maxPendingRemovals
     \<and> (\<forall>k pv. get t k = Some pv \<longrightarrow> preview_ok sha pv)"

lemma previews_ok_empty [simp]: "previews_ok sha []"
  by (simp add: previews_ok_def)

lemma evict_previews_props:
  "well_keyed t \<Longrightarrow> well_keyed (evict_previews t) \<and> length (evict_previews t) < maxPendingRemovals
     \<and> (\<forall>k pv. get (evict_previews t) k = Some pv \<longrightarrow> get t k = Some pv)"
proof (induction t rule: evict_previews.induct)
  case (1 t)
  show ?case
  proof (cases "maxPendingRemovals \<le> length t")
    case True
    then have eq: "evict_previews t = evict_previews (AList.delete (oldest_preview t) t)"
      by (simp add: evict_previews.simps [of t])
    have "get t k = Some pv" if "get (AList.delete (oldest_preview t) t) k = Some pv" for k pv
      using that by (simp split: if_splits)
    with 1(1) [OF True well_keyed_delete [OF 1(2)]] show ?thesis unfolding eq by blast
  qed (use 1 in \<open>simp add: evict_previews.simps [of t]\<close>)
qed

lemma length_update_le: "length (AList.update k v (d :: 'v dict)) \<le> Suc (length d)"
  by (cases "get d k") (simp_all add: length_update_new length_update_old)

lemma evict_fresh:
  fixes now :: int
  assumes "well_keyed t"
  defines "t1 \<equiv> evict_previews (filter (\<lambda>(k, r). now < rp_expires r) t)"
  shows "well_keyed t1" "length t1 < maxPendingRemovals" "get t1 k = Some pv \<Longrightarrow> get t k = Some pv"
proof -
  let ?f = "filter (\<lambda>(k, r). now < rp_expires r) t"
  have ev: "well_keyed t1 \<and> length t1 < maxPendingRemovals \<and> (\<forall>k pv. get t1 k = Some pv \<longrightarrow> get ?f k = Some pv)"
    unfolding t1_def by (rule evict_previews_props) (simp add: assms(1))
  then show "well_keyed t1" "length t1 < maxPendingRemovals" by simp_all
  assume "get t1 k = Some pv"
  with ev have "get ?f k = Some pv" by blast
  then show "get t k = Some pv"
    by (simp add: get_filter_well_keyed [OF assms(1)] split: option.splits if_splits)
qed

lemma store_preview_ok:
  assumes "previews_ok sha t" and "preview_ok sha pv"
  shows "previews_ok sha (store_preview now key pv t)"
proof -
  define t1 where "t1 = evict_previews (filter (\<lambda>(k, r). now < rp_expires r) t)"
  have wk: "well_keyed t" using assms(1) by (simp add: previews_ok_def)
  note ev = evict_fresh [OF wk, of now, folded t1_def]
  have "length (AList.update key pv t1) \<le> maxPendingRemovals"
    using length_update_le [of key pv t1] ev(2) by linarith
  moreover have "preview_ok sha r" if "get (AList.update key pv t1) k = Some r" for k r
    using that ev(3) assms unfolding previews_ok_def by (metis get_update option.inject)
  ultimately show ?thesis
    using ev(1) unfolding store_preview_def t1_def [symmetric] previews_ok_def by simp
qed

lemma previews_ok_delete: "previews_ok sha t \<Longrightarrow> previews_ok sha (AList.delete k t)"
  using length_delete_le [of k t] by (simp add: previews_ok_def)

subsection \<open>Inversion of the operations\<close>

lemma Preview_cases [consumes 1, case_names refused minted]:
  assumes "PreviewStateRemoval sha env req p = ((ans, effs), p')"
  obtains (refused) e where "ans = Inl e" "p' = p"
      "\<forall>ln. Launched ln \<in> set effs \<longrightarrow> take 3 (ln_Args ln) = [''state'', ''rm'', ''-dry-run'']"
  | (minted) as r name payload i v token where "normalizedAddresses (prr_Addresses req) = Some as"
      "parseInventory payload = Some v" "set as \<subseteq> set (inv_addresses v)" "pve_token env = Some token"
      "ans = Inr \<lparr>pa_PreviewID = encodeRawURL token, pa_ProjectID = prr_ProjectID req,
         pa_StateID = prr_StateID req, pa_StateName = name, pa_Addresses = as, pa_Serial = inv_serial v,
         pa_TerraformVersion = ts_Version (tp_tool p), pa_ExpiresAt = pve_now env + removalPreviewTTL\<rparr>"
      "p' = p\<lparr>tp_previews := store_preview (pve_now env) (previewKey sha (encodeRawURL token))
         (new_preview sha req r name (tp_tool p) as payload i v (pve_now env)) (tp_previews p)\<rparr>"
      "\<forall>ln. Launched ln \<in> set effs \<longrightarrow> take 3 (ln_Args ln) = [''state'', ''rm'', ''-dry-run'']"
proof -
  have dry: "\<forall>ln. Launched ln \<in> set (launched l) \<longrightarrow> take 3 (ln_Args ln) = [''state'', ''rm'', ''-dry-run'']"
    if "RunReadOnlyProbe os path (stateRemovalArgs sp [] True as) c = (l, res, err)" for os path sp as c l res err
    using that by (auto simp: RunReadOnlyProbe_def Let_def launched_def probe_launch_def stateRemovalArgs_def
        split: if_splits option.splits)
  show thesis
  proof (cases "ans")
    case (Inl e)
    with assms have "p' = p \<and> (\<forall>ln. Launched ln \<in> set effs \<longrightarrow> take 3 (ln_Args ln) = [''state'', ''rm'', ''-dry-run''])"
      unfolding PreviewStateRemoval_def preview_finish_def Let_def
      by (auto split: option.split_asm if_split_asm prod.split_asm dest!: dry)
    with Inl refused show thesis by blast
  next
    case (Inr x)
    from assms [unfolded PreviewStateRemoval_def preview_finish_def Let_def] Inr show thesis
      by (auto split: option.split_asm if_split_asm prod.split_asm dest!: dry
          intro!: minted simp: new_preview_def)
  qed
qed

lemma audit_append_eff: "audit_append sink w ev a = (ok, eff, a') \<Longrightarrow> eff = Audited ev ok"
  by (auto simp: audit_append_def split: prod.splits)

lemma audit_append_cases: obtains ok a' where "audit_append sink w ev a = (ok, Audited ev ok, a')"
  by (cases "sink w ev a") (simp add: audit_append_def)

text \<open>What follows the audit record: either nothing was started, or Terraform was, after the backup.\<close>

lemma removal_run_cases [consumes 1, case_names aborted launched]:
  assumes "removal_run sha env sink roots tl0 pv r name i before runID a = ((ans, effs), a')"
  obtains (aborted) e effs' ok where "ans = Inl e" "effs = effs' @ [Audited (removal_completion runID ''failed'' None) ok]"
      "\<forall>x \<in> set effs'. \<exists>b c. x = BackedUp b c"
  | (launched) suffix names bytes j l res err ok where "exe_suffix env = Some suffix"
      "names = backup_names name (exe_stamp env) suffix"
      "writeVerifiedBackup sha (exe_backup env) (rp_digest pv) = Some bytes"
      "readStateFile (exe_state2 env) = Some j" "sameSnapshotIdentity i (snd j)"
      "identity_Matches sha (exe_fs2 env) (ts_Identity tl0) (ts_Path tl0)"
      "RunReadOnlyProbe (exe_probe env) (ts_Path tl0) (stateRemovalArgs (path_join (ar_path r) name)
          (path_join (ar_path r) (snd names)) False (rp_addresses pv)) removal_probe_config = (l, res, err)"
      "ans = removal_verdict sha env roots name before pv (fst names) (snd names) res err"
      "effs = BackedUp (fst names) bytes # launched l
         @ [Audited (removal_completion runID (probe_status res err)
              (if probe_status res err = ''exited'' then Some (prs_ExitCode res) else None)) ok]"
proof -
  obtain ok a1 where ap: "audit_append sink (exe_completion env) (removal_completion runID ''failed'' None) a
      = (ok, Audited (removal_completion runID ''failed'' None) ok, a1)" by (rule audit_append_cases)
  have stop: thesis if "((ans, effs), a') = ((Inl e, bs @ [Audited (removal_completion runID ''failed'' None) ok]), a1)"
      "\<forall>x \<in> set bs. \<exists>b c. x = BackedUp b c" for e bs
    using that by (intro aborted [of e bs ok]) simp_all
  show thesis
proof (cases "exe_suffix env")
  case None
  with assms ap show thesis
    by (intro stop [of RemovalUnavailable "[]"]) (simp_all add: removal_run_def Let_def)
next
  case (Some suffix)
  obtain b tb where names: "backup_names name (exe_stamp env) suffix = (b, tb)" by fastforce
  show thesis
  proof (cases "writeVerifiedBackup sha (exe_backup env) (rp_digest pv)")
    case None
    with assms Some names ap show thesis
      by (intro stop [of RemovalRejected "[]"]) (simp_all add: removal_run_def Let_def)
  next
    case bk: (Some bytes)
    let ?changed = "(case readStateFile (exe_state2 env) of None \<Rightarrow> True | Some (_, j) \<Rightarrow> \<not> sameSnapshotIdentity i j)
        \<or> \<not> identity_Matches sha (exe_fs2 env) (ts_Identity tl0) (ts_Path tl0)"
    show thesis
    proof (cases ?changed)
      case True
      with assms Some names bk ap show thesis
        by (intro stop [of RemovalStale "[BackedUp b bytes]"]) (simp_all add: removal_run_def Let_def)
    next
      case False
      then obtain j where j: "readStateFile (exe_state2 env) = Some j" "sameSnapshotIdentity i (snd j)"
          "identity_Matches sha (exe_fs2 env) (ts_Identity tl0) (ts_Path tl0)"
        by (cases "readStateFile (exe_state2 env)") auto
      obtain l res err where probe: "RunReadOnlyProbe (exe_probe env) (ts_Path tl0)
          (stateRemovalArgs (path_join (ar_path r) name) (path_join (ar_path r) tb) False (rp_addresses pv))
          removal_probe_config = (l, res, err)"
        by (rule prod_cases3)
      let ?done = "removal_completion runID (probe_status res err)
          (if probe_status res err = ''exited'' then Some (prs_ExitCode res) else None)"
      obtain ok2 a2 where ap2: "audit_append sink (exe_completion env) ?done a = (ok2, Audited ?done ok2, a2)"
        by (rule audit_append_cases)
      from assms Some names bk False probe ap2
      have "ans = removal_verdict sha env roots name before pv b tb res err"
        "effs = BackedUp b bytes # launched l @ [Audited ?done ok2]"
        by (simp_all add: removal_run_def Let_def)
      with Some names bk j probe show thesis
        by (intro launched [of suffix "(b, tb)" bytes j l res err ok2]) simp_all
    qed
  qed
qed
qed

lemma Execute_cases [consumes 1, case_names refused unaudited ran]:
  assumes "ExecuteStateRemoval sha env req p a = ((ans, effs), p', a')"
  obtains (refused) e where "ans = Inl e" "effs = []" "a' = a"
      "p' = p \<or> p' = p\<lparr>tp_previews := AList.delete (previewKey sha (xrr_PreviewID req)) (tp_previews p)\<rparr>"
  | (unaudited) ev where "ans = Inl RemovalAudit" "effs = [Audited ev False]"
      "p' = p\<lparr>tp_previews := AList.delete (previewKey sha (xrr_PreviewID req)) (tp_previews p)\<rparr>"
  | (ran) pv sink r payload i before runID a1 effs' where
      "get (tp_previews p) (previewKey sha (xrr_PreviewID req)) = Some pv" "exe_now env < rp_expires pv"
      "p' = p\<lparr>tp_previews := AList.delete (previewKey sha (xrr_PreviewID req)) (tp_previews p)\<rparr>"
      "xrr_Confirm req = rp_stateName pv" "tp_audit p = Some sink" "\<not> tp_slotTaken p"
      "selectState sha (tp_roots p) (exe_root env) (rp_projectID pv) (rp_stateID pv) = Some (r, rp_stateName pv)"
      "ar_path r = rp_rootPath pv" "readyTool sha (exe_fs env) (tp_tool p) = None"
      "ts_Path (tp_tool p) = rp_toolPath pv" "ei_Digest (ts_Identity (tp_tool p)) = rp_toolHash pv"
      "openApprovedRoot r (exe_dir env)" "readStateFile (exe_state env) = Some (payload, i)"
      "sameSnapshotIdentity (rp_identity pv) i" "sha payload = rp_digest pv" "parseInventory payload = Some before"
      "exe_runID env = Some runID"
      "effs = Audited (removalAuditApproval runID r (rp_stateName pv) (rp_addresses pv)) True # effs'"
      "removal_run sha env sink (tp_roots p) (tp_tool p) pv r (rp_stateName pv) i before runID a1 = ((ans, effs'), a')"
proof -
  let ?t = "AList.delete (previewKey sha (xrr_PreviewID req)) (tp_previews p)"
  show thesis
  proof (cases "tp_slotTaken p")
    case True
    with assms refused show thesis by (auto simp: ExecuteStateRemoval_def)
  next
    case free: False
    obtain pv0 where c: "consumePreview sha (exe_now env) (xrr_PreviewID req) (tp_previews p) = (pv0, ?t)"
      by (cases "consumePreview sha (exe_now env) (xrr_PreviewID req) (tp_previews p)")
        (auto simp: consumePreview_def Let_def split: option.splits)
    show thesis
    proof (cases pv0)
      case None
      with assms free c refused show thesis by (auto simp: ExecuteStateRemoval_def)
    next
      case (Some pv)
      from c Some have pv: "get (tp_previews p) (previewKey sha (xrr_PreviewID req)) = Some pv" "exe_now env < rp_expires pv"
        by (auto simp: consumePreview_def Let_def split: option.splits if_splits)
      from assms free c Some show thesis
        unfolding ExecuteStateRemoval_def Let_def
        by (simp only: option.case prod.case if_False)
          (auto split: if_split_asm option.split_asm prod.split_asm dest!: audit_append_eff
            intro: refused unaudited ran [OF pv _ _ _ free])
    qed
  qed
qed

subsection \<open>What an answer says\<close>

lemma probe_launched:
  "RunReadOnlyProbe os path args c = (Some ln, res, err) \<Longrightarrow> ln_Path ln = path \<and> ln_Args ln = args"
  by (auto simp: RunReadOnlyProbe_def Let_def probe_launch_def split: if_splits option.splits)

lemma Launched_iff: "Launched ln \<in> set (launched l) \<longleftrightarrow> l = Some ln"
  by (auto simp: launched_def split: option.splits)

lemma writeVerifiedBackup_digest: "writeVerifiedBackup sha b digest = Some bytes \<Longrightarrow> sha bytes = digest"
  by (auto simp: writeVerifiedBackup_def split: if_splits option.splits)

text \<open>The set after is the set before without the removed ones: two duplicate-free lists of one length.\<close>

lemma same_members:
  assumes "distinct xs" "distinct ys" "set xs \<subseteq> set ys" "length ys = length xs"
  shows "set ys = set xs"
  using assms by (metis card_subset_eq distinct_card finite_set)

lemma verifyRemoval_ok:
  assumes "verifyRemoval before pv ap bp = []" and "distinct (inv_addresses before)"
  obtains payload after bytes backup where "ap = Some payload" "parseInventory payload = Some after"
    "inv_lineage after = inv_lineage before" "inv_serial before < inv_serial after"
    "set (inv_addresses after) = set (inv_addresses before) - set (rp_addresses pv)"
    "bp = Some bytes" "parseInventory bytes = Some backup" "inv_serial backup = inv_serial before"
    "inv_lineage backup = inv_lineage before" "set (inv_addresses backup) = set (inv_addresses before)"
proof -
  from assms(1) obtain payload after bytes backup where a: "ap = Some payload" "parseInventory payload = Some after"
    "inv_lineage after = inv_lineage before" "inv_serial before < inv_serial after"
    "set (filter (\<lambda>a. a \<notin> set (rp_addresses pv)) (inv_addresses before)) \<subseteq> set (inv_addresses after)"
    "length (inv_addresses after) = length (filter (\<lambda>a. a \<notin> set (rp_addresses pv)) (inv_addresses before))"
    "bp = Some bytes" "parseInventory bytes = Some backup" "inv_serial backup = inv_serial before"
    "inv_lineage backup = inv_lineage before" "length (inv_addresses backup) = length (inv_addresses before)"
    "set (inv_addresses before) \<subseteq> set (inv_addresses backup)"
    unfolding verifyRemoval_def Let_def backup_problem_def
    by (auto split: option.split_asm if_split_asm)
  have "set (inv_addresses after) = set (filter (\<lambda>a. a \<notin> set (rp_addresses pv)) (inv_addresses before))"
    by (rule same_members) (use a assms(2) parseInventory_addresses(1) in simp_all)
  then have after: "set (inv_addresses after) = set (inv_addresses before) - set (rp_addresses pv)" by auto
  have "set (inv_addresses backup) = set (inv_addresses before)"
    by (rule same_members) (use a assms(2) parseInventory_addresses(1) in simp_all)
  then show thesis by (rule that [OF a(1-4) after a(7-10)])
qed

lemma removal_verdict_removed:
  assumes "removal_verdict sha env roots name before pv bn tn res err = Inr r" and "rvr_Outcome r = OutcomeRemoved"
  shows "verifyRemoval before pv (map_option fst (readStateFile (exe_state3 env)))
      (map_option fst (readStateFile (exe_tfBackup env))) = []"
    and "rvr_Removed r = rp_addresses pv" and "rvr_Backup r = bn"
    and "rvr_Serial r = (case map_option fst (readStateFile (exe_state3 env)) of None \<Rightarrow> inv_serial before
               | Some a \<Rightarrow> (case parseInventory a of None \<Rightarrow> inv_serial before | Some v \<Rightarrow> inv_serial v))"
  using assms unfolding removal_verdict_def Let_def
  by (auto split: if_split_asm)


subsection \<open>The properties\<close>

text \<open>
  C20: A removal reported as done is exact. The new state file holds exactly the addresses of the
  state before without the previewed ones, which were all there, under the same lineage and a
  higher serial, and a backup of exactly the bytes before was verified.
\<close>
theorem removal_is_exact:
  assumes "ExecuteStateRemoval sha env req p a = ((Inr res, effs), p', a')" and "rvr_Outcome res = OutcomeRemoved"
    and "previews_ok sha (tp_previews p)" and "readStateFile (exe_state env) = Some (payload, i)"
    and "\<And>x. sha x = sha payload \<Longrightarrow> x = payload"
  shows "\<exists>before newBytes j after. parseInventory payload = Some before
    \<and> readStateFile (exe_state3 env) = Some (newBytes, j) \<and> parseInventory newBytes = Some after
    \<and> rvr_Removed res \<noteq> [] \<and> distinct (rvr_Removed res) \<and> set (rvr_Removed res) \<subseteq> set (inv_addresses before)
    \<and> set (inv_addresses after) = set (inv_addresses before) - set (rvr_Removed res)
    \<and> inv_lineage after = inv_lineage before \<and> inv_serial before < inv_serial after \<and> rvr_Serial res = inv_serial after
    \<and> BackedUp (rvr_Backup res) payload \<in> set effs"
  using assms(1)
proof (cases rule: Execute_cases)
  case (ran pv sink r payload' i' before runID a1 effs')
  have same: "payload' = payload" using ran(13) assms(4) by simp
  obtain payload0 v where pv: "sha payload0 = rp_digest pv" "parseInventory payload0 = Some v"
    "set (rp_addresses pv) \<subseteq> set (inv_addresses v)" "rp_addresses pv \<noteq> []" "distinct (rp_addresses pv)"
  proof -
    have "preview_ok sha pv" using assms(3) ran(1) by (simp add: previews_ok_def)
    then show thesis using that by (auto simp: preview_ok_def)
  qed
  have "payload0 = payload" using assms(5) [of payload0] pv(1) ran(15) same by simp
  then have v: "v = before" using pv(2) ran(16) same by simp
  from ran(19) show ?thesis
  proof (cases rule: removal_run_cases)
    case (launched suffix names bytes j l r1 err ok)
    have bytes: "bytes = payload"
      using assms(5) [of bytes] writeVerifiedBackup_digest [OF launched(3)] ran(15) same by simp
    note removed = removal_verdict_removed [OF launched(8) [symmetric] assms(2)]
    from verifyRemoval_ok [OF removed(1) parseInventory_addresses(1) [OF ran(16)]] obtain newBytes after
      where ok: "map_option fst (readStateFile (exe_state3 env)) = Some newBytes" "parseInventory newBytes = Some after"
        "inv_lineage after = inv_lineage before" "inv_serial before < inv_serial after"
        "set (inv_addresses after) = set (inv_addresses before) - set (rp_addresses pv)" by metis
    have "BackedUp (rvr_Backup res) payload \<in> set effs"
      using ran(18) launched(9) by (simp add: removed(3) bytes)
    moreover have "rvr_Serial res = inv_serial after" using removed(4) ok(1,2) by simp
    moreover obtain j2 where "readStateFile (exe_state3 env) = Some (newBytes, j2)" using ok(1) by auto
    ultimately show ?thesis using ok(2-) pv(3-) v ran(16) same removed(2) by auto
  qed simp
qed simp_all

text \<open>
  C21: Terraform changes a state file only under guard. If an execution starts it, then in this
  order: the approval was recorded, a backup with the previewed digest was written and read
  back, Terraform was started once with exactly the previewed addresses behind the end of its
  options, and the completion was recorded; the preview was unexpired, confirmed by the file's
  name, taken from bytes of the same digest, made for the same executable, and is used up.
\<close>
theorem removal_is_guarded:
  assumes "ExecuteStateRemoval sha env req p a = ((ans, effs), p', a')" and "Launched ln \<in> set effs"
  shows "\<exists>pv approval bname bytes done ok payload i backupPath.
    effs = [Audited approval True, BackedUp bname bytes, Launched ln, Audited done ok]
    \<and> ae_Action approval = ''approved'' \<and> ae_Action done = ''completed'' \<and> ae_RunID done = ae_RunID approval
    \<and> get (tp_previews p) (previewKey sha (xrr_PreviewID req)) = Some pv \<and> exe_now env < rp_expires pv
    \<and> get (tp_previews p') (previewKey sha (xrr_PreviewID req)) = None
    \<and> xrr_Confirm req = rp_stateName pv
    \<and> readStateFile (exe_state env) = Some (payload, i) \<and> sha payload = rp_digest pv \<and> sha bytes = rp_digest pv
    \<and> sameSnapshotIdentity (rp_identity pv) i
    \<and> ln_Path ln = rp_toolPath pv \<and> identity_Matches sha (exe_fs2 env) (ts_Identity (tp_tool p)) (rp_toolPath pv)
    \<and> ei_Digest (ts_Identity (tp_tool p)) = rp_toolHash pv
    \<and> ln_Args ln = [''state'', ''rm'', ''-backup='' @ backupPath, ''-lock=true'', ''-lock-timeout=0s'',
         ''-state='' @ path_join (rp_rootPath pv) (rp_stateName pv), ''--''] @ rp_addresses pv"
  using assms(1)
proof (cases rule: Execute_cases)
  case (ran pv sink r payload i before runID a1 effs')
  from ran(19) show ?thesis
  proof (cases rule: removal_run_cases)
    case (aborted e bs ok)
    with assms(2) ran(18) show ?thesis by auto
  next
    case (launched suffix names bytes j l res err ok)
    have l: "l = Some ln" using assms(2) ran(18) launched(9) by (auto simp: Launched_iff)
    note probe = probe_launched [OF launched(7) [unfolded l]]
    show ?thesis
      using ran launched(3,6,9) probe writeVerifiedBackup_digest [OF launched(3)]
      by (intro exI [of _ pv] exI [of _ "removalAuditApproval runID r (rp_stateName pv) (rp_addresses pv)"]
          exI [of _ "fst names"] exI [of _ bytes] exI [of _ "removal_completion runID (probe_status res err)
            (if probe_status res err = ''exited'' then Some (prs_ExitCode res) else None)"] exI [of _ ok]
          exI [of _ payload] exI [of _ i] exI [of _ "path_join (ar_path r) (snd names)"])
        (simp add: l launched_def stateRemovalArgs_def removalAuditApproval_def removal_completion_def Let_def)
  qed
qed (use assms(2) in simp_all)


subsection \<open>Previews over time\<close>

text \<open>
  Any sequence of operations on the platform, with a log of the previews it minted and of the
  executions that started Terraform.
\<close>

datatype 'w removal_op = DoPreview preview_env preview_request | DoExecute "'w execute_env" execute_request
  | DoActivate tool_state

datatype removal_log = Minted string | Ran string

definition has_launch :: "removal_effect list \<Rightarrow> bool" where
  "has_launch effs \<longleftrightarrow> list_ex (\<lambda>x. case x of Launched _ \<Rightarrow> True | _ \<Rightarrow> False) effs"

lemma has_launch_simps [simp]:
  "\<not> has_launch []" "has_launch (Launched ln # effs)" "has_launch (Audited ev ok # effs) \<longleftrightarrow> has_launch effs"
  "has_launch (BackedUp b c # effs) \<longleftrightarrow> has_launch effs"
  by (simp_all add: has_launch_def)

definition apply_removal ::
    "(string \<Rightarrow> string) \<Rightarrow> ('w, 'a) tf_platform \<times> 'a \<times> removal_log list \<Rightarrow> 'w removal_op
      \<Rightarrow> ('w, 'a) tf_platform \<times> 'a \<times> removal_log list" where
  "apply_removal sha st op =
     (let (p, a, log) = st in
      case op of
        DoPreview env req \<Rightarrow>
          (let ((ans, effs), p') = PreviewStateRemoval sha env req p
           in (p', a, case ans of Inl _ \<Rightarrow> log | Inr x \<Rightarrow> Minted (previewKey sha (pa_PreviewID x)) # log))
      | DoExecute env req \<Rightarrow>
          (let ((ans, effs), p', a') = ExecuteStateRemoval sha env req p a
           in (p', a', if has_launch effs then Ran (previewKey sha (xrr_PreviewID req)) # log else log))
      | DoActivate tl0 \<Rightarrow> (tf_ActivateTool tl0 p, a, log))"

definition pending_preview :: "removal_preview dict \<Rightarrow> string \<Rightarrow> nat" where
  "pending_preview t k = (if get t k = None then 0 else 1)"

definition removal_inv :: "(string \<Rightarrow> string) \<Rightarrow> string \<Rightarrow> ('w, 'a) tf_platform \<times> 'a \<times> removal_log list \<Rightarrow> bool" where
  "removal_inv sha k st \<longleftrightarrow> (let (p, a, log) = st in previews_ok sha (tp_previews p)
     \<and> count_list log (Ran k) + pending_preview (tp_previews p) k \<le> count_list log (Minted k))"

lemma pending_store:
  assumes "previews_ok sha t"
  shows "pending_preview (store_preview now key pv t) k \<le> (if k = key then 1 else pending_preview t k)"
proof -
  have "well_keyed t" using assms by (simp add: previews_ok_def)
  from evict_fresh(3) [OF this, of now k] show ?thesis
    unfolding store_preview_def pending_preview_def
    by (cases "get (evict_previews (filter (\<lambda>(k, r). now < rp_expires r) t)) k") auto
qed

lemma new_preview_ok:
  assumes "normalizedAddresses as0 = Some as" "parseInventory payload = Some v" "set as \<subseteq> set (inv_addresses v)"
  shows "preview_ok sha (new_preview sha req r name tl0 as payload i v now)"
  using normalizedAddresses_Some [OF assms(1)] assms(2,3)
  unfolding preview_ok_def new_preview_def by auto

lemma removal_inv_step:
  assumes "removal_inv sha k st"
  shows "removal_inv sha k (apply_removal sha st op)"
proof -
  obtain p a log where st: "st = (p, a, log)" by (cases st) blast
  with assms have inv: "previews_ok sha (tp_previews p)"
    "count_list log (Ran k) + pending_preview (tp_previews p) k \<le> count_list log (Minted k)"
    by (simp_all add: removal_inv_def)
  show ?thesis
  proof (cases op)
    case (DoPreview env req)
    obtain ans effs p' where op: "PreviewStateRemoval sha env req p = ((ans, effs), p')" by (metis surj_pair)
    from op show ?thesis
    proof (cases rule: Preview_cases)
      case (refused e)
      with inv op DoPreview show ?thesis by (simp add: st removal_inv_def apply_removal_def)
    next
      case (minted as r name payload i v token)
      let ?key = "previewKey sha (encodeRawURL token)"
      let ?pv = "new_preview sha req r name (tp_tool p) as payload i v (pve_now env)"
      have "previews_ok sha (store_preview (pve_now env) ?key ?pv (tp_previews p))"
        by (rule store_preview_ok [OF inv(1) new_preview_ok [OF minted(1-3)]])
      with minted op DoPreview inv(2) pending_store [OF inv(1), of "pve_now env" ?key ?pv k] show ?thesis
        by (auto simp: st removal_inv_def apply_removal_def split: if_splits)
    qed
  next
    case (DoExecute env req)
    let ?key = "previewKey sha (xrr_PreviewID req)"
    obtain ans effs p' a' where op: "ExecuteStateRemoval sha env req p a = ((ans, effs), p', a')" by (metis surj_pair)
    have del: "pending_preview (AList.delete ?key (tp_previews p)) k
        = (if k = ?key then 0 else pending_preview (tp_previews p) k)"
      by (simp add: pending_preview_def)
    have ok: "previews_ok sha (AList.delete ?key (tp_previews p))" by (rule previews_ok_delete [OF inv(1)])
    from op show ?thesis
    proof (cases rule: Execute_cases)
      case (refused e)
      with inv op DoExecute del ok show ?thesis
        by (auto simp: st removal_inv_def apply_removal_def split: if_splits)
    next
      case (unaudited ev)
      with inv op DoExecute del ok show ?thesis
        by (auto simp: st removal_inv_def apply_removal_def split: if_splits)
    next
      case (ran pv sink r payload i before runID a1 effs')
      then have pend: "pending_preview (tp_previews p) ?key = 1" by (simp add: pending_preview_def)
      have step: "apply_removal sha st op = (p', a', if has_launch effs then Ran ?key # log else log)"
        by (simp add: st apply_removal_def DoExecute op)
      have "tp_previews p' = AList.delete ?key (tp_previews p)" by (simp add: ran(3))
      with ok inv(2) pend del show ?thesis
        unfolding step removal_inv_def by (cases "k = ?key") simp_all
    qed
  next
    case (DoActivate tl0)
    with inv show ?thesis by (simp add: st removal_inv_def apply_removal_def tf_ActivateTool_def)
  qed
qed

text \<open>
  C25: A preview is good for one removal. Over any sequence of operations from an empty table, a
  preview id starts Terraform at most as often as it was minted; at most eight previews are
  kept, and each names between one and fifty distinct addresses, none of which can be read as
  an option, of a state with the digest it pins.
\<close>
theorem removal_preview_is_single_use:
  assumes "tp_previews p0 = []"
  shows "let (p, a, log) = foldl (apply_removal sha) (p0, a0, []) ops in
    count_list log (Ran k) \<le> count_list log (Minted k) \<and> length (tp_previews p) \<le> 8
    \<and> (\<forall>key pv. get (tp_previews p) key = Some pv \<longrightarrow> preview_ok sha pv)"
proof -
  have "removal_inv sha k (foldl (apply_removal sha) st ops)" if "removal_inv sha k st" for st
    using that by (induction ops arbitrary: st) (simp_all add: removal_inv_step)
  moreover have "removal_inv sha k (p0, a0, [])" by (simp add: removal_inv_def assms pending_preview_def)
  ultimately have "removal_inv sha k (foldl (apply_removal sha) (p0, a0, []) ops)" by blast
  moreover obtain p a log where "foldl (apply_removal sha) (p0, a0, []) ops = (p, a, log)" by (metis surj_pair)
  ultimately show ?thesis by (auto simp: removal_inv_def previews_ok_def maxPendingRemovals_def)
qed

subsection \<open>A sample removal\<close>

text \<open>One data source is removed from the only state file of the only project; digests are the bytes themselves.\<close>

definition json_text :: "string \<Rightarrow> string" where
  "json_text s = map (\<lambda>c. if c = CHR ''~'' then dquote else c) s"

definition bytes_before :: string where
  "bytes_before = json_text ''{~version~:4,~serial~:7,~lineage~:~l~,~resources~:[{~mode~:~data~,~type~:~t~,~name~:~a~,~instances~:[{}]}]}''"

definition bytes_after :: string where
  "bytes_after = json_text ''{~version~:4,~serial~:8,~lineage~:~l~}''"

definition inventory_before :: inventory where
  "inventory_before = the (parseInventory bytes_before)"

definition inventory_after :: inventory where
  "inventory_after = the (parseInventory bytes_after)"

lemma parsed_before: "(case parseInventory bytes_before of None \<Rightarrow> False
    | Some v \<Rightarrow> inv_addresses v = [''data.t.a''] \<and> inv_serial v = 7 \<and> inv_lineage v = ''l'')"
  by code_simp

lemma parsed_after: "(case parseInventory bytes_after of None \<Rightarrow> False
    | Some v \<Rightarrow> inv_addresses v = [] \<and> inv_serial v = 8 \<and> inv_lineage v = ''l'')"
  by code_simp

lemma sample_inventories:
  "parseInventory bytes_before = Some inventory_before" "parseInventory bytes_after = Some inventory_after"
  "inv_addresses inventory_before = [''data.t.a'']" "inv_serial inventory_before = 7" "inv_lineage inventory_before = ''l''"
  "inv_addresses inventory_after = []" "inv_serial inventory_after = 8" "inv_lineage inventory_after = ''l''"
  using parsed_before parsed_after by (auto simp: inventory_before_def inventory_after_def split: option.splits)

definition sample_info :: file_info where
  "sample_info = \<lparr>fi_File = 9, fi_Regular = True, fi_Symlink = False, fi_AnyExec = False, fi_Size = 100, fi_ModTime = 1\<rparr>"

definition seen_bytes :: "string \<Rightarrow> state_obs" where
  "seen_bytes bytes = \<lparr>so_before = Some sample_info, so_opened = Some sample_info, so_content = Some bytes,
     so_after = Some sample_info, so_openedAfter = Some sample_info\<rparr>"

lemma seen_before: "readStateFile (seen_bytes bytes_before) = Some (bytes_before, sample_info)"
  and seen_after: "readStateFile (seen_bytes bytes_after) = Some (bytes_after, sample_info)"
  by (simp_all add: readStateFile_def seen_bytes_def sample_info_def sameSnapshotIdentity_def maxStateBytes_def
      bytes_before_def bytes_after_def json_text_def)

definition sample_root :: root_obs where
  "sample_root = \<lparr>ro_stat = Some (5, True), ro_resolved = Some ''/w'', ro_open = Some (5, True),
     ro_entries = Some [\<lparr>den_Name = ''s.tfstate'', den_Symlink = False, den_Dir = False, den_Regular = True, den_Size = 100\<rparr>]\<rparr>"

definition sample_tf_tool :: tool_state where
  "sample_tf_tool = \<lparr>ts_PackID = ''terraform-cli'', ts_PackVersion = ''1.0.0'', ts_ToolID = ''terraform'', ts_Status = StatusReady,
     ts_Path = ''/bin/tool'', ts_ExecutableName = ''terraform'', ts_Version = ''1.9.0'', ts_VersionConstraint = [],
     ts_Candidates = [], ts_Message = [],
     ts_Identity = \<lparr>ei_Info = Some (fi_File sample_file), ei_Size = fi_Size sample_file, ei_ModTime = fi_ModTime sample_file,
       ei_Digest = ''code''\<rparr>\<rparr>"

definition sample_preview_record :: removal_preview where
  "sample_preview_record = \<lparr>rp_projectID = ''project-1'', rp_stateID = stateID id ''s.tfstate'', rp_stateName = ''s.tfstate'',
     rp_rootPath = ''/w'', rp_addresses = [''data.t.a''], rp_digest = bytes_before, rp_identity = sample_info,
     rp_serial = 7, rp_lineage = ''l'', rp_toolPath = ''/bin/tool'', rp_toolHash = ''code'', rp_expires = 100\<rparr>"

definition sample_platform :: "(unit, audit_event list) tf_platform" where
  "sample_platform = \<lparr>tp_roots = [\<lparr>ar_path = ''/w'', ar_file = 5\<rparr>], tp_tool = sample_tf_tool, tp_slotTaken = False,
     tp_previews = [(''pid'', sample_preview_record)], tp_audit = Some (\<lambda>_ ev log. (True, log @ [ev]))\<rparr>"

definition sample_execute_env :: "unit execute_env" where
  "sample_execute_env = \<lparr>exe_now = 50, exe_root = sample_root, exe_fs = sample_fs, exe_dir = sample_root,
     exe_state = seen_bytes bytes_before, exe_runID = Some ''run'', exe_approval = (), exe_stamp = ''t'', exe_suffix = Some ''x'',
     exe_backup = \<lparr>bo_created = True, bo_written = True, bo_synced = True, bo_closed = True, bo_reread = seen_bytes bytes_before\<rparr>,
     exe_state2 = seen_bytes bytes_before, exe_fs2 = sample_fs, exe_probe = sample_probe_os, exe_completedAt = ''done'',
     exe_state3 = seen_bytes bytes_after, exe_completion = (), exe_backupSeen = True, exe_tfBackup = seen_bytes bytes_before,
     exe_root2 = sample_root\<rparr>"

definition sample_execute_request :: execute_request where
  "sample_execute_request = \<lparr>xrr_PreviewID = ''pid'', xrr_Confirm = ''s.tfstate''\<rparr>"

definition sample_removal :: "((removal_error + removal_result) \<times> removal_effect list) \<times> (unit, audit_event list) tf_platform \<times> audit_event list" where
  "sample_removal = ExecuteStateRemoval id sample_execute_env sample_execute_request sample_platform []"

lemma sample_removal_facts:
  "(case sample_removal of ((Inr res, effs), _) \<Rightarrow> rvr_Outcome res = OutcomeRemoved \<and> rvr_Removed res = [''data.t.a'']
       \<and> (case effs ! 2 of Launched _ \<Rightarrow> True | _ \<Rightarrow> False) \<and> length effs = 4 | _ \<Rightarrow> False)"
  by code_simp

lemma sample_removal_parts:
  obtains res effs p' a' ln where "ExecuteStateRemoval id sample_execute_env sample_execute_request sample_platform [] = ((Inr res, effs), p', a')"
    "rvr_Outcome res = OutcomeRemoved" "rvr_Removed res = [''data.t.a'']" "Launched ln \<in> set effs"
proof -
  obtain ans effs p' a' where op: "sample_removal = ((ans, effs), p', a')" by (metis surj_pair)
  note facts = sample_removal_facts [unfolded op prod.case]
  then obtain res where res: "ans = Inr res" "rvr_Outcome res = OutcomeRemoved"
    "rvr_Removed res = [''data.t.a'']" "length effs = 4" "case effs ! 2 of Launched _ \<Rightarrow> True | _ \<Rightarrow> False"
    by (cases ans) simp_all
  then obtain ln where "effs ! 2 = Launched ln" by (cases "effs ! 2") simp_all
  with res(4) nth_mem [of 2 effs] have "Launched ln \<in> set effs" by simp
  with that op res show thesis by (simp add: sample_removal_def)
qed

lemma sample_previews_ok: "previews_ok id (tp_previews sample_platform)"
  using sample_inventories
  by (auto simp: previews_ok_def sample_platform_def sample_preview_record_def preview_ok_def maxPendingRemovals_def
      well_keyed_def has_prefix_def split: if_splits)

theorem removal_is_exact_witness:
  "\<exists>res effs p' a' before newBytes j after.
     ExecuteStateRemoval id sample_execute_env sample_execute_request sample_platform [] = ((Inr res, effs), p', a')
     \<and> rvr_Removed res = [''data.t.a''] \<and> readStateFile (exe_state3 sample_execute_env) = Some (newBytes, j)
     \<and> parseInventory newBytes = Some after \<and> parseInventory bytes_before = Some before
     \<and> set (inv_addresses after) = set (inv_addresses before) - {''data.t.a''}"
proof -
  obtain res effs p' a' ln where op: "ExecuteStateRemoval id sample_execute_env sample_execute_request sample_platform []
      = ((Inr res, effs), p', a')" "rvr_Outcome res = OutcomeRemoved" "rvr_Removed res = [''data.t.a'']"
    by (rule sample_removal_parts)
  have "readStateFile (exe_state sample_execute_env) = Some (bytes_before, sample_info)"
    by (simp add: sample_execute_env_def seen_before)
  from removal_is_exact [OF op(1,2) sample_previews_ok this] op(3) show ?thesis using op(1) by auto
qed

theorem removal_is_guarded_witness:
  "\<exists>out ln. ExecuteStateRemoval id sample_execute_env sample_execute_request sample_platform [] = out
     \<and> Launched ln \<in> set (snd (fst out)) \<and> drop 6 (ln_Args ln) = [''--'', ''data.t.a''] \<and> ln_Path ln = ''/bin/tool''"
proof -
  obtain res effs p' a' ln where op: "ExecuteStateRemoval id sample_execute_env sample_execute_request sample_platform []
      = ((Inr res, effs), p', a')" "Launched ln \<in> set effs"
    by (rule sample_removal_parts)
  have "get (tp_previews sample_platform) (previewKey id (xrr_PreviewID sample_execute_request)) = Some sample_preview_record"
    by (simp add: sample_platform_def sample_execute_request_def previewKey_def)
  with removal_is_guarded [OF op] have "drop 6 (ln_Args ln) = [''--'', ''data.t.a'']" "ln_Path ln = ''/bin/tool''"
    by (auto simp: sample_preview_record_def)
  with op show ?thesis by auto
qed


definition sample_preview_env :: preview_env where
  "sample_preview_env = \<lparr>pve_root = sample_root, pve_fs = sample_fs, pve_dir = sample_root, pve_state = seen_bytes bytes_before,
     pve_probe = sample_probe_os\<lparr>pos_stdout := [''Would remove data.t.a'' @ [CHR 0x0A]]\<rparr>, pve_fs2 = sample_fs,
     pve_state2 = seen_bytes bytes_before, pve_token = Some ''tok'', pve_now = 0\<rparr>"

definition sample_operations :: "unit removal_op list" where
  "sample_operations = [DoPreview sample_preview_env
       \<lparr>prr_ProjectID = ''project-1'', prr_StateID = stateID id ''s.tfstate'', prr_Addresses = [''data.t.a'']\<rparr>,
     DoExecute sample_execute_env \<lparr>xrr_PreviewID = encodeRawURL ''tok'', xrr_Confirm = ''s.tfstate''\<rparr>,
     DoExecute sample_execute_env \<lparr>xrr_PreviewID = encodeRawURL ''tok'', xrr_Confirm = ''s.tfstate''\<rparr>]"

lemma sample_operations_log:
  "(case foldl (apply_removal id) (sample_platform\<lparr>tp_previews := []\<rparr>, [], []) sample_operations of
      (p, a, log) \<Rightarrow> log = [Ran ''dG9r'', Minted ''dG9r''])"
  by code_simp

theorem removal_preview_is_single_use_witness:
  "\<exists>p a log. foldl (apply_removal id) (sample_platform\<lparr>tp_previews := []\<rparr>, [], []) sample_operations = (p, a, log)
     \<and> count_list log (Minted ''dG9r'') = 1 \<and> count_list log (Ran ''dG9r'') = 1
     \<and> count_list log (Ran ''dG9r'') \<le> count_list log (Minted ''dG9r'') \<and> length (tp_previews p) \<le> 8"
proof -
  obtain p a log where ops: "foldl (apply_removal id) (sample_platform\<lparr>tp_previews := []\<rparr>, [], []) sample_operations = (p, a, log)"
    by (metis surj_pair)
  have "tp_previews (sample_platform\<lparr>tp_previews := []\<rparr>) = []" by simp
  from removal_preview_is_single_use [OF this, of id "[]" sample_operations "''dG9r''"] ops
  have "count_list log (Ran ''dG9r'') \<le> count_list log (Minted ''dG9r'') \<and> length (tp_previews p) \<le> 8" by simp
  moreover have "log = [Ran ''dG9r'', Minted ''dG9r'']" using sample_operations_log ops by simp
  ultimately show ?thesis using ops by simp
qed

end
