(* ===== verification/TerraformFormat.thy ===== *)
theory TerraformFormat
  imports TerraformState
begin

section \<open>Projects and the formatting check (internal/platforms/terraform)\<close>

text \<open>
  The list of approved projects, and the check of a project's configuration files: each eligible
  file is read stably and its bytes, not its path, are given to the discovered Terraform.
\<close>

definition maxConfigFiles :: nat where "maxConfigFiles = 64"
definition maxConfigBytes :: nat where "maxConfigBytes = 262144"
definition maxConfigTotalBytes :: nat where "maxConfigTotalBytes = 2097152"

definition config_entry :: "dir_entry \<Rightarrow> bool" where
  "config_entry e \<longleftrightarrow> has_suffix ''.tf'' (den_Name e) \<and> \<not> den_Symlink e \<and> \<not> den_Dir e \<and> den_Regular e
     \<and> 0 \<le> den_Size e \<and> den_Size e \<le> int maxConfigBytes"

record tf_project =
  tpj_ID :: string
  tpj_Name :: string
  tpj_States :: "(string \<times> string) list"
  tpj_ConfigurationFiles :: nat

text \<open>What the operating system answers for one project: its root, its states, its entries again.\<close>

type_synonym project_obs = "root_obs \<times> root_obs \<times> root_obs"

definition list_project ::
    "(string \<Rightarrow> string) \<Rightarrow> approved_root list \<Rightarrow> project_obs \<Rightarrow> nat \<Rightarrow> tf_project option" where
  "list_project sha roots obs i =
     (let (o1, o2, o3) = obs in
      case platform_root roots o1 (project_name i) of
        None \<Rightarrow> None
      | Some r \<Rightarrow>
      (case root_states r o2 of
        None \<Rightarrow> None
      | Some names \<Rightarrow>
      (case boundedDirectoryEntries r o3 of
        None \<Rightarrow> None
      | Some entries \<Rightarrow>
          Some \<lparr>tpj_ID = project_name i, tpj_Name = path_base (ar_path r),
                tpj_States = map (\<lambda>n. (stateID sha n, n)) names,
                tpj_ConfigurationFiles = length (filter config_entry entries)\<rparr>)))"

text \<open>The first project that fails ends the list.\<close>

fun list_projects ::
    "(string \<Rightarrow> string) \<Rightarrow> approved_root list \<Rightarrow> (nat \<Rightarrow> project_obs) \<Rightarrow> nat list \<Rightarrow> tf_project list option" where
  "list_projects sha roots obs [] = Some []"
| "list_projects sha roots obs (i # is) =
     (case list_project sha roots (obs i) i of
        None \<Rightarrow> None
      | Some p \<Rightarrow> map_option ((#) p) (list_projects sha roots obs is))"

definition Projects ::
    "(string \<Rightarrow> string) \<Rightarrow> approved_root list \<Rightarrow> (nat \<Rightarrow> project_obs) \<Rightarrow> tf_project list option" where
  "Projects sha roots obs = list_projects sha roots obs [0..<length roots]"

subsection \<open>Reading configuration\<close>

definition configurationEntries :: "approved_root \<Rightarrow> root_obs \<Rightarrow> string list option" where
  "configurationEntries r obs =
     (case boundedDirectoryEntries r obs of
        None \<Rightarrow> None
      | Some entries \<Rightarrow>
          let files = filter config_entry entries
          in if maxConfigFiles < length files then None else Some (map den_Name files))"

text \<open>The bytes, or the status of a file that cannot be checked.\<close>

definition inspection_failed :: string where "inspection_failed = ''inspection-failed''"

definition readConfiguration :: "state_obs \<Rightarrow> string + string" where
  "readConfiguration o1 =
     (case so_before o1 of
        None \<Rightarrow> Inl inspection_failed
      | Some before \<Rightarrow>
      if \<not> fi_Regular before \<or> fi_Size before < 0 \<or> int maxConfigBytes < fi_Size before then Inl ''unsupported''
      else case so_opened o1 of
        None \<Rightarrow> Inl inspection_failed
      | Some opened \<Rightarrow>
      if \<not> fi_Regular opened \<or> fi_File before \<noteq> fi_File opened then Inl inspection_failed
      else case so_content o1 of
        None \<Rightarrow> Inl inspection_failed
      | Some content \<Rightarrow>
      let payload = take (maxConfigBytes + 1) content in
      if maxConfigBytes < length payload then Inl inspection_failed
      else case (so_after o1, so_openedAfter o1) of
        (Some after, Some openedAfter) \<Rightarrow>
          if \<not> sameSnapshotIdentity before after \<or> \<not> sameSnapshotIdentity before openedAfter
          then Inl inspection_failed else Inr payload
      | _ \<Rightarrow> Inl inspection_failed)"

subsection \<open>The check\<close>

record format_file =
  ff_Name :: string
  ff_Status :: string
  ff_Reason :: string

record format_report =
  fr_ProjectID :: string
  fr_TerraformVersion :: string
  fr_CheckedAt :: string
  fr_Files :: "format_file list"

text \<open>What happens while one file is inspected.\<close>

record file_env =
  fe_cancelled :: bool
  fe_obs :: state_obs
  fe_fs :: file_system
  fe_probe :: probe_os
  fe_fs2 :: file_system

definition format_args :: "string list" where
  "format_args = [''fmt'', ''-check'', ''-write=false'', ''-no-color'', ''-'']"

definition format_config :: "string \<Rightarrow> probe_config" where
  "format_config input = \<lparr>pcf_Timeout = 5 * second, pcf_MaxOutputBytes = 1024, pcf_Input = Some input,
     pcf_ExtraEnv = [''CHECKPOINT_DISABLE=1'', ''TF_IN_AUTOMATION=1'', ''TF_INPUT=0'']\<rparr>"

text \<open>The verdict on one probe: status and reason.\<close>

definition format_verdict :: "(string \<Rightarrow> string) \<Rightarrow> tool_state \<Rightarrow> file_env \<Rightarrow> probe_result \<Rightarrow> probe_error option \<Rightarrow> string \<times> string" where
  "format_verdict sha tl0 e res err =
     (if err \<noteq> None \<or> prs_TimedOut res \<or> prs_Cancelled res \<or> prs_Truncated res
        \<or> \<not> identity_Matches sha (fe_fs2 e) (ts_Identity tl0) (ts_Path tl0)
      then (inspection_failed, ''Terraform execution failed, exceeded limits, or executable identity changed.'')
      else if prs_ExitCode res = 0 \<and> prs_Stderr res = [] then (''formatted'', [])
      else if prs_ExitCode res = 3 \<and> prs_Stderr res = [] then (''needs-formatting'', [])
      else (inspection_failed, ''Terraform rejected this input or returned an unexpected exit status.''))"

text \<open>One file, with the bytes read so far: its line, the process started for it, the bytes read with it.\<close>

definition check_file ::
    "(string \<Rightarrow> string) \<Rightarrow> tool_state \<Rightarrow> file_env \<Rightarrow> nat \<Rightarrow> (string \<times> string) \<times> launch option \<times> nat" where
  "check_file sha tl0 e total0 =
     (if fe_cancelled e then ((inspection_failed, ''The inspection deadline or request was cancelled.''), None, total0)
      else if maxConfigTotalBytes \<le> total0
      then ((inspection_failed, ''Configuration inspection exceeds the project byte limit.''), None, total0)
      else case readConfiguration (fe_obs e) of
        Inl problem \<Rightarrow>
          ((problem, ''This file is unsafe, oversized, inaccessible, or changed while reading.''), None, total0)
      | Inr payload \<Rightarrow>
      let total1 = total0 + length payload in
      if maxConfigTotalBytes < total1
      then ((inspection_failed, ''Configuration inspection exceeds the project byte limit.''), None, total1)
      else if \<not> identity_Matches sha (fe_fs e) (ts_Identity tl0) (ts_Path tl0)
      then ((inspection_failed, ''The Terraform executable changed since discovery.''), None, total1)
      else let (l, res, err) = RunReadOnlyProbe (fe_probe e) (ts_Path tl0) format_args (format_config payload)
           in (format_verdict sha tl0 e res err, l, total1))"

fun check_files ::
    "(string \<Rightarrow> string) \<Rightarrow> tool_state \<Rightarrow> (string \<times> file_env) list \<Rightarrow> nat \<Rightarrow> format_file list \<times> launch list" where
  "check_files sha tl0 [] total0 = ([], [])"
| "check_files sha tl0 ((name, e) # fs) total0 =
     (let ((status, reason), l, total1) = check_file sha tl0 e total0;
          (files, ls) = check_files sha tl0 fs total1
      in (\<lparr>ff_Name = name, ff_Status = status, ff_Reason = reason\<rparr> # files,
          (case l of None \<Rightarrow> ls | Some ln \<Rightarrow> ln # ls)))"

record format_env =
  fx_root :: root_obs
  fx_entries :: root_obs
  fx_fs :: file_system
  fx_dir :: root_obs
  fx_files :: "nat \<Rightarrow> file_env"
  fx_now :: string

text \<open>\<open>busy\<close> is whether the format slot is taken.\<close>

definition FormatCheck ::
    "(string \<Rightarrow> string) \<Rightarrow> approved_root list \<Rightarrow> tool_state \<Rightarrow> bool \<Rightarrow> format_env \<Rightarrow> string
      \<Rightarrow> (format_report \<times> launch list) option" where
  "FormatCheck sha roots tl0 busy env pid =
     (if busy then None
      else case platform_root roots (fx_root env) pid of
        None \<Rightarrow> None
      | Some r \<Rightarrow>
      (case configurationEntries r (fx_entries env) of
        None \<Rightarrow> None
      | Some names \<Rightarrow>
      if ts_Status tl0 \<noteq> StatusReady \<or> \<not> identity_Valid (ts_Identity tl0) \<or> ts_Path tl0 = [] then None
      else if \<not> identity_Matches sha (fx_fs env) (ts_Identity tl0) (ts_Path tl0) then None
      else if \<not> openApprovedRoot r (fx_dir env) then None
      else let (files, ls) = check_files sha tl0 (zip names (map (fx_files env) [0..<length names])) 0
           in Some (\<lparr>fr_ProjectID = pid, fr_TerraformVersion = ts_Version tl0, fr_CheckedAt = fx_now env,
                fr_Files = files\<rparr>, ls)))"

subsection \<open>Facts\<close>

lemma readConfiguration_bounded: "readConfiguration o1 = Inr payload \<Longrightarrow> length payload \<le> maxConfigBytes"
  by (auto simp: readConfiguration_def Let_def split: option.splits if_splits)

lemma probe_launch_input:
  "RunReadOnlyProbe os path args c = (Some ln, res, err) \<Longrightarrow>
     ln_Path ln = path \<and> ln_Args ln = args \<and> ln_Stdin ln = pcf_Input c"
  by (auto simp: RunReadOnlyProbe_def Let_def probe_launch_def split: if_splits option.splits)

text \<open>A file is reported as well formed only on the word of Terraform about exactly its bytes.\<close>

lemma check_file_formatted:
  assumes "check_file sha tl0 e n = ((''formatted'', reason), l, m)"
  shows "\<exists>payload res. readConfiguration (fe_obs e) = Inr payload \<and> m = n + length payload \<and> m \<le> maxConfigTotalBytes
    \<and> RunReadOnlyProbe (fe_probe e) (ts_Path tl0) format_args (format_config payload) = (l, res, None)
    \<and> prs_ExitCode res = 0 \<and> prs_Stderr res = [] \<and> \<not> prs_TimedOut res \<and> \<not> prs_Truncated res
    \<and> identity_Matches sha (fe_fs e) (ts_Identity tl0) (ts_Path tl0)
    \<and> identity_Matches sha (fe_fs2 e) (ts_Identity tl0) (ts_Path tl0)"
  using assms unfolding check_file_def format_verdict_def inspection_failed_def Let_def
  by (auto split: if_split_asm sum.split_asm prod.split_asm simp: readConfiguration_def inspection_failed_def
      split: option.split_asm)

lemma check_file_launch:
  assumes "check_file sha tl0 e n = (v, Some ln, m)"
  shows "ln_Path ln = ts_Path tl0 \<and> ln_Args ln = format_args \<and> m \<le> maxConfigTotalBytes
    \<and> (\<exists>payload. ln_Stdin ln = Some payload \<and> length payload \<le> maxConfigBytes \<and> m = n + length payload)"
  using assms unfolding check_file_def Let_def
  by (auto split: if_split_asm sum.split_asm prod.split_asm
      dest!: probe_launch_input readConfiguration_bounded simp: format_config_def)

lemma check_file_total: "check_file sha tl0 e n = (v, l, m) \<Longrightarrow> n \<le> m"
  unfolding check_file_def Let_def by (auto split: if_split_asm sum.split_asm prod.split_asm)

lemma check_files_names: "map ff_Name (fst (check_files sha tl0 fs n)) = map fst fs"
proof (induction fs arbitrary: n)
  case (Cons f fs)
  obtain name e where f: "f = (name, e)" by (cases f)
  obtain st rs l m where c: "check_file sha tl0 e n = ((st, rs), l, m)" by (metis surj_pair)
  obtain files ls where "check_files sha tl0 fs m = (files, ls)" by (metis surj_pair)
  with Cons.IH [of m] c show ?case by (simp add: f Let_def)
qed simp

lemma check_file_spent: "maxConfigTotalBytes \<le> n \<Longrightarrow> check_file sha tl0 e n = (v, l, m) \<Longrightarrow> l = None"
  unfolding check_file_def by (auto split: if_split_asm)

lemma check_files_spent: "maxConfigTotalBytes \<le> n \<Longrightarrow> snd (check_files sha tl0 fs n) = []"
proof (induction fs arbitrary: n)
  case (Cons f fs)
  obtain name e where f: "f = (name, e)" by (cases f)
  obtain st rs l m where c: "check_file sha tl0 e n = ((st, rs), l, m)" by (metis surj_pair)
  obtain files ls where "check_files sha tl0 fs m = (files, ls)" by (metis surj_pair)
  with c Cons.IH [of m] Cons.prems check_file_total [OF c] check_file_spent [OF Cons.prems c] show ?case
    by (simp add: f Let_def)
qed simp

definition given_bytes :: "launch list \<Rightarrow> nat" where
  "given_bytes ls = sum_list (map (\<lambda>ln. case ln_Stdin ln of None \<Rightarrow> 0 | Some s \<Rightarrow> length s) ls)"

lemma check_files_launches:
  "n \<le> maxConfigTotalBytes \<Longrightarrow> (\<forall>ln \<in> set (snd (check_files sha tl0 fs n)). ln_Path ln = ts_Path tl0 \<and> ln_Args ln = format_args)
     \<and> given_bytes (snd (check_files sha tl0 fs n)) + n \<le> maxConfigTotalBytes"
proof (induction fs arbitrary: n)
  case (Cons f fs)
  obtain name e where f: "f = (name, e)" by (cases f)
  obtain st rs l m where c: "check_file sha tl0 e n = ((st, rs), l, m)" by (metis surj_pair)
  obtain files ls where r: "check_files sha tl0 fs m = (files, ls)" by (metis surj_pair)
  have all: "snd (check_files sha tl0 (f # fs) n) = (case l of None \<Rightarrow> ls | Some ln \<Rightarrow> ln # ls)"
    by (simp add: f c r Let_def)
  show ?case
  proof (cases "m \<le> maxConfigTotalBytes")
    case True
    from Cons.IH [OF True] r have IH: "\<forall>ln \<in> set ls. ln_Path ln = ts_Path tl0 \<and> ln_Args ln = format_args"
      "given_bytes ls + m \<le> maxConfigTotalBytes" by simp_all
    show ?thesis
    proof (cases l)
      case None
      with IH all check_file_total [OF c] show ?thesis by simp
    next
      case (Some ln)
      from check_file_launch [OF c [unfolded Some]] obtain payload where "ln_Path ln = ts_Path tl0" "ln_Args ln = format_args"
        "ln_Stdin ln = Some payload" "m = n + length payload" by blast
      with IH all Some show ?thesis by (simp add: given_bytes_def)
    qed
  next
    case False
    then have "ls = []" using check_files_spent [of m sha tl0 fs] r by simp
    moreover have "l = None" using check_file_launch [of sha tl0 e n "(st, rs)" _ m] c False by (cases l) auto
    ultimately show ?thesis using all Cons.prems by (simp add: given_bytes_def)
  qed
qed (simp add: given_bytes_def)

text \<open>
  The formatting check only reads: what it starts is the discovered Terraform with the flags
  that forbid writing and no path, on at most 2 MiB of bytes; and its report has one line for
  every eligible file, at most 64, in the order of the directory.
\<close>
theorem format_check_only_reads:
  assumes "FormatCheck sha roots tl0 busy env pid = Some (rep, ls)"
  shows "(\<forall>ln \<in> set ls. ln_Path ln = ts_Path tl0 \<and> ln_Args ln = [''fmt'', ''-check'', ''-write=false'', ''-no-color'', ''-''])
    \<and> given_bytes ls \<le> 2097152
    \<and> (\<exists>r entries. r \<in> set roots \<and> boundedDirectoryEntries r (fx_entries env) = Some entries
        \<and> map ff_Name (fr_Files rep) = map den_Name (filter config_entry entries) \<and> length (fr_Files rep) \<le> 64)"
proof -
  from assms obtain r names where r: "platform_root roots (fx_root env) pid = Some r"
    "configurationEntries r (fx_entries env) = Some names"
    "(fr_Files rep, ls) = check_files sha tl0 (zip names (map (fx_files env) [0..<length names])) 0"
    unfolding FormatCheck_def Let_def by (auto split: if_split_asm option.split_asm prod.split_asm)
  let ?fs = "zip names (map (fx_files env) [0..<length names])"
  have ls: "ls = snd (check_files sha tl0 ?fs 0)" and files: "fr_Files rep = fst (check_files sha tl0 ?fs 0)"
    using r(3) by (metis fst_conv snd_conv)+
  from r(2) obtain entries where e: "boundedDirectoryEntries r (fx_entries env) = Some entries"
    "length (filter config_entry entries) \<le> 64" "names = map den_Name (filter config_entry entries)"
    by (auto simp: configurationEntries_def Let_def maxConfigFiles_def split: option.split_asm if_split_asm)
  have names: "map ff_Name (fr_Files rep) = names" by (simp add: files check_files_names)
  then have "length (fr_Files rep) \<le> 64" using e(2,3) by (metis length_map)
  moreover have "r \<in> set roots" by (rule platform_root_mem [OF r(1)])
  ultimately show ?thesis
    using e(1,3) names check_files_launches [of 0 sha tl0 ?fs] ls by (auto simp: format_args_def maxConfigTotalBytes_def)
qed

end
