(* ===== verification/RunInvariant.thy ===== *)
theory RunInvariant
  imports RunManager
begin

section \<open>What holds of the run manager at every moment\<close>

text \<open>
  The invariant of the manager: the run table and its order agree, the active counter counts
  the runs that have not ended, the configured bounds hold, and every run's events are numbered
  without gaps within its byte budget; preserved by every step.
\<close>

subsection \<open>Counting entries of a map\<close>

definition tally :: "('v \<Rightarrow> bool) \<Rightarrow> 'v dict \<Rightarrow> int" where
  "tally P d = int (length (filter (\<lambda>e. P (snd e)) d))"

definition tally_at :: "('v \<Rightarrow> bool) \<Rightarrow> 'v option \<Rightarrow> int" where
  "tally_at P v = (case v of None \<Rightarrow> 0 | Some x \<Rightarrow> of_bool (P x))"

lemma tally_Nil [simp]: "tally P [] = 0"
  by (simp add: tally_def)

lemma tally_Cons [simp]: "tally P (e # d) = of_bool (P (snd e)) + tally P d"
  by (simp add: tally_def)

lemma tally_nonneg: "0 \<le> tally P d"
  by (simp add: tally_def)

lemma tally_le_size: "tally P d \<le> int (length d)"
  by (simp add: tally_def)

lemma tally_update: "tally P (AList.update k v d) = tally P d + of_bool (P v) - tally_at P (get d k)"
  by (induction d) (auto simp: tally_at_def)

lemma tally_delete: "well_keyed d \<Longrightarrow> tally P (AList.delete k d) = tally P d - tally_at P (get d k)"
proof (induction d)
  case Nil
  then show ?case by (simp add: tally_at_def)
next
  case (Cons e d)
  then have wk: "well_keyed d" and new: "fst e \<notin> fst ` set d" by (simp_all add: well_keyed_def)
  show ?case
  proof (cases "fst e = k")
    case True
    with new have "AList.delete k d = d" by (intro delete_id) simp
    with True show ?thesis by (cases e) (simp add: tally_at_def)
  next
    case False
    with Cons.IH [OF wk] show ?thesis by (cases e) (simp add: tally_at_def)
  qed
qed

lemma tally_all: "(\<And>k v. get d k = Some v \<Longrightarrow> P v) \<Longrightarrow> well_keyed d \<Longrightarrow> tally P d = int (length d)"
proof -
  assume a: "\<And>k v. get d k = Some v \<Longrightarrow> P v" and wk: "well_keyed d"
  have "\<forall>e \<in> set d. P (snd e)"
    using a wk by (auto simp: well_keyed_def map_of_eq_Some_iff)
  then show ?thesis by (simp add: tally_def)
qed

subsection \<open>Retention\<close>

text \<open>The run table and the order in which runs were admitted.\<close>

definition table_ok :: "run_record dict \<Rightarrow> string list \<Rightarrow> bool" where
  "table_ok runs order \<longleftrightarrow> well_keyed runs \<and> distinct order \<and> set order = fst ` set runs"

abbreviation running_count :: "run_record dict \<Rightarrow> int" where
  "running_count runs \<equiv> tally (\<lambda>r. \<not> finished r) runs"

text \<open>What eviction may do: only finished runs go.\<close>

definition evicts :: "run_record dict \<Rightarrow> run_record dict \<Rightarrow> bool" where
  "evicts runs runs' \<longleftrightarrow>
     (\<forall>i. get runs' i = get runs i \<or> (get runs' i = None \<and> (\<exists>r. get runs i = Some r \<and> finished r)))"

lemma evicts_refl: "evicts runs runs"
  by (simp add: evicts_def)

lemma evicts_trans: "evicts a b \<Longrightarrow> evicts b c \<Longrightarrow> evicts a c"
  unfolding evicts_def by metis

lemma first_finished_Some:
  "first_finished runs order = Some (i, rest) \<Longrightarrow>
     i \<in> set order \<and> (\<exists>r. get runs i = Some r \<and> finished r) \<and> (distinct order \<longrightarrow> rest = filter (\<lambda>j. j \<noteq> i) order)"
proof (induction order arbitrary: rest)
  case (Cons j order)
  show ?case
  proof (cases "case get runs j of None \<Rightarrow> False | Some r \<Rightarrow> finished r")
    case True
    with Cons.prems have "j = i" "order = rest" by auto
    moreover have "filter (\<lambda>k. k \<noteq> j) order = order" if "distinct (j # order)"
      using that by (auto simp: filter_id_conv)
    ultimately show ?thesis using True by (auto split: option.splits)
  next
    case False
    with Cons.prems obtain more where "first_finished runs order = Some (i, more)" "rest = j # more" by auto
    with Cons.IH False show ?thesis by (auto split: option.splits)
  qed
qed simp

lemma first_finished_None:
  "first_finished runs order = None \<Longrightarrow> i \<in> set order \<Longrightarrow> get runs i = Some r \<Longrightarrow> \<not> finished r"
  by (induction order) (auto split: if_splits option.splits)

lemma table_ok_delete: "table_ok runs order \<Longrightarrow> table_ok (AList.delete i runs) (filter (\<lambda>j. j \<noteq> i) order)"
proof -
  have "fst ` set (AList.delete i d) = fst ` set d - {i}" for d :: "run_record dict"
    by (induction d) auto
  then show "table_ok runs order \<Longrightarrow> ?thesis" by (auto simp: table_ok_def)
qed

lemma length_eq_tally: "int (length d) = tally (\<lambda>_. True) d"
  by (simp add: tally_def)

text \<open>
  With fewer running runs than the retention limit there is always a finished one to evict:
  the loop succeeds, only finished runs are evicted, and none when there is room already.
\<close>

lemma makeRetentionRoom_ok:
  assumes "table_ok runs order" and "running_count runs < n"
  shows "\<exists>runs' order'. makeRetentionRoom n runs order = (None, runs', order') \<and> table_ok runs' order'
    \<and> int (length runs') < n \<and> evicts runs runs' \<and> running_count runs' = running_count runs
    \<and> (int (length runs) < n \<longrightarrow> runs' = runs)"
  using assms
proof (induction n runs order rule: makeRetentionRoom.induct)
  case (1 n runs order)
  show ?case
  proof (cases "int (length runs) < n")
    case True
    then show ?thesis
      using "1.prems"(1) by (subst makeRetentionRoom.simps) (simp add: evicts_refl)
  next
    case False
    have "first_finished runs order \<noteq> None"
    proof
      assume "first_finished runs order = None"
      then have "\<not> finished r" if "get runs i = Some r" for i r
        using that "1.prems"(1) first_finished_None [of runs order i r]
        by (force simp: table_ok_def dest: map_of_SomeD)
      then have "running_count runs = int (length runs)"
        using "1.prems"(1) by (intro tally_all) (auto simp: table_ok_def)
      with "1.prems"(2) False show False by simp
    qed
    then obtain i rest where ff: "first_finished runs order = Some (i, rest)" by auto
    with first_finished_Some [OF ff] "1.prems"(1) obtain r where
      r: "get runs i = Some r" "finished r" and rest: "rest = filter (\<lambda>j. j \<noteq> i) order"
      by (auto simp: table_ok_def)
    have ok: "table_ok (AList.delete i runs) rest"
      unfolding rest by (rule table_ok_delete [OF "1.prems"(1)])
    have count: "running_count (AList.delete i runs) = running_count runs"
      using "1.prems"(1) r by (simp add: tally_delete table_ok_def tally_at_def)
    with "1.prems"(2) have "running_count (AList.delete i runs) < n" by simp
    from "1.IH" [OF False ff HOL.refl ok this] obtain runs' order' where IH:
      "makeRetentionRoom n (AList.delete i runs) rest = (None, runs', order')" "table_ok runs' order'"
      "int (length runs') < n" "evicts (AList.delete i runs) runs'"
      "running_count runs' = running_count (AList.delete i runs)" by blast
    have "evicts runs (AList.delete i runs)" using r by (simp add: evicts_def)
    with IH(4) have "evicts runs runs'" by (rule evicts_trans [rotated])
    moreover have "makeRetentionRoom n runs order = (None, runs', order')"
      using IH(1) ff False by (subst makeRetentionRoom.simps) simp
    ultimately show ?thesis using IH(2,3,5) count False by auto
  qed
qed

subsection \<open>One run\<close>

text \<open>
  The events are numbered from one without gaps; their text is within the byte budget (base64
  makes four bytes of three); a run that has not ended has no outcome, one that has ended no
  buffers.
\<close>

definition run_ok :: "('w, 'a) manager_config \<Rightarrow> string \<Rightarrow> run_record \<Rightarrow> bool" where
  "run_ok cfg rid r \<longleftrightarrow> rr_runID r = rid \<and> validRunID rid
     \<and> map ev_Sequence (rr_events r) = [1..<rr_nextSeq r + 1]
     \<and> 0 \<le> rr_eventBytes r \<and> rr_eventBytes r \<le> mc_MaxEventBytesPerRun cfg
     \<and> 3 * (\<Sum>e\<leftarrow>rr_events r. int (length (ev_DataBase64 e))) \<le> 4 * rr_eventBytes r
     \<and> length (rr_structuredStdout r) \<le> MaxInputBytes
     \<and> (\<not> finished r \<longrightarrow> rr_endedAt r = None \<and> rr_exitCode r = None \<and> rr_structuredResult r = None \<and> rr_failure r = None)
     \<and> (finished r \<longrightarrow> rr_structuredSpec r = None \<and> rr_structuredStdout r = [])"

lemma length_encodeBase64: "3 * length (encodeBase64 d) \<le> 4 * (length d + 2)"
  by (induction d rule: encodeBase64.induct) auto

lemma collect_stdout_simps [simp]:
  "rr_runID (collect_stdout e r) = rr_runID r" "rr_events (collect_stdout e r) = rr_events r"
  "rr_eventBytes (collect_stdout e r) = rr_eventBytes r" "rr_nextSeq (collect_stdout e r) = rr_nextSeq r"
  "rr_status (collect_stdout e r) = rr_status r" "rr_endedAt (collect_stdout e r) = rr_endedAt r"
  "rr_exitCode (collect_stdout e r) = rr_exitCode r" "rr_structuredResult (collect_stdout e r) = rr_structuredResult r"
  "rr_failure (collect_stdout e r) = rr_failure r" "rr_startedAt (collect_stdout e r) = rr_startedAt r"
  "rr_structuredSpec (collect_stdout e r) = rr_structuredSpec r" "rr_audited (collect_stdout e r) = rr_audited r"
  by (simp_all add: collect_stdout_def)

lemma collect_stdout_bound:
  "length (rr_structuredStdout r) \<le> MaxInputBytes \<Longrightarrow> length (rr_structuredStdout (collect_stdout e r)) \<le> MaxInputBytes"
  by (auto simp: collect_stdout_def)

lemma append_event_simps [simp]:
  "rr_runID (append_event e r) = rr_runID r" "rr_status (append_event e r) = rr_status r"
  "rr_events (append_event e r) = rr_events r @ [stored_event (rr_nextSeq r + 1) e]"
  "rr_nextSeq (append_event e r) = rr_nextSeq r + 1"
  "rr_eventBytes (append_event e r) = rr_eventBytes r + event_charge e"
  "rr_audited (append_event e r) = rr_audited r"
  "rr_endedAt (append_event e r) = rr_endedAt r" "rr_exitCode (append_event e r) = rr_exitCode r"
  "rr_structuredResult (append_event e r) = rr_structuredResult r" "rr_failure (append_event e r) = rr_failure r"
  "rr_structuredSpec (append_event e r) = rr_structuredSpec r"
  "rr_structuredStdout (append_event e r) = rr_structuredStdout (collect_stdout e r)"
  by (simp_all add: append_event_def Let_def)

lemma finished_append_event [simp]: "finished (append_event e r) = finished r"
  by (simp add: finished_def)

lemma event_charge_pays: "3 * int (length (ev_DataBase64 (stored_event n e))) \<le> 4 * event_charge e"
  using length_encodeBase64 [of "ee_Data e"] by (auto simp: stored_event_def event_charge_def eventOverheadBytes_def)

lemma run_ok_append_event:
  assumes "run_ok cfg rid r" "\<not> finished r" "rr_eventBytes r + event_charge e \<le> mc_MaxEventBytesPerRun cfg"
  shows "run_ok cfg rid (append_event e r)"
proof -
  have "0 \<le> event_charge e" by (simp add: event_charge_def eventOverheadBytes_def)
  moreover have "ev_Sequence (stored_event n e) = n" for n by (simp add: stored_event_def)
  ultimately show ?thesis
    using assms collect_stdout_bound [of r e] event_charge_pays [of "rr_nextSeq r + 1" e]
    by (simp add: run_ok_def)
qed

lemma run_ok_new: "validRunID rid \<Longrightarrow> 0 \<le> mc_MaxEventBytesPerRun cfg \<Longrightarrow> run_ok cfg rid (new_record rid p)"
  by (simp add: run_ok_def new_record_def finished_def)

lemma new_record_running [simp]: "\<not> finished (new_record rid p)"
  by (simp add: new_record_def finished_def)

text \<open>The record a run is left with.\<close>

definition ended_record :: "'w end_env \<Rightarrow> exec_result \<Rightarrow> run_failure option \<Rightarrow> run_record \<Rightarrow> run_record" where
  "ended_record env res failed r = (set_outcome (xn_failTime env) res failed r)
     \<lparr>rr_structuredResult := structured_value (xn_stop env) res (failed \<noteq> None) r, rr_structuredSpec := None,
      rr_structuredRenderer := [], rr_structuredStdout := [], rr_structuredTooLarge := False\<rparr>"

lemma set_outcome_simps [simp]:
  "rr_runID (set_outcome now res failed r) = rr_runID r" "rr_events (set_outcome now res failed r) = rr_events r"
  "rr_eventBytes (set_outcome now res failed r) = rr_eventBytes r" "rr_nextSeq (set_outcome now res failed r) = rr_nextSeq r"
  "rr_audited (set_outcome now res failed r) = rr_audited r"
  by (simp_all add: set_outcome_def split: option.split)

lemma set_outcome_finished: "finished (set_outcome now res failed r)"
  by (simp add: set_outcome_def finished_def statusFromExecutor_def split: option.split exec_status.split)

lemma ended_record_simps [simp]:
  "rr_runID (ended_record env res failed r) = rr_runID r" "rr_events (ended_record env res failed r) = rr_events r"
  "rr_eventBytes (ended_record env res failed r) = rr_eventBytes r"
  "rr_nextSeq (ended_record env res failed r) = rr_nextSeq r" "finished (ended_record env res failed r)"
  "rr_audited (ended_record env res failed r) = rr_audited r"
  using set_outcome_finished [of "xn_failTime env" res failed r]
  by (simp_all add: ended_record_def finished_def)

lemma run_ok_ended: "run_ok cfg rid r \<Longrightarrow> run_ok cfg rid (ended_record env res failed r)"
  using ended_record_simps [of env res failed r] unfolding run_ok_def
  by (simp add: ended_record_def)

lemma audit_completion_simps [simp]:
  "mg_runs (audit_completion cfg w r m) = mg_runs m" "mg_order (audit_completion cfg w r m) = mg_order m"
  "mg_active (audit_completion cfg w r m) = mg_active m" "mg_approvals (audit_completion cfg w r m) = mg_approvals m"
  "mg_closed (audit_completion cfg w r m) = mg_closed m" "mg_ctxDone (audit_completion cfg w r m) = mg_ctxDone m"
  "mg_discovery (audit_completion cfg w r m) = mg_discovery m"
  by (simp_all add: audit_completion_def split: option.split prod.split bool.split)

lemma finish_active:
  assumes "get (mg_runs m) rid = Some r" "\<not> finished r"
  shows "finish cfg rid env res failed m =
    (audit_completion cfg (xn_audit env) (set_outcome (xn_failTime env) res failed r) (m\<lparr>mg_active := mg_active m - 1\<rparr>))
      \<lparr>mg_runs := AList.update rid (ended_record env res failed r) (mg_runs m)\<rparr>"
  using assms by (simp add: finish_def ended_record_def Let_def)

lemma finish_inactive:
  "(\<And>r. get (mg_runs m) rid = Some r \<Longrightarrow> finished r) \<Longrightarrow> finish cfg rid env res failed m = m"
  by (simp add: finish_def split: option.split)

subsection \<open>The manager\<close>

definition config_ok :: "('w, 'a) manager_config \<Rightarrow> bool" where
  "config_ok cfg \<longleftrightarrow> 0 < mc_MaxActive cfg \<and> mc_MaxActive cfg \<le> mc_MaxRetained cfg \<and> 0 \<le> mc_MaxEventBytesPerRun cfg
     \<and> 0 < mc_MaxApprovals cfg"

definition manager_ok :: "('w, 'a) manager_config \<Rightarrow> 'a manager \<Rightarrow> bool" where
  "manager_ok cfg m \<longleftrightarrow> table_ok (mg_runs m) (mg_order m)
     \<and> (\<forall>rid r. get (mg_runs m) rid = Some r \<longrightarrow> run_ok cfg rid r)
     \<and> mg_active m = running_count (mg_runs m) \<and> mg_active m \<le> mc_MaxActive cfg
     \<and> int (length (mg_runs m)) \<le> mc_MaxRetained cfg
     \<and> approvals_ok (nat (mc_MaxApprovals cfg)) (mg_approvals m)"

lemma keys_update: "fst ` set (AList.update i v d) = insert i (fst ` set d)"
  by (simp add: update_conv' flip: dom_map_of_conv_image_fst)

lemma table_ok_old: "table_ok runs order \<Longrightarrow> get runs i = Some r \<Longrightarrow> table_ok (AList.update i r' runs) order"
  using get_in_keys [of runs i r] by (auto simp: table_ok_def keys_update insert_absorb)

lemma table_ok_new: "table_ok runs order \<Longrightarrow> get runs i = None \<Longrightarrow> table_ok (AList.update i r runs) (order @ [i])"
  by (auto simp: table_ok_def keys_update map_of_eq_None_iff)

text \<open>An operation that changes one run's record, or ends it.\<close>

lemma manager_ok_replace:
  assumes "manager_ok cfg m" "get (mg_runs m) rid = Some r" "run_ok cfg rid r'"
    and "active = mg_active m + of_bool (\<not> finished r') - of_bool (\<not> finished r)" "active \<le> mc_MaxActive cfg"
    and "mg_runs m' = AList.update rid r' (mg_runs m)" "mg_order m' = mg_order m" "mg_approvals m' = mg_approvals m"
    "mg_active m' = active"
  shows "manager_ok cfg m'"
  using assms table_ok_old [of "mg_runs m" "mg_order m" rid r r'] length_update_old [of "mg_runs m" rid r r']
  by (auto simp: manager_ok_def tally_update tally_at_def)

lemma recordEvent_ok: "manager_ok cfg m \<Longrightarrow> manager_ok cfg (snd (recordEvent cfg rid e m))"
proof (cases "get (mg_runs m) rid")
  case (Some r)
  assume ok: "manager_ok cfg m"
  show ?thesis
  proof (cases "finished r \<or> mc_MaxEventBytesPerRun cfg < rr_eventBytes r + event_charge e")
    case True
    with ok Some show ?thesis by (auto simp: recordEvent_def)
  next
    case False
    have "run_ok cfg rid r" using ok Some by (simp add: manager_ok_def)
    with False have "run_ok cfg rid (append_event e r)" by (intro run_ok_append_event) simp_all
    moreover have "mg_active m \<le> mc_MaxActive cfg" using ok by (simp add: manager_ok_def)
    ultimately show ?thesis
      using Some False by (intro manager_ok_replace [OF ok Some, of "append_event e r" "mg_active m"]) (simp_all add: recordEvent_def)
  qed
qed (simp add: recordEvent_def)

lemma finish_ok: "manager_ok cfg m \<Longrightarrow> manager_ok cfg (finish cfg rid env res failed m)"
proof (cases "\<exists>r. get (mg_runs m) rid = Some r \<and> \<not> finished r")
  case True
  assume ok: "manager_ok cfg m"
  from True obtain r where r: "get (mg_runs m) rid = Some r" "\<not> finished r" by blast
  have "run_ok cfg rid (ended_record env res failed r)"
    using ok r(1) by (intro run_ok_ended) (simp add: manager_ok_def)
  moreover have "mg_active m - 1 \<le> mc_MaxActive cfg" using ok by (simp add: manager_ok_def)
  ultimately show ?thesis
    using r by (intro manager_ok_replace [OF ok r(1), of "ended_record env res failed r" "mg_active m - 1"])
      (simp_all add: finish_active [OF r])
next
  case False
  assume "manager_ok cfg m"
  with False show ?thesis by (subst finish_inactive) auto
qed

lemma authorise_fields:
  assumes "authorise cfg w now rid p fp approval m = (r, m1)"
  shows "mg_runs m1 = mg_runs m" "mg_order m1 = mg_order m" "mg_active m1 = mg_active m" "mg_closed m1 = mg_closed m"
    "mg_ctxDone m1 = mg_ctxDone m" "mg_discovery m1 = mg_discovery m"
    "mg_approvals m1 = mg_approvals m \<or> mg_approvals m1 = snd (consumeApproval fp approval now (mg_approvals m))"
  using assms by (auto simp: authorise_def Let_def split: if_splits option.splits prod.splits bool.splits)

lemma manager_ok_approvals:
  "manager_ok cfg m \<Longrightarrow> approvals_ok (nat (mc_MaxApprovals cfg)) t \<Longrightarrow> mg_runs m' = mg_runs m \<Longrightarrow> mg_order m' = mg_order m
    \<Longrightarrow> mg_active m' = mg_active m \<Longrightarrow> mg_approvals m' = t \<Longrightarrow> manager_ok cfg m'"
  by (simp add: manager_ok_def)

lemma authorise_ok:
  assumes "manager_ok cfg m" "authorise cfg w now rid p fp approval m = (r, m1)"
  shows "manager_ok cfg m1"
proof -
  have "approvals_ok (nat (mc_MaxApprovals cfg)) (mg_approvals m)"
    using assms(1) by (simp add: manager_ok_def)
  then have "approvals_ok (nat (mc_MaxApprovals cfg)) (mg_approvals m1)"
    using authorise_fields(7) [OF assms(2)] approvals_ok_consume by metis
  with authorise_fields(1-3) [OF assms(2)] show ?thesis by (intro manager_ok_approvals [OF assms(1)]) simp_all
qed

text \<open>Registering a run always finds room; it evicts finished runs only.\<close>

lemma register_run_ok:
  assumes ok: "manager_ok cfg m" and c: "config_ok cfg" and "validRunID rid" "get (mg_runs m) rid = None"
    and room: "mg_active m < mc_MaxActive cfg"
  shows "\<exists>runs order. register_run cfg rid p m = (Inr (record_snapshot (new_record rid p)),
       m\<lparr>mg_runs := AList.update rid (new_record rid p) runs, mg_order := order @ [rid], mg_active := mg_active m + 1\<rparr>)
     \<and> evicts (mg_runs m) runs \<and> manager_ok cfg (snd (register_run cfg rid p m))"
proof -
  have "table_ok (mg_runs m) (mg_order m)" "running_count (mg_runs m) < mc_MaxRetained cfg"
    using ok c room by (simp_all add: manager_ok_def config_ok_def)
  from makeRetentionRoom_ok [OF this] obtain runs order where R:
    "makeRetentionRoom (mc_MaxRetained cfg) (mg_runs m) (mg_order m) = (None, runs, order)" "table_ok runs order"
    "int (length runs) < mc_MaxRetained cfg" "evicts (mg_runs m) runs" "running_count runs = running_count (mg_runs m)" by blast
  have new: "get runs rid = None" using R(4) assms(4) unfolding evicts_def by metis
  have kept: "run_ok cfg i r" if "get runs i = Some r" for i r
  proof -
    have "get (mg_runs m) i = Some r" using R(4) that unfolding evicts_def by (metis option.distinct(1))
    with ok show ?thesis by (simp add: manager_ok_def)
  qed
  have reg: "register_run cfg rid p m = (Inr (record_snapshot (new_record rid p)),
       m\<lparr>mg_runs := AList.update rid (new_record rid p) runs, mg_order := order @ [rid], mg_active := mg_active m + 1\<rparr>)"
    by (simp add: register_run_def R(1))
  have "manager_ok cfg (snd (register_run cfg rid p m))"
    using ok room R(3,5) new kept table_ok_new [OF R(2) new] run_ok_new [OF assms(3)] c length_update_new [OF new]
    by (auto simp: reg manager_ok_def config_ok_def tally_update tally_at_def)
  with reg R(4) show ?thesis by blast
qed

text \<open>The three ways a commit ends: refused before anything, refused by the authorisation, admitted.\<close>

lemma Start_commit_cases:
  assumes "Start_commit cfg w now rid p fp approval m = (r, m')"
  obtains (refused) e where "r = Inl e" "m' = m"
  | (unauthorised) e where "\<not> manager_closed m" "authorise cfg w now rid p fp approval m = (Some e, m')" "r = Inl e"
      "get (mg_runs m) rid = None"
  | (admitted) m1 where "\<not> manager_closed m" "mg_active m < mc_MaxActive cfg" "get (mg_runs m) rid = None"
      "authorise cfg w now rid p fp approval m = (None, m1)" "register_run cfg rid p m1 = (r, m')"
  using assms unfolding Start_commit_def by (auto split: if_splits prod.splits option.splits)

lemma Start_commit_ok:
  assumes "manager_ok cfg m" "config_ok cfg" "validRunID rid" "Start_commit cfg w now rid p fp approval m = (r, m')"
  shows "manager_ok cfg m'"
  using assms(4)
proof (cases rule: Start_commit_cases)
  case (refused e)
  with assms(1) show ?thesis by simp
next
  case (unauthorised e)
  from authorise_ok [OF assms(1) unauthorised(2)] show ?thesis .
next
  case (admitted m1)
  note f = authorise_fields [OF admitted(4)]
  from register_run_ok [OF authorise_ok [OF assms(1) admitted(4)] assms(2,3), of p] admitted f show ?thesis
    by auto
qed

lemma Preview_ok:
  assumes "manager_ok cfg m" "config_ok cfg" "Preview cfg b now newID req m0 m = (r, m')"
  shows "manager_ok cfg m'"
proof -
  have t: "approvals_ok (nat (mc_MaxApprovals cfg)) (mg_approvals m)" "0 < nat (mc_MaxApprovals cfg)"
    using assms(1,2) by (simp_all add: manager_ok_def config_ok_def)
  have iss: "approvals_ok (nat (mc_MaxApprovals cfg)) t'"
    if "issueApproval sha (nat (mc_MaxApprovals cfg)) ttl closed now newID p ctx (mg_approvals m) = (x, t')" for sha ttl closed p ctx x t'
    using that t issueApproval_Inl approvals_ok_store [OF t] by (cases x) (auto dest!: issueApproval_Inr issueApproval_Inl)
  have "m' = m \<or> (\<exists>t'. m' = m\<lparr>mg_approvals := t'\<rparr> \<and> approvals_ok (nat (mc_MaxApprovals cfg)) t')"
    using assms(3) unfolding Preview_def
    by (auto split: if_splits sum.splits prod.splits dest: iss)
  with assms(1) show ?thesis
    by (elim disjE exE conjE) (auto intro: manager_ok_approvals)
qed

lemma step_ok:
  assumes "step cfg b m m'" "config_ok cfg" "manager_ok cfg m"
  shows "manager_ok cfg m'"
  using assms(1)
proof (cases rule: step.cases)
  case (preview now newID req m0 r)
  from Preview_ok [OF assms(3,2) this] show ?thesis .
next
  case (commit snap req p fp rid w now approval r)
  from Start_commit_ok [OF assms(3,2) commit(3,4)] show ?thesis .
next
  case (event rid e r)
  with recordEvent_ok [OF assms(3), of rid e] show ?thesis by simp
next
  case (ended rid env res failed)
  with finish_ok [OF assms(3)] show ?thesis by simp
next
  case (cancel rid r)
  show ?thesis
  proof (cases "m' = m")
    case False
    with cancel obtain q where q: "get (mg_runs m) rid = Some q" "\<not> finished q"
        "m' = m\<lparr>mg_runs := AList.update rid (q\<lparr>rr_cancelled := True\<rparr>) (mg_runs m)\<rparr>"
      by (auto simp: Cancel_def split: if_splits option.splits)
    then have "run_ok cfg rid (q\<lparr>rr_cancelled := True\<rparr>)"
      using assms(3) by (auto simp: manager_ok_def run_ok_def finished_def)
    moreover have "mg_active m \<le> mc_MaxActive cfg" using assms(3) by (simp add: manager_ok_def)
    ultimately show ?thesis
      using q by (intro manager_ok_replace [OF assms(3) q(1), of "q\<lparr>rr_cancelled := True\<rparr>" "mg_active m"])
        (simp_all add: finished_def)
  qed (use assms(3) in simp)
next
  case (activate fs st r)
  then have "m' = m \<or> (\<exists>d. m' = m\<lparr>mg_discovery := d\<rparr>)"
    by (auto simp: ActivateTool_def Let_def split: if_splits option.splits)
  with assms(3) show ?thesis by (auto simp: manager_ok_def)
next
  case shutdown
  with assms(3) show ?thesis by (auto simp: manager_ok_def Shutdown_def approvals_ok_def)
next
  case context_done
  with assms(3) show ?thesis by (auto simp: manager_ok_def)
qed

lemma steps_ok: "steps cfg b m m' \<Longrightarrow> config_ok cfg \<Longrightarrow> manager_ok cfg m \<Longrightarrow> manager_ok cfg m'"
  by (induction rule: steps.induct) (auto intro: step_ok)

text \<open>A configuration that \<open>NewManager\<close> accepts, and the manager it starts with.\<close>

lemma NewManager_ok:
  assumes "NewManager hasParent reg snap config audit = (Some cfg, Some m)"
  shows "config_ok cfg \<and> manager_ok cfg m"
proof -
  have c: "cfg = with_defaults config" "mc_MaxActive cfg \<le> mc_MaxRetained cfg"
    and m: "m = \<lparr>mg_discovery = snap, mg_ctxDone = False, mg_runs = [], mg_order = [], mg_approvals = [],
              mg_active = 0, mg_auditFailed = False, mg_closed = False, mg_audit = audit\<rparr>"
    using assms by (auto simp: NewManager_def Let_def split: if_splits)
  have "config_ok cfg" using c by (simp add: config_ok_def with_defaults_def positive_or_def)
  then show ?thesis
    by (auto simp: m manager_ok_def config_ok_def table_ok_def approvals_ok_def)
qed

end
