(* ===== verification/AuditFormat.thy ===== *)
theory AuditFormat
  imports AuditTrail
begin

section \<open>The lines of the journal read back\<close>

text \<open>
  A line is written and read without loss: numbers, objects and entries round trip, an entry is
  one line without control bytes, and whatever a line holds, the entry decoded from it is well
  formed (\<open>entry_wf\<close>), provided package time reads back what it writes (\<open>time_laws\<close>).
\<close>

subsection \<open>Numbers\<close>

lemma show_nat_all_digits: "list_all is_digit (show_nat n)"
  using show_nat_digits [of n] by (simp add: list_all_iff)

lemma parse_uint64_show_nat: "n < 2 ^ 64 \<Longrightarrow> parse_uint64 (show_nat n) = Some n"
  by (simp add: parse_uint64_def show_nat_all_digits nat_of_digits_show_nat)

lemma show_nat_no_minus: "take 1 (show_nat n) \<noteq> ''-''"
  using show_nat_digits [of n] by (cases "show_nat n") (auto simp: is_digit_def byte_def)

lemma parse_int64_show_int: "int64_min \<le> i \<Longrightarrow> i \<le> int64_max \<Longrightarrow> parse_int64 (show_int i) = Some i"
  using show_nat_no_minus [of "nat i"]
  by (auto simp: parse_int64_def show_int_def show_nat_all_digits nat_of_digits_show_nat Let_def)

lemma show_nat_leading: "n \<noteq> 0 \<Longrightarrow> \<exists>d ds. show_nat n = d # ds \<and> d \<noteq> CHR ''0'' \<and> is_digit d"
proof (induction n rule: show_nat.induct)
  case (1 n)
  show ?case
  proof (cases "n < 10")
    case True
    with 1 have "byte (digit_char n) \<noteq> 48" and "byte CHR ''0'' = 48"
      using byte_digit_char [of n] by (simp_all add: byte_def)
    then have "digit_char n \<noteq> CHR ''0''" by metis
    with True show ?thesis
      by (subst show_nat.simps) (auto simp: byte_digit_char is_digit_def)
  next
    case False
    then have "n div 10 \<noteq> 0" by auto
    with 1 False obtain d ds where "show_nat (n div 10) = d # ds" "d \<noteq> CHR ''0''" "is_digit d"
      by blast
    with False show ?thesis by (subst show_nat.simps) simp
  qed
qed

lemma show_nat_0: "show_nat 0 = ''0''"
proof -
  have "byte (digit_char 0) = byte CHR ''0''" by (simp add: byte_digit_char) (simp add: byte_def)
  then have "digit_char 0 = CHR ''0''" by (simp add: byte_inject)
  then show ?thesis by (subst show_nat.simps) simp
qed

text \<open>What follows a value inside an object.\<close>

definition ends_value :: "string \<Rightarrow> bool" where
  "ends_value r \<longleftrightarrow> (\<exists>t. r = CHR '','' # t \<or> r = CHR ''}'' # t)"

lemma lex_fraction_end: "ends_value r \<Longrightarrow> lex_fraction a r = Some (a, r)"
  by (auto simp: ends_value_def lex_fraction_def lex_exponent_def)

lemma span_digits:
  assumes "list_all is_digit ds" "ends_value r"
  shows "digits (ds @ r) = (ds, r)"
proof -
  have "\<not> is_digit (hd r)" "r \<noteq> []" using assms(2) by (auto simp: ends_value_def is_digit_def byte_def)
  with assms(1) show ?thesis
    by (induction ds) (auto simp: digits_def takeWhile_eq_Nil_iff dropWhile_eq_self_iff)
qed

lemma lex_number_show_nat:
  assumes "ends_value r"
  shows "lex_number (show_nat n @ r) = Some (show_nat n, r)"
    and "lex_number (CHR ''-'' # show_nat n @ r) = Some (CHR ''-'' # show_nat n, r)"
proof -
  have digs: "digits (show_nat n @ r) = (show_nat n, r)"
    by (rule span_digits [OF show_nat_all_digits assms])
  have "lex_number (show_nat n @ r) = Some (show_nat n, r)
      \<and> lex_number (CHR ''-'' # show_nat n @ r) = Some (CHR ''-'' # show_nat n, r)"
  proof (cases "n = 0")
    case True
    with assms show ?thesis by (simp add: show_nat_0 lex_number_def lex_fraction_end)
  next
    case False
    from show_nat_leading [OF this] obtain d ds where d: "show_nat n = d # ds" "d \<noteq> CHR ''0''" "is_digit d"
      by blast
    then have "d \<noteq> CHR ''-''" by (auto simp: is_digit_def byte_def)
    with d digs assms show ?thesis by (simp add: lex_number_def lex_fraction_end)
  qed
  then show "lex_number (show_nat n @ r) = Some (show_nat n, r)"
    and "lex_number (CHR ''-'' # show_nat n @ r) = Some (CHR ''-'' # show_nat n, r)"
    by blast+
qed

subsection \<open>Reading an object that was written\<close>

text \<open>A text that the scanner delimits as one scalar, whatever closes it.\<close>

definition lexes :: "string \<Rightarrow> scalar \<Rightarrow> bool" where
  "lexes v sc \<longleftrightarrow> v \<noteq> [] \<and> \<not> json_ws (hd v)
     \<and> (\<forall>r. ends_value r \<longrightarrow> lex_scalar (v @ r) = Some (sc, r))"

lemma lexes_quote: "valid_utf8 s \<Longrightarrow> lexes (quote s) (SStr s)"
  by (simp add: lexes_def quote_def lex_scalar_def lex_string_quote_body json_ws_def)

lemma digit_not_letter: "is_digit d \<Longrightarrow> d \<noteq> dquote \<and> d \<noteq> CHR ''n'' \<and> d \<noteq> CHR ''t'' \<and> d \<noteq> CHR ''f'' \<and> \<not> json_ws d"
  by (auto simp: is_digit_def byte_def json_ws_def)

lemma lexes_show_nat: "lexes (show_nat n) (SNum (show_nat n))"
proof -
  obtain d ds where d: "show_nat n = d # ds" by (cases "show_nat n") auto
  moreover have "is_digit d" using show_nat_digits [of n] d by simp
  ultimately show ?thesis
    using digit_not_letter lex_number_show_nat(1) [of _ n]
    by (auto simp: lexes_def lex_scalar_def has_prefix_def)
qed

lemma lexes_show_int: "lexes (show_int i) (SNum (show_int i))"
proof (cases "i < 0")
  case True
  then show ?thesis
    using lex_number_show_nat(2) [of _ "nat (- i)"]
    by (auto simp: lexes_def show_int_def lex_scalar_def has_prefix_def json_ws_def)
next
  case False
  then show ?thesis using lexes_show_nat by (simp add: show_int_def)
qed

definition member_of :: "string \<Rightarrow> string \<times> scalar \<Rightarrow> bool" where
  "member_of s kv \<longleftrightarrow> (\<exists>v. s = json_field (fst kv) v \<and> valid_utf8 (fst kv) \<and> lexes v (snd kv))"

lemma skip_ws_id: "s \<noteq> [] \<Longrightarrow> \<not> json_ws (hd s) \<Longrightarrow> skip_ws s = s"
  by (cases s) simp_all

lemma lex_member_written:
  assumes "member_of s kv" and "ends_value r"
  shows "lex_member (s @ r) = Some (kv, r)"
proof -
  obtain v where s: "s = json_field (fst kv) v" and k: "valid_utf8 (fst kv)" and v: "lexes v (snd kv)"
    using assms(1) by (auto simp: member_of_def)
  have "skip_ws (v @ r) = v @ r" using v by (auto simp: lexes_def intro: skip_ws_id)
  moreover have "lex_scalar (v @ r) = Some (snd kv, r)" using v assms(2) by (simp add: lexes_def)
  ultimately show ?thesis
    using k by (simp add: lex_member_def s json_field_def quote_def json_ws_def lex_string_quote_body)
qed

lemma lex_members_written:
  "list_all2 member_of ss kvs \<Longrightarrow> ss \<noteq> [] \<Longrightarrow> lex_members (json_join ss @ CHR ''}'' # r) = Some (kvs, r)"
proof (induction ss kvs rule: list_all2_induct)
  case Nil
  then show ?case by simp
next
  case (Cons s ss kv kvs)
  show ?case
  proof (cases ss)
    case Nil
    with Cons have "kvs = []" by simp
    with Nil show ?thesis
      using lex_member_written [OF Cons.hyps(1), of "CHR ''}'' # r"]
      by (subst lex_members.simps) (simp add: ends_value_def json_ws_def)
  next
    case (Cons s' ss')
    then have "lex_members (json_join ss @ CHR ''}'' # r) = Some (kvs, r)" using Cons.IH by simp
    with Cons show ?thesis
      using lex_member_written [OF Cons.hyps(1), of "CHR '','' # json_join ss @ CHR ''}'' # r"]
      by (subst lex_members.simps) (simp add: ends_value_def json_ws_def)
  qed
qed

lemma lex_object_written:
  assumes "list_all2 member_of ss kvs" "ss \<noteq> []"
  shows "lex_object (json_object ss @ r) = Some (kvs, r)"
proof -
  obtain s ss' kv where "ss = s # ss'" "member_of s kv"
    using assms by (cases ss; cases kvs) auto
  then obtain t where "json_join ss @ CHR ''}'' # r = dquote # t"
    by (cases ss') (auto simp: member_of_def json_field_def quote_def)
  with lex_members_written [OF assms, of r] show ?thesis
    by (simp add: lex_object_def json_object_def json_ws_def)
qed

subsection \<open>The round trip of an entry\<close>

definition opt_value :: "string \<Rightarrow> string \<Rightarrow> (string \<times> scalar) list" where
  "opt_value k v = (if v = [] then [] else [(k, SStr v)])"

definition entry_values :: "entry \<Rightarrow> (string \<times> scalar) list" where
  "entry_values e =
     [(''sequence'', SNum (show_nat (en_Sequence e))), (''previousHash'', SStr (en_PreviousHash e)),
      (''hash'', SStr (en_Hash e)), (''runId'', SStr (en_RunID e)), (''time'', SStr (en_Time e)),
      (''action'', SStr (en_Action e))]
     @ opt_value ''packId'' (en_PackID e) @ opt_value ''commandId'' (en_CommandID e)
     @ opt_value ''risk'' (en_Risk e) @ opt_value ''targetLabel'' (en_TargetLabel e)
     @ opt_value ''target'' (en_Target e) @ opt_value ''effect'' (en_Effect e)
     @ opt_value ''scope'' (en_Scope e) @ opt_value ''status'' (en_Status e)
     @ (case en_ExitCode e of None \<Rightarrow> [] | Some c \<Rightarrow> [(''exitCode'', SNum (show_int c))])
     @ [(''undo'', SStr (en_Undo e))]"

definition entry_texts :: "entry \<Rightarrow> string list" where
  "entry_texts e = [en_PreviousHash e, en_Hash e, en_RunID e, en_Time e, en_Action e, en_PackID e, en_CommandID e,
     en_Risk e, en_TargetLabel e, en_Target e, en_Effect e, en_Scope e, en_Status e, en_Undo e]"

text \<open>An entry Go can hold: texts of valid UTF-8, a canonical time, integers of 64 bits.\<close>

definition entry_wf :: "time_lib \<Rightarrow> entry \<Rightarrow> bool" where
  "entry_wf tm e \<longleftrightarrow> list_all valid_utf8 (entry_texts e) \<and> tm_canon tm (en_Time e) = Some (en_Time e)
     \<and> en_Sequence e < 2 ^ 64
     \<and> (case en_ExitCode e of None \<Rightarrow> True | Some c \<Rightarrow> int64_min \<le> c \<and> c \<le> int64_max)"

lemma entry_keys_ascii: "list_all valid_utf8 entry_keys"
  by (simp add: entry_keys_def ascii_valid ascii_def byte_def)

lemma member_of_text: "k \<in> set entry_keys \<Longrightarrow> valid_utf8 v \<Longrightarrow> member_of (json_field k (quote v)) (k, SStr v)"
  using entry_keys_ascii by (auto simp: member_of_def list_all_iff intro: lexes_quote)

lemma member_of_opt:
  "k \<in> set entry_keys \<Longrightarrow> valid_utf8 v \<Longrightarrow> list_all2 member_of (opt_field k v) (opt_value k v)"
  by (simp add: opt_field_def opt_value_def member_of_text)

lemma entry_members_written:
  assumes "entry_wf tm e"
  shows "list_all2 member_of (entry_members e) (entry_values e)"
proof -
  have keys: "k \<in> set entry_keys \<Longrightarrow> valid_utf8 k" for k using entry_keys_ascii by (simp add: list_all_iff)
  have num: "k \<in> set entry_keys \<Longrightarrow> member_of (json_field k (show_nat n)) (k, SNum (show_nat n))" for k n
    using keys lexes_show_nat by (auto simp: member_of_def)
  have exit: "list_all2 member_of (case en_ExitCode e of None \<Rightarrow> [] | Some c \<Rightarrow> [json_field ''exitCode'' (show_int c)])
      (case en_ExitCode e of None \<Rightarrow> [] | Some c \<Rightarrow> [(''exitCode'', SNum (show_int c))])"
    using keys [of "''exitCode''"] lexes_show_int by (auto simp: member_of_def entry_keys_def split: option.split)
  have texts: "valid_utf8 v" if "v \<in> set (entry_texts e)" for v
    using assms that by (auto simp: entry_wf_def list_all_iff)
  show ?thesis
    unfolding entry_members_def entry_values_def
    by (intro list_all2_appendI list.rel_intros member_of_opt member_of_text num exit)
      (simp_all add: entry_keys_def texts entry_texts_def)
qed

lemma set_fields_append:
  "set_fields tm (xs @ ys) e = (case set_fields tm xs e of None \<Rightarrow> None | Some e' \<Rightarrow> set_fields tm ys e')"
  by (induction tm xs e rule: set_fields.induct) (auto split: option.splits)

declare set_fields.simps(2) [simp del]

lemma set_fields_step:
  assumes "k \<in> set entry_keys" and "set_field tm k v e = Some e'"
  shows "set_fields tm ((k, v) # ms) e = set_fields tm ms e'"
  using assms by (simp add: field_of_key_def set_fields.simps(2))

text \<open>An optional text field fills a field that is still empty.\<close>

lemma set_fields_opt:
  assumes "k \<in> set entry_keys" and "set_field tm k (SStr v) e = Some e'" and "v = [] \<Longrightarrow> e' = e"
  shows "set_fields tm (opt_value k v @ ms) e = set_fields tm ms e'"
  using assms by (simp add: opt_value_def set_fields_step)

lemma set_fields_opt_texts:
  "en_PackID x = [] \<Longrightarrow>
     set_fields tm (opt_value ''packId'' v @ ms) x = set_fields tm ms (x\<lparr>en_PackID := v\<rparr>)"
  "en_CommandID x = [] \<Longrightarrow>
     set_fields tm (opt_value ''commandId'' v @ ms) x = set_fields tm ms (x\<lparr>en_CommandID := v\<rparr>)"
  "en_Risk x = [] \<Longrightarrow>
     set_fields tm (opt_value ''risk'' v @ ms) x = set_fields tm ms (x\<lparr>en_Risk := v\<rparr>)"
  "en_TargetLabel x = [] \<Longrightarrow>
     set_fields tm (opt_value ''targetLabel'' v @ ms) x = set_fields tm ms (x\<lparr>en_TargetLabel := v\<rparr>)"
  "en_Target x = [] \<Longrightarrow>
     set_fields tm (opt_value ''target'' v @ ms) x = set_fields tm ms (x\<lparr>en_Target := v\<rparr>)"
  "en_Effect x = [] \<Longrightarrow>
     set_fields tm (opt_value ''effect'' v @ ms) x = set_fields tm ms (x\<lparr>en_Effect := v\<rparr>)"
  "en_Scope x = [] \<Longrightarrow>
     set_fields tm (opt_value ''scope'' v @ ms) x = set_fields tm ms (x\<lparr>en_Scope := v\<rparr>)"
  "en_Status x = [] \<Longrightarrow>
     set_fields tm (opt_value ''status'' v @ ms) x = set_fields tm ms (x\<lparr>en_Status := v\<rparr>)"
  by (rule set_fields_opt; auto simp: entry_keys_def set_field_def text_value_def)+

lemma set_fields_entry:
  assumes "entry_wf tm e"
  shows "set_fields tm (entry_values e) zero_entry = Some e"
proof -
  have num: "parse_uint64 (show_nat (en_Sequence e)) = Some (en_Sequence e)"
    using assms by (simp add: entry_wf_def parse_uint64_show_nat)
  have time: "tm_canon tm (en_Time e) = Some (en_Time e)"
    using assms by (simp add: entry_wf_def)
  have exit: "set_fields tm ((case en_ExitCode e of None \<Rightarrow> [] | Some c \<Rightarrow> [(''exitCode'', SNum (show_int c))]) @ ms) x
      = set_fields tm ms (x\<lparr>en_ExitCode := en_ExitCode e\<rparr>)" if "en_ExitCode x = None" for ms x
  proof (cases "en_ExitCode e")
    case None
    with that show ?thesis by (cases x) simp
  next
    case (Some c)
    then have "parse_int64 (show_int c) = Some c"
      using assms by (simp add: entry_wf_def parse_int64_show_int)
    with Some show ?thesis
      by (simp add: set_fields_step [of "''exitCode''"] entry_keys_def set_field_def)
  qed
  have key: "k \<in> set entry_keys" if "k \<in> set [''sequence'', ''previousHash'', ''hash'', ''runId'', ''time'',
      ''action'', ''packId'', ''commandId'', ''risk'', ''targetLabel'', ''target'', ''effect'', ''scope'',
      ''status'', ''exitCode'', ''undo'']" for k
    using that by (simp add: entry_keys_def)
  show ?thesis
    by (simp add: entry_values_def set_fields_step key set_field_def num time text_value_def
        set_fields_opt_texts exit zero_entry_def)
qed

lemma strict_scalar_object: "strict_scalar (CHR ''{'' # s) \<noteq> Some SNull"
  by (simp add: strict_scalar_def lex_scalar_def json_ws_def has_prefix_def lex_number_def is_digit_def byte_def)

lemma entry_members_nonempty: "entry_members e \<noteq> []"
  by (simp add: entry_members_def)

lemma decode_encode_entry:
  assumes "entry_wf tm e"
  shows "decode_entry tm (encode_entry e @ [newline]) = Some e"
proof -
  have "lex_object (encode_entry e @ [newline]) = Some (entry_values e, [newline])"
    unfolding encode_entry_def
    by (rule lex_object_written [OF entry_members_written [OF assms] entry_members_nonempty])
  moreover have "strict_scalar (encode_entry e @ [newline]) \<noteq> Some SNull"
    using strict_scalar_object by (simp add: encode_entry_def json_object_def)
  moreover have "skip_ws [newline] = []" by (simp add: newline_def json_ws_def)
  ultimately show ?thesis
    unfolding decode_entry_def using set_fields_entry [OF assms] by (simp del: set_fields.simps dropWhile.simps)
qed

lemma encode_entry_inject:
  assumes "entry_wf tm a" "entry_wf tm b" "encode_entry a = encode_entry b"
  shows "a = b"
  by (metis assms decode_encode_entry option.inject)

text \<open>An encoded entry holds no control byte, so it is one line of the journal.\<close>

lemma json_join_bytes: "b \<in> set (json_join ss) \<Longrightarrow> b = CHR '','' \<or> (\<exists>s \<in> set ss. b \<in> set s)"
  by (induction ss rule: json_join.induct) auto

lemma member_printable:
  assumes "s \<in> set (entry_members e)" and "b \<in> set s"
  shows "32 \<le> byte b"
proof -
  have num: "32 \<le> byte d" if "d \<in> set (show_nat n)" for d n
    using that show_nat_digits [of n] by (auto simp: is_digit_def)
  have int: "32 \<le> byte d" if "d \<in> set (show_int n)" for d n
    using that num by (auto simp: show_int_def byte_def split: if_splits)
  have field: "32 \<le> byte d" if "d \<in> set (json_field k v)" "\<And>c. c \<in> set v \<Longrightarrow> 32 \<le> byte c" for d k v
    using that quote_no_control [of d k] by (auto simp: json_field_def byte_def)
  have opt: "32 \<le> byte d" if "t \<in> set (opt_field k v)" "d \<in> set t" for d t k v
    using that field [of d k "quote v"] quote_no_control by (auto simp: opt_field_def split: if_splits)
  consider (req) k v where "s = json_field k (quote v)" | (opt) k v where "s \<in> set (opt_field k v)"
    | (seq) "s = json_field ''sequence'' (show_nat (en_Sequence e))"
    | (code) c where "s = json_field ''exitCode'' (show_int c)"
    using assms(1) unfolding entry_members_def by (auto split: option.splits)
  then show ?thesis
    using assms(2) opt field num int quote_no_control by cases metis+
qed

lemma encode_entry_printable: "b \<in> set (encode_entry e) \<Longrightarrow> 32 \<le> byte b"
  using json_join_bytes [of b "entry_members e"] member_printable
  by (auto simp: encode_entry_def json_object_def byte_def)

lemma encode_entry_one_line: "newline \<notin> set (encode_entry e)"
  using encode_entry_printable by (force simp: newline_def byte_def)

subsection \<open>Texts the decoder produces\<close>

lemma valid_utf8_piece:
  assumes "s \<noteq> []" "decode_rune s \<noteq> (RuneError, 1)" "valid_utf8 t"
  shows "valid_utf8 (take (snd (decode_rune s)) s @ t)"
proof (cases "take (snd (decode_rune s)) s @ t")
  case (Cons c cs)
  define w where "w = snd (decode_rune s)"
  have w: "0 < w" "w \<le> length s"
    using decode_rune_width_pos [of s] decode_rune_width_le [of s] assms(1) by (simp_all add: w_def)
  then obtain k where k: "w = Suc k" by (cases w) auto
  have "decode_rune (c # cs) = decode_rune s"
    using decode_rune_take [OF assms(1,2), of t] Cons by simp
  moreover have "drop k cs = t"
  proof -
    have "drop w (take w s @ t) = t" using w(2) by simp
    then have "drop w (c # cs) = t" using Cons by (simp only: w_def)
    with k show ?thesis by simp
  qed
  ultimately have "rune_seq (c # cs) = decode_rune s # rune_seq t"
    using k by (simp add: Let_def flip: w_def)
  with assms Cons show ?thesis by (auto simp: valid_utf8_def)
next
  case Nil
  then show ?thesis by (simp only: valid_utf8_Nil)
qed

lemma encode_rune_valid: "valid_utf8 (encode_rune r)"
proof -
  define q where "q = (if (0xD800 \<le> r \<and> r \<le> 0xDFFF) \<or> 0x10FFFF < r then RuneError else r)"
  have q: "q \<le> 0x10FFFF" "\<not> (0xD800 \<le> q \<and> q \<le> 0xDFFF)" by (auto simp: q_def RuneError_def)
  have enc: "encode_rune r = encode_rune q"
    using q by (simp add: encode_rune_def q_def Let_def RuneError_def)
  consider (one) "q < 0x80" | (two) "0x80 \<le> q" "q < 0x800" | (three) "0x800 \<le> q" "q < 0x10000"
    | (four) "0x10000 \<le> q" by linarith
  then have "snd (decode_rune (encode_rune q)) = length (encode_rune q) \<and> decode_rune (encode_rune q) \<noteq> (RuneError, 1)"
  proof cases
    case one
    then show ?thesis by (simp add: encode_rune_def Let_def RuneError_def)
  next
    case two
    then have "q div 64 < 32" "2 \<le> q div 64" by auto
    with two q show ?thesis
      by (simp add: encode_rune_def Let_def RuneError_def cont_byte_def decode_rune.simps(2))
  next
    case three
    then have b: "q div 4096 < 16" "(q div 64) mod 64 < 64" "q mod 64 < 64" by auto
    have e: "encode_rune q = [char_of (0xE0 + q div 4096), char_of (0x80 + (q div 64) mod 64), char_of (0x80 + q mod 64)]"
      using three q by (auto simp: encode_rune_def Let_def)
    have low: "q div 4096 = 0 \<Longrightarrow> 32 \<le> (q div 64) mod 64" using three by auto
    have high: "q div 4096 = 13 \<Longrightarrow> (q div 64) mod 64 < 32"
    proof -
      assume "q div 4096 = 13"
      moreover from this three have "q < 57344" by auto
      with q have "q < 55296" by auto
      moreover have "q div 64 = 64 * (q div 4096) + (q div 64) mod 64"
        using div_mult_mod_eq [of "q div 64" 64] by (simp flip: div_mult2_eq)
      ultimately show "(q div 64) mod 64 < 32" by auto
    qed
    show ?thesis
      using b low high by (auto simp: e cont_byte_def decode_rune.simps(2) Let_def)
  next
    case four
    then have b: "q div 262144 \<le> 4" "(q div 4096) mod 64 < 64" "(q div 64) mod 64 < 64" "q mod 64 < 64" using q by auto
    have e: "encode_rune q = [char_of (0xF0 + q div 262144), char_of (0x80 + (q div 4096) mod 64),
        char_of (0x80 + (q div 64) mod 64), char_of (0x80 + q mod 64)]"
      using four q by (simp add: encode_rune_def Let_def)
    have low: "q div 262144 = 0 \<Longrightarrow> 16 \<le> (q div 4096) mod 64" using four by auto
    have high: "q div 262144 = 4 \<Longrightarrow> (q div 4096) mod 64 < 16"
    proof -
      assume "q div 262144 = 4"
      moreover have "q div 4096 \<le> 271" using q by auto
      moreover have "q div 4096 = 64 * (q div 262144) + (q div 4096) mod 64"
        using div_mult_mod_eq [of "q div 4096" 64] by (simp flip: div_mult2_eq)
      ultimately show "(q div 4096) mod 64 < 16" by auto
    qed
    show ?thesis
      using b low high by (auto simp: e cont_byte_def decode_rune.simps(2) Let_def)
  qed
  then have "valid_utf8 (take (snd (decode_rune (encode_rune q))) (encode_rune q) @ [])"
    by (intro valid_utf8_piece) (auto simp: encode_rune_def Let_def)
  with \<open>snd (decode_rune (encode_rune q)) = length (encode_rune q) \<and> _\<close> enc show ?thesis by simp
qed

lemma valid_utf8_append: "valid_utf8 a \<Longrightarrow> valid_utf8 b \<Longrightarrow> valid_utf8 (a @ b)"
proof (induction "length a" arbitrary: a rule: less_induct)
  case less
  show ?case
  proof (cases a)
    case (Cons c cs)
    define w rest where "w = snd (decode_rune a)" and "rest = drop w a"
    have w: "0 < w" "w \<le> length a"
      using Cons decode_rune_width_pos [of a] decode_rune_width_le [of a] by (simp_all add: w_def)
    have seq: "rune_seq a = decode_rune a # rune_seq rest"
      using w by (cases w) (simp_all add: Cons rest_def w_def Let_def)
    have ok: "decode_rune a \<noteq> (RuneError, 1)" "valid_utf8 rest"
      using less.prems(1) seq by (auto simp: valid_utf8_def)
    have "valid_utf8 (rest @ b)"
      using less.hyps [of rest] ok less.prems(2) w by (simp add: rest_def)
    then have "valid_utf8 (take w a @ rest @ b)"
      using valid_utf8_piece [of a] ok(1) Cons by (simp add: w_def)
    moreover have "take w a @ rest @ b = a @ b"
      by (simp only: rest_def append_assoc [symmetric] append_take_drop_id)
    ultimately show ?thesis by simp
  qed (use less.prems in simp)
qed

lemma valid_utf8_ascii_char: "byte c < 0x80 \<Longrightarrow> valid_utf8 [c]"
  by (rule ascii_valid) (simp add: ascii_def)

lemma unescape_u_valid: "unescape_u s = Some (v, r) \<Longrightarrow> valid_utf8 v"
  by (auto simp: unescape_u_def encode_rune_valid split: option.splits prod.splits if_splits)

lemma unescape_valid: "unescape s = Some (v, r) \<Longrightarrow> valid_utf8 v"
  by (cases s) (auto simp: byte_def intro!: valid_utf8_ascii_char dest: unescape_u_valid split: if_splits)

lemma lex_string_valid: "lex_string s = Some (v, r) \<Longrightarrow> valid_utf8 v"
proof (induction s arbitrary: v rule: lex_string.induct)
  case 1
  then show ?case by simp
next
  case (2 c cs)
  define out where "out = (if decode_rune (c # cs) = (RuneError, 1) then encode_rune RuneError
      else take (snd (decode_rune (c # cs))) (c # cs))"
  have out: "valid_utf8 out"
    using valid_utf8_piece [of "c # cs" "[]"] encode_rune_valid by (auto simp: out_def)
  consider (close) "c = dquote" | (esc) "c \<noteq> dquote" "c = bslash" | (ctl) "c \<noteq> dquote" "c \<noteq> bslash" "byte c < 0x20"
    | (ascii) "c \<noteq> dquote" "c \<noteq> bslash" "\<not> byte c < 0x20" "byte c < 0x80"
    | (multi) "c \<noteq> dquote" "c \<noteq> bslash" "\<not> byte c < 0x20" "\<not> byte c < 0x80" by blast
  then show ?case
  proof cases
    case esc
    with "2.prems" obtain o1 rest v1 where "unescape cs = Some (o1, rest)" "lex_string rest = Some (v1, r)" "v = o1 @ v1"
      by (auto split: option.splits)
    with "2.IH"(1) [OF esc, of "(o1, rest)" o1 rest v1] unescape_valid show ?thesis by (auto intro: valid_utf8_append)
  next
    case ascii
    with "2.prems" obtain v1 where "lex_string cs = Some (v1, r)" "v = [c] @ v1" by auto
    with "2.IH"(2) [OF ascii(1,2,3,4), of v1] valid_utf8_ascii_char [OF ascii(4)]
    show ?thesis by (auto intro: valid_utf8_append simp del: append_Cons append_Nil)
  next
    case multi
    with "2.prems" obtain v1 where v1: "lex_string (drop (snd (decode_rune (c # cs)) - 1) cs) = Some (v1, r)" "v = out @ v1"
      by (auto simp: Let_def out_def simp del: decode_rune.simps)
    have "valid_utf8 v1" by (rule "2.IH"(3) [OF multi refl refl v1(1)])
    with out v1(2) show ?thesis by (auto intro: valid_utf8_append)
  qed (use "2.prems" in simp_all)
qed

text \<open>Whatever a line holds, the entry decoded from it is well formed.\<close>

definition time_laws :: "time_lib \<Rightarrow> bool" where
  "time_laws tm \<longleftrightarrow> tm_canon tm zero_time = Some zero_time
     \<and> (\<forall>t u. tm_canon tm t = Some u \<longrightarrow> tm_canon tm u = Some u \<and> valid_utf8 u)"

definition text_ok :: "scalar \<Rightarrow> bool" where
  "text_ok v \<longleftrightarrow> (case v of SStr t \<Rightarrow> valid_utf8 t | _ \<Rightarrow> True)"

lemma lex_scalar_text: "lex_scalar s = Some (v, r) \<Longrightarrow> text_ok v"
  by (auto simp: lex_scalar_def text_ok_def split: list.splits if_splits dest: lex_string_valid)

lemma lex_members_texts:
  "lex_members s = Some (ms, r) \<Longrightarrow> list_all (\<lambda>kv. text_ok (snd kv)) ms"
proof (induction s arbitrary: ms rule: lex_members.induct)
  case (1 s)
  from "1.prems" obtain m u c t where m: "lex_member s = Some (m, u)" "skip_ws u = c # t"
    and c: "(c = CHR ''}'' \<and> ms = [m]) \<or> (c \<noteq> CHR ''}'' \<and> c = CHR '','' \<and> (\<exists>ms'. lex_members t = Some (ms', r) \<and> ms = m # ms'))"
    by (subst (asm) lex_members.simps) (auto split: option.splits list.splits if_splits)
  have "text_ok (snd m)"
  proof -
    obtain x where "lex_scalar x = Some (snd m, u)"
      using m(1) by (auto simp: lex_member_def split: list.splits if_splits option.splits)
    then show ?thesis using lex_scalar_text by metis
  qed
  with c "1.IH" [OF m(1) refl m(2)] show ?case by (cases m) auto
qed

lemma lex_object_texts:
  "lex_object s = Some (ms, r) \<Longrightarrow> list_all (\<lambda>kv. text_ok (snd kv)) ms"
  unfolding lex_object_def by (auto split: list.splits if_splits dest: lex_members_texts)

lemma parse_uint64_bound: "parse_uint64 s = Some n \<Longrightarrow> n < 2 ^ 64"
  by (auto simp: parse_uint64_def Let_def split: if_splits)

lemma set_field_wf:
  assumes "set_field tm f v e = Some e'" "entry_wf tm e" "time_laws tm" "text_ok v"
  shows "entry_wf tm e'"
proof -
  have txt_ok: "valid_utf8 t" if "text_value old v = Some t" "valid_utf8 old" for old t
    using that assms(4) by (auto simp: text_value_def text_ok_def split: scalar.splits)
  have seq: "n < 2 ^ 64" if "parse_uint64 s = Some n" for s n
    by (rule parse_uint64_bound [OF that])
  have canon: "tm_canon tm u = Some u" "valid_utf8 u" if "tm_canon tm t = Some u" for t u
    using assms(3) that by (auto simp: time_laws_def)
  show ?thesis
    using assms(1,2,4) unfolding set_field_def entry_wf_def entry_texts_def
    by (auto split: if_split_asm scalar.split_asm dest: seq canon txt_ok parse_int64_range)
qed

lemma set_fields_wf:
  "set_fields tm ms e = Some e' \<Longrightarrow> entry_wf tm e \<Longrightarrow> time_laws tm
    \<Longrightarrow> list_all (\<lambda>kv. text_ok (snd kv)) ms \<Longrightarrow> entry_wf tm e'"
proof (induction ms arbitrary: e)
  case (Cons m ms)
  obtain k v where m: "m = (k, v)" by (cases m)
  from Cons.prems(1) m obtain f e1 where "set_field tm f v e = Some e1" "set_fields tm ms e1 = Some e'"
    by (auto simp: set_fields.simps(2) split: option.splits)
  with Cons m set_field_wf [of tm f v e e1] show ?case by auto
qed simp

lemma decode_entry_wf:
  assumes "decode_entry tm line = Some e" "time_laws tm"
  shows "entry_wf tm e"
proof -
  have zero: "entry_wf tm zero_entry"
    using assms(2) by (auto simp: entry_wf_def zero_entry_def time_laws_def entry_texts_def)
  show ?thesis
  proof (cases "strict_scalar line = Some SNull")
    case True
    with assms zero show ?thesis by (simp add: decode_entry_def)
  next
    case False
    with assms(1) obtain ms r where "lex_object line = Some (ms, r)" "set_fields tm ms zero_entry = Some e"
      by (auto simp: decode_entry_def split: option.splits if_splits)
    with set_fields_wf [OF _ zero assms(2)] lex_object_texts show ?thesis by blast
  qed
qed

end
