(* ===== verification/AuditJournal.thy ===== *)
theory AuditJournal
  imports AuditFormat
begin

section \<open>What the journal guarantees\<close>

text \<open>
  The store's memory always agrees with its file, so a restart continues where the last process
  stopped; a torn write is noticed; the hash chain pins the whole history; every run is approved
  at most once and completed only after its approval; setting a journal aside loses nothing.
\<close>

subsection \<open>Reading line by line\<close>

definition last_hash :: "string \<Rightarrow> entry list \<Rightarrow> string" where
  "last_hash prev es = (if es = [] then prev else en_Hash (last es))"

fun chained ::
    "(string \<Rightarrow> string) \<Rightarrow> time_lib \<Rightarrow> entry list \<Rightarrow> bool dict \<Rightarrow> string \<Rightarrow> entry list \<Rightarrow> bool" where
  "chained sha tm before seen prev [] = True"
| "chained sha tm before seen prev (e # es) =
     (entry_wf tm e \<and> entry_follows sha tm before prev e \<and> action_allowed seen e
      \<and> chained sha tm (before @ [e]) (note_action e seen) (en_Hash e) es)"

lemma read_loop_Nil [simp]: "read_loop sha tm es seen prev [] = Some es"
  by (subst read_loop.simps) simp

lemma read_line:
  assumes "newline \<notin> set line"
  shows "read_loop sha tm es seen prev (line @ newline # rest) =
    (if 4096 < length line + 1 then None
     else case decode_entry tm (line @ [newline]) of
       None \<Rightarrow> None
     | Some e \<Rightarrow> if entry_follows sha tm es prev e \<and> action_allowed seen e
        then read_loop sha tm (es @ [e]) (note_action e seen) (en_Hash e) rest else None)"
proof -
  have "takeWhile (\<lambda>c. c \<noteq> newline) (line @ newline # rest) = line"
    and "dropWhile (\<lambda>c. c \<noteq> newline) (line @ newline # rest) = newline # rest"
    using assms by (simp_all add: takeWhile_append dropWhile_append)
  then show ?thesis by (subst read_loop.simps) (simp add: Let_def split: option.split)
qed

lemma read_torn_line:
  assumes "s \<noteq> []" "newline \<notin> set s"
  shows "read_loop sha tm es seen prev s = None"
proof -
  have "dropWhile (\<lambda>c. c \<noteq> newline) s = []" using assms(2) by auto
  with assms(1) show ?thesis by (subst read_loop.simps) (simp add: Let_def)
qed

text \<open>Induction on a content that reads: its first line and the rest.\<close>

lemma read_induct [consumes 1, case_names empty entry_line]:
  assumes "read_loop sha tm es seen prev c = Some r"
    and "\<And>es seen prev. P es seen prev [] es"
    and "\<And>es seen prev line rest e r. newline \<notin> set line \<Longrightarrow> length line + 1 \<le> 4096
      \<Longrightarrow> decode_entry tm (line @ [newline]) = Some e \<Longrightarrow> entry_follows sha tm es prev e \<Longrightarrow> action_allowed seen e
      \<Longrightarrow> read_loop sha tm (es @ [e]) (note_action e seen) (en_Hash e) rest = Some r
      \<Longrightarrow> P (es @ [e]) (note_action e seen) (en_Hash e) rest r \<Longrightarrow> P es seen prev (line @ newline # rest) r"
  shows "P es seen prev c r"
  using assms(1)
proof (induction "length c" arbitrary: es seen prev c rule: less_induct)
  case less
  show ?case
  proof (cases "newline \<in> set c")
    case True
    then obtain line rest where c: "c = line @ newline # rest" "newline \<notin> set line"
      by (metis split_list_first)
    from less.prems obtain e where e: "length line + 1 \<le> 4096" "decode_entry tm (line @ [newline]) = Some e"
        "entry_follows sha tm es prev e" "action_allowed seen e"
        "read_loop sha tm (es @ [e]) (note_action e seen) (en_Hash e) rest = Some r"
      by (auto simp: c(1) read_line [OF c(2)] split: if_splits option.splits)
    have "P (es @ [e]) (note_action e seen) (en_Hash e) rest r"
      by (rule less.hyps [OF _ e(5)]) (simp add: c)
    then show ?thesis unfolding c(1) by (rule assms(3) [OF c(2) e])
  next
    case False
    with less.prems read_torn_line [of c] have "c = []" by fastforce
    with less.prems assms(2) show ?thesis by simp
  qed
qed

lemma read_loop_chained:
  assumes "read_loop sha tm es seen prev c = Some r" "time_laws tm"
  shows "\<exists>new. r = es @ new \<and> chained sha tm es seen prev new"
  using assms(1)
proof (induction rule: read_induct)
  case (empty es seen prev)
  then show ?case by simp
next
  case (entry_line es seen prev line rest e r)
  then obtain new where "r = es @ e # new" "chained sha tm (es @ [e]) (note_action e seen) (en_Hash e) new" by auto
  moreover have "entry_wf tm e" by (rule decode_entry_wf [OF entry_line(3) assms(2)])
  ultimately show ?case using entry_line(4,5) by (intro exI [of _ "e # new"]) simp
qed

lemma read_loop_append:
  assumes "read_loop sha tm es seen prev c = Some r"
  shows "\<exists>new. r = es @ new \<and>
    (\<forall>d. read_loop sha tm es seen prev (c @ d) = read_loop sha tm r (seen_of new seen) (last_hash prev new) d)"
  using assms
proof (induction rule: read_induct)
  case (empty es seen prev)
  then show ?case by (intro exI [of _ "[]"]) (simp add: last_hash_def)
next
  case (entry_line es seen prev line rest e r)
  then obtain new where new: "r = (es @ [e]) @ new"
    "\<And>d. read_loop sha tm (es @ [e]) (note_action e seen) (en_Hash e) (rest @ d)
      = read_loop sha tm r (seen_of new (note_action e seen)) (last_hash (en_Hash e) new) d" by auto
  have "read_loop sha tm es seen prev ((line @ newline # rest) @ d)
      = read_loop sha tm r (seen_of (e # new) seen) (last_hash prev (e # new)) d" for d
  proof -
    have "read_loop sha tm es seen prev (line @ newline # (rest @ d))
        = read_loop sha tm (es @ [e]) (note_action e seen) (en_Hash e) (rest @ d)"
      using entry_line(2-5) by (simp add: read_line [OF entry_line(1)])
    with new(2) show ?thesis by (simp add: last_hash_def)
  qed
  with new(1) show ?case by (intro exI [of _ "e # new"]) simp
qed

lemma readEntries_append:
  assumes "readEntries sha tm c = Some es"
  shows "readEntries sha tm (c @ d) = read_loop sha tm es (seen_of es []) (last_hash [] es) d"
  using read_loop_append [OF assms [unfolded readEntries_def]] by (auto simp: readEntries_def)

lemma readEntries_chained:
  "readEntries sha tm c = Some es \<Longrightarrow> time_laws tm \<Longrightarrow> chained sha tm [] [] [] es"
  using read_loop_chained by (fastforce simp: readEntries_def)

subsection \<open>The store agrees with its file\<close>

definition store_ok :: "(string \<Rightarrow> string) \<Rightarrow> time_lib \<Rightarrow> store \<Rightarrow> bool" where
  "store_ok sha tm st \<longleftrightarrow> readEntries sha tm (st_content st) = Some (st_entries st)
     \<and> st_seen st = seen_of (st_entries st) [] \<and> st_size st = length (st_content st) \<and> st_size st \<le> maxBytes"

lemma seen_of_append: "seen_of (es @ fs) seen = seen_of fs (seen_of es seen)"
  by (induction es arbitrary: seen) simp_all

text \<open>The event and clock of an append are ones Go can hold, and the digest is text.\<close>

definition event_texts :: "audit_event \<Rightarrow> string list" where
  "event_texts ev = [ae_RunID ev, ae_Action ev, ae_PackID ev, ae_CommandID ev, ae_Risk ev, ae_TargetLabel ev,
     ae_Target ev, ae_Effect ev, ae_Scope ev, ae_Status ev]"

definition append_input_ok :: "(string \<Rightarrow> string) \<Rightarrow> time_lib \<Rightarrow> append_env \<Rightarrow> audit_event \<Rightarrow> bool" where
  "append_input_ok sha tm env ev \<longleftrightarrow> (\<forall>x. valid_utf8 (sha x)) \<and> tm_canon tm (ap_time env) = Some (ap_time env)
     \<and> valid_utf8 (ap_time env) \<and> list_all valid_utf8 (event_texts ev)
     \<and> (case ae_ExitCode ev of None \<Rightarrow> True | Some c \<Rightarrow> int64_min \<le> c \<and> c \<le> int64_max)"

definition sealed_entry :: "(string \<Rightarrow> string) \<Rightarrow> string \<Rightarrow> audit_event \<Rightarrow> entry list \<Rightarrow> entry" where
  "sealed_entry sha now ev es = (let e = new_entry now ev es in e\<lparr>en_Hash := calculateHash sha e\<rparr>)"

lemma chained_last_wf:
  "chained sha tm before seen prev es \<Longrightarrow> es \<noteq> [] \<Longrightarrow> entry_wf tm (last es)"
  by (induction sha tm before seen prev es rule: chained.induct) auto

lemma sealed_entry_wf:
  assumes "append_input_ok sha tm env ev" "chained sha tm [] [] [] es" "length es < maxEntries"
  shows "entry_wf tm (sealed_entry sha (ap_time env) ev es)"
proof -
  have "valid_utf8 (en_Hash (last es))" if "es \<noteq> []"
    using chained_last_wf [OF assms(2) that] by (simp add: entry_wf_def entry_texts_def)
  moreover have "valid_utf8 ''not-available''"
    by (simp add: ascii_valid ascii_def byte_def)
  ultimately show ?thesis
    using assms(1,3)
    by (simp add: entry_wf_def sealed_entry_def new_entry_def Let_def append_input_ok_def event_texts_def
        entry_texts_def calculateHash_def maxEntries_def split: option.splits)
qed

definition entry_line :: "entry \<Rightarrow> string" where
  "entry_line e = encode_entry e @ [newline]"

lemma validEntry_hash [simp]: "validEntry tm (e\<lparr>en_Hash := h\<rparr>) = validEntry tm e"
  by (simp add: validEntry_def)

lemma action_allowed_hash [simp]: "action_allowed seen (e\<lparr>en_Hash := h\<rparr>) = action_allowed seen e"
  by (simp add: action_allowed_def)

lemma calculateHash_hash [simp]: "calculateHash sha (e\<lparr>en_Hash := h\<rparr>) = calculateHash sha e"
  by (simp add: calculateHash_def)

lemma Append_None:
  assumes "Append sha tm env ev st = (None, st')"
  defines "e \<equiv> sealed_entry sha (ap_time env) ev (st_entries st)"
  shows "\<not> st_failed st" "st_open st" "length (st_entries st) < maxEntries" "validEntry tm e"
    "action_allowed (st_seen st) e" "length (entry_line e) \<le> 4096"
    "st_size st + length (entry_line e) \<le> maxBytes"
    "st' = st\<lparr>st_content := st_content st @ entry_line e, st_size := st_size st + length (entry_line e),
       st_entries := st_entries st @ [e], st_seen := note_action e (st_seen st)\<rparr>"
  using assms(1) unfolding Append_def write_entry_def e_def sealed_entry_def entry_line_def action_allowed_def
  by (auto simp: Let_def split: if_splits)

lemma sealed_entry_follows:
  "length es < maxEntries \<Longrightarrow> validEntry tm (sealed_entry sha now ev es)
    \<Longrightarrow> entry_follows sha tm es (last_hash [] es) (sealed_entry sha now ev es)"
  by (simp add: entry_follows_def sealed_entry_def Let_def last_hash_def) (simp add: new_entry_def)

lemma entry_line_reads:
  assumes "entry_wf tm e" "length (entry_line e) \<le> 4096" "entry_follows sha tm es prev e" "action_allowed seen e"
  shows "read_loop sha tm es seen prev (entry_line e) = Some (es @ [e])"
  using assms decode_encode_entry [OF assms(1)]
  by (simp add: entry_line_def read_line [OF encode_entry_one_line, where rest = "[]", simplified])

lemma Append_keeps_store:
  assumes "Append sha tm env ev st = (None, st')" "store_ok sha tm st" "time_laws tm" "append_input_ok sha tm env ev"
  shows "store_ok sha tm st'"
proof -
  define e where "e = sealed_entry sha (ap_time env) ev (st_entries st)"
  note A = Append_None [OF assms(1), folded e_def]
  have "chained sha tm [] [] [] (st_entries st)"
    using assms(2,3) by (auto simp: store_ok_def intro: readEntries_chained)
  then have "entry_wf tm e" unfolding e_def by (rule sealed_entry_wf [OF assms(4) _ A(3)])
  moreover have "entry_follows sha tm (st_entries st) (last_hash [] (st_entries st)) e"
    using A(3,4) unfolding e_def by (rule sealed_entry_follows)
  moreover have "st_seen st = seen_of (st_entries st) []" using assms(2) by (simp add: store_ok_def)
  ultimately have "readEntries sha tm (st_content st @ entry_line e) = Some (st_entries st @ [e])"
    using assms(2) A(5,6) entry_line_reads by (simp add: store_ok_def readEntries_append)
  with assms(2) A(7,8) show ?thesis by (simp add: store_ok_def seen_of_append)
qed

text \<open>What an append that reports an error leaves behind.\<close>

lemma write_entry_Some:
  assumes "write_entry env e raw st = (Some err, st')"
  shows "err = AuditWriteFailed \<or> err = AuditSyncFailed"
    "st' = st\<lparr>st_content := st_content st @ take (ap_written env) raw, st_failed := True\<rparr>"
  using assms by (auto simp: write_entry_def Let_def split: if_splits)

lemma Append_Some:
  assumes "Append sha tm env ev st = (Some err, st')"
  shows "(st' = st \<and> err \<noteq> AuditWriteFailed \<and> err \<noteq> AuditSyncFailed)
    \<or> ((err = AuditWriteFailed \<or> err = AuditSyncFailed)
       \<and> st' = st\<lparr>st_content := st_content st @ take (ap_written env)
            (entry_line (sealed_entry sha (ap_time env) ev (st_entries st))), st_failed := True\<rparr>)"
  using assms unfolding Append_def sealed_entry_def entry_line_def
  by (auto simp: Let_def split: if_splits dest: write_entry_Some)

lemma Append_unavailable: "st_failed st \<or> \<not> st_open st \<Longrightarrow> Append sha tm env ev st = (Some AuditUnavailable, st)"
  by (simp add: Append_def)

lemma audit_Open_Inr:
  "audit_Open sha tm env = Inr st \<Longrightarrow> store_ok sha tm st \<and> st_open st \<and> \<not> st_failed st \<and> st_content st = op_content env"
  by (auto simp: audit_Open_def store_ok_def split: if_splits option.splits)

subsection \<open>Histories\<close>

text \<open>A failed store stays failed; every other store agrees with its file.\<close>

fun append_all ::
    "(string \<Rightarrow> string) \<Rightarrow> time_lib \<Rightarrow> (append_env \<times> audit_event) list \<Rightarrow> store \<Rightarrow> audit_error option list \<times> store" where
  "append_all sha tm [] st = ([], st)"
| "append_all sha tm ((env, ev) # xs) st =
     (let (r, st1) = Append sha tm env ev st; (rs, st2) = append_all sha tm xs st1 in (r # rs, st2))"


definition store_inv :: "(string \<Rightarrow> string) \<Rightarrow> time_lib \<Rightarrow> store \<Rightarrow> bool" where
  "store_inv sha tm st \<longleftrightarrow> st_failed st \<or> store_ok sha tm st"

lemma Append_inv:
  assumes "store_inv sha tm st" "time_laws tm" "append_input_ok sha tm env ev"
    and "Append sha tm env ev st = (r, st')"
  shows "store_inv sha tm st' \<and> (st_failed st \<longrightarrow> st' = st)"
proof (cases r)
  case None
  with assms Append_None(1) [of sha tm env ev st st'] Append_keeps_store show ?thesis
    by (auto simp: store_inv_def)
next
  case (Some err)
  with assms Append_Some [of sha tm env ev st err st'] Append_unavailable [of st sha tm env ev] show ?thesis
    by (auto simp: store_inv_def)
qed

lemma append_all_inv:
  "store_inv sha tm st \<Longrightarrow> time_laws tm \<Longrightarrow> list_all (\<lambda>(env, ev). append_input_ok sha tm env ev) xs
    \<Longrightarrow> append_all sha tm xs st = (rs, st') \<Longrightarrow> store_inv sha tm st'"
proof (induction xs arbitrary: st rs)
  case (Cons x xs)
  obtain env ev r st1 rs1 where "x = (env, ev)" "Append sha tm env ev st = (r, st1)"
      "append_all sha tm xs st1 = (rs1, st')"
    using Cons.prems(4) by (cases x) (auto split: prod.splits)
  with Cons Append_inv [of sha tm st env ev r st1] show ?case by auto
qed simp


subsection \<open>The order of approvals and completions, and the chain\<close>

definition run_actions :: "string \<Rightarrow> entry list \<Rightarrow> string list" where
  "run_actions r es = map en_Action (filter (\<lambda>e. en_RunID e = r) es)"

lemma chained_run_actions:
  "chained sha tm before seen prev es \<Longrightarrow> run_actions r es \<in>
    (case get seen r of None \<Rightarrow> {[], [''approved''], [''approved'', ''completed'']}
     | Some True \<Rightarrow> {[], [''completed'']} | Some False \<Rightarrow> {[]})"
proof (induction sha tm before seen prev es rule: chained.induct)
  case (1 sha tm before seen prev)
  then show ?case by (simp add: run_actions_def split: option.split bool.split)
next
  case (2 sha tm before seen prev e es)
  then have ch: "chained sha tm (before @ [e]) (note_action e seen) (en_Hash e) es" by simp
  have IH: "run_actions r es \<in>
    (case get (note_action e seen) r of None \<Rightarrow> {[], [''approved''], [''approved'', ''completed'']}
     | Some True \<Rightarrow> {[], [''completed'']} | Some False \<Rightarrow> {[]})"
    by (rule "2.IH" [OF ch])
  have action: "en_Action e = ''approved'' \<or> en_Action e = ''completed''" and ok: "action_allowed seen e"
    using "2.prems" by (simp_all add: entry_follows_def validEntry_def)
  show ?case
  proof (cases "en_RunID e = r")
    case True
    with IH action ok show ?thesis
      by (auto simp: run_actions_def note_action_def action_allowed_def split: option.splits bool.splits if_splits)
  next
    case False
    with IH show ?thesis by (simp add: run_actions_def note_action_def)
  qed
qed

lemma chained_snoc:
  "chained sha tm before seen prev (es @ [e]) \<Longrightarrow>
     chained sha tm before seen prev es \<and> entry_wf tm e \<and> entry_follows sha tm (before @ es) (last_hash prev es) e"
  by (induction sha tm before seen prev es rule: chained.induct) (auto simp: last_hash_def)

definition hashed_text :: "entry \<Rightarrow> string" where
  "hashed_text e = encode_entry (e\<lparr>en_Hash := []\<rparr>)"

lemma hash_determines_entry:
  assumes "entry_wf tm a" "entry_wf tm b" "en_Hash a = calculateHash sha a" "en_Hash b = calculateHash sha b"
    and "en_Hash a = en_Hash b" and "inj_on sha {hashed_text a, hashed_text b}"
  shows "a = b"
proof -
  have "sha (hashed_text a) = sha (hashed_text b)"
    using assms(3-5) by (metis calculateHash_def hashed_text_def)
  with assms(6) have "hashed_text a = hashed_text b" by (rule inj_onD) simp_all
  moreover have "entry_wf tm (x\<lparr>en_Hash := []\<rparr>)" if "entry_wf tm x" for x
    using that by (simp add: entry_wf_def entry_texts_def)
  ultimately have "a\<lparr>en_Hash := []\<rparr> = b\<lparr>en_Hash := []\<rparr>"
    unfolding hashed_text_def using encode_entry_inject assms(1,2) by blast
  then have "a\<lparr>en_Hash := [], en_Hash := en_Hash a\<rparr> = b\<lparr>en_Hash := [], en_Hash := en_Hash b\<rparr>"
    using assms(5) by simp
  then show ?thesis by simp
qed

lemma chained_hash_pins:
  assumes "chained sha tm [] [] [] es" "chained sha tm [] [] [] fs" "es \<noteq> []" "fs \<noteq> []"
    and "en_Hash (last es) = en_Hash (last fs)" and "inj_on sha (hashed_text ` (set es \<union> set fs))"
  shows "es = fs"
  using assms
proof (induction es arbitrary: fs rule: rev_induct)
  case Nil
  then show ?case by simp
next
  case (snoc e es)
  obtain f fs' where fs: "fs = fs' @ [f]" using snoc.prems(4) by (cases fs rule: rev_cases) auto
  have e: "chained sha tm [] [] [] es" "entry_wf tm e" "entry_follows sha tm es (last_hash [] es) e"
    using chained_snoc [OF snoc.prems(1)] by simp_all
  have f: "chained sha tm [] [] [] fs'" "entry_wf tm f" "entry_follows sha tm fs' (last_hash [] fs') f"
    using chained_snoc [OF snoc.prems(2) [unfolded fs]] by simp_all
  have "inj_on sha {hashed_text e, hashed_text f}"
    using snoc.prems(6) by (rule inj_on_subset) (simp add: fs)
  moreover have "en_Hash e = en_Hash f" using snoc.prems(5) by (simp add: fs)
  moreover have "en_Hash e = calculateHash sha e" "en_Hash f = calculateHash sha f"
    using e(3) f(3) by (simp_all add: entry_follows_def)
  ultimately have "e = f" using hash_determines_entry [OF e(2) f(2)] by blast
  with e(3) f(3) have len: "length es = length fs'" and prev: "last_hash [] es = last_hash [] fs'"
    by (simp_all add: entry_follows_def)
  have "es = fs'"
  proof (cases "es = []")
    case True
    with len show ?thesis by simp
  next
    case False
    moreover have "fs' \<noteq> []" using len False by auto
    moreover have "inj_on sha (hashed_text ` (set es \<union> set fs'))"
      using snoc.prems(6) by (rule inj_on_subset) (auto simp: fs)
    ultimately show ?thesis using snoc.IH [OF e(1) f(1)] prev by (simp add: last_hash_def)
  qed
  with \<open>e = f\<close> fs show ?case by simp
qed

subsection \<open>A sample journal\<close>

definition sample_now :: string where "sample_now = ''2026-01-02T03:04:05Z''"

definition sample_time :: time_lib where
  "sample_time = \<lparr>tm_canon = (\<lambda>t. if t = zero_time \<or> t = sample_now then Some t else None),
     tm_is_zero = (\<lambda>t. t = zero_time)\<rparr>"

definition sample_hash :: "string \<Rightarrow> string" where
  "sample_hash x = show_nat (length x)"

definition sample_append :: append_env where
  "sample_append = \<lparr>ap_time = sample_now, ap_written = 4096, ap_writeErr = False, ap_synced = True\<rparr>"

definition sample_approved :: audit_event where
  "sample_approved = \<lparr>ae_RunID = replicate 32 CHR ''a'', ae_Action = ''approved'', ae_PackID = ''p'',
     ae_CommandID = ''load-policy'', ae_Risk = ''change'', ae_TargetLabel = ''Branch'', ae_Target = ''root'',
     ae_Effect = ''Loads'', ae_Scope = ''single'', ae_Status = [], ae_ExitCode = None\<rparr>"

definition sample_completed :: audit_event where
  "sample_completed = \<lparr>ae_RunID = replicate 32 CHR ''a'', ae_Action = ''completed'', ae_PackID = [],
     ae_CommandID = [], ae_Risk = [], ae_TargetLabel = [], ae_Target = [],
     ae_Effect = [], ae_Scope = [], ae_Status = ''exited'', ae_ExitCode = Some 0\<rparr>"

definition empty_store :: store where
  "empty_store = \<lparr>st_content = [], st_open = True, st_entries = [], st_seen = [], st_size = 0, st_failed = False\<rparr>"

lemma sample_time_laws: "time_laws sample_time"
  by (auto simp: time_laws_def sample_time_def zero_time_def sample_now_def ascii_def byte_def intro!: ascii_valid)

lemma sample_hash_text: "valid_utf8 (sample_hash x)"
  using show_nat_digits [of "length x"]
  by (fastforce simp: sample_hash_def ascii_def is_digit_def list_all_iff intro!: ascii_valid)

lemma sample_inputs_ok:
  "append_input_ok sample_hash sample_time (sample_append\<lparr>ap_written := n\<rparr>) sample_approved"
  "append_input_ok sample_hash sample_time (sample_append\<lparr>ap_written := n\<rparr>) sample_completed"
  by (simp_all add: append_input_ok_def sample_hash_text sample_append_def sample_time_def sample_now_def
      event_texts_def sample_approved_def sample_completed_def ascii_valid ascii_def byte_def int64_min_def int64_max_def)

definition sample_events :: "(append_env \<times> audit_event) list" where
  "sample_events = [(sample_append\<lparr>ap_written := 290\<rparr>, sample_approved),
     (sample_append\<lparr>ap_written := 197\<rparr>, sample_completed)]"

definition sample_open :: open_env where
  "sample_open = \<lparr>op_abs = True, op_dirPrivate = True, op_regularOrAbsent = True, op_locked = True, op_opened = True,
     op_regular = True, op_private = True, op_content = []\<rparr>"

lemma sample_open_empty: "audit_Open sample_hash sample_time sample_open = Inr empty_store"
  by (simp add: audit_Open_def sample_open_def readEntries_def empty_store_def)

lemma sample_events_result:
  "(let r = append_all sample_hash sample_time sample_events empty_store
    in fst r = [None, None] \<and> \<not> st_failed (snd r))"
  by code_simp

lemma sample_events_ok: "list_all (\<lambda>(env, ev). append_input_ok sample_hash sample_time env ev) sample_events"
  by (simp add: sample_events_def sample_inputs_ok)

subsection \<open>The properties\<close>

text \<open>
  C36: An entry of the journal is read back exactly as it was written, and occupies one line.
\<close>
theorem entry_round_trip:
  assumes "entry_wf tm e"
  shows "decode_entry tm (encode_entry e @ [newline]) = Some e \<and> newline \<notin> set (encode_entry e)"
  using assms by (simp add: decode_encode_entry encode_entry_one_line)

theorem entry_round_trip_witness:
  "decode_entry sample_time (encode_entry (sealed_entry sample_hash sample_now sample_completed []) @ [newline])
     = Some (sealed_entry sample_hash sample_now sample_completed [])"
proof -
  have "entry_wf sample_time (sealed_entry sample_hash sample_now sample_completed [])"
    using sealed_entry_wf [OF sample_inputs_ok(2), of "[]" 0] by (simp add: sample_append_def maxEntries_def)
  from entry_round_trip [OF this] show ?thesis by (rule conjunct1)
qed



text \<open>
  C29: A write that is cut short leaves the entries of the store as they were and makes it refuse
  every later append; whoever reads the file finds it either unchanged, or extended by the whole
  line, or not readable: a torn line is never taken for history.
\<close>
theorem torn_write_is_detected:
  assumes "store_ok sha tm st" and "Append sha tm env ev st = (Some AuditWriteFailed, st')"
  shows "st_entries st' = st_entries st \<and> Append sha tm env' ev' st' = (Some AuditUnavailable, st')
    \<and> (st_content st' = st_content st
       \<or> st_content st' = st_content st @ entry_line (sealed_entry sha (ap_time env) ev (st_entries st))
       \<or> readEntries sha tm (st_content st') = None)"
proof -
  define e where "e = sealed_entry sha (ap_time env) ev (st_entries st)"
  define n where "n = ap_written env"
  have st': "st' = st\<lparr>st_content := st_content st @ take n (entry_line e), st_failed := True\<rparr>"
    using Append_Some [OF assms(2)] by (simp add: e_def n_def)
  have "readEntries sha tm (st_content st @ take n (entry_line e)) = None"
    if "n \<noteq> 0" "n < length (entry_line e)"
  proof -
    have eq: "take n (entry_line e) = take n (encode_entry e)" using that by (simp add: entry_line_def)
    have "take n (encode_entry e) \<noteq> []"
      using that by (auto simp: encode_entry_def json_object_def)
    moreover have "newline \<notin> set (take n (encode_entry e))"
      using encode_entry_one_line by (meson in_set_takeD)
    ultimately show ?thesis
      using assms(1) unfolding eq by (simp add: store_ok_def readEntries_append read_torn_line)
  qed
  then show ?thesis by (cases "n = 0"; cases "n < length (entry_line e)") (auto simp: st' Append_unavailable e_def)
qed

theorem torn_write_is_detected_witness:
  "let (r, st) = Append sample_hash sample_time (sample_append\<lparr>ap_written := 7\<rparr>) sample_approved empty_store
   in r = Some AuditWriteFailed \<and> readEntries sample_hash sample_time (st_content st) = None"
proof -
  obtain r st where r: "Append sample_hash sample_time (sample_append\<lparr>ap_written := 7\<rparr>) sample_approved empty_store = (r, st)"
    by (cases "Append sample_hash sample_time (sample_append\<lparr>ap_written := 7\<rparr>) sample_approved empty_store")
  have "fst (Append sample_hash sample_time (sample_append\<lparr>ap_written := 7\<rparr>) sample_approved empty_store)
      = Some AuditWriteFailed"
    and len: "length (st_content (snd (Append sample_hash sample_time (sample_append\<lparr>ap_written := 7\<rparr>) sample_approved empty_store))) = 7"
    and line: "length (entry_line (sealed_entry sample_hash (ap_time (sample_append\<lparr>ap_written := 7\<rparr>)) sample_approved [])) = 290"
    by code_simp+
  then have failed: "r = Some AuditWriteFailed" using r by simp
  have "store_ok sample_hash sample_time empty_store"
    using audit_Open_Inr [OF sample_open_empty] by simp
  from torn_write_is_detected [OF this r [unfolded failed]]
  have "st_content st = []
      \<or> st_content st = entry_line (sealed_entry sample_hash (ap_time (sample_append\<lparr>ap_written := 7\<rparr>)) sample_approved [])
      \<or> readEntries sample_hash sample_time (st_content st) = None"
    by (simp add: empty_store_def)
  moreover have "length (st_content st) = 7" using len r by simp
  ultimately have "readEntries sample_hash sample_time (st_content st) = None" using line by auto
  with failed r show ?thesis by simp
qed

text \<open>
  C7: Two readable journals that end in the same hash hold the same entries, if the digest has
  no collision among the texts it was applied to: no entry can be changed, dropped, added or
  reordered without changing the last hash.
\<close>
theorem last_hash_pins_history:
  assumes "readEntries sha tm a = Some es" and "readEntries sha tm b = Some fs" and "time_laws tm"
    and "es \<noteq> []" and "fs \<noteq> []" and "en_Hash (last es) = en_Hash (last fs)"
    and "inj_on sha (hashed_text ` (set es \<union> set fs))"
  shows "es = fs"
  using chained_hash_pins readEntries_chained [OF assms(1,3)] readEntries_chained [OF assms(2,3)] assms(4-7)
  by blast

theorem last_hash_pins_history_witness:
  "\<exists>st. append_all sample_hash sample_time sample_events empty_store = ([None, None], st)
    \<and> (\<forall>b fs. readEntries sample_hash sample_time b = Some fs \<longrightarrow> fs = st_entries st \<or> fs = []
        \<or> en_Hash (last fs) \<noteq> en_Hash (last (st_entries st))
        \<or> \<not> inj_on sample_hash (hashed_text ` (set (st_entries st) \<union> set fs)))"
proof -
  obtain results st where r: "append_all sample_hash sample_time sample_events empty_store = (results, st)"
    by (cases "append_all sample_hash sample_time sample_events empty_store")
  then have results: "results = [None, None]" "\<not> st_failed st" using sample_events_result by (simp_all add: Let_def)
  have "store_inv sample_hash sample_time empty_store"
    using audit_Open_Inr [OF sample_open_empty] by (simp add: store_inv_def)
  from append_all_inv [OF this sample_time_laws sample_events_ok r] results(2)
  have read: "readEntries sample_hash sample_time (st_content st) = Some (st_entries st)"
    by (simp add: store_inv_def store_ok_def)
  have "length (st_entries (snd (append_all sample_hash sample_time sample_events empty_store))) = 2"
    by code_simp
  then have "st_entries st \<noteq> []" using r by auto
  with last_hash_pins_history [OF _ read sample_time_laws] r results(1) show ?thesis
    by (metis Un_commute)
qed

text \<open>
  C33: In a readable journal every run has no record, or an approval, or an approval followed by
  one completion; nothing else occurs and nothing occurs twice.
\<close>
theorem journal_order:
  assumes "readEntries sha tm content = Some es" and "time_laws tm"
  shows "run_actions r es \<in> {[], [''approved''], [''approved'', ''completed'']}"
  using chained_run_actions [OF readEntries_chained [OF assms], of r] by simp

theorem journal_order_witness:
  "\<exists>st. snd (append_all sample_hash sample_time sample_events empty_store) = st
    \<and> run_actions (replicate 32 CHR ''a'') (st_entries st) \<in> {[], [''approved''], [''approved'', ''completed'']}
    \<and> run_actions (replicate 32 CHR ''a'') (st_entries st) = [''approved'', ''completed'']"
proof -
  obtain results st where r: "append_all sample_hash sample_time sample_events empty_store = (results, st)"
    by (cases "append_all sample_hash sample_time sample_events empty_store")
  have failed: "\<not> st_failed st" using sample_events_result r by (simp add: Let_def)
  have "store_inv sample_hash sample_time empty_store"
    using audit_Open_Inr [OF sample_open_empty] by (simp add: store_inv_def)
  from append_all_inv [OF this sample_time_laws sample_events_ok r] failed
  have "readEntries sample_hash sample_time (st_content st) = Some (st_entries st)"
    by (simp add: store_inv_def store_ok_def)
  from journal_order [OF this sample_time_laws] have
    "run_actions (replicate 32 CHR ''a'') (st_entries st) \<in> {[], [''approved''], [''approved'', ''completed'']}" .
  moreover have "run_actions (replicate 32 CHR ''a'')
      (st_entries (snd (append_all sample_hash sample_time sample_events empty_store))) = [''approved'', ''completed'']"
    by code_simp
  ultimately show ?thesis using r by simp
qed

text \<open>
  Setting a journal aside happens only to one that fails verification, never replaces another
  file and never changes a byte: afterwards the content stands under the preserved name, with its
  digest reported, every other file is as before, and a refusal changes nothing.
\<close>
theorem quarantine_preserves_evidence:
  assumes "Quarantine sha tm locked renamed stamp path d = (r, d')"
  shows "case r of
      None \<Rightarrow> d' = d
    | Some (p, h) \<Rightarrow> \<exists>content. get d path = Some (Regular content) \<and> h = sha content
        \<and> (maxBytes < length content \<or> readEntries sha tm content = None)
        \<and> p = preserved_name path stamp \<and> get d p = None \<and> get d' p = Some (Regular content)
        \<and> get d' path = None \<and> (\<forall>q. q \<noteq> p \<and> q \<noteq> path \<longrightarrow> get d' q = get d q)"
  using assms unfolding Quarantine_def Verify_def
  by (auto simp: Let_def split: if_splits option.splits node.splits)

theorem quarantine_preserves_evidence_witness:
  "Quarantine sample_hash sample_time True True ''t'' ''/a/m.jsonl'' [(''/a/m.jsonl'', Regular ''torn'')]
     = (Some (''/a/m.quarantined-t.jsonl'', ''4''), [(''/a/m.quarantined-t.jsonl'', Regular ''torn'')])
   \<and> readEntries sample_hash sample_time ''torn'' = None"
proof -
  have q: "Quarantine sample_hash sample_time True True ''t'' ''/a/m.jsonl'' [(''/a/m.jsonl'', Regular ''torn'')]
     = (Some (''/a/m.quarantined-t.jsonl'', ''4''), [(''/a/m.quarantined-t.jsonl'', Regular ''torn'')])"
    by code_simp
  from quarantine_preserves_evidence [OF q] show ?thesis by (auto simp: q maxBytes_def split: if_splits)
qed

end
