(* ===== verification/RunJournal.thy ===== *)
theory RunJournal
  imports RunInvariant AuditJournal
begin

section \<open>The run manager and its audit sink\<close>

text \<open>
  What the run manager relies on when it calls \<open>AuditSink.Append\<close>, as a locale: an event that
  was recorded is in the history for good, one that was not leaves the history as it was, and a
  second approval of the same run is never recorded. From that follows, in every reachable
  state, which actions the history holds for every retained mutation. The mutation journal is
  the provider: the locale is interpreted on its \<open>Append\<close>.
\<close>

definition actions_of :: "string \<Rightarrow> (string \<times> string) list \<Rightarrow> string list" where
  "actions_of rid h = map snd (filter (\<lambda>x. fst x = rid) h)"

lemma actions_of_append [simp]: "actions_of rid (h @ h') = actions_of rid h @ actions_of rid h'"
  by (simp add: actions_of_def)

lemma actions_of_single [simp]: "actions_of rid [(i, a)] = (if i = rid then [a] else [])"
  by (simp add: actions_of_def)

lemma actions_of_absent: "rid \<notin> fst ` set h \<Longrightarrow> actions_of rid h = []"
  by (force simp: actions_of_def filter_empty_conv)

text \<open>What the history holds of a mutation: its approval, and its completion once it has ended.\<close>

definition trail_ok :: "bool \<Rightarrow> bool \<Rightarrow> string list \<Rightarrow> bool" where
  "trail_ok failed ended actions \<longleftrightarrow>
     (if ended then actions = [''approved'', ''completed''] \<or> (failed \<and> actions = [''approved'']) else actions = [''approved''])"

lemma trail_ok_mono: "trail_ok failed ended actions \<Longrightarrow> (failed \<longrightarrow> failed') \<Longrightarrow> trail_ok failed' ended actions"
  by (auto simp: trail_ok_def)

locale audit_sink =
  fixes record_audit :: "'w \<Rightarrow> audit_event \<Rightarrow> 'a \<Rightarrow> bool \<times> 'a"
    and history :: "'a \<Rightarrow> (string \<times> string) list"
    and sound :: "'a \<Rightarrow> bool"
  assumes recorded: "sound a \<Longrightarrow> record_audit w e a = (True, a') \<Longrightarrow>
      sound a' \<and> history a' = history a @ [(ae_RunID e, ae_Action e)]
      \<and> (ae_Action e = ''approved'' \<longrightarrow> ae_RunID e \<notin> fst ` set (history a))"
    and unrecorded: "sound a \<Longrightarrow> record_audit w e a = (False, a') \<Longrightarrow> sound a' \<and> history a' = history a"
begin

text \<open>
  Every retained mutation has its approval in the history; once it has ended its completion
  follows, unless the sink failed, and then no further mutation is admitted.
\<close>

definition accounted :: "'a manager \<Rightarrow> bool" where
  "accounted m \<longleftrightarrow> sound (mg_audit m) \<and>
     (\<forall>rid r. get (mg_runs m) rid = Some r \<longrightarrow> rr_audited r \<longrightarrow> rr_runID r = rid
        \<and> trail_ok (mg_auditFailed m) (finished r) (actions_of rid (history (mg_audit m))))"

lemma accountedD:
  "accounted m \<Longrightarrow> get (mg_runs m) rid = Some r \<Longrightarrow> rr_audited r \<Longrightarrow>
     rr_runID r = rid \<and> trail_ok (mg_auditFailed m) (finished r) (actions_of rid (history (mg_audit m)))"
  by (simp add: accounted_def)

lemma accounted_same:
  assumes "accounted m" "mg_audit m' = mg_audit m" "mg_auditFailed m \<longrightarrow> mg_auditFailed m'"
    and "\<And>rid r'. get (mg_runs m') rid = Some r' \<Longrightarrow> rr_audited r' \<Longrightarrow>
      \<exists>r. get (mg_runs m) rid = Some r \<and> rr_audited r \<and> rr_runID r' = rr_runID r \<and> finished r' = finished r"
  shows "accounted m'"
  unfolding accounted_def
proof (intro conjI allI impI)
  show "sound (mg_audit m')" using assms(1,2) by (simp add: accounted_def)
  fix rid r' assume "get (mg_runs m') rid = Some r'" "rr_audited r'"
  from assms(4) [OF this] obtain r where "get (mg_runs m) rid = Some r" "rr_audited r"
    "rr_runID r' = rr_runID r" "finished r' = finished r" by blast
  with accountedD [OF assms(1), of rid r] assms(2,3)
  show "rr_runID r' = rid" "trail_ok (mg_auditFailed m') (finished r') (actions_of rid (history (mg_audit m')))"
    by (auto intro: trail_ok_mono)
qed

text \<open>The admission of a mutation adds its approval and nothing else.\<close>

lemma authorise_accounted:
  assumes "mc_Audit cfg = Some record_audit" "accounted m" "authorise cfg w now rid p fp approval m = (r, m1)"
    and "get (mg_runs m) rid = None"
  shows "accounted m1 \<and> (r = None \<and> requiresApproval p \<longrightarrow> actions_of rid (history (mg_audit m1)) = [''approved''])"
proof -
  have same: "accounted m2" if "mg_audit m2 = mg_audit m" "mg_runs m2 = mg_runs m" "mg_auditFailed m2 = mg_auditFailed m" for m2
    using that by (intro accounted_same [OF assms(2)]) auto
  have snd: "sound (mg_audit m)" using assms(2) by (simp add: accounted_def)
  show ?thesis
  proof (cases "requiresApproval p \<and> \<not> mg_auditFailed m \<and> fst (consumeApproval fp approval now (mg_approvals m)) = None
      \<and> pl_Impact p \<noteq> None")
    case False
    with assms(1,3) have "mg_audit m1 = mg_audit m \<and> mg_runs m1 = mg_runs m \<and> mg_auditFailed m1 = mg_auditFailed m
        \<and> (r = None \<longrightarrow> \<not> requiresApproval p)"
      by (auto simp: authorise_def Let_def split: if_splits option.splits prod.splits)
    with same show ?thesis by blast
  next
    case True
    then obtain im where im: "pl_Impact p = Some im" by blast
    obtain ok a where rec: "record_audit w (approved_event rid p im) (mg_audit m) = (ok, a)" by fastforce
    obtain t where t: "consumeApproval fp approval now (mg_approvals m) = (None, t)"
      using True by (metis prod.collapse)
    have m1: "r = (if ok then None else Some (run_err ErrAuditUnavailable))" "mg_audit m1 = a" "mg_runs m1 = mg_runs m"
      "mg_auditFailed m1 = (\<not> ok)"
      using assms(1,3) True im rec t by (auto simp: authorise_def Let_def split: bool.splits if_splits)
    show ?thesis
    proof (cases ok)
      case True
      then have "record_audit w (approved_event rid p im) (mg_audit m) = (True, a)" using rec by simp
      from recorded [OF snd this] have a: "sound a" "history a = history (mg_audit m) @ [(rid, ''approved'')]"
        "rid \<notin> fst ` set (history (mg_audit m))" by (simp_all add: approved_event_def)
      have "actions_of i (history a) = actions_of i (history (mg_audit m))" if "i \<noteq> rid" for i
        using that by (simp add: a(2))
      moreover have "actions_of rid (history a) = [''approved'']" by (simp add: a(2) actions_of_absent [OF a(3)])
      ultimately show ?thesis
        using assms(2,4) a(1) m1 True \<open>requiresApproval p \<and> \<not> mg_auditFailed m \<and> _\<close>
        by (simp add: accounted_def) (metis option.distinct(1))
    next
      case False
      then have "record_audit w (approved_event rid p im) (mg_audit m) = (False, a)" using rec by simp
      from unrecorded [OF snd this] have "sound a" "history a = history (mg_audit m)" by auto
      with assms(2) m1 False show ?thesis by (auto simp: accounted_def intro: trail_ok_mono)
    qed
  qed
qed

lemma Start_commit_accounted:
  assumes "mc_Audit cfg = Some record_audit" "config_ok cfg" "manager_ok cfg m" "validRunID rid" "accounted m"
    and "Start_commit cfg w now rid p fp approval m = (r, m')"
  shows "accounted m'"
  using assms(6)
proof (cases rule: Start_commit_cases)
  case (refused e)
  with assms(5) show ?thesis by simp
next
  case (unauthorised e)
  with authorise_accounted [OF assms(1,5) unauthorised(2,4)] show ?thesis by simp
next
  case (admitted m1)
  note f = authorise_fields [OF admitted(4)]
  have acc: "accounted m1" "requiresApproval p \<Longrightarrow> actions_of rid (history (mg_audit m1)) = [''approved'']"
    using authorise_accounted [OF assms(1,5) admitted(4,3)] by auto
  obtain runs order where reg: "m' = m1\<lparr>mg_runs := AList.update rid (new_record rid p) runs, mg_order := order @ [rid],
      mg_active := mg_active m1 + 1\<rparr>" and ev: "evicts (mg_runs m1) runs"
    using register_run_ok [OF authorise_ok [OF assms(3) admitted(4)] assms(2,4), of p] f admitted by auto
  have "get runs i = Some q \<Longrightarrow> get (mg_runs m1) i = Some q" for i q
    using ev unfolding evicts_def by (metis option.distinct(1))
  with acc show ?thesis
    by (auto simp: reg accounted_def new_record_def finished_def trail_ok_def)
qed

lemma audit_completion_accounted:
  assumes "mc_Audit cfg = Some record_audit" "sound (mg_audit m)" "rr_audited r"
    and m'_def: "m' = audit_completion cfg w r m"
  shows "sound (mg_audit m')" "mg_auditFailed m \<Longrightarrow> mg_auditFailed m'"
    "(history (mg_audit m') = history (mg_audit m) @ [(rr_runID r, ''completed'')])
      \<or> (mg_auditFailed m' \<and> history (mg_audit m') = history (mg_audit m))"
proof -
  obtain ok a where rec: "record_audit w (completed_event r) (mg_audit m) = (ok, a)" by fastforce
  have m': "mg_audit m' = a" "mg_auditFailed m' = (mg_auditFailed m \<or> \<not> ok)"
    using assms(1,3) rec by (auto simp: m'_def audit_completion_def split: bool.splits)
  have "sound a \<and> (ok \<longrightarrow> history a = history (mg_audit m) @ [(rr_runID r, ''completed'')])
      \<and> (\<not> ok \<longrightarrow> history a = history (mg_audit m))"
    using recorded [OF assms(2), of w "completed_event r" a] unrecorded [OF assms(2), of w "completed_event r" a] rec
    by (cases ok) (simp_all add: completed_event_def)
  with m' show "sound (mg_audit m')" "mg_auditFailed m \<Longrightarrow> mg_auditFailed m'"
    "(history (mg_audit m') = history (mg_audit m) @ [(rr_runID r, ''completed'')])
      \<or> (mg_auditFailed m' \<and> history (mg_audit m') = history (mg_audit m))" by auto
qed

lemma finish_accounted:
  assumes "mc_Audit cfg = Some record_audit" "accounted m"
  shows "accounted (finish cfg rid env res failed m)"
proof (cases "\<exists>r. get (mg_runs m) rid = Some r \<and> \<not> finished r")
  case False
  with assms show ?thesis by (subst finish_inactive) auto
next
  case True
  then obtain r where r: "get (mg_runs m) rid = Some r" "\<not> finished r" by blast
  define r1 where "r1 = set_outcome (xn_failTime env) res failed r"
  define m1 where "m1 = audit_completion cfg (xn_audit env) r1 (m\<lparr>mg_active := mg_active m - 1\<rparr>)"
  have fin: "finish cfg rid env res failed m = m1\<lparr>mg_runs := AList.update rid (ended_record env res failed r) (mg_runs m)\<rparr>"
    by (simp add: finish_active [OF r] m1_def r1_def)
  show ?thesis
  proof (cases "rr_audited r")
    case False
    then have "mg_audit m1 = mg_audit m" "mg_auditFailed m1 = mg_auditFailed m"
      using assms(1) by (simp_all add: m1_def r1_def audit_completion_def)
    with False show ?thesis
      unfolding fin by (intro accounted_same [OF assms(2)]) (auto split: if_splits)
  next
    case True
    have snd: "sound (mg_audit m)" using assms(2) by (simp add: accounted_def)
    have id: "rr_runID r1 = rid" "actions_of rid (history (mg_audit m)) = [''approved'']"
      using accountedD [OF assms(2) r(1) True] r(2) by (simp_all add: r1_def trail_ok_def)
    have aud: "rr_audited r1" using True by (simp add: r1_def)
    have "sound (mg_audit (m\<lparr>mg_active := mg_active m - 1\<rparr>))" using snd by simp
    note c = audit_completion_accounted [OF assms(1) this aud m1_def, simplified]
    have "actions_of i (history (mg_audit m1)) = actions_of i (history (mg_audit m))" if "i \<noteq> rid" for i
      using c(3) that id(1) by auto
    moreover have "trail_ok (mg_auditFailed m1) True (actions_of rid (history (mg_audit m1)))"
      using c(3) id by (auto simp: trail_ok_def)
    moreover have "rr_runID r = rid" using accountedD [OF assms(2) r(1) True] by simp
    ultimately show ?thesis
      using c(1,2) accountedD [OF assms(2)]
      unfolding accounted_def fin by (auto intro: trail_ok_mono)
  qed
qed

lemma step_accounted:
  assumes "mc_Audit cfg = Some record_audit" "config_ok cfg" "manager_ok cfg m" "accounted m" "step cfg b m m'"
  shows "accounted m'"
proof -
  have same: ?thesis if "mg_audit m' = mg_audit m" "mg_auditFailed m' = mg_auditFailed m" "mg_runs m' = mg_runs m"
    using that by (intro accounted_same [OF assms(4)]) auto
  show ?thesis
    using assms(5)
  proof (cases rule: step.cases)
    case (preview now newID req m0 r)
    then show ?thesis by (intro same) (auto simp: Preview_def split: if_splits sum.splits prod.splits)
  next
    case (commit snap req p fp rid w now approval r)
    from Start_commit_accounted [OF assms(1-3) commit(3) assms(4) commit(4)] show ?thesis .
  next
    case (event rid e r)
    then show ?thesis
      by (intro accounted_same [OF assms(4)]) (auto simp: recordEvent_def split: if_splits option.splits)
  next
    case (ended rid env res failed)
    with finish_accounted [OF assms(1,4)] show ?thesis by simp
  next
    case (cancel rid r)
    then show ?thesis
      by (intro accounted_same [OF assms(4)]) (auto simp: Cancel_def finished_def split: if_splits option.splits)
  next
    case (activate fs st r)
    then show ?thesis by (intro same) (auto simp: ActivateTool_def Let_def split: if_splits option.splits)
  next
    case shutdown
    then show ?thesis by (intro same) (auto simp: Shutdown_def)
  next
    case context_done
    then show ?thesis by (intro same) auto
  qed
qed

lemma steps_accounted:
  "steps cfg b m m' \<Longrightarrow> mc_Audit cfg = Some record_audit \<Longrightarrow> config_ok cfg \<Longrightarrow> manager_ok cfg m \<Longrightarrow> accounted m
     \<Longrightarrow> accounted m'"
proof (induction rule: steps.induct)
  case (steps_more m m1 m2)
  then show ?case using step_accounted [OF _ _ steps_ok [OF steps_more(1)]] by blast
qed simp

end

subsection \<open>The journal as the sink\<close>

definition journal_sink ::
    "(string \<Rightarrow> string) \<Rightarrow> time_lib \<Rightarrow> append_env \<Rightarrow> audit_event \<Rightarrow> store \<Rightarrow> bool \<times> store" where
  "journal_sink sha tm w e st = (case Append sha tm w e st of (None, st') \<Rightarrow> (True, st') | (Some _, st') \<Rightarrow> (False, st'))"

definition journal_history :: "store \<Rightarrow> (string \<times> string) list" where
  "journal_history st = map (\<lambda>e. (en_RunID e, en_Action e)) (st_entries st)"

definition journal_sound :: "store \<Rightarrow> bool" where
  "journal_sound st \<longleftrightarrow> st_seen st = seen_of (st_entries st) []"

lemma get_seen_of: "get (seen_of es seen) i = None \<longleftrightarrow> get seen i = None \<and> i \<notin> en_RunID ` set es"
  by (induction es seen rule: seen_of.induct) (auto simp: note_action_def)

lemma sealed_entry_fields [simp]:
  "en_RunID (sealed_entry sha now e es) = ae_RunID e" "en_Action (sealed_entry sha now e es) = ae_Action e"
  by (simp_all add: sealed_entry_def new_entry_def Let_def)

interpretation journal: audit_sink "journal_sink sha tm" journal_history journal_sound
  for sha :: "string \<Rightarrow> string" and tm :: time_lib
proof
  fix a a' :: store and w e
  assume snd: "journal_sound a" and rec: "journal_sink sha tm w e a = (True, a')"
  then have ap: "Append sha tm w e a = (None, a')" by (auto simp: journal_sink_def split: prod.splits option.splits)
  note A = Append_None(5,8) [OF ap]
  have "ae_RunID e \<notin> fst ` set (journal_history a)" if "ae_Action e = ''approved''"
    using A(1) that snd by (auto simp: action_allowed_def journal_sound_def get_seen_of journal_history_def)
  then show "journal_sound a' \<and> journal_history a' = journal_history a @ [(ae_RunID e, ae_Action e)]
      \<and> (ae_Action e = ''approved'' \<longrightarrow> ae_RunID e \<notin> fst ` set (journal_history a))"
    using snd by (simp add: A(2) journal_sound_def journal_history_def seen_of_append)
next
  fix a a' :: store and w e
  assume snd: "journal_sound a" and rec: "journal_sink sha tm w e a = (False, a')"
  then obtain err where ap: "Append sha tm w e a = (Some err, a')"
    by (auto simp: journal_sink_def split: prod.splits option.splits)
  from Append_Some [OF ap] snd show "journal_sound a' \<and> journal_history a' = journal_history a"
    by (auto simp: journal_sound_def journal_history_def)
qed

end
