(* ===== verification/ExecutorRuns.thy ===== *)
theory ExecutorRuns
  imports Executor
begin

section \<open>What a run of the executor does to its sink\<close>

text \<open>
  \<open>Run\<close> touches its sink only through the emit operation, always ends, and when it reports a
  normal exit the sink has accepted a started event, all the output in order and an exited event.
\<close>

subsection \<open>Only through emit\<close>

text \<open>Whatever every emit keeps of the sink, a run keeps.\<close>

locale sink_invariant =
  fixes emit :: "exec_event \<Rightarrow> 's \<Rightarrow> 'c option \<times> 's"
    and P :: "'s \<Rightarrow> bool"
  assumes kept: "P k \<Longrightarrow> emit e k = (r, k') \<Longrightarrow> P k'"
begin

lemma stream_emit_kept: "stream_emit emit e s = (r, s') \<Longrightarrow> P (ss_sink s) \<Longrightarrow> P (ss_sink s')"
  by (auto simp: stream_emit_def Let_def split: option.splits prod.splits dest: kept)

lemma write_chunks_kept:
  "write_chunks fuel emit w clock p s = Some (r, s') \<Longrightarrow> P (ss_sink s) \<Longrightarrow> P (ss_sink s')"
proof (induction fuel arbitrary: p s)
  case 0
  then show ?case by (cases p) auto
next
  case (Suc fuel)
  show ?case
  proof (cases p)
    case (Cons c cs)
    with Suc show ?thesis by (auto simp: Let_def split: option.splits prod.splits dest: stream_emit_kept)
  qed (use Suc in simp)
qed

lemma writer_Write_kept:
  "writer_Write emit clock p w s = Some (n, r, w', s') \<Longrightarrow> P (ss_sink s) \<Longrightarrow> P (ss_sink s')"
proof -
  assume a: "writer_Write emit clock p w s = Some (n, r, w', s')" "P (ss_sink s)"
  then obtain fuel v q r1 s1 where "write_chunks fuel emit v clock q s = Some (r1, s1)" "ss_sink s' = ss_sink s1"
    unfolding writer_Write_def Let_def by (auto split: option.split_asm if_split_asm prod.split_asm)
  with a(2) write_chunks_kept show "P (ss_sink s')" by metis
qed

lemma pump_kept: "pump emit clock out ws s = Some s' \<Longrightarrow> P (ss_sink s) \<Longrightarrow> P (ss_sink s')"
proof (induction out arbitrary: ws s)
  case (Cons o1 out)
  show ?case
  proof (cases "ws (fst o1)")
    case None
    with Cons show ?thesis by (cases o1) simp
  next
    case (Some w)
    with Cons.prems(1) obtain n r w' s1 where "writer_Write emit clock (snd o1) w s = Some (n, r, w', s1)"
        "pump emit clock out (ws(fst o1 := if r = None then Some w' else None)) s1 = Some s'"
      by (cases o1) (auto split: option.split_asm)
    with Cons.IH Cons.prems(2) writer_Write_kept show ?thesis by metis
  qed
qed simp

lemma finish_run_kept: "finish_run emit env rid s = (r, s') \<Longrightarrow> P (ss_sink s) \<Longrightarrow> P (ss_sink s')"
proof -
  have snd_kept: "P (ss_sink (snd (stream_emit emit e s)))" if "P (ss_sink s)" for e
    using that stream_emit_kept by (cases "stream_emit emit e s") auto
  show "finish_run emit env rid s = (r, s') \<Longrightarrow> P (ss_sink s) \<Longrightarrow> P (ss_sink s')"
    unfolding finish_run_def Let_def
    by (auto split: option.splits if_splits prod.splits wait_outcome.splits dest: stream_emit_kept intro: snd_kept)
qed

lemma Run_kept:
  assumes "Run sha fs goos cfg emit env p k = Some (r, k')" "P k"
  shows "P k'"
proof -
  have start: "P (ss_sink s')" if "start_run cfg2 emit env rid s = Some (r2, s')" "P (ss_sink s)" for cfg2 rid s r2 s'
    using that unfolding start_run_def Let_def
    by (auto split: option.splits if_splits prod.splits dest: stream_emit_kept pump_kept finish_run_kept)
  from assms show ?thesis
    unfolding Run_def by (auto split: option.splits if_splits dest: start)
qed

end

subsection \<open>A run ends and delivers\<close>

lemma New_positive: "0 < ec_ChunkBytes (New cfg)" "0 < ec_MaxOutputBytesPerStream (New cfg)"
  by (simp_all add: New_def defaultMaxOutput_def)

text \<open>With a positive chunk size no write loops for ever, whatever the sink answers.\<close>

lemma write_chunks_ends:
  "0 < ew_ChunkBytes w \<Longrightarrow> length p \<le> fuel \<Longrightarrow> \<exists>r s'. write_chunks fuel emit w clock p s = Some (r, s')"
proof (induction fuel arbitrary: p s)
  case (Suc fuel)
  show ?case
  proof (cases p)
    case (Cons c cs)
    define n where "n = min (length p) (ew_ChunkBytes w)"
    have "length (drop n p) \<le> fuel" using Suc.prems Cons by (simp add: n_def)
    with Suc.IH Suc.prems(1) have "\<exists>r s'. write_chunks fuel emit w clock (drop n p) s1 = Some (r, s')" for s1 by blast
    then show ?thesis
      unfolding Cons write_chunks.simps Let_def n_def [symmetric, unfolded Cons]
      by (auto split: prod.split option.split simp: n_def [unfolded Cons, symmetric])
  qed simp
qed simp

lemma writer_Write_ends:
  assumes "0 < ew_ChunkBytes w"
  shows "\<exists>n r w' s'. writer_Write emit clock p w s = Some (n, r, w', s') \<and> ew_ChunkBytes w' = ew_ChunkBytes w"
proof -
  define q where "q = (if ew_MaxBytes w < ew_Total w + length p then take (ew_MaxBytes w - ew_Total w) p else p)"
  obtain r s1 where "write_chunks (length q) emit (w\<lparr>ew_Total := ew_Total w + length q\<rparr>) clock q s = Some (r, s1)"
    using write_chunks_ends [of "w\<lparr>ew_Total := ew_Total w + length q\<rparr>", OF _ order.refl] assms by fastforce
  then show ?thesis
    unfolding writer_Write_def Let_def q_def by (cases r) (auto simp: q_def)
qed

lemma pump_ends:
  "\<forall>ty w. ws ty = Some w \<longrightarrow> 0 < ew_ChunkBytes w \<Longrightarrow> \<exists>s'. pump emit clock out ws s = Some s'"
proof (induction out arbitrary: ws s)
  case (Cons o1 out)
  obtain ty p where o1: "o1 = (ty, p)" by (cases o1)
  show ?case
  proof (cases "ws ty")
    case None
    with Cons show ?thesis by (simp add: o1)
  next
    case (Some w)
    have "0 < ew_ChunkBytes w" using Cons.prems Some by blast
    from writer_Write_ends [OF this, of emit clock p s] obtain n r w' s1 where
      W: "writer_Write emit clock p w s = Some (n, r, w', s1)" "ew_ChunkBytes w' = ew_ChunkBytes w" by blast
    have "\<forall>ty2 v. (ws(ty := if r = None then Some w' else None)) ty2 = Some v \<longrightarrow> 0 < ew_ChunkBytes v"
      using Cons.prems Some W(2) by auto
    from Cons.IH [OF this, of s1] show ?thesis unfolding o1 pump.simps Some by (simp add: W(1) del: fun_upd_apply)
  qed
qed simp

lemma Run_ends: "\<exists>r k'. Run sha fs goos cfg emit env p k = Some (r, k')"
proof -
  have writers: "\<forall>ty w. run_writers (New cfg) rid ty = Some w \<longrightarrow> 0 < ew_ChunkBytes w" for rid
    using New_positive(1) [of cfg] by (auto simp: run_writers_def)
  have start: "\<exists>r s'. start_run (New cfg) emit env rid s = Some (r, s')" for rid s
  proof -
    obtain r s1 where e: "stream_emit emit (lifecycle_event rid EventStarted (re_now env) None) s = (r, s1)" by fastforce
    obtain s2 where "pump emit (re_clock env) (taken (re_cut env) (re_output env)) (run_writers (New cfg) rid) s1 = Some s2"
      using pump_ends [OF writers] by blast
    with e show ?thesis
      by (cases r; cases "finish_run emit env rid s2") (auto simp: start_run_def Let_def split: option.split)
  qed
  show ?thesis
  proof (cases "re_runID env")
    case (Some rid)
    from start [of rid "\<lparr>ss_sink = k, ss_first = None, ss_cancelled = False\<rparr>"] Some show ?thesis
      by (auto simp: Run_def split: option.split)
  qed (simp add: Run_def split: option.split)
qed

context event_sink
begin

lemma run_writers_ok:
  "run_writers cfg rid ty = Some w \<Longrightarrow>
     writer_ok (nat (ec_ChunkBytes cfg)) (nat (ec_MaxOutputBytesPerStream cfg)) rid ty w"
  by (auto simp: run_writers_def writer_ok_def split: if_splits)

lemma pump_run:
  assumes "0 < ec_ChunkBytes cfg"
  shows "\<exists>s' es. pump emit clock out (run_writers cfg rid) s = Some s' \<and> pumped out (run_writers cfg rid) s s' es
     \<and> (\<forall>e \<in> set es. ee_RunID e = rid \<and> ee_Type e \<in> fst ` set out \<and> ee_Data e \<noteq> []
          \<and> length (ee_Data e) \<le> nat (ec_ChunkBytes cfg))"
proof (rule pump_delivers)
  show "0 < nat (ec_ChunkBytes cfg)" using assms by simp
qed (rule run_writers_ok)

text \<open>A normal exit: nothing of what the writers took is missing, and nothing else was delivered.\<close>

lemma Run_exited:
  assumes "Run sha fs goos cfg emit env p k = Some ((res, None), k')" "er_Status res = ExecExited"
    and "re_ctxBefore env \<noteq> Some ExecExited" "re_ctxAtStart env \<noteq> Some ExecExited"
    and "\<forall>w \<in> set (re_output env). fst w = EventStdout \<or> fst w = EventStderr"
  shows "\<exists>es rid. re_runID env = Some rid
     \<and> delivered k' = delivered k @ view (lifecycle_event rid EventStarted (re_now env) None) # map view es
         @ [view (lifecycle_event rid EventExited (re_end env) (Some (er_ExitCode res)))]
     \<and> (\<forall>ty. stream_data ty es = written ty (taken (re_cut env) (re_output env))
          \<and> length (stream_data ty es) \<le> nat (ec_MaxOutputBytesPerStream (New cfg)))
     \<and> (\<forall>e \<in> set es. ee_RunID e = rid \<and> (ee_Type e = EventStdout \<or> ee_Type e = EventStderr) \<and> ee_Data e \<noteq> []
          \<and> length (ee_Data e) \<le> nat (ec_ChunkBytes (New cfg)))"
proof -
  define s0 where "s0 = (\<lparr>ss_sink = k, ss_first = None, ss_cancelled = False\<rparr> :: ('s, 'c) stream_state)"
  obtain rid s' where rid: "re_runID env = Some rid" and start: "start_run (New cfg) emit env rid s0 = Some ((res, None), s')"
    and k': "k' = ss_sink s'"
    using assms(1-3) unfolding Run_def s0_def
    by (auto split: option.splits if_splits simp: result_of_def no_result_def)
  obtain s1 where s1: "stream_emit emit (lifecycle_event rid EventStarted (re_now env) None) s0 = (None, s1)"
    and fin: "map_option (finish_run emit env rid)
        (pump emit (re_clock env) (taken (re_cut env) (re_output env)) (run_writers (New cfg) rid) s1) = Some ((res, None), s')"
    using start assms(2,4) unfolding start_run_def Let_def
    by (auto split: option.splits if_splits prod.splits simp: result_of_def)
  from pump_run [OF New_positive(1), of "re_clock env" "taken (re_cut env) (re_output env)" cfg rid s1] obtain s2 es where
    s2: "pump emit (re_clock env) (taken (re_cut env) (re_output env)) (run_writers (New cfg) rid) s1 = Some s2"
    and pumped: "pumped (taken (re_cut env) (re_output env)) (run_writers (New cfg) rid) s1 s2 es"
    and es: "\<forall>e \<in> set es. ee_RunID e = rid \<and> ee_Type e \<in> fst ` set (taken (re_cut env) (re_output env)) \<and> ee_Data e \<noteq> []
       \<and> length (ee_Data e) \<le> nat (ec_ChunkBytes (New cfg))" by blast
  have fin2: "finish_run emit env rid s2 = ((res, None), s')" using fin s2 by simp
  obtain s3 where first: "ss_first s2 = None"
    and s3: "stream_emit emit (lifecycle_event rid EventExited (re_end env) (Some (er_ExitCode res))) s2 = (None, s3)"
    and s': "s' = s3"
    using fin2 assms(2) unfolding finish_run_def Let_def
    by (auto split: option.splits if_splits prod.splits wait_outcome.splits simp: result_of_def)
  have log: "delivered k' = log_of s0 @ [view (lifecycle_event rid EventStarted (re_now env) None)] @ map view es
      @ [view (lifecycle_event rid EventExited (re_end env) (Some (er_ExitCode res)))]"
    using stream_emit_ok [OF s1] stream_emit_ok [OF s3] pumped unfolding pumped_def by (simp add: k' s')
  have all: "stream_data ty es = written ty (taken (re_cut env) (re_output env))" for ty
    using pumped first assms(5) unfolding pumped_def by (auto simp: run_writers_def dest!: taken_set)
  have bound: "length (stream_data ty es) \<le> nat (ec_MaxOutputBytesPerStream (New cfg))" for ty
  proof -
    have "length (stream_data ty es) \<le> room (run_writers (New cfg) rid ty)"
      using pumped unfolding pumped_def by blast
    also have "\<dots> \<le> nat (ec_MaxOutputBytesPerStream (New cfg))" by (simp add: room_def run_writers_def)
    finally show ?thesis .
  qed
  have "ee_Type e = EventStdout \<or> ee_Type e = EventStderr" if "e \<in> set es" for e
  proof -
    have "ee_Type e \<in> fst ` set (taken (re_cut env) (re_output env))" using es that by blast
    then obtain v where v: "v \<in> set (taken (re_cut env) (re_output env))" "ee_Type e = fst v" by blast
    from taken_set [OF v(1)] assms(5) v(2) show ?thesis by auto
  qed
  with log all bound es rid show ?thesis
    by (intro exI [of _ es] exI [of _ rid]) (simp add: s0_def)
qed

end

end
