(* ===== verification/RunExecution.thy ===== *)
theory RunExecution
  imports RunInvariant ExecutorRuns
begin

section \<open>From a process to the record of its run\<close>

text \<open>
  The executor's sink is the run manager: the contracts of \<open>Executor\<close> and \<open>ExecutorRuns\<close> are
  interpreted on \<open>run_emit\<close>. So an execution is a sequence of the manager's steps, always ends,
  loses nothing of a run that exits normally, and shows nothing of a guarded one but what its
  guard approved.
\<close>

subsection \<open>The log of a run\<close>

type_synonym event_view = "event_type \<times> int \<times> string \<times> int option"

definition event_view :: "run_event \<Rightarrow> event_view" where
  "event_view v = (ev_Type v, ev_Timestamp v, ev_DataBase64 v, ev_ExitCode v)"

definition logged :: "exec_event \<Rightarrow> event_view" where
  "logged e = (ee_Type e, ee_Timestamp e, encodeBase64 (ee_Data e), ee_ExitCode e)"

definition run_log :: "string \<Rightarrow> 'a manager \<Rightarrow> event_view list" where
  "run_log rid m = (case get (mg_runs m) rid of None \<Rightarrow> [] | Some r \<Rightarrow> map event_view (rr_events r))"

lemma event_view_stored: "event_view (stored_event n e) = logged e"
  by (simp add: event_view_def stored_event_def logged_def)

lemma recordEvent_None:
  "recordEvent cfg rid e m = (None, m') \<Longrightarrow> \<exists>r. get (mg_runs m) rid = Some r \<and> \<not> finished r
     \<and> rr_eventBytes r + event_charge e \<le> mc_MaxEventBytesPerRun cfg
     \<and> m' = m\<lparr>mg_runs := AList.update rid (append_event e r) (mg_runs m)\<rparr>"
  by (auto simp: recordEvent_def split: option.splits if_splits)

lemma recordEvent_Some: "recordEvent cfg rid e m = (Some c, m') \<Longrightarrow> m' = m"
  by (auto simp: recordEvent_def split: option.splits if_splits)

lemma run_emit_cases:
  "run_emit cfg rid guarded e (m, held, over) = (r, k') \<Longrightarrow>
     recordEvent cfg rid e m = (r, fst k') \<and> (\<not> guarded \<or> ee_Type e = EventStarted)
     \<or> fst k' = m \<and> r = None \<and> guarded \<and> ee_Type e \<noteq> EventStarted"
  by (auto simp: run_emit_def Let_def split: if_splits prod.splits)

interpretation run_stream: event_sink "run_emit cfg rid False" "run_log rid \<circ> fst" logged
  for cfg :: "('w, 'a) manager_config" and rid :: string
proof
  fix e :: exec_event and k k' :: "'a run_sink"
  obtain m held over where k: "k = (m, held, over)" by (cases k)
  {
    assume "run_emit cfg rid False e k = (None, k')"
    with run_emit_cases [of cfg rid False e m held over None k'] recordEvent_None [of cfg rid e m "fst k'"]
    obtain r where "get (mg_runs m) rid = Some r"
      "fst k' = m\<lparr>mg_runs := AList.update rid (append_event e r) (mg_runs m)\<rparr>" by (auto simp: k)
    then show "(run_log rid \<circ> fst) k' = (run_log rid \<circ> fst) k @ [logged e]"
      by (simp add: run_log_def k event_view_stored)
  next
    fix c assume "run_emit cfg rid False e k = (Some c, k')"
    with run_emit_cases [of cfg rid False e m held over "Some c" k'] recordEvent_Some [of cfg rid e m c "fst k'"]
    show "(run_log rid \<circ> fst) k' = (run_log rid \<circ> fst) k" by (auto simp: k)
  }
qed

subsection \<open>Executions are sequences of steps\<close>

lemma steps_trans: "steps cfg b m1 m2 \<Longrightarrow> steps cfg b m0 m1 \<Longrightarrow> steps cfg b m0 m2"
  by (induction rule: steps.induct) (auto intro: steps_more)

interpretation run_steps: sink_invariant "run_emit cfg rid guarded" "\<lambda>k. steps cfg b m0 (fst k)"
  for cfg :: "('w, 'a) manager_config" and b :: backend and rid :: string and guarded :: bool and m0 :: "'a manager"
proof
  fix k k' :: "'a run_sink" and e r
  assume s: "steps cfg b m0 (fst k)" and em: "run_emit cfg rid guarded e k = (r, k')"
  obtain m held over where k: "k = (m, held, over)" by (cases k)
  from run_emit_cases [OF em [unfolded k]] have "fst k' = m \<or> recordEvent cfg rid e m = (r, fst k')" by blast
  with s show "steps cfg b m0 (fst k')" by (auto simp: k intro: steps_more step.event)
qed

lemma recordEvent_step: "step cfg b m (snd (recordEvent cfg rid e m))"
  by (rule step.event [of cfg rid e m "fst (recordEvent cfg rid e m)"]) simp

lemma guard_verdict_steps: "guard_verdict cfg rid now guard over held m = (f, m') \<Longrightarrow> steps cfg b m m'"
proof -
  assume "guard_verdict cfg rid now guard over held m = (f, m')"
  then have "m' = m \<or> (\<exists>e. m' = snd (recordEvent cfg rid e m))"
    by (auto simp: guard_verdict_def split: if_splits sum.splits prod.splits option.splits) (metis snd_conv)+
  then show ?thesis by (metis recordEvent_step steps_more steps_none)
qed

definition terminal_event :: "string \<Rightarrow> 'w end_env \<Rightarrow> exec_result \<Rightarrow> bool \<Rightarrow> exec_event" where
  "terminal_event rid env res ok =
     (let ty = terminal_type ok (er_Status res) in
      \<lparr>ee_RunID = rid, ee_Type = ty, ee_Timestamp = xn_terminalTime env, ee_Data = [],
       ee_ExitCode = (if ty = EventExited then Some (er_ExitCode res) else None)\<rparr>)"

lemma guarded_end_parts:
  assumes "guarded_end cfg rid env guard res failed (m, held, over) = (f, m')"
  obtains f1 m1 where
    "(failed = None \<and> er_Status res = ExecExited \<and> er_ExitCode res = 0
        \<and> guard_verdict cfg rid (xn_guardTime env) guard over held m = (f1, m1))
      \<or> (\<not> (failed = None \<and> er_Status res = ExecExited \<and> er_ExitCode res = 0) \<and> f1 = failed \<and> m1 = m)"
    "m' = snd (recordEvent cfg rid (terminal_event rid env res (f1 = None)) m1)"
    "f = None \<longleftrightarrow> f1 = None \<and> fst (recordEvent cfg rid (terminal_event rid env res (f1 = None)) m1) = None"
proof -
  obtain f1 m1 where one: "(if failed = None \<and> er_Status res = ExecExited \<and> er_ExitCode res = 0
      then guard_verdict cfg rid (xn_guardTime env) guard over held m else (failed, m)) = (f1, m1)"
    by (cases "if failed = None \<and> er_Status res = ExecExited \<and> er_ExitCode res = 0
      then guard_verdict cfg rid (xn_guardTime env) guard over held m else (failed, m)")
  have "(f, m') = (case f1 of Some f \<Rightarrow> Some f
      | None \<Rightarrow> map_option FailedRecord (fst (recordEvent cfg rid (terminal_event rid env res (f1 = None)) m1)),
      snd (recordEvent cfg rid (terminal_event rid env res (f1 = None)) m1))"
    using assms unfolding guarded_end_def terminal_event_def
    by (simp only: Let_def prod.case one case_prod_unfold fst_conv snd_conv)
  then have two: "m' = snd (recordEvent cfg rid (terminal_event rid env res (f1 = None)) m1)"
    "f = None \<longleftrightarrow> f1 = None \<and> fst (recordEvent cfg rid (terminal_event rid env res (f1 = None)) m1) = None"
    by (auto split: option.splits)
  from one have "(failed = None \<and> er_Status res = ExecExited \<and> er_ExitCode res = 0
        \<and> guard_verdict cfg rid (xn_guardTime env) guard over held m = (f1, m1))
      \<or> (\<not> (failed = None \<and> er_Status res = ExecExited \<and> er_ExitCode res = 0) \<and> f1 = failed \<and> m1 = m)"
    by (auto split: if_splits)
  from that [OF this two] show thesis .
qed

lemma guarded_end_steps:
  assumes "guarded_end cfg rid env guard res failed k = (f, m')"
  shows "steps cfg b (fst k) m'"
proof -
  obtain m held over where k: "k = (m, held, over)" by (cases k)
  from assms [unfolded k] show ?thesis
  proof (cases rule: guarded_end_parts)
    case (1 f1 m1)
    from 1(1) have "steps cfg b m m1" using guard_verdict_steps steps_none by metis
    with 1(2) show ?thesis by (simp add: k steps_more [OF _ recordEvent_step])
  qed
qed

text \<open>The parts of an execution: the run of the executor, the guard, the end.\<close>

definition plan_guard :: "('w, 'a) manager_config \<Rightarrow> plan \<Rightarrow> output_guard option" where
  "plan_guard cfg p = (case mc_OutputGuard cfg of None \<Rightarrow> None | Some f \<Rightarrow> f p)"

lemma execute_parts:
  assumes "execute cfg b fs env fin rid p m = Some m'"
  obtains res err k failed m1 where
    "Run (ba_sha b) fs (ba_goos b) (executor_config cfg) (run_emit cfg rid (plan_guard cfg p \<noteq> None))
       (env\<lparr>re_runID := Some rid\<rparr>) p (m, [], False) = Some ((res, err), k)"
    "m' = finish cfg rid fin res failed m1"
    "case plan_guard cfg p of None \<Rightarrow> failed = map_option FailedExecution err \<and> m1 = fst k
     | Some g \<Rightarrow> guarded_end cfg rid fin g res (map_option FailedExecution err) k = (failed, m1)"
  using assms unfolding execute_def plan_guard_def [symmetric] Let_def
  by (auto split: option.splits prod.splits)

lemma execute_total: "\<exists>m'. execute cfg b fs env fin rid p m = Some m'"
proof -
  obtain r k where "Run (ba_sha b) fs (ba_goos b) (executor_config cfg) (run_emit cfg rid (plan_guard cfg p \<noteq> None))
       (env\<lparr>re_runID := Some rid\<rparr>) p (m, [], False) = Some (r, k)"
    using Run_ends by metis
  then show ?thesis
    unfolding execute_def plan_guard_def [symmetric] Let_def by (cases r) (auto split: prod.split)
qed

lemma execute_steps:
  assumes "execute cfg b fs env fin rid p m = Some m'"
  shows "steps cfg b m m'"
  using assms
proof (cases rule: execute_parts)
  case (1 res err k failed m1)
  have "steps cfg b m (fst k)"
    by (rule run_steps.Run_kept [OF 1(1)]) (simp add: steps_none)
  moreover have "steps cfg b (fst k) m1"
  proof (cases "plan_guard cfg p")
    case None
    with 1(3) show ?thesis by (simp add: steps_none)
  next
    case (Some g)
    with 1(3) guarded_end_steps show ?thesis by simp
  qed
  ultimately have "steps cfg b m m1" by (metis steps_trans)
  then show ?thesis unfolding 1(2) by (rule steps_more) (rule step.ended)
qed

subsection \<open>One execution on its own\<close>

text \<open>While a run executes, nothing but its own record changes, and it stays active.\<close>

definition stays_active :: "string \<Rightarrow> 'a manager \<Rightarrow> 'a manager \<Rightarrow> bool" where
  "stays_active rid m0 m \<longleftrightarrow> (\<exists>r. get (mg_runs m) rid = Some r \<and> \<not> finished r)
     \<and> (\<forall>i. i \<noteq> rid \<longrightarrow> get (mg_runs m) i = get (mg_runs m0) i) \<and> mg_active m = mg_active m0"

lemma stays_active_event:
  "stays_active rid m0 m \<Longrightarrow> recordEvent cfg rid e m = (r, m') \<Longrightarrow> stays_active rid m0 m'"
  by (cases r) (auto simp: stays_active_def dest!: recordEvent_Some recordEvent_None)

interpretation run_active: sink_invariant "run_emit cfg rid guarded" "\<lambda>k. stays_active rid m0 (fst k)"
  for cfg :: "('w, 'a) manager_config" and rid :: string and guarded :: bool and m0 :: "'a manager"
proof
  fix k k' :: "'a run_sink" and e r
  assume s: "stays_active rid m0 (fst k)" and em: "run_emit cfg rid guarded e k = (r, k')"
  obtain m held over where k: "k = (m, held, over)" by (cases k)
  from run_emit_cases [OF em [unfolded k]] s show "stays_active rid m0 (fst k')"
    using stays_active_event by (auto simp: k)
qed

lemma guarded_end_active:
  assumes "guarded_end cfg rid env guard res failed (m, held, over) = (f, m')" "stays_active rid m0 m"
  shows "stays_active rid m0 m'"
  using assms(1)
proof (cases rule: guarded_end_parts)
  case (1 f1 m1)
  have rec: "stays_active rid m0 (snd (recordEvent cfg rid e n))" if "stays_active rid m0 n" for e n
    using stays_active_event [OF that] by (metis prod.collapse)
  have "stays_active rid m0 m2" if "guard_verdict cfg rid now guard over held m = (f2, m2)" for now f2 m2
    using that assms(2) stays_active_event [OF assms(2)]
    by (auto simp: guard_verdict_def split: if_splits sum.splits prod.splits option.splits)
  with 1(1) assms(2) have "stays_active rid m0 m1" by blast
  with rec 1(2) show ?thesis by simp
qed

lemma execute_active:
  assumes "execute cfg b fs env fin rid p m = Some m'" "get (mg_runs m) rid = Some r" "\<not> finished r"
  obtains res err k failed m1 r1 where
    "Run (ba_sha b) fs (ba_goos b) (executor_config cfg) (run_emit cfg rid (plan_guard cfg p \<noteq> None))
       (env\<lparr>re_runID := Some rid\<rparr>) p (m, [], False) = Some ((res, err), k)"
    "case plan_guard cfg p of None \<Rightarrow> failed = map_option FailedExecution err \<and> m1 = fst k
     | Some g \<Rightarrow> guarded_end cfg rid fin g res (map_option FailedExecution err) k = (failed, m1)"
    "stays_active rid m m1" "get (mg_runs m1) rid = Some r1" "\<not> finished r1"
    "m' = finish cfg rid fin res failed m1" "get (mg_runs m') rid = Some (ended_record fin res failed r1)"
  using assms(1)
proof (cases rule: execute_parts)
  case (1 res err k failed m1)
  have "stays_active rid m (fst k)"
    by (rule run_active.Run_kept [OF 1(1)]) (use assms(2,3) in \<open>simp add: stays_active_def\<close>)
  then have act: "stays_active rid m m1"
    using 1(3) guarded_end_active by (cases k; cases "plan_guard cfg p") auto
  then obtain r1 where r1: "get (mg_runs m1) rid = Some r1" "\<not> finished r1" by (auto simp: stays_active_def)
  moreover have "get (mg_runs m') rid = Some (ended_record fin res failed r1)"
    by (simp add: 1(2) finish_active [OF r1])
  ultimately show thesis using that 1 act by blast
qed

text \<open>The outcome a record is left with.\<close>

lemma ended_exited:
  "rr_status (ended_record fin res failed r) = StatusExited \<longleftrightarrow> failed = None \<and> er_Status res = ExecExited"
  by (auto simp: ended_record_def set_outcome_def statusFromExecutor_def split: option.splits exec_status.splits)

lemma ended_exit_code:
  "failed = None \<Longrightarrow> er_Status res = ExecExited \<Longrightarrow> rr_exitCode (ended_record fin res failed r) = Some (er_ExitCode res)"
  by (simp add: ended_record_def set_outcome_def)

end
