(* ===== verification/ApprovalSafety.thy ===== *)
theory ApprovalSafety
  imports Approval Samples
begin

section \<open>What an approval authorises\<close>

text \<open>
  The contract of the approval table: an approval authorises one execution of one plan in one
  operator context before it expires, and the text an operator types names the risk, the
  scope and the target.
\<close>

subsection \<open>Sequences of operations\<close>

datatype approval_op = Issue int bool "string option" plan execution_context
  | Consume string "approval_submission option" int
  | ClearAll

datatype approval_event = Issued string | Consumed string

definition apply_op ::
    "(string \<Rightarrow> string) \<Rightarrow> nat \<Rightarrow> int \<Rightarrow> approval_record dict \<times> approval_event list \<Rightarrow> approval_op
      \<Rightarrow> approval_record dict \<times> approval_event list" where
  "apply_op sha m ttl st op0 =
     (let (t, log) = st in
      case op0 of
        Issue now closed new p ctx \<Rightarrow>
          (case issueApproval sha m ttl closed now new p ctx t of
             (Inr ch, t') \<Rightarrow> (t', Issued (ac_ID ch) # log) | (Inl _, t') \<Rightarrow> (t', log))
      | Consume fp s now \<Rightarrow>
          (case consumeApproval fp s now t of
             (None, t') \<Rightarrow> (t', (case s of None \<Rightarrow> log | Some sub \<Rightarrow> Consumed (as_ID sub) # log))
           | (Some _, t') \<Rightarrow> (t', log))
      | ClearAll \<Rightarrow> ([], log))"

definition pending :: "approval_record dict \<Rightarrow> string \<Rightarrow> nat" where
  "pending t i = (if get t i = None then 0 else 1)"

definition single_use_inv :: "nat \<Rightarrow> approval_record dict \<times> approval_event list \<Rightarrow> bool" where
  "single_use_inv m st \<longleftrightarrow> approvals_ok m (fst st)
     \<and> (\<forall>i. count_list (snd st) (Consumed i) + pending (fst st) i \<le> count_list (snd st) (Issued i))"

lemma pending_mono: "(\<And>r. get t' i = Some r \<Longrightarrow> get t i \<noteq> None) \<Longrightarrow> pending t' i \<le> pending t i"
  by (auto simp: pending_def)

lemma single_use_issue:
  assumes "0 < m" and inv: "single_use_inv m (t, log)"
    and iss: "issueApproval sha m ttl closed now new p ctx t = (Inr ch, t')"
  shows "single_use_inv m (t', Issued (ac_ID ch) # log)"
proof -
  note new = issueApproval_Inr [OF iss]
  have wk: "well_keyed t" using inv by (simp add: single_use_inv_def approvals_ok_def)
  have ok: "approvals_ok m t'"
    using new approvals_ok_store assms(1) inv by (simp add: single_use_inv_def)
  have "count_list (Issued (ac_ID ch) # log) (Consumed i) + pending t' i
      \<le> count_list (Issued (ac_ID ch) # log) (Issued i)" for i
  proof -
    have old: "count_list log (Consumed i) + pending t i \<le> count_list log (Issued i)"
      using inv by (simp add: single_use_inv_def)
    show ?thesis
    proof (cases "i = ac_ID ch")
      case True
      have "pending t' i \<le> 1" by (simp add: pending_def)
      with True old show ?thesis by simp
    next
      case False
      have "pending t' i \<le> pending t i"
        by (rule pending_mono) (use new get_store_approval [OF wk] False in fastforce)
      with False old show ?thesis by simp
    qed
  qed
  with ok show ?thesis by (simp add: single_use_inv_def)
qed

lemma single_use_consume:
  assumes inv: "single_use_inv m (t, log)" and con: "consumeApproval fp (Some s) now t = (None, t')"
  shows "single_use_inv m (t', Consumed (as_ID s) # log)"
proof -
  have wk: "well_keyed t" using inv by (simp add: single_use_inv_def approvals_ok_def)
  from con consumeApproval_ok [OF wk] obtain r where r: "get t (as_ID s) = Some r"
    and t': "t' = AList.delete (as_ID s) (pruneApprovals now t)" by blast
  have less: "pending t' i \<le> pending t i" for i
    by (rule pending_mono) (use t' wk in \<open>auto simp: get_prune split: if_splits\<close>)
  have used: "pending t (as_ID s) = 1" "pending t' (as_ID s) = 0"
    using r t' by (simp_all add: pending_def)
  have "count_list (Consumed (as_ID s) # log) (Consumed i) + pending t' i
      \<le> count_list (Consumed (as_ID s) # log) (Issued i)" for i
  proof -
    have "count_list log (Consumed i) + pending t i \<le> count_list log (Issued i)"
      using inv by (simp add: single_use_inv_def)
    then show ?thesis using less [of i] used by (cases "i = as_ID s") simp_all
  qed
  moreover have "approvals_ok m t'"
    using approvals_ok_consume [of m t fp "Some s" now] inv con by (simp add: single_use_inv_def)
  ultimately show ?thesis by (simp add: single_use_inv_def)
qed

lemma single_use_step:
  assumes "0 < m" and inv: "single_use_inv m st"
  shows "single_use_inv m (apply_op sha m ttl st op0)"
proof -
  obtain t log where st: "st = (t, log)" by (cases st)
  show ?thesis
  proof (cases op0)
    case (Issue now closed new p ctx)
    show ?thesis
    proof (cases "issueApproval sha m ttl closed now new p ctx t")
      case (Pair res t')
      then show ?thesis
        using inv st Issue single_use_issue [OF assms(1)]
        by (cases res) (auto simp: apply_op_def dest: issueApproval_Inl)
    qed
  next
    case (Consume fp s now)
    obtain err t' where c: "consumeApproval fp s now t = (err, t')" by (cases "consumeApproval fp s now t")
    show ?thesis
    proof (cases err)
      case None
      then obtain sub where "s = Some sub"
        using c by (cases s) (auto simp: consumeApproval_def Let_def)
      with None c single_use_consume inv st Consume show ?thesis by (simp add: apply_op_def)
    next
      case (Some e)
      have wk: "well_keyed t" and ok: "approvals_ok m t"
        using inv st by (simp_all add: single_use_inv_def approvals_ok_def)
      have "pending t' i \<le> pending t i" for i
        by (rule pending_mono) (use get_consume [OF wk, of fp s now] c in auto)
      moreover have "count_list log (Consumed i) + pending t i \<le> count_list log (Issued i)" for i
        using inv st by (simp add: single_use_inv_def)
      ultimately have "\<forall>i. count_list log (Consumed i) + pending t' i \<le> count_list log (Issued i)"
        by (meson add_left_mono order_trans)
      with approvals_ok_consume [OF ok, of fp s now] c Some Consume st show ?thesis
        by (simp add: apply_op_def single_use_inv_def)
    qed
  next
    case ClearAll
    have "count_list log (Consumed i) \<le> count_list log (Issued i)" for i
      using inv st unfolding single_use_inv_def by (metis add_leD1 fst_conv snd_conv)
    with ClearAll st show ?thesis
      by (simp add: apply_op_def single_use_inv_def approvals_ok_def pending_def)
  qed
qed

lemma single_use_fold:
  "0 < m \<Longrightarrow> single_use_inv m st \<Longrightarrow> single_use_inv m (foldl (apply_op sha m ttl) st ops)"
  by (induction ops arbitrary: st) (simp_all add: single_use_step)

subsection \<open>The properties\<close>

text \<open>
  C32: an approval is used at most once. Whatever sequence of issuing, consuming and
  clearing the table sees, an approval id is consumed at most as often as it was issued, and
  the table never holds more than the maximum number of approvals, each under a well-formed id.
\<close>
theorem approval_is_single_use:
  assumes "0 < maxApprovals"
  shows "let (t, log) = foldl (apply_op sha maxApprovals ttl) ([], []) ops in
     count_list log (Consumed i) \<le> count_list log (Issued i)
     \<and> length t \<le> maxApprovals \<and> (\<forall>j r. get t j = Some r \<longrightarrow> validRunID j)"
proof -
  have "single_use_inv maxApprovals ([], [])"
    by (simp add: single_use_inv_def approvals_ok_def pending_def)
  from single_use_fold [OF assms this, of sha ttl ops]
  have inv: "single_use_inv maxApprovals (foldl (apply_op sha maxApprovals ttl) ([], []) ops)" .
  obtain t log where "foldl (apply_op sha maxApprovals ttl) ([], []) ops = (t, log)" by fastforce
  with inv show ?thesis
    by (auto simp: single_use_inv_def approvals_ok_def dest: add_leD1)
qed

text \<open>
  C4: an approval authorises exactly one plan in one context. If an approval that was issued
  for a plan and context is later accepted for another plan and context, then pack, command,
  tool, executable, arguments, standard input, risk, impact and context are all the same, the
  two minutes (the configured lifetime) have not passed, the operator typed the required
  text, and the approval is gone afterwards. SHA-256 is assumed not to collide on the two
  payloads, and the texts are valid UTF-8.
\<close>
theorem approval_authorises_one_plan:
  assumes "issueApproval sha m ttl closed t0 new p ctx tab0 = (Inr ch, tab1)" and "well_keyed tab"
    and "get tab (ac_ID ch) = get tab1 (ac_ID ch)" and "as_ID sub = ac_ID ch"
    and "consumeApproval (approvalFingerprint sha q ctx') (Some sub) now tab = (None, tab')"
    and "list_all valid_utf8 (plan_texts p @ plan_texts q @ context_texts ctx @ context_texts ctx')"
    and "sha (approval_payload p ctx) = sha (approval_payload q ctx')
           \<Longrightarrow> approval_payload p ctx = approval_payload q ctx'"
  shows "pl_PackID q = pl_PackID p \<and> pl_PackVersion q = pl_PackVersion p \<and> pl_CommandID q = pl_CommandID p
    \<and> pl_ToolID q = pl_ToolID p \<and> pl_ToolVersion q = pl_ToolVersion p
    \<and> pl_ExecutablePath q = pl_ExecutablePath p \<and> pl_Args q = pl_Args p \<and> pl_Stdin q = pl_Stdin p
    \<and> risk_text (pl_Risk q) = risk_text (pl_Risk p) \<and> impact_view (pl_Impact q) = impact_view (pl_Impact p)
    \<and> ctx' = ctx \<and> now < t0 + ttl
    \<and> (ac_Mode ch = ApprovalModeTyped \<longrightarrow> as_Confirmation sub = ac_RequiredText ch)
    \<and> get tab' (ac_ID ch) = None"
proof -
  note new = issueApproval_Inr [OF assms(1)]
  from new have stored: "get tab (ac_ID ch) = Some \<lparr>apr_Fingerprint = approvalFingerprint sha p ctx,
      apr_ExpiresAt = t0 + ttl, apr_IssuedAt = t0, apr_Mode = ac_Mode ch, apr_RequiredText = ac_RequiredText ch\<rparr>"
    using assms(3) get_store_same by simp
  from assms(5) consumeApproval_ok [OF assms(2)] obtain r where r:
    "get tab (as_ID sub) = Some r" "now < apr_ExpiresAt r" "apr_Fingerprint r = approvalFingerprint sha q ctx'"
    "apr_Mode r = ApprovalModeTyped \<longrightarrow> as_Confirmation sub = apr_RequiredText r"
    "tab' = AList.delete (as_ID sub) (pruneApprovals now tab)" by blast
  from r(3) r(1) stored assms(4) have "sha (approval_payload p ctx) = sha (approval_payload q ctx')"
    by (auto simp: approvalFingerprint_def)
  from assms(7) [OF this] have eq: "approval_payload p ctx = approval_payload q ctx'" .
  have "list_all valid_utf8 (plan_texts p)" "list_all valid_utf8 (plan_texts q)"
    "list_all valid_utf8 (context_texts ctx)" "list_all valid_utf8 (context_texts ctx')"
    using assms(6) by simp_all
  from approval_payload_inject [OF this eq] r stored assms(4) show ?thesis by auto
qed

text \<open>
  the typed text names what is approved. Two plans that ask for the same typed text have
  the same risk, the same reach and the same target.
\<close>
theorem required_text_names_the_mutation:
  assumes "approvalRequirement p = Inr (ApprovalModeTyped, txt)" and "approvalRequirement q = Inr (ApprovalModeTyped, txt)"
  shows "pl_Risk p = pl_Risk q
     \<and> (\<exists>im im'. pl_Impact p = Some im \<and> pl_Impact q = Some im' \<and> mi_Target im = mi_Target im'
          \<and> (mi_Scope im = ImpactScopeMultiple \<longleftrightarrow> mi_Scope im' = ImpactScopeMultiple))"
  using assms
  by (auto simp: approvalRequirement_def requiresApproval_def split: option.splits if_splits)

subsection \<open>Witnesses\<close>

text \<open>
  The sample mutation approved for one account: the approval is issued at time 0 for two
  minutes and used at time 60. The identity stands for SHA-256, which it is injective like.
\<close>

definition sample_id :: string where
  "sample_id = replicate 32 CHR ''a''"

definition sample_context :: execution_context where
  "sample_context = [\<lparr>cf_Label = ''Account'', cf_Value = ''prod''\<rparr>]"

definition sample_submission :: approval_submission where
  "sample_submission = \<lparr>as_ID = sample_id, as_Confirmation = ''DELETE MULTIPLE: a''\<rparr>"

abbreviation sample_load :: plan where
  "sample_load \<equiv> planned (load_request ''a'')"

definition sample_challenge :: approval_challenge where
  "sample_challenge = \<lparr>ac_ID = sample_id, ac_ExpiresAt = 120, ac_Mode = ApprovalModeTyped,
     ac_RequiredText = ''DELETE MULTIPLE: a''\<rparr>"

definition sample_record :: approval_record where
  "sample_record = \<lparr>apr_Fingerprint = approvalFingerprint id sample_load sample_context,
     apr_ExpiresAt = 120, apr_IssuedAt = 0, apr_Mode = ApprovalModeTyped, apr_RequiredText = ''DELETE MULTIPLE: a''\<rparr>"

lemma sample_requirement:
  "approvalRequirement sample_load = Inr (ApprovalModeTyped, ''DELETE MULTIPLE: a'')"
  by code_simp

lemma sample_texts:
  "list_all valid_utf8 (plan_texts sample_load @ plan_texts sample_load @ context_texts sample_context @ context_texts sample_context)"
proof -
  have "list_all valid_utf8 (plan_texts sample_load)" "list_all valid_utf8 (context_texts sample_context)"
    by code_simp+
  then show ?thesis by simp
qed

lemma sample_id_valid: "validRunID sample_id"
  by code_simp

lemma sample_issue:
  "issueApproval id 64 120 False 0 (Some sample_id) sample_load sample_context []
     = (Inr sample_challenge, [(sample_id, sample_record)])"
  by (simp add: issueApproval_def sample_requirement sample_id_valid sample_challenge_def sample_record_def
      store_approval_def pruneApprovals_def evictOldestApproval_def)

lemma sample_consume:
  "consumeApproval (approvalFingerprint id sample_load sample_context) (Some sample_submission) 60
     [(sample_id, sample_record)] = (None, [])"
  by (simp add: consumeApproval_def sample_submission_def sample_id_valid sample_record_def pruneApprovals_def)

lemma sample_consume_again:
  "consumeApproval (approvalFingerprint id sample_load sample_context) (Some sample_submission) 61 []
     = (Some (run_err ErrApprovalRequired), [])"
  by (simp add: consumeApproval_def sample_submission_def sample_id_valid pruneApprovals_def)

lemma sample_ids: "as_ID sample_submission = sample_id" "ac_ID sample_challenge = sample_id"
  by (simp_all add: sample_submission_def sample_challenge_def)

theorem approval_authorises_one_plan_witness:
  "get (snd (consumeApproval (approvalFingerprint id sample_load sample_context) (Some sample_submission) 60
     [(sample_id, sample_record)])) sample_id = None \<and> (60 :: int) < 0 + 120"
  using approval_authorises_one_plan [OF sample_issue _ _ _ sample_consume sample_texts]
  by (simp add: well_keyed_def sample_ids sample_consume)

theorem approval_is_single_use_witness:
  "count_list (snd (foldl (apply_op id 64 120) ([], [])
      [Issue 0 False (Some sample_id) sample_load sample_context,
       Consume (approvalFingerprint id sample_load sample_context) (Some sample_submission) 60,
       Consume (approvalFingerprint id sample_load sample_context) (Some sample_submission) 61])) (Consumed sample_id) \<le> 1"
proof -
  let ?ops = "[Issue 0 False (Some sample_id) sample_load sample_context,
       Consume (approvalFingerprint id sample_load sample_context) (Some sample_submission) 60,
       Consume (approvalFingerprint id sample_load sample_context) (Some sample_submission) 61]"
  obtain t log where st: "foldl (apply_op id 64 120) ([], []) ?ops = (t, log)" by fastforce
  have "log = [Consumed sample_id, Issued sample_id]"
    using st by (auto simp: apply_op_def sample_issue sample_consume sample_consume_again sample_ids)
  moreover have "count_list log (Consumed sample_id) \<le> count_list log (Issued sample_id)"
    using approval_is_single_use [of 64 id 120 ?ops sample_id] st by simp
  ultimately show ?thesis using st by simp
qed

theorem required_text_names_the_mutation_witness:
  "pl_Risk sample_load = RiskDestructive
     \<and> approvalRequirement sample_load = Inr (ApprovalModeTyped, ''DELETE MULTIPLE: a'')
     \<and> (\<exists>im im'. pl_Impact sample_load = Some im \<and> pl_Impact sample_load = Some im' \<and> mi_Target im = mi_Target im')"
proof -
  have "pl_Risk sample_load = RiskDestructive" by code_simp
  with required_text_names_the_mutation [OF sample_requirement sample_requirement] sample_requirement
  show ?thesis by blast
qed

end
