(* ===== verification/RunSamples.thy ===== *)
theory RunSamples
  imports RunJournal RunExecution ApprovalSafety
begin

section \<open>A sample manager\<close>

text \<open>
  The vault pack served by a manager whose audit sink is an empty journal; a policy load that
  is previewed, approved and started, and a machine on which its process exits normally.
\<close>

definition sample_backend :: backend where
  "sample_backend = \<lparr>ba_lib = sample_lib, ba_sha = id, ba_registry = Some vault_registry, ba_goos = ''linux''\<rparr>"

definition sample_settings :: "(append_env, store) manager_config" where
  "sample_settings = \<lparr>mc_MaxActive = 1, mc_MaxRetained = 1, mc_Timeout = 0, mc_WaitDelay = 0, mc_ChunkBytes = 4,
     mc_MaxOutputBytesPerStream = 0, mc_MaxEventBytesPerRun = 0, mc_ApprovalTTL = 120, mc_MaxApprovals = 0,
     mc_Resolve = Some (\<lambda>_. Inr sample_context), mc_OutputGuard = None,
     mc_Audit = Some (journal_sink sample_hash sample_time)\<rparr>"

definition sample_config :: "(append_env, store) manager_config" where
  "sample_config = with_defaults sample_settings"

definition sample_manager :: "store manager" where
  "sample_manager = \<lparr>mg_discovery = vault_snapshot, mg_ctxDone = False, mg_runs = [], mg_order = [], mg_approvals = [],
     mg_active = 0, mg_auditFailed = False, mg_closed = False, mg_audit = empty_store\<rparr>"

definition sample_run_request :: run_request where
  "sample_run_request = \<lparr>rn_PackID = ''p'', rn_CommandID = ''load-policy'', rn_Values = [(''name'', quote ''a'')],
     rn_Approval = Some sample_submission\<rparr>"

lemma sample_new_manager:
  "NewManager True (Some vault_registry) vault_snapshot sample_settings empty_store = (Some sample_config, Some sample_manager)"
  by (simp add: NewManager_def sample_settings_def with_defaults_def positive_or_def wrap64_def sample_config_def
      sample_manager_def)

lemma sample_config_fields:
  "mc_MaxActive sample_config = 1" "mc_MaxRetained sample_config = 1" "mc_ApprovalTTL sample_config = 120"
  "mc_MaxApprovals sample_config = 64" "mc_Resolve sample_config = Some (\<lambda>_. Inr sample_context)"
  "mc_OutputGuard sample_config = None" "mc_Audit sample_config = Some (journal_sink sample_hash sample_time)"
  "mc_MaxEventBytesPerRun sample_config = 2097152" "mc_ChunkBytes sample_config = 4"
  "mc_MaxOutputBytesPerStream sample_config = 262144"
  by (simp_all add: sample_config_def sample_settings_def with_defaults_def positive_or_def)

text \<open>The plan of the sample's policy load, written out.\<close>

definition sample_plan :: plan where
  "sample_plan = \<lparr>pl_PackID = ''p'', pl_PackVersion = ''1.0.0'', pl_CommandID = ''load-policy'', pl_ToolID = ''t'',
     pl_ExecutablePath = ''/bin/tool'', pl_ExecutableName = ''tool'',
     pl_Identity = \<lparr>ei_Info = Some 7, ei_Size = 10, ei_ModTime = 3, ei_Digest = ''code''\<rparr>,
     pl_ToolVersion = ''1.2.3'', pl_Args = [''load''],
     pl_Stdin = ''- !delete'' @ CHR 0x0A # ''  record: '' @ [dquote, CHR ''a'', dquote], pl_StdinSensitive = False,
     pl_Risk = RiskDestructive,
     pl_Impact = Some \<lparr>mi_TargetLabel = ''Policy'', mi_Target = ''a'', mi_Effect = ''Replaces it'', mi_Scope = ImpactScopeMultiple\<rparr>,
     pl_Output = plain_output, pl_Requirements = session_required\<rparr>"

lemma sample_plan_built: "sample_load = sample_plan"
  by code_simp

lemma sample_build: "build_request sample_backend vault_snapshot sample_run_request = Inr sample_plan"
proof -
  have "\<lparr>prq_PackID = ''p'', prq_CommandID = ''load-policy'', prq_Values = [(''name'', quote ''a'')]\<rparr> = load_request ''a''"
    by (simp add: load_request_def)
  then show ?thesis
    by (simp add: build_request_def sample_backend_def sample_run_request_def sample_plans sample_plan_built)
qed

lemma sample_plan_fields:
  "requiresApproval sample_plan" "pl_Risk sample_plan = RiskDestructive"
  "pl_Impact sample_plan = Some \<lparr>mi_TargetLabel = ''Policy'', mi_Target = ''a'', mi_Effect = ''Replaces it'', mi_Scope = ImpactScopeMultiple\<rparr>"
  "pl_PackID sample_plan = ''p''" "pl_CommandID sample_plan = ''load-policy''"
  by (simp_all add: sample_plan_def requiresApproval_def)

lemmas sample_issued = sample_issue [unfolded sample_plan_built, unfolded id_def]
lemmas sample_consumed = sample_consume [unfolded sample_plan_built]

definition sample_rid :: string where "sample_rid = replicate 32 CHR ''b''"

lemma sample_rid_valid: "validRunID sample_rid"
  by code_simp

definition sample_previewed :: "store manager" where
  "sample_previewed = sample_manager\<lparr>mg_approvals := [(sample_id, sample_record)]\<rparr>"

lemma sample_context_valid: "validateExecutionContext sample_context"
  by code_simp

lemma sample_context_for: "executionContextFor (Some (\<lambda>_. Inr sample_context)) sample_plan = Inr sample_context"
  by (simp add: executionContextFor_def sample_context_valid sample_plan_fields)

lemma sample_preview:
  "Preview sample_config sample_backend 0 (Some sample_id) sample_run_request sample_manager sample_manager
     = (Inr ((preview_of sample_plan)\<lparr>pw_Context := Some sample_context, pw_Approval := Some sample_challenge\<rparr>), sample_previewed)"
proof -
  have "build_request sample_backend (mg_discovery sample_manager) sample_run_request = Inr sample_plan"
    by (simp add: sample_manager_def sample_build)
  then show ?thesis
    by (simp add: Preview_def sample_plan_fields sample_config_fields sample_context_for sample_previewed_def
        sample_issued sample_backend_def id_def)
      (simp add: sample_manager_def manager_closed_def sample_issued)
qed

definition sample_audit_env :: append_env where
  "sample_audit_env = sample_append\<lparr>ap_written := 300\<rparr>"

definition sample_journal :: store where
  "sample_journal = snd (journal_sink sample_hash sample_time sample_audit_env
     (approved_event sample_rid sample_plan (the (pl_Impact sample_plan))) empty_store)"

lemma sample_journal_written:
  "journal_sink sample_hash sample_time sample_audit_env
     (approved_event sample_rid sample_plan (the (pl_Impact sample_plan))) empty_store = (True, sample_journal)"
proof -
  have "fst (journal_sink sample_hash sample_time sample_audit_env
     (approved_event sample_rid sample_plan (the (pl_Impact sample_plan))) empty_store)"
    by code_simp
  then show ?thesis by (simp add: sample_journal_def prod_eq_iff)
qed

definition sample_started :: "store manager" where
  "sample_started = sample_manager\<lparr>mg_runs := [(sample_rid, new_record sample_rid sample_plan)], mg_order := [sample_rid],
     mg_active := 1, mg_audit := sample_journal\<rparr>"

lemma sample_commit:
  "Start_commit sample_config sample_audit_env 60 sample_rid sample_plan
      (approvalFingerprint id sample_plan sample_context) (Some sample_submission) sample_previewed
      = (Inr (record_snapshot (new_record sample_rid sample_plan)), sample_started)"
proof -
  have im: "pl_Impact sample_plan = Some (the (pl_Impact sample_plan))"
    by (simp add: sample_plan_fields)
  have auth: "authorise sample_config sample_audit_env 60 sample_rid sample_plan (approvalFingerprint id sample_plan sample_context)
      (Some sample_submission) sample_previewed = (None, sample_manager\<lparr>mg_audit := sample_journal\<rparr>)"
    using sample_journal_written
    by (subst authorise_def, subst im)
      (simp add: sample_plan_fields(1) sample_config_fields sample_previewed_def sample_consumed sample_manager_def)
  have room: "makeRetentionRoom 1 [] [] = (None, [], [])" by (subst makeRetentionRoom.simps) simp
  show ?thesis
    unfolding Start_commit_def auth
    by (simp add: sample_previewed_def sample_manager_def manager_closed_def sample_config_fields register_run_def room
        sample_started_def)
qed

lemma sample_start:
  "Start sample_config sample_backend sample_audit_env 60 (Some sample_rid) sample_run_request sample_previewed sample_previewed
     = (Inr (record_snapshot (new_record sample_rid sample_plan), sample_plan), sample_started)"
proof -
  have check: "Start_check sample_config sample_previewed = Inr vault_snapshot"
    by (simp add: Start_check_def sample_previewed_def sample_manager_def manager_closed_def sample_config_fields)
  have fp: "plan_fingerprint sample_config sample_backend sample_plan = Inr (approvalFingerprint id sample_plan sample_context)"
    by (simp add: plan_fingerprint_def sample_plan_fields sample_config_fields sample_context_for sample_backend_def)
  have "rn_Approval sample_run_request = Some sample_submission" by (simp add: sample_run_request_def)
  then show ?thesis
    by (simp add: Start_def check sample_build fp sample_rid_valid sample_commit)
qed

text \<open>The same request before its preview is refused: no approval was issued.\<close>

lemma sample_refused:
  "fst (Start sample_config sample_backend sample_audit_env 60 (Some sample_rid) sample_run_request sample_manager sample_manager)
     = Inl (run_err ErrApprovalRequired)"
proof -
  have check: "Start_check sample_config sample_manager = Inr vault_snapshot"
    by (simp add: Start_check_def sample_manager_def manager_closed_def sample_config_fields)
  have fp: "plan_fingerprint sample_config sample_backend sample_plan = Inr (approvalFingerprint id sample_plan sample_context)"
    by (simp add: plan_fingerprint_def sample_plan_fields sample_config_fields sample_context_for sample_backend_def)
  have con: "consumeApproval fp (Some sample_submission) now [] = (Some (run_err ErrApprovalRequired), [])" for fp now
    by (simp add: consumeApproval_def pruneApprovals_def Let_def)
  have "authorise sample_config sample_audit_env 60 sample_rid sample_plan (approvalFingerprint id sample_plan sample_context)
      (Some sample_submission) sample_manager = (Some (run_err ErrApprovalRequired), sample_manager)"
    by (simp add: authorise_def sample_plan_fields(1) sample_config_fields con sample_manager_def)
  then have "Start_commit sample_config sample_audit_env 60 sample_rid sample_plan
      (approvalFingerprint id sample_plan sample_context) (Some sample_submission) sample_manager
      = (Inl (run_err ErrApprovalRequired), sample_manager)"
    by (simp add: Start_commit_def) (simp add: sample_manager_def manager_closed_def sample_config_fields)
  moreover have "rn_Approval sample_run_request = Some sample_submission" by (simp add: sample_run_request_def)
  ultimately show ?thesis
    by (simp add: Start_def check sample_build fp sample_rid_valid)
qed

definition sample_process :: run_env where
  "sample_process = \<lparr>re_runID = None, re_ctxBefore = None, re_workdir = True, re_controller = True, re_configured = True,
     re_started = True, re_attached = True, re_ctxAtStart = None,
     re_output = [(EventStdout, ''loaded''), (EventStderr, ''warn'')], re_cut = None, re_wait = WaitOk, re_closed = True,
     re_cancelApplied = False, re_runCtx = None, re_parentCancelled = False, re_now = 70, re_clock = (\<lambda>ty n. 71 + int n), re_end = 80\<rparr>"

definition sample_end :: "append_env end_env" where
  "sample_end = \<lparr>xn_guardTime = 81, xn_terminalTime = 82, xn_failTime = 83, xn_stop = (\<lambda>_. False),
     xn_audit = sample_append\<lparr>ap_written := 197\<rparr>\<rparr>"

lemma sample_started_run:
  "get (mg_runs sample_started) sample_rid = Some (new_record sample_rid sample_plan)"
  by (simp add: sample_started_def)

definition sample_finished :: "store manager" where
  "sample_finished = the (execute sample_config sample_backend sample_fs sample_process sample_end sample_rid sample_plan sample_started)"

lemma sample_execution:
  "execute sample_config sample_backend sample_fs sample_process sample_end sample_rid sample_plan sample_started
     = Some sample_finished"
  using execute_total [of sample_config sample_backend sample_fs sample_process sample_end sample_rid sample_plan sample_started]
  by (auto simp: sample_finished_def)

lemma sample_finished_facts:
  "(let m = sample_finished in map_option rr_status (get (mg_runs m) sample_rid) = Some StatusExited
     \<and> map_option (length \<circ> rr_events) (get (mg_runs m) sample_rid) = Some 5 \<and> \<not> mg_auditFailed m \<and> map snd (journal_history (mg_audit m)) = [''approved'', ''completed''])"
  by code_simp

end
