(* ===== verification/RunSafety.thy ===== *)
theory RunSafety
  imports RunSamples PlanSafety
begin

section \<open>What the run manager guarantees\<close>

text \<open>
  Properties of the whole path from a request to the record of its run: admission, audit,
  bounds, evidence, quarantine and polling, each over the manager's own operations or over every
  state its steps reach.
\<close>

lemma sample_config_ok: "config_ok sample_config \<and> manager_ok sample_config sample_manager"
  by (rule NewManager_ok [OF sample_new_manager])

lemma sample_steps: "steps sample_config sample_backend sample_manager sample_started"
proof -
  have "step sample_config sample_backend sample_manager sample_previewed"
    by (rule step.preview [OF sample_preview])
  moreover have "step sample_config sample_backend sample_previewed sample_started"
    by (rule step.commit [OF sample_build _ sample_rid_valid sample_commit])
      (simp add: plan_fingerprint_def sample_plan_fields sample_config_fields sample_context_for sample_backend_def)
  ultimately show ?thesis by (blast intro: steps_more steps_none)
qed

lemma sample_steps_finished: "steps sample_config sample_backend sample_manager sample_finished"
  by (rule steps_trans [OF execute_steps [OF sample_execution] sample_steps])

text \<open>What a step may do to a run that is in the table.\<close>

definition keeps_run :: "run_record \<Rightarrow> run_record option \<Rightarrow> bool" where
  "keeps_run r after \<longleftrightarrow>
     (if finished r then after = Some r \<or> after = None
      else (\<exists>r' es. after = Some r' \<and> rr_events r' = rr_events r @ es \<and> rr_runID r' = rr_runID r
         \<and> rr_packID r' = rr_packID r \<and> rr_commandID r' = rr_commandID r \<and> rr_toolID r' = rr_toolID r
         \<and> rr_audited r' = rr_audited r))"

lemma keeps_run_same [simp]: "keeps_run r (Some r)"
  by (auto simp: keeps_run_def)

lemma keeps_run_append: "\<not> finished r \<Longrightarrow> keeps_run r (Some (append_event e r))"
  by (simp add: keeps_run_def) (simp add: append_event_def collect_stdout_def Let_def)

lemma keeps_run_ended: "\<not> finished r \<Longrightarrow> keeps_run r (Some (ended_record env res failed r))"
  by (simp add: keeps_run_def) (simp add: ended_record_def set_outcome_def split: option.split)

lemma keeps_run_step:
  assumes "step cfg b m m'" and "manager_ok cfg m" and "config_ok cfg" and "get (mg_runs m) rid = Some r"
  shows "keeps_run r (get (mg_runs m') rid)"
  using assms(1)
proof (cases rule: step.cases)
  case (preview now newID req m0 x)
  then have "mg_runs m' = mg_runs m" by (auto simp: Preview_def split: if_splits sum.splits prod.splits)
  with assms(4) show ?thesis by simp
next
  case (commit snap req p fp i w now approval x)
  from commit(4) show ?thesis
  proof (cases rule: Start_commit_cases)
    case (refused e)
    with assms(4) show ?thesis by simp
  next
    case (unauthorised e)
    with assms(4) authorise_fields(1) [OF unauthorised(2)] show ?thesis by simp
  next
    case (admitted m1)
    note f = authorise_fields [OF admitted(4)]
    obtain runs order where m': "m' = m1\<lparr>mg_runs := AList.update i (new_record i p) runs, mg_order := order @ [i],
        mg_active := mg_active m1 + 1\<rparr>" and ev: "evicts (mg_runs m1) runs"
      using register_run_ok [OF authorise_ok [OF assms(2) admitted(4)] assms(3) commit(3), of p] f admitted by auto
    have "rid \<noteq> i" using assms(4) admitted(3) by auto
    then have "get (mg_runs m') rid = get runs rid" by (simp add: m')
    moreover have "get runs rid = Some r \<or> (get runs rid = None \<and> finished r)"
      using ev assms(4) f(1) unfolding evicts_def by (metis option.inject)
    ultimately show ?thesis by (auto simp: keeps_run_def)
  qed
next
  case (event i e x)
  then have "m' = m \<or> (\<exists>q. get (mg_runs m) i = Some q \<and> \<not> finished q
      \<and> m' = m\<lparr>mg_runs := AList.update i (append_event e q) (mg_runs m)\<rparr>)"
    by (auto simp: recordEvent_def split: option.splits if_splits)
  with assms(4) keeps_run_append [of r e] show ?thesis by auto
next
  case (ended i env res failed)
  show ?thesis
  proof (cases "\<exists>q. get (mg_runs m) i = Some q \<and> \<not> finished q")
    case True
    then obtain q where q: "get (mg_runs m) i = Some q" "\<not> finished q" by blast
    with assms(4) keeps_run_ended [of r env res failed] show ?thesis by (auto simp: ended finish_active [OF q])
  next
    case False
    then have "m' = m" unfolding ended by (intro finish_inactive) auto
    with assms(4) show ?thesis by simp
  qed
next
  case (cancel i x)
  then have "m' = m \<or> (\<exists>q. get (mg_runs m) i = Some q \<and> \<not> finished q
      \<and> m' = m\<lparr>mg_runs := AList.update i (q\<lparr>rr_cancelled := True\<rparr>) (mg_runs m)\<rparr>)"
    by (auto simp: Cancel_def split: option.splits if_splits)
  moreover have "keeps_run r (Some (r\<lparr>rr_cancelled := True\<rparr>))" if "\<not> finished r"
    using that by (simp add: keeps_run_def)
  ultimately show ?thesis using assms(4) by auto
next
  case (activate fs st x)
  then have "mg_runs m' = mg_runs m" by (auto simp: ActivateTool_def Let_def split: if_splits option.splits)
  with assms(4) show ?thesis by simp
next
  case shutdown
  with assms(4) show ?thesis by (simp add: Shutdown_def)
next
  case context_done
  with assms(4) show ?thesis by simp
qed

subsection \<open>Admission\<close>

text \<open>
  C1: No mutation starts unless its approval and its audit record exist. A mutating run that
  \<open>Start\<close> admits was submitted with an approval that the backend had issued for exactly this
  plan in the context it has now, that had not expired and was confirmed as required; the
  approval is used up, and the audit sink recorded the mutation before the run was registered.
\<close>
theorem mutation_needs_approval_and_record:
  assumes "Start cfg b w now newID req m m' = (Inr (sn, p), m2)" and "requiresApproval p"
    and "manager_ok cfg m'" and "config_ok cfg"
  shows "\<exists>sub rec ctx im record_audit. rn_Approval req = Some sub \<and> get (mg_approvals m') (as_ID sub) = Some rec
    \<and> now < apr_ExpiresAt rec \<and> executionContextFor (mc_Resolve cfg) p = Inr ctx
    \<and> apr_Fingerprint rec = approvalFingerprint (ba_sha b) p ctx
    \<and> (apr_Mode rec = ApprovalModeTyped \<longrightarrow> as_Confirmation sub = apr_RequiredText rec)
    \<and> get (mg_approvals m2) (as_ID sub) = None
    \<and> pl_Impact p = Some im \<and> mc_Audit cfg = Some record_audit \<and> \<not> mg_auditFailed m'
    \<and> record_audit w (approved_event (rs_RunID sn) p im) (mg_audit m') = (True, mg_audit m2)"
proof -
  obtain fp rid where fp: "plan_fingerprint cfg b p = Inr fp" and rid: "validRunID rid"
    and commit: "Start_commit cfg w now rid p fp (rn_Approval req) m' = (Inr sn, m2)"
    using assms(1) unfolding Start_def
    by (auto simp: bindE_def split: sum.splits option.splits if_splits prod.splits)
  from commit obtain m1 where adm: "mg_active m' < mc_MaxActive cfg" "get (mg_runs m') rid = None"
    "authorise cfg w now rid p fp (rn_Approval req) m' = (None, m1)" "register_run cfg rid p m1 = (Inr sn, m2)"
    by (cases rule: Start_commit_cases) auto
  obtain ctx where ctx: "executionContextFor (mc_Resolve cfg) p = Inr ctx" "fp = approvalFingerprint (ba_sha b) p ctx"
    using fp assms(2) by (auto simp: plan_fingerprint_def split: sum.splits)
  obtain ra t im a where auth: "mc_Audit cfg = Some ra" "\<not> mg_auditFailed m'"
    "consumeApproval fp (rn_Approval req) now (mg_approvals m') = (None, t)" "pl_Impact p = Some im"
    "ra w (approved_event rid p im) (mg_audit m') = (True, a)" "mg_audit m1 = a" "mg_approvals m1 = t"
    using adm(3) assms(2) unfolding authorise_def Let_def
    by (auto split: option.splits if_splits prod.splits bool.splits)
  obtain sub where sub: "rn_Approval req = Some sub"
    using auth(3) by (auto simp: consumeApproval_def Let_def split: option.splits)
  have wk: "well_keyed (mg_approvals m')" using assms(3) by (simp add: manager_ok_def approvals_ok_def)
  from auth(3) [unfolded sub] consumeApproval_ok [OF wk] obtain rec where rec: "get (mg_approvals m') (as_ID sub) = Some rec"
    "now < apr_ExpiresAt rec" "apr_Fingerprint rec = fp"
    "apr_Mode rec = ApprovalModeTyped \<longrightarrow> as_Confirmation sub = apr_RequiredText rec"
    "t = AList.delete (as_ID sub) (pruneApprovals now (mg_approvals m'))" by blast
  note f = authorise_fields [OF adm(3)]
  obtain runs order where reg: "sn = record_snapshot (new_record rid p)"
    "m2 = m1\<lparr>mg_runs := AList.update rid (new_record rid p) runs, mg_order := order @ [rid], mg_active := mg_active m1 + 1\<rparr>"
    using register_run_ok [OF authorise_ok [OF assms(3) adm(3)] assms(4) rid, of p] f adm by auto
  have "rs_RunID sn = rid" by (simp add: reg(1) record_snapshot_def new_record_def)
  moreover have "get (mg_approvals m2) (as_ID sub) = None" by (simp add: reg(2) auth(7) rec(5))
  ultimately show ?thesis
    using sub rec ctx auth by (simp add: reg(2))
qed

theorem mutation_needs_approval_and_record_witness:
  "\<exists>rec. get (mg_approvals sample_previewed) sample_id = Some rec
    \<and> apr_Fingerprint rec = approvalFingerprint id sample_plan sample_context
    \<and> get (mg_approvals sample_started) sample_id = None"
proof -
  have "manager_ok sample_config sample_previewed"
    using sample_config_ok Preview_ok [OF _ _ sample_preview] by blast
  from mutation_needs_approval_and_record [OF sample_start sample_plan_fields(1) this]
  show ?thesis
    using sample_config_ok
    by (auto simp: sample_run_request_def sample_ids sample_config_fields sample_context_for sample_backend_def)
qed

text \<open>
  A request that is refused costs nothing but its approval: no retained run is evicted or
  changed, no slot is taken; and once the approval and the audit record are in place the run
  is registered, retention never refuses it.
\<close>
theorem refused_start_keeps_evidence:
  assumes "Start cfg b w now newID req m m' = (Inl e, m2)" and "manager_ok cfg m'" and "config_ok cfg"
  shows "mg_runs m2 = mg_runs m' \<and> mg_order m2 = mg_order m' \<and> mg_active m2 = mg_active m'
    \<and> (mg_audit m2 = mg_audit m' \<or> mg_auditFailed m2)"
proof -
  consider "m2 = m'" | fp rid p where "validRunID rid" "Start_commit cfg w now rid p fp (rn_Approval req) m' = (Inl e, m2)"
    using assms(1) unfolding Start_def
    by (auto simp: bindE_def split: sum.splits option.splits if_splits prod.splits)
  then show ?thesis
  proof cases
    case (2 fp rid p)
    from 2(2) show ?thesis
    proof (cases rule: Start_commit_cases)
      case (refused e)
      then show ?thesis by simp
    next
      case (unauthorised e)
      have "mg_audit m2 = mg_audit m' \<or> mg_auditFailed m2"
        using unauthorised(2) unfolding authorise_def Let_def
        by (auto split: if_split_asm option.split_asm prod.split_asm bool.split_asm)
      with authorise_fields(1-3) [OF unauthorised(2)] show ?thesis by simp
    next
      case (admitted m1)
      with register_run_ok [OF authorise_ok [OF assms(2) admitted(4)] assms(3) 2(1), of p]
        authorise_fields [OF admitted(4)] show ?thesis by auto
    qed
  qed simp
qed

theorem refused_start_keeps_evidence_witness:
  "fst (Start sample_config sample_backend sample_audit_env 60 (Some sample_rid) sample_run_request sample_manager sample_manager)
     = Inl (run_err ErrApprovalRequired)
   \<and> mg_runs (snd (Start sample_config sample_backend sample_audit_env 60 (Some sample_rid) sample_run_request
       sample_manager sample_manager)) = []"
proof -
  obtain r m2 where s: "Start sample_config sample_backend sample_audit_env 60 (Some sample_rid) sample_run_request
      sample_manager sample_manager = (r, m2)" by fastforce
  have "fst (Start sample_config sample_backend sample_audit_env 60 (Some sample_rid) sample_run_request
      sample_manager sample_manager) = Inl (run_err ErrApprovalRequired)"
    by (rule sample_refused)
  then have r: "r = Inl (run_err ErrApprovalRequired)" using s by simp
  from refused_start_keeps_evidence [OF s [unfolded r]] sample_config_ok
  have "mg_runs m2 = []" by (simp add: sample_manager_def)
  with s r show ?thesis by simp
qed

subsection \<open>Every reachable state\<close>

text \<open>
  C11: In every state a manager reaches, whatever operations interleave: at most \<open>MaxActive\<close> runs
  are active, which is exactly the number of records that have not ended; at most \<open>MaxRetained\<close>
  runs and \<open>MaxApprovals\<close> approvals are kept; the order lists every run once; and every run's
  events are numbered 1, 2, 3 and so on, their text within four thirds of the byte budget.
\<close>
theorem manager_invariant:
  assumes "NewManager hasParent reg snap config audit = (Some cfg, Some m0)" and "steps cfg b m0 m"
  shows "mg_active m = running_count (mg_runs m) \<and> mg_active m \<le> mc_MaxActive cfg
    \<and> int (length (mg_runs m)) \<le> mc_MaxRetained cfg \<and> length (mg_approvals m) \<le> nat (mc_MaxApprovals cfg)
    \<and> distinct (mg_order m) \<and> set (mg_order m) = fst ` set (mg_runs m)
    \<and> (\<forall>rid r. get (mg_runs m) rid = Some r \<longrightarrow> rr_runID r = rid
         \<and> map ev_Sequence (rr_events r) = [1..<rr_nextSeq r + 1]
         \<and> 3 * (\<Sum>e\<leftarrow>rr_events r. int (length (ev_DataBase64 e))) \<le> 4 * mc_MaxEventBytesPerRun cfg)"
proof -
  note ok = NewManager_ok [OF assms(1)]
  have m: "manager_ok cfg m" by (rule steps_ok [OF assms(2)]) (use ok in simp_all)
  have "rr_runID r = rid \<and> map ev_Sequence (rr_events r) = [1..<rr_nextSeq r + 1]
      \<and> 3 * (\<Sum>e\<leftarrow>rr_events r. int (length (ev_DataBase64 e))) \<le> 4 * mc_MaxEventBytesPerRun cfg"
    if "get (mg_runs m) rid = Some r" for rid r
  proof -
    have "run_ok cfg rid r" using m that by (simp add: manager_ok_def)
    then show ?thesis unfolding run_ok_def by linarith
  qed
  with m show ?thesis by (simp add: manager_ok_def table_ok_def approvals_ok_def)
qed

theorem manager_invariant_witness:
  "mg_active sample_started = 1 \<and> mg_active sample_started = running_count (mg_runs sample_started)
     \<and> mg_active sample_started \<le> mc_MaxActive sample_config \<and> set (mg_order sample_started) = fst ` set (mg_runs sample_started)"
  using manager_invariant [OF sample_new_manager sample_steps] by (simp add: sample_started_def)



text \<open>
  C31: Evidence is append-only. Whatever step the manager takes, a run that has ended is kept
  exactly as it is or leaves the table as a whole, and a run that is active keeps its identity
  and every event recorded so far.
\<close>
theorem evidence_is_append_only:
  assumes "step cfg b m m'" and "manager_ok cfg m" and "config_ok cfg" and "get (mg_runs m) rid = Some r"
  shows "if finished r then get (mg_runs m') rid = Some r \<or> get (mg_runs m') rid = None
    else (\<exists>r' es. get (mg_runs m') rid = Some r' \<and> rr_events r' = rr_events r @ es
         \<and> rr_runID r' = rr_runID r \<and> rr_packID r' = rr_packID r \<and> rr_commandID r' = rr_commandID r
         \<and> rr_toolID r' = rr_toolID r \<and> rr_audited r' = rr_audited r)"
  using keeps_run_step [OF assms] unfolding keeps_run_def .

theorem evidence_is_append_only_witness:
  "\<exists>es. rr_events (the (get (mg_runs (Shutdown sample_started)) sample_rid)) = rr_events (new_record sample_rid sample_plan) @ es"
proof -
  have "manager_ok sample_config sample_started"
    by (rule steps_ok [OF sample_steps]) (use sample_config_ok in simp_all)
  from evidence_is_append_only [OF step.shutdown this _ sample_started_run] sample_config_ok
  show ?thesis by (auto simp: new_record_def finished_def)
qed

subsection \<open>Execution\<close>


text \<open>What the operating system reports of a context is a cancellation or a timeout; a process
  writes to its two streams; and \<open>Cmd.Wait\<close> succeeds only when both were copied to their end.\<close>

definition env_ok :: "run_env \<Rightarrow> bool" where
  "env_ok env \<longleftrightarrow> re_ctxBefore env \<noteq> Some ExecExited \<and> re_ctxAtStart env \<noteq> Some ExecExited
     \<and> list_all (\<lambda>w. fst w = EventStdout \<or> fst w = EventStderr) (re_output env)
     \<and> (re_wait env = WaitOk \<longrightarrow> re_cut env = None)"

text \<open>
  C14: The events of an exited run without an output guard are its start, all the output that was
  read from the process, and the exit with its code: of each stream everything the writers took,
  in order, in chunks of bounded size and within the stream's limit. That is all the process
  wrote when the wait for it succeeded; when a descendant kept the pipes open beyond the wait
  delay, the run is shown as exited as well, and what is recorded is a prefix of each stream.
  Runs under an output guard show what the guard approved instead.
\<close>
theorem exited_run_records_its_output:
  assumes "execute cfg b fs env fin rid p m = Some m'" and "get (mg_runs m) rid = Some r" and "\<not> finished r"
    and "rr_events r = []" and "plan_guard cfg p = None" and "env_ok env"
    and "get (mg_runs m') rid = Some r'" and "rr_status r' = StatusExited"
  shows "\<exists>es code. map event_view (rr_events r') =
      (EventStarted, re_now env, [], None) # map logged es @ [(EventExited, re_end env, [], Some code)]
    \<and> rr_exitCode r' = Some code
    \<and> (\<forall>ty. stream_data ty es = written ty (taken (re_cut env) (re_output env))
         \<and> length (stream_data ty es) \<le> nat (ec_MaxOutputBytesPerStream (New (executor_config cfg))))
    \<and> (\<forall>ty. \<exists>lost. written ty (re_output env) = stream_data ty es @ lost \<and> (re_wait env = WaitOk \<longrightarrow> lost = []))
    \<and> (\<forall>e \<in> set es. (ee_Type e = EventStdout \<or> ee_Type e = EventStderr) \<and> ee_Data e \<noteq> []
         \<and> length (ee_Data e) \<le> nat (ec_ChunkBytes (New (executor_config cfg))))"
  using execute_active [OF assms(1-3)]
proof cases
  case (1 res err k failed m1 r1)
  have f: "failed = None" "er_Status res = ExecExited" and code: "rr_exitCode r' = Some (er_ExitCode res)"
    using assms(7,8) 1(7) ended_exited [of fin res failed r1] ended_exit_code [of failed res fin r1] by auto
  have k: "m1 = fst k" and err: "err = None" using 1(2) f(1) assms(5) by auto
  have run: "Run (ba_sha b) fs (ba_goos b) (executor_config cfg) (run_emit cfg rid False)
       (env\<lparr>re_runID := Some rid\<rparr>) p (m, [], False) = Some ((res, None), k)"
    using 1(1) assms(5) err by simp
  have env: "re_ctxBefore (env\<lparr>re_runID := Some rid\<rparr>) \<noteq> Some ExecExited"
    "re_ctxAtStart (env\<lparr>re_runID := Some rid\<rparr>) \<noteq> Some ExecExited"
    "\<forall>w \<in> set (re_output (env\<lparr>re_runID := Some rid\<rparr>)). fst w = EventStdout \<or> fst w = EventStderr"
    using assms(6) by (simp_all add: env_ok_def list_all_iff)
  from run_stream.Run_exited [OF run f(2) env] obtain es where es:
    "(run_log rid \<circ> fst) k = (run_log rid \<circ> fst) (m, [], False)
       @ logged (lifecycle_event rid EventStarted (re_now env) None) # map logged es
       @ [logged (lifecycle_event rid EventExited (re_end env) (Some (er_ExitCode res)))]"
    "\<forall>ty. stream_data ty es = written ty (taken (re_cut env) (re_output env))
         \<and> length (stream_data ty es) \<le> nat (ec_MaxOutputBytesPerStream (New (executor_config cfg)))"
    "\<forall>e \<in> set es. (ee_Type e = EventStdout \<or> ee_Type e = EventStderr) \<and> ee_Data e \<noteq> []
         \<and> length (ee_Data e) \<le> nat (ec_ChunkBytes (New (executor_config cfg)))" by auto
  have "map event_view (rr_events r') = run_log rid (fst k)"
    using 1(4,7) assms(7) by (simp add: run_log_def k)
  also have "\<dots> = (EventStarted, re_now env, [], None) # map logged es @ [(EventExited, re_end env, [], Some (er_ExitCode res))]"
    using es(1) assms(2,4) by (simp add: run_log_def logged_def lifecycle_event_def)
  finally have events: "map event_view (rr_events r') =
      (EventStarted, re_now env, [], None) # map logged es @ [(EventExited, re_end env, [], Some (er_ExitCode res))]" .
  have "\<exists>lost. written ty (re_output env) = stream_data ty es @ lost \<and> (re_wait env = WaitOk \<longrightarrow> lost = [])" for ty
    using written_taken [of ty "re_output env" "re_cut env"] es(2) assms(6) by (auto simp: env_ok_def)
  then show ?thesis
    using events code es(2,3) by (intro exI [of _ es] exI [of _ "er_ExitCode res"]) blast
qed


theorem exited_run_records_its_output_witness:
  "\<exists>r' es. get (mg_runs sample_finished) sample_rid = Some r' \<and> rr_status r' = StatusExited
     \<and> stream_data EventStdout es = ''loaded'' \<and> stream_data EventStderr es = ''warn''
     \<and> (\<forall>e \<in> set es. length (ee_Data e) \<le> 4)"
proof -
  have "map_option rr_status (get (mg_runs sample_finished) sample_rid) = Some StatusExited"
    using sample_finished_facts by (simp add: Let_def)
  then obtain r' where r': "get (mg_runs sample_finished) sample_rid = Some r'" "rr_status r' = StatusExited" by auto
  have g: "plan_guard sample_config sample_plan = None" by (simp add: plan_guard_def sample_config_fields)
  have e: "env_ok sample_process" by (simp add: env_ok_def sample_process_def)
  have ev: "rr_events (new_record sample_rid sample_plan) = []" by (simp add: new_record_def)
  from exited_run_records_its_output [OF sample_execution sample_started_run new_record_running ev g e r'] obtain es where
    "stream_data EventStdout es = written EventStdout (taken (re_cut sample_process) (re_output sample_process))"
    "stream_data EventStderr es = written EventStderr (taken (re_cut sample_process) (re_output sample_process))"
    "\<forall>e \<in> set es. length (ee_Data e) \<le> nat (ec_ChunkBytes (New (executor_config sample_config)))" by blast
  moreover have "ec_ChunkBytes (New (executor_config sample_config)) = 4"
    by (simp add: New_def executor_config_def sample_config_fields defaultMaxOutput_def)
  ultimately show ?thesis using r' by (auto simp: sample_process_def)
qed

lemma run_always_ends_run:
  "execute cfg b fs env fin rid p m = Some m' \<Longrightarrow> get (mg_runs m) rid = Some r \<Longrightarrow> \<not> finished r
     \<Longrightarrow> \<exists>r'. get (mg_runs m') rid = Some r'"
  by (elim execute_active) auto

text \<open>A run under a guard: what is recorded before the guard speaks holds no output.\<close>

definition quiet :: "string \<Rightarrow> 'a manager \<Rightarrow> bool" where
  "quiet rid m \<longleftrightarrow> (\<forall>v \<in> set (run_log rid m). fst v \<noteq> EventStdout \<and> fst v \<noteq> EventStderr)"

lemma run_log_event:
  "recordEvent cfg rid e m = (r, m') \<Longrightarrow> set (run_log rid m') \<subseteq> insert (logged e) (set (run_log rid m))"
  by (cases r) (auto simp: run_log_def event_view_stored dest!: recordEvent_Some recordEvent_None)

interpretation run_quiet: sink_invariant "run_emit cfg rid True" "\<lambda>k. quiet rid (fst k)"
  for cfg :: "('w, 'a) manager_config" and rid :: string
proof
  fix k k' :: "'a run_sink" and e r
  assume q: "quiet rid (fst k)" and em: "run_emit cfg rid True e k = (r, k')"
  obtain m held over where k: "k = (m, held, over)" by (cases k)
  from run_emit_cases [OF em [unfolded k]] consider "fst k' = m"
    | "recordEvent cfg rid e m = (r, fst k')" "ee_Type e = EventStarted" by blast
  then show "quiet rid (fst k')"
  proof cases
    case 2
    then have "fst (logged e) = EventStarted" by (simp add: logged_def)
    with run_log_event [OF 2(1)] q show ?thesis by (auto simp: quiet_def k)
  qed (use q in \<open>simp add: k\<close>)
qed

lemma guarded_output:
  assumes "execute cfg b fs env fin rid p m = Some m'" and "plan_guard cfg p = Some g"
    and "get (mg_runs m) rid = Some r" and "\<not> finished r" and "rr_events r = []"
    and "get (mg_runs m') rid = Some r'" and "v \<in> set (rr_events r')"
    and "ev_Type v = EventStdout \<or> ev_Type v = EventStderr"
  shows "ev_Type v = EventStdout \<and> (\<exists>held approved. g held = Inr approved \<and> approved \<noteq> []
    \<and> ev_DataBase64 v = encodeBase64 approved)"
  using execute_active [OF assms(1,3,4)]
proof cases
  case (1 res err k failed m1 r1)
  obtain m0 held over where k: "k = (m0, held, over)" by (cases k)
  have "Run (ba_sha b) fs (ba_goos b) (executor_config cfg) (run_emit cfg rid True)
       (env\<lparr>re_runID := Some rid\<rparr>) p (m, [], False) = Some ((res, err), k)"
    using 1(1) assms(2) by simp
  then have "quiet rid (fst k)"
    by (rule run_quiet.Run_kept) (simp add: quiet_def run_log_def assms(3,5))
  then have q: "quiet rid m0" by (simp add: k)
  define ok where "ok w \<longleftrightarrow> (fst w \<noteq> EventStdout \<and> fst w \<noteq> EventStderr) \<or> (fst w = EventStdout
      \<and> (\<exists>approved. g held = Inr approved \<and> approved \<noteq> [] \<and> fst (snd (snd w)) = encodeBase64 approved))" for w :: event_view
  have q0: "\<forall>w \<in> set (run_log rid m0). ok w" using q by (simp add: quiet_def ok_def)
  have "guarded_end cfg rid fin g res (map_option FailedExecution err) (m0, held, over) = (failed, m1)"
    using 1(2) assms(2) by (simp add: k)
  then have "\<forall>w \<in> set (run_log rid m1). ok w"
  proof (cases rule: guarded_end_parts)
    case (1 f1 m2)
    have "\<forall>w \<in> set (run_log rid m2). ok w" if gv: "guard_verdict cfg rid now g over held m0 = (f1, m2)" for now
    proof (cases "m2 = m0")
      case False
      then obtain approved x where a: "g held = Inr approved" "approved \<noteq> []"
        "recordEvent cfg rid \<lparr>ee_RunID = rid, ee_Type = EventStdout, ee_Timestamp = now, ee_Data = approved, ee_ExitCode = None\<rparr> m0
           = (x, m2)"
        using gv by (auto simp: guard_verdict_def split: if_splits sum.splits prod.splits option.splits)
      with run_log_event [OF a(3)] q0 show ?thesis by (auto simp: ok_def logged_def)
    qed (use q0 in simp)
    with 1(1) q0 have m2: "\<forall>w \<in> set (run_log rid m2). ok w" by blast
    let ?t = "terminal_event rid fin res (f1 = None)"
    have "ok (logged ?t)"
      by (auto simp: ok_def logged_def terminal_event_def terminal_type_def Let_def split: exec_status.split)
    with m2 1(2) run_log_event [of cfg rid ?t m2] show ?thesis
      by (metis (no_types, lifting) insert_iff prod.collapse subset_iff)
  qed
  moreover have "event_view v \<in> set (run_log rid m1)"
    using 1(4,7) assms(6,7) by (auto simp: run_log_def)
  ultimately have "ok (event_view v)" by blast
  with assms(8) show ?thesis by (auto simp: ok_def event_view_def)
qed

text \<open>
  C6: A guarded run shows nothing the guard did not approve. Whatever a plan with an output
  guard writes, and however its process ends, the record of the run holds no standard error and
  no standard output but one event with the bytes that the guard returned for the held output.
\<close>
theorem guarded_output_is_quarantined:
  assumes "execute cfg b fs env fin rid p m = Some m'" and "plan_guard cfg p = Some g"
    and "get (mg_runs m) rid = Some r" and "\<not> finished r" and "rr_events r = []"
    and "get (mg_runs m') rid = Some r'" and "v \<in> set (rr_events r')"
    and "ev_Type v = EventStdout \<or> ev_Type v = EventStderr"
  shows "ev_Type v = EventStdout \<and> (\<exists>held approved. g held = Inr approved \<and> approved \<noteq> []
    \<and> ev_DataBase64 v = encodeBase64 approved)"
  by (rule guarded_output [OF assms])

definition sample_guard :: "plan \<Rightarrow> output_guard option" where
  "sample_guard p = (if pl_ToolID p = ''t'' then Some (\<lambda>d. if d = ''loaded'' then Inr ''ok'' else Inl ()) else None)"

definition guarded_config :: "(append_env, store) manager_config" where
  "guarded_config = sample_config\<lparr>mc_OutputGuard := Some sample_guard\<rparr>"

theorem guarded_output_is_quarantined_witness:
  "\<exists>m' r'. execute guarded_config sample_backend sample_fs sample_process sample_end sample_rid sample_plan sample_started = Some m'
     \<and> get (mg_runs m') sample_rid = Some r'
     \<and> (\<forall>v \<in> set (rr_events r'). ev_Type v = EventStdout \<longrightarrow> ev_DataBase64 v = encodeBase64 ''ok'')
     \<and> (\<forall>v \<in> set (rr_events r'). ev_Type v \<noteq> EventStderr)"
proof -
  obtain m' where m': "execute guarded_config sample_backend sample_fs sample_process sample_end sample_rid sample_plan
      sample_started = Some m'" using execute_total by blast
  have g: "plan_guard guarded_config sample_plan = Some (\<lambda>d. if d = ''loaded'' then Inr ''ok'' else Inl ())"
    by (simp add: plan_guard_def guarded_config_def sample_guard_def sample_plan_def)
  have ev: "rr_events (new_record sample_rid sample_plan) = []" by (simp add: new_record_def)
  obtain r' where r': "get (mg_runs m') sample_rid = Some r'"
    using run_always_ends_run [OF m' sample_started_run new_record_running] by blast
  note claim = guarded_output_is_quarantined [OF m' g sample_started_run new_record_running ev r']
  have "ev_Type v = EventStdout \<Longrightarrow> ev_DataBase64 v = encodeBase64 ''ok''" "ev_Type v \<noteq> EventStderr"
    if "v \<in> set (rr_events r')" for v
    using claim [OF that] by (auto split: if_splits)
  with m' r' show ?thesis by blast
qed

subsection \<open>What the browser sees\<close>

lemma sequence_after:
  "map ev_Sequence es = [n + 1..<n + 1 + length es] \<Longrightarrow> k \<le> length es \<Longrightarrow>
     dropWhile (\<lambda>e. ev_Sequence e \<le> n + k) es = drop k es"
proof (induction es arbitrary: n k)
  case (Cons e es)
  have seq: "ev_Sequence e = n + 1" "map ev_Sequence es = [Suc n + 1..<Suc n + 1 + length es]"
  proof -
    have "[n + 1..<n + 1 + length (e # es)] = (n + 1) # [Suc n + 1..<Suc n + 1 + length es]"
      by (subst upt_conv_Cons) simp_all
    with Cons.prems(1) show "ev_Sequence e = n + 1" "map ev_Sequence es = [Suc n + 1..<Suc n + 1 + length es]"
      by simp_all
  qed
  show ?case
  proof (cases k)
    case 0
    with seq show ?thesis by simp
  next
    case (Suc j)
    with Cons.IH [OF seq(2), of j] Cons.prems(2) seq(1) show ?thesis by simp
  qed
qed simp

text \<open>
  Polling misses nothing and repeats nothing. A reader that holds the first events of a run
  and asks for what follows gets exactly the rest, and it never waits on a run that has ended;
  only a cursor beyond the last event is refused.
\<close>
theorem polling_misses_nothing:
  assumes "manager_ok cfg m" and "get (mg_runs m) rid = Some r"
  shows "(case WaitEvents rid k m of
      Inl e \<Rightarrow> e = run_err ErrInvalidCursor \<and> length (rr_events r) < k
    | Inr None \<Rightarrow> k = length (rr_events r) \<and> \<not> finished r
    | Inr (Some batch) \<Rightarrow> take k (rr_events r) @ eb_Events batch = rr_events r
        \<and> eb_Complete batch = finished r \<and> (eb_Events batch \<noteq> [] \<or> finished r))"
proof -
  have ok: "run_ok cfg rid r" using assms by (simp add: manager_ok_def)
  then have seq: "map ev_Sequence (rr_events r) = [1..<rr_nextSeq r + 1]" and valid: "validRunID rid"
    by (simp_all add: run_ok_def)
  have len: "length (rr_events r) = rr_nextSeq r"
    using arg_cong [OF seq, of length] by simp
  have rest: "cloneEventsAfter (rr_events r) k = drop k (rr_events r)" if "k \<le> rr_nextSeq r"
    using sequence_after [of "rr_events r" 0 k] seq that len by (simp add: cloneEventsAfter_def)
  show ?thesis
    using assms(2) valid len rest by (auto simp: WaitEvents_def Let_def)
qed

theorem polling_misses_nothing_witness:
  "\<exists>batch. WaitEvents sample_rid 2 sample_finished = Inr (Some batch)
     \<and> length (eb_Events batch) = 3 \<and> eb_Complete batch"
proof -
  have ok: "manager_ok sample_config sample_finished"
    by (rule steps_ok [OF sample_steps_finished]) (use sample_config_ok in simp_all)
  have "map_option rr_status (get (mg_runs sample_finished) sample_rid) = Some StatusExited"
    "map_option (length \<circ> rr_events) (get (mg_runs sample_finished) sample_rid) = Some 5"
    using sample_finished_facts by (simp_all add: Let_def)
  then obtain r where r: "get (mg_runs sample_finished) sample_rid = Some r" "finished r" "length (rr_events r) = 5"
    by (auto simp: finished_def)
  have claim: "case WaitEvents sample_rid 2 sample_finished of
      Inl e \<Rightarrow> e = run_err ErrInvalidCursor \<and> length (rr_events r) < 2
    | Inr None \<Rightarrow> 2 = length (rr_events r) \<and> \<not> finished r
    | Inr (Some batch) \<Rightarrow> take 2 (rr_events r) @ eb_Events batch = rr_events r
        \<and> eb_Complete batch = finished r \<and> (eb_Events batch \<noteq> [] \<or> finished r)"
    by (rule polling_misses_nothing [OF ok r(1)])
  then obtain batch where batch: "WaitEvents sample_rid 2 sample_finished = Inr (Some batch)"
    "take 2 (rr_events r) @ eb_Events batch = rr_events r" "eb_Complete batch = finished r"
    using r(2,3) by (auto split: sum.splits option.splits)
  have "length (eb_Events batch) = 3"
    using arg_cong [OF batch(2), of length] r(3) by simp
  with batch(1,3) r(2) show ?thesis by blast
qed

text \<open>
  A preview hides secrets: two requests for a command of a validated pack that differ only
  in secret inputs are shown to the operator as the same preview.
\<close>
theorem preview_hides_secrets:
  assumes "validated_registry (ba_lib b) reg" and "ba_registry b = Some reg"
    and "FindCommand reg (rn_PackID req) (rn_CommandID req) = Some cmd"
    and "build_request b snap req = Inr p" and "build_request b snap (req\<lparr>rn_Values := vals\<rparr>) = Inr p'"
    and "same_but_secrets cmd (rn_Values req) vals"
  shows "preview_of p = preview_of p'"
proof -
  let ?r = "\<lparr>prq_PackID = rn_PackID req, prq_CommandID = rn_CommandID req, prq_Values = rn_Values req\<rparr>"
  have "Build (ba_lib b) (Some reg) snap ?r = Inr p" "Build (ba_lib b) (Some reg) snap (?r\<lparr>prq_Values := vals\<rparr>) = Inr p'"
    using assms(2,4,5) by (auto simp: build_request_def split: sum.splits)
  from secret_plans [OF assms(1) _ this] assms(3,6)
  have p': "p' = p\<lparr>pl_Stdin := pl_Stdin p'\<rparr>" and stdin: "pl_Stdin p \<noteq> pl_Stdin p' \<longrightarrow> pl_StdinSensitive p" by simp_all
  have hidden: "preview_of (p\<lparr>pl_Stdin := x\<rparr>) = preview_of p" if "x = pl_Stdin p \<or> pl_StdinSensitive p" for x
    using that by (auto simp: preview_of_def)
  have "pl_Stdin p' = pl_Stdin p \<or> pl_StdinSensitive p"
    by (cases "pl_Stdin p = pl_Stdin p'") (use stdin in simp_all)
  then have "preview_of (p\<lparr>pl_Stdin := pl_Stdin p'\<rparr>) = preview_of p" by (rule hidden)
  from sym [OF trans [OF arg_cong [OF p', of preview_of] this]] show ?thesis .
qed

theorem preview_hides_secrets_witness:
  "preview_of (planned (set_request ''hunter2'')) = preview_of (planned (set_request ''other''))"
proof -
  let ?req = "\<lparr>rn_PackID = ''p'', rn_CommandID = ''set-secret'', rn_Values = prq_Values (set_request ''hunter2''), rn_Approval = None\<rparr>"
  have req: "\<lparr>prq_PackID = ''p'', prq_CommandID = ''set-secret'', prq_Values = prq_Values (set_request s)\<rparr> = set_request s" for s
    by (simp add: set_request_def)
  have "build_request sample_backend vault_snapshot ?req = Inr (planned (set_request ''hunter2''))"
    "build_request sample_backend vault_snapshot (?req\<lparr>rn_Values := prq_Values (set_request ''other'')\<rparr>)
       = Inr (planned (set_request ''other''))"
    by (simp_all add: build_request_def sample_backend_def req sample_plans)
  moreover have "same_but_secrets set_secret (rn_Values ?req) (prq_Values (set_request ''other''))"
    by (simp add: same_but_secrets_def secret_inputs_def set_secret_def set_request_def name_input_def
        secret_input_def limit_input_def)
  moreover have "FindCommand vault_registry (rn_PackID ?req) (rn_CommandID ?req) = Some set_secret"
    using vault_commands(1) by (simp add: set_request_def)
  moreover have "validated_registry (ba_lib sample_backend) vault_registry" "ba_registry sample_backend = Some vault_registry"
    using vault_validated by (simp_all add: sample_backend_def)
  ultimately show ?thesis using preview_hides_secrets by metis
qed

end
