(* ===== verification/Idira.thy ===== *)
theory Idira
  imports RunSafety
begin

section \<open>The Idira output guard (internal/platforms/idira)\<close>

text \<open>
  The output of the Privilege Cloud commands is never shown as it is: a guard reads it as one of
  a few reviewed documents and writes that document anew from the fields it admits, or refuses.
  \<open>readObject\<close> works on the token machine of package json; a nested value is refused by every
  field, so the values kept are scalars.
\<close>

definition idira_PackID :: string where "idira_PackID = ''cyberark-idira-pam''"
definition idira_ToolID :: string where "idira_ToolID = ''idsec''"
definition maxVendorOutput :: nat where "maxVendorOutput = 65536"
definition maxPageItems :: nat where "maxPageItems = 50"
definition maxMetadataValueBytes :: nat where "maxMetadataValueBytes = 2048"

definition validEnvelope :: "string \<Rightarrow> bool" where
  "validEnvelope data \<longleftrightarrow> data \<noteq> [] \<and> length data \<le> maxVendorOutput \<and> valid_utf8 data"

definition validText :: "string \<Rightarrow> bool" where
  "validText s \<longleftrightarrow> NUL \<notin> set s \<and> (\<forall>r \<in> set (runes s). r \<noteq> RuneError \<and> \<not> is_control r \<and> \<not> is_format r
     \<and> r \<noteq> 0x2028 \<and> r \<noteq> 0x2029)"

definition version_number :: re where
  "version_number = Alt (Chr (CHR ''0'')) (Cat (Cls (\<lambda>c. 49 \<le> byte c \<and> byte c \<le> 57)) (Star (Cls is_digit)))"

definition version_char :: "char \<Rightarrow> bool" where
  "version_char c \<longleftrightarrow> is_digit c \<or> (65 \<le> byte c \<and> byte c \<le> 90) \<or> (97 \<le> byte c \<and> byte c \<le> 122)
     \<or> c = CHR ''.'' \<or> c = CHR ''-''"

definition versionPattern :: re where
  "versionPattern = cats [Bol, version_number, Chr (CHR ''.''), version_number, Chr (CHR ''.''), version_number,
     Opt (Cat (Chr (CHR ''-'')) (Plus (Cls version_char))), Opt (Cat (Chr (CHR ''+'')) (Plus (Cls version_char))), Eol]"

definition filterVersion :: "string \<Rightarrow> unit + string" where
  "filterVersion data =
     (if data = [] \<or> 64 < length data \<or> \<not> valid_utf8 data then Inl ()
      else let version = trim_suffix [CHR 0x0A] data
           in if \<not> re_search versionPattern version then Inl () else Inr (version @ [CHR 0x0A]))"

subsection \<open>Objects\<close>

datatype idira_kind = IdiraString | IdiraBool

definition idira_value :: "idira_kind \<Rightarrow> token \<Rightarrow> scalar option" where
  "idira_value kind tok =
     (case kind of
        IdiraString \<Rightarrow>
          (case tok of
             TStr v \<Rightarrow> if length v \<le> maxMetadataValueBytes \<and> validText v then Some (SStr v) else None
           | TNull \<Rightarrow> Some SNull
           | _ \<Rightarrow> None)
      | IdiraBool \<Rightarrow> (case tok of TBool b \<Rightarrow> Some (SBool b) | _ \<Rightarrow> None))"

function read_members :: "idira_kind dict \<Rightarrow> scalar dict \<Rightarrow> decoder \<Rightarrow> (scalar dict \<times> decoder) option" where
  "read_members allow seen d =
     (if \<not> has_more d then Some (seen, d)
      else case next_token d of
        Tok (TStr key) d1 \<Rightarrow>
          (case get allow key of
             None \<Rightarrow> None
           | Some kind \<Rightarrow>
               if get seen key \<noteq> None then None
               else (case next_token d1 of
                  Tok tok d2 \<Rightarrow>
                    (case idira_value kind tok of
                       None \<Rightarrow> None
                     | Some v \<Rightarrow> read_members allow (AList.update key v seen) d2)
                | _ \<Rightarrow> None))
      | _ \<Rightarrow> None)"
  by pat_completeness auto
termination
proof (relation "measure (\<lambda>(allow, seen, d). length (d_rest d))", goal_cases)
  case (2 allow seen d tok d1 key kind tok2 d2 v)
  then have "length (d_rest d1) < length (d_rest d)" "length (d_rest d2) < length (d_rest d1)"
    by (auto dest: next_token_shorter)
  then show ?case by simp
qed simp

declare read_members.simps [simp del]

definition readObject :: "idira_kind dict \<Rightarrow> decoder \<Rightarrow> (scalar dict \<times> decoder) option" where
  "readObject allow d =
     (case next_token d of
        Tok start d0 \<Rightarrow>
          if start \<noteq> TDelim (CHR ''{'') then None
          else (case read_members allow [] d0 of
             None \<Rightarrow> None
           | Some (seen, d1) \<Rightarrow>
               (case next_token d1 of
                  Tok end d2 \<Rightarrow> if end = TDelim (CHR ''}'') \<and> length seen = length allow then Some (seen, d2) else None
                | _ \<Rightarrow> None))
      | _ \<Rightarrow> None)"

lemma read_members_step:
  assumes "read_members allow seen d = Some (out, d')" and "has_more d"
  obtains key kind d1 tok d2 v where "next_token d = Tok (TStr key) d1" "get allow key = Some kind"
    "get seen key = None" "next_token d1 = Tok tok d2" "idira_value kind tok = Some v"
    "read_members allow (AList.update key v seen) d2 = Some (out, d')"
  using assms unfolding read_members.simps [of allow seen d]
  by (auto split: if_splits token_result.splits token.splits option.splits)

lemma read_members_shorter:
  "read_members allow seen d = Some (out, d') \<Longrightarrow> length (d_rest d') \<le> length (d_rest d)"
proof (induction "length (d_rest d)" arbitrary: d seen rule: less_induct)
  case less
  show ?case
  proof (cases "has_more d")
    case True
    with less.prems show ?thesis
    proof (cases rule: read_members_step)
      case (1 key kind d1 tok d2 v)
      from next_token_shorter [OF 1(1)] next_token_shorter [OF 1(4)] have "length (d_rest d2) < length (d_rest d)"
        by simp
      with less.hyps [OF this 1(6)] show ?thesis by simp
    qed
  qed (use less.prems in \<open>simp add: read_members.simps [of allow seen d]\<close>)
qed

lemma readObject_shorter: "readObject allow d = Some (out, d') \<Longrightarrow> length (d_rest d') < length (d_rest d)"
  unfolding readObject_def
  by (fastforce split: token_result.splits if_splits option.splits dest: next_token_shorter read_members_shorter)

definition stringValue :: "scalar dict \<Rightarrow> string \<Rightarrow> string" where
  "stringValue vals k = (case get vals k of Some (SStr v) \<Rightarrow> v | _ \<Rightarrow> [])"

definition boolValue :: "scalar dict \<Rightarrow> string \<Rightarrow> bool option" where
  "boolValue vals k = (case get vals k of Some (SBool b) \<Rightarrow> Some b | _ \<Rightarrow> None)"

definition atEOF :: "decoder \<Rightarrow> bool" where
  "atEOF d \<longleftrightarrow> next_token d = TokEOF"

subsection \<open>Documents\<close>

definition encode_status :: "string \<Rightarrow> bool \<Rightarrow> bool \<Rightarrow> string" where
  "encode_status profile exists auth =
     json_object [json_field ''profile'' (quote profile), json_field ''exists'' (show_bool exists),
       json_field ''authenticated'' (show_bool auth)]"

definition filterStatus :: "string \<Rightarrow> unit + string" where
  "filterStatus data =
     (if \<not> validEnvelope data then Inl ()
      else case readObject [(''profile'', IdiraString), (''exists'', IdiraBool), (''authenticated'', IdiraBool)]
             (new_decoder data) of
        None \<Rightarrow> Inl ()
      | Some (seen, d) \<Rightarrow>
          if \<not> atEOF d then Inl ()
          else let profile = stringValue seen ''profile'' in
          if profile = [] \<or> 128 < length profile \<or> \<not> validText profile then Inl ()
          else (case (boolValue seen ''exists'', boolValue seen ''authenticated'') of
             (Some exists, Some auth) \<Rightarrow>
               if \<not> exists \<and> auth then Inl () else Inr (encode_status profile exists auth)
           | _ \<Rightarrow> Inl ()))"

text \<open>A row: the text of every field, in the order of \<open>cols\<close>.\<close>

definition make_row :: "string list \<Rightarrow> scalar dict \<Rightarrow> (string \<times> string) list" where
  "make_row cols vals = map (\<lambda>f. (f, stringValue vals f)) cols"

definition row_ok :: "string list \<Rightarrow> (string \<times> string) list \<Rightarrow> bool" where
  "row_ok cols row \<longleftrightarrow> (\<forall>(k, v) \<in> set row. length v \<le> maxMetadataValueBytes \<and> validText v)
     \<and> get row (hd cols) \<noteq> Some [] \<and> get row ''safe_name'' \<noteq> Some []"

function read_rows ::
    "string list \<Rightarrow> (string \<times> string) list list \<Rightarrow> decoder \<Rightarrow> ((string \<times> string) list list \<times> decoder) option" where
  "read_rows cols rows d =
     (if \<not> has_more d then Some (rows, d)
      else if length rows = maxPageItems then None
      else case readObject (map (\<lambda>f. (f, IdiraString)) cols) d of
        None \<Rightarrow> None
      | Some (vals, d') \<Rightarrow>
          let row = make_row cols vals
          in if \<not> row_ok cols row then None else read_rows cols (rows @ [row]) d')"
  by pat_completeness auto
termination
  by (relation "measure (\<lambda>(cols, rows, d). length (d_rest d))") (auto dest: readObject_shorter)

declare read_rows.simps [simp del]

text \<open>\<open>json.Marshal\<close> of a map writes its keys in order.\<close>

definition encode_row :: "(string \<times> string) list \<Rightarrow> string" where
  "encode_row row = json_object (map (\<lambda>k. json_field k (quote (case get row k of None \<Rightarrow> [] | Some v \<Rightarrow> v))) (sort (map fst row)))"

definition json_array :: "string list \<Rightarrow> string" where
  "json_array xs = CHR ''['' # json_join xs @ [CHR '']'']"

definition filterRows :: "string \<Rightarrow> string list \<Rightarrow> unit + string" where
  "filterRows data cols =
     (if \<not> validEnvelope data then Inl ()
      else case next_token (new_decoder data) of
        Tok t d \<Rightarrow>
          if t \<noteq> TDelim (CHR ''['') then Inl ()
          else (case read_rows cols [] d of
             None \<Rightarrow> Inl ()
           | Some (rows, d1) \<Rightarrow>
               (case next_token d1 of
                  Tok e d2 \<Rightarrow> if e = TDelim (CHR '']'') \<and> atEOF d2 then Inr (json_array (map encode_row rows)) else Inl ()
                | _ \<Rightarrow> Inl ()))
      | _ \<Rightarrow> Inl ())"

definition safe_fields :: "string list" where
  "safe_fields = [''safe_id'', ''safe_name'']"

definition account_fields :: "string list" where
  "account_fields = [''account_id'', ''name'', ''safe_name'', ''platform_id'']"

definition OutputGuard :: "plan \<Rightarrow> output_guard option" where
  "OutputGuard p =
     (if pl_PackID p \<noteq> idira_PackID \<or> pl_ToolID p \<noteq> idira_ToolID then None
      else if pl_CommandID p = ''version'' then Some filterVersion
      else if pl_CommandID p = ''session-status'' then Some filterStatus
      else if pl_CommandID p = ''list-safes'' then Some (\<lambda>data. filterRows data safe_fields)
      else if pl_CommandID p = ''list-accounts'' then Some (\<lambda>data. filterRows data account_fields)
      else Some (\<lambda>_. Inl ()))"

definition idira_TaskAvailable :: "string \<Rightarrow> string \<Rightarrow> bool" where
  "idira_TaskAvailable packID commandID \<longleftrightarrow> packID = idira_PackID
     \<and> commandID \<in> set [''version'', ''session-status'', ''list-safes'', ''list-accounts'']"

definition idira_ResolveExecutionContext :: "plan \<Rightarrow> unit + execution_context" where
  "idira_ResolveExecutionContext p = Inl ()"

subsection \<open>What a guarded command may show\<close>

definition short_text :: "string \<Rightarrow> bool" where
  "short_text v \<longleftrightarrow> length v \<le> maxMetadataValueBytes \<and> validText v"

definition table_of :: "string list \<Rightarrow> string \<Rightarrow> bool" where
  "table_of cols out \<longleftrightarrow> (\<exists>rows. out = json_array (map encode_row rows) \<and> length rows \<le> maxPageItems
     \<and> (\<forall>row \<in> set rows. map fst row = cols \<and> (\<forall>(k, v) \<in> set row. short_text v)
          \<and> get row (hd cols) \<noteq> Some [] \<and> get row ''safe_name'' \<noteq> Some []))"

definition reviewed_document :: "string \<Rightarrow> string \<Rightarrow> bool" where
  "reviewed_document cmd out \<longleftrightarrow>
     (cmd = ''version'' \<and> (\<exists>v. out = v @ [CHR 0x0A] \<and> length v \<le> 64 \<and> re_search versionPattern v))
   \<or> (cmd = ''session-status'' \<and> (\<exists>profile exists auth. out = encode_status profile exists auth
        \<and> profile \<noteq> [] \<and> length profile \<le> 128 \<and> validText profile \<and> (auth \<longrightarrow> exists)))
   \<or> (cmd = ''list-safes'' \<and> table_of safe_fields out)
   \<or> (cmd = ''list-accounts'' \<and> table_of account_fields out)"

lemma read_rows_ok:
  assumes "read_rows cols rows d = Some (out, d')" and "length rows \<le> maxPageItems"
    and "\<forall>row \<in> set rows. map fst row = cols \<and> row_ok cols row"
  shows "length out \<le> maxPageItems \<and> (\<forall>row \<in> set out. map fst row = cols \<and> row_ok cols row)"
  using assms
proof (induction cols rows d rule: read_rows.induct)
  case (1 cols rows d)
  show ?case
  proof (cases "has_more d")
    case False
    with 1 show ?thesis by (simp add: read_rows.simps [of cols rows d])
  next
    case True
    with 1(2) obtain vals d1 where step: "length rows \<noteq> maxPageItems"
      "readObject (map (\<lambda>f. (f, IdiraString)) cols) d = Some (vals, d1)" "row_ok cols (make_row cols vals)"
      "read_rows cols (rows @ [make_row cols vals]) d1 = Some (out, d')"
      by (subst (asm) read_rows.simps) (auto simp: Let_def split: if_splits option.splits)
    have "map fst (make_row cols vals) = cols" by (simp add: make_row_def comp_def)
    with 1(1) [OF _ step(1,2) refl refl _ step(4)] True step 1(3,4) show ?thesis by auto
  qed
qed

lemma filterRows_table: "filterRows data cols = Inr out \<Longrightarrow> table_of cols out"
  unfolding filterRows_def table_of_def short_text_def
  by (auto split: if_splits token_result.splits option.splits dest!: read_rows_ok simp: row_ok_def)

lemma trim_suffix_length: "length (trim_suffix p s) \<le> length s"
  by (simp add: trim_suffix_def)

lemma OutputGuard_reviewed:
  assumes "OutputGuard p = Some g" and "g held = Inr out"
  shows "pl_PackID p = idira_PackID \<and> reviewed_document (pl_CommandID p) out"
proof -
  have version: "\<exists>v. out = v @ [CHR 0x0A] \<and> length v \<le> 64 \<and> re_search versionPattern v"
    if "filterVersion held = Inr out"
    using that trim_suffix_length [of "[CHR 0x0A]" held]
    by (auto simp: filterVersion_def Let_def split: if_splits)
  have status: "\<exists>profile exists auth. out = encode_status profile exists auth
        \<and> profile \<noteq> [] \<and> length profile \<le> 128 \<and> validText profile \<and> (auth \<longrightarrow> exists)"
    if "filterStatus held = Inr out"
  proof -
    have "\<exists>seen ex au. out = encode_status (stringValue seen ''profile'') ex au \<and> stringValue seen ''profile'' \<noteq> []
        \<and> length (stringValue seen ''profile'') \<le> 128 \<and> validText (stringValue seen ''profile'') \<and> (au \<longrightarrow> ex)"
      using that unfolding filterStatus_def Let_def
      by (simp split: if_split_asm option.split_asm prod.split_asm)
        (rule exI, rule exI, rule exI, rule conjI, erule sym, auto)
    then show ?thesis by blast
  qed
  have pack: "pl_PackID p = idira_PackID" using assms(1) by (auto simp: OutputGuard_def split: if_splits)
  from assms(1) consider "pl_CommandID p = ''version''" "g = filterVersion"
    | "pl_CommandID p = ''session-status''" "g = filterStatus"
    | "pl_CommandID p = ''list-safes''" "g = (\<lambda>data. filterRows data safe_fields)"
    | "pl_CommandID p = ''list-accounts''" "g = (\<lambda>data. filterRows data account_fields)" | "g = (\<lambda>_. Inl ())"
    unfolding OutputGuard_def by (simp split: if_split_asm)
  then show ?thesis
  proof cases
    case 1
    with pack version assms(2) show ?thesis by (simp add: reviewed_document_def)
  next
    case 2
    with pack status assms(2) show ?thesis by (simp add: reviewed_document_def)
  next
    case 3
    with pack filterRows_table assms(2) show ?thesis by (simp add: reviewed_document_def)
  next
    case 4
    with pack filterRows_table assms(2) show ?thesis by (simp add: reviewed_document_def)
  qed (use assms(2) in simp)
qed

text \<open>
  C24: A run of the Idira pack shows reviewed fields only. Whatever the vendor's program writes,
  every output event of the run is one document of the shape reviewed for its command, written
  anew: a version, a session status, or a table of at most fifty rows whose columns are exactly
  the listed ones and whose values are short, printable text; other commands show nothing.
\<close>
theorem idira_runs_show_reviewed_fields:
  assumes "execute cfg b fs env fin rid p m = Some m'" and "mc_OutputGuard cfg = Some OutputGuard"
    and "pl_PackID p = idira_PackID" and "pl_ToolID p = idira_ToolID"
    and "get (mg_runs m) rid = Some r" and "\<not> finished r" and "rr_events r = []"
    and "get (mg_runs m') rid = Some r'" and "v \<in> set (rr_events r')"
    and "ev_Type v = EventStdout \<or> ev_Type v = EventStderr"
  shows "\<exists>out. ev_Type v = EventStdout \<and> ev_DataBase64 v = encodeBase64 out \<and> reviewed_document (pl_CommandID p) out"
proof -
  have "OutputGuard p \<noteq> None" by (simp add: OutputGuard_def assms(3,4))
  then obtain g where g: "OutputGuard p = Some g" by blast
  then have "plan_guard cfg p = Some g" by (simp add: plan_guard_def assms(2))
  from guarded_output [OF assms(1) this assms(5-10)] OutputGuard_reviewed [OF g] show ?thesis by blast
qed


definition idira_plan :: plan where
  "idira_plan = sample_plan\<lparr>pl_PackID := idira_PackID, pl_ToolID := idira_ToolID, pl_CommandID := ''version''\<rparr>"

definition idira_config :: "(append_env, store) manager_config" where
  "idira_config = sample_config\<lparr>mc_OutputGuard := Some OutputGuard\<rparr>"

definition idira_started :: "store manager" where
  "idira_started = sample_started\<lparr>mg_runs := [(sample_rid, new_record sample_rid idira_plan)]\<rparr>"

definition idira_process :: run_env where
  "idira_process = sample_process\<lparr>re_output := [(EventStdout, ''1.2.3'' @ [CHR 0x0A])]\<rparr>"

definition idira_execution :: "store manager option" where
  "idira_execution = execute idira_config sample_backend sample_fs idira_process sample_end sample_rid idira_plan idira_started"

lemma idira_execution_shown:
  "(case idira_execution of None \<Rightarrow> [] | Some m' \<Rightarrow> map fst (run_log sample_rid m'))
     = [EventStarted, EventStdout, EventExited]"
  by code_simp

theorem idira_runs_show_reviewed_fields_witness:
  "\<exists>m' r' v out. execute idira_config sample_backend sample_fs idira_process sample_end sample_rid idira_plan idira_started = Some m'
     \<and> get (mg_runs m') sample_rid = Some r' \<and> v \<in> set (rr_events r') \<and> ev_Type v = EventStdout
     \<and> ev_DataBase64 v = encodeBase64 out \<and> reviewed_document ''version'' out"
proof -
  obtain m' where m': "execute idira_config sample_backend sample_fs idira_process sample_end sample_rid idira_plan
      idira_started = Some m'" using execute_total by blast
  have started: "get (mg_runs idira_started) sample_rid = Some (new_record sample_rid idira_plan)"
    by (simp add: idira_started_def)
  have shown: "map fst (run_log sample_rid m') = [EventStarted, EventStdout, EventExited]"
    using idira_execution_shown m' by (simp add: idira_execution_def)
  then obtain r' where r': "get (mg_runs m') sample_rid = Some r'"
    by (cases "get (mg_runs m') sample_rid") (simp_all add: run_log_def)
  have "EventStdout \<in> set (map ev_Type (rr_events r'))"
    using shown r' by (simp add: run_log_def event_view_def comp_def)
  then obtain v where v: "v \<in> set (rr_events r')" "ev_Type v = EventStdout" by auto
  have "mc_OutputGuard idira_config = Some OutputGuard" "pl_PackID idira_plan = idira_PackID"
    "pl_ToolID idira_plan = idira_ToolID" "pl_CommandID idira_plan = ''version''"
    "rr_events (new_record sample_rid idira_plan) = []"
    by (simp_all add: idira_config_def idira_plan_def new_record_def)
  with idira_runs_show_reviewed_fields [OF m' _ _ _ started new_record_running _ r' v(1)] v m' r'
  show ?thesis by fastforce
qed

end
