(* ===== verification/GoUrl.thy ===== *)
theory GoUrl
  imports GoText
begin

section \<open>Parsed URLs\<close>

text \<open>
  What package net/url makes of a text, as far as the program asks. The parse itself is an
  argument of the definitions that use it.
\<close>

record parsed_url =
  pu_Scheme :: string
  pu_Host :: string
  pu_Hostname :: string
  pu_Port :: string
  pu_HasUser :: bool
  pu_RawQuery :: string
  pu_Fragment :: string

end
