(* ===== verification/SecretAudit.thy ===== *)
theory SecretAudit
  imports AuditTrail Discovery GoUrl
begin

section \<open>The secret audit (internal/platforms/conjur/secret\_audit.go)\<close>

text \<open>
  A background scan of the variables a Conjur account can see: it lists their ids, reads their
  values in batches, classifies each value, lists the ids again and only then shows what it
  found. The vendor's client and the clock of the world are an \<open>audit_world\<close>: what each call
  answers, as a function of the number of calls made before it. \<open>audit_state\<close> is that number
  and every snapshot the service has shown, the newest first. Overwriting the buffers that held
  values is left out. The engine that runs the operator's expressions is \<open>ext_lib\<close>.
\<close>

subsection \<open>Texts\<close>

definition dotted :: "char \<Rightarrow> char" where
  "dotted c = (if c = bslash \<or> c = CHR ''.'' then CHR ''/'' else c)"

text \<open>One pass of \<open>ReplaceAll(s, "//", "/")\<close>, and the loop around it.\<close>

fun merge_slashes :: "string \<Rightarrow> string" where
  "merge_slashes (c # d # cs) =
     (if c = slash \<and> d = slash then slash # merge_slashes cs else c # merge_slashes (d # cs))"
| "merge_slashes s = s"

lemma merge_slashes_length: "length (merge_slashes s) \<le> length s"
  by (induction s rule: merge_slashes.induct) auto

lemma merge_slashes_shorter:
  "contains_sub [slash, slash] s \<Longrightarrow> length (merge_slashes s) < length s"
proof (induction s rule: merge_slashes.induct)
  case (1 c d cs)
  then show ?case using merge_slashes_length [of cs] by (auto simp: has_prefix_def)
qed (auto simp: has_prefix_def)

function squeeze_slashes :: "string \<Rightarrow> string" where
  "squeeze_slashes s = (if contains_sub [slash, slash] s then squeeze_slashes (merge_slashes s) else s)"
  by pat_completeness auto
termination
  by (relation "measure length") (simp_all add: merge_slashes_shorter)

declare squeeze_slashes.simps [simp del]

definition trim_slashes :: "string \<Rightarrow> string" where
  "trim_slashes s = rev (dropWhile (\<lambda>c. c = slash) (rev (dropWhile (\<lambda>c. c = slash) s)))"

definition normalizeReferenceShape :: "string \<Rightarrow> string" where
  "normalizeReferenceShape v = trim_slashes (squeeze_slashes (map dotted (trim_space v)))"

definition secretAuditVariableID :: "string \<Rightarrow> string" where
  "secretAuditVariableID rid = (case cut '':variable:'' rid of Some (_, after) \<Rightarrow> after | None \<Rightarrow> rid)"

definition validSecretAuditResourceID :: "string \<Rightarrow> bool" where
  "validSecretAuditResourceID v \<longleftrightarrow> v \<noteq> [] \<and> length v \<le> 2048 \<and> valid_utf8 v \<and> trim_space v \<noteq> []
     \<and> (\<forall>r \<in> set (runes v). \<not> (r \<le> 0x1F \<or> (0x7F \<le> r \<and> r \<le> 0x9F) \<or> is_format r \<or> r = 0x2028 \<or> r = 0x2029))
     \<and> (contains_sub '':variable:'' v \<longrightarrow> secretAuditVariableID v \<noteq> [])"

text \<open>\<open>url.QueryEscape\<close>.\<close>

definition is_alnum :: "char \<Rightarrow> bool" where
  "is_alnum c \<longleftrightarrow> is_digit c \<or> (65 \<le> byte c \<and> byte c \<le> 90) \<or> (97 \<le> byte c \<and> byte c \<le> 122)"

definition upper_hex :: "nat \<Rightarrow> char" where
  "upper_hex n = char_of (if n < 10 then 48 + n else 55 + n)"

definition query_escape :: "string \<Rightarrow> string" where
  "query_escape s = concat (map (\<lambda>c.
     if is_alnum c \<or> c \<in> set ''-_.~'' then [c]
     else if c = CHR '' '' then ''+''
     else [CHR ''%'', upper_hex (byte c div 16), upper_hex (byte c mod 16)]) s)"

subsection \<open>The shape of a value\<close>

text \<open>
  The expressions carry the flag \<open>(?i)\<close>: they are matched in lower case against the text folded
  by \<open>json_fold\<close>, which also folds the two non-ASCII letters that have an ASCII case.
\<close>

definition cls :: "string \<Rightarrow> re" where
  "cls extra = Cls (\<lambda>c. is_alnum c \<or> c \<in> set extra)"

definition joined_words :: "string \<Rightarrow> string \<Rightarrow> re" where
  "joined_words a b = cats [lit a, Opt (Cls (\<lambda>c. c \<in> set ''-_'')), lit b]"

definition secretFieldSuffix :: re where
  "secretFieldSuffix = alts [lit ''password'', lit ''passwd'', lit ''pwd'', lit ''username'', lit ''user'', lit ''token'',
     joined_words ''api'' ''key'', lit ''secret'', joined_words ''client'' ''secret'', joined_words ''private'' ''key'',
     joined_words ''access'' ''key'', lit ''credential'', lit ''credentials'']"

definition separators :: string where "separators = [bslash, slash]"

definition dotCredentialSuffixPattern :: re where
  "dotCredentialSuffixPattern = cats [Alt Bol (Chr (CHR ''.'')), secretFieldSuffix, Eol]"

definition referenceURIPattern :: re where
  "referenceURIPattern = cats [Bol, alts [lit ''conjur'', lit ''cyberark'', lit ''idira''], lit ''://'',
     Plus (cls (''_.@:-'' @ separators)), Eol]"

definition anyURIPattern :: re where
  "anyURIPattern = cats [Bol, Cls (\<lambda>c. is_alnum c \<and> \<not> is_digit c), Star (cls ''+.-''), lit ''://'']"

definition ipv4Pattern :: re where
  "ipv4Pattern = (let n = Cat (Cls is_digit) (Opt (Cat (Cls is_digit) (Opt (Cls is_digit))))
     in cats [Bol, n, times 3 (Cat (Chr (CHR ''.'')) n), Eol])"

definition semverPattern :: re where
  "semverPattern = (let part = Cat (Chr (CHR ''.'')) (Plus (Cls is_digit))
     in cats [Bol, Opt (Chr (CHR ''v'')), Plus (Cls is_digit), part, Plus part,
          Opt (Cat (Cls (\<lambda>c. c \<in> set ''-+'')) (Plus (cls ''.-''))), Eol])"

definition jwtPattern :: re where
  "jwtPattern = (let part = Cat (times 8 (cls ''_-'')) (Star (cls ''_-''))
     in cats [Bol, part, Chr (CHR ''.''), part, Chr (CHR ''.''), part, Eol])"

definition path_tail :: re where
  "path_tail = Cat (Cls (\<lambda>c. c \<in> set separators)) (Plus (cls ''_.@-''))"

definition dotReferencePattern :: re where
  "dotReferencePattern = (let part = Cat (Chr (CHR ''.'')) (Plus (cls ''_-''))
     in cats [Bol, Plus (cls ''_-''), part, Plus part, Opt (Cat path_tail (Star path_tail)), Eol])"

definition dotSecretSuffixPattern :: re where
  "dotSecretSuffixPattern = cats [Chr (CHR ''.''), secretFieldSuffix, Eol]"

definition pathPattern :: re where
  "pathPattern = cats [Bol, Plus (cls ''_.@-''), Plus path_tail, Eol]"

definition pathSecretSuffixPattern :: re where
  "pathSecretSuffixPattern = cats [Alt Bol (Cls (\<lambda>c. c \<in> set separators)), secretFieldSuffix, Eol]"

definition matches_i :: "re \<Rightarrow> string \<Rightarrow> bool" where
  "matches_i r s \<longleftrightarrow> re_search r (json_fold s)"

text \<open>Confidence and reason; both empty when the value does not look like a reference.\<close>

definition classifySecretValue :: "string \<Rightarrow> string list \<Rightarrow> string list \<Rightarrow> string \<times> string" where
  "classifySecretValue value known knownNormalized =
     (let candidate = trim_space value in
      if candidate = [] \<or> 2048 < rune_count candidate then ([], [])
      else if candidate \<in> set known then (''high'', ''exact_known_variable_reference'')
      else let hasSlash = (\<exists>c \<in> set candidate. c \<in> set separators);
               normalized = normalizeReferenceShape candidate in
      if normalized \<noteq> [] \<and> (hasSlash \<or> CHR ''.'' \<in> set candidate) \<and> normalized \<in> set knownNormalized then
        (if hasSlash \<or> matches_i dotCredentialSuffixPattern candidate then (''high'', ''normalized_known_variable_reference'')
         else (''medium'', ''normalized_known_variable_reference''))
      else if matches_i referenceURIPattern candidate then (''high'', ''secret_reference_uri'')
      else if (\<exists>r \<in> set (runes candidate). is_space r) \<or> has_prefix ''{'' candidate \<or> has_prefix ''['' candidate
        \<or> has_prefix ''-----BEGIN'' candidate \<or> matches_i anyURIPattern candidate \<or> CHR ''='' \<in> set candidate
      then ([], [])
      else if re_search ipv4Pattern candidate \<or> matches_i semverPattern candidate \<or> re_search jwtPattern candidate
      then ([], [])
      else if matches_i dotReferencePattern candidate \<and> (hasSlash \<or> matches_i dotSecretSuffixPattern candidate)
      then (''medium'', ''dot_notation_reference_shape'')
      else if matches_i pathPattern candidate \<and> matches_i pathSecretSuffixPattern candidate
      then (''medium'', ''path_with_secret_field_suffix'')
      else if matches_i pathPattern candidate
        \<and> 3 \<le> length (filter (\<lambda>c. c = CHR ''.'' \<or> c \<in> set separators) candidate)
      then (''medium'', ''hierarchical_reference_shape'')
      else ([], []))"

subsection \<open>The audit as a computation\<close>

text \<open>\<open>VendorError\<close> is a \<open>ConjurError\<close> with its HTTP code; every other error is \<open>OtherError\<close>.\<close>

datatype api_error = VendorError int | OtherError

datatype scan_error = ScanFailure string | ScanCancelled

record conjur_config =
  cc_ApplianceURL :: string
  cc_Account :: string
  cc_HTTPTimeout :: int

record audit_world =
  aw_config :: "nat \<Rightarrow> conjur_config option"
  aw_client :: "nat \<Rightarrow> conjur_config \<Rightarrow> bool"
  aw_cancelled :: "nat \<Rightarrow> bool"
  aw_now :: "nat \<Rightarrow> string"
  aw_count :: "nat \<Rightarrow> api_error + int option"
  aw_page :: "nat \<Rightarrow> nat \<Rightarrow> nat \<Rightarrow> api_error + string option list"
  aw_batch :: "nat \<Rightarrow> string list \<Rightarrow> api_error + string dict"
  aw_secret :: "nat \<Rightarrow> string \<Rightarrow> api_error + string"

record secret_request =
  sq_PackID :: string
  sq_ToolID :: string
  sq_MinimumConfidence :: string
  sq_ApplianceURL :: string
  sq_ScanType :: string
  sq_Pattern :: string

record secret_finding =
  fd_VariableID :: string
  fd_Confidence :: string
  fd_Reason :: string

record secret_failure =
  fl_VariableID :: string
  fl_Code :: string

type_synonym secret_target = "string \<times> string"

record secret_snapshot =
  ss_Available :: bool
  ss_PackID :: string
  ss_ToolID :: string
  ss_Target :: "secret_target option"
  ss_State :: string
  ss_Phase :: string
  ss_MinimumConfidence :: string
  ss_ScanType :: string
  ss_StartedAt :: string
  ss_FinishedAt :: string
  ss_Total :: nat
  ss_Processed :: nat
  ss_Inspected :: nat
  ss_FailureCode :: string
  ss_Findings :: "secret_finding list"
  ss_Failures :: "secret_failure list"

definition blank_snapshot :: secret_snapshot where
  "blank_snapshot = \<lparr>ss_Available = False, ss_PackID = [], ss_ToolID = [], ss_Target = None, ss_State = ''idle'',
     ss_Phase = [], ss_MinimumConfidence = [], ss_ScanType = [], ss_StartedAt = [], ss_FinishedAt = [], ss_Total = 0,
     ss_Processed = 0, ss_Inspected = 0, ss_FailureCode = [], ss_Findings = [], ss_Failures = []\<rparr>"

record audit_state =
  as_calls :: nat
  as_shown :: "secret_snapshot list"

type_synonym 'a audit = "audit_state \<Rightarrow> (scan_error + 'a) \<times> audit_state"

definition give :: "'a \<Rightarrow> 'a audit" where "give a = (\<lambda>st. (Inr a, st))"
definition fail :: "scan_error \<Rightarrow> 'a audit" where "fail e = (\<lambda>st. (Inl e, st))"

definition andThen :: "'a audit \<Rightarrow> ('a \<Rightarrow> 'b audit) \<Rightarrow> 'b audit" where
  "andThen m f = (\<lambda>st. case m st of (Inl e, st') \<Rightarrow> (Inl e, st') | (Inr a, st') \<Rightarrow> f a st')"

definition ask :: "(nat \<Rightarrow> 'a) \<Rightarrow> 'a audit" where
  "ask f = (\<lambda>st. (Inr (f (as_calls st)), st\<lparr>as_calls := Suc (as_calls st)\<rparr>))"

text \<open>\<open>update\<close>: the snapshot changes under the service's lock, and readers may see each.\<close>

definition update_snapshot :: "(secret_snapshot \<Rightarrow> secret_snapshot) \<Rightarrow> unit audit" where
  "update_snapshot f = (\<lambda>st. (Inr (), st\<lparr>as_shown := f (hd (as_shown st)) # as_shown st\<rparr>))"

definition check_context :: "audit_world \<Rightarrow> unit audit" where
  "check_context w = andThen (ask (aw_cancelled w)) (\<lambda>c. if c then fail ScanCancelled else give ())"

definition secretAuditMaxVariables :: int where "secretAuditMaxVariables = 50000"
definition secretAuditListPageSize :: nat where "secretAuditListPageSize = 500"
definition secretAuditBatchSize :: nat where "secretAuditBatchSize = 50"
definition secretAuditMaxBatchQuery :: nat where "secretAuditMaxBatchQuery = 6000"
definition secretAuditMaxValueBytes :: nat where "secretAuditMaxValueBytes = 1048576"
definition secretAuditHTTPTimeoutLimit :: int where "secretAuditHTTPTimeoutLimit = 30"

definition classifySecretAuditAPIError :: "api_error option \<Rightarrow> scan_error" where
  "classifySecretAuditAPIError e = ScanFailure (if e = Some (VendorError 401) then ''session_required'' else ''unavailable'')"

definition secretAuditRetrievalCode :: "api_error \<Rightarrow> string" where
  "secretAuditRetrievalCode e =
     (if e = VendorError 404 then ''no_value'' else if e = VendorError 403 then ''forbidden'' else ''retrieval_failed'')"

subsection \<open>Listing\<close>

fun add_page :: "string option list \<Rightarrow> string list \<Rightarrow> string list audit" where
  "add_page [] ids = give ids"
| "add_page (resource # page) ids =
     (case resource of
        None \<Rightarrow> fail (ScanFailure ''invalid_inventory'')
      | Some v \<Rightarrow>
          if \<not> validSecretAuditResourceID v then fail (ScanFailure ''invalid_inventory'')
          else if v \<in> set ids then fail (ScanFailure ''inventory_changed'')
          else add_page page (ids @ [v]))"

function list_pages :: "audit_world \<Rightarrow> nat \<Rightarrow> nat \<Rightarrow> string list \<Rightarrow> string list audit" where
  "list_pages w amount offset ids =
     (if offset < amount then
        andThen (check_context w) (\<lambda>_.
          let limit = min secretAuditListPageSize (amount - offset) in
          andThen (ask (\<lambda>n. aw_page w n limit offset)) (\<lambda>answer.
            case answer of
              Inl e \<Rightarrow> fail (classifySecretAuditAPIError (Some e))
            | Inr page \<Rightarrow>
                if page = [] \<or> limit < length page then fail (ScanFailure ''inventory_changed'')
                else andThen (add_page page ids) (\<lambda>ids'. list_pages w amount (offset + length page) ids')))
      else give ids)"
  by pat_completeness auto
termination
  by (relation "measure (\<lambda>(w, amount, offset, ids). amount - offset)") (auto simp: neq_Nil_conv)

declare list_pages.simps [simp del]

definition listSecretAuditVariables :: "audit_world \<Rightarrow> string list audit" where
  "listSecretAuditVariables w =
     andThen (ask (aw_count w)) (\<lambda>answer.
       case answer of
         Inl e \<Rightarrow> fail (classifySecretAuditAPIError (Some e))
       | Inr None \<Rightarrow> fail (classifySecretAuditAPIError None)
       | Inr (Some amount) \<Rightarrow>
           if amount < 0 then fail (classifySecretAuditAPIError None)
           else if secretAuditMaxVariables < amount then fail (ScanFailure ''too_many_variables'')
           else list_pages w (nat amount) 0 [])"

definition verifyInventory :: "audit_world \<Rightarrow> string list \<Rightarrow> unit audit" where
  "verifyInventory w ids =
     andThen (update_snapshot (ss_Phase_update (\<lambda>_. ''verifying''))) (\<lambda>_.
     andThen (listSecretAuditVariables w) (\<lambda>ending.
       if length ending \<noteq> length ids \<or> \<not> set ending \<subseteq> set ids then fail (ScanFailure ''inventory_changed'')
       else give ()))"

subsection \<open>Reading\<close>

definition has_comma :: "string \<Rightarrow> bool" where "has_comma s \<longleftrightarrow> CHR '','' \<in> set s"

definition query_cost :: "string \<Rightarrow> nat" where "query_cost v = length (query_escape v) + 3"

function batch_end :: "string list \<Rightarrow> nat \<Rightarrow> nat \<Rightarrow> nat \<Rightarrow> nat" where
  "batch_end ids start stop cost =
     (if stop < length ids \<and> stop - start < secretAuditBatchSize \<and> \<not> has_comma (ids ! stop) then
        let cost' = cost + query_cost (ids ! stop) in
        if start < stop \<and> secretAuditMaxBatchQuery < cost' then stop else batch_end ids start (Suc stop) cost'
      else stop)"
  by pat_completeness auto
termination
  by (relation "measure (\<lambda>(ids, start, stop, cost). length ids - stop)") auto

declare batch_end.simps [simp del]

definition nextSecretAuditBatch :: "string list \<Rightarrow> nat \<Rightarrow> nat" where
  "nextSecretAuditBatch ids start = (if has_comma (ids ! start) then start + 1 else batch_end ids start start 0)"

lemma batch_end_ge: "stop \<le> batch_end ids start stop cost"
proof (induction ids start stop cost rule: batch_end.induct)
  case (1 ids start stop cost)
  then show ?case
    by (subst batch_end.simps) (auto simp: Let_def intro: Suc_leD)
qed

lemma nextSecretAuditBatch_advances: "start < length ids \<Longrightarrow> start < nextSecretAuditBatch ids start"
  using batch_end_ge [of "Suc start"]
  by (auto simp: nextSecretAuditBatch_def batch_end.simps [of ids start start] secretAuditBatchSize_def Let_def
      Suc_le_eq)

definition hasEveryID :: "string dict \<Rightarrow> string list \<Rightarrow> bool" where
  "hasEveryID values ids \<longleftrightarrow> (\<forall>v \<in> set ids. get values v \<noteq> None)"

text \<open>The values read and the codes of those that could not be.\<close>

type_synonym readings = "string dict \<times> string dict"

fun drop_large :: "string list \<Rightarrow> readings \<Rightarrow> readings" where
  "drop_large [] r = r"
| "drop_large (v # ids) (values, failures) =
     (case get values v of
        None \<Rightarrow> drop_large ids (values, failures)
      | Some value \<Rightarrow>
          if secretAuditMaxValueBytes < length value
          then drop_large ids (AList.delete v values, AList.update v ''output_limit_exceeded'' failures)
          else drop_large ids (values, failures))"

fun read_each :: "audit_world \<Rightarrow> string list \<Rightarrow> string dict \<Rightarrow> string dict \<Rightarrow> readings audit" where
  "read_each w [] values failures = give (values, failures)"
| "read_each w (v # ids) values failures =
     andThen (check_context w) (\<lambda>_.
     andThen (ask (\<lambda>n. aw_secret w n v)) (\<lambda>answer.
       case answer of
         Inl e \<Rightarrow>
           if e = OtherError \<or> e = VendorError 401 then fail (classifySecretAuditAPIError (Some e))
           else read_each w ids values (AList.update v (secretAuditRetrievalCode e) failures)
       | Inr value \<Rightarrow>
           if secretAuditMaxValueBytes < length value
           then read_each w ids values (AList.update v ''output_limit_exceeded'' failures)
           else read_each w ids (AList.update v value values) failures))"

definition retrieveSecretAuditBatch :: "audit_world \<Rightarrow> string list \<Rightarrow> readings audit" where
  "retrieveSecretAuditBatch w ids =
     (if 1 < length ids then
        andThen (ask (\<lambda>n. aw_batch w n ids)) (\<lambda>answer.
          case answer of
            Inl e \<Rightarrow> read_each w ids [] []
          | Inr values \<Rightarrow>
              if length values = length ids \<and> hasEveryID values ids then give (drop_large ids (values, []))
              else read_each w ids [] [])
      else read_each w ids [] [])"

subsection \<open>Classifying what was read\<close>

definition scan_value :: "ext_lib \<Rightarrow> secret_request \<Rightarrow> string list \<Rightarrow> string list \<Rightarrow> string \<Rightarrow> string \<times> string" where
  "scan_value lib req known knownNormalized value =
     (let kind = sq_ScanType req; pattern = sq_Pattern req in
      if kind = ''references'' then classifySecretValue value known knownNormalized
      else if kind = ''contains'' then
        (if contains_sub pattern value then (''high'', ''contains_text_match'') else ([], []))
      else if kind = ''exact'' then (if value = pattern then (''high'', ''exact_text_match'') else ([], []))
      else if kind = ''regex'' then (if re_matches lib pattern value then (''high'', ''regex_match'') else ([], []))
      else ([], []))"

text \<open>Findings, failures and the number of values inspected, so far.\<close>

type_synonym tally = "secret_finding list \<times> secret_failure list \<times> nat"

definition reported :: "secret_request \<Rightarrow> string \<times> string \<Rightarrow> bool" where
  "reported req cr \<longleftrightarrow> snd cr \<noteq> [] \<and> (sq_MinimumConfidence req = ''medium'' \<or> fst cr = ''high'')"

definition tally_value :: "secret_request \<Rightarrow> (string \<Rightarrow> string \<times> string) \<Rightarrow> readings \<Rightarrow> string \<Rightarrow> tally \<Rightarrow> tally" where
  "tally_value req scan r v t =
     (let (values, codes) = r; (findings, failures, inspected) = t; name = secretAuditVariableID v;
          failed = (\<lambda>code. (findings, failures @ [\<lparr>fl_VariableID = name, fl_Code = code\<rparr>], inspected)) in
      case get codes v of
        Some code \<Rightarrow> failed code
      | None \<Rightarrow>
          let value = (case get values v of None \<Rightarrow> [] | Some x \<Rightarrow> x) in
          if \<not> valid_utf8 value then failed ''unsupported_encoding''
          else let (confidence, reason) = scan value in
            (if reported req (confidence, reason)
             then findings @ [\<lparr>fd_VariableID = name, fd_Confidence = confidence, fd_Reason = reason\<rparr>] else findings,
             failures, Suc inspected))"

function read_batches ::
    "audit_world \<Rightarrow> secret_request \<Rightarrow> (string \<Rightarrow> string \<times> string) \<Rightarrow> string list \<Rightarrow> nat \<Rightarrow> tally \<Rightarrow> tally audit" where
  "read_batches w req scan ids start t =
     (if start < length ids then
        andThen (check_context w) (\<lambda>_.
          let stop = nextSecretAuditBatch ids start;
              batch = take (stop - start) (drop start ids) in
          andThen (retrieveSecretAuditBatch w batch) (\<lambda>r.
            let t' = fold (tally_value req scan r) batch t in
            andThen (update_snapshot (\<lambda>s. s\<lparr>ss_Processed := stop, ss_Inspected := snd (snd t')\<rparr>)) (\<lambda>_.
              read_batches w req scan ids stop t')))
      else give t)"
  by pat_completeness auto
termination
  by (relation "measure (\<lambda>(w, req, scan, ids, start, t). length ids - start)")
    (auto simp: diff_less_mono2 nextSecretAuditBatch_advances)

declare read_batches.simps [simp del]

subsection \<open>The scan\<close>

definition finding_rank :: "secret_finding \<Rightarrow> nat" where
  "finding_rank f = (if fd_Confidence f = ''high'' then 0 else 1)"

definition sort_ids :: "string list \<Rightarrow> string list" where
  "sort_ids = sort_key secretAuditVariableID"

text \<open>The names a value may refer to: every id and every variable id.\<close>

definition known_references :: "secret_request \<Rightarrow> string list \<Rightarrow> string list" where
  "known_references req ids =
     (if sq_ScanType req = ''references'' then concat (map (\<lambda>v. [v, secretAuditVariableID v]) ids) else [])"

definition scanner :: "ext_lib \<Rightarrow> secret_request \<Rightarrow> string list \<Rightarrow> string \<Rightarrow> string \<times> string" where
  "scanner lib req ids =
     (let known = known_references req ids in scan_value lib req known (map normalizeReferenceShape known))"

fun id_matches :: "audit_world \<Rightarrow> ext_lib \<Rightarrow> secret_request \<Rightarrow> nat \<Rightarrow> string list \<Rightarrow> secret_finding list
    \<Rightarrow> secret_finding list audit" where
  "id_matches w lib req i [] findings = give findings"
| "id_matches w lib req i (v # ids) findings =
     andThen (check_context w) (\<lambda>_.
       let name = secretAuditVariableID v;
           findings' = (if re_matches lib (sq_Pattern req) name
             then findings @ [\<lparr>fd_VariableID = name, fd_Confidence = ''high'', fd_Reason = ''regex_variable_id_match''\<rparr>]
             else findings) in
       andThen (update_snapshot (\<lambda>s. s\<lparr>ss_Processed := Suc i, ss_Inspected := Suc i\<rparr>)) (\<lambda>_.
         id_matches w lib req (Suc i) ids findings'))"

definition scan_ids :: "audit_world \<Rightarrow> ext_lib \<Rightarrow> secret_request \<Rightarrow> string list \<Rightarrow> unit audit" where
  "scan_ids w lib req ids =
     andThen (id_matches w lib req 0 (sort_ids ids) []) (\<lambda>findings.
     andThen (verifyInventory w (sort_ids ids)) (\<lambda>_.
       update_snapshot (\<lambda>s. s\<lparr>ss_Findings := findings\<rparr>)))"

definition scan_values :: "audit_world \<Rightarrow> ext_lib \<Rightarrow> secret_request \<Rightarrow> string list \<Rightarrow> unit audit" where
  "scan_values w lib req ids =
     andThen (update_snapshot (ss_Phase_update (\<lambda>_. ''reading''))) (\<lambda>_.
     andThen (read_batches w req (scanner lib req ids) (sort_ids ids) 0 ([], [], 0)) (\<lambda>(findings, failures, inspected).
     andThen (verifyInventory w (sort_ids ids)) (\<lambda>_.
       update_snapshot (\<lambda>s. s\<lparr>ss_Findings := sort_key finding_rank findings, ss_Failures := failures,
         ss_Inspected := inspected\<rparr>))))"

definition trim_right_slashes :: "string \<Rightarrow> string" where
  "trim_right_slashes s = rev (dropWhile (\<lambda>c. c = slash) (rev s))"

text \<open>From the listing on; the context and the client stand for the session.\<close>

definition audit_inventory :: "audit_world \<Rightarrow> ext_lib \<Rightarrow> secret_request \<Rightarrow> unit audit" where
  "audit_inventory w lib req =
     andThen (update_snapshot (ss_Phase_update (\<lambda>_. ''listing''))) (\<lambda>_.
     andThen (listSecretAuditVariables w) (\<lambda>ids.
     andThen (update_snapshot (\<lambda>s. s\<lparr>ss_Total := length ids, ss_Phase := ''matching''\<rparr>)) (\<lambda>_.
       if sq_ScanType req = ''id-regex'' then scan_ids w lib req ids else scan_values w lib req ids)))"

definition audit :: "audit_world \<Rightarrow> ext_lib \<Rightarrow> secret_request \<Rightarrow> unit audit" where
  "audit w lib req =
     andThen (ask (aw_config w)) (\<lambda>loaded.
       case loaded of
         None \<Rightarrow> fail (ScanFailure ''not_configured'')
       | Some config \<Rightarrow>
       if cc_ApplianceURL config = [] then fail (ScanFailure ''not_configured'')
       else if sq_ApplianceURL req \<noteq> [] \<and> trim_right_slashes (sq_ApplianceURL req) \<noteq> trim_right_slashes (cc_ApplianceURL config)
       then fail (ScanFailure ''backend_mismatch'')
       else if (sq_ScanType req = ''regex'' \<or> sq_ScanType req = ''id-regex'') \<and> \<not> re_compiles lib (sq_Pattern req)
       then fail (ScanFailure ''invalid_scan'')
       else let timeout = cc_HTTPTimeout config;
                config1 = (if timeout \<le> 0 \<or> secretAuditHTTPTimeoutLimit < timeout
                  then config\<lparr>cc_HTTPTimeout := secretAuditHTTPTimeoutLimit\<rparr> else config) in
       andThen (update_snapshot (ss_Target_update (\<lambda>_. Some (cc_ApplianceURL config1, cc_Account config1)))) (\<lambda>_.
       andThen (ask (\<lambda>n. aw_client w n config1)) (\<lambda>client.
         if \<not> client then fail (ScanFailure ''session_required'') else audit_inventory w lib req)))"

subsection \<open>The service\<close>

text \<open>\<open>run\<close>: the outcome; only a completed audit keeps what it found.\<close>

definition run_audit :: "audit_world \<Rightarrow> ext_lib \<Rightarrow> secret_request \<Rightarrow> audit_state \<Rightarrow> audit_state" where
  "run_audit w lib req st =
     (let (answer, st1) = audit w lib req st;
          cancelled = aw_cancelled w (as_calls st1);
          close_snapshot = (\<lambda>s. s\<lparr>ss_FinishedAt := aw_now w (as_calls st1), ss_Phase := []\<rparr>);
          discard = (\<lambda>s. s\<lparr>ss_Findings := [], ss_Failures := []\<rparr>);
          outcome = (\<lambda>s. case answer of
            Inr _ \<Rightarrow> s\<lparr>ss_State := ''completed''\<rparr>
          | Inl e \<Rightarrow>
              discard (if cancelled then s\<lparr>ss_State := ''cancelled''\<rparr>
                else s\<lparr>ss_State := ''failed'',
                  ss_FailureCode := (case e of ScanFailure code \<Rightarrow> code | ScanCancelled \<Rightarrow> ''unavailable'')\<rparr>))
      in snd (update_snapshot (outcome \<circ> close_snapshot) st1))"

record secret_service =
  sv_enabled :: bool
  sv_snap :: secret_snapshot

definition conjur_PackID :: string where "conjur_PackID = ''cyberark-conjur-v9''"
definition conjur_ToolID :: string where "conjur_ToolID = ''conjur''"

definition NewSecretAuditService :: "snapshot \<Rightarrow> secret_service" where
  "NewSecretAuditService sn =
     \<lparr>sv_enabled = (case Find sn (ToolRef conjur_PackID conjur_ToolID) of
        Some st \<Rightarrow> Healthy st | None \<Rightarrow> False), sv_snap = blank_snapshot\<rparr>"

definition snapshotLocked :: "secret_service \<Rightarrow> secret_snapshot" where
  "snapshotLocked sv =
     (let out = (sv_snap sv)\<lparr>ss_Available := sv_enabled sv\<rparr>
      in if sv_enabled sv then out\<lparr>ss_PackID := conjur_PackID, ss_ToolID := conjur_ToolID\<rparr> else out)"

text \<open>What a reader is shown, with the endpoint that is configured when it asks.\<close>

definition withCurrentTarget :: "conjur_config option \<Rightarrow> secret_snapshot \<Rightarrow> secret_snapshot" where
  "withCurrentTarget loaded out =
     (if \<not> ss_Available out \<or> (ss_State out = ''running'' \<and> ss_Target out \<noteq> None) then out
      else let current = (case loaded of
             None \<Rightarrow> None
           | Some c \<Rightarrow> if cc_ApplianceURL c = [] then None else Some (cc_ApplianceURL c, cc_Account c)) in
      if ss_State out \<noteq> ''running'' \<and> ss_Target out \<noteq> None \<and> current \<noteq> ss_Target out
      then blank_snapshot\<lparr>ss_Available := True, ss_PackID := conjur_PackID, ss_ToolID := conjur_ToolID, ss_Target := current\<rparr>
      else out\<lparr>ss_Target := current\<rparr>)"

definition service_Snapshot :: "conjur_config option \<Rightarrow> secret_service \<Rightarrow> secret_snapshot" where
  "service_Snapshot loaded sv = withCurrentTarget loaded (snapshotLocked sv)"

datatype start_error = ErrSecretAuditUnavailable | ErrSecretAuditInvalidRequest

definition activate :: "secret_service \<Rightarrow> secret_service" where
  "activate sv = sv\<lparr>sv_enabled := True\<rparr>"

subsection \<open>Requests (internal/server/secret\_audit\_api.go)\<close>

definition validCredentialTargetID :: "string \<Rightarrow> bool" where
  "validCredentialTargetID v \<longleftrightarrow> v \<noteq> [] \<and> length v \<le> 63 \<and> 97 \<le> byte (hd v) \<and> byte (hd v) \<le> 122
     \<and> (\<forall>r \<in> set (runes (tl v)). (97 \<le> r \<and> r \<le> 122) \<or> (48 \<le> r \<and> r \<le> 57) \<or> r = 45)"

definition containsControlCharacter :: "string \<Rightarrow> bool" where
  "containsControlCharacter v \<longleftrightarrow> (\<exists>r \<in> set (runes v). r \<le> 0x1F \<or> r = 0x7F)"

text \<open>\<open>parse\<close> is \<open>url.Parse\<close>.\<close>

definition validateCredentialConfigurationURL :: "(string \<Rightarrow> parsed_url option) \<Rightarrow> string \<Rightarrow> bool" where
  "validateCredentialConfigurationURL parse v \<longleftrightarrow> v \<noteq> [] \<and> length v \<le> 2048 \<and> \<not> containsControlCharacter v
     \<and> (case parse v of
          None \<Rightarrow> False
        | Some u \<Rightarrow> equal_fold (pu_Scheme u) ''https'' \<and> pu_Host u \<noteq> [] \<and> \<not> pu_HasUser u
            \<and> pu_RawQuery u = [] \<and> pu_Fragment u = [])"

definition ValidateSecretAuditRequest :: "ext_lib \<Rightarrow> (string \<Rightarrow> parsed_url option) \<Rightarrow> secret_request \<Rightarrow> bool" where
  "ValidateSecretAuditRequest lib parse req \<longleftrightarrow>
     validCredentialTargetID (sq_PackID req) \<and> validCredentialTargetID (sq_ToolID req)
     \<and> (sq_MinimumConfidence req = ''high'' \<or> sq_MinimumConfidence req = ''medium'')
     \<and> (sq_ApplianceURL req \<noteq> [] \<longrightarrow> trim_space (sq_ApplianceURL req) = sq_ApplianceURL req
          \<and> validateCredentialConfigurationURL parse (sq_ApplianceURL req))
     \<and> valid_utf8 (sq_Pattern req) \<and> length (sq_Pattern req) \<le> 1024
     \<and> (\<forall>r \<in> set (runes (sq_Pattern req)). \<not> (is_control r \<or> is_format r \<or> r = 0x2028 \<or> r = 0x2029))
     \<and> (if sq_ScanType req = [] \<or> sq_ScanType req = ''references'' then sq_Pattern req = []
        else if sq_ScanType req \<in> set [''contains'', ''exact'', ''regex'', ''id-regex''] then
          sq_Pattern req \<noteq> []
          \<and> (sq_ScanType req = ''regex'' \<or> sq_ScanType req = ''id-regex'' \<longrightarrow> re_compiles lib (sq_Pattern req))
        else False)"

text \<open>
  \<open>start\<close>: the answer's snapshot and error, the service, and the request of the scan that was
  started, if one was.
\<close>

definition start_audit ::
    "ext_lib \<Rightarrow> (string \<Rightarrow> parsed_url option) \<Rightarrow> string \<Rightarrow> secret_request \<Rightarrow> secret_service
      \<Rightarrow> (start_error option \<times> secret_snapshot) \<times> secret_service \<times> secret_request option" where
  "start_audit lib parse now req0 sv =
     (if \<not> ValidateSecretAuditRequest lib parse req0 then ((Some ErrSecretAuditInvalidRequest, snapshotLocked sv), sv, None)
      else let req = (if sq_ScanType req0 = [] then req0\<lparr>sq_ScanType := ''references''\<rparr> else req0) in
      if \<not> sv_enabled sv \<or> sq_PackID req \<noteq> conjur_PackID \<or> sq_ToolID req \<noteq> conjur_ToolID
      then ((Some ErrSecretAuditUnavailable, snapshotLocked sv), sv, None)
      else if ss_State (sv_snap sv) = ''running'' then ((None, snapshotLocked sv), sv, None)
      else let sv' = sv\<lparr>sv_snap := blank_snapshot\<lparr>ss_State := ''running'', ss_Phase := ''connecting'',
             ss_MinimumConfidence := sq_MinimumConfidence req, ss_ScanType := sq_ScanType req, ss_StartedAt := now\<rparr>\<rparr>
        in ((None, snapshotLocked sv'), sv', Some req))"

definition service_Start ::
    "ext_lib \<Rightarrow> (string \<Rightarrow> parsed_url option) \<Rightarrow> conjur_config option \<Rightarrow> string \<Rightarrow> secret_request \<Rightarrow> secret_service
      \<Rightarrow> (start_error option \<times> secret_snapshot) \<times> secret_service \<times> secret_request option" where
  "service_Start lib parse loaded now req sv =
     (let ((err, out), rest) = start_audit lib parse now req sv in ((err, withCurrentTarget loaded out), rest))"

end
