(* ===== verification/SecretSafety.thy ===== *)
theory SecretSafety
  imports SecretAudit
begin

section \<open>What the secret audit guarantees\<close>

subsection \<open>Reference shapes\<close>

text \<open>The non-empty parts between separators.\<close>

definition segments :: "string \<Rightarrow> string list" where
  "segments s = filter (\<lambda>p. p \<noteq> []) (split_at slash s)"

lemma split_at_slash: "split_at slash (slash # cs) = [] # split_at slash cs"
  by simp

lemma split_at_other: "c \<noteq> slash \<Longrightarrow> split_at slash (c # cs) = (c # hd (split_at slash cs)) # tl (split_at slash cs)"
  by (cases "split_at slash cs") simp_all

lemma split_at_hd_tl: "split_at slash s = hd (split_at slash s) # tl (split_at slash s)"
  by (cases "split_at slash s") simp_all

lemma merge_slashes_split:
  "hd (split_at slash (merge_slashes s)) = hd (split_at slash s)
   \<and> filter (\<lambda>p. p \<noteq> []) (tl (split_at slash (merge_slashes s))) = filter (\<lambda>p. p \<noteq> []) (tl (split_at slash s))"
proof (induction s rule: merge_slashes.induct)
  case (1 c d cs)
  show ?case
  proof (cases "c = slash \<and> d = slash")
    case True
    then have "filter (\<lambda>p. p \<noteq> []) (split_at slash (merge_slashes cs)) = filter (\<lambda>p. p \<noteq> []) (split_at slash cs)"
      using 1(1) split_at_hd_tl [of "merge_slashes cs"] split_at_hd_tl [of cs] by (metis filter.simps(2))
    with True show ?thesis by (simp del: split_at.simps add: split_at_slash)
  next
    case False
    then have IH: "hd (split_at slash (merge_slashes (d # cs))) = hd (split_at slash (d # cs))"
      "filter (\<lambda>p. p \<noteq> []) (tl (split_at slash (merge_slashes (d # cs)))) = filter (\<lambda>p. p \<noteq> []) (tl (split_at slash (d # cs)))"
      using 1(2) by blast+
    then have "filter (\<lambda>p. p \<noteq> []) (split_at slash (merge_slashes (d # cs))) = filter (\<lambda>p. p \<noteq> []) (split_at slash (d # cs))"
      using split_at_hd_tl [of "merge_slashes (d # cs)"] split_at_hd_tl [of "d # cs"] by (metis filter.simps(2))
    moreover have "merge_slashes (c # d # cs) = c # merge_slashes (d # cs)" using False by auto
    ultimately show ?thesis
      using IH by (cases "c = slash") (simp_all del: split_at.simps merge_slashes.simps add: split_at_slash split_at_other)
  qed
qed simp_all

lemma segments_merge: "segments (merge_slashes s) = segments s"
  unfolding segments_def using merge_slashes_split [of s] split_at_hd_tl [of s] split_at_hd_tl [of "merge_slashes s"]
  by (metis filter.simps(2))

lemma segments_squeeze: "segments (squeeze_slashes s) = segments s"
  by (induction s rule: squeeze_slashes.induct) (subst squeeze_slashes.simps, simp add: segments_merge)

lemma segments_left: "segments (dropWhile (\<lambda>c. c = slash) s) = segments s"
  by (induction s) (simp_all add: segments_def)

lemma split_at_append: "split_at slash (s @ [slash]) = split_at slash s @ [[]]"
  by (induction s) (auto split: list.split)

lemma segments_right: "segments (rev (dropWhile (\<lambda>c. c = slash) (rev s))) = segments s"
  by (induction s rule: rev_induct) (auto simp: segments_def split_at_append)

lemma segments_trim: "segments (trim_slashes s) = segments s"
  by (simp add: trim_slashes_def segments_left segments_right)

lemma join_split: "join_slash (split_at slash s) = s"
proof (induction s)
  case (Cons c s)
  show ?case
  proof (cases "split_at slash s")
    case (Cons p ps)
    with Cons.IH show ?thesis by (cases ps) auto
  qed simp
qed simp

lemma contains_sub_iff: "contains_sub p s \<longleftrightarrow> (\<exists>a b. s = a @ p @ b)"
proof (induction s)
  case (Cons c s)
  have "(\<exists>a b. c # s = a @ p @ b) \<longleftrightarrow> has_prefix p (c # s) \<or> (\<exists>a b. s = a @ p @ b)"
    unfolding has_prefix_iff by (metis append_Cons append_Nil list.inject list.exhaust)
  with Cons show ?case by simp
qed simp

lemma split_at_parts:
  assumes "\<not> contains_sub [slash, slash] s" and "s \<noteq> [] \<Longrightarrow> last s \<noteq> slash"
  shows "(\<forall>p \<in> set (tl (split_at slash s)). p \<noteq> []) \<and> (s \<noteq> [] \<longrightarrow> hd s \<noteq> slash \<longrightarrow> hd (split_at slash s) \<noteq> [])"
  using assms
proof (induction s)
  case (Cons c s)
  have sub: "\<not> contains_sub [slash, slash] s" using Cons.prems(1) by simp
  have end_ok: "s \<noteq> [] \<Longrightarrow> last s \<noteq> slash" using Cons.prems(2) by simp
  note IH = Cons.IH [OF sub end_ok]
  show ?case
  proof (cases "c = slash")
    case True
    have "s \<noteq> []" using Cons.prems(2) True by auto
    moreover from this have "hd s \<noteq> slash" using Cons.prems(1) True by (cases s) (auto simp: has_prefix_def)
    ultimately have "hd (split_at slash s) \<noteq> []" using IH by blast
    with IH have "\<forall>p \<in> set (split_at slash s). p \<noteq> []"
      using split_at_hd_tl [of s] by (metis set_ConsD)
    with True show ?thesis by simp
  next
    case False
    with IH show ?thesis by (simp del: split_at.simps add: split_at_other)
  qed
qed simp

lemma squeeze_slashes_single: "\<not> contains_sub [slash, slash] (squeeze_slashes s)"
  by (induction s rule: squeeze_slashes.induct) (subst squeeze_slashes.simps, simp)

lemma trim_slashes_parts:
  obtains a b where "s = a @ trim_slashes s @ b"
proof -
  let ?t = "dropWhile (\<lambda>c. c = slash) s"
  have "s = takeWhile (\<lambda>c. c = slash) s @ ?t" by simp
  moreover have "?t = rev (dropWhile (\<lambda>c. c = slash) (rev ?t)) @ rev (takeWhile (\<lambda>c. c = slash) (rev ?t))"
    by (metis rev_append rev_rev_ident takeWhile_dropWhile_id)
  ultimately show thesis using that unfolding trim_slashes_def by metis
qed

lemma trim_slashes_ends:
  assumes "trim_slashes s \<noteq> []"
  shows "hd (trim_slashes s) \<noteq> slash" and "last (trim_slashes s) \<noteq> slash"
proof -
  define t where "t = dropWhile (\<lambda>c. c = slash) s"
  define u where "u = dropWhile (\<lambda>c. c = slash) (rev t)"
  have tr: "trim_slashes s = rev u" by (simp add: trim_slashes_def t_def u_def)
  with assms have u: "u \<noteq> []" by simp
  then have "hd u \<noteq> slash" unfolding u_def using hd_dropWhile [of "\<lambda>c. c = slash" "rev t"] by blast
  with u tr show "last (trim_slashes s) \<noteq> slash" by (simp add: last_rev)
  obtain a where "rev t = a @ u" unfolding u_def by (metis takeWhile_dropWhile_id)
  then have "t = rev u @ rev a" by (metis rev_append rev_rev_ident)
  with u have "hd t = hd (rev u)" "t \<noteq> []" by simp_all
  moreover from this have "hd t \<noteq> slash" unfolding t_def using hd_dropWhile [of "\<lambda>c. c = slash" s] by blast
  ultimately show "hd (trim_slashes s) \<noteq> slash" by (simp add: tr)
qed

text \<open>
  The shape under which a reference is compared is its path. The passes that rewrite dots
  and backslashes, merge slashes until none are doubled and trim the ends give exactly the
  non-empty parts between separators, joined by single slashes.
\<close>
theorem reference_shape_is_path:
  "normalizeReferenceShape v = join_slash (filter (\<lambda>p. p \<noteq> []) (split_at slash (map dotted (trim_space v))))"
proof -
  define t where "t = squeeze_slashes (map dotted (trim_space v))"
  define u where "u = trim_slashes t"
  obtain a b where "t = a @ u @ b" unfolding u_def by (rule trim_slashes_parts)
  then have single: "\<not> contains_sub [slash, slash] u"
    using squeeze_slashes_single [of "map dotted (trim_space v)", folded t_def]
    unfolding contains_sub_iff by (metis append.assoc)
  have "segments u = split_at slash u" if "u \<noteq> []"
  proof -
    have "\<forall>p \<in> set (split_at slash u). p \<noteq> []"
      using split_at_parts [OF single] trim_slashes_ends [of t, folded u_def] that split_at_hd_tl [of u]
      by (metis set_ConsD)
    then show ?thesis by (simp add: segments_def)
  qed
  then have "join_slash (segments u) = u"
    using join_split [of u] by (cases "u = []") (simp_all add: segments_def)
  then show ?thesis
    by (simp add: normalizeReferenceShape_def u_def t_def segments_trim segments_squeeze segments_def [symmetric])
qed

subsection \<open>Batches\<close>

definition batch_cost :: "string list \<Rightarrow> nat \<Rightarrow> nat \<Rightarrow> nat" where
  "batch_cost ids start stop = sum_list (map query_cost (take (stop - start) (drop start ids)))"

lemma batch_cost_Suc:
  assumes "start \<le> stop" and "stop < length ids"
  shows "batch_cost ids start (Suc stop) = batch_cost ids start stop + query_cost (ids ! stop)"
proof -
  have "take (Suc stop - start) (drop start ids) = take (stop - start) (drop start ids) @ [ids ! stop]"
    using assms by (simp add: Suc_diff_le take_Suc_conv_app_nth)
  then show ?thesis by (simp add: batch_cost_def)
qed

lemma batch_end_bounds:
  assumes "start \<le> stop" and "stop \<le> length ids" and "stop - start \<le> 50" and "cost = batch_cost ids start stop"
    and "Suc start < stop \<longrightarrow> cost \<le> 6000" and "\<forall>j. start \<le> j \<longrightarrow> j < stop \<longrightarrow> \<not> has_comma (ids ! j)"
  defines "e \<equiv> batch_end ids start stop cost"
  shows "e \<le> length ids \<and> e - start \<le> 50 \<and> (Suc start < e \<longrightarrow> batch_cost ids start e \<le> 6000)
    \<and> (\<forall>j. start \<le> j \<longrightarrow> j < e \<longrightarrow> \<not> has_comma (ids ! j))"
  using assms unfolding e_def
proof (induction ids start stop cost rule: batch_end.induct)
  case (1 ids start stop cost)
  let ?go = "stop < length ids \<and> stop - start < secretAuditBatchSize \<and> \<not> has_comma (ids ! stop)"
  let ?c = "cost + query_cost (ids ! stop)"
  show ?case
  proof (cases "?go \<and> \<not> (start < stop \<and> secretAuditMaxBatchQuery < ?c)")
    case True
    have "batch_end ids start stop cost = batch_end ids start (Suc stop) ?c"
      using True by (subst batch_end.simps) (auto simp: Let_def)
    moreover have "?c = batch_cost ids start (Suc stop)" using 1(2,5) True batch_cost_Suc by simp
    ultimately show ?thesis
      using 1(1) [OF _ refl] 1(2-7) True
      by (auto simp: secretAuditBatchSize_def secretAuditMaxBatchQuery_def less_Suc_eq)
  next
    case False
    then have "batch_end ids start stop cost = stop" by (subst batch_end.simps) (auto simp: Let_def)
    with 1(2-7) show ?thesis by auto
  qed
qed

lemma secret_batch_bounds:
  assumes "start < length ids"
  defines "stop \<equiv> nextSecretAuditBatch ids start"
  shows "start < stop \<and> stop \<le> length ids \<and> stop - start \<le> 50
    \<and> (Suc start < stop \<longrightarrow> (\<forall>v \<in> set (take (stop - start) (drop start ids)). \<not> has_comma v)
         \<and> sum_list (map (\<lambda>v. length (query_escape v) + 3) (take (stop - start) (drop start ids))) \<le> 6000)"
proof (cases "has_comma (ids ! start)")
  case True
  with assms show ?thesis by (simp add: nextSecretAuditBatch_def)
next
  case False
  then have e: "stop = batch_end ids start start 0" by (simp add: stop_def nextSecretAuditBatch_def)
  have b: "stop \<le> length ids \<and> stop - start \<le> 50 \<and> (Suc start < stop \<longrightarrow> batch_cost ids start stop \<le> 6000)
    \<and> (\<forall>j. start \<le> j \<longrightarrow> j < stop \<longrightarrow> \<not> has_comma (ids ! j))"
    unfolding e by (rule batch_end_bounds) (use assms(1) in \<open>simp_all add: batch_cost_def\<close>)
  have "\<not> has_comma v" if "v \<in> set (take (stop - start) (drop start ids))" for v
    using that b by (auto simp: in_set_conv_nth)
  with b nextSecretAuditBatch_advances [OF assms(1), folded stop_def] show ?thesis
    by (simp add: batch_cost_def query_cost_def [abs_def])
qed

text \<open>
  C38: A request to the vendor's batch call is bounded. Every step of the reading loop takes at
  least one variable and at most fifty, none beyond the inventory; a batch of more than one has
  no id with a comma, which the vendor would split, and its query stays within 6000 bytes.
\<close>
theorem secret_batches_are_bounded:
  assumes "start < length ids"
  defines "stop \<equiv> nextSecretAuditBatch ids start"
  shows "start < stop \<and> stop \<le> length ids \<and> stop - start \<le> 50
    \<and> (Suc start < stop \<longrightarrow> (\<forall>v \<in> set (take (stop - start) (drop start ids)). \<not> has_comma v)
         \<and> sum_list (map (\<lambda>v. length (query_escape v) + 3) (take (stop - start) (drop start ids))) \<le> 6000)"
  unfolding stop_def by (rule secret_batch_bounds [OF assms(1)])

theorem secret_batches_are_bounded_witness:
  "nextSecretAuditBatch [''a'', ''b'', ''c,d''] 0 = 2
   \<and> list_all (\<lambda>v. \<not> has_comma v) (take 2 [''a'', ''b'', ''c,d''])"
proof -
  have "nextSecretAuditBatch [''a'', ''b'', ''c,d''] 0 = 2" by code_simp
  with secret_batches_are_bounded [of 0 "[''a'', ''b'', ''c,d'']"] show ?thesis by (simp add: list_all_iff)
qed

end
