(* ===== verification/SecretCoverage.thy ===== *)
theory SecretCoverage
  imports SecretSafety
begin

section \<open>What a finished audit shows, and what an unfinished one does not\<close>

subsection \<open>Computations\<close>

lemma andThen_Inr: "andThen m f st = (Inr b, st') \<longleftrightarrow> (\<exists>a st1. m st = (Inr a, st1) \<and> f a st1 = (Inr b, st'))"
  by (auto simp: andThen_def split: prod.splits sum.splits)

lemma andThen_E:
  assumes "andThen m f st = (Inr b, st')"
  obtains a st1 where "m st = (Inr a, st1)" "f a st1 = (Inr b, st')"
  using assms by (auto simp: andThen_Inr)

lemma give_iff [simp]: "give a st = (r, st') \<longleftrightarrow> r = Inr a \<and> st' = st"
  by (auto simp: give_def)

lemma fail_iff [simp]: "fail e st = (r, st') \<longleftrightarrow> r = Inl e \<and> st' = st"
  by (auto simp: fail_def)

lemma ask_iff [simp]:
  "ask f st = (r, st') \<longleftrightarrow> r = Inr (f (as_calls st)) \<and> st' = st\<lparr>as_calls := Suc (as_calls st)\<rparr>"
  by (auto simp: ask_def)

lemma update_iff [simp]:
  "update_snapshot f st = (r, st') \<longleftrightarrow> r = Inr () \<and> st' = st\<lparr>as_shown := f (hd (as_shown st)) # as_shown st\<rparr>"
  by (auto simp: update_snapshot_def)

lemma check_Inr: "check_context w st = (Inr u, st') \<Longrightarrow> as_shown st' = as_shown st"
  by (auto simp: check_context_def andThen_Inr split: if_splits)

subsection \<open>Listing\<close>

definition listed :: "audit_world \<Rightarrow> string \<Rightarrow> bool" where
  "listed w v \<longleftrightarrow> (\<exists>n limit offset page. aw_page w n limit offset = Inr page \<and> Some v \<in> set page)"

lemma add_page_ok:
  "add_page page ids st = (Inr out, st') \<Longrightarrow> distinct ids \<Longrightarrow> distinct out \<and> st' = st
     \<and> length out = length ids + length page \<and> (\<forall>v \<in> set out. v \<in> set ids \<or> (validSecretAuditResourceID v \<and> Some v \<in> set page))"
proof (induction page ids arbitrary: st rule: add_page.induct)
  case (2 resource page ids)
  from 2(2) obtain v where v: "resource = Some v" "validSecretAuditResourceID v" "v \<notin> set ids"
    "add_page page (ids @ [v]) st = (Inr out, st')" by (auto split: option.splits if_splits)
  from 2(1) [OF v(1) _ v(3) v(4)] v 2(3) show ?case by auto
qed auto

lemma list_pages_ok:
  "list_pages w amount offset ids st = (Inr out, st') \<Longrightarrow> distinct ids \<Longrightarrow> length ids = offset \<Longrightarrow> offset \<le> amount
     \<Longrightarrow> distinct out \<and> length out = amount \<and> as_shown st' = as_shown st
       \<and> (\<forall>v \<in> set out. v \<in> set ids \<or> (validSecretAuditResourceID v \<and> listed w v))"
proof (induction w amount offset ids arbitrary: st rule: list_pages.induct)
  case (1 w amount offset ids)
  show ?case
  proof (cases "offset < amount")
    case True
    let ?limit = "min secretAuditListPageSize (amount - offset)"
    from 1(2) True obtain st1 st2 page ids' st3 where step: "check_context w st = (Inr (), st1)"
      "st2 = st1\<lparr>as_calls := Suc (as_calls st1)\<rparr>" "aw_page w (as_calls st1) ?limit offset = Inr page"
      "page \<noteq> []" "\<not> ?limit < length page" "add_page page ids st2 = (Inr ids', st3)"
      "list_pages w amount (offset + length page) ids' st3 = (Inr out, st')"
      by (auto simp: list_pages.simps [of w amount offset ids] Let_def elim!: andThen_E split: sum.split_asm if_split_asm)
    note add = add_page_ok [OF step(6) 1(3)]
    have room: "offset + length page \<le> amount" using step(5) True by linarith
    have "distinct out \<and> length out = amount \<and> as_shown st' = as_shown st3
        \<and> (\<forall>v \<in> set out. v \<in> set ids' \<or> (validSecretAuditResourceID v \<and> listed w v))"
      by (rule 1(1) [OF True refl _ step(7)]) (use step(2,4,5) 1(4) add room in auto)
    moreover have "listed w v" if "Some v \<in> set page" for v using step(3) that by (auto simp: listed_def)
    moreover have "as_shown st3 = as_shown st" using add step(2) check_Inr [OF step(1)] by simp
    ultimately show ?thesis using add by metis
  next
    case False
    with 1(2-5) show ?thesis by (subst (asm) list_pages.simps) auto
  qed
qed

lemma listing_ok:
  assumes "listSecretAuditVariables w st = (Inr ids, st')"
  shows "distinct ids \<and> length ids \<le> 50000 \<and> as_shown st' = as_shown st
    \<and> (\<forall>v \<in> set ids. validSecretAuditResourceID v \<and> listed w v)"
proof -
  from assms obtain amount where "\<not> amount < 0" "\<not> secretAuditMaxVariables < amount"
    "list_pages w (nat amount) 0 [] (st\<lparr>as_calls := Suc (as_calls st)\<rparr>) = (Inr ids, st')"
    by (auto simp: listSecretAuditVariables_def andThen_Inr split: sum.splits option.splits if_splits)
  with list_pages_ok [OF this(3)] show ?thesis by (auto simp: secretAuditMaxVariables_def)
qed

lemma verify_ok:
  assumes "verifyInventory w ids st = (Inr (), st')" and "distinct ids"
  shows "(\<exists>s1 s2 ending. listSecretAuditVariables w s1 = (Inr ending, s2) \<and> set ending = set ids)"
    and "hd (as_shown st') = (hd (as_shown st))\<lparr>ss_Phase := ''verifying''\<rparr>"
proof -
  let ?st1 = "st\<lparr>as_shown := (hd (as_shown st))\<lparr>ss_Phase := ''verifying''\<rparr> # as_shown st\<rparr>"
  from assms(1) obtain ending where v: "listSecretAuditVariables w ?st1 = (Inr ending, st')"
    "length ending = length ids" "set ending \<subseteq> set ids"
    by (auto simp: verifyInventory_def andThen_Inr split: if_splits)
  note l = listing_ok [OF v(1)]
  then have "set ending = set ids" using v(2,3) assms(2) by (metis card_subset_eq distinct_card finite_set)
  with v show "\<exists>s1 s2 ending. listSecretAuditVariables w s1 = (Inr ending, s2) \<and> set ending = set ids" by blast
  show "hd (as_shown st') = (hd (as_shown st))\<lparr>ss_Phase := ''verifying''\<rparr>" using l by simp
qed

subsection \<open>Reading\<close>

text \<open>What the vendor said about one variable: a value, or the code of a refusal.\<close>

definition answered :: "audit_world \<Rightarrow> string \<Rightarrow> string + string \<Rightarrow> bool" where
  "answered w v a \<longleftrightarrow> (case a of
     Inl code \<Rightarrow> \<exists>n c. aw_secret w n v = Inl (VendorError c) \<and> c \<noteq> 401 \<and> code = secretAuditRetrievalCode (VendorError c)
   | Inr x \<Rightarrow> (\<exists>n. aw_secret w n v = Inr x) \<or> (\<exists>n ids vals. aw_batch w n ids = Inr vals \<and> get vals v = Some x))"

definition recorded :: "readings \<Rightarrow> string \<Rightarrow> string + string \<Rightarrow> bool" where
  "recorded r v a \<longleftrightarrow> (case a of
     Inl code \<Rightarrow> get (snd r) v = Some code
   | Inr x \<Rightarrow> if secretAuditMaxValueBytes < length x then get (snd r) v = Some ''output_limit_exceeded''
       else get (snd r) v = None \<and> get (fst r) v = Some x)"

lemma read_each_ok:
  "read_each w ids vals codes st = (Inr (vals', codes'), st') \<Longrightarrow> distinct ids
     \<Longrightarrow> \<forall>v \<in> set ids. get codes v = None
     \<Longrightarrow> as_shown st' = as_shown st \<and> (\<forall>v. v \<notin> set ids \<longrightarrow> get vals' v = get vals v \<and> get codes' v = get codes v)
       \<and> (\<forall>v \<in> set ids. \<exists>a. answered w v a \<and> recorded (vals', codes') v a)"
proof (induction ids arbitrary: vals codes st)
  case (Cons v ids)
  from Cons.prems(1) obtain st1 st2 where st: "check_context w st = (Inr (), st1)"
    "st2 = st1\<lparr>as_calls := Suc (as_calls st1)\<rparr>" by (auto simp: andThen_Inr)
  then have shown: "as_shown st2 = as_shown st" using check_Inr by simp
  let ?n = "as_calls st1"
  have v: "v \<notin> set ids" "distinct ids" "get codes v = None" "\<forall>u \<in> set ids. get codes u = None"
    using Cons.prems by simp_all
  from Cons.prems(1) st consider
      (err) c where "aw_secret w ?n v = Inl (VendorError c)" "c \<noteq> 401"
        "read_each w ids vals (AList.update v (secretAuditRetrievalCode (VendorError c)) codes) st2 = (Inr (vals', codes'), st')"
    | (big) x where "aw_secret w ?n v = Inr x" "secretAuditMaxValueBytes < length x"
        "read_each w ids vals (AList.update v ''output_limit_exceeded'' codes) st2 = (Inr (vals', codes'), st')"
    | (ok) x where "aw_secret w ?n v = Inr x" "\<not> secretAuditMaxValueBytes < length x"
        "read_each w ids (AList.update v x vals) codes st2 = (Inr (vals', codes'), st')"
    by (cases "aw_secret w ?n v") (auto simp: andThen_Inr split: if_splits, metis api_error.exhaust)
  then show ?case
  proof cases
    case err
    let ?a = "Inl (secretAuditRetrievalCode (VendorError c)) :: string + string"
    have "\<forall>u \<in> set ids. get (AList.update v (secretAuditRetrievalCode (VendorError c)) codes) u = None" using v by auto
    note IH = Cons.IH [OF err(3) v(2) this]
    have "answered w v ?a" using err by (auto simp: answered_def)
    moreover have "recorded (vals', codes') v ?a" using IH v(1) by (simp add: recorded_def)
    ultimately show ?thesis using IH v(1) shown by auto
  next
    case big
    have "\<forall>u \<in> set ids. get (AList.update v ''output_limit_exceeded'' codes) u = None" using v by auto
    note IH = Cons.IH [OF big(3) v(2) this]
    have "answered w v (Inr x)" using big by (auto simp: answered_def)
    moreover have "recorded (vals', codes') v (Inr x)" using IH v(1) big(2) by (simp add: recorded_def)
    ultimately show ?thesis using IH v(1) shown by auto
  next
    case ok
    note IH = Cons.IH [OF ok(3) v(2,4)]
    have "answered w v (Inr x)" using ok by (auto simp: answered_def)
    moreover have "recorded (vals', codes') v (Inr x)" using IH v(1,3) ok(2) by (simp add: recorded_def)
    ultimately show ?thesis using IH v(1) shown by auto
  qed
qed simp

lemma drop_large_ok:
  "drop_large ids (vals, codes) = (vals', codes') \<Longrightarrow> distinct ids \<Longrightarrow> \<forall>v \<in> set ids. get codes v = None
     \<Longrightarrow> (\<forall>v. v \<notin> set ids \<longrightarrow> get vals' v = get vals v \<and> get codes' v = get codes v)
       \<and> (\<forall>v \<in> set ids. \<forall>x. get vals v = Some x \<longrightarrow> recorded (vals', codes') v (Inr x))"
proof (induction ids arbitrary: vals codes)
  case (Cons v ids)
  then have v: "v \<notin> set ids" "distinct ids" "get codes v = None" "\<forall>u \<in> set ids. get codes u = None" by simp_all
  show ?case
  proof (cases "\<exists>x. get vals v = Some x \<and> secretAuditMaxValueBytes < length x")
    case True
    then obtain x where x: "get vals v = Some x" "secretAuditMaxValueBytes < length x" by blast
    have "drop_large ids (AList.delete v vals, AList.update v ''output_limit_exceeded'' codes) = (vals', codes')"
      using Cons.prems(1) x by simp
    moreover have "\<forall>u \<in> set ids. get (AList.update v ''output_limit_exceeded'' codes) u = None" using v by auto
    ultimately have IH: "(\<forall>u. u \<notin> set ids \<longrightarrow> get vals' u = get (AList.delete v vals) u
        \<and> get codes' u = get (AList.update v ''output_limit_exceeded'' codes) u)
      \<and> (\<forall>u \<in> set ids. \<forall>x. get (AList.delete v vals) u = Some x \<longrightarrow> recorded (vals', codes') u (Inr x))"
      by (rule Cons.IH [OF _ v(2)])
    moreover have "recorded (vals', codes') v (Inr x)" using IH v(1) x by (simp add: recorded_def)
    moreover have "recorded (vals', codes') u (Inr y)" if "u \<in> set ids" "get vals u = Some y" for u y
      using IH that v(1) by (metis get_delete)
    ultimately show ?thesis using v(1) x by auto
  next
    case False
    then have "drop_large ids (vals, codes) = (vals', codes')"
      using Cons.prems(1) by (auto split: option.splits)
    note IH = Cons.IH [OF this v(2,4)]
    have "recorded (vals', codes') v (Inr x)" if "get vals v = Some x" for x
      using IH v(1,3) False that by (simp add: recorded_def)
    with IH v(1) show ?thesis by auto
  qed
qed simp

lemma retrieve_ok:
  assumes "retrieveSecretAuditBatch w ids st = (Inr r, st')" and "distinct ids"
  shows "as_shown st' = as_shown st \<and> (\<forall>v \<in> set ids. \<exists>a. answered w v a \<and> recorded r v a)"
proof -
  obtain vals codes where r: "r = (vals, codes)" by (cases r)
  have one: ?thesis if "read_each w ids [] [] st1 = (Inr r, st')" "as_shown st1 = as_shown st" for st1
    using read_each_ok [OF that(1) [unfolded r] assms(2)] that(2) by (simp add: r)
  have many: ?thesis if "aw_batch w n ids = Inr vs" "hasEveryID vs ids" "drop_large ids (vs, []) = r" "as_shown st' = as_shown st"
    for n vs
  proof -
    have "\<exists>a. answered w v a \<and> recorded r v a" if "v \<in> set ids" for v
    proof -
      obtain x where x: "get vs v = Some x" using \<open>hasEveryID vs ids\<close> \<open>v \<in> set ids\<close> by (auto simp: hasEveryID_def)
      have "answered w v (Inr x)" using \<open>aw_batch w n ids = Inr vs\<close> x by (auto simp: answered_def)
      moreover have "recorded r v (Inr x)"
        using drop_large_ok [OF \<open>drop_large ids (vs, []) = r\<close> [unfolded r] assms(2)] x \<open>v \<in> set ids\<close> by (simp add: r)
      ultimately show ?thesis by blast
    qed
    with that(4) show ?thesis by blast
  qed
  let ?st1 = "st\<lparr>as_calls := Suc (as_calls st)\<rparr>"
  from assms(1) consider "read_each w ids [] [] st = (Inr r, st')" | "read_each w ids [] [] ?st1 = (Inr r, st')"
    | vs where "aw_batch w (as_calls st) ids = Inr vs" "hasEveryID vs ids" "drop_large ids (vs, []) = r" "st' = ?st1"
    unfolding retrieveSecretAuditBatch_def by (auto simp: andThen_Inr split: if_splits sum.splits)
  then show ?thesis
  proof cases
    case 1
    then show ?thesis by (rule one) simp
  next
    case 2
    then show ?thesis by (rule one) simp
  next
    case 3
    from many [OF 3(1-3)] 3(4) show ?thesis by simp
  qed
qed

subsection \<open>The reference: one variable at a time\<close>

datatype verdict = Unread string | Clean | Found string string

definition judge :: "secret_request \<Rightarrow> (string \<Rightarrow> string \<times> string) \<Rightarrow> string + string \<Rightarrow> verdict" where
  "judge req scan a =
     (case a of
        Inl code \<Rightarrow> Unread code
      | Inr x \<Rightarrow>
          if secretAuditMaxValueBytes < length x then Unread ''output_limit_exceeded''
          else if \<not> valid_utf8 x then Unread ''unsupported_encoding''
          else if reported req (scan x) then Found (fst (scan x)) (snd (scan x)) else Clean)"

definition findings_of :: "(string \<Rightarrow> verdict) \<Rightarrow> string list \<Rightarrow> secret_finding list" where
  "findings_of f ids = concat (map (\<lambda>v. case f v of
     Found c r \<Rightarrow> [\<lparr>fd_VariableID = secretAuditVariableID v, fd_Confidence = c, fd_Reason = r\<rparr>] | _ \<Rightarrow> []) ids)"

definition failures_of :: "(string \<Rightarrow> verdict) \<Rightarrow> string list \<Rightarrow> secret_failure list" where
  "failures_of f ids = concat (map (\<lambda>v. case f v of
     Unread code \<Rightarrow> [\<lparr>fl_VariableID = secretAuditVariableID v, fl_Code = code\<rparr>] | _ \<Rightarrow> []) ids)"

definition read_count :: "(string \<Rightarrow> verdict) \<Rightarrow> string list \<Rightarrow> nat" where
  "read_count f ids = length (filter (\<lambda>v. \<not> (\<exists>code. f v = Unread code)) ids)"

lemma verdicts_append:
  "findings_of f (as @ bs) = findings_of f as @ findings_of f bs"
  "failures_of f (as @ bs) = failures_of f as @ failures_of f bs"
  "read_count f (as @ bs) = read_count f as + read_count f bs"
  by (simp_all add: findings_of_def failures_of_def read_count_def)

lemma tally_recorded:
  assumes "recorded r v a" and "f v = judge req scan a"
  shows "tally_value req scan r v (fs, xs, n) = (fs @ findings_of f [v], xs @ failures_of f [v], n + read_count f [v])"
  using assms
  by (cases r; cases a)
    (auto simp: tally_value_def recorded_def judge_def findings_of_def failures_of_def read_count_def Let_def
      split: if_splits prod.splits)

lemma fold_recorded:
  assumes "\<forall>v \<in> set ids. \<exists>a. recorded r v a \<and> f v = judge req scan a"
  shows "fold (tally_value req scan r) ids (fs, xs, n)
    = (fs @ findings_of f ids, xs @ failures_of f ids, n + read_count f ids)"
  using assms
proof (induction ids arbitrary: fs xs n)
  case (Cons v ids)
  then obtain a where "recorded r v a" "f v = judge req scan a" by auto
  from tally_recorded [OF this(1), of f req scan] this(2) Cons show ?case
    by (simp add: findings_of_def failures_of_def read_count_def del: split_paired_Ex)
qed (simp add: findings_of_def failures_of_def read_count_def)

lemma read_batches_ok:
  "read_batches w req scan ids start (fs, xs, n) st = (Inr t, st') \<Longrightarrow> distinct ids \<Longrightarrow> as_shown st \<noteq> [] \<Longrightarrow>
     \<exists>f. (\<forall>v \<in> set (drop start ids). \<exists>a. answered w v a \<and> f v = judge req scan a)
       \<and> t = (fs @ findings_of f (drop start ids), xs @ failures_of f (drop start ids), n + read_count f (drop start ids))
       \<and> ss_Total (hd (as_shown st')) = ss_Total (hd (as_shown st))
       \<and> (start < length ids \<longrightarrow> ss_Processed (hd (as_shown st')) = length ids)"
proof (induction "length ids - start" arbitrary: start fs xs n st rule: less_induct)
  case less
  show ?case
  proof (cases "start < length ids")
    case True
    define stop where "stop = nextSecretAuditBatch ids start"
    define batch where "batch = take (stop - start) (drop start ids)"
    note b = secret_batch_bounds [OF True, folded stop_def]
    have ids: "drop start ids = batch @ drop stop ids"
      using b by (metis append_take_drop_id batch_def drop_drop le_add_diff_inverse2 less_imp_le_nat)
    then have d: "distinct batch" "set batch \<inter> set (drop stop ids) = {}"
      using distinct_drop [OF less.prems(2), of start] by simp_all
    let ?t = "\<lambda>r. fold (tally_value req scan r) batch (fs, xs, n)"
    let ?up = "\<lambda>r s. s\<lparr>ss_Processed := stop, ss_Inspected := snd (snd (?t r))\<rparr>"
    from less.prems(1) True obtain st1 r st2 st3 where step: "check_context w st = (Inr (), st1)"
      "retrieveSecretAuditBatch w batch st1 = (Inr r, st2)"
      "st3 = st2\<lparr>as_shown := ?up r (hd (as_shown st2)) # as_shown st2\<rparr>"
      "read_batches w req scan ids stop (?t r) st3 = (Inr t, st')"
      by (auto simp: read_batches.simps [of w req scan ids start] Let_def stop_def batch_def elim!: andThen_E)
    note r = retrieve_ok [OF step(2) d(1)]
    then obtain a where a: "\<forall>v \<in> set batch. answered w v (a v) \<and> recorded r v (a v)" by metis
    obtain fs1 xs1 n1 where t1: "?t r = (fs1, xs1, n1)" by (metis surj_pair)
    have shown: "as_shown st2 = as_shown st" using r check_Inr [OF step(1)] by simp
    have "\<exists>f. (\<forall>v \<in> set (drop stop ids). \<exists>a. answered w v a \<and> f v = judge req scan a)
       \<and> t = (fs1 @ findings_of f (drop stop ids), xs1 @ failures_of f (drop stop ids), n1 + read_count f (drop stop ids))
       \<and> ss_Total (hd (as_shown st')) = ss_Total (hd (as_shown st3))
       \<and> (stop < length ids \<longrightarrow> ss_Processed (hd (as_shown st')) = length ids)"
      by (rule less.hyps) (use b True step(3,4) t1 less.prems(2) in auto)
    then obtain f where f: "\<forall>v \<in> set (drop stop ids). \<exists>a. answered w v a \<and> f v = judge req scan a"
       "t = (fs1 @ findings_of f (drop stop ids), xs1 @ failures_of f (drop stop ids), n1 + read_count f (drop stop ids))"
       "ss_Total (hd (as_shown st')) = ss_Total (hd (as_shown st3))"
       "stop < length ids \<longrightarrow> ss_Processed (hd (as_shown st')) = length ids" by blast
    define g where "g v = (if v \<in> set batch then judge req scan (a v) else f v)" for v
    have same: "findings_of g (drop stop ids) = findings_of f (drop stop ids)"
      "failures_of g (drop stop ids) = failures_of f (drop stop ids)" "read_count g (drop stop ids) = read_count f (drop stop ids)"
      using d(2) by (auto simp: findings_of_def failures_of_def read_count_def g_def intro!: arg_cong [where f = concat]
          arg_cong [where f = length] map_cong filter_cong)
    have "?t r = (fs @ findings_of g batch, xs @ failures_of g batch, n + read_count g batch)"
      by (rule fold_recorded) (use a in \<open>auto simp: g_def\<close>)
    then have t: "t = (fs @ findings_of g (drop start ids), xs @ failures_of g (drop start ids), n + read_count g (drop start ids))"
      using f(2) t1 by (simp add: ids verdicts_append same)
    have "\<forall>v \<in> set (drop start ids). \<exists>a. answered w v a \<and> g v = judge req scan a"
      using a f(1) unfolding ids g_def by auto
    moreover have "ss_Processed (hd (as_shown st')) = length ids"
    proof (cases "stop < length ids")
      case False
      then have "st' = st3" using step(4) by (simp add: read_batches.simps [of w req scan ids stop])
      with step(3) False b show ?thesis by simp
    qed (use f(4) in simp)
    moreover have "ss_Total (hd (as_shown st')) = ss_Total (hd (as_shown st))" using f(3) step(3) shown by simp
    ultimately show ?thesis using t by blast
  next
    case False
    with less.prems(1) have "t = (fs, xs, n)" "st' = st" by (auto simp: read_batches.simps [of w req scan ids start])
    with False show ?thesis by (simp add: findings_of_def failures_of_def read_count_def)
  qed
qed

text \<open>What the answer of a value scan says, against one reading per variable.\<close>

definition shows_verdicts :: "secret_snapshot \<Rightarrow> (string \<Rightarrow> verdict) \<Rightarrow> string list \<Rightarrow> bool" where
  "shows_verdicts s f ids \<longleftrightarrow> ss_Findings s = sort_key finding_rank (findings_of f ids)
     \<and> ss_Failures s = failures_of f ids \<and> ss_Inspected s = read_count f ids \<and> ss_Total s = length ids
     \<and> (ids \<noteq> [] \<longrightarrow> ss_Processed s = length ids)"

lemma scan_values_ok:
  assumes "scan_values w lib req ids st = (Inr (), st')" and "distinct ids"
    and "ss_Total (hd (as_shown st)) = length ids"
  shows "(\<exists>f. (\<forall>v \<in> set ids. \<exists>a. answered w v a \<and> f v = judge req (scanner lib req ids) a)
      \<and> shows_verdicts (hd (as_shown st')) f (sort_ids ids))
    \<and> (\<exists>s1 s2 ending. listSecretAuditVariables w s1 = (Inr ending, s2) \<and> set ending = set ids)"
proof -
  let ?st1 = "st\<lparr>as_shown := (hd (as_shown st))\<lparr>ss_Phase := ''reading''\<rparr> # as_shown st\<rparr>"
  obtain fs xs n st2 st3 where step:
    "read_batches w req (scanner lib req ids) (sort_ids ids) 0 ([], [], 0) ?st1 = (Inr (fs, xs, n), st2)"
    "verifyInventory w (sort_ids ids) st2 = (Inr (), st3)"
    "hd (as_shown st') = (hd (as_shown st3))\<lparr>ss_Findings := sort_key finding_rank fs, ss_Failures := xs, ss_Inspected := n\<rparr>"
    using assms(1) unfolding scan_values_def by (auto elim!: andThen_E)
  have d: "distinct (sort_ids ids)" "set (sort_ids ids) = set ids" "length (sort_ids ids) = length ids"
    using assms(2) by (simp_all add: sort_ids_def)
  from read_batches_ok [OF step(1) d(1)] obtain f where f:
    "\<forall>v \<in> set ids. \<exists>a. answered w v a \<and> f v = judge req (scanner lib req ids) a"
    "fs = findings_of f (sort_ids ids)" "xs = failures_of f (sort_ids ids)" "n = read_count f (sort_ids ids)"
    "ss_Total (hd (as_shown st2)) = length ids" "ids \<noteq> [] \<longrightarrow> ss_Processed (hd (as_shown st2)) = length ids"
    using d assms(3) by auto
  note v = verify_ok [OF step(2) d(1)]
  have "shows_verdicts (hd (as_shown st')) f (sort_ids ids)"
    using f(2-) v(2) step(3) d(3) by (auto simp: shows_verdicts_def)
  with f(1) v(1) d(2) show ?thesis by auto
qed

lemma audit_parts:
  assumes "audit w lib req st = (Inr (), st')"
  shows "\<exists>ids st1 st2 st3. listSecretAuditVariables w st1 = (Inr ids, st2)
    \<and> as_shown st3 = (hd (as_shown st2))\<lparr>ss_Total := length ids, ss_Phase := ''matching''\<rparr> # as_shown st2
    \<and> (if sq_ScanType req = ''id-regex'' then scan_ids w lib req ids else scan_values w lib req ids) st3 = (Inr (), st')"
proof -
  from assms have "\<exists>st1. audit_inventory w lib req st1 = (Inr (), st')"
    unfolding audit_def Let_def by (auto elim!: andThen_E split: option.split_asm if_split_asm) blast+
  then obtain st0 where "audit_inventory w lib req st0 = (Inr (), st')" ..
  then obtain st1 ids st2 b st3 where p: "listSecretAuditVariables w st1 = (Inr ids, st2)"
    "update_snapshot (\<lambda>s. s\<lparr>ss_Total := length ids, ss_Phase := ''matching''\<rparr>) st2 = (Inr b, st3)"
    "(if sq_ScanType req = ''id-regex'' then scan_ids w lib req ids else scan_values w lib req ids) st3 = (Inr (), st')"
    unfolding audit_inventory_def by (elim andThen_E) (erule that, assumption+)
  from p(2) have "as_shown st3 = (hd (as_shown st2))\<lparr>ss_Total := length ids, ss_Phase := ''matching''\<rparr> # as_shown st2"
    by simp
  with p(1,3) show ?thesis by blast
qed

text \<open>
  C22: A completed scan of values is exact. What it shows is what reading the variables one at a
  time gives: there is an inventory of valid ids, the same at the start and at the end, and for
  every variable in it one answer of the vendor, such that the findings, the failures and the
  counts are the verdicts on these answers and nothing else; no variable is left out.
\<close>
theorem completed_audit_is_exact:
  assumes "audit w lib req st = (Inr (), st')" and "sq_ScanType req \<noteq> ''id-regex''"
  shows "\<exists>ids f. distinct ids \<and> length ids \<le> 50000 \<and> (\<forall>v \<in> set ids. validSecretAuditResourceID v \<and> listed w v)
    \<and> (\<exists>s1 s2. listSecretAuditVariables w s1 = (Inr ids, s2))
    \<and> (\<exists>s3 s4 ending. listSecretAuditVariables w s3 = (Inr ending, s4) \<and> set ending = set ids)
    \<and> (\<forall>v \<in> set ids. \<exists>a. answered w v a \<and> f v = judge req (scanner lib req ids) a)
    \<and> shows_verdicts (hd (as_shown st')) f (sort_ids ids)"
proof -
  from audit_parts [OF assms(1)] assms(2) obtain ids st1 st2 st3 where a: "listSecretAuditVariables w st1 = (Inr ids, st2)"
    "as_shown st3 = (hd (as_shown st2))\<lparr>ss_Total := length ids, ss_Phase := ''matching''\<rparr> # as_shown st2"
    "scan_values w lib req ids st3 = (Inr (), st')" by (simp only: if_False) blast
  note l = listing_ok [OF a(1)]
  have "ss_Total (hd (as_shown st3)) = length ids" using a(2) by simp
  from scan_values_ok [OF a(3) _ this] l a(1) show ?thesis by blast
qed

subsection \<open>Unfinished audits\<close>

text \<open>A snapshot of a running scan without results, and computations that show nothing else.\<close>

definition quiet_snapshot :: "secret_snapshot \<Rightarrow> bool" where
  "quiet_snapshot s \<longleftrightarrow> ss_Findings s = [] \<and> ss_Failures s = [] \<and> ss_State s = ''running''"

definition discreet :: "'a audit \<Rightarrow> bool" where
  "discreet m \<longleftrightarrow> (\<forall>st r st'. m st = (r, st') \<longrightarrow> quiet_snapshot (hd (as_shown st)) \<longrightarrow>
     quiet_snapshot (hd (as_shown st')) \<and> (\<exists>new. as_shown st' = new @ as_shown st \<and> (\<forall>s \<in> set new. quiet_snapshot s)))"

named_theorems discreet_intros

lemma discreet_give [discreet_intros]: "discreet (give a)"
  and discreet_fail [discreet_intros]: "discreet (fail e)"
  and discreet_ask [discreet_intros]: "discreet (ask f)"
  by (simp_all add: discreet_def)

lemma discreet_update: "(\<And>s. quiet_snapshot s \<Longrightarrow> quiet_snapshot (f s)) \<Longrightarrow> discreet (update_snapshot f)"
  by (auto simp: discreet_def)

lemma discreet_andThen [discreet_intros]:
  assumes "discreet m" and "\<And>a. discreet (f a)"
  shows "discreet (andThen m f)"
  unfolding discreet_def
proof (intro allI impI)
  fix st r st'
  assume run: "andThen m f st = (r, st')" and q: "quiet_snapshot (hd (as_shown st))"
  obtain x st1 where m: "m st = (x, st1)" by (cases "m st")
  from assms(1) m q obtain new where new: "quiet_snapshot (hd (as_shown st1))" "as_shown st1 = new @ as_shown st"
    "\<forall>s \<in> set new. quiet_snapshot s" unfolding discreet_def by blast
  show "quiet_snapshot (hd (as_shown st')) \<and> (\<exists>new. as_shown st' = new @ as_shown st \<and> (\<forall>s \<in> set new. quiet_snapshot s))"
  proof (cases x)
    case (Inl e)
    with run m have "st' = st1" by (simp add: andThen_def)
    with new show ?thesis by blast
  next
    case (Inr a)
    with run m have "f a st1 = (r, st')" by (simp add: andThen_def)
    with assms(2) new(1) obtain new2 where "quiet_snapshot (hd (as_shown st'))" "as_shown st' = new2 @ as_shown st1"
      "\<forall>s \<in> set new2. quiet_snapshot s" unfolding discreet_def by blast
    with new show ?thesis by auto
  qed
qed

lemma discreet_check [discreet_intros]: "discreet (check_context w)"
  unfolding check_context_def by (intro discreet_intros) (simp add: discreet_intros)

lemma discreet_add_page [discreet_intros]: "discreet (add_page page ids)"
  by (induction page ids rule: add_page.induct) (auto split: option.splits intro: discreet_intros)

lemma discreet_list_pages [discreet_intros]: "discreet (list_pages w amount offset ids)"
proof (induction w amount offset ids rule: list_pages.induct)
  case (1 w amount offset ids)
  then show ?case
    by (subst list_pages.simps) (auto simp: Let_def split: sum.split intro!: discreet_intros)
qed

lemma discreet_listing [discreet_intros]: "discreet (listSecretAuditVariables w)"
  unfolding listSecretAuditVariables_def by (auto split: sum.split option.split intro!: discreet_intros)

lemma discreet_verify [discreet_intros]: "discreet (verifyInventory w ids)"
  unfolding verifyInventory_def by (auto intro!: discreet_intros discreet_update simp: quiet_snapshot_def)

lemma discreet_read_each [discreet_intros]: "discreet (read_each w ids vals codes)"
  by (induction ids arbitrary: vals codes) (auto split: sum.split intro!: discreet_intros)

lemma discreet_retrieve [discreet_intros]: "discreet (retrieveSecretAuditBatch w ids)"
  unfolding retrieveSecretAuditBatch_def by (auto split: sum.split intro!: discreet_intros)

lemma discreet_read_batches [discreet_intros]: "discreet (read_batches w req scan ids start t)"
proof (induction w req scan ids start t rule: read_batches.induct)
  case (1 w req scan ids start t)
  show ?case
    by (subst read_batches.simps)
      (auto simp: Let_def quiet_snapshot_def intro!: 1 discreet_intros discreet_update)
qed

lemma discreet_id_matches [discreet_intros]: "discreet (id_matches w lib req i ids fs)"
  by (induction ids arbitrary: i fs)
    (auto simp: Let_def quiet_snapshot_def intro!: discreet_intros discreet_update)

text \<open>Computations whose last act, if they succeed, is to show the results.\<close>

definition discreet_until_done :: "'a audit \<Rightarrow> bool" where
  "discreet_until_done m \<longleftrightarrow> (\<forall>st r st'. m st = (r, st') \<longrightarrow> quiet_snapshot (hd (as_shown st)) \<longrightarrow>
     (\<exists>new. as_shown st' = new @ as_shown st
       \<and> (case r of Inl _ \<Rightarrow> quiet_snapshot (hd (as_shown st')) \<and> (\<forall>s \<in> set new. quiet_snapshot s)
          | Inr _ \<Rightarrow> new \<noteq> [] \<and> ss_State (hd new) = ''running'' \<and> (\<forall>s \<in> set (tl new). quiet_snapshot s))))"

lemma until_done_fail: "discreet_until_done (fail e)"
  by (simp add: discreet_until_done_def)

lemma until_done_update: "(\<And>s. ss_State (f s) = ss_State s) \<Longrightarrow> discreet_until_done (update_snapshot f)"
  by (auto simp: discreet_until_done_def quiet_snapshot_def)

lemma until_done_andThen:
  assumes "discreet m" and "\<And>a. discreet_until_done (f a)"
  shows "discreet_until_done (andThen m f)"
  unfolding discreet_until_done_def
proof (intro allI impI)
  fix st r st'
  assume run: "andThen m f st = (r, st')" and q: "quiet_snapshot (hd (as_shown st))"
  obtain x st1 where m: "m st = (x, st1)" by (cases "m st")
  from assms(1) m q obtain new where new: "quiet_snapshot (hd (as_shown st1))" "as_shown st1 = new @ as_shown st"
    "\<forall>s \<in> set new. quiet_snapshot s" unfolding discreet_def by blast
  show "\<exists>new. as_shown st' = new @ as_shown st
       \<and> (case r of Inl _ \<Rightarrow> quiet_snapshot (hd (as_shown st')) \<and> (\<forall>s \<in> set new. quiet_snapshot s)
          | Inr _ \<Rightarrow> new \<noteq> [] \<and> ss_State (hd new) = ''running'' \<and> (\<forall>s \<in> set (tl new). quiet_snapshot s))"
  proof (cases x)
    case (Inl e)
    with run m have "st' = st1" "r = Inl e" by (simp_all add: andThen_def)
    with new show ?thesis by auto
  next
    case (Inr a)
    with run m have "f a st1 = (r, st')" by (simp add: andThen_def)
    with assms(2) [of a] new(1) obtain new2 where n2: "as_shown st' = new2 @ as_shown st1"
      "case r of Inl _ \<Rightarrow> quiet_snapshot (hd (as_shown st')) \<and> (\<forall>s \<in> set new2. quiet_snapshot s)
          | Inr _ \<Rightarrow> new2 \<noteq> [] \<and> ss_State (hd new2) = ''running'' \<and> (\<forall>s \<in> set (tl new2). quiet_snapshot s)"
      unfolding discreet_until_done_def by blast
    with new show ?thesis
      by (intro exI [of _ "new2 @ new"]) (cases r; cases new2; auto)
  qed
qed

lemma until_done_audit: "discreet_until_done (audit w lib req)"
  unfolding audit_def audit_inventory_def scan_ids_def scan_values_def Let_def
  by (auto split: option.split prod.split simp: quiet_snapshot_def
      intro!: until_done_andThen until_done_fail until_done_update discreet_intros discreet_update)

text \<open>
  C26: An unfinished scan shows nothing. Whatever the vendor answers and whenever it is cancelled,
  a scan ends as completed, cancelled or failed, and as completed exactly when the whole scan
  went through; otherwise no snapshot that a reader can see, the last one included, holds a
  finding or a failure, and while it runs only the snapshot before the last one can.
\<close>
theorem unfinished_audit_shows_nothing:
  assumes "quiet_snapshot (hd (as_shown st))"
  shows "\<exists>final new. as_shown (run_audit w lib req st) = final # new @ as_shown st
    \<and> ss_State final \<in> {''completed'', ''cancelled'', ''failed''}
    \<and> (ss_State final = ''completed'' \<longleftrightarrow> (\<exists>st'. audit w lib req st = (Inr (), st')))
    \<and> (ss_State final = ''cancelled'' \<longrightarrow> (\<exists>n. aw_cancelled w n))
    \<and> (\<forall>s \<in> set (tl new). quiet_snapshot s)
    \<and> (ss_State final \<noteq> ''completed'' \<longrightarrow> ss_Findings final = [] \<and> ss_Failures final = [] \<and> (\<forall>s \<in> set new. quiet_snapshot s))"
proof -
  obtain r st1 where r: "audit w lib req st = (r, st1)" by (cases "audit w lib req st")
  from until_done_audit [of w lib req] r assms obtain new where new: "as_shown st1 = new @ as_shown st"
    "case r of Inl _ \<Rightarrow> quiet_snapshot (hd (as_shown st1)) \<and> (\<forall>s \<in> set new. quiet_snapshot s)
      | Inr _ \<Rightarrow> new \<noteq> [] \<and> ss_State (hd new) = ''running'' \<and> (\<forall>s \<in> set (tl new). quiet_snapshot s)"
    unfolding discreet_until_done_def by blast
  have tl: "s \<in> set (tl new) \<Longrightarrow> s \<in> set new" for s by (rule list.set_sel(2) [rotated]) auto
  show ?thesis
  proof (cases r)
    case (Inl e)
    with r new tl show ?thesis
      by (intro exI [of _ "hd (as_shown (run_audit w lib req st))"] exI [of _ new])
        (auto simp: run_audit_def update_snapshot_def Let_def)
  next
    case (Inr u)
    with r new show ?thesis
      by (intro exI [of _ "hd (as_shown (run_audit w lib req st))"] exI [of _ new])
        (auto simp: run_audit_def update_snapshot_def Let_def)
  qed
qed

subsection \<open>Scans of ids\<close>

lemma andThen_cong: "(\<And>a. f a = g a) \<Longrightarrow> andThen m f = andThen m g"
  by presburger

lemma list_pages_blind:
  "list_pages (w\<lparr>aw_batch := b, aw_secret := x\<rparr>) amount offset ids = list_pages w amount offset ids"
proof (induction w amount offset ids rule: list_pages.induct)
  case (1 w amount offset ids)
  then show ?case
    by (subst (1 2) list_pages.simps)
      (auto simp: check_context_def Let_def split: sum.split intro!: andThen_cong)
qed

lemma id_matches_blind:
  "id_matches (w\<lparr>aw_batch := b, aw_secret := x\<rparr>) lib req i ids fs = id_matches w lib req i ids fs"
  by (induction ids arbitrary: i fs) (simp_all add: check_context_def Let_def)

text \<open>
  C39: A scan of ids reads no value. Every snapshot it shows is the same whatever the vendor
  would answer to a request for a secret, so none of them depends on one.
\<close>
theorem id_scan_reads_no_value:
  assumes "sq_ScanType req = ''id-regex''"
  shows "run_audit (w\<lparr>aw_batch := b, aw_secret := x\<rparr>) lib req st = run_audit w lib req st"
proof -
  have "audit (w\<lparr>aw_batch := b, aw_secret := x\<rparr>) lib req = audit w lib req"
    by (simp add: audit_def audit_inventory_def scan_ids_def verifyInventory_def listSecretAuditVariables_def
        list_pages_blind id_matches_blind assms cong: option.case_cong sum.case_cong if_cong)
  then show ?thesis by (simp add: run_audit_def)
qed

subsection \<open>A sample inventory\<close>

text \<open>Two variables, of which one holds the path of the other, read in one batch.\<close>

definition sample_world :: audit_world where
  "sample_world = \<lparr>aw_config = (\<lambda>_. Some \<lparr>cc_ApplianceURL = ''https://c'', cc_Account = ''a'', cc_HTTPTimeout = 0\<rparr>),
     aw_client = (\<lambda>_ _. True), aw_cancelled = (\<lambda>_. False), aw_now = (\<lambda>_. ''now''), aw_count = (\<lambda>_. Inr (Some 2)),
     aw_page = (\<lambda>_ _ _. Inr [Some ''a:variable:y'', Some ''a:variable:db/key'']),
     aw_batch = (\<lambda>_ _. Inr [(''a:variable:db/key'', ''s3cr3t''), (''a:variable:y'', ''db/key'')]),
     aw_secret = (\<lambda>_ _. Inl OtherError)\<rparr>"

definition sample_scan :: "string \<Rightarrow> secret_request" where
  "sample_scan kind = \<lparr>sq_PackID = conjur_PackID, sq_ToolID = conjur_ToolID, sq_MinimumConfidence = ''high'',
     sq_ApplianceURL = [], sq_ScanType = kind, sq_Pattern = []\<rparr>"

definition sample_scan_start :: audit_state where
  "sample_scan_start = \<lparr>as_calls = 0, as_shown = [blank_snapshot\<lparr>ss_State := ''running''\<rparr>]\<rparr>"

lemma sample_scan_fields: "sq_ScanType (sample_scan k) = k" "sq_ApplianceURL (sample_scan k) = []"
  "sq_MinimumConfidence (sample_scan k) = ''high''"
  by (simp_all add: sample_scan_def)

lemma sample_start_quiet: "quiet_snapshot (hd (as_shown sample_scan_start))"
  by (simp add: quiet_snapshot_def sample_scan_start_def blank_snapshot_def)

text \<open>The equations that run a computation on a state.\<close>

lemma andThen_run: "andThen m f st = (case m st of (Inl e, st') \<Rightarrow> (Inl e, st') | (Inr a, st') \<Rightarrow> f a st')"
  by (simp add: andThen_def)

lemma list_pages_run:
  "list_pages w amount offset ids st =
     (if offset < amount then
        andThen (check_context w) (\<lambda>_.
          let limit = min secretAuditListPageSize (amount - offset) in
          andThen (ask (\<lambda>n. aw_page w n limit offset)) (\<lambda>answer.
            case answer of
              Inl e \<Rightarrow> fail (classifySecretAuditAPIError (Some e))
            | Inr page \<Rightarrow>
                if page = [] \<or> limit < length page then fail (ScanFailure ''inventory_changed'')
                else andThen (add_page page ids) (\<lambda>ids'. list_pages w amount (offset + length page) ids'))) st
      else give ids st)"
  by (subst list_pages.simps) simp

lemma read_batches_run:
  "read_batches w req scan ids start t st =
     (if start < length ids then
        andThen (check_context w) (\<lambda>_.
          let stop = nextSecretAuditBatch ids start;
              batch = take (stop - start) (drop start ids) in
          andThen (retrieveSecretAuditBatch w batch) (\<lambda>r.
            let t' = fold (tally_value req scan r) batch t in
            andThen (update_snapshot (\<lambda>s. s\<lparr>ss_Processed := stop, ss_Inspected := snd (snd t')\<rparr>)) (\<lambda>_.
              read_batches w req scan ids stop t'))) st
      else give t st)"
  by (subst read_batches.simps) simp

lemmas audit_run = andThen_run list_pages_run read_batches_run give_def fail_def ask_def update_snapshot_def
  check_context_def Let_def

lemma sample_ids_valid: "validSecretAuditResourceID ''a:variable:y''" "validSecretAuditResourceID ''a:variable:db/key''"
  by code_simp+

lemma sample_sorted: "sort_ids [''a:variable:y'', ''a:variable:db/key''] = [''a:variable:db/key'', ''a:variable:y'']"
  by code_simp

lemma sample_batch: "nextSecretAuditBatch [''a:variable:db/key'', ''a:variable:y''] 0 = 2"
  by code_simp

lemma sample_scanned:
  "scanner sample_lib (sample_scan ''references'') [''a:variable:y'', ''a:variable:db/key''] ''s3cr3t'' = ([], [])"
  "scanner sample_lib (sample_scan ''references'') [''a:variable:y'', ''a:variable:db/key''] ''db/key''
     = (''high'', ''exact_known_variable_reference'')"
  by code_simp+

lemma sample_scan_texts: "valid_utf8 ''s3cr3t''" "valid_utf8 ''db/key''" "secretAuditVariableID ''a:variable:y'' = ''y''"
  "secretAuditVariableID ''a:variable:db/key'' = ''db/key''"
  by code_simp+

lemma sample_listing:
  "listSecretAuditVariables (sample_world\<lparr>aw_cancelled := c\<rparr>) \<lparr>as_calls = n, as_shown = h\<rparr> =
     (if c (Suc n) then (Inl ScanCancelled, \<lparr>as_calls = n + 2, as_shown = h\<rparr>)
      else (Inr [''a:variable:y'', ''a:variable:db/key''], \<lparr>as_calls = n + 3, as_shown = h\<rparr>))"
  by (simp add: listSecretAuditVariables_def audit_run sample_world_def secretAuditMaxVariables_def
      secretAuditListPageSize_def sample_ids_valid)

lemma sample_world_fields:
  "aw_config sample_world = (\<lambda>_. Some \<lparr>cc_ApplianceURL = ''https://c'', cc_Account = ''a'', cc_HTTPTimeout = 0\<rparr>)"
  "aw_client sample_world = (\<lambda>_ _. True)" "aw_cancelled sample_world = (\<lambda>_. False)"
  "aw_batch sample_world = (\<lambda>_ _. Inr [(''a:variable:db/key'', ''s3cr3t''), (''a:variable:y'', ''db/key'')])"
  by (simp_all add: sample_world_def)

lemma sample_scan_result:
  "(case audit sample_world sample_lib (sample_scan ''references'') sample_scan_start of
      (Inr _, st') \<Rightarrow> map fd_VariableID (ss_Findings (hd (as_shown st'))) = [''y''] | _ \<Rightarrow> False)"
proof -
  have w: "sample_world\<lparr>aw_cancelled := \<lambda>_. False\<rparr> = sample_world" by (simp add: sample_world_def)
  note listing = sample_listing [of "\<lambda>_. False", unfolded w, simplified]
  show ?thesis
    by (simp add: audit_def audit_inventory_def scan_values_def verifyInventory_def retrieveSecretAuditBatch_def audit_run
        listing sample_world_fields sample_sorted sample_batch sample_scan_start_def sample_scan_fields hasEveryID_def
        secretAuditMaxValueBytes_def tally_value_def sample_scanned sample_scan_texts reported_def)
qed

theorem completed_audit_is_exact_witness:
  "\<exists>st' ids f. audit sample_world sample_lib (sample_scan ''references'') sample_scan_start = (Inr (), st')
     \<and> distinct ids \<and> shows_verdicts (hd (as_shown st')) f (sort_ids ids) \<and> findings_of f (sort_ids ids) \<noteq> []"
proof -
  obtain st' where st': "audit sample_world sample_lib (sample_scan ''references'') sample_scan_start = (Inr (), st')"
    "ss_Findings (hd (as_shown st')) \<noteq> []"
    using sample_scan_result by (auto split: prod.splits sum.splits)
  from completed_audit_is_exact [OF st'(1)] obtain ids f where "distinct ids"
    "shows_verdicts (hd (as_shown st')) f (sort_ids ids)" by (auto simp: sample_scan_def)
  moreover from this st'(2) have "findings_of f (sort_ids ids) \<noteq> []" by (auto simp: shows_verdicts_def)
  ultimately show ?thesis using st'(1) by blast
qed

theorem unfinished_audit_shows_nothing_witness:
  "\<exists>final new. as_shown (run_audit (sample_world\<lparr>aw_cancelled := \<lambda>n. n > 2\<rparr>) sample_lib (sample_scan ''references'')
       sample_scan_start) = final # new @ as_shown sample_scan_start
     \<and> ss_State final = ''cancelled'' \<and> ss_Findings final = [] \<and> (\<forall>s \<in> set new. quiet_snapshot s)"
proof -
  let ?w = "sample_world\<lparr>aw_cancelled := \<lambda>n. n > 2\<rparr>"
  have "ss_State (hd (as_shown (run_audit ?w sample_lib (sample_scan ''references'') sample_scan_start))) = ''cancelled''"
    by (simp add: run_audit_def audit_def audit_inventory_def audit_run sample_listing sample_world_fields
        sample_scan_start_def sample_scan_fields)
  with unfinished_audit_shows_nothing [OF sample_start_quiet, of ?w sample_lib "sample_scan ''references''"]
  show ?thesis by auto
qed

theorem id_scan_reads_no_value_witness:
  "run_audit (sample_world\<lparr>aw_batch := \<lambda>_ _. Inl OtherError, aw_secret := \<lambda>_ _. Inr ''other''\<rparr>) sample_lib
      (sample_scan ''id-regex'') sample_scan_start
     = run_audit sample_world sample_lib (sample_scan ''id-regex'') sample_scan_start"
  by (rule id_scan_reads_no_value) (simp add: sample_scan_def)

end
