(* ===== verification/ToolBootstrap.thy ===== *)
theory ToolBootstrap
  imports ValidPack Executor GoUrl
begin

section \<open>Portable tool installs (internal/toolbootstrap/portable.go)\<close>

text \<open>
  A tool that a pack declares as a portable artifact is downloaded, checked, unpacked and moved
  into a directory of the current user. The disk is a map from paths to files; what the
  operating system and the network answer is the environment of the operation. Package
  archive/zip and SHA-256 are arguments: \<open>unzip\<close> lists the entries of an archive's bytes and
  \<open>sha\<close> is the hexadecimal digest.
\<close>

record managed_file =
  mfl_Regular :: bool
  mfl_Content :: string
  mfl_ModTime :: int

type_synonym disk = "managed_file dict"

record provisioner =
  pvn_rootDir :: string
  pvn_goos :: string
  pvn_goarch :: string
  pvn_allowInsecure :: bool

datatype boot_error = BootUnsafe | BootMetadata | BootRoot | BootRemove | BootDirectory | BootDownload | BootExtract
  | BootFormat | BootChmod | BootActivate | BootVerify

definition maxManagedArtifactBytes :: int where "maxManagedArtifactBytes = 536870912"
definition maxManagedZIPEntries :: nat where "maxManagedZIPEntries = 4096"

subsection \<open>Names and paths\<close>

definition bare_segment :: "string \<Rightarrow> bool" where
  "bare_segment v \<longleftrightarrow> v \<noteq> [] \<and> length v \<le> 128 \<and> path_base v = v \<and> slash \<notin> set v \<and> CHR 0x5C \<notin> set v
     \<and> v \<noteq> ''.'' \<and> v \<noteq> ''..''"

definition safeManagedSegment :: "string \<Rightarrow> bool" where
  "safeManagedSegment v \<longleftrightarrow> bare_segment v
     \<and> (\<forall>r \<in> set (runes v). (97 \<le> r \<and> r \<le> 122) \<or> (48 \<le> r \<and> r \<le> 57) \<or> r = 45)"

definition safeManagedVersion :: "string \<Rightarrow> bool" where
  "safeManagedVersion v \<longleftrightarrow> bare_segment v
     \<and> (\<forall>r \<in> set (runes v). (65 \<le> r \<and> r \<le> 90) \<or> (97 \<le> r \<and> r \<le> 122) \<or> (48 \<le> r \<and> r \<le> 57)
          \<or> r = 46 \<or> r = 45 \<or> r = 43)"

definition executable_basename :: "string \<Rightarrow> bool" where
  "executable_basename v \<longleftrightarrow> path_base v = v \<and> slash \<notin> set v \<and> CHR 0x5C \<notin> set v"

text \<open>\<open>filepath.Join\<close> of non-empty elements, and \<open>filepath.Dir\<close>.\<close>

definition join_paths :: "string list \<Rightarrow> string" where
  "join_paths ps = path_clean (join_slash ps)"

definition path_dir :: "string \<Rightarrow> string" where
  "path_dir p = path_clean (rev (dropWhile (\<lambda>c. c \<noteq> slash) (rev p)))"

definition targetPathAt ::
    "provisioner \<Rightarrow> string option \<Rightarrow> tool_ref \<Rightarrow> string \<Rightarrow> string \<Rightarrow> string \<Rightarrow> string option" where
  "targetPathAt p cache ref version executableName installRoot =
     (let root0 = (if installRoot = [] then pvn_rootDir p else installRoot);
          root1 = (if root0 \<noteq> [] then Some root0 else map_option (\<lambda>c. join_paths [c, ''CLIHarbor'']) cache)
      in case root1 of
           None \<Rightarrow> None
         | Some root \<Rightarrow>
             if \<not> is_abs root then None
             else Some (join_paths [path_clean root, ''tools'', ref_pack ref, ref_tool ref, version, executableName]))"

subsection \<open>Checking a managed file\<close>

definition finalExecutableIdentity :: "install_artifact \<Rightarrow> (string \<times> int) option" where
  "finalExecutableIdentity a =
     (case ia_Format a of
        InstallFormatExecutable \<Rightarrow> Some (ia_SHA256 a, ia_SizeBytes a)
      | InstallFormatZIP \<Rightarrow>
          if ia_ExecutableSHA256 a = [] \<or> ia_ExecutableSizeBytes a \<le> 0 then None
          else Some (ia_ExecutableSHA256 a, ia_ExecutableSizeBytes a)
      | _ \<Rightarrow> None)"

text \<open>\<open>VerifyMissing\<close> is \<open>os.ErrNotExist\<close>; \<open>fails\<close> is whether a call fails in any other way.\<close>

datatype verification = VerifyMissing | VerifyFailed | Verified bool

definition verifyManagedFile ::
    "(string \<Rightarrow> string) \<Rightarrow> bool \<Rightarrow> disk \<Rightarrow> string \<Rightarrow> int \<Rightarrow> string \<Rightarrow> verification" where
  "verifyManagedFile sha fails fs path expectedSize expectedSHA =
     (if fails then VerifyFailed
      else case get fs path of
        None \<Rightarrow> VerifyMissing
      | Some f \<Rightarrow>
          if \<not> mfl_Regular f \<or> int (length (mfl_Content f)) \<noteq> expectedSize then VerifyFailed
          else let bytes = take (nat (expectedSize + 1)) (mfl_Content f) in
          if int (length bytes) \<noteq> expectedSize then Verified False
          else Verified (equal_fold (sha bytes) expectedSHA))"

subsection \<open>The network and the archive\<close>

record http_response =
  hr_StatusCode :: int
  hr_URL :: "parsed_url option"
  hr_ContentLength :: int
  hr_Body :: string
  hr_BodyOk :: bool

text \<open>
  A download: the random part of the staging name, if a file could be created, the requests of
  the redirects followed, the response; and what is left of the staging file when it could not
  be removed after a failure.
\<close>

record download_env =
  de_temp :: "nat option"
  de_request :: bool
  de_redirects :: "parsed_url option list"
  de_response :: "http_response option"
  de_synced :: bool
  de_closed :: bool
  de_leftover :: "string option"

record zip_entry =
  ze_Name :: string
  ze_Regular :: bool
  ze_UncompressedSize :: nat
  ze_Opens :: bool
  ze_Content :: string
  ze_ContentOk :: bool

record extract_env =
  xe_temp :: "nat option"
  xe_synced :: bool
  xe_closed :: bool
  xe_leftover :: "string option"

record boot_env =
  be_cache :: "string option"
  be_readFails :: "nat \<Rightarrow> bool"
  be_removeOk :: bool
  be_mkdirOk :: bool
  be_readDirOk :: bool
  be_now :: int
  be_removable :: "string \<Rightarrow> bool"
  be_download :: download_env
  be_extract :: extract_env
  be_archiveRemoved :: bool
  be_chmodOk :: bool
  be_renameOk :: bool
  be_cleanupOk :: "string \<Rightarrow> bool"

definition staging_path :: "string \<Rightarrow> string \<Rightarrow> nat \<Rightarrow> string" where
  "staging_path dir kind n = dir @ slash # ''.cliharbor-'' @ kind @ ''-'' @ show_nat n @ ''.tmp''"

definition allowedDownloadURL :: "provisioner \<Rightarrow> parsed_url option \<Rightarrow> parsed_url \<Rightarrow> string list \<Rightarrow> bool" where
  "allowedDownloadURL p candidate0 source redirectHosts =
     (case candidate0 of
        None \<Rightarrow> False
      | Some candidate \<Rightarrow>
          if pvn_allowInsecure p \<and> pu_Scheme candidate = ''http'' \<and> pu_Host candidate = pu_Host source then True
          else if \<not> equal_fold (pu_Scheme candidate) ''https'' \<or> pu_HasUser candidate \<or> pu_Fragment candidate \<noteq> []
            \<or> pu_Port candidate \<noteq> [] then False
          else equal_fold (pu_Host candidate) (pu_Host source)
            \<or> to_lower (pu_Hostname candidate) \<in> set (map to_lower redirectHosts))"

text \<open>\<open>CheckRedirect\<close> for the requests that follow the first, with the number made before each.\<close>

fun redirects_ok :: "provisioner \<Rightarrow> parsed_url \<Rightarrow> string list \<Rightarrow> nat \<Rightarrow> parsed_url option list \<Rightarrow> bool" where
  "redirects_ok p source hosts via [] = True"
| "redirects_ok p source hosts via (u # us) =
     (if 5 \<le> via then False
      else if \<not> allowedDownloadURL p u source hosts then False
      else redirects_ok p source hosts (Suc via) us)"

definition new_file :: "int \<Rightarrow> string \<Rightarrow> managed_file" where
  "new_file now content = \<lparr>mfl_Regular = True, mfl_Content = content, mfl_ModTime = now\<rparr>"

text \<open>The disk after a failure behind the creation of a staging file.\<close>

definition abandon :: "int \<Rightarrow> string \<Rightarrow> string option \<Rightarrow> disk \<Rightarrow> disk" where
  "abandon now path leftover fs = (case leftover of None \<Rightarrow> fs | Some c \<Rightarrow> AList.update path (new_file now c) fs)"

text \<open>The response, once the request is made: the bytes that passed every check.\<close>

definition received ::
    "(string \<Rightarrow> string) \<Rightarrow> provisioner \<Rightarrow> parsed_url \<Rightarrow> install_artifact \<Rightarrow> download_env \<Rightarrow> string option" where
  "received sha p source a env =
     (if \<not> de_request env \<or> \<not> redirects_ok p source (ia_RedirectHosts a) 1 (de_redirects env) then None
      else case de_response env of
        None \<Rightarrow> None
      | Some r \<Rightarrow>
          if hr_StatusCode r \<noteq> 200 then None
          else if \<not> allowedDownloadURL p (hr_URL r) source (ia_RedirectHosts a) then None
          else if 0 \<le> hr_ContentLength r \<and> hr_ContentLength r \<noteq> ia_SizeBytes a then None
          else let bytes = take (nat (ia_SizeBytes a + 1)) (hr_Body r) in
          if \<not> hr_BodyOk r \<or> int (length bytes) \<noteq> ia_SizeBytes a then None
          else if \<not> equal_fold (sha bytes) (ia_SHA256 a) then None
          else if \<not> de_synced env \<or> \<not> de_closed env then None
          else Some bytes)"

definition download ::
    "(string \<Rightarrow> string) \<Rightarrow> (string \<Rightarrow> parsed_url option) \<Rightarrow> provisioner \<Rightarrow> int \<Rightarrow> download_env \<Rightarrow> string
      \<Rightarrow> install_artifact \<Rightarrow> disk \<Rightarrow> string option \<times> disk" where
  "download sha parse p now env directory a fs =
     (case parse (ia_URL a) of
        None \<Rightarrow> (None, fs)
      | Some source \<Rightarrow>
          if pu_Host source = [] \<or> (\<not> pvn_allowInsecure p \<and> \<not> equal_fold (pu_Scheme source) ''https'') then (None, fs)
          else case de_temp env of
            None \<Rightarrow> (None, fs)
          | Some n \<Rightarrow>
              let path = staging_path directory ''download'' n in
              if get fs path \<noteq> None then (None, fs)
              else (case received sha p source a env of
                 None \<Rightarrow> (None, abandon now path (de_leftover env) fs)
               | Some bytes \<Rightarrow> (Some path, AList.update path (new_file now bytes) fs)))"

definition extractZIPExecutable ::
    "(string \<Rightarrow> string) \<Rightarrow> (string \<Rightarrow> zip_entry list option) \<Rightarrow> int \<Rightarrow> extract_env \<Rightarrow> string \<Rightarrow> string
      \<Rightarrow> install_artifact \<Rightarrow> disk \<Rightarrow> string option \<times> disk" where
  "extractZIPExecutable sha unzip now env directory archivePath a fs =
     (if ia_ArchivePath a = [] \<or> ia_ExecutableSHA256 a = [] \<or> ia_ExecutableSizeBytes a \<le> 0 then (None, fs)
      else case Option.bind (map_option mfl_Content (get fs archivePath)) unzip of
        None \<Rightarrow> (None, fs)
      | Some entries \<Rightarrow>
          if maxManagedZIPEntries < length entries then (None, fs)
          else case filter (\<lambda>e. ze_Name e = ia_ArchivePath a) entries of
            [selected] \<Rightarrow>
              if \<not> ze_Regular selected then (None, fs)
              else if int (ze_UncompressedSize selected) \<noteq> ia_ExecutableSizeBytes a then (None, fs)
              else if \<not> ze_Opens selected then (None, fs)
              else (case xe_temp env of
                 None \<Rightarrow> (None, fs)
               | Some n \<Rightarrow>
                   let path = staging_path directory ''executable'' n;
                       bytes = take (nat (ia_ExecutableSizeBytes a + 1)) (ze_Content selected) in
                   if get fs path \<noteq> None then (None, fs)
                   else if \<not> ze_ContentOk selected \<or> int (length bytes) \<noteq> ia_ExecutableSizeBytes a
                     \<or> \<not> equal_fold (sha bytes) (ia_ExecutableSHA256 a) \<or> \<not> xe_synced env \<or> \<not> xe_closed env
                   then (None, abandon now path (xe_leftover env) fs)
                   else (Some path, AList.update path (new_file now bytes) fs))
          | _ \<Rightarrow> (None, fs))"

subsection \<open>Left-over staging files\<close>

definition abandonedStagingAge :: int where "abandonedStagingAge = 3600 * second"

text \<open>A pattern with one star: the text before and after it. \<open>filepath.Match\<close> lets the star stand for no slash.\<close>

definition matchesAnyPattern :: "string \<Rightarrow> (string \<times> string) list \<Rightarrow> bool" where
  "matchesAnyPattern name patterns \<longleftrightarrow> (\<exists>(pre, suf) \<in> set patterns. length pre + length suf \<le> length name
     \<and> has_prefix pre name \<and> has_suffix suf name \<and> slash \<notin> set name)"

text \<open>The name of a file directly inside a directory.\<close>

definition entry_name :: "string \<Rightarrow> string \<Rightarrow> string option" where
  "entry_name dir path =
     (let name = drop (length dir + 1) path
      in if has_prefix (dir @ [slash]) path \<and> name \<noteq> [] \<and> slash \<notin> set name then Some name else None)"

definition staging_patterns :: "(string \<times> string) list" where
  "staging_patterns = [(''.cliharbor-download-'', ''.tmp''), (''.cliharbor-executable-'', ''.tmp'')]"

definition RemoveAbandonedStaging ::
    "boot_env \<Rightarrow> string \<Rightarrow> (string \<times> string) list \<Rightarrow> disk \<Rightarrow> disk" where
  "RemoveAbandonedStaging env directory patterns fs =
     (if \<not> be_readDirOk env then fs
      else filter (\<lambda>(path, f). case entry_name directory path of
          None \<Rightarrow> True
        | Some name \<Rightarrow> \<not> (mfl_Regular f \<and> matchesAnyPattern name patterns
            \<and> mfl_ModTime f < be_now env - abandonedStagingAge \<and> be_removable env name)) fs)"

subsection \<open>Install\<close>

text \<open>What both operations look up first: the artifact for this host, and the checks of its names.\<close>

definition declared_artifact :: "provisioner \<Rightarrow> tool_install \<Rightarrow> install_artifact option" where
  "declared_artifact p ins = get (ti_Artifacts ins) (pvn_goos p @ ''-'' @ pvn_goarch p)"

definition segments_safe :: "tool_ref \<Rightarrow> tool_install \<Rightarrow> bool" where
  "segments_safe ref ins \<longleftrightarrow> safeManagedSegment (ref_pack ref) \<and> safeManagedSegment (ref_tool ref)
     \<and> safeManagedVersion (ti_Version ins)"

definition ResolveInstalledAt ::
    "(string \<Rightarrow> string) \<Rightarrow> provisioner \<Rightarrow> boot_env \<Rightarrow> tool_ref \<Rightarrow> tool \<Rightarrow> string \<Rightarrow> disk
      \<Rightarrow> boot_error + string option" where
  "ResolveInstalledAt sha p env ref t installRoot fs =
     (case tl_Install t of
        None \<Rightarrow> Inr None
      | Some ins \<Rightarrow>
      if \<not> segments_safe ref ins then Inl BootUnsafe
      else case declared_artifact p ins of
        None \<Rightarrow> Inr None
      | Some a \<Rightarrow>
      if \<not> executable_basename (ia_ExecutableName a) then Inl BootUnsafe
      else case targetPathAt p (be_cache env) ref (ti_Version ins) (ia_ExecutableName a) installRoot of
        None \<Rightarrow> Inr None
      | Some target \<Rightarrow>
      (case finalExecutableIdentity a of
        None \<Rightarrow> Inl BootMetadata
      | Some (finalSHA, finalSize) \<Rightarrow>
          if verifyManagedFile sha (be_readFails env 0) fs target finalSize finalSHA = Verified True
          then Inr (Some target) else Inr None))"

definition activateManagedFile ::
    "(string \<Rightarrow> string) \<Rightarrow> boot_env \<Rightarrow> string \<Rightarrow> string \<Rightarrow> int \<Rightarrow> string \<Rightarrow> disk \<Rightarrow> bool \<times> disk" where
  "activateManagedFile sha env stagePath target expectedSize expectedSHA fs =
     (if be_renameOk env
      then (case get fs stagePath of
          None \<Rightarrow> (verifyManagedFile sha (be_readFails env 2) fs target expectedSize expectedSHA = Verified True, fs)
        | Some f \<Rightarrow> (True, AList.update target f (AList.delete stagePath fs)))
      else (verifyManagedFile sha (be_readFails env 2) fs target expectedSize expectedSHA = Verified True, fs))"

text \<open>The deferred removals: best effort, and none of a file that is not there.\<close>

definition cleanup :: "boot_env \<Rightarrow> string \<Rightarrow> disk \<Rightarrow> disk" where
  "cleanup env path fs = (if be_cleanupOk env path then AList.delete path fs else fs)"

text \<open>The staged executable: the download itself, or the entry extracted from it and the archive removed.\<close>

definition stage_executable ::
    "(string \<Rightarrow> string) \<Rightarrow> (string \<Rightarrow> zip_entry list option) \<Rightarrow> boot_env \<Rightarrow> string \<Rightarrow> string \<Rightarrow> install_artifact \<Rightarrow> disk
      \<Rightarrow> (boot_error + string) \<times> disk" where
  "stage_executable sha unzip env directory downloadPath a fs =
     (case ia_Format a of
        InstallFormatZIP \<Rightarrow>
          (case extractZIPExecutable sha unzip (be_now env) (be_extract env) directory downloadPath a fs of
             (None, fs1) \<Rightarrow> (Inl BootExtract, cleanup env downloadPath fs1)
           | (Some stagePath, fs1) \<Rightarrow>
               if \<not> be_archiveRemoved env then (Inl BootRemove, cleanup env stagePath (cleanup env downloadPath fs1))
               else (Inr stagePath, AList.delete downloadPath fs1))
      | InstallFormatExecutable \<Rightarrow> (Inr downloadPath, fs)
      | _ \<Rightarrow> (Inl BootFormat, cleanup env downloadPath fs))"

text \<open>
  From the staged file on. The download of a direct executable is kept when the activation
  reports success, even if the target was already there and the staged file was not moved.
\<close>

definition activate_staged ::
    "(string \<Rightarrow> string) \<Rightarrow> boot_env \<Rightarrow> string \<Rightarrow> string \<Rightarrow> install_artifact \<Rightarrow> string \<Rightarrow> int \<Rightarrow> disk
      \<Rightarrow> (boot_error + (string \<times> bool)) \<times> disk" where
  "activate_staged sha env stagePath target a finalSHA finalSize fs =
     (if \<not> be_chmodOk env then (Inl BootChmod, cleanup env stagePath fs)
      else case activateManagedFile sha env stagePath target finalSize finalSHA fs of
        (False, fs1) \<Rightarrow> (Inl BootActivate, cleanup env stagePath fs1)
      | (True, fs1) \<Rightarrow>
          let fs2 = (if ia_Format a = InstallFormatZIP then cleanup env stagePath fs1 else fs1) in
          if verifyManagedFile sha (be_readFails env 3) fs1 target finalSize finalSHA \<noteq> Verified True
          then (Inl BootVerify, fs2) else (Inr (target, True), fs2))"

definition install_artifact_at ::
    "(string \<Rightarrow> string) \<Rightarrow> (string \<Rightarrow> parsed_url option) \<Rightarrow> (string \<Rightarrow> zip_entry list option) \<Rightarrow> provisioner \<Rightarrow> boot_env
      \<Rightarrow> string \<Rightarrow> install_artifact \<Rightarrow> string \<Rightarrow> int \<Rightarrow> disk \<Rightarrow> (boot_error + (string \<times> bool)) \<times> disk" where
  "install_artifact_at sha parse unzip p env target a finalSHA finalSize fs =
     (if \<not> be_mkdirOk env then (Inl BootDirectory, fs)
      else let directory = path_dir target;
               fs1 = RemoveAbandonedStaging env directory staging_patterns fs in
      case download sha parse p (be_now env) (be_download env) directory a fs1 of
        (None, fs2) \<Rightarrow> (Inl BootDownload, fs2)
      | (Some downloadPath, fs2) \<Rightarrow>
          (case stage_executable sha unzip env directory downloadPath a fs2 of
             (Inl e, fs3) \<Rightarrow> (Inl e, fs3)
           | (Inr stagePath, fs3) \<Rightarrow> activate_staged sha env stagePath target a finalSHA finalSize fs3))"

text \<open>The empty path is the answer that there is nothing to install.\<close>

definition EnsureAt ::
    "(string \<Rightarrow> string) \<Rightarrow> (string \<Rightarrow> parsed_url option) \<Rightarrow> (string \<Rightarrow> zip_entry list option) \<Rightarrow> provisioner \<Rightarrow> boot_env
      \<Rightarrow> tool_ref \<Rightarrow> tool \<Rightarrow> string \<Rightarrow> disk \<Rightarrow> (boot_error + (string \<times> bool)) \<times> disk" where
  "EnsureAt sha parse unzip p env ref t installRoot fs =
     (case tl_Install t of
        None \<Rightarrow> (Inr ([], False), fs)
      | Some ins \<Rightarrow>
      (case ResolveInstalledAt sha p env ref t installRoot fs of
        Inl e \<Rightarrow> (Inl e, fs)
      | Inr (Some path) \<Rightarrow> (Inr (path, False), fs)
      | Inr None \<Rightarrow>
      if \<not> segments_safe ref ins then (Inl BootUnsafe, fs)
      else case declared_artifact p ins of
        None \<Rightarrow> (Inr ([], False), fs)
      | Some a \<Rightarrow>
      if ia_SizeBytes a \<le> 0 \<or> maxManagedArtifactBytes < ia_SizeBytes a then (Inl BootMetadata, fs)
      else if \<not> executable_basename (ia_ExecutableName a) then (Inl BootUnsafe, fs)
      else case targetPathAt p (be_cache env) ref (ti_Version ins) (ia_ExecutableName a) installRoot of
        None \<Rightarrow> (Inl BootRoot, fs)
      | Some target \<Rightarrow>
      (case finalExecutableIdentity a of
        None \<Rightarrow> (Inl BootMetadata, fs)
      | Some (finalSHA, finalSize) \<Rightarrow>
      (case verifyManagedFile sha (be_readFails env 1) fs target finalSize finalSHA of
        Verified True \<Rightarrow> (Inr (target, False), fs)
      | VerifyMissing \<Rightarrow> install_artifact_at sha parse unzip p env target a finalSHA finalSize fs
      | _ \<Rightarrow>
          if \<not> be_removeOk env then (Inl BootRemove, fs)
          else install_artifact_at sha parse unzip p env target a finalSHA finalSize (AList.delete target fs)))))"

definition Ensure ::
    "(string \<Rightarrow> string) \<Rightarrow> (string \<Rightarrow> parsed_url option) \<Rightarrow> (string \<Rightarrow> zip_entry list option) \<Rightarrow> provisioner \<Rightarrow> boot_env
      \<Rightarrow> tool_ref \<Rightarrow> tool \<Rightarrow> disk \<Rightarrow> (boot_error + (string \<times> bool)) \<times> disk" where
  "Ensure sha parse unzip p env ref t = EnsureAt sha parse unzip p env ref t []"

subsection \<open>The installed executable\<close>

lemma verify_True:
  assumes "verifyManagedFile sha fails fs path expectedSize expectedSHA = Verified True"
  shows "\<exists>f. get fs path = Some f \<and> mfl_Regular f \<and> int (length (mfl_Content f)) = expectedSize
    \<and> equal_fold (sha (mfl_Content f)) expectedSHA"
  using assms by (auto simp: verifyManagedFile_def Let_def split: option.split_asm if_split_asm)

text \<open>The names of a cleaned absolute path.\<close>

definition clean_parts :: "string \<Rightarrow> string list" where
  "clean_parts p = rev (foldl (clean_step True) [] (split_at slash p))"

lemma rooted_step: "list_all normal_name out \<Longrightarrow> list_all normal_name (clean_step True out part)"
  by (auto simp: clean_step_def normal_name_def split: list.splits)

lemma rooted_fold: "list_all normal_name out \<Longrightarrow> list_all normal_name (foldl (clean_step True) out parts)"
  by (induction parts arbitrary: out) (simp_all add: rooted_step)

lemma push_normal: "list_all normal_name ps \<Longrightarrow> foldl (clean_step True) out ps = rev ps @ out"
  by (induction ps arbitrary: out) (simp_all add: clean_step_def normal_name_def)

lemma clean_parts_normal: "list_all normal_name (clean_parts p)" "c \<in> set (clean_parts p) \<Longrightarrow> slash \<notin> set c"
  using rooted_fold [of "[]" "split_at slash p"] clean_fold_members [of True "[]" "split_at slash p"] split_at_no_sep
  by (auto simp: clean_parts_def)

lemma abs_cons: "is_abs p \<longleftrightarrow> (\<exists>r. p = slash # r)"
  by (auto simp: is_abs_def has_prefix_iff slash_def)

lemma path_clean_rooted: "is_abs p \<Longrightarrow> path_clean p = slash # join_slash (clean_parts p)"
  by (auto simp: abs_cons path_clean_def clean_parts_def Let_def)

lemma split_at_sep_append: "split_at sep (p @ sep # q) = split_at sep p @ split_at sep q"
  by (induction p) (auto split: list.split)

lemma clean_parts_append:
  "clean_parts (p @ slash # q) = rev (foldl (clean_step True) (rev (clean_parts p)) (split_at slash q))"
  by (simp add: clean_parts_def split_at_sep_append)

lemma clean_parts_slash: "list_all normal_name cs \<Longrightarrow> (\<And>c. c \<in> set cs \<Longrightarrow> slash \<notin> set c) \<Longrightarrow>
    clean_parts (slash # join_slash cs) = cs"
proof (cases "cs = []")
  case True
  then show ?thesis by (simp add: clean_parts_def clean_step_def)
next
  case False
  assume cs: "list_all normal_name cs" "\<And>c. c \<in> set cs \<Longrightarrow> slash \<notin> set c"
  have "split_at slash (slash # join_slash cs) = [] # cs"
    using split_join_slash [OF False cs(2)] by simp
  then show ?thesis
    using push_normal [OF cs(1), of "[]"] by (simp add: clean_parts_def clean_step_def)
qed

lemma join_slash_Cons: "ps \<noteq> [] \<Longrightarrow> join_slash (p # ps) = p @ slash # join_slash ps"
  by (cases ps) simp_all

lemma join_slash_snoc: "cs \<noteq> [] \<Longrightarrow> join_slash (cs @ [e]) = join_slash cs @ slash # e"
  by (induction cs rule: join_slash.induct) simp_all

lemma join_under_root:
  assumes "is_abs root" and "ps \<noteq> []" and "list_all normal_name ps" and "\<And>c. c \<in> set ps \<Longrightarrow> slash \<notin> set c"
  shows "join_paths (path_clean root # ps) = slash # join_slash (clean_parts root @ ps)"
proof -
  let ?r = "path_clean root"
  have r: "?r = slash # join_slash (clean_parts root)" by (rule path_clean_rooted [OF assms(1)])
  have "clean_parts ?r = clean_parts root"
    unfolding r by (rule clean_parts_slash) (use clean_parts_normal in auto)
  then have "clean_parts (?r @ slash # join_slash ps) = clean_parts root @ ps"
    using push_normal [OF assms(3)] split_join_slash [OF assms(2,4)] by (simp add: clean_parts_append)
  moreover have "is_abs (?r @ slash # join_slash ps)" by (simp add: r abs_cons)
  ultimately show ?thesis
    by (simp add: join_paths_def join_slash_Cons [OF assms(2)] path_clean_rooted)
qed

lemma path_dir_join:
  assumes "list_all normal_name cs" and "\<And>c. c \<in> set cs \<Longrightarrow> slash \<notin> set c" and "slash \<notin> set e" and "cs \<noteq> []"
  shows "path_dir (slash # join_slash (cs @ [e])) = slash # join_slash cs"
proof -
  have "dropWhile (\<lambda>c. c \<noteq> slash) (rev e @ slash # rest) = slash # rest" for rest
    using assms(3) by (subst dropWhile_append2) auto
  then have "path_dir (slash # join_slash (cs @ [e])) = path_clean ((slash # join_slash cs) @ slash # [])"
    by (simp add: path_dir_def join_slash_snoc [OF assms(4)])
  also have "\<dots> = slash # join_slash (clean_parts ((slash # join_slash cs) @ slash # []))"
    by (rule path_clean_rooted) (simp add: abs_cons)
  also have "clean_parts ((slash # join_slash cs) @ slash # []) = cs"
    unfolding clean_parts_append using clean_parts_slash [OF assms(1,2)] by (simp add: clean_step_def)
  finally show ?thesis .
qed

subsection \<open>What an install touches\<close>

text \<open>The disk outside the staging files of the tool's directory and the target.\<close>

definition staging_file :: "string \<Rightarrow> string \<Rightarrow> bool" where
  "staging_file dir path \<longleftrightarrow> (\<exists>name. entry_name dir path = Some name \<and> matchesAnyPattern name staging_patterns)"

definition same_outside :: "string \<Rightarrow> string \<Rightarrow> disk \<Rightarrow> disk \<Rightarrow> bool" where
  "same_outside dir target fs fs' \<longleftrightarrow> (\<forall>k. k = target \<or> staging_file dir k \<or> get fs' k = get fs k)"

lemma same_outside_refl [simp]: "same_outside dir target fs fs"
  by (simp add: same_outside_def)

lemma same_outside_trans: "same_outside dir target fs1 fs2 \<Longrightarrow> same_outside dir target fs2 fs3 \<Longrightarrow> same_outside dir target fs1 fs3"
  unfolding same_outside_def by metis

lemma same_outside_update:
  "k = target \<or> staging_file dir k \<Longrightarrow> same_outside dir target fs (AList.update k f fs)"
  "k = target \<or> staging_file dir k \<Longrightarrow> same_outside dir target fs (AList.delete k fs)"
  by (auto simp: same_outside_def)

lemma same_outside_cleanup: "staging_file dir k \<Longrightarrow> same_outside dir target fs (cleanup env k fs)"
  by (simp add: cleanup_def same_outside_update)

lemma same_outside_after:
  "same_outside dir target fs fs1 \<Longrightarrow> staging_file dir k \<Longrightarrow> same_outside dir target fs (cleanup env k fs1)"
  "same_outside dir target fs fs1 \<Longrightarrow> staging_file dir k \<Longrightarrow> same_outside dir target fs (AList.delete k fs1)"
  by (blast intro: same_outside_trans same_outside_cleanup same_outside_update(2))+

lemma staging_path_file: "kind = ''download'' \<or> kind = ''executable'' \<Longrightarrow> staging_file dir (staging_path dir kind n)"
proof -
  assume kind: "kind = ''download'' \<or> kind = ''executable''"
  let ?name = "''.cliharbor-'' @ kind @ ''-'' @ show_nat n @ ''.tmp''"
  have "slash \<notin> set (show_nat n)" using bspec [OF show_nat_digits [of n], of slash] by (auto simp: slash_def is_digit_def byte_def)
  then have noslash: "slash \<notin> set ?name" using kind by (auto simp: slash_def)
  have "entry_name dir (staging_path dir kind n) = Some ?name"
    using noslash by (simp add: entry_name_def staging_path_def has_prefix_def)
  moreover have "matchesAnyPattern ?name staging_patterns"
    using kind noslash by (auto simp: matchesAnyPattern_def staging_patterns_def has_prefix_def has_suffix_def)
  ultimately show ?thesis by (auto simp: staging_file_def)
qed

lemma get_filter_kept: "(\<And>f. P (k, f)) \<Longrightarrow> get (filter P d) k = get d k"
  by (induction d) auto

lemma abandoned_outside: "same_outside dir target fs (RemoveAbandonedStaging env dir staging_patterns fs)"
proof -
  have "get (RemoveAbandonedStaging env dir staging_patterns fs) k = get fs k" if "\<not> staging_file dir k" for k
    using that unfolding RemoveAbandonedStaging_def
    by (auto simp: staging_file_def split: option.split intro!: get_filter_kept)
  then show ?thesis by (auto simp: same_outside_def)
qed

lemma download_outside:
  assumes "download sha parse p now env dir a fs = (res, fs')"
  shows "same_outside dir target fs fs' \<and> (\<forall>path. res = Some path \<longrightarrow> staging_file dir path)"
  using assms staging_path_file [of "''download''" dir] unfolding download_def Let_def abandon_def
  by (auto split: option.split_asm if_split_asm intro!: same_outside_update)

lemma extract_outside:
  assumes "extractZIPExecutable sha unzip now env dir archive a fs = (res, fs')"
  shows "same_outside dir target fs fs' \<and> (\<forall>path. res = Some path \<longrightarrow> staging_file dir path)"
  using assms staging_path_file [of "''executable''" dir] unfolding extractZIPExecutable_def Let_def abandon_def
  by (auto split: option.split_asm if_split_asm list.split_asm intro!: same_outside_update)

lemma stage_outside:
  assumes "stage_executable sha unzip env dir dl a fs = (res, fs')" and "staging_file dir dl"
  shows "same_outside dir target fs fs' \<and> (\<forall>path. res = Inr path \<longrightarrow> staging_file dir path)"
proof (cases "ia_Format a = InstallFormatZIP")
  case True
  obtain r fs1 where x: "extractZIPExecutable sha unzip (be_now env) (be_extract env) dir dl a fs = (r, fs1)" by fastforce
  note out = extract_outside [OF x, of target]
  from assms True x out show ?thesis
    unfolding stage_executable_def
    by (auto split: option.split_asm if_split_asm
        intro: same_outside_after)
next
  case False
  with assms show ?thesis
    unfolding stage_executable_def
    by (auto split: install_format.split_asm intro: same_outside_cleanup)
qed

lemma activate_outside:
  assumes "activateManagedFile sha env stage target size0 sha0 fs = (ok, fs')" and "staging_file dir stage"
  shows "same_outside dir target fs fs'"
  using assms same_outside_trans [OF same_outside_update(2) same_outside_update(1)]
  unfolding activateManagedFile_def by (auto split: if_split_asm option.split_asm)

lemma activate_staged_outside:
  assumes "activate_staged sha env stage target a sha0 size0 fs = (res, fs')" and "staging_file dir stage"
  shows "same_outside dir target fs fs'"
proof -
  obtain ok fs1 where x: "activateManagedFile sha env stage target size0 sha0 fs = (ok, fs1)" by fastforce
  note out = activate_outside [OF x assms(2)]
  with assms x show ?thesis
    unfolding activate_staged_def Let_def
    by (auto split: if_split_asm bool.split_asm intro: same_outside_cleanup same_outside_after)
qed

lemma install_outside:
  assumes "install_artifact_at sha parse unzip p env target a sha0 size0 fs = (res, fs')"
  shows "same_outside (path_dir target) target fs fs'"
proof -
  let ?dir = "path_dir target"
  let ?fs1 = "RemoveAbandonedStaging env ?dir staging_patterns fs"
  obtain r fs2 where d: "download sha parse p (be_now env) (be_download env) ?dir a ?fs1 = (r, fs2)" by fastforce
  have to2: "same_outside ?dir target fs fs2"
    using same_outside_trans [OF abandoned_outside] download_outside [OF d] by blast
  show ?thesis
  proof (cases r)
    case None
    with assms d to2 show ?thesis by (auto simp: install_artifact_at_def split: if_split_asm)
  next
    case (Some dl)
    then have dl: "staging_file ?dir dl" using download_outside [OF d] by blast
    obtain r3 fs3 where st: "stage_executable sha unzip env ?dir dl a fs2 = (r3, fs3)" by fastforce
    note out = stage_outside [OF st dl, of target]
    then have to3: "same_outside ?dir target fs fs3" using same_outside_trans [OF to2] by blast
    show ?thesis
    proof (cases r3)
      case (Inl e)
      with assms d Some st to3 show ?thesis by (auto simp: install_artifact_at_def Let_def split: if_split_asm)
    next
      case (Inr stage)
      with assms d Some st have "fs' = fs \<or> activate_staged sha env stage target a sha0 size0 fs3 = (res, fs')"
        by (auto simp: install_artifact_at_def Let_def split: if_split_asm)
      with activate_staged_outside [of sha env stage target a sha0 size0 fs3 res fs' ?dir] out Inr to3
      show ?thesis by (auto intro: same_outside_trans)
    qed
  qed
qed

text \<open>An answer with a path: the file was verified last, and cleaning up leaves the target alone.\<close>

lemma install_verified:
  assumes "install_artifact_at sha parse unzip p env target a sha0 size0 fs = (Inr (path, inst), fs')"
    and "\<not> staging_file (path_dir target) target"
  shows "path = target \<and> inst \<and> verifyManagedFile sha (be_readFails env 3) fs' target size0 sha0 = Verified True"
proof -
  let ?dir = "path_dir target"
  from assms(1) obtain dl fs2 stage fs3 where s:
    "download sha parse p (be_now env) (be_download env) ?dir a (RemoveAbandonedStaging env ?dir staging_patterns fs) = (Some dl, fs2)"
    "stage_executable sha unzip env ?dir dl a fs2 = (Inr stage, fs3)"
    "activate_staged sha env stage target a sha0 size0 fs3 = (Inr (path, inst), fs')"
    unfolding install_artifact_at_def Let_def
    by (auto split: if_split_asm option.split_asm prod.split_asm sum.split_asm)
  have "staging_file ?dir stage" using stage_outside [OF s(2)] download_outside [OF s(1)] by blast
  then have "stage \<noteq> target" using assms(2) by blast
  obtain ok fs4 where act: "activateManagedFile sha env stage target size0 sha0 fs3 = (ok, fs4)" by fastforce
  let ?ok = "verifyManagedFile sha (be_readFails env 3) fs4 target size0 sha0 = Verified True"
  have end4: "?ok \<and> fs' = (if ia_Format a = InstallFormatZIP then cleanup env stage fs4 else fs4) \<and> path = target \<and> inst"
    using s(3) by (cases ok; cases ?ok) (simp_all add: activate_staged_def act Let_def split: if_split_asm)
  have "get fs' target = get fs4 target" using end4 \<open>stage \<noteq> target\<close> by (auto simp: cleanup_def)
  then have "verifyManagedFile sha (be_readFails env 3) fs' target size0 sha0
      = verifyManagedFile sha (be_readFails env 3) fs4 target size0 sha0" by (simp add: verifyManagedFile_def)
  with end4 show ?thesis by simp
qed

text \<open>The target of a tool whose names passed the checks.\<close>

lemma target_names:
  assumes "targetPathAt p cache ref version exe root0 = Some target" and "segments_safe ref ins" and "version = ti_Version ins"
    and "executable_basename exe" and "normal_name exe"
  shows "\<exists>root. is_abs root \<and> target = slash # join_slash (clean_parts root @ [''tools'', ref_pack ref, ref_tool ref, version, exe])
    \<and> path_dir target = slash # join_slash (clean_parts root @ [''tools'', ref_pack ref, ref_tool ref, version])
    \<and> target = path_dir target @ slash # exe"
proof -
  from assms(1) obtain root where root: "is_abs root"
    "target = join_paths [path_clean root, ''tools'', ref_pack ref, ref_tool ref, version, exe]"
    unfolding targetPathAt_def Let_def by (auto split: option.split_asm if_split_asm)
  let ?ps = "[''tools'', ref_pack ref, ref_tool ref, version]"
  have ps: "list_all normal_name (?ps @ [exe])" "\<And>c. c \<in> set (?ps @ [exe]) \<Longrightarrow> slash \<notin> set c"
    using assms(2-5) by (auto simp: segments_safe_def safeManagedSegment_def safeManagedVersion_def bare_segment_def
        executable_basename_def normal_name_def slash_def)
  have t: "target = slash # join_slash (clean_parts root @ (?ps @ [exe]))"
    unfolding root(2) using join_under_root [OF root(1) _ ps] by simp
  have cs: "list_all normal_name (clean_parts root @ ?ps)" "\<And>c. c \<in> set (clean_parts root @ ?ps) \<Longrightarrow> slash \<notin> set c"
    using ps clean_parts_normal by auto
  have dir: "path_dir target = slash # join_slash (clean_parts root @ ?ps)"
    unfolding t using path_dir_join [OF cs, of exe] ps(2) by simp
  have "target = (slash # join_slash (clean_parts root @ ?ps)) @ slash # exe"
    unfolding t using join_slash_snoc [of "clean_parts root @ ?ps" exe] by simp
  then have "target = path_dir target @ slash # exe" unfolding dir .
  with root(1) t dir show ?thesis by auto
qed

text \<open>
  C23: An installed tool is the declared one, in its own directory. When the operation answers
  with a path, the regular file there has the size and digest the pack declares for this host;
  the path is the install root with plain names for the pack, the tool, the version and the
  executable; and nothing else on the disk has changed but the operation's staging files.
\<close>
theorem installed_tool_is_declared:
  assumes "EnsureAt sha parse unzip p env ref t installRoot fs = (Inr (path, installed), fs')" and "path \<noteq> []"
    and "tl_Install t = Some ins" and "declared_artifact p ins = Some a"
    and "normal_name (ia_ExecutableName a)" and "\<not> matchesAnyPattern (ia_ExecutableName a) staging_patterns"
  shows "\<exists>root finalSHA finalSize f. finalExecutableIdentity a = Some (finalSHA, finalSize)
    \<and> get fs' path = Some f \<and> mfl_Regular f \<and> int (length (mfl_Content f)) = finalSize
    \<and> equal_fold (sha (mfl_Content f)) finalSHA
    \<and> is_abs root \<and> path = slash # join_slash (clean_parts root @ [''tools'', ref_pack ref, ref_tool ref, ti_Version ins, ia_ExecutableName a])
    \<and> list_all normal_name (clean_parts root @ [''tools'', ref_pack ref, ref_tool ref, ti_Version ins, ia_ExecutableName a])
    \<and> (\<forall>k. k = path \<or> staging_file (path_dir path) k \<or> get fs' k = get fs k) \<and> (\<not> installed \<longrightarrow> fs' = fs)"
proof -
  from assms(1,3,4) have safe: "segments_safe ref ins" "executable_basename (ia_ExecutableName a)"
    using assms(2) by (auto simp: EnsureAt_def ResolveInstalledAt_def split: if_split_asm)
  from assms(1-4) safe obtain finalSHA finalSize where id: "finalExecutableIdentity a = Some (finalSHA, finalSize)"
    and target: "targetPathAt p (be_cache env) ref (ti_Version ins) (ia_ExecutableName a) installRoot \<noteq> None"
    by (auto simp: EnsureAt_def ResolveInstalledAt_def split: option.split_asm if_split_asm)
  from target obtain target where tp: "targetPathAt p (be_cache env) ref (ti_Version ins) (ia_ExecutableName a) installRoot
      = Some target" by blast
  from target_names [OF tp safe(1) refl safe(2) assms(5)] obtain root where root: "is_abs root"
    "target = slash # join_slash (clean_parts root @ [''tools'', ref_pack ref, ref_tool ref, ti_Version ins, ia_ExecutableName a])"
    "target = path_dir target @ slash # ia_ExecutableName a" by blast
  have "entry_name (path_dir target) target = Some (ia_ExecutableName a) \<or> entry_name (path_dir target) target = None"
    by (subst (2 4) root(3)) (simp add: entry_name_def Let_def)
  then have free: "\<not> staging_file (path_dir target) target" using assms(6) by (auto simp: staging_file_def)
  let ?verify = "\<lambda>n. verifyManagedFile sha (be_readFails env n) fs target finalSize finalSHA"
  let ?install = "install_artifact_at sha parse unzip p env target a finalSHA finalSize"
  have resolved: "ResolveInstalledAt sha p env ref t installRoot fs = Inr (if ?verify 0 = Verified True then Some target else None)"
    by (simp add: ResolveInstalledAt_def assms(3,4) safe tp id)
  have answer: "(case ?verify 1 of Verified True \<Rightarrow> (Inr (target, False), fs) | VerifyMissing \<Rightarrow> ?install fs
      | _ \<Rightarrow> if \<not> be_removeOk env then (Inl BootRemove, fs) else ?install (AList.delete target fs)) = (Inr (path, installed), fs')"
    if "?verify 0 \<noteq> Verified True"
    using assms(1) that by (simp add: EnsureAt_def resolved assms(3,4) safe tp id split: if_split_asm)
  consider (found) n where "?verify n = Verified True" "path = target" "fs' = fs" "\<not> installed"
    | (fresh) fs0 where "fs0 = fs \<or> fs0 = AList.delete target fs" "?install fs0 = (Inr (path, installed), fs')"
  proof (cases "?verify 0 = Verified True")
    case True
    with assms(1) have "path = target" "fs' = fs" "\<not> installed" by (simp_all add: EnsureAt_def resolved assms(3))
    with True found show thesis by blast
  next
    case False
    from answer [OF False] show thesis
      by (cases "?verify 1") (auto split: if_split_asm bool.split_asm intro: found [of 1] fresh)
  qed
  then have main: "path = target \<and> (\<exists>n. verifyManagedFile sha (be_readFails env n) fs' target finalSize finalSHA = Verified True)
    \<and> same_outside (path_dir target) target fs fs' \<and> (\<not> installed \<longrightarrow> fs' = fs)"
  proof cases
    case found
    then show ?thesis by auto
  next
    case fresh
    have "same_outside (path_dir target) target fs fs0"
      using fresh(1) by (auto intro: same_outside_update)
    with install_outside [OF fresh(2)] install_verified [OF fresh(2) free] show ?thesis
      by (auto intro: same_outside_trans)
  qed
  then obtain f where "get fs' target = Some f" "mfl_Regular f" "int (length (mfl_Content f)) = finalSize"
    "equal_fold (sha (mfl_Content f)) finalSHA" using verify_True by blast
  moreover have "list_all normal_name (clean_parts root @ [''tools'', ref_pack ref, ref_tool ref, ti_Version ins, ia_ExecutableName a])"
    using clean_parts_normal(1) safe(1) assms(5)
    by (auto simp: segments_safe_def safeManagedSegment_def safeManagedVersion_def bare_segment_def normal_name_def)
  ultimately show ?thesis
    using main id root(1,2) unfolding same_outside_def by auto
qed

subsection \<open>A sample install\<close>

text \<open>A direct executable, downloaded to a disk that holds a left-over staging file and a file of the user.\<close>

definition boot_artifact :: install_artifact where
  "boot_artifact = \<lparr>ia_URL = ''https://d.io/x'', ia_SHA256 = ''code'', ia_SizeBytes = 4, ia_Format = InstallFormatExecutable,
     ia_ExecutableName = ''tool'', ia_ArchivePath = [], ia_ExecutableSHA256 = [], ia_ExecutableSizeBytes = 0,
     ia_RedirectHosts = []\<rparr>"

definition boot_tool :: tool where
  "boot_tool = \<lparr>tl_ExecutableNames = [''tool''], tl_VersionProbe = None, tl_HelpProbes = [], tl_VersionConstraint = [],
     tl_SessionCheck = None,
     tl_Install = Some \<lparr>ti_Version = ''1.2.3'', ti_Artifacts = [(''linux-amd64'', boot_artifact)]\<rparr>\<rparr>"

definition boot_host :: provisioner where
  "boot_host = \<lparr>pvn_rootDir = [], pvn_goos = ''linux'', pvn_goarch = ''amd64'', pvn_allowInsecure = False\<rparr>"

definition boot_url :: parsed_url where
  "boot_url = \<lparr>pu_Scheme = ''https'', pu_Host = ''d.io'', pu_Hostname = ''d.io'', pu_Port = [], pu_HasUser = False,
     pu_RawQuery = [], pu_Fragment = []\<rparr>"

definition boot_world :: boot_env where
  "boot_world = \<lparr>be_cache = None, be_readFails = (\<lambda>_. False), be_removeOk = True, be_mkdirOk = True, be_readDirOk = True,
     be_now = 7200 * second, be_removable = (\<lambda>_. True),
     be_download = \<lparr>de_temp = Some 7, de_request = True, de_redirects = [],
       de_response = Some \<lparr>hr_StatusCode = 200, hr_URL = Some boot_url, hr_ContentLength = 4, hr_Body = ''code'', hr_BodyOk = True\<rparr>,
       de_synced = True, de_closed = True, de_leftover = None\<rparr>,
     be_extract = \<lparr>xe_temp = None, xe_synced = True, xe_closed = True, xe_leftover = None\<rparr>, be_archiveRemoved = True,
     be_chmodOk = True, be_renameOk = True, be_cleanupOk = (\<lambda>_. True)\<rparr>"

definition boot_disk :: disk where
  "boot_disk = [(''/h/mine'', new_file 0 ''x''), (''/h/tools/p/t/1.2.3/.cliharbor-download-3.tmp'', new_file 0 ''old'')]"

definition boot_result :: "(boot_error + (string \<times> bool)) \<times> disk" where
  "boot_result = EnsureAt id (\<lambda>_. Some boot_url) (\<lambda>_. None) boot_host boot_world (ToolRef ''p'' ''t'') boot_tool ''/h'' boot_disk"

lemma boot_result_value:
  "boot_result = (Inr (''/h/tools/p/t/1.2.3/tool'', True),
     [(''/h/mine'', new_file 0 ''x''), (''/h/tools/p/t/1.2.3/tool'', new_file (7200 * second) ''code'')])"
  by code_simp

theorem installed_tool_is_declared_witness:
  "\<exists>fs' f. EnsureAt id (\<lambda>_. Some boot_url) (\<lambda>_. None) boot_host boot_world (ToolRef ''p'' ''t'') boot_tool ''/h'' boot_disk
       = (Inr (''/h/tools/p/t/1.2.3/tool'', True), fs')
     \<and> get fs' ''/h/tools/p/t/1.2.3/tool'' = Some f \<and> mfl_Regular f \<and> length (mfl_Content f) = 4
     \<and> equal_fold (mfl_Content f) ''code''"
proof -
  obtain fs' where run: "EnsureAt id (\<lambda>_. Some boot_url) (\<lambda>_. None) boot_host boot_world (ToolRef ''p'' ''t'') boot_tool ''/h'' boot_disk
       = (Inr (''/h/tools/p/t/1.2.3/tool'', True), fs')"
    using boot_result_value unfolding boot_result_def by blast
  have "declared_artifact boot_host \<lparr>ti_Version = ''1.2.3'', ti_Artifacts = [(''linux-amd64'', boot_artifact)]\<rparr> = Some boot_artifact"
    by code_simp
  moreover have "normal_name (ia_ExecutableName boot_artifact)"
    "\<not> matchesAnyPattern (ia_ExecutableName boot_artifact) staging_patterns"
    by (simp_all add: boot_artifact_def normal_name_def matchesAnyPattern_def staging_patterns_def)
  moreover have "finalExecutableIdentity boot_artifact = Some (''code'', 4)"
    by (simp add: boot_artifact_def finalExecutableIdentity_def)
  ultimately show ?thesis
    using installed_tool_is_declared [OF run] run by (fastforce simp: boot_tool_def)
qed

end
