(* ===== verification/Http.thy ===== *)
theory Http
  imports AppError GoJsonTree
begin

section \<open>Requests, answers and request bodies (internal/server)\<close>

text \<open>
  A request as the handlers see it, with what net/http and mime have read from the wire; an
  answer as status, headers and body; the failures of \<open>api_error.go\<close>; and the reading of a JSON
  body that every state-changing handler shares: one media type, a bound, UTF-8, no repeated key,
  no unknown field, nothing after the value.
\<close>

text \<open>
  \<open>hr_Origin\<close> and the other headers are empty when absent. \<open>hr_MediaType\<close> is the answer of
  \<open>mime.ParseMediaType\<close>, \<open>hr_Cookie\<close> the session cookie, \<open>hr_Query\<close> the parsed query. The body's
  bytes arrive before \<open>hr_BodyFails\<close> is noticed.
\<close>

record http_request =
  hr_Method :: string
  hr_Host :: string
  hr_Path :: string
  hr_EscapedPath :: string
  hr_Query :: "string list dict"
  hr_Origin :: string
  hr_CSRF :: string
  hr_Cookie :: "string option"
  hr_Authorization :: string
  hr_ProxyAuthorization :: string
  hr_LastEventID :: string
  hr_MediaType :: "string option"
  hr_ContentLength :: int
  hr_Body :: string
  hr_BodyFails :: bool

datatype 'j payload = NoBody | PlainText string | ErrorJson detail | Json 'j

record 'j response =
  rp_Status :: nat
  rp_Headers :: "string dict"
  rp_Body :: "'j payload"

subsection \<open>Answers\<close>

definition writeJSON :: "nat \<Rightarrow> 'j \<Rightarrow> 'j response" where
  "writeJSON status v =
     \<lparr>rp_Status = status, rp_Headers = [(''Content-Type'', ''application/json; charset=utf-8'')], rp_Body = Json v\<rparr>"

definition writeAPIDetail :: "nat \<Rightarrow> detail \<Rightarrow> 'j response" where
  "writeAPIDetail status d =
     \<lparr>rp_Status = status, rp_Headers = [(''Content-Type'', ''application/json; charset=utf-8'')],
      rp_Body = ErrorJson d\<rparr>"

definition writeAPIError :: "nat \<Rightarrow> app_code \<Rightarrow> 'j response" where
  "writeAPIError status code = writeAPIDetail status (DetailFor code)"

definition writeAPIFieldError :: "nat \<Rightarrow> app_code \<Rightarrow> string \<Rightarrow> 'j response" where
  "writeAPIFieldError status code f = writeAPIDetail status (WithField (DetailFor code) f)"

text \<open>\<open>http.Error\<close>.\<close>

definition http_Error :: "string \<Rightarrow> nat \<Rightarrow> 'j response" where
  "http_Error msg status =
     \<lparr>rp_Status = status,
      rp_Headers = [(''Content-Type'', ''text/plain; charset=utf-8''), (''X-Content-Type-Options'', ''nosniff'')],
      rp_Body = PlainText (msg @ [CHR 0x0A])\<rparr>"

definition with_header :: "string \<Rightarrow> string \<Rightarrow> 'j response \<Rightarrow> 'j response" where
  "with_header k v r = r\<lparr>rp_Headers := AList.update k v (rp_Headers r)\<rparr>"

definition no_content :: "'j response" where
  "no_content = \<lparr>rp_Status = 204, rp_Headers = [], rp_Body = NoBody\<rparr>"

definition writeRequestBoundaryError :: "http_request \<Rightarrow> nat \<Rightarrow> app_code \<Rightarrow> 'j response" where
  "writeRequestBoundaryError rq status code =
     (if has_prefix ''/api/'' (hr_Path rq) then writeAPIDetail status (DetailFor code)
      else http_Error (de_Message (DetailFor code)) status)"

definition writeMethodNotAllowed :: "'j response" where
  "writeMethodNotAllowed = writeAPIError 405 CodeMethodNotAllowed"

definition not_allowed :: "string \<Rightarrow> 'j response" where
  "not_allowed methods = with_header ''Allow'' methods writeMethodNotAllowed"

definition writeResourceNotFound :: "'j response" where
  "writeResourceNotFound = writeAPIError 404 CodeResourceNotFound"

subsection \<open>Repeated keys\<close>

text \<open>The guards on the length of the rest always hold (\<open>walk_shorter\<close>).\<close>

function walkJSONValue :: "decoder \<Rightarrow> decoder option"
  and walk_object :: "string list \<Rightarrow> decoder \<Rightarrow> decoder option"
  and walk_array :: "decoder \<Rightarrow> decoder option" where
  "walkJSONValue d =
     (case next_token d of
        Tok t d1 \<Rightarrow>
          (case t of
             TDelim c \<Rightarrow>
               if c = CHR ''{'' then walk_object [] d1
               else if c = CHR ''['' then walk_array d1
               else None
           | _ \<Rightarrow> Some d1)
      | _ \<Rightarrow> None)"
| "walk_object seen d =
     (if has_more d then
        (case next_token d of
           Tok (TStr key) d1 \<Rightarrow>
             if key \<in> set seen then None
             else (case walkJSONValue d1 of
                None \<Rightarrow> None
              | Some d2 \<Rightarrow> if length (d_rest d2) < length (d_rest d) then walk_object (key # seen) d2 else None)
         | _ \<Rightarrow> None)
      else (case next_token d of
         Tok t d1 \<Rightarrow> if t = TDelim (CHR ''}'') then Some d1 else None
       | _ \<Rightarrow> None))"
| "walk_array d =
     (if has_more d then
        (case walkJSONValue d of
           None \<Rightarrow> None
         | Some d2 \<Rightarrow> if length (d_rest d2) < length (d_rest d) then walk_array d2 else None)
      else (case next_token d of
         Tok t d1 \<Rightarrow> if t = TDelim (CHR '']'') then Some d1 else None
       | _ \<Rightarrow> None))"
  by pat_completeness auto
termination
  by (relation "measure (\<lambda>x. case x of Inl d \<Rightarrow> 2 * length (d_rest d)
       | Inr (Inl (s, d)) \<Rightarrow> 2 * length (d_rest d) + 1 | Inr (Inr d) \<Rightarrow> 2 * length (d_rest d) + 1)")
    (auto dest: next_token_shorter)

declare walkJSONValue.simps [simp del] walk_object.simps [simp del] walk_array.simps [simp del]

lemma walk_shorter:
  "walkJSONValue d = Some d' \<Longrightarrow> length (d_rest d') < length (d_rest d)"
  "walk_object seen d = Some d' \<Longrightarrow> length (d_rest d') < length (d_rest d)"
  "walk_array d = Some d' \<Longrightarrow> length (d_rest d') < length (d_rest d)"
proof (induction d and seen d and d arbitrary: d' and d' and d' rule: walkJSONValue_walk_object_walk_array.induct)
  case (1 d)
  obtain t d1 where t: "next_token d = Tok t d1"
    using 1(3) by (cases "next_token d") (simp_all add: walkJSONValue.simps [of d])
  have "length (d_rest d') < length (d_rest d1) \<or> d' = d1"
  proof (cases t)
    case (TDelim c)
    with 1(3) t 1(1) [OF t TDelim] 1(2) [OF t TDelim] show ?thesis
      by (auto simp: walkJSONValue.simps [of d] split: if_split_asm)
  qed (use 1(3) t in \<open>simp_all add: walkJSONValue.simps [of d]\<close>)
  with next_token_shorter [OF t] show ?case by auto
next
  case (2 seen d)
  show ?case
  proof (cases "has_more d")
    case True
    with 2(3) obtain key d1 d2 where s: "next_token d = Tok (TStr key) d1" "key \<notin> set seen"
      "walkJSONValue d1 = Some d2" "length (d_rest d2) < length (d_rest d)" "walk_object (key # seen) d2 = Some d'"
      by (auto simp: walk_object.simps [of seen d] split: token_result.split_asm token.split_asm if_split_asm option.split_asm)
    from 2(2) [OF True s(1) refl s(2,3,4,5)] s(4) show ?thesis by simp
  next
    case False
    with 2(3) show ?thesis
      by (auto simp: walk_object.simps [of seen d] split: token_result.split_asm if_split_asm dest: next_token_shorter)
  qed
next
  case (3 d)
  show ?case
  proof (cases "has_more d")
    case True
    with 3(3) obtain d2 where s: "walkJSONValue d = Some d2" "length (d_rest d2) < length (d_rest d)" "walk_array d2 = Some d'"
      by (auto simp: walk_array.simps [of d] split: if_split_asm option.split_asm)
    from 3(2) [OF True s] s(2) show ?thesis by simp
  next
    case False
    with 3(3) show ?thesis
      by (auto simp: walk_array.simps [of d] split: token_result.split_asm if_split_asm dest: next_token_shorter)
  qed
qed

definition ensureJSONEOF :: "string \<Rightarrow> bool" where
  "ensureJSONEOF rest \<longleftrightarrow> skip_ws rest = []"

definition rejectDuplicateJSONKeys :: "string \<Rightarrow> bool" where
  "rejectDuplicateJSONKeys data =
     (case walkJSONValue (new_decoder data) of None \<Rightarrow> True | Some d \<Rightarrow> \<not> ensureJSONEOF (d_rest d))"

subsection \<open>Strict decoding\<close>

text \<open>An object's members with the bytes of each value, as a \<open>RawMessage\<close> keeps them.\<close>

function raw_pairs :: "string \<Rightarrow> ((string \<times> string) list \<times> string) option" where
  "raw_pairs s =
     (case lex_key s of
        None \<Rightarrow> None
      | Some (k, s1) \<Rightarrow>
          (let s2 = skip_ws s1 in
           case parse_value maxNestingDepth s2 of
             None \<Rightarrow> None
           | Some (v, r) \<Rightarrow>
               (case skip_ws r of
                  [] \<Rightarrow> None
                | c # t \<Rightarrow>
                    if c = CHR ''}'' then Some ([(k, take (length s2 - length r) s2)], t)
                    else if c = CHR '','' \<and> length t < length s
                    then map_option (\<lambda>(ms, u). ((k, take (length s2 - length r) s2) # ms, u)) (raw_pairs t)
                    else None)))"
  by pat_completeness auto
termination by (relation "measure length") auto

declare raw_pairs.simps [simp del]

definition raw_object :: "string \<Rightarrow> ((string \<times> string) list) option" where
  "raw_object s =
     (case skip_ws s of
        [] \<Rightarrow> None
      | c # t \<Rightarrow>
          if c \<noteq> CHR ''{'' then None
          else (case skip_ws t of
             [] \<Rightarrow> None
           | d # u \<Rightarrow> if d = CHR ''}'' then Some [] else map_option fst (raw_pairs t)))"

text \<open>
  \<open>Decode\<close> into a struct with \<open>DisallowUnknownFields\<close>: a key is a field's name exactly or up to
  case, null leaves the target alone, and \<open>f\<close> assigns one field from the bytes of its value.
\<close>

fun strict_members :: "string list \<Rightarrow> (string \<Rightarrow> 'a \<Rightarrow> string \<Rightarrow> 'a option) \<Rightarrow> 'a \<Rightarrow> (string \<times> string) list \<Rightarrow> 'a option" where
  "strict_members keys f old [] = Some old"
| "strict_members keys f old ((k, raw) # ms) =
     (case match_key keys k of
        None \<Rightarrow> None
      | Some key \<Rightarrow> (case f key old raw of None \<Rightarrow> None | Some new \<Rightarrow> strict_members keys f new ms))"

definition strict_struct :: "string list \<Rightarrow> (string \<Rightarrow> 'a \<Rightarrow> string \<Rightarrow> 'a option) \<Rightarrow> 'a \<Rightarrow> string \<Rightarrow> 'a option" where
  "strict_struct keys f old raw =
     (if json_document raw = Some JNull then Some old
      else case raw_object raw of None \<Rightarrow> None | Some ms \<Rightarrow> strict_members keys f old ms)"

definition raw_text :: "string \<Rightarrow> string \<Rightarrow> string option" where
  "raw_text old raw = (case json_document raw of None \<Rightarrow> None | Some v \<Rightarrow> assign_text old v)"

text \<open>
  The body of a request: the failures of the reading, then the value. \<open>MaxBytesReader\<close> fails as
  soon as a byte beyond the limit arrives.
\<close>

datatype body_error = BodyTooLarge | BodyInvalid

definition read_body :: "nat \<Rightarrow> http_request \<Rightarrow> body_error + string" where
  "read_body limit rq =
     (if hr_MediaType rq \<noteq> Some ''application/json'' then Inl BodyInvalid
      else if limit < length (hr_Body rq) then Inl BodyTooLarge
      else if hr_BodyFails rq then Inl BodyInvalid
      else if trim_space (hr_Body rq) = [] \<or> \<not> valid_utf8 (hr_Body rq) then Inl BodyInvalid
      else if rejectDuplicateJSONKeys (hr_Body rq) then Inl BodyInvalid
      else Inr (hr_Body rq))"

definition decode_body :: "string list \<Rightarrow> (string \<Rightarrow> 'a \<Rightarrow> string \<Rightarrow> 'a option) \<Rightarrow> 'a \<Rightarrow> nat \<Rightarrow> http_request \<Rightarrow> body_error + 'a" where
  "decode_body keys f zero limit rq =
     (case read_body limit rq of
        Inl e \<Rightarrow> Inl e
      | Inr data \<Rightarrow>
      (case parse_value maxNestingDepth data of
         None \<Rightarrow> Inl BodyInvalid
       | Some (v, rest) \<Rightarrow>
           let raw = take (length data - length rest) data in
           (case strict_struct keys f zero raw of
              None \<Rightarrow> Inl BodyInvalid
            | Some x \<Rightarrow> if ensureJSONEOF rest then Inr x else Inl BodyInvalid)))"

lemma decode_body_Inr:
  assumes "decode_body keys f zero limit rq = Inr x"
  shows "hr_MediaType rq = Some ''application/json'' \<and> length (hr_Body rq) \<le> limit \<and> valid_utf8 (hr_Body rq)
    \<and> \<not> rejectDuplicateJSONKeys (hr_Body rq)"
  using assms by (auto simp: decode_body_def read_body_def split: if_split_asm sum.split_asm)

end
