(* ===== verification/RunApi.thy ===== *)
theory RunApi
  imports Http RunManager
begin

section \<open>The run endpoints (internal/server/run\_api.go)\<close>

text \<open>
  What the browser can ask of the run manager: preview, start, list, one run, cancel, and the
  stream of a run's events. The manager is known by its interface, a record of operations on a
  state \<open>'st\<close>; the optional ones are the Go interfaces a service may not implement. The stream is
  a sequence of rounds, each a wait for events and the frames written for its answer.
\<close>

record 'st run_service =
  rsv_Start :: "run_request \<Rightarrow> 'st \<Rightarrow> (run_error + run_snapshot) \<times> 'st"
  rsv_Get :: "string \<Rightarrow> 'st \<Rightarrow> run_snapshot option"
  rsv_Cancel :: "string \<Rightarrow> 'st \<Rightarrow> run_error option \<times> 'st"
  rsv_List :: "('st \<Rightarrow> run_summary list) option"
  rsv_Preview :: "(run_request \<Rightarrow> 'st \<Rightarrow> (run_error + run_preview) \<times> 'st) option"
  rsv_WaitEvents :: "(string \<Rightarrow> nat \<Rightarrow> 'st \<Rightarrow> run_error + event_batch option) option"

text \<open>A frame of a stream: an event under its run's id, the end of the run, a heartbeat.\<close>

datatype frame = EventFrame string run_event | CompleteFrame event_batch nat | Heartbeat

datatype run_json = PreviewJson run_preview | SnapshotJson run_snapshot | RunsJson "run_summary list"
  | EventStream "frame list"

subsection \<open>Requests\<close>

definition maxRunRequestBytes :: nat where "maxRunRequestBytes = 65536"

record create_run_request =
  cr_PackID :: string
  cr_CommandID :: string
  cr_Values :: "string dict"
  cr_Approval :: "(string \<times> string) option"

definition set_approval :: "string \<Rightarrow> string \<times> string \<Rightarrow> string \<Rightarrow> (string \<times> string) option" where
  "set_approval key old raw =
     (if key = ''id'' then map_option (\<lambda>t. (t, snd old)) (raw_text (fst old) raw)
      else map_option (\<lambda>t. (fst old, t)) (raw_text (snd old) raw))"

definition set_create_run :: "string \<Rightarrow> create_run_request \<Rightarrow> string \<Rightarrow> create_run_request option" where
  "set_create_run key old raw =
     (if key = ''packId'' then map_option (\<lambda>t. old\<lparr>cr_PackID := t\<rparr>) (raw_text (cr_PackID old) raw)
      else if key = ''commandId'' then map_option (\<lambda>t. old\<lparr>cr_CommandID := t\<rparr>) (raw_text (cr_CommandID old) raw)
      else if key = ''values'' then
        (if json_document raw = Some JNull then Some (old\<lparr>cr_Values := []\<rparr>)
         else map_option (\<lambda>ms. old\<lparr>cr_Values := foldl (\<lambda>d (k, v). AList.update k v d) (cr_Values old) ms\<rparr>) (raw_object raw))
      else if json_document raw = Some JNull then Some (old\<lparr>cr_Approval := None\<rparr>)
      else map_option (\<lambda>a. old\<lparr>cr_Approval := Some a\<rparr>)
             (strict_struct [''id'', ''confirmation''] set_approval
                (case cr_Approval old of None \<Rightarrow> ([], []) | Some a \<Rightarrow> a) raw))"

definition decodeCreateRunRequest :: "http_request \<Rightarrow> body_error + create_run_request" where
  "decodeCreateRunRequest rq =
     (case decode_body [''packId'', ''commandId'', ''values'', ''approval''] set_create_run
             \<lparr>cr_PackID = [], cr_CommandID = [], cr_Values = [], cr_Approval = None\<rparr> maxRunRequestBytes rq of
        Inl e \<Rightarrow> Inl e
      | Inr cr \<Rightarrow> if cr_PackID cr = [] \<or> cr_CommandID cr = [] then Inl BodyInvalid else Inr cr)"

definition body_reply :: "body_error \<Rightarrow> 'j response" where
  "body_reply e =
     (case e of BodyTooLarge \<Rightarrow> writeAPIError 413 CodeRequestTooLarge | BodyInvalid \<Rightarrow> writeAPIError 400 CodeInvalidRequest)"

definition writeRunError :: "run_error \<Rightarrow> 'j response" where
  "writeRunError e =
     (case e of
        Unexpected \<Rightarrow> writeAPIError 500 CodeInternalError
      | RunError code field0 \<Rightarrow>
        (case code of
           ErrInvalidRequest \<Rightarrow>
             writeAPIFieldError 400 (if has_prefix ''values.'' field0 then CodeInvalidInput else CodeInvalidRequest) field0
         | ErrRunToolUnavailable \<Rightarrow> writeAPIError 409 CodeToolUnavailable
         | ErrToolChanged \<Rightarrow> writeAPIError 409 CodeToolChanged
         | ErrPolicyBlocked \<Rightarrow> writeAPIError 403 CodeCommandBlocked
         | ErrApprovalRequired \<Rightarrow> writeAPIError 409 CodeApprovalRequired
         | ErrContextUnavailable \<Rightarrow> writeAPIError 409 CodeExecutionContextUnavailable
         | ErrAuditUnavailable \<Rightarrow> writeAPIError 503 CodeAuditUnavailable
         | ErrCapacity \<Rightarrow> writeAPIError 429 CodeRunCapacity
         | ErrNotFound \<Rightarrow> writeAPIError 404 CodeRunNotFound
         | ErrClosed \<Rightarrow> writeAPIError 503 CodeRuntimeClosed
         | ErrInvalidCursor \<Rightarrow> writeAPIError 400 CodeInvalidCursor))"

subsection \<open>Preview, start, list\<close>

definition handleRunPreview :: "'st run_service \<Rightarrow> http_request \<Rightarrow> 'st \<Rightarrow> run_json response \<times> 'st" where
  "handleRunPreview svc rq st =
     (if hr_Method rq \<noteq> ''POST'' then (not_allowed ''POST'', st)
      else case rsv_Preview svc of
        None \<Rightarrow> (writeAPIError 500 CodeInternalError, st)
      | Some preview \<Rightarrow>
      (case decodeCreateRunRequest rq of
        Inl e \<Rightarrow> (body_reply e, st)
      | Inr cr \<Rightarrow>
      if cr_Approval cr \<noteq> None then (writeAPIError 400 CodeInvalidRequest, st)
      else (case preview \<lparr>rn_PackID = cr_PackID cr, rn_CommandID = cr_CommandID cr, rn_Values = cr_Values cr,
                          rn_Approval = None\<rparr> st of
          (Inl e, st') \<Rightarrow> (writeRunError e, st')
        | (Inr pw, st') \<Rightarrow> (writeJSON 200 (PreviewJson pw), st'))))"

definition handleRunList :: "'st run_service \<Rightarrow> 'st \<Rightarrow> run_json response" where
  "handleRunList svc st =
     (case rsv_List svc of
        None \<Rightarrow> writeAPIError 500 CodeInternalError
      | Some lister \<Rightarrow> writeJSON 200 (RunsJson (lister st)))"

definition handleRuns :: "'st run_service \<Rightarrow> http_request \<Rightarrow> 'st \<Rightarrow> run_json response \<times> 'st" where
  "handleRuns svc rq st =
     (if hr_Method rq = ''GET'' then (handleRunList svc st, st)
      else if hr_Method rq = ''POST'' then
        (case decodeCreateRunRequest rq of
           Inl e \<Rightarrow> (body_reply e, st)
         | Inr cr \<Rightarrow>
           (case rsv_Start svc \<lparr>rn_PackID = cr_PackID cr, rn_CommandID = cr_CommandID cr, rn_Values = cr_Values cr,
                  rn_Approval = map_option (\<lambda>(i, c). \<lparr>as_ID = i, as_Confirmation = c\<rparr>) (cr_Approval cr)\<rparr> st of
              (Inl e, st') \<Rightarrow> (writeRunError e, st')
            | (Inr snap, st') \<Rightarrow> (writeJSON 202 (SnapshotJson snap), st')))
      else (not_allowed ''GET, POST'', st))"

subsection \<open>The stream\<close>

text \<open>
  One round: the state the wait sees when it returns, whether the stream was cancelled by then,
  and how many frames go out before a write fails, if one does.
\<close>

record 'st stream_round =
  sr_state :: 'st
  sr_cancelled :: bool
  sr_writes :: "nat option"

record 'st stream_env =
  se_deadlineOk :: bool
  se_flushOk :: bool
  se_rounds :: "'st stream_round list"

datatype look = LookBatch event_batch | LookTimeout | LookError "run_error option"

definition stream_look :: "(string \<Rightarrow> nat \<Rightarrow> 'st \<Rightarrow> run_error + event_batch option) \<Rightarrow> string \<Rightarrow> nat \<Rightarrow> 'st stream_round \<Rightarrow> look" where
  "stream_look wait rid cursor r =
     (if sr_cancelled r then LookError None
      else case wait rid cursor (sr_state r) of
        Inl e \<Rightarrow> LookError (Some e)
      | Inr None \<Rightarrow> LookTimeout
      | Inr (Some b) \<Rightarrow> LookBatch b)"

text \<open>The frames that go out, and whether all did.\<close>

definition send_frames :: "'st stream_round \<Rightarrow> frame list \<Rightarrow> frame list \<times> bool" where
  "send_frames r fs =
     (case sr_writes r of
        None \<Rightarrow> (fs, True)
      | Some n \<Rightarrow> (take n fs, length fs \<le> n))"

fun batch_cursor :: "nat \<Rightarrow> run_event list \<Rightarrow> nat" where
  "batch_cursor cursor [] = cursor"
| "batch_cursor cursor (e # es) = batch_cursor (ev_Sequence e) es"

definition writeSSEBatch :: "event_batch \<Rightarrow> nat \<Rightarrow> nat \<times> bool \<times> frame list" where
  "writeSSEBatch b cursor =
     (let c = batch_cursor cursor (eb_Events b); fs = map (EventFrame (eb_RunID b)) (eb_Events b)
      in if eb_Complete b then (c, True, fs @ [CompleteFrame b c]) else (c, False, fs))"

fun stream_frames ::
    "(string \<Rightarrow> nat \<Rightarrow> 'st \<Rightarrow> run_error + event_batch option) \<Rightarrow> string \<Rightarrow> nat \<Rightarrow> 'st stream_round list \<Rightarrow> frame list" where
  "stream_frames wait rid cursor [] = []"
| "stream_frames wait rid cursor (r # rs) =
     (case stream_look wait rid cursor r of
        LookError e \<Rightarrow> []
      | LookTimeout \<Rightarrow>
          let (out, ok) = send_frames r [Heartbeat] in out @ (if ok then stream_frames wait rid cursor rs else [])
      | LookBatch b \<Rightarrow>
          let (c, complete, fs) = writeSSEBatch b cursor; (out, ok) = send_frames r fs
          in out @ (if ok \<and> \<not> complete then stream_frames wait rid c rs else []))"

definition parseLastEventID :: "string \<Rightarrow> nat option" where
  "parseLastEventID v =
     (if v = [] then Some 0
      else if trim_space v \<noteq> v then None
      else if \<not> (\<forall>c \<in> set v. is_digit c) then None
      else parse_uint64 v)"

definition writeRunStreamError :: "run_error option \<Rightarrow> 'j response" where
  "writeRunStreamError e =
     (case e of
        Some (RunError code _) \<Rightarrow>
          (if code = ErrNotFound then writeAPIError 404 CodeRunNotFound
           else if code = ErrInvalidCursor then writeAPIError 400 CodeInvalidCursor
           else writeAPIError 503 CodeStreamUnavailable)
      | _ \<Rightarrow> writeAPIError 503 CodeStreamUnavailable)"

definition event_stream :: "frame list \<Rightarrow> run_json response" where
  "event_stream fs =
     \<lparr>rp_Status = 200,
      rp_Headers = [(''Content-Type'', ''text/event-stream; charset=utf-8''), (''Connection'', ''keep-alive'')],
      rp_Body = Json (EventStream fs)\<rparr>"

text \<open>\<open>free\<close> is whether a slot for one more stream is free; it is given back when the stream ends.\<close>

definition handleRunEvents ::
    "'st run_service \<Rightarrow> bool \<Rightarrow> 'st stream_env \<Rightarrow> http_request \<Rightarrow> string \<Rightarrow> run_json response" where
  "handleRunEvents svc free env rq rid =
     (case rsv_WaitEvents svc of
        None \<Rightarrow> writeAPIError 503 CodeStreamUnavailable
      | Some wait \<Rightarrow>
      (case parseLastEventID (hr_LastEventID rq) of
        None \<Rightarrow> writeAPIError 400 CodeInvalidCursor
      | Some cursor \<Rightarrow>
      if \<not> free then writeAPIError 429 CodeStreamCapacity
      else (case se_rounds env of
        [] \<Rightarrow> writeRunStreamError None
      | r # rs \<Rightarrow>
        (case stream_look wait rid cursor r of
           LookError e \<Rightarrow> writeRunStreamError e
         | _ \<Rightarrow>
             if \<not> se_deadlineOk env then writeAPIError 500 CodeStreamUnavailable
             else if \<not> se_flushOk env then event_stream []
             else event_stream (stream_frames wait rid cursor (r # rs))))))"

subsection \<open>One run\<close>

definition handleRunByID ::
    "'st run_service \<Rightarrow> bool \<Rightarrow> 'st stream_env \<Rightarrow> http_request \<Rightarrow> 'st \<Rightarrow> run_json response \<times> 'st" where
  "handleRunByID svc free env rq st =
     (let relative = (if has_prefix ''/api/v1/runs/'' (hr_Path rq) then drop 13 (hr_Path rq) else hr_Path rq);
          parts = split_at slash relative; rid = hd parts in
      if relative = [] then (writeResourceNotFound, st)
      else if length parts = 1 \<and> hr_Method rq = ''GET'' then
        (case rsv_Get svc rid st of
           None \<Rightarrow> (writeAPIError 404 CodeRunNotFound, st)
         | Some snap \<Rightarrow> (writeJSON 200 (SnapshotJson snap), st))
      else if length parts = 2 \<and> parts ! 1 = ''events'' \<and> hr_Method rq = ''GET''
      then (handleRunEvents svc free env rq rid, st)
      else if length parts = 2 \<and> parts ! 1 = ''cancel'' \<and> hr_Method rq = ''POST'' then
        (case rsv_Cancel svc rid st of
           (Some e, st') \<Rightarrow> (writeRunError e, st')
         | (None, st') \<Rightarrow>
             (case rsv_Get svc rid st' of
                None \<Rightarrow> (writeAPIError 404 CodeRunNotFound, st')
              | Some snap \<Rightarrow> (writeJSON 202 (SnapshotJson snap), st')))
      else if length parts = 1 \<or> (length parts = 2 \<and> parts ! 1 = ''events'') then (not_allowed ''GET'', st)
      else if length parts = 2 \<and> parts ! 1 = ''cancel'' then (not_allowed ''POST'', st)
      else (writeResourceNotFound, st))"

subsection \<open>Repeated fields\<close>

text \<open>
  The walk over the body compares keys byte for byte, while the decoder takes a key for a field up
  to case: a field written a second time in another case passes the walk, and its value counts.
\<close>

definition sample_twice :: http_request where
  "sample_twice = \<lparr>hr_Method = ''POST'', hr_Host = [], hr_Path = ''/api/v1/runs'', hr_EscapedPath = ''/api/v1/runs'', hr_Query = [],
     hr_Origin = [], hr_CSRF = [], hr_Cookie = None, hr_Authorization = [], hr_ProxyAuthorization = [],
     hr_LastEventID = [], hr_MediaType = Some ''application/json'',
     hr_ContentLength = 0,
     hr_Body = ''{'' @ quote ''packId'' @ '':'' @ quote ''a'' @ '','' @ quote ''PACKID'' @ '':'' @ quote ''b'' @ '',''
       @ quote ''commandId'' @ '':'' @ quote ''c'' @ ''}'', hr_BodyFails = False\<rparr>"

lemma respelled_field_overrides:
  "decodeCreateRunRequest sample_twice = Inr \<lparr>cr_PackID = ''b'', cr_CommandID = ''c'', cr_Values = [], cr_Approval = None\<rparr>"
  by code_simp

end
