(* ===== verification/ServiceApi.thy ===== *)
theory ServiceApi
  imports Http SecretAudit StateRemoval TerraformFormat
begin

section \<open>The other endpoints (internal/server/*\_api.go, tool\_install.go, terraform\_state\_removal.go)\<close>

text \<open>
  The catalogue lists, tool installation, vendor sign-in and configuration, the secret audit and
  the Terraform operations, each behind the interface its service implements. A service fails with
  an error of its own kind or with any other one; the browser sees a fixed failure for either.
\<close>

datatype 'e failure = Coded 'e | Foreign

subsection \<open>Catalogue (task\_api.go, tool\_api.go, platform\_api.go, audit\_api.go)\<close>

record task_validation =
  tkv_Min :: "int option"
  tkv_Max :: "int option"
  tkv_MinLength :: "int option"
  tkv_MaxLength :: "int option"
  tkv_Pattern :: string
  tkv_Enum :: "string list"
  tkv_DisallowLeadingDash :: bool

record task_input =
  tki_ID :: string
  tki_Type :: string
  tki_Label :: string
  tki_Required :: bool
  tki_Validation :: task_validation

record task_impact =
  tkm_TargetInput :: string
  tkm_TargetLabel :: string
  tkm_Effect :: string
  tkm_Scope :: string

record server_task =
  stk_PackID :: string
  stk_PackName :: string
  stk_CommandID :: string
  stk_Name :: string
  stk_Description :: string
  stk_ToolID :: string
  stk_ToolVersion :: string
  stk_Risk :: string
  stk_Impact :: "task_impact option"
  stk_RequiresAuth :: bool
  stk_Inputs :: "task_input list"

datatype login_method = LoginMethodConjurPassword | LoginMethodConjurVendorLogin

record vendor_session_check =
  vsc_CommandID :: string
  vsc_UnauthenticatedStderrContains :: string

record login_capability =
  lcp_Method :: login_method
  lcp_SetupRequired :: bool

record install_capability =
  icp_Version :: string
  icp_CustomLocation :: bool

record tool_diagnostic =
  tdg_PackID :: string
  tdg_PackName :: string
  tdg_PackVersion :: string
  tdg_ToolID :: string
  tdg_Status :: string
  tdg_Version :: string
  tdg_VersionConstraint :: string
  tdg_Message :: string
  tdg_RequiresVendorSession :: bool
  tdg_SessionCheck :: "vendor_session_check option"
  tdg_CredentialLogin :: "login_capability option"
  tdg_Install :: "install_capability option"

record server_platform =
  spl_ID :: string
  spl_Name :: string
  spl_Summary :: string
  spl_PackID :: string
  spl_ToolID :: string
  spl_Ready :: bool
  spl_Features :: "(string \<times> string) list"

record credential_connection =
  ccn_Environment :: string
  ccn_ApplianceURL :: string
  ccn_Account :: string
  ccn_Configurable :: bool

record install_result =
  ir_Installed :: bool
  ir_Version :: string
  ir_RestartRequired :: bool
  ir_Message :: string

record refresh_result =
  rf_Status :: string
  rf_Ready :: bool
  rf_Notice :: string

datatype service_json =
    AuditJson "entry list" | TasksJson "server_task list" | ToolsJson "tool_diagnostic list"
  | PlatformsJson "server_platform list" | ConnectionJson credential_connection
  | InstallJson install_result | RefreshJson refresh_result | SecretAuditJson secret_snapshot
  | ProjectsJson "tf_project list" | ResourcesJson "tf_resource list" | FormatJson format_report
  | RemovalPreviewJson preview_answer | RemovalResultJson removal_result

definition get_only :: "http_request \<Rightarrow> 'j response \<Rightarrow> 'j response" where
  "get_only rq answer = (if hr_Method rq \<noteq> ''GET'' then not_allowed ''GET'' else answer)"

definition handleAuditTrail :: "entry list \<Rightarrow> http_request \<Rightarrow> service_json response" where
  "handleAuditTrail es rq = get_only rq (writeJSON 200 (AuditJson es))"

definition handleTasks :: "server_task list \<Rightarrow> http_request \<Rightarrow> service_json response" where
  "handleTasks ts rq = get_only rq (writeJSON 200 (TasksJson ts))"

definition handleTools :: "tool_diagnostic list \<Rightarrow> http_request \<Rightarrow> service_json response" where
  "handleTools ts rq = get_only rq (writeJSON 200 (ToolsJson ts))"

definition handlePlatforms :: "server_platform list \<Rightarrow> http_request \<Rightarrow> service_json response" where
  "handlePlatforms ps rq = get_only rq (writeJSON 200 (PlatformsJson ps))"

subsection \<open>Fields of a body\<close>

text \<open>A struct of texts only, as the list of its fields' values in the order of \<open>keys\<close>.\<close>

definition set_text :: "string list \<Rightarrow> string \<Rightarrow> string dict \<Rightarrow> string \<Rightarrow> string dict option" where
  "set_text keys key old raw =
     map_option (\<lambda>t. AList.update key t old) (raw_text (case get old key of None \<Rightarrow> [] | Some t \<Rightarrow> t) raw)"

definition decode_texts :: "string list \<Rightarrow> nat \<Rightarrow> http_request \<Rightarrow> body_error + string dict" where
  "decode_texts keys limit rq = decode_body keys (set_text keys) [] limit rq"

definition text_of :: "string dict \<Rightarrow> string \<Rightarrow> string" where
  "text_of fs key = (case get fs key of None \<Rightarrow> [] | Some t \<Rightarrow> t)"

subsection \<open>Tool installation (tool\_install.go)\<close>

datatype install_error = ToolInstallUnsupported | ToolInstallUnavailable | ToolInstallInvalidLocation | ToolInstallOther string

record install_request =
  irq_PackID :: string
  irq_ToolID :: string
  irq_InstallRoot :: string

definition maxToolInstallRequestBytes :: nat where "maxToolInstallRequestBytes = 4096"

definition decodeToolInstallRequest :: "http_request \<Rightarrow> install_request option" where
  "decodeToolInstallRequest rq =
     (case decode_texts [''packId'', ''toolId'', ''installRoot''] maxToolInstallRequestBytes rq of
        Inl e \<Rightarrow> None
      | Inr fs \<Rightarrow>
          let pack = text_of fs ''packId''; tid = text_of fs ''toolId''; root = text_of fs ''installRoot'' in
          if \<not> validCredentialTargetID pack \<or> \<not> validCredentialTargetID tid then None
          else if 4096 < length root then None
          else if \<exists>r \<in> set (runes root). r \<le> 0x1F \<or> r = 0x7F then None
          else Some \<lparr>irq_PackID = pack, irq_ToolID = tid, irq_InstallRoot = root\<rparr>)"

definition writeToolInstallError :: "install_error failure \<Rightarrow> 'j response" where
  "writeToolInstallError e =
     (case e of
        Coded ToolInstallUnsupported \<Rightarrow> writeAPIError 409 CodeCommandBlocked
      | Coded ToolInstallUnavailable \<Rightarrow> writeAPIError 503 CodeToolUnavailable
      | Coded ToolInstallInvalidLocation \<Rightarrow> writeAPIFieldError 422 CodeInvalidInput ''installRoot''
      | _ \<Rightarrow> writeAPIError 500 CodeInternalError)"

definition handleToolInstall ::
    "(install_request \<Rightarrow> 'st \<Rightarrow> (install_error failure + install_result) \<times> 'st) \<Rightarrow> http_request \<Rightarrow> 'st
      \<Rightarrow> service_json response \<times> 'st" where
  "handleToolInstall install rq st =
     (if hr_Method rq \<noteq> ''POST'' then (not_allowed ''POST'', st)
      else case decodeToolInstallRequest rq of
        None \<Rightarrow> (writeAPIError 400 CodeInvalidRequest, st)
      | Some req \<Rightarrow>
        (case install req st of
           (Inl e, st') \<Rightarrow> (writeToolInstallError e, st')
         | (Inr r, st') \<Rightarrow> (writeJSON 200 (InstallJson r), st')))"

text \<open>The request's context may be cancelled when a refresh fails; then nothing is written.\<close>

definition handleToolRefresh ::
    "(install_request \<Rightarrow> 'st \<Rightarrow> (install_error failure + refresh_result) \<times> 'st) \<Rightarrow> bool \<Rightarrow> http_request \<Rightarrow> 'st
      \<Rightarrow> service_json response \<times> 'st" where
  "handleToolRefresh refresh cancelled rq st =
     (if hr_Method rq \<noteq> ''POST'' then (not_allowed ''POST'', st)
      else case decodeToolInstallRequest rq of
        None \<Rightarrow> (writeAPIError 400 CodeInvalidRequest, st)
      | Some req \<Rightarrow>
          if irq_InstallRoot req \<noteq> [] then (writeAPIError 400 CodeInvalidRequest, st)
          else (case refresh req st of
             (Inl e, st') \<Rightarrow> (if cancelled then \<lparr>rp_Status = 200, rp_Headers = [], rp_Body = NoBody\<rparr>
                               else writeToolInstallError e, st')
           | (Inr r, st') \<Rightarrow> (writeJSON 200 (RefreshJson r), st')))"

subsection \<open>Vendor sign-in (credential\_api.go, credential\_interactive\_api.go)\<close>

datatype login_error = LoginUnsupported | LoginRejected | LoginUnavailable | LoginBusy | LoginOther string

record login_request =
  lrq_PackID :: string
  lrq_ToolID :: string
  lrq_Identity :: string
  lrq_Secret :: string

definition maxCredentialLoginRequestBytes :: nat where "maxCredentialLoginRequestBytes = 8192"

definition decodeCredentialLoginRequest :: "http_request \<Rightarrow> login_request option" where
  "decodeCredentialLoginRequest rq =
     (case decode_texts [''packId'', ''toolId'', ''identity'', ''secret''] maxCredentialLoginRequestBytes rq of
        Inl e \<Rightarrow> None
      | Inr fs \<Rightarrow>
          let pack = text_of fs ''packId''; tid = text_of fs ''toolId''; who = trim_space (text_of fs ''identity'');
              key = text_of fs ''secret'' in
          if \<not> validCredentialTargetID pack \<or> \<not> validCredentialTargetID tid then None
          else if who = [] \<or> 256 < length who \<or> containsControlCharacter who then None
          else if key = [] \<or> 4096 < length key \<or> CHR 0x00 \<in> set key then None
          else Some \<lparr>lrq_PackID = pack, lrq_ToolID = tid, lrq_Identity = who, lrq_Secret = key\<rparr>)"

definition writeCredentialLoginError :: "login_error failure \<Rightarrow> 'j response" where
  "writeCredentialLoginError e =
     (case e of
        Coded LoginUnsupported \<Rightarrow> writeAPIError 409 CodeAuthenticationUnsupported
      | Coded LoginRejected \<Rightarrow> writeAPIError 422 CodeAuthenticationFailed
      | Coded LoginUnavailable \<Rightarrow> writeAPIError 503 CodeAuthenticationUnavailable
      | Coded LoginBusy \<Rightarrow> writeAPIError 429 CodeAuthenticationBusy
      | _ \<Rightarrow> writeAPIError 500 CodeInternalError)"

definition login_reply :: "login_error failure option \<times> 'st \<Rightarrow> 'j response \<times> 'st" where
  "login_reply r = (case r of (Some e, st') \<Rightarrow> (writeCredentialLoginError e, st') | (None, st') \<Rightarrow> (no_content, st'))"

definition handleCredentialLogin ::
    "(login_request \<Rightarrow> 'st \<Rightarrow> login_error failure option \<times> 'st) \<Rightarrow> http_request \<Rightarrow> 'st \<Rightarrow> service_json response \<times> 'st" where
  "handleCredentialLogin login rq st =
     (if hr_Method rq \<noteq> ''POST'' then (not_allowed ''POST'', st)
      else case decodeCredentialLoginRequest rq of
        None \<Rightarrow> (writeAPIError 400 CodeInvalidRequest, st)
      | Some req \<Rightarrow> login_reply (login req st))"

definition maxCredentialInteractiveLoginRequestBytes :: nat where "maxCredentialInteractiveLoginRequestBytes = 4096"

definition decodeCredentialInteractiveLoginRequest :: "http_request \<Rightarrow> (string \<times> string) option" where
  "decodeCredentialInteractiveLoginRequest rq =
     (case decode_texts [''packId'', ''toolId''] maxCredentialInteractiveLoginRequestBytes rq of
        Inl e \<Rightarrow> None
      | Inr fs \<Rightarrow>
          if \<not> validCredentialTargetID (text_of fs ''packId'') \<or> \<not> validCredentialTargetID (text_of fs ''toolId'') then None
          else Some (text_of fs ''packId'', text_of fs ''toolId''))"

definition handleCredentialInteractiveLogin ::
    "(string \<times> string \<Rightarrow> 'st \<Rightarrow> login_error failure option \<times> 'st) \<Rightarrow> http_request \<Rightarrow> 'st \<Rightarrow> service_json response \<times> 'st" where
  "handleCredentialInteractiveLogin launch rq st =
     (if hr_Method rq \<noteq> ''POST'' then (not_allowed ''POST'', st)
      else case decodeCredentialInteractiveLoginRequest rq of
        None \<Rightarrow> (writeAPIError 400 CodeInvalidRequest, st)
      | Some req \<Rightarrow> login_reply (launch req st))"

subsection \<open>Vendor connection (credential\_config\_api.go)\<close>

record configuration_request =
  cfq_PackID :: string
  cfq_ToolID :: string
  cfq_Environment :: string
  cfq_ApplianceURL :: string
  cfq_ExpectedApplianceURL :: string
  cfq_Account :: string
  cfq_AuthnType :: string
  cfq_ServiceID :: string

definition maxCredentialConfigurationRequestBytes :: nat where "maxCredentialConfigurationRequestBytes = 8192"

definition configuration_of :: "string dict \<Rightarrow> configuration_request" where
  "configuration_of fs =
     \<lparr>cfq_PackID = text_of fs ''packId'', cfq_ToolID = text_of fs ''toolId'',
      cfq_Environment = to_lower (trim_space (text_of fs ''environment'')),
      cfq_ApplianceURL = trim_space (text_of fs ''applianceUrl''),
      cfq_ExpectedApplianceURL = trim_space (text_of fs ''expectedApplianceUrl''),
      cfq_Account = trim_space (text_of fs ''account''), cfq_AuthnType = to_lower (trim_space (text_of fs ''authnType'')),
      cfq_ServiceID = trim_space (text_of fs ''serviceId'')\<rparr>"

definition configuration_ok :: "(string \<Rightarrow> parsed_url option) \<Rightarrow> configuration_request \<Rightarrow> bool" where
  "configuration_ok parse c \<longleftrightarrow>
     (if \<not> validCredentialTargetID (cfq_PackID c) \<or> \<not> validCredentialTargetID (cfq_ToolID c) then False
      else if \<not> validateCredentialConfigurationURL parse (cfq_ApplianceURL c) then False
      else if cfq_ExpectedApplianceURL c \<noteq> [] \<and> \<not> validateCredentialConfigurationURL parse (cfq_ExpectedApplianceURL c) then False
      else if cfq_Environment c = ''saas'' then cfq_Account c = ''conjur'' \<and> cfq_AuthnType c = ''cloud'' \<and> cfq_ServiceID c = []
      else if cfq_Environment c \<noteq> [] then False
      else if cfq_ExpectedApplianceURL c \<noteq> [] then False
      else if cfq_Account c = [] \<or> 256 < length (cfq_Account c) \<or> containsControlCharacter (cfq_Account c) then False
      else if cfq_AuthnType c = ''authn'' then cfq_ServiceID c = []
      else if cfq_AuthnType c = ''ldap''
      then \<not> (cfq_ServiceID c = [] \<or> 256 < length (cfq_ServiceID c) \<or> containsControlCharacter (cfq_ServiceID c))
      else False)"

definition decodeCredentialConfigurationRequest :: "(string \<Rightarrow> parsed_url option) \<Rightarrow> http_request \<Rightarrow> configuration_request option" where
  "decodeCredentialConfigurationRequest parse rq =
     (case decode_texts [''packId'', ''toolId'', ''environment'', ''applianceUrl'', ''expectedApplianceUrl'', ''account'',
                         ''authnType'', ''serviceId''] maxCredentialConfigurationRequestBytes rq of
        Inl e \<Rightarrow> None
      | Inr fs \<Rightarrow> let c = configuration_of fs in if configuration_ok parse c then Some c else None)"

text \<open>Reading the connection is optional for a service.\<close>

record 'st configuration_service =
  cfs_Configure :: "configuration_request \<Rightarrow> 'st \<Rightarrow> login_error failure option \<times> 'st"
  cfs_Connection :: "('st \<Rightarrow> login_error failure + credential_connection) option"

definition handleCredentialConfiguration ::
    "(string \<Rightarrow> parsed_url option) \<Rightarrow> 'st configuration_service \<Rightarrow> http_request \<Rightarrow> 'st \<Rightarrow> service_json response \<times> 'st" where
  "handleCredentialConfiguration parse svc rq st =
     (if hr_Method rq = ''GET'' then
        (case cfs_Connection svc of
           None \<Rightarrow> (writeAPIError 409 CodeAuthenticationUnsupported, st)
         | Some reader \<Rightarrow>
             (case reader st of
                Inl e \<Rightarrow> (writeCredentialLoginError e, st)
              | Inr c \<Rightarrow> (writeJSON 200 (ConnectionJson c), st)))
      else if hr_Method rq \<noteq> ''POST'' then (not_allowed ''GET, POST'', st)
      else case decodeCredentialConfigurationRequest parse rq of
        None \<Rightarrow> (writeAPIError 400 CodeInvalidRequest, st)
      | Some c \<Rightarrow> login_reply (cfs_Configure svc c st))"

subsection \<open>The secret audit (secret\_audit\_api.go)\<close>

definition maxSecretAuditRequestBytes :: nat where "maxSecretAuditRequestBytes = 4096"

definition decodeSecretAuditRequest ::
    "ext_lib \<Rightarrow> (string \<Rightarrow> parsed_url option) \<Rightarrow> http_request \<Rightarrow> secret_request option" where
  "decodeSecretAuditRequest lib parse rq =
     (case decode_texts [''packId'', ''toolId'', ''minimumConfidence'', ''applianceUrl'', ''scanType'', ''pattern'']
             maxSecretAuditRequestBytes rq of
        Inl e \<Rightarrow> None
      | Inr fs \<Rightarrow>
          let req = \<lparr>sq_PackID = text_of fs ''packId'', sq_ToolID = text_of fs ''toolId'',
                sq_MinimumConfidence = text_of fs ''minimumConfidence'', sq_ApplianceURL = text_of fs ''applianceUrl'',
                sq_ScanType = text_of fs ''scanType'', sq_Pattern = text_of fs ''pattern''\<rparr>
          in if ValidateSecretAuditRequest lib parse req then Some req else None)"

record 'st audit_service =
  aus_Snapshot :: "'st \<Rightarrow> secret_snapshot"
  aus_Start :: "secret_request \<Rightarrow> 'st \<Rightarrow> (start_error option \<times> secret_snapshot) \<times> 'st"
  aus_Cancel :: "'st \<Rightarrow> secret_snapshot \<times> 'st"

definition handleSecretAudit ::
    "ext_lib \<Rightarrow> (string \<Rightarrow> parsed_url option) \<Rightarrow> 'st audit_service \<Rightarrow> http_request \<Rightarrow> 'st \<Rightarrow> service_json response \<times> 'st" where
  "handleSecretAudit lib parse svc rq st =
     (if hr_Method rq = ''GET'' then (writeJSON 200 (SecretAuditJson (aus_Snapshot svc st)), st)
      else if hr_Method rq = ''POST'' then
        (case decodeSecretAuditRequest lib parse rq of
           None \<Rightarrow> (writeAPIError 400 CodeInvalidRequest, st)
         | Some req \<Rightarrow>
           (case aus_Start svc req st of
              ((Some ErrSecretAuditInvalidRequest, _), st') \<Rightarrow> (writeAPIError 400 CodeInvalidRequest, st')
            | ((Some ErrSecretAuditUnavailable, _), st') \<Rightarrow> (writeAPIError 409 CodeToolUnavailable, st')
            | ((None, snap), st') \<Rightarrow> (writeJSON 202 (SecretAuditJson snap), st')))
      else if hr_Method rq = ''DELETE''
      then (case aus_Cancel svc st of (snap, st') \<Rightarrow> (writeJSON 200 (SecretAuditJson snap), st'))
      else (not_allowed ''GET, POST, DELETE'', st))"

subsection \<open>Terraform (terraform\_api.go, terraform\_state\_removal.go)\<close>

definition terraformSelector :: "string \<Rightarrow> bool" where
  "terraformSelector v \<longleftrightarrow> v \<noteq> [] \<and> length v \<le> 80
     \<and> (\<forall>c \<in> set v. (97 \<le> byte c \<and> byte c \<le> 122) \<or> is_digit c \<or> c = CHR ''-'')"

definition terraformPreviewID :: "string \<Rightarrow> bool" where
  "terraformPreviewID v \<longleftrightarrow> length v = 43
     \<and> (\<forall>c \<in> set v. (65 \<le> byte c \<and> byte c \<le> 90) \<or> (97 \<le> byte c \<and> byte c \<le> 122) \<or> is_digit c \<or> c = CHR ''_'' \<or> c = CHR ''-'')"

record 'st removal_service =
  rms_Preview :: "preview_request \<Rightarrow> 'st \<Rightarrow> (removal_error failure + preview_answer) \<times> 'st"
  rms_Execute :: "execute_request \<Rightarrow> 'st \<Rightarrow> (removal_error failure + removal_result) \<times> 'st"

record 'st terraform_service =
  tfs_Projects :: "'st \<Rightarrow> tf_project list option"
  tfs_Resources :: "string \<Rightarrow> string \<Rightarrow> 'st \<Rightarrow> tf_resource list option"
  tfs_FormatCheck :: "string \<Rightarrow> 'st \<Rightarrow> format_report option \<times> 'st"
  tfs_Removal :: "'st removal_service option"

definition handleTerraformProjects :: "'st terraform_service \<Rightarrow> http_request \<Rightarrow> 'st \<Rightarrow> service_json response" where
  "handleTerraformProjects svc rq st =
     get_only rq (case tfs_Projects svc st of
        None \<Rightarrow> writeAPIError 409 CodeExecutionContextUnavailable
      | Some ps \<Rightarrow> writeJSON 200 (ProjectsJson ps))"

definition query_first :: "http_request \<Rightarrow> string \<Rightarrow> string" where
  "query_first rq key = (case get (hr_Query rq) key of Some (v # _) \<Rightarrow> v | _ \<Rightarrow> [])"

definition query_single :: "http_request \<Rightarrow> string \<Rightarrow> bool" where
  "query_single rq key \<longleftrightarrow> (case get (hr_Query rq) key of Some [v] \<Rightarrow> True | _ \<Rightarrow> False)"

definition handleTerraformResources :: "'st terraform_service \<Rightarrow> http_request \<Rightarrow> 'st \<Rightarrow> service_json response" where
  "handleTerraformResources svc rq st =
     get_only rq
      (let project = query_first rq ''project''; state = query_first rq ''state'' in
       if \<not> terraformSelector project \<or> \<not> terraformSelector state \<or> length (hr_Query rq) \<noteq> 2
         \<or> \<not> query_single rq ''project'' \<or> \<not> query_single rq ''state''
       then writeAPIError 400 CodeInvalidInput
       else (case tfs_Resources svc project state st of
          None \<Rightarrow> writeAPIError 409 CodeExecutionContextUnavailable
        | Some rs \<Rightarrow> writeJSON 200 (ResourcesJson rs)))"

definition handleTerraformFormatCheck :: "'st terraform_service \<Rightarrow> http_request \<Rightarrow> 'st \<Rightarrow> service_json response \<times> 'st" where
  "handleTerraformFormatCheck svc rq st =
     (if hr_Method rq \<noteq> ''POST'' then (not_allowed ''POST'', st)
      else if length (hr_Query rq) \<noteq> 1 \<or> \<not> query_single rq ''project'' \<or> \<not> terraformSelector (query_first rq ''project'')
        \<or> hr_ContentLength rq \<noteq> 0
      then (writeAPIError 400 CodeInvalidInput, st)
      else (case tfs_FormatCheck svc (query_first rq ''project'') st of
         (None, st') \<Rightarrow> (writeAPIError 409 CodeExecutionContextUnavailable, st')
       | (Some rep, st') \<Rightarrow> (writeJSON 200 (FormatJson rep), st')))"

definition maxTerraformRemovalAddresses :: nat where "maxTerraformRemovalAddresses = 50"
definition maxTerraformRemovalRequestBytes :: nat where "maxTerraformRemovalRequestBytes = 65536"

definition safeLine :: "string \<Rightarrow> bool" where
  "safeLine v \<longleftrightarrow> valid_utf8 v
     \<and> (\<forall>r \<in> set (runes v). \<not> (r < 0x20 \<or> r = 0x7F \<or> (0x80 \<le> r \<and> r < 0xA0) \<or> r = 0x2028 \<or> r = 0x2029))"

fun addresses_ok :: "string list \<Rightarrow> string list \<Rightarrow> bool" where
  "addresses_ok seen [] = True"
| "addresses_ok seen (a # as) =
     (if a = [] \<or> 512 < length a \<or> hd a = CHR ''-'' \<or> \<not> safeLine a \<or> a \<in> set seen then False
      else addresses_ok (a # seen) as)"

definition validRemovalPreviewRequest :: "preview_request \<Rightarrow> bool" where
  "validRemovalPreviewRequest req \<longleftrightarrow>
     terraformSelector (prr_ProjectID req) \<and> terraformSelector (prr_StateID req)
     \<and> prr_Addresses req \<noteq> [] \<and> length (prr_Addresses req) \<le> maxTerraformRemovalAddresses
     \<and> addresses_ok [] (prr_Addresses req)"

definition decodeStrictJSON :: "string list \<Rightarrow> (string \<Rightarrow> 'a \<Rightarrow> string \<Rightarrow> 'a option) \<Rightarrow> 'a \<Rightarrow> http_request \<Rightarrow> 'a option" where
  "decodeStrictJSON keys f zero rq =
     (if hr_Query rq \<noteq> [] then None
      else case decode_body keys f zero maxTerraformRemovalRequestBytes rq of Inl e \<Rightarrow> None | Inr x \<Rightarrow> Some x)"

definition set_removal_preview ::
    "string \<Rightarrow> string \<times> string \<times> string slice \<Rightarrow> string \<Rightarrow> (string \<times> string \<times> string slice) option" where
  "set_removal_preview key old raw =
     (let (project, state, as) = old in
      if key = ''project'' then map_option (\<lambda>t. (t, state, as)) (raw_text project raw)
      else if key = ''state'' then map_option (\<lambda>t. (project, t, as)) (raw_text state raw)
      else case json_document raw of
        None \<Rightarrow> None
      | Some v \<Rightarrow> map_option (\<lambda>xs. (project, state, xs)) (assign_slice assign_text [] as v))"

definition set_removal_execute :: "string \<Rightarrow> string \<times> string \<Rightarrow> string \<Rightarrow> (string \<times> string) option" where
  "set_removal_execute key old raw =
     (if key = ''previewId'' then map_option (\<lambda>t. (t, snd old)) (raw_text (fst old) raw)
      else map_option (\<lambda>t. (fst old, t)) (raw_text (snd old) raw))"

definition writeTerraformRemovalError :: "removal_error failure \<Rightarrow> 'j response" where
  "writeTerraformRemovalError e =
     (case e of
        Foreign \<Rightarrow> writeAPIError 409 CodeExecutionContextUnavailable
      | Coded code \<Rightarrow>
        (case code of
           RemovalInvalid \<Rightarrow> writeAPIFieldError 422 CodeInvalidInput ''addresses''
         | RemovalStale \<Rightarrow> writeAPIError 409 CodeApprovalRequired
         | RemovalBusy \<Rightarrow> writeAPIError 409 CodeRunCapacity
         | RemovalUnavailable \<Rightarrow> writeAPIError 503 CodeToolUnavailable
         | RemovalToolChanged \<Rightarrow> writeAPIError 409 CodeToolChanged
         | RemovalRejected \<Rightarrow> writeAPIError 409 CodeExecutionFailed
         | RemovalAudit \<Rightarrow> writeAPIError 503 CodeAuditUnavailable))"

definition handleTerraformStateRemovalPreview ::
    "'st terraform_service \<Rightarrow> http_request \<Rightarrow> 'st \<Rightarrow> service_json response \<times> 'st" where
  "handleTerraformStateRemovalPreview svc rq st =
     (case tfs_Removal svc of
        None \<Rightarrow> (writeResourceNotFound, st)
      | Some removal \<Rightarrow>
      if hr_Method rq \<noteq> ''POST'' then (not_allowed ''POST'', st)
      else case decodeStrictJSON [''project'', ''state'', ''addresses''] set_removal_preview ([], [], [], []) rq of
        None \<Rightarrow> (writeAPIError 400 CodeInvalidInput, st)
      | Some (project, state, as, _) \<Rightarrow>
          let req = \<lparr>prr_ProjectID = project, prr_StateID = state, prr_Addresses = as\<rparr> in
          if \<not> validRemovalPreviewRequest req then (writeAPIError 400 CodeInvalidInput, st)
          else (case rms_Preview removal req st of
             (Inl e, st') \<Rightarrow> (writeTerraformRemovalError e, st')
           | (Inr p, st') \<Rightarrow> (writeJSON 200 (RemovalPreviewJson p), st')))"

definition handleTerraformStateRemovalExecute ::
    "'st terraform_service \<Rightarrow> http_request \<Rightarrow> 'st \<Rightarrow> service_json response \<times> 'st" where
  "handleTerraformStateRemovalExecute svc rq st =
     (case tfs_Removal svc of
        None \<Rightarrow> (writeResourceNotFound, st)
      | Some removal \<Rightarrow>
      if hr_Method rq \<noteq> ''POST'' then (not_allowed ''POST'', st)
      else case decodeStrictJSON [''previewId'', ''confirm''] set_removal_execute ([], []) rq of
        None \<Rightarrow> (writeAPIError 400 CodeInvalidInput, st)
      | Some (pid, confirm) \<Rightarrow>
          if \<not> terraformPreviewID pid \<or> confirm = [] \<or> 255 < length confirm \<or> \<not> safeLine confirm
          then (writeAPIError 400 CodeInvalidInput, st)
          else (case rms_Execute removal \<lparr>xrr_PreviewID = pid, xrr_Confirm = confirm\<rparr> st of
             (Inl e, st') \<Rightarrow> (writeTerraformRemovalError e, st')
           | (Inr r, st') \<Rightarrow> (writeJSON 200 (RemovalResultJson r), st')))"

end
