(* ===== verification/Server.thy ===== *)
theory Server
  imports RunApi ServiceApi
begin

section \<open>The local server (internal/server/server.go)\<close>

text \<open>
  One server answers one browser: a launch link is exchanged once for a session cookie, every
  other path needs the cookie, every request must name the server's own host and, if it names an
  origin, the server's own, and a method that changes state needs the origin and the token a page
  can only read with the session. The services are interfaces on a state \<open>'st\<close>; \<open>serve\<close> is one
  request on the server's and the services' state. What a recovered panic answers is left out.
\<close>

record 'st services =
  svc_runs :: "'st run_service option"
  svc_audit :: "('st \<Rightarrow> entry list) option"
  svc_tasks :: "('st \<Rightarrow> server_task list) option"
  svc_tools :: "('st \<Rightarrow> tool_diagnostic list) option"
  svc_installer :: "(install_request \<Rightarrow> 'st \<Rightarrow> (install_error failure + install_result) \<times> 'st) option"
  svc_refresher :: "(install_request \<Rightarrow> 'st \<Rightarrow> (install_error failure + refresh_result) \<times> 'st) option"
  svc_login :: "(login_request \<Rightarrow> 'st \<Rightarrow> login_error failure option \<times> 'st) option"
  svc_interactive :: "(string \<times> string \<Rightarrow> 'st \<Rightarrow> login_error failure option \<times> 'st) option"
  svc_configuration :: "'st configuration_service option"
  svc_secretAudit :: "'st audit_service option"
  svc_platforms :: "('st \<Rightarrow> server_platform list) option"
  svc_terraform :: "'st terraform_service option"

datatype api_json = StatusJson string string | RunJson run_json | ServiceJson service_json

definition map_response :: "('a \<Rightarrow> 'b) \<Rightarrow> 'a response \<Rightarrow> 'b response" where
  "map_response f r = \<lparr>rp_Status = rp_Status r, rp_Headers = rp_Headers r, rp_Body = map_payload f (rp_Body r)\<rparr>"

type_synonym frontend = "http_request \<Rightarrow> api_json response"

subsection \<open>Construction\<close>

record server =
  sn_addr :: string
  sn_baseURL :: string
  sn_version :: string
  sn_bootstrapToken :: string
  sn_bootstrapExpires :: int
  sn_bootstrapConsumed :: bool
  sn_sessionToken :: string
  sn_csrfToken :: string
  sn_maxStreams :: nat
  sn_streams :: nat

record server_config =
  cg_Frontend :: bool
  cg_Version :: string
  cg_BootstrapTTL :: int
  cg_MaxEventStreams :: int

text \<open>The random bytes of the three tokens, if they could be read, the address bound, and the clock.\<close>

record server_env =
  ne_bootstrap :: "string option"
  ne_session :: "string option"
  ne_csrf :: "string option"
  ne_addr :: "string option"
  ne_now :: int

definition defaultBootstrapTTL :: int where "defaultBootstrapTTL = 120 * second"
definition defaultMaxEventStreams :: int where "defaultMaxEventStreams = 16"
definition sessionCookieName :: string where "sessionCookieName = ''cliharbor_session''"

definition randomToken :: "string option \<Rightarrow> string option" where
  "randomToken raw = map_option encodeRawURL raw"

definition New_server :: "server_config \<Rightarrow> server_env \<Rightarrow> string + server" where
  "New_server cfg env =
     (if \<not> cg_Frontend cfg then Inl ''frontend handler is required''
      else case randomToken (ne_bootstrap env) of
        None \<Rightarrow> Inl ''generate bootstrap token''
      | Some boot \<Rightarrow>
      (case randomToken (ne_session env) of
        None \<Rightarrow> Inl ''generate session token''
      | Some sess \<Rightarrow>
      (case randomToken (ne_csrf env) of
        None \<Rightarrow> Inl ''generate CSRF token''
      | Some csrf \<Rightarrow>
      (case ne_addr env of
        None \<Rightarrow> Inl ''bind loopback listener''
      | Some addr \<Rightarrow>
          Inr \<lparr>sn_addr = addr, sn_baseURL = ''http://'' @ addr,
               sn_version = (if cg_Version cfg = [] then ''dev'' else cg_Version cfg), sn_bootstrapToken = boot,
               sn_bootstrapExpires = ne_now env
                 + (if cg_BootstrapTTL cfg \<le> 0 then defaultBootstrapTTL else cg_BootstrapTTL cfg),
               sn_bootstrapConsumed = False, sn_sessionToken = sess, sn_csrfToken = csrf,
               sn_maxStreams = nat (if cg_MaxEventStreams cfg \<le> 0 then defaultMaxEventStreams else cg_MaxEventStreams cfg),
               sn_streams = 0\<rparr>))))"

definition BootstrapURL :: "server \<Rightarrow> string" where
  "BootstrapURL s = sn_baseURL s @ ''/bootstrap?token='' @ query_escape (sn_bootstrapToken s)"

text \<open>The patterns registered for the services that are there.\<close>

definition patterns :: "'st services \<Rightarrow> string list" where
  "patterns svc =
     [''/bootstrap'', ''/bootstrap/'', ''/api/v1/status'']
     @ (if svc_runs svc \<noteq> None then [''/api/v1/runs/preview'', ''/api/v1/runs'', ''/api/v1/runs/''] else [])
     @ (if svc_audit svc \<noteq> None then [''/api/v1/audit''] else [])
     @ (if svc_tasks svc \<noteq> None then [''/api/v1/tasks''] else [])
     @ (if svc_tools svc \<noteq> None then [''/api/v1/tools''] else [])
     @ (if svc_installer svc \<noteq> None then [''/api/v1/tools/install''] else [])
     @ (if svc_refresher svc \<noteq> None then [''/api/v1/tools/refresh''] else [])
     @ (if svc_login svc \<noteq> None then [''/api/v1/auth/login''] else [])
     @ (if svc_interactive svc \<noteq> None then [''/api/v1/auth/interactive''] else [])
     @ (if svc_configuration svc \<noteq> None then [''/api/v1/auth/configure''] else [])
     @ (if svc_secretAudit svc \<noteq> None then [''/api/v1/conjur/secret-audit''] else [])
     @ (if svc_platforms svc \<noteq> None then [''/api/v1/platforms''] else [])
     @ (case svc_terraform svc of
          None \<Rightarrow> []
        | Some t \<Rightarrow> [''/api/v1/terraform/projects'', ''/api/v1/terraform/resources'', ''/api/v1/terraform/format-check'']
            @ (if tfs_Removal t \<noteq> None
               then [''/api/v1/terraform/state-removal/preview'', ''/api/v1/terraform/state-removal/execute''] else []))
     @ [''/api/'', ''/'']"

subsection \<open>The multiplexer of net/http\<close>

text \<open>\<open>cleanPath\<close>, and the segments of a path, each unescaped if its escapes are well formed.\<close>

definition mux_clean :: "string \<Rightarrow> string" where
  "mux_clean p =
     (if p = [] then ''/''
      else let q = (if hd p = slash then p else slash # p); np = path_clean q
           in if last q = slash \<and> np \<noteq> ''/'' then np @ ''/'' else np)"

fun unescape_percent :: "string \<Rightarrow> string option" where
  "unescape_percent [] = Some []"
| "unescape_percent (c # cs) =
     (if c = CHR ''%'' then
        (case cs of
           a # b # rest \<Rightarrow>
             (case (hex_val a, hex_val b) of
                (Some x, Some y) \<Rightarrow> map_option ((#) (char_of (16 * x + y))) (unescape_percent rest)
              | _ \<Rightarrow> None)
         | _ \<Rightarrow> None)
      else map_option ((#) c) (unescape_percent cs))"

definition path_segments :: "string \<Rightarrow> string list" where
  "path_segments p = map (\<lambda>s. case unescape_percent s of None \<Rightarrow> s | Some t \<Rightarrow> t) (split_at slash (drop 1 p))"

definition subtree :: "string \<Rightarrow> bool" where
  "subtree pat \<longleftrightarrow> last pat = slash"

definition pattern_matches :: "string \<Rightarrow> string \<Rightarrow> bool" where
  "pattern_matches pat p \<longleftrightarrow>
     (let ps = split_at slash (drop 1 pat); ss = path_segments p in
      if subtree pat then length ps \<le> length ss \<and> take (length ps - 1) ss = butlast ps else ss = ps)"

text \<open>The most specific pattern: one without a subtree first, else the longest.\<close>

definition mux_match :: "string list \<Rightarrow> string \<Rightarrow> string option" where
  "mux_match pats p =
     (case find (\<lambda>pat. \<not> subtree pat \<and> pattern_matches pat p) pats of
        Some pat \<Rightarrow> Some pat
      | None \<Rightarrow> foldl (\<lambda>best pat. if \<not> subtree pat \<or> \<not> pattern_matches pat p then best
                   else (case best of None \<Rightarrow> Some pat | Some b \<Rightarrow> if length b < length pat then Some pat else best)) None pats)"

definition exact_match :: "string option \<Rightarrow> string \<Rightarrow> bool" where
  "exact_match m p \<longleftrightarrow>
     (case m of
        None \<Rightarrow> False
      | Some pat \<Rightarrow> \<not> subtree pat \<or> (last p = slash \<and> length (split_at slash (drop 1 pat)) = length (split_at slash p) - 1))"

datatype mux_answer = MuxHandler string | MuxRedirect | MuxNotFound

definition mux :: "string list \<Rightarrow> http_request \<Rightarrow> mux_answer" where
  "mux pats rq =
     (let connect = (hr_Method rq = ''CONNECT'');
          p = (if connect then hr_EscapedPath rq else mux_clean (hr_EscapedPath rq)); m = mux_match pats p in
      if \<not> exact_match m p \<and> p \<noteq> [] \<and> last p \<noteq> slash \<and> exact_match (mux_match pats (p @ ''/'')) (p @ ''/'')
      then MuxRedirect
      else if \<not> connect \<and> p \<noteq> hr_EscapedPath rq then MuxRedirect
      else case m of None \<Rightarrow> MuxNotFound | Some pat \<Rightarrow> MuxHandler pat)"

subsection \<open>The gates\<close>

definition isStateChangingMethod :: "string \<Rightarrow> bool" where
  "isStateChangingMethod m \<longleftrightarrow> m \<in> set [''POST'', ''PUT'', ''PATCH'', ''DELETE'']"

definition constantTimeEqual :: "string \<Rightarrow> string \<Rightarrow> bool" where
  "constantTimeEqual a b \<longleftrightarrow> (if length a \<noteq> length b then False else a = b)"

text \<open>The answer of a gate, or \<open>None\<close> to go on.\<close>

definition validateRequestBoundary :: "server \<Rightarrow> http_request \<Rightarrow> 'j response option" where
  "validateRequestBoundary s rq =
     (let forbidden = Some (writeRequestBoundaryError rq 403 CodeRequestForbidden) in
      if hr_Host rq \<noteq> sn_addr s then forbidden
      else if hr_Origin rq \<noteq> [] \<and> hr_Origin rq \<noteq> sn_baseURL s then forbidden
      else if isStateChangingMethod (hr_Method rq) then
        (if hr_Origin rq \<noteq> sn_baseURL s then forbidden
         else if \<not> constantTimeEqual (hr_CSRF rq) (sn_csrfToken s) then forbidden
         else None)
      else None)"

definition requireSession :: "server \<Rightarrow> http_request \<Rightarrow> 'j response option" where
  "requireSession s rq =
     (case hr_Cookie rq of
        Some c \<Rightarrow>
          if constantTimeEqual c (sn_sessionToken s) then None
          else Some (writeRequestBoundaryError rq 401 CodeSessionUnavailable)
      | None \<Rightarrow> Some (writeRequestBoundaryError rq 401 CodeSessionUnavailable))"

definition policy_source :: "string \<Rightarrow> string \<Rightarrow> string" where
  "policy_source directive value = directive @ [CHR 0x20, CHR 0x27] @ value @ [CHR 0x27]"

definition content_security_policy :: string where
  "content_security_policy =
     policy_source ''default-src'' ''none''
     @ concat (map (\<lambda>d. ''; '' @ policy_source d ''self'')
         [''script-src'', ''style-src'', ''connect-src'', ''img-src'', ''font-src''])
     @ ''; '' @ policy_source ''base-uri'' ''none'' @ ''; '' @ policy_source ''frame-ancestors'' ''none''
     @ ''; '' @ policy_source ''form-action'' ''self'' @ ''; '' @ policy_source ''object-src'' ''none''"

definition securityHeaders :: "'j response \<Rightarrow> 'j response" where
  "securityHeaders r = r\<lparr>rp_Headers := foldr (\<lambda>(k, v) d. if get d k = None then (k, v) # d else d)
     [(''Cache-Control'', ''no-store''),
      (''Content-Security-Policy'', content_security_policy),
      (''Cross-Origin-Opener-Policy'', ''same-origin''), (''Referrer-Policy'', ''no-referrer''),
      (''X-Content-Type-Options'', ''nosniff''), (''X-Frame-Options'', ''DENY'')] (rp_Headers r)\<rparr>"

subsection \<open>The launch link\<close>

definition see_home :: "'j response" where
  "see_home = \<lparr>rp_Status = 303,
     rp_Headers = [(''Location'', ''/''), (''Content-Type'', ''text/html; charset=utf-8'')],
     rp_Body = PlainText (''<a href='' @ [dquote] @ ''/'' @ [dquote] @ ''>See Other</a>.'' @ [CHR 0x0A, CHR 0x0A])\<rparr>"

definition session_cookie :: "server \<Rightarrow> string" where
  "session_cookie s = sessionCookieName @ ''='' @ sn_sessionToken s @ ''; Path=/; HttpOnly; SameSite=Strict''"

definition handleBootstrap :: "int \<Rightarrow> http_request \<Rightarrow> server \<Rightarrow> 'j response \<times> server" where
  "handleBootstrap now rq s =
     (if hr_Method rq \<noteq> ''GET'' then (with_header ''Allow'' ''GET'' (http_Error ''method not allowed'' 405), s)
      else if sn_bootstrapConsumed s then
        (if (case hr_Cookie rq of Some c \<Rightarrow> constantTimeEqual c (sn_sessionToken s) | None \<Rightarrow> False) then (see_home, s)
         else (http_Error ''This one-time CLIHarbor launch link was already used. Return to the browser tab CLIHarbor opened, or restart CLIHarbor to get a new link.'' 410, s))
      else if \<not> now < sn_bootstrapExpires s
      then (http_Error ''This CLIHarbor launch link expired. Restart CLIHarbor to get a new link.'' 410, s)
      else if \<not> constantTimeEqual (query_first rq ''token'') (sn_bootstrapToken s)
      then (http_Error ''invalid bootstrap token'' 401, s)
      else (with_header ''Set-Cookie'' (session_cookie s) see_home,
            s\<lparr>sn_bootstrapConsumed := True, sn_bootstrapToken := []\<rparr>))"

definition handleStatus :: "server \<Rightarrow> http_request \<Rightarrow> api_json response" where
  "handleStatus s rq = get_only rq (writeJSON 200 (StatusJson (sn_version s) (sn_csrfToken s)))"

definition acquireRunStream :: "server \<Rightarrow> server option" where
  "acquireRunStream s = (if sn_streams s < sn_maxStreams s then Some (s\<lparr>sn_streams := Suc (sn_streams s)\<rparr>) else None)"

definition releaseRunStream :: "server \<Rightarrow> server" where
  "releaseRunStream s = s\<lparr>sn_streams := sn_streams s - 1\<rparr>"

subsection \<open>Routing\<close>

record 'st serve_env =
  sve_now :: int
  sve_stream :: "'st stream_env"
  sve_cancelled :: bool
  sve_lib :: ext_lib
  sve_parse :: "string \<Rightarrow> parsed_url option"

definition as_run :: "run_json response \<times> 'st \<Rightarrow> api_json response \<times> 'st" where
  "as_run r = (map_response RunJson (fst r), snd r)"

definition as_service :: "service_json response \<times> 'st \<Rightarrow> api_json response \<times> 'st" where
  "as_service r = (map_response ServiceJson (fst r), snd r)"

definition run_routes ::
    "'st run_service \<Rightarrow> 'st serve_env \<Rightarrow> server \<Rightarrow> string \<Rightarrow> http_request \<Rightarrow> 'st \<Rightarrow> (api_json response \<times> 'st) option" where
  "run_routes runs env s pat rq st =
     (if pat = ''/api/v1/runs/preview'' then Some (as_run (handleRunPreview runs rq st))
      else if pat = ''/api/v1/runs'' then Some (as_run (handleRuns runs rq st))
      else if pat = ''/api/v1/runs/''
      then Some (as_run (handleRunByID runs (acquireRunStream s \<noteq> None) (sve_stream env) rq st))
      else None)"

definition terraform_routes ::
    "'st terraform_service \<Rightarrow> string \<Rightarrow> http_request \<Rightarrow> 'st \<Rightarrow> (api_json response \<times> 'st) option" where
  "terraform_routes t pat rq st =
     (if pat = ''/api/v1/terraform/projects'' then Some (as_service (handleTerraformProjects t rq st, st))
      else if pat = ''/api/v1/terraform/resources'' then Some (as_service (handleTerraformResources t rq st, st))
      else if pat = ''/api/v1/terraform/format-check'' then Some (as_service (handleTerraformFormatCheck t rq st))
      else if pat = ''/api/v1/terraform/state-removal/preview'' then Some (as_service (handleTerraformStateRemovalPreview t rq st))
      else if pat = ''/api/v1/terraform/state-removal/execute'' then Some (as_service (handleTerraformStateRemovalExecute t rq st))
      else None)"

text \<open>The handler behind the session gate; a path of a service that is not there has no pattern of its own.\<close>

definition provided :: "'st \<Rightarrow> 'f option \<Rightarrow> ('f \<Rightarrow> api_json response \<times> 'st) \<Rightarrow> api_json response \<times> 'st" where
  "provided st svc f = (case svc of None \<Rightarrow> (writeResourceNotFound, st) | Some g \<Rightarrow> f g)"

definition route ::
    "'st services \<Rightarrow> frontend \<Rightarrow> 'st serve_env \<Rightarrow> server \<Rightarrow> string \<Rightarrow> http_request \<Rightarrow> 'st \<Rightarrow> api_json response \<times> 'st" where
  "route svc front env s pat rq st =
     (let runs = (case svc_runs svc of None \<Rightarrow> None | Some runs \<Rightarrow> run_routes runs env s pat rq st);
          terraform = (case svc_terraform svc of None \<Rightarrow> None | Some t \<Rightarrow> terraform_routes t pat rq st) in
      case runs of
        Some answer \<Rightarrow> answer
      | None \<Rightarrow>
      (case terraform of
        Some answer \<Rightarrow> answer
      | None \<Rightarrow>
      if pat = ''/api/v1/status'' then (handleStatus s rq, st)
      else if pat = ''/api/v1/audit'' then provided st (svc_audit svc) (\<lambda>f. as_service (handleAuditTrail (f st) rq, st))
      else if pat = ''/api/v1/tasks'' then provided st (svc_tasks svc) (\<lambda>f. as_service (handleTasks (f st) rq, st))
      else if pat = ''/api/v1/tools'' then provided st (svc_tools svc) (\<lambda>f. as_service (handleTools (f st) rq, st))
      else if pat = ''/api/v1/platforms'' then provided st (svc_platforms svc) (\<lambda>f. as_service (handlePlatforms (f st) rq, st))
      else if pat = ''/api/v1/tools/install'' then provided st (svc_installer svc) (\<lambda>f. as_service (handleToolInstall f rq st))
      else if pat = ''/api/v1/tools/refresh'' then provided st (svc_refresher svc) (\<lambda>f. as_service (handleToolRefresh f (sve_cancelled env) rq st))
      else if pat = ''/api/v1/auth/login'' then provided st (svc_login svc) (\<lambda>f. as_service (handleCredentialLogin f rq st))
      else if pat = ''/api/v1/auth/interactive'' then provided st (svc_interactive svc) (\<lambda>f. as_service (handleCredentialInteractiveLogin f rq st))
      else if pat = ''/api/v1/auth/configure''
      then provided st (svc_configuration svc) (\<lambda>f. as_service (handleCredentialConfiguration (sve_parse env) f rq st))
      else if pat = ''/api/v1/conjur/secret-audit''
      then provided st (svc_secretAudit svc) (\<lambda>f. as_service (handleSecretAudit (sve_lib env) (sve_parse env) f rq st))
      else if pat = ''/api/'' then (writeResourceNotFound, st)
      else (front rq, st)))"

definition serve ::
    "'st services \<Rightarrow> frontend \<Rightarrow> 'st serve_env \<Rightarrow> http_request \<Rightarrow> server \<Rightarrow> 'st \<Rightarrow> api_json response \<times> server \<times> 'st" where
  "serve svc front env rq s st =
     (case validateRequestBoundary s rq of
        Some answer \<Rightarrow> (securityHeaders answer, s, st)
      | None \<Rightarrow>
      (case mux (patterns svc) rq of
        MuxRedirect \<Rightarrow> (securityHeaders \<lparr>rp_Status = 301, rp_Headers = [], rp_Body = NoBody\<rparr>, s, st)
      | MuxNotFound \<Rightarrow> (securityHeaders (http_Error ''404 page not found'' 404), s, st)
      | MuxHandler pat \<Rightarrow>
          if pat = ''/bootstrap'' then
            (let (answer, s') = handleBootstrap (sve_now env) rq s in (securityHeaders answer, s', st))
          else if pat = ''/bootstrap/'' then (securityHeaders (http_Error ''404 page not found'' 404), s, st)
          else (case requireSession s rq of
             Some answer \<Rightarrow> (securityHeaders answer, s, st)
           | None \<Rightarrow> (let (answer, st') = route svc front env s pat rq st in (securityHeaders answer, s, st')))))"

end
