(* ===== verification/ServerRuns.thy ===== *)
theory ServerRuns
  imports Server RunSafety SecretSafety
begin

section \<open>The server on the run manager\<close>

text \<open>
  The run manager behind the server, and what the browser's requests below \<open>/api/v1/runs\<close> mean for
  it: a small specification of which request is which call of the manager, and the proof that the
  chain of gates, multiplexer and handlers carries out exactly that call.
\<close>

text \<open>
  The manager as a \<open>RunService\<close>, with what one request finds: the audit sink's answer, the clock
  and the random id. A request's two critical sections are taken without a step in between.
\<close>

definition manager_runs :: "('w, 'a) manager_config \<Rightarrow> backend \<Rightarrow> 'w \<Rightarrow> int \<Rightarrow> string option \<Rightarrow> 'a manager run_service" where
  "manager_runs cfg b w now newID =
     \<lparr>rsv_Start = (\<lambda>req m. case Start cfg b w now newID req m m of
          (Inl e, m') \<Rightarrow> (Inl e, m') | (Inr (sn, p), m') \<Rightarrow> (Inr sn, m')),
      rsv_Get = Get, rsv_Cancel = Cancel, rsv_List = Some runs_List,
      rsv_Preview = Some (\<lambda>req m. Preview cfg b now newID req m m), rsv_WaitEvents = Some WaitEvents\<rparr>"

text \<open>A server with the run manager and its journal, and none of the other services.\<close>

definition manager_services ::
    "('w, store) manager_config \<Rightarrow> backend \<Rightarrow> 'w \<Rightarrow> int \<Rightarrow> string option \<Rightarrow> store manager services" where
  "manager_services cfg b w now newID =
     \<lparr>svc_runs = Some (manager_runs cfg b w now newID), svc_audit = Some (\<lambda>m. audit_List (mg_audit m)),
      svc_tasks = None, svc_tools = None, svc_installer = None, svc_refresher = None, svc_login = None,
      svc_interactive = None, svc_configuration = None, svc_secretAudit = None, svc_platforms = None,
      svc_terraform = None\<rparr>"

subsection \<open>What a request asks of the manager\<close>

datatype run_call = StartCall run_request | PreviewCall run_request | CancelCall string | NoCall

definition authorised :: "server \<Rightarrow> http_request \<Rightarrow> bool" where
  "authorised s rq \<longleftrightarrow> hr_Host rq = sn_addr s \<and> hr_Origin rq = sn_baseURL s \<and> hr_CSRF rq = sn_csrfToken s
     \<and> hr_Cookie rq = Some (sn_sessionToken s)"

definition submitted :: "create_run_request \<Rightarrow> run_request" where
  "submitted cr = \<lparr>rn_PackID = cr_PackID cr, rn_CommandID = cr_CommandID cr, rn_Values = cr_Values cr,
     rn_Approval = map_option (\<lambda>(i, c). \<lparr>as_ID = i, as_Confirmation = c\<rparr>) (cr_Approval cr)\<rparr>"

text \<open>
  The specification: only an authorised POST of a path in canonical form asks for anything; a body that does
  not decode asks for nothing, nor does a preview that brings an approval.
\<close>

definition requested_call :: "server \<Rightarrow> http_request \<Rightarrow> run_call" where
  "requested_call s rq =
     (let segs = path_segments (hr_EscapedPath rq) in
      if \<not> authorised s rq \<or> hr_Method rq \<noteq> ''POST'' \<or> mux_clean (hr_EscapedPath rq) \<noteq> hr_EscapedPath rq then NoCall
      else if segs = [''api'', ''v1'', ''runs''] then
        (case decodeCreateRunRequest rq of Inl e \<Rightarrow> NoCall | Inr cr \<Rightarrow> StartCall (submitted cr))
      else if segs = [''api'', ''v1'', ''runs'', ''preview''] then
        (case decodeCreateRunRequest rq of
           Inl e \<Rightarrow> NoCall
         | Inr cr \<Rightarrow> if cr_Approval cr = None then PreviewCall (submitted cr) else NoCall)
      else (case split_at slash (drop 13 (hr_Path rq)) of
          [rid, verb] \<Rightarrow> if verb = ''cancel'' then CancelCall rid else NoCall
        | _ \<Rightarrow> NoCall))"

fun carry_out ::
    "('w, 'a) manager_config \<Rightarrow> backend \<Rightarrow> 'w \<Rightarrow> int \<Rightarrow> string option \<Rightarrow> run_call \<Rightarrow> 'a manager \<Rightarrow> 'a manager" where
  "carry_out cfg b w now newID (StartCall req) m = snd (Start cfg b w now newID req m m)"
| "carry_out cfg b w now newID (PreviewCall req) m = snd (Preview cfg b now newID req m m)"
| "carry_out cfg b w now newID (CancelCall rid) m = snd (Cancel rid m)"
| "carry_out cfg b w now newID NoCall m = m"

text \<open>A call the manager accepted: a run was admitted, or the run to be cancelled was there.\<close>

fun accepted_call ::
    "('w, 'a) manager_config \<Rightarrow> backend \<Rightarrow> 'w \<Rightarrow> int \<Rightarrow> string option \<Rightarrow> run_call \<Rightarrow> 'a manager \<Rightarrow> bool" where
  "accepted_call cfg b w now newID (StartCall req) m \<longleftrightarrow> (\<exists>x. fst (Start cfg b w now newID req m m) = Inr x)"
| "accepted_call cfg b w now newID (CancelCall rid) m \<longleftrightarrow>
     fst (Cancel rid m) = None \<and> Get rid (snd (Cancel rid m)) \<noteq> None"
| "accepted_call cfg b w now newID call m \<longleftrightarrow> False"

subsection \<open>Which pattern takes a request\<close>

definition all_patterns :: "string list" where
  "all_patterns = [''/bootstrap'', ''/bootstrap/'', ''/api/v1/status'', ''/api/v1/runs/preview'', ''/api/v1/runs'', ''/api/v1/runs/'',
     ''/api/v1/audit'', ''/api/v1/tasks'', ''/api/v1/tools'', ''/api/v1/tools/install'', ''/api/v1/tools/refresh'',
     ''/api/v1/auth/login'', ''/api/v1/auth/interactive'', ''/api/v1/auth/configure'', ''/api/v1/conjur/secret-audit'',
     ''/api/v1/platforms'', ''/api/v1/terraform/projects'', ''/api/v1/terraform/resources'', ''/api/v1/terraform/format-check'',
     ''/api/v1/terraform/state-removal/preview'', ''/api/v1/terraform/state-removal/execute'', ''/api/'', ''/'']"

lemma patterns_known: "set (patterns svc) \<subseteq> set all_patterns"
  by (auto simp: patterns_def all_patterns_def split: option.splits)

lemma patterns_of_runs:
  "svc_runs svc \<noteq> None \<Longrightarrow> {''/api/v1/runs/preview'', ''/api/v1/runs'', ''/api/v1/runs/''} \<subseteq> set (patterns svc)"
  by (simp add: patterns_def)

text \<open>The segments of the registered patterns, the subtrees with an empty one at the end.\<close>

lemma pattern_table:
  "map (\<lambda>pat. (subtree pat, split_at slash (drop 1 pat))) all_patterns =
     [(False, [''bootstrap'']), (True, [''bootstrap'', []]), (False, [''api'', ''v1'', ''status'']),
      (False, [''api'', ''v1'', ''runs'', ''preview'']), (False, [''api'', ''v1'', ''runs'']), (True, [''api'', ''v1'', ''runs'', []]),
      (False, [''api'', ''v1'', ''audit'']), (False, [''api'', ''v1'', ''tasks'']), (False, [''api'', ''v1'', ''tools'']),
      (False, [''api'', ''v1'', ''tools'', ''install'']), (False, [''api'', ''v1'', ''tools'', ''refresh'']),
      (False, [''api'', ''v1'', ''auth'', ''login'']), (False, [''api'', ''v1'', ''auth'', ''interactive'']),
      (False, [''api'', ''v1'', ''auth'', ''configure'']), (False, [''api'', ''v1'', ''conjur'', ''secret-audit'']),
      (False, [''api'', ''v1'', ''platforms'']), (False, [''api'', ''v1'', ''terraform'', ''projects'']),
      (False, [''api'', ''v1'', ''terraform'', ''resources'']), (False, [''api'', ''v1'', ''terraform'', ''format-check'']),
      (False, [''api'', ''v1'', ''terraform'', ''state-removal'', ''preview'']),
      (False, [''api'', ''v1'', ''terraform'', ''state-removal'', ''execute'']), (True, [''api'', []]), (True, [[]])]"
  by code_simp

lemmas pattern_facts = pattern_table [unfolded all_patterns_def, simplified]

lemma find_filter: "find P xs = (case filter P xs of [] \<Rightarrow> None | x # _ \<Rightarrow> Some x)"
  by (induction xs) auto

lemma foldl_filter: "foldl (\<lambda>a x. if \<not> Q x then a else g a x) a xs = foldl g a (filter Q xs)"
  by (induction xs arbitrary: a) auto

text \<open>Three segments lead to the run patterns, whichever other services are registered.\<close>

definition run_pattern :: "string list \<Rightarrow> string" where
  "run_pattern segs =
     (if segs = [''api'', ''v1'', ''runs''] then ''/api/v1/runs''
      else if segs = [''api'', ''v1'', ''runs'', ''preview''] then ''/api/v1/runs/preview''
      else ''/api/v1/runs/'')"

lemma run_pattern_matches:
  assumes "take 3 (path_segments p) = [''api'', ''v1'', ''runs'']" and "svc_runs svc \<noteq> None"
  shows "mux_match (patterns svc) p = Some (run_pattern (path_segments p))"
proof -
  obtain rest where segs: "path_segments p = ''api'' # ''v1'' # ''runs'' # rest"
    using assms(1) by (cases "path_segments p"; cases "tl (path_segments p)"; cases "tl (tl (path_segments p))") auto
  have "filter (\<lambda>pat. \<not> subtree pat \<and> pattern_matches pat p) (patterns svc)
      = (if rest = [] then [''/api/v1/runs''] else if rest = [''preview''] then [''/api/v1/runs/preview''] else [])"
    using assms(2) by (simp add: patterns_def pattern_matches_def pattern_facts segs split: option.split)
  moreover have "filter (\<lambda>pat. subtree pat \<and> pattern_matches pat p) (patterns svc)
      = (if rest = [] then [''/api/'', ''/''] else [''/api/v1/runs/'', ''/api/'', ''/''])"
    using assms(2)
    by (cases rest) (simp_all add: patterns_def pattern_matches_def pattern_facts segs split: option.split)
  ultimately show ?thesis
    using foldl_filter [of "\<lambda>pat. subtree pat \<and> pattern_matches pat p"
      "\<lambda>best pat. case best of None \<Rightarrow> Some pat | Some b \<Rightarrow> if length b < length pat then Some pat else best" None "patterns svc"]
    by (simp add: mux_match_def find_filter run_pattern_def segs)
qed

lemma path_segments_snoc: "p \<noteq> [] \<Longrightarrow> path_segments (p @ ''/'') = path_segments p @ [[]]"
  using split_at_append [of "drop 1 p"] by (cases p) (simp_all add: path_segments_def slash_def)

lemma mux_clean_absolute: "mux_clean p \<noteq> [] \<and> hd (mux_clean p) = slash"
proof -
  have "hd (path_clean q) = slash \<and> path_clean q \<noteq> []" if "hd q = slash" "q \<noteq> []" for q
    using that by (cases q) (simp_all add: path_clean_def Let_def)
  then show ?thesis by (auto simp: mux_clean_def Let_def slash_def hd_append)
qed

lemma mux_runs:
  assumes "take 3 (path_segments (hr_EscapedPath rq)) = [''api'', ''v1'', ''runs'']" and "svc_runs svc \<noteq> None"
  shows "mux (patterns svc) rq = MuxHandler pat \<Longrightarrow> pat = run_pattern (path_segments (hr_EscapedPath rq))
      \<and> (hr_Method rq \<noteq> ''CONNECT'' \<longrightarrow> mux_clean (hr_EscapedPath rq) = hr_EscapedPath rq)"
    and "mux_clean (hr_EscapedPath rq) = hr_EscapedPath rq \<Longrightarrow>
      mux (patterns svc) rq = MuxHandler (run_pattern (path_segments (hr_EscapedPath rq)))"
proof -
  let ?p = "hr_EscapedPath rq" and ?segs = "path_segments (hr_EscapedPath rq)"
  note m = run_pattern_matches [OF assms]
  show "pat = run_pattern ?segs \<and> (hr_Method rq \<noteq> ''CONNECT'' \<longrightarrow> mux_clean ?p = ?p)"
    if "mux (patterns svc) rq = MuxHandler pat"
    using that m by (auto simp: mux_def Let_def split: if_split_asm)
  assume clean: "mux_clean ?p = ?p"
  have p: "?p \<noteq> []" "hd ?p = slash" using mux_clean_absolute [of ?p] clean by simp_all
  have "exact_match (Some (run_pattern ?segs)) ?p
      \<or> \<not> exact_match (mux_match (patterns svc) (?p @ ''/'')) (?p @ ''/'')"
  proof (cases "subtree (run_pattern ?segs)")
    case True
    then have long: "run_pattern ?segs = ''/api/v1/runs/''" "?segs \<noteq> [''api'', ''v1'', ''runs'']"
      by (auto simp: run_pattern_def pattern_facts split: if_split_asm)
    with assms(1) have "4 \<le> length ?segs"
      by (cases ?segs; cases "tl ?segs"; cases "tl (tl ?segs)"; cases "tl (tl (tl ?segs))") auto
    moreover have "length (split_at slash (?p @ ''/'')) = length ?segs + 2"
      using p split_at_append [of ?p] by (cases ?p) (simp_all add: path_segments_def slash_def)
    moreover have "mux_match (patterns svc) (?p @ ''/'') = Some (run_pattern (?segs @ [[]]))"
      using run_pattern_matches [of "?p @ ''/''", OF _ assms(2)] path_segments_snoc [OF p(1)] assms(1) calculation(1) by simp
    moreover have "run_pattern (?segs @ [[]]) = ''/api/v1/runs/''"
      using calculation(1) by (auto simp: run_pattern_def append_eq_Cons_conv)
    ultimately show ?thesis by (simp add: exact_match_def pattern_facts)
  qed (simp add: exact_match_def)
  with clean m show "mux (patterns svc) rq = MuxHandler (run_pattern ?segs)"
    by (auto simp: mux_def Let_def)
qed

subsection \<open>What the handlers do\<close>

lemma status_writeJSON [simp]: "rp_Status (writeJSON n j) = n"
  by (simp only: writeJSON_def response.simps)

lemma status_writeAPIDetail [simp]: "rp_Status (writeAPIDetail n d) = n"
  by (simp only: writeAPIDetail_def response.simps)

lemma status_writeAPIError [simp]: "rp_Status (writeAPIError n c) = n"
  by (simp only: writeAPIError_def status_writeAPIDetail)

lemma status_writeAPIFieldError [simp]: "rp_Status (writeAPIFieldError n c f) = n"
  by (simp only: writeAPIFieldError_def status_writeAPIDetail)

lemma status_writeResourceNotFound [simp]: "rp_Status writeResourceNotFound = 404"
  by (simp only: writeResourceNotFound_def status_writeAPIError)

lemma status_not_allowed [simp]: "rp_Status (not_allowed ms) = 405"
  by (simp only: not_allowed_def with_header_def writeMethodNotAllowed_def writeAPIError_def writeAPIDetail_def
      response.update_convs response.select_convs)

lemma status_event_stream [simp]: "rp_Status (event_stream fs) = 200"
  by (simp only: event_stream_def response.simps)

lemma status_http_Error [simp]: "rp_Status (http_Error msg n) = n"
  by (simp only: http_Error_def response.simps)

lemma status_securityHeaders [simp]: "rp_Status (securityHeaders r) = rp_Status r"
  by (cases r) (simp only: securityHeaders_def response.update_convs response.select_convs)

lemma status_map_response [simp]: "rp_Status (map_response g q) = rp_Status q"
  by (simp only: map_response_def response.simps)

lemma status_writeRequestBoundaryError [simp]: "rp_Status (writeRequestBoundaryError rq n c) = n"
  by (cases "has_prefix ''/api/'' (hr_Path rq)")
    (simp_all only: writeRequestBoundaryError_def status_writeAPIDetail status_http_Error if_True if_False refl)

lemma status_writeRunError [simp]: "rp_Status (writeRunError e) \<noteq> 202"
  by (cases e) (simp_all add: writeRunError_def split: run_error_code.split)

lemma status_body_reply [simp]: "rp_Status (body_reply be) \<noteq> 202"
  by (cases be) (simp_all add: body_reply_def)

lemma status_writeRunStreamError [simp]: "rp_Status (writeRunStreamError se) \<noteq> 202"
  by (simp add: writeRunStreamError_def split: option.split run_error.split)

lemma status_handleRunList [simp]: "rp_Status (handleRunList sv st) \<noteq> 202"
  by (simp add: handleRunList_def split: option.split)

lemma status_handleRunEvents [simp]: "rp_Status (handleRunEvents sv free env rq rid) \<noteq> 202"
  by (simp add: handleRunEvents_def split: option.split list.split look.split)

text \<open>A handler carries out a call: the state it leaves, and whether it answers that the call was accepted.\<close>

definition carries_out ::
    "('w, 'a) manager_config \<Rightarrow> backend \<Rightarrow> 'w \<Rightarrow> int \<Rightarrow> string option \<Rightarrow> run_call \<Rightarrow> 'a manager
     \<Rightarrow> 'j response \<times> 'a manager \<Rightarrow> bool" where
  "carries_out cfg b w now newID call m r \<longleftrightarrow>
     snd r = carry_out cfg b w now newID call m
   \<and> (rp_Status (fst r) = 202 \<longleftrightarrow> accepted_call cfg b w now newID call m)"

lemma carries_out_NoCall [simp]:
  "carries_out cfg b w now newID NoCall m (answer, m') \<longleftrightarrow> m' = m \<and> rp_Status answer \<noteq> 202"
  by (simp add: carries_out_def)

lemma carries_out_as_run [simp]: "carries_out cfg b w now newID call m (as_run r) = carries_out cfg b w now newID call m r"
  by (simp add: carries_out_def as_run_def)

lemma handleRuns_carries_out:
  "carries_out cfg b w now newID
     (if hr_Method rq = ''POST''
      then case decodeCreateRunRequest rq of Inl e \<Rightarrow> NoCall | Inr cr \<Rightarrow> StartCall (submitted cr) else NoCall) m
     (handleRuns (manager_runs cfg b w now newID) rq m)"
  by (auto simp: handleRuns_def manager_runs_def carries_out_def submitted_def split: sum.split prod.split)

lemma handleRunPreview_carries_out:
  "carries_out cfg b w now newID
     (if hr_Method rq = ''POST''
      then case decodeCreateRunRequest rq of
          Inl e \<Rightarrow> NoCall
        | Inr cr \<Rightarrow> if cr_Approval cr = None then PreviewCall (submitted cr) else NoCall
      else NoCall) m
     (handleRunPreview (manager_runs cfg b w now newID) rq m)"
  by (auto simp: handleRunPreview_def manager_runs_def carries_out_def submitted_def split: sum.split prod.split)

lemma handleRunByID_carries_out:
  assumes "has_prefix ''/api/v1/runs/'' (hr_Path rq) \<or> hr_Method rq \<noteq> ''POST''"
  shows "carries_out cfg b w now newID
     (if hr_Method rq = ''POST''
      then case split_at slash (drop 13 (hr_Path rq)) of
          [rid, verb] \<Rightarrow> if verb = ''cancel'' then CancelCall rid else NoCall
        | _ \<Rightarrow> NoCall
      else NoCall) m
     (handleRunByID (manager_runs cfg b w now newID) free env rq m)"
proof (cases "hr_Method rq = ''POST''")
  case False
  then show ?thesis by (auto simp: handleRunByID_def Let_def split: option.split)
next
  case True
  with assms have "has_prefix ''/api/v1/runs/'' (hr_Path rq)" by simp
  with True show ?thesis
    by (auto simp: handleRunByID_def manager_runs_def carries_out_def Let_def
        split: option.split list.split prod.split)
qed

subsection \<open>From the path as sent to the path\<close>

text \<open>\<open>net/url\<close> keeps the path as it was sent beside the path it stands for; unescaping goes segment by segment.\<close>

lemma hex_val_slash: "hex_val slash = None"
  by code_simp

lemma unescape_segments:
  "unescape_percent s = Some t \<Longrightarrow>
     list_all (\<lambda>p. unescape_percent p \<noteq> None) (split_at slash s)
   \<and> slash # t = concat (map (\<lambda>p. slash # the (unescape_percent p)) (split_at slash s))"
proof (induction s arbitrary: t rule: unescape_percent.induct)
  case 1
  then show ?case by simp
next
  case (2 c cs)
  obtain p ps where here: "split_at slash cs = p # ps" by (cases "split_at slash cs") simp_all
  show ?case
  proof (cases "c = CHR ''%''")
    case True
    then obtain a b rest x y t' where hex: "cs = a # b # rest" "hex_val a = Some x" "hex_val b = Some y"
      and t: "unescape_percent rest = Some t'" "t = char_of (16 * x + y) # t'"
      using "2.prems" by (auto split: list.splits option.splits)
    obtain r rs where rest: "split_at slash rest = r # rs" by (cases "split_at slash rest") simp_all
    have other: "a \<noteq> slash" "b \<noteq> slash" "CHR ''%'' \<noteq> slash" using hex hex_val_slash by (auto simp: slash_def)
    from "2.IH"(1) [OF True hex(1) refl refl hex(2,3) t(1)]
    have IH: "list_all (\<lambda>p. unescape_percent p \<noteq> None) (r # rs)"
      "t' = the (unescape_percent r) @ concat (map (\<lambda>p. slash # the (unescape_percent p)) rs)"
      by (simp_all add: rest)
    then obtain u where "unescape_percent r = Some u" by auto
    with IH show ?thesis by (simp add: True hex(1) other rest hex(2,3) t(2))
  next
    case False
    then obtain t' where t: "unescape_percent cs = Some t'" "t = c # t'" using "2.prems" by auto
    from "2.IH"(2) [OF False t(1)] have IH: "list_all (\<lambda>p. unescape_percent p \<noteq> None) (p # ps)"
      "slash # t' = concat (map (\<lambda>p. slash # the (unescape_percent p)) (p # ps))" by (simp_all add: here)
    then obtain u where "unescape_percent p = Some u" by auto
    with IH False show ?thesis by (simp add: here t(2))
  qed
qed

lemma path_of_segments:
  assumes "unescape_percent e = Some p" and "hd e = slash" and "e \<noteq> []"
  shows "p = concat (map ((#) slash) (path_segments e))"
proof -
  obtain s where e: "e = slash # s" using assms(2,3) by (cases e) auto
  then obtain t where t: "unescape_percent s = Some t" "p = slash # t" using assms(1) by (auto simp: slash_def)
  have "map (\<lambda>p. slash # the (unescape_percent p)) (split_at slash s) = map ((#) slash) (path_segments e)"
    using unescape_segments [OF t(1)] by (auto simp: path_segments_def e list_all_iff)
  with unescape_segments [OF t(1)] t(2) show ?thesis by simp
qed

lemma run_path:
  assumes "unescape_percent (hr_EscapedPath rq) = Some (hr_Path rq)" and "mux_clean (hr_EscapedPath rq) = hr_EscapedPath rq"
    and "path_segments (hr_EscapedPath rq) = ''api'' # ''v1'' # ''runs'' # s # rest"
  shows "has_prefix ''/api/v1/runs/'' (hr_Path rq)"
proof -
  have "hr_Path rq = concat (map ((#) slash) (path_segments (hr_EscapedPath rq)))"
    using path_of_segments [OF assms(1)] mux_clean_absolute [of "hr_EscapedPath rq"] assms(2) by simp
  then show ?thesis by (simp add: assms(3) has_prefix_def slash_def)
qed

subsection \<open>The gates\<close>

lemma constantTimeEqual_eq [simp]: "constantTimeEqual x y \<longleftrightarrow> x = y"
  by (auto simp: constantTimeEqual_def)

lemma gates_of_a_post:
  assumes "hr_Method rq = ''POST''"
  shows "validateRequestBoundary s rq = (None :: api_json response option) \<and> requireSession s rq = (None :: api_json response option)
    \<longleftrightarrow> authorised s rq"
  using assms by (auto simp: validateRequestBoundary_def requireSession_def authorised_def isStateChangingMethod_def Let_def
      split: option.split)

lemma gates_refuse:
  "validateRequestBoundary s rq = Some answer \<Longrightarrow> rp_Status answer = 403"
  "requireSession s rq = Some answer \<Longrightarrow> rp_Status answer = 401"
  by (auto simp: validateRequestBoundary_def requireSession_def Let_def split: if_split_asm option.split_asm)

subsection \<open>The refinement\<close>

text \<open>What a request asks for, by the pattern that takes it.\<close>

definition pattern_call :: "http_request \<Rightarrow> string \<Rightarrow> run_call" where
  "pattern_call rq pat =
     (if hr_Method rq \<noteq> ''POST'' then NoCall
      else if pat = ''/api/v1/runs'' then
        (case decodeCreateRunRequest rq of Inl e \<Rightarrow> NoCall | Inr cr \<Rightarrow> StartCall (submitted cr))
      else if pat = ''/api/v1/runs/preview'' then
        (case decodeCreateRunRequest rq of
           Inl e \<Rightarrow> NoCall
         | Inr cr \<Rightarrow> if cr_Approval cr = None then PreviewCall (submitted cr) else NoCall)
      else (case split_at slash (drop 13 (hr_Path rq)) of
          [rid, verb] \<Rightarrow> if verb = ''cancel'' then CancelCall rid else NoCall
        | _ \<Rightarrow> NoCall))"

lemma pattern_call_requested:
  "authorised s rq \<Longrightarrow> mux_clean (hr_EscapedPath rq) = hr_EscapedPath rq \<Longrightarrow>
   requested_call s rq = pattern_call rq (run_pattern (path_segments (hr_EscapedPath rq)))"
  by (simp add: requested_call_def pattern_call_def run_pattern_def Let_def)

lemma pattern_calls:
  "pattern_call rq ''/api/v1/runs'' = (if hr_Method rq = ''POST''
     then case decodeCreateRunRequest rq of Inl e \<Rightarrow> NoCall | Inr cr \<Rightarrow> StartCall (submitted cr) else NoCall)"
  "pattern_call rq ''/api/v1/runs/preview'' = (if hr_Method rq = ''POST''
     then case decodeCreateRunRequest rq of
          Inl e \<Rightarrow> NoCall
        | Inr cr \<Rightarrow> if cr_Approval cr = None then PreviewCall (submitted cr) else NoCall
     else NoCall)"
  "pattern_call rq ''/api/v1/runs/'' = (if hr_Method rq = ''POST''
     then case split_at slash (drop 13 (hr_Path rq)) of
          [rid, verb] \<Rightarrow> if verb = ''cancel'' then CancelCall rid else NoCall
        | _ \<Rightarrow> NoCall
     else NoCall)"
  by (simp_all add: pattern_call_def)

lemma run_routes_table:
  "run_routes runs env s ''/api/v1/runs'' rq m = Some (as_run (handleRuns runs rq m))"
  "run_routes runs env s ''/api/v1/runs/preview'' rq m = Some (as_run (handleRunPreview runs rq m))"
  "run_routes runs env s ''/api/v1/runs/'' rq m =
     Some (as_run (handleRunByID runs (acquireRunStream s \<noteq> None) (sve_stream env) rq m))"
  by (simp_all add: run_routes_def)

lemma route_runs:
  assumes "svc_runs svc = Some runs" and "run_routes runs env s pat rq m = Some r"
  shows "route svc front env s pat rq m = r"
  unfolding route_def Let_def assms option.case by (rule refl)

lemma route_carries_out:
  assumes svc: "svc_runs svc = Some (manager_runs cfg b w now newID)"
    and pat: "pat = ''/api/v1/runs'' \<or> pat = ''/api/v1/runs/preview'' \<or>
         pat = ''/api/v1/runs/'' \<and> (has_prefix ''/api/v1/runs/'' (hr_Path rq) \<or> hr_Method rq \<noteq> ''POST'')"
  shows "carries_out cfg b w now newID (pattern_call rq pat) m (route svc front env s pat rq m)"
  using pat
proof (elim disjE conjE)
  assume p: "pat = ''/api/v1/runs''"
  show ?thesis unfolding p route_runs [OF svc run_routes_table(1)] carries_out_as_run pattern_calls
    by (rule handleRuns_carries_out)
next
  assume p: "pat = ''/api/v1/runs/preview''"
  show ?thesis unfolding p route_runs [OF svc run_routes_table(2)] carries_out_as_run pattern_calls
    by (rule handleRunPreview_carries_out)
next
  assume p: "pat = ''/api/v1/runs/''" "has_prefix ''/api/v1/runs/'' (hr_Path rq)"
  show ?thesis unfolding p(1) route_runs [OF svc run_routes_table(3)] carries_out_as_run pattern_calls
    by (rule handleRunByID_carries_out [OF disjI1 [OF p(2)]])
next
  assume p: "pat = ''/api/v1/runs/''" "hr_Method rq \<noteq> ''POST''"
  show ?thesis unfolding p(1) route_runs [OF svc run_routes_table(3)] carries_out_as_run pattern_calls
    by (rule handleRunByID_carries_out [OF disjI2 [OF p(2)]])
qed

lemma run_pattern_cases:
  assumes "take 3 segs = [''api'', ''v1'', ''runs'']"
  obtains "run_pattern segs = ''/api/v1/runs''" | "run_pattern segs = ''/api/v1/runs/preview''"
  | s rest where "run_pattern segs = ''/api/v1/runs/''" "segs = ''api'' # ''v1'' # ''runs'' # s # rest"
proof -
  obtain rest where segs: "segs = ''api'' # ''v1'' # ''runs'' # rest"
    using assms by (cases segs; cases "tl segs"; cases "tl (tl segs)") auto
  show thesis
  proof (cases rest)
    case Nil
    then show thesis using segs by (intro that(1)) (simp add: run_pattern_def)
  next
    case (Cons s more)
    show thesis
    proof (cases "s = ''preview'' \<and> more = []")
      case True
      then show thesis using segs Cons by (intro that(2)) (simp add: run_pattern_def)
    next
      case False
      then show thesis using segs Cons by (intro that(3) [of s more]) (auto simp: run_pattern_def)
    qed
  qed
qed

text \<open>No run pattern is the launch link's.\<close>

lemma run_pattern_gated:
  "run_pattern segs \<noteq> ''/bootstrap'' \<and> run_pattern segs \<noteq> ''/bootstrap/''"
  by (simp add: run_pattern_def)

lemma served_run_route:
  assumes svc: "svc_runs svc = Some (manager_runs cfg b w now newID)"
    and segs: "take 3 (path_segments (hr_EscapedPath rq)) = [''api'', ''v1'', ''runs'']"
    and path: "unescape_percent (hr_EscapedPath rq) = Some (hr_Path rq)"
    and clean: "mux_clean (hr_EscapedPath rq) = hr_EscapedPath rq \<or> hr_Method rq \<noteq> ''POST''"
  shows "carries_out cfg b w now newID (pattern_call rq (run_pattern (path_segments (hr_EscapedPath rq)))) m
     (route svc front env s (run_pattern (path_segments (hr_EscapedPath rq))) rq m)"
  using segs
proof (cases rule: run_pattern_cases)
  case (3 x rest)
  then have "has_prefix ''/api/v1/runs/'' (hr_Path rq) \<or> hr_Method rq \<noteq> ''POST''"
    using run_path [OF path _ 3(2)] clean by blast
  with 3(1) show ?thesis by (intro route_carries_out [OF svc]) blast
qed (auto intro: route_carries_out [OF svc])

text \<open>A request the gates, or the multiplexer, stop asks for nothing.\<close>

lemma stopped_asks_nothing:
  assumes "\<not> authorised s rq \<or> hr_Method rq \<noteq> ''POST'' \<or> mux_clean (hr_EscapedPath rq) \<noteq> hr_EscapedPath rq"
  shows "requested_call s rq = NoCall"
  using assms by (simp add: requested_call_def Let_def)

lemma some_runs: "svc_runs svc = Some runs \<Longrightarrow> svc_runs svc \<noteq> None"
  by simp

lemma served_by_gates:
  assumes segs: "take 3 (path_segments (hr_EscapedPath rq)) = [''api'', ''v1'', ''runs'']" and svc: "svc_runs svc \<noteq> None"
    and served: "serve svc front env rq s m = (answer, s', m')"
  shows "(m' = m \<and> rp_Status answer \<noteq> 202
        \<and> (\<not> authorised s rq \<or> hr_Method rq \<noteq> ''POST'' \<or> mux_clean (hr_EscapedPath rq) \<noteq> hr_EscapedPath rq))
    \<or> (validateRequestBoundary s rq = (None :: api_json response option) \<and> requireSession s rq = (None :: api_json response option)
        \<and> (mux_clean (hr_EscapedPath rq) = hr_EscapedPath rq \<or> hr_Method rq = ''CONNECT'')
        \<and> (\<exists>r. route svc front env s (run_pattern (path_segments (hr_EscapedPath rq))) rq m = (r, m')
             \<and> rp_Status answer = rp_Status r))"
proof (cases "validateRequestBoundary s rq :: api_json response option")
  case (Some refusal)
  have "\<not> authorised s rq \<or> hr_Method rq \<noteq> ''POST''" using Some gates_of_a_post [of rq s]
    by auto
  moreover have "rp_Status refusal = 403" by (rule gates_refuse(1) [OF Some])
  ultimately show ?thesis using served by (auto simp: serve_def Some)
next
  case None
  note passed = None
  show ?thesis
  proof (cases "mux (patterns svc) rq")
    case (MuxHandler pat)
    note pat = mux_runs(1) [OF segs svc MuxHandler]
    show ?thesis
    proof (cases "requireSession s rq :: api_json response option")
      case (Some refusal)
      have "\<not> authorised s rq \<or> hr_Method rq \<noteq> ''POST''" using Some gates_of_a_post [of rq s]
        by auto
      moreover have "rp_Status refusal = 401" by (rule gates_refuse(2) [OF Some])
      ultimately show ?thesis using served pat run_pattern_gated
        by (auto simp: serve_def passed MuxHandler Some)
    next
      case None
      then show ?thesis using served pat run_pattern_gated [of "path_segments (hr_EscapedPath rq)"]
        by (auto simp: serve_def passed MuxHandler split: prod.splits)
    qed
  qed (use served mux_runs(2) [OF segs svc] in \<open>auto simp: serve_def passed\<close>)
qed

text \<open>
  C12: Below \<open>/api/v1/runs\<close> the server carries out exactly the call of the run manager that the request
  asks for. Behind the gates, the multiplexer and the handlers, and whatever other services are
  registered, the manager's state afterwards is that of \<open>requested_call\<close>: a start with the submitted
  values and the submitted approval, a preview without one, the cancellation of the run the path
  names, each only for an authorised POST of a clean path with a body that decodes; in every other
  case the state is unchanged. The answer is 202 exactly when the manager admitted the run or has
  the run to be cancelled. The path is the unescaped form of the path as sent, as net/url keeps them.
  One request's two sections of the manager are taken together here; other steps between them are
  what C11 and the claims about \<open>steps\<close> cover.
\<close>
theorem requests_carry_out_run_calls:
  assumes "svc_runs svc = Some (manager_runs cfg b w now newID)"
    and "take 3 (path_segments (hr_EscapedPath rq)) = [''api'', ''v1'', ''runs'']"
    and "unescape_percent (hr_EscapedPath rq) = Some (hr_Path rq)"
    and "serve svc front env rq s m = (answer, s', m')"
  shows "m' = carry_out cfg b w now newID (requested_call s rq) m
    \<and> (rp_Status answer = 202 \<longleftrightarrow> accepted_call cfg b w now newID (requested_call s rq) m)"
proof -
  let ?pat = "run_pattern (path_segments (hr_EscapedPath rq))"
  consider (stopped) "m' = m" "rp_Status answer \<noteq> 202"
      "\<not> authorised s rq \<or> hr_Method rq \<noteq> ''POST'' \<or> mux_clean (hr_EscapedPath rq) \<noteq> hr_EscapedPath rq"
    | (routed) r where "validateRequestBoundary s rq = (None :: api_json response option)"
      "requireSession s rq = (None :: api_json response option)"
      "mux_clean (hr_EscapedPath rq) = hr_EscapedPath rq \<or> hr_Method rq = ''CONNECT''"
      "route svc front env s ?pat rq m = (r, m')" "rp_Status answer = rp_Status r"
    using served_by_gates [OF assms(2) some_runs [OF assms(1)] assms(4)] by blast
  then show ?thesis
  proof cases
    case stopped
    then show ?thesis using stopped_asks_nothing [of s rq] by simp
  next
    case routed
    have asked: "requested_call s rq = pattern_call rq ?pat"
    proof (cases "hr_Method rq = ''POST''")
      case True
      then have "authorised s rq" using gates_of_a_post [of rq s] routed(1,2) by blast
      then show ?thesis using routed(3) True by (intro pattern_call_requested) auto
    next
      case False
      then show ?thesis using stopped_asks_nothing [of s rq] by (simp add: pattern_call_def)
    qed
    have "mux_clean (hr_EscapedPath rq) = hr_EscapedPath rq \<or> hr_Method rq \<noteq> ''POST''" using routed(3) by auto
    from served_run_route [OF assms(1-3) this, of m front env s] show ?thesis
      by (simp add: routed(4,5) asked carries_out_def)
  qed
qed

subsection \<open>A sample session\<close>

definition sample_server :: server where
  "sample_server = \<lparr>sn_addr = ''127.0.0.1:4000'', sn_baseURL = ''http://127.0.0.1:4000'', sn_version = ''dev'',
     sn_bootstrapToken = ''launch'', sn_bootstrapExpires = 100, sn_bootstrapConsumed = False, sn_sessionToken = ''session'',
     sn_csrfToken = ''page'', sn_maxStreams = 16, sn_streams = 0\<rparr>"

definition sample_visit_env :: "store manager serve_env" where
  "sample_visit_env = \<lparr>sve_now = 60, sve_stream = \<lparr>se_deadlineOk = True, se_flushOk = True, se_rounds = []\<rparr>,
     sve_cancelled = False, sve_lib = sample_lib, sve_parse = (\<lambda>_. None)\<rparr>"

definition sample_get :: "string \<Rightarrow> http_request" where
  "sample_get path = \<lparr>hr_Method = ''GET'', hr_Host = ''127.0.0.1:4000'', hr_Path = path, hr_EscapedPath = path,
     hr_Query = [(''token'', [''launch''])], hr_Origin = [], hr_CSRF = [], hr_Cookie = None, hr_Authorization = [], hr_ProxyAuthorization = [],
     hr_LastEventID = [],
     hr_MediaType = None, hr_ContentLength = 0, hr_Body = [], hr_BodyFails = False\<rparr>"

definition sample_cancel :: http_request where
  "sample_cancel = (sample_get (''/api/v1/runs/'' @ sample_rid @ ''/cancel''))\<lparr>hr_Method := ''POST'',
     hr_Origin := ''http://127.0.0.1:4000'', hr_CSRF := ''page'', hr_Cookie := Some ''session''\<rparr>"

definition sample_services :: "store manager services" where
  "sample_services = manager_services sample_config sample_backend sample_audit_env 60 (Some sample_rid)"

definition sample_front :: frontend where
  "sample_front = (\<lambda>rq. http_Error ''404 page not found'' 404)"

definition sample_cancelled :: "store manager" where
  "sample_cancelled = sample_started\<lparr>mg_runs := AList.update sample_rid
     ((new_record sample_rid sample_plan)\<lparr>rr_cancelled := True\<rparr>) (mg_runs sample_started)\<rparr>"

lemma sample_cancel_passes:
  "validateRequestBoundary sample_server sample_cancel = (None :: api_json response option)
   \<and> requireSession sample_server sample_cancel = (None :: api_json response option)
   \<and> mux (patterns sample_services) sample_cancel = MuxHandler ''/api/v1/runs/''"
  by code_simp

lemma sample_cancel_parts:
  "has_prefix ''/api/v1/runs/'' (hr_Path sample_cancel) \<and> split_at slash (drop 13 (hr_Path sample_cancel)) = [sample_rid, ''cancel'']
   \<and> drop 13 (hr_Path sample_cancel) \<noteq> [] \<and> hr_Method sample_cancel = ''POST''"
  by code_simp

lemma sample_cancel_result: "Cancel sample_rid sample_started = (None, sample_cancelled)"
  by (simp add: Cancel_def sample_rid_valid sample_started_run new_record_running sample_cancelled_def)

lemma sample_cancel_served:
  "snd (serve sample_services sample_front sample_visit_env sample_cancel sample_server sample_started) = (sample_server, sample_cancelled)"
proof -
  have "snd (handleRunByID (manager_runs sample_config sample_backend sample_audit_env 60 (Some sample_rid)) free senv
      sample_cancel sample_started) = sample_cancelled" for free senv
    using sample_cancel_parts
    by (simp add: handleRunByID_def Let_def manager_runs_def sample_cancel_result split: option.split)
  then have "snd (route sample_services sample_front sample_visit_env sample_server ''/api/v1/runs/'' sample_cancel sample_started)
      = sample_cancelled"
    by (simp add: route_def sample_services_def manager_services_def run_routes_def as_run_def)
  with sample_cancel_passes show ?thesis
    by (simp add: serve_def split_beta Let_def)
qed

lemma sample_cancelled_differs: "sample_cancelled \<noteq> sample_started"
proof
  assume "sample_cancelled = sample_started"
  then have "get (mg_runs sample_cancelled) sample_rid = get (mg_runs sample_started) sample_rid" by simp
  moreover have "get (mg_runs sample_cancelled) sample_rid = Some ((new_record sample_rid sample_plan)\<lparr>rr_cancelled := True\<rparr>)"
    unfolding sample_cancelled_def by simp
  ultimately have "(new_record sample_rid sample_plan)\<lparr>rr_cancelled := True\<rparr> = new_record sample_rid sample_plan"
    unfolding sample_started_run by simp
  from arg_cong [OF this, of rr_cancelled] show False unfolding new_record_def by simp
qed

lemma sample_cancel_asked: "requested_call sample_server sample_cancel = CancelCall sample_rid"
  by code_simp

lemma sample_cancel_path:
  "take 3 (path_segments (hr_EscapedPath sample_cancel)) = [''api'', ''v1'', ''runs'']
   \<and> unescape_percent (hr_EscapedPath sample_cancel) = Some (hr_Path sample_cancel)"
  by code_simp

theorem requests_carry_out_run_calls_witness:
  "sample_cancelled \<noteq> sample_started
   \<and> requested_call sample_server sample_cancel = CancelCall sample_rid
   \<and> snd (snd (serve sample_services sample_front sample_visit_env sample_cancel sample_server sample_started)) = sample_cancelled
   \<and> rp_Status (fst (serve sample_services sample_front sample_visit_env sample_cancel sample_server sample_started)) = 202"
proof -
  let ?served = "serve sample_services sample_front sample_visit_env sample_cancel sample_server sample_started"
  have svc: "svc_runs sample_services = Some (manager_runs sample_config sample_backend sample_audit_env 60 (Some sample_rid))"
    by (simp add: sample_services_def manager_services_def)
  have "?served = (fst ?served, fst (snd ?served), snd (snd ?served))" by simp
  from requests_carry_out_run_calls [OF svc conjunct1 [OF sample_cancel_path] conjunct2 [OF sample_cancel_path] this]
  have "snd (snd ?served) = snd (Cancel sample_rid sample_started)"
    "rp_Status (fst ?served) = 202 \<longleftrightarrow>
       fst (Cancel sample_rid sample_started) = None \<and> Get sample_rid (snd (Cancel sample_rid sample_started)) \<noteq> None"
    by (simp_all only: sample_cancel_asked carry_out.simps accepted_call.simps)
  moreover have "Get sample_rid sample_cancelled \<noteq> None" by (simp add: Get_def sample_cancelled_def sample_rid_valid)
  ultimately show ?thesis by (simp add: sample_cancel_result sample_cancel_asked sample_cancelled_differs)
qed

end
