(* ===== verification/WebUI.thy ===== *)
theory WebUI
  imports Http GoRegexp GoUrl
begin

section \<open>The web interface's files (internal/webui/webui.go)\<close>

text \<open>
  What is served under \<open>/\<close>: the files embedded in the executable, on reviewed routes only, or a
  development server behind a proxy that keeps the session's credentials to itself. The embedded
  files, the table of media types and the development server are parameters.
\<close>

subsection \<open>Embedded files\<close>

text \<open>\<open>fs.ValidPath\<close>, and the text from the last dot on.\<close>

definition valid_fs_path :: "string \<Rightarrow> bool" where
  "valid_fs_path name \<longleftrightarrow> valid_utf8 name
     \<and> (name = ''.'' \<or> list_all (\<lambda>e. e \<noteq> [] \<and> e \<noteq> ''.'' \<and> e \<noteq> ''..'') (split_at slash name))"

definition file_ext :: "string \<Rightarrow> string" where
  "file_ext name = (if CHR ''.'' \<in> set name then CHR ''.'' # rev (takeWhile (\<lambda>c. c \<noteq> CHR ''.'') (rev name)) else [])"

definition platform_char :: "char \<Rightarrow> bool" where
  "platform_char c \<longleftrightarrow> (97 \<le> byte c \<and> byte c \<le> 122) \<or> is_digit c \<or> c = CHR ''-''"

fun up_to :: "nat \<Rightarrow> re \<Rightarrow> re" where
  "up_to 0 r = Eps"
| "up_to (Suc n) r = Opt (Cat r (up_to n r))"

definition dedicatedRoute :: "string \<Rightarrow> bool" where
  "dedicatedRoute p \<longleftrightarrow> re_search (cats [Bol, lit ''/dedicated/'', Cls platform_char, up_to 63 (Cls platform_char), Opt (lit ''/sign-in''), Eol]) p"

definition isApplicationRoute :: "string \<Rightarrow> bool" where
  "isApplicationRoute p \<longleftrightarrow>
     p \<in> set [''/'', ''/authentication'', ''/tasks'', ''/runs'', ''/tools'', ''/diagnostics'', ''/secret-audit'',
              ''/conjur/security-audit'', ''/dedicated/conjur/security-audit'', ''/dedicated/conjur/access-explorer'']
     \<or> dedicatedRoute p"

definition asset_name :: "string \<Rightarrow> string option" where
  "asset_name p =
     (if isApplicationRoute p then Some ''index.html''
      else if p = ''/favicon.svg'' then Some ''favicon.svg''
      else if has_prefix ''/assets/'' p then Some (drop 1 p)
      else None)"

definition http_NotFound :: "'j response" where
  "http_NotFound = http_Error ''404 page not found'' 404"

definition ServeHTTP :: "(string \<Rightarrow> string) \<Rightarrow> string dict \<Rightarrow> http_request \<Rightarrow> 'j response" where
  "ServeHTTP mime assets rq =
     (if hr_Method rq \<noteq> ''GET'' \<and> hr_Method rq \<noteq> ''HEAD''
      then with_header ''Allow'' ''GET, HEAD'' (http_Error ''method not allowed'' 405)
      else case asset_name (hr_Path rq) of
        None \<Rightarrow> http_NotFound
      | Some name \<Rightarrow>
      if \<not> valid_fs_path name then http_NotFound
      else case get assets name of
        None \<Rightarrow> http_NotFound
      | Some content \<Rightarrow>
          let t = mime (file_ext name) in
          \<lparr>rp_Status = 200,
           rp_Headers = [(''Content-Type'', if t = [] then ''application/octet-stream'' else t),
                         (''Content-Length'', show_nat (length content))],
           rp_Body = (if hr_Method rq = ''GET'' then PlainText content else NoBody)\<rparr>)"

definition ProductionHandler :: "(string \<Rightarrow> string) \<Rightarrow> string dict \<Rightarrow> (http_request \<Rightarrow> 'j response) option" where
  "ProductionHandler mime assets = (if get assets ''index.html'' = None then None else Some (ServeHTTP mime assets))"

subsection \<open>The development proxy\<close>

text \<open>
  A parsed URL: what package net/url has read, with \<open>Host\<close> as it stands in the URL. \<open>Hostname\<close> and
  \<open>Port\<close> are net/url's split of it: a colon and digits at the end are the port, brackets are dropped.
\<close>

record dev_url =
  du_Scheme :: string
  du_Host :: string
  du_HasUser :: bool
  du_Path :: string
  du_RawQuery :: string
  du_Fragment :: string

definition host_port :: "string \<Rightarrow> string \<times> string" where
  "host_port h =
     (let tail = takeWhile (\<lambda>c. c \<noteq> CHR '':'') (rev h); front = drop (Suc (length tail)) (rev h) in
      if CHR '':'' \<in> set h \<and> list_all is_digit tail then (rev front, rev tail) else (h, []))"

definition url_Hostname :: "string \<Rightarrow> string" where
  "url_Hostname h =
     (let name = fst (host_port h) in
      if 2 \<le> length name \<and> hd name = CHR ''['' \<and> last name = CHR '']'' then butlast (drop 1 name) else name)"

definition url_Port :: "string \<Rightarrow> string" where
  "url_Port h = snd (host_port h)"

definition validateDevURL :: "(string \<Rightarrow> dev_url option) \<Rightarrow> string \<Rightarrow> dev_url option" where
  "validateDevURL parse raw =
     (case parse raw of
        None \<Rightarrow> None
      | Some u \<Rightarrow>
          if du_Scheme u \<noteq> ''http'' \<or> url_Hostname (du_Host u) \<noteq> ''127.0.0.1'' \<or> du_HasUser u
            \<or> du_Fragment u \<noteq> [] \<or> du_RawQuery u \<noteq> []
          then None
          else if du_Path u \<noteq> [] \<and> du_Path u \<noteq> ''/'' then None
          else (case parse_int64 (url_Port (du_Host u)) of
             None \<Rightarrow> None
           | Some port \<Rightarrow> if port < 1 \<or> 65535 < port then None else Some (u\<lparr>du_Path := []\<rparr>)))"

text \<open>
  What the proxy sends, and the scheme and host of the URL it is sent to: the transport dials the
  host of that URL, whatever the request's \<open>Host\<close> header says.
\<close>

record proxy_request =
  px_Scheme :: string
  px_Host :: string
  px_Request :: http_request

definition stripRuntimeCredentials :: "http_request \<Rightarrow> http_request" where
  "stripRuntimeCredentials rq = rq\<lparr>hr_Cookie := None, hr_Authorization := [], hr_ProxyAuthorization := [], hr_CSRF := []\<rparr>"

text \<open>\<open>NewSingleHostReverseProxy\<close>'s own director: the URL's scheme and host, and the joined path.\<close>

definition singleJoiningSlash :: "string \<Rightarrow> string \<Rightarrow> string" where
  "singleJoiningSlash a b =
     (let s = (a \<noteq> [] \<and> last a = slash); p = (b \<noteq> [] \<and> hd b = slash) in
      if s \<and> p then a @ drop 1 b else if \<not> s \<and> \<not> p then a @ slash # b else a @ b)"

definition single_host_director :: "dev_url \<Rightarrow> http_request \<Rightarrow> proxy_request" where
  "single_host_director target rq =
     \<lparr>px_Scheme = du_Scheme target, px_Host = du_Host target,
      px_Request = rq\<lparr>hr_Path := singleJoiningSlash (du_Path target) (hr_Path rq),
        hr_EscapedPath := singleJoiningSlash (du_Path target) (hr_EscapedPath rq)\<rparr>\<rparr>"

definition proxy_director :: "dev_url \<Rightarrow> http_request \<Rightarrow> proxy_request" where
  "proxy_director target rq =
     (let out = single_host_director target rq
      in out\<lparr>px_Request := stripRuntimeCredentials ((px_Request out)\<lparr>hr_Host := du_Host target\<rparr>)\<rparr>)"

definition ModifyResponse :: "'j response \<Rightarrow> 'j response" where
  "ModifyResponse r = r\<lparr>rp_Headers := AList.delete ''Set-Cookie'' (rp_Headers r)\<rparr>"

text \<open>\<open>transport\<close> is the network: the answer to what is sent, if there is one.\<close>

definition NewDevProxy ::
    "(string \<Rightarrow> dev_url option) \<Rightarrow> (proxy_request \<Rightarrow> 'j response option) \<Rightarrow> string \<Rightarrow> (http_request \<Rightarrow> 'j response) option" where
  "NewDevProxy parse transport raw =
     map_option (\<lambda>target rq. case transport (proxy_director target rq) of
         None \<Rightarrow> http_Error ''frontend development server unavailable'' 502
       | Some r \<Rightarrow> ModifyResponse r) (validateDevURL parse raw)"

subsection \<open>What is served\<close>

lemma has_prefix_drop: "has_prefix (c # p) s \<Longrightarrow> has_prefix p (drop 1 s)"
  by (cases s) auto

lemma asset_name_cases:
  "asset_name p = Some name \<Longrightarrow>
     (name = ''index.html'' \<and> isApplicationRoute p) \<or> (name = ''favicon.svg'' \<and> p = ''/favicon.svg'')
     \<or> (name = drop 1 p \<and> has_prefix ''assets/'' name)"
  by (auto simp: asset_name_def dest: has_prefix_drop split: if_split_asm)

text \<open>
  Only reviewed files leave the executable. An answer that the production frontend gives with
  success is to a reading method and carries an embedded file: the entry page on a reviewed
  route, the icon, or the file below the assets directory that the path names, without an empty
  step, a dot or a step upwards in the name.
\<close>
theorem static_files_are_reviewed:
  assumes "ProductionHandler mime assets = Some front" and "rp_Status (front rq) = 200"
  shows "hr_Method rq \<in> {''GET'', ''HEAD''} \<and> (\<exists>name content. get assets name = Some content
    \<and> ((name = ''index.html'' \<and> isApplicationRoute (hr_Path rq)) \<or> (name = ''favicon.svg'' \<and> hr_Path rq = ''/favicon.svg'')
       \<or> (name = drop 1 (hr_Path rq) \<and> has_prefix ''assets/'' name))
    \<and> list_all (\<lambda>e. e \<noteq> [] \<and> e \<noteq> ''.'' \<and> e \<noteq> ''..'') (split_at slash name)
    \<and> rp_Body (front rq) = (if hr_Method rq = ''GET'' then PlainText content else NoBody))"
proof -
  have front: "front = ServeHTTP mime assets" using assms(1) by (simp add: ProductionHandler_def split: if_split_asm)
  have m: "hr_Method rq = ''GET'' \<or> hr_Method rq = ''HEAD''"
    using assms(2) by (auto simp: front ServeHTTP_def with_header_def http_Error_def split: if_split_asm)
  then obtain name content where n: "asset_name (hr_Path rq) = Some name" "valid_fs_path name" "get assets name = Some content"
    using assms(2) by (auto simp: front ServeHTTP_def http_NotFound_def http_Error_def split: option.split_asm if_split_asm)
  have "rp_Body (front rq) = (if hr_Method rq = ''GET'' then PlainText content else NoBody)"
    using m n by (auto simp: front ServeHTTP_def Let_def)
  moreover have "name \<noteq> ''.''"
  proof
    assume "name = ''.''"
    from asset_name_cases [OF n(1), unfolded this] show False by simp
  qed
  ultimately show ?thesis
    using m n asset_name_cases [OF n(1)] unfolding valid_fs_path_def by blast
qed

definition sample_page :: http_request where
  "sample_page = \<lparr>hr_Method = ''GET'', hr_Host = ''127.0.0.1:4000'', hr_Path = ''/assets/a.js'', hr_EscapedPath = ''/assets/a.js'',
     hr_Query = [], hr_Origin = [], hr_CSRF = [], hr_Cookie = Some ''session'', hr_Authorization = [], hr_ProxyAuthorization = [],
     hr_LastEventID = [], hr_MediaType = None,
     hr_ContentLength = 0, hr_Body = [], hr_BodyFails = False\<rparr>"

definition sample_assets :: "string dict" where
  "sample_assets = [(''index.html'', ''page''), (''assets/a.js'', ''code'')]"

lemma sample_page_served:
  "rp_Status (ServeHTTP (\<lambda>_. []) sample_assets sample_page :: unit response) = 200
   \<and> rp_Body (ServeHTTP (\<lambda>_. []) sample_assets sample_page :: unit response) = PlainText ''code''"
  by code_simp

theorem static_files_are_reviewed_witness:
  "\<exists>name. get sample_assets name = Some ''code'' \<and> list_all (\<lambda>e. e \<noteq> [] \<and> e \<noteq> ''.'' \<and> e \<noteq> ''..'') (split_at slash name)"
proof -
  have front: "ProductionHandler (\<lambda>_. []) sample_assets = Some (ServeHTTP (\<lambda>_. []) sample_assets :: _ \<Rightarrow> unit response)"
    by (simp add: ProductionHandler_def sample_assets_def)
  have "hr_Method sample_page = ''GET''" by (simp add: sample_page_def)
  with static_files_are_reviewed [OF front, of sample_page] sample_page_served show ?thesis by auto
qed

subsection \<open>The development server\<close>

definition stays_local :: "proxy_request \<Rightarrow> bool" where
  "stays_local p \<longleftrightarrow> px_Scheme p = ''http'' \<and> url_Hostname (px_Host p) = ''127.0.0.1''
     \<and> (\<exists>port. parse_int64 (url_Port (px_Host p)) = Some port \<and> 1 \<le> port \<and> port \<le> 65535)"

definition carries_no_credentials :: "http_request \<Rightarrow> bool" where
  "carries_no_credentials rq \<longleftrightarrow>
     hr_Cookie rq = None \<and> hr_Authorization rq = [] \<and> hr_ProxyAuthorization rq = [] \<and> hr_CSRF rq = []"

lemma proxy_director_local:
  assumes "validateDevURL parse raw = Some u"
  shows "stays_local (proxy_director u rq) \<and> carries_no_credentials (px_Request (proxy_director u rq))"
  using assms
  by (auto simp: validateDevURL_def proxy_director_def single_host_director_def stripRuntimeCredentials_def stays_local_def
      carries_no_credentials_def Let_def not_less split: option.split_asm if_split_asm)

text \<open>
  C40: The development server never sees the session, and nothing but a port of this machine is
  contacted. Two networks that agree on the requests sent over plain HTTP to a port of 127.0.0.1
  without cookies, authorization or page token give the same frontend, so no other request is
  ever sent; the frontend's answers do not depend on the credentials of the browser's request, and
  set no cookie for the server's origin.
\<close>
theorem development_server_gets_no_credentials:
  assumes "\<And>p. stays_local p \<Longrightarrow> carries_no_credentials (px_Request p) \<Longrightarrow> transport p = transport' p"
  shows "NewDevProxy parse transport raw = NewDevProxy parse transport' raw
    \<and> (\<forall>proxy rq c a b t. NewDevProxy parse transport raw = Some proxy \<longrightarrow>
         proxy (rq\<lparr>hr_Cookie := c, hr_Authorization := a, hr_ProxyAuthorization := b, hr_CSRF := t\<rparr>) = proxy rq
         \<and> get (rp_Headers (proxy rq)) ''Set-Cookie'' = None)"
proof (cases "validateDevURL parse raw")
  case (Some u)
  have "transport (proxy_director u rq) = transport' (proxy_director u rq)" for rq
    using assms proxy_director_local [OF Some] by blast
  moreover have "proxy_director u (rq\<lparr>hr_Cookie := c, hr_Authorization := a, hr_ProxyAuthorization := b, hr_CSRF := t\<rparr>)
      = proxy_director u rq" for rq c a b t
    by (simp add: proxy_director_def single_host_director_def stripRuntimeCredentials_def Let_def)
  ultimately show ?thesis
    using Some by (auto simp: NewDevProxy_def ModifyResponse_def http_Error_def split: option.split)
qed (simp add: NewDevProxy_def)

definition sample_dev_url :: dev_url where
  "sample_dev_url = \<lparr>du_Scheme = ''http'', du_Host = ''127.0.0.1:5173'', du_HasUser = False, du_Path = ''/'', du_RawQuery = [],
     du_Fragment = []\<rparr>"

definition sample_network :: "proxy_request \<Rightarrow> (string option \<times> string) response option" where
  "sample_network p = Some (writeJSON 200 (hr_Cookie (px_Request p), hr_Path (px_Request p)))"

text \<open>The same, but with a machine elsewhere, and a page for whoever sends a cookie.\<close>

definition other_network :: "proxy_request \<Rightarrow> (string option \<times> string) response option" where
  "other_network p =
     (if px_Host p = ''elsewhere.example:80'' then None
      else if hr_Cookie (px_Request p) \<noteq> None then Some (writeJSON 500 (None, []))
      else sample_network p)"

lemma sample_dev_valid: "validateDevURL (\<lambda>_. Some sample_dev_url) raw = Some (sample_dev_url\<lparr>du_Path := []\<rparr>)"
proof -
  have "parse_int64 (url_Port ''127.0.0.1:5173'') = Some 5173" "url_Hostname ''127.0.0.1:5173'' = ''127.0.0.1''" by code_simp+
  then show ?thesis by (simp add: validateDevURL_def sample_dev_url_def)
qed

theorem development_server_gets_no_credentials_witness:
  "\<exists>proxy. NewDevProxy (\<lambda>_. Some sample_dev_url) sample_network ''http://127.0.0.1:5173'' = Some proxy
     \<and> NewDevProxy (\<lambda>_. Some sample_dev_url) other_network ''http://127.0.0.1:5173'' = Some proxy
     \<and> rp_Body (proxy sample_page) = Json (None, ''/assets/a.js'')"
proof -
  have far: "url_Hostname ''elsewhere.example:80'' \<noteq> ''127.0.0.1''" by code_simp
  have agree: "stays_local p \<Longrightarrow> carries_no_credentials (px_Request p) \<Longrightarrow> sample_network p = other_network p" for p
    using far by (auto simp: stays_local_def carries_no_credentials_def other_network_def)
  obtain proxy where p: "NewDevProxy (\<lambda>_. Some sample_dev_url) sample_network ''http://127.0.0.1:5173'' = Some proxy"
    by (simp add: NewDevProxy_def sample_dev_valid)
  have "proxy_director (sample_dev_url\<lparr>du_Path := []\<rparr>) sample_page
      = \<lparr>px_Scheme = ''http'', px_Host = ''127.0.0.1:5173'', px_Request = sample_page\<lparr>hr_Cookie := None, hr_Host := ''127.0.0.1:5173''\<rparr>\<rparr>"
    by (simp add: proxy_director_def single_host_director_def stripRuntimeCredentials_def sample_dev_url_def sample_page_def
        singleJoiningSlash_def slash_def Let_def)
  then have "rp_Body (proxy sample_page) = Json (None, ''/assets/a.js'')"
    using p by (auto simp: NewDevProxy_def sample_dev_valid sample_network_def ModifyResponse_def writeJSON_def sample_page_def)
  with development_server_gets_no_credentials [OF agree, where parse = "\<lambda>_. Some sample_dev_url"] p show ?thesis by auto
qed

end
