(* ===== verification/ServerSafety.thy ===== *)
theory ServerSafety
  imports ServerRuns WebUI
begin

section \<open>What the server lets through\<close>

text \<open>
  The gates of \<open>Server\<close> as properties of whole requests: what changes the services' state, what an
  outsider can tell, and how often the session is handed out; then the promise of the event
  stream, proved once over an interface of what a run's log is and instantiated on the run manager.
\<close>

subsection \<open>Methods\<close>

text \<open>A handler that is asked with a method that does not change state leaves the services alone.\<close>

lemma methods [simp]: "isStateChangingMethod ''POST''" "isStateChangingMethod ''DELETE''"
  by (simp_all add: isStateChangingMethod_def)

lemma run_routes_read:
  assumes "\<not> isStateChangingMethod (hr_Method rq)"
  shows "run_routes runs env s pat rq st = Some (answer, st') \<Longrightarrow> st' = st"
proof -
  have m: "hr_Method rq \<noteq> ''POST''" using assms by auto
  assume "run_routes runs env s pat rq st = Some (answer, st')"
  with m show ?thesis
    by (auto simp: run_routes_def as_run_def handleRunPreview_def handleRuns_def handleRunByID_def Let_def
        split: if_split_asm option.split_asm)
qed

lemma terraform_routes_read:
  assumes "\<not> isStateChangingMethod (hr_Method rq)"
  shows "terraform_routes t pat rq st = Some (answer, st') \<Longrightarrow> st' = st"
proof -
  have m: "hr_Method rq \<noteq> ''POST''" using assms by auto
  assume "terraform_routes t pat rq st = Some (answer, st')"
  with m show ?thesis
    by (auto simp: terraform_routes_def as_service_def handleTerraformFormatCheck_def
        handleTerraformStateRemovalPreview_def handleTerraformStateRemovalExecute_def
        split: if_split_asm option.split_asm)
qed

lemma service_handlers_read:
  assumes "hr_Method rq \<noteq> ''POST''" and "hr_Method rq \<noteq> ''DELETE''"
  shows "snd (handleToolInstall install rq st) = st" "snd (handleToolRefresh refresh c rq st) = st"
    "snd (handleCredentialLogin login rq st) = st" "snd (handleCredentialInteractiveLogin launch rq st) = st"
    "snd (handleCredentialConfiguration parse cfs rq st) = st" "snd (handleSecretAudit lib parse aus rq st) = st"
  using assms
  by (simp_all add: handleToolInstall_def handleToolRefresh_def handleCredentialLogin_def
      handleCredentialInteractiveLogin_def handleCredentialConfiguration_def handleSecretAudit_def split: option.split sum.split)

lemma provided_read: "(\<And>g. snd (f g) = st) \<Longrightarrow> snd (provided st svc f) = st"
  by (simp add: provided_def split: option.split)

lemma route_read:
  assumes "\<not> isStateChangingMethod (hr_Method rq)"
  shows "snd (route svc front env s pat rq st) = st"
proof (cases "\<exists>runs. svc_runs svc = Some runs \<and> run_routes runs env s pat rq st \<noteq> None")
  case True
  then obtain runs answer st' where "svc_runs svc = Some runs" "run_routes runs env s pat rq st = Some (answer, st')"
    by auto
  with run_routes_read [OF assms this(2)] show ?thesis by (simp add: route_def)
next
  case no_run: False
  have runs: "(case svc_runs svc of None \<Rightarrow> None | Some runs \<Rightarrow> run_routes runs env s pat rq st) = None"
    using no_run by (cases "svc_runs svc") (simp_all del: split_paired_Ex split_paired_All)
  have m: "hr_Method rq \<noteq> ''POST''" "hr_Method rq \<noteq> ''DELETE''" using assms by auto
  show ?thesis
  proof (cases "\<exists>t. svc_terraform svc = Some t \<and> terraform_routes t pat rq st \<noteq> None")
    case True
    then obtain t answer st' where t: "svc_terraform svc = Some t" "terraform_routes t pat rq st = Some (answer, st')"
      by auto
    with terraform_routes_read [OF assms t(2)] runs show ?thesis by (simp add: route_def)
  next
    case False
    have "(case svc_terraform svc of None \<Rightarrow> None | Some t \<Rightarrow> terraform_routes t pat rq st) = None"
      using False by (cases "svc_terraform svc") (simp_all del: split_paired_Ex split_paired_All)
    with runs show ?thesis
      by (simp add: route_def provided_read as_service_def service_handlers_read [OF m])
  qed
qed

subsection \<open>Requests\<close>

lemma boundary_None:
  "validateRequestBoundary s rq = None \<longleftrightarrow>
     hr_Host rq = sn_addr s \<and> (hr_Origin rq = [] \<or> hr_Origin rq = sn_baseURL s)
     \<and> (isStateChangingMethod (hr_Method rq) \<longrightarrow> hr_Origin rq = sn_baseURL s \<and> hr_CSRF rq = sn_csrfToken s)"
  by (auto simp: validateRequestBoundary_def constantTimeEqual_def Let_def)

lemma session_None: "requireSession s rq = None \<longleftrightarrow> hr_Cookie rq = Some (sn_sessionToken s)"
  by (auto simp: requireSession_def constantTimeEqual_def split: option.split)

text \<open>
  C2: Nothing a browser asks for changes the services unless it comes from the server's own page
  in its own session. A request after which the services' state differs named the server's host
  and origin, carried the session cookie, used a method that changes state, and carried the token
  that only a page of the session can have read.
\<close>
theorem state_changes_come_from_the_session:
  assumes "serve svc front env rq s st = (answer, s', st')" and "st' \<noteq> st"
  shows "hr_Host rq = sn_addr s \<and> hr_Origin rq = sn_baseURL s \<and> hr_Cookie rq = Some (sn_sessionToken s)
    \<and> isStateChangingMethod (hr_Method rq) \<and> hr_CSRF rq = sn_csrfToken s"
proof -
  obtain pat where b: "validateRequestBoundary s rq = (None :: api_json response option)"
    and c: "requireSession s rq = (None :: api_json response option)" and r: "snd (route svc front env s pat rq st) = st'"
    using assms
    by (auto simp: serve_def Let_def split: option.split_asm mux_answer.split_asm if_split_asm prod.split_asm)
      (metis snd_conv)
  have "isStateChangingMethod (hr_Method rq)"
    using route_read [of rq svc front env s pat st] r assms(2) by auto
  with b c show ?thesis by (simp add: boundary_None session_None)
qed

theorem state_changes_come_from_the_session_witness:
  "\<exists>answer. serve sample_services sample_front sample_visit_env sample_cancel sample_server sample_started
      = (answer, sample_server, sample_cancelled)
    \<and> hr_CSRF sample_cancel = sn_csrfToken sample_server \<and> hr_Cookie sample_cancel = Some (sn_sessionToken sample_server)"
proof -
  obtain answer where s: "serve sample_services sample_front sample_visit_env sample_cancel sample_server sample_started
      = (answer, sample_server, sample_cancelled)"
    using sample_cancel_served by (metis prod.collapse)
  from state_changes_come_from_the_session [OF s sample_cancelled_differs] s show ?thesis by blast
qed

subsection \<open>The session cookie\<close>

definition hands_out :: "'j response \<Rightarrow> bool" where
  "hands_out r \<longleftrightarrow> get (rp_Headers r) ''Set-Cookie'' \<noteq> None"

lemma hands_out_answers [simp]:
  "\<not> hands_out (writeJSON code v)" "\<not> hands_out (writeAPIError code c)" "\<not> hands_out (writeAPIFieldError code c f)"
  "\<not> hands_out (http_Error msg code)" "\<not> hands_out no_content" "\<not> hands_out (not_allowed ms)"
  "\<not> hands_out writeResourceNotFound" "\<not> hands_out (writeRequestBoundaryError rq code c)"
  "\<not> hands_out (event_stream fs)" "\<not> hands_out see_home"
  "hands_out (with_header ''Allow'' ms r) = hands_out r"
  by (simp_all add: hands_out_def writeJSON_def writeAPIError_def writeAPIFieldError_def writeAPIDetail_def http_Error_def
      no_content_def not_allowed_def writeMethodNotAllowed_def writeResourceNotFound_def writeRequestBoundaryError_def
      event_stream_def see_home_def with_header_def)

lemma hands_out_nothing [simp]: "\<not> hands_out \<lparr>rp_Status = code, rp_Headers = [], rp_Body = b\<rparr>"
  by (simp add: hands_out_def)

lemma get_added_headers:
  "\<forall>(k, v) \<in> set kvs. k \<noteq> h \<Longrightarrow> get (foldr (\<lambda>(k, v) d. if get d k = None then (k, v) # d else d) kvs d) h = get d h"
  by (induction kvs) auto

lemma hands_out_wrapped [simp]:
  "hands_out (map_response f r) = hands_out r" "hands_out (securityHeaders r) = hands_out r"
  by (simp_all add: hands_out_def map_response_def securityHeaders_def get_added_headers del: foldr.simps)

text \<open>An answer is quiet when it hands out nothing; the rules follow the branches of a handler.\<close>

definition quiet :: "'j response \<times> 'st \<Rightarrow> bool" where
  "quiet r \<longleftrightarrow> \<not> hands_out (fst r)"

lemma quiet_pair: "\<not> hands_out r \<Longrightarrow> quiet (r, st)"
  by (simp add: quiet_def)

lemma quiet_if: "quiet a \<Longrightarrow> quiet b \<Longrightarrow> quiet (if c then a else b)"
  by simp

lemma quiet_option: "quiet a \<Longrightarrow> (\<And>x. quiet (f x)) \<Longrightarrow> quiet (case opt of None \<Rightarrow> a | Some x \<Rightarrow> f x)"
  by (cases opt) auto

lemma quiet_sum: "(\<And>x. quiet (f x)) \<Longrightarrow> (\<And>x. quiet (g x)) \<Longrightarrow> quiet (case t of Inl x \<Rightarrow> f x | Inr x \<Rightarrow> g x)"
  by (cases t) auto

lemma quiet_prod: "(\<And>x y. quiet (f x y)) \<Longrightarrow> quiet (case t of (x, y) \<Rightarrow> f x y)"
  by (cases t) auto

lemma quiet_start_error: "quiet a \<Longrightarrow> quiet b \<Longrightarrow> quiet (case e of ErrSecretAuditInvalidRequest \<Rightarrow> a | ErrSecretAuditUnavailable \<Rightarrow> b)"
  by (cases e) auto

lemmas quiet_rules = quiet_if quiet_option quiet_sum quiet_prod quiet_start_error quiet_pair

lemma loud_if: "\<not> hands_out a \<Longrightarrow> \<not> hands_out b \<Longrightarrow> \<not> hands_out (if c then a else b)"
  by simp

lemma loud_option: "\<not> hands_out a \<Longrightarrow> (\<And>x. \<not> hands_out (f x)) \<Longrightarrow> \<not> hands_out (case opt of None \<Rightarrow> a | Some x \<Rightarrow> f x)"
  by (cases opt) auto

lemma hands_out_errors [simp]:
  "\<not> hands_out (body_reply be)" "\<not> hands_out (writeRunError re)" "\<not> hands_out (writeRunStreamError se)"
  "\<not> hands_out (writeToolInstallError te)" "\<not> hands_out (writeCredentialLoginError ce)"
  "\<not> hands_out (writeTerraformRemovalError tre)"
  by (simp_all only: body_reply_def writeRunError_def writeRunStreamError_def writeToolInstallError_def
      writeCredentialLoginError_def writeTerraformRemovalError_def hands_out_answers not_False_eq_True simp_thms
      split: body_error.split run_error.split run_error_code.split option.split failure.split install_error.split
        login_error.split removal_error.split if_split)

lemma get_only_quiet [simp]: "\<not> hands_out r \<Longrightarrow> \<not> hands_out (get_only rq r)"
  by (simp add: get_only_def)

lemma run_handlers_quiet:
  "quiet (handleRunPreview runs rq st)" "quiet (handleRuns runs rq st)" "quiet (handleRunByID runs free senv rq st)"
proof -
  have l: "\<not> hands_out (handleRunList runs st)"
    unfolding handleRunList_def by (intro loud_option) simp_all
  have e: "\<not> hands_out (handleRunEvents runs free senv rq rid)" for rid
    unfolding handleRunEvents_def
    by (intro loud_option loud_if hands_out_answers hands_out_errors | split list.split look.split | simp)+
  show "quiet (handleRunPreview runs rq st)"
    unfolding handleRunPreview_def by (intro quiet_rules; simp)
  show "quiet (handleRuns runs rq st)"
    unfolding handleRuns_def by (intro quiet_rules; simp add: l)
  show "quiet (handleRunByID runs free senv rq st)"
    unfolding handleRunByID_def Let_def by (intro quiet_rules; simp add: e)
qed

lemma terraform_handlers_quiet:
  "quiet (handleTerraformFormatCheck t rq st)" "quiet (handleTerraformStateRemovalPreview t rq st)"
  "quiet (handleTerraformStateRemovalExecute t rq st)"
  unfolding handleTerraformFormatCheck_def handleTerraformStateRemovalPreview_def handleTerraformStateRemovalExecute_def Let_def
  by (intro quiet_rules; simp)+

lemma login_reply_quiet: "quiet (login_reply r)"
  unfolding login_reply_def by (intro quiet_rules; simp)

lemma service_handlers_quiet:
  "quiet (handleToolInstall install rq st)" "quiet (handleToolRefresh refresh c rq st)"
  "quiet (handleCredentialLogin login rq st)" "quiet (handleCredentialInteractiveLogin launch rq st)"
  "quiet (handleCredentialConfiguration parse cfs rq st)" "quiet (handleSecretAudit lib parse aus rq st)"
  unfolding handleToolInstall_def handleToolRefresh_def handleCredentialLogin_def handleCredentialInteractiveLogin_def
    handleCredentialConfiguration_def handleSecretAudit_def
  by (intro quiet_rules login_reply_quiet; simp split: start_error.split)+

lemma list_handlers_quiet [simp]:
  "\<not> hands_out (handleAuditTrail es rq)" "\<not> hands_out (handleTasks ts rq)" "\<not> hands_out (handleTools ds rq)"
  "\<not> hands_out (handlePlatforms ps rq)" "\<not> hands_out (handleStatus s rq)"
  "\<not> hands_out (handleTerraformProjects t rq st)" "\<not> hands_out (handleTerraformResources t rq st)"
  unfolding handleAuditTrail_def handleTasks_def handleTools_def handlePlatforms_def handleStatus_def
    handleTerraformProjects_def handleTerraformResources_def Let_def
  by (intro get_only_quiet loud_if loud_option; simp)+

lemma as_quiet: "quiet r \<Longrightarrow> quiet (as_run r)" "quiet q \<Longrightarrow> quiet (as_service q)"
  by (simp_all add: quiet_def as_run_def as_service_def)

lemma run_routes_quiet: "run_routes runs env s pat rq st = Some x \<Longrightarrow> quiet x"
  by (auto simp: run_routes_def as_quiet run_handlers_quiet split: if_split_asm)

lemma terraform_routes_quiet: "terraform_routes t pat rq st = Some x \<Longrightarrow> quiet x"
  by (auto simp: terraform_routes_def as_quiet quiet_pair terraform_handlers_quiet split: if_split_asm)

lemma provided_quiet: "(\<And>g. quiet (f g)) \<Longrightarrow> quiet (provided st svc f)"
  unfolding provided_def by (intro quiet_rules; simp)

lemma quiet_routed: "quiet a \<Longrightarrow> (\<And>x. opt = Some x \<Longrightarrow> quiet x) \<Longrightarrow> quiet (case opt of None \<Rightarrow> a | Some x \<Rightarrow> x)"
  by (cases opt) auto

lemma route_quiet:
  assumes "\<not> hands_out (front rq)"
  shows "quiet (route svc front env s pat rq st)"
  unfolding route_def Let_def
  by (intro quiet_if quiet_routed quiet_pair provided_quiet as_quiet service_handlers_quiet)
    (use assms in \<open>auto dest: run_routes_quiet terraform_routes_quiet split: option.split_asm\<close>)

text \<open>Neither frontend hands out a session: the embedded files carry no cookie, the proxy drops the server's.\<close>

lemma ModifyResponse_quiet [simp]: "\<not> hands_out (ModifyResponse r)"
  by (simp add: ModifyResponse_def hands_out_def)

lemma frontend_quiet:
  assumes "ProductionHandler mime assets = Some front \<or> NewDevProxy parse upstream raw = Some front"
  shows "\<not> hands_out (front rq)"
  using assms
proof
  assume "ProductionHandler mime assets = Some front"
  then have "front = ServeHTTP mime assets" by (simp add: ProductionHandler_def split: if_split_asm)
  then show ?thesis
    by (simp add: ServeHTTP_def http_NotFound_def Let_def hands_out_def [of "\<lparr>rp_Status = _, rp_Headers = _, rp_Body = _\<rparr>"] split: option.split)
next
  assume "NewDevProxy parse upstream raw = Some front"
  then show ?thesis
    by (auto simp: NewDevProxy_def split: option.split_asm)
qed

text \<open>
  A session of requests, each with its environment and the streams then open, and the answers.
\<close>

record 'st visit =
  vs_env :: "'st serve_env"
  vs_streams :: nat
  vs_request :: http_request

fun visits ::
    "'st services \<Rightarrow> frontend \<Rightarrow> 'st visit list \<Rightarrow> server \<Rightarrow> 'st \<Rightarrow> ('st visit \<times> api_json response) list \<times> server \<times> 'st" where
  "visits svc front [] s st = ([], s, st)"
| "visits svc front (v # vs) s st =
     (let (answer, s', st') = serve svc front (vs_env v) (vs_request v) (s\<lparr>sn_streams := vs_streams v\<rparr>) st;
          (rest, last) = visits svc front vs s' st'
      in ((v, answer) # rest, last))"

text \<open>What one request does to the session: it stays closed, or it opens by the link.\<close>

lemma handleBootstrap_cases:
  assumes "handleBootstrap now rq s = (answer, s')"
  shows "(\<not> hands_out answer \<and> s' = s)
    \<or> (\<not> sn_bootstrapConsumed s \<and> hr_Method rq = ''GET'' \<and> now < sn_bootstrapExpires s
        \<and> query_first rq ''token'' = sn_bootstrapToken s
        \<and> s' = s\<lparr>sn_bootstrapConsumed := True, sn_bootstrapToken := []\<rparr>)"
  using assms by (auto simp: handleBootstrap_def constantTimeEqual_def split: if_split_asm)

lemma serve_cases:
  assumes "serve svc front env rq s st = (answer, s', st')" and "\<not> hands_out (front rq)"
  shows "(\<not> hands_out answer \<and> s' = s)
    \<or> (\<not> sn_bootstrapConsumed s \<and> hr_Method rq = ''GET'' \<and> sve_now env < sn_bootstrapExpires s
        \<and> query_first rq ''token'' = sn_bootstrapToken s \<and> hr_Host rq = sn_addr s
        \<and> s' = s\<lparr>sn_bootstrapConsumed := True, sn_bootstrapToken := []\<rparr>)"
proof (cases "validateRequestBoundary s rq :: api_json response option")
  case (Some r)
  then have "\<not> hands_out r"
    by (auto simp: validateRequestBoundary_def Let_def split: if_split_asm)
  with Some assms(1) show ?thesis by (auto simp: serve_def)
next
  case None
  then have host: "hr_Host rq = sn_addr s" by (simp add: boundary_None)
  show ?thesis
  proof (cases "mux (patterns svc) rq")
    case (MuxHandler pat)
    consider "pat = ''/bootstrap''" | "pat \<noteq> ''/bootstrap''" "pat = ''/bootstrap/''" | "pat \<noteq> ''/bootstrap''" "pat \<noteq> ''/bootstrap/''" by blast
    then show ?thesis
    proof cases
      case 1
      obtain a :: "api_json response" and t where b: "handleBootstrap (sve_now env) rq s = (a, t)" by fastforce
      with assms(1) None MuxHandler 1 have "answer = securityHeaders a" "s' = t" by (simp_all add: serve_def)
      with handleBootstrap_cases [OF b] host show ?thesis by auto
    next
      case 2
      with assms(1) None MuxHandler show ?thesis by (auto simp: serve_def)
    next
      case 3
      show ?thesis
      proof (cases "requireSession s rq :: api_json response option")
        case (Some r)
        then have "\<not> hands_out r" by (auto simp: requireSession_def split: option.split_asm if_split_asm)
        with Some assms(1) None MuxHandler 3 show ?thesis by (auto simp: serve_def)
      next
        case admitted: None
        obtain a u where r: "route svc front env s pat rq st = (a, u)" by fastforce
        with route_quiet [of front rq svc env s pat st] assms(2) have "\<not> hands_out a" by (simp add: quiet_def)
        with r admitted assms(1) None MuxHandler 3 show ?thesis by (auto simp: serve_def)
      qed
    qed
  qed (use assms(1) None in \<open>auto simp: serve_def\<close>)
qed

lemma visits_quiet:
  assumes "\<And>rq. \<not> hands_out (front rq)"
  shows "sn_bootstrapConsumed s \<Longrightarrow> \<forall>(v, answer) \<in> set (fst (visits svc front vs s st)). \<not> hands_out answer"
proof (induction vs arbitrary: s st)
  case (Cons v vs)
  obtain answer s' st' where e: "serve svc front (vs_env v) (vs_request v) (s\<lparr>sn_streams := vs_streams v\<rparr>) st = (answer, s', st')"
    using prod_cases3 by blast
  from serve_cases [OF e assms] Cons.prems have "\<not> hands_out answer" "sn_bootstrapConsumed s'" by auto
  with Cons.IH [of s' st'] e show ?case by (auto simp: split_beta Let_def)
qed simp

text \<open>
  C10: The session is handed out at most once, to whoever holds the launch link first. Whatever
  requests come, at most one answer of the server carries the session cookie, under either
  frontend; it answers a GET of the server's own host that presents the launch token before the
  link has expired, and a server whose link was used hands out nothing any more.
\<close>
theorem session_is_handed_out_once:
  assumes "ProductionHandler mime assets = Some front \<or> NewDevProxy parse upstream raw = Some front"
  shows "length (filter (\<lambda>(v, answer). hands_out answer) (fst (visits svc front vs s st)))
        \<le> (if sn_bootstrapConsumed s then 0 else 1)
    \<and> (\<forall>(v, answer) \<in> set (fst (visits svc front vs s st)). hands_out answer \<longrightarrow>
        hr_Method (vs_request v) = ''GET'' \<and> hr_Host (vs_request v) = sn_addr s
        \<and> query_first (vs_request v) ''token'' = sn_bootstrapToken s \<and> sve_now (vs_env v) < sn_bootstrapExpires s)"
proof (induction vs arbitrary: s st)
  case (Cons v vs)
  note fq = frontend_quiet [OF assms]
  obtain answer s' st' where e: "serve svc front (vs_env v) (vs_request v) (s\<lparr>sn_streams := vs_streams v\<rparr>) st = (answer, s', st')"
    using prod_cases3 by blast
  have fst_visits: "fst (visits svc front (v # vs) s st) = (v, answer) # fst (visits svc front vs s' st')"
    using e by (simp add: split_beta Let_def)
  from serve_cases [OF e fq] show ?case
  proof
    assume "\<not> hands_out answer \<and> s' = s\<lparr>sn_streams := vs_streams v\<rparr>"
    then show ?case unfolding fst_visits using Cons.IH [of s' st'] by simp
  next
    assume opened: "\<not> sn_bootstrapConsumed (s\<lparr>sn_streams := vs_streams v\<rparr>) \<and> hr_Method (vs_request v) = ''GET''
      \<and> sve_now (vs_env v) < sn_bootstrapExpires (s\<lparr>sn_streams := vs_streams v\<rparr>)
      \<and> query_first (vs_request v) ''token'' = sn_bootstrapToken (s\<lparr>sn_streams := vs_streams v\<rparr>)
      \<and> hr_Host (vs_request v) = sn_addr (s\<lparr>sn_streams := vs_streams v\<rparr>)
      \<and> s' = s\<lparr>sn_streams := vs_streams v, sn_bootstrapConsumed := True, sn_bootstrapToken := []\<rparr>"
    have closed: "\<forall>(v, a) \<in> set (fst (visits svc front vs s' st')). \<not> hands_out a"
      by (rule visits_quiet) (use fq opened in simp_all)
    then have "filter (\<lambda>(v, a). hands_out a) (fst (visits svc front vs s' st')) = []"
      by (auto simp: filter_empty_conv)
    with opened closed show ?case
      unfolding fst_visits by (auto simp: filter_empty_conv)
  qed
qed simp

text \<open>The sample server's link, opened twice.\<close>

definition sample_opened :: "store manager visit" where
  "sample_opened = \<lparr>vs_env = sample_visit_env, vs_streams = 0, vs_request = sample_get ''/bootstrap''\<rparr>"

lemma sample_opened_twice:
  "map (\<lambda>(v, answer). (hands_out answer, rp_Status answer))
       (fst (visits sample_services (ServeHTTP (\<lambda>_. []) [(''index.html'', [])]) [sample_opened, sample_opened] sample_server sample_manager))
     = [(True, 303), (False, 410)]"
  by code_simp

theorem session_is_handed_out_once_witness:
  "map (\<lambda>(v, answer). hands_out answer)
       (fst (visits sample_services (ServeHTTP (\<lambda>_. []) [(''index.html'', [])]) [sample_opened, sample_opened] sample_server sample_manager))
     = [True, False]
   \<and> length (filter (\<lambda>(v, answer). hands_out answer)
       (fst (visits sample_services (ServeHTTP (\<lambda>_. []) [(''index.html'', [])]) [sample_opened, sample_opened] sample_server sample_manager)))
     \<le> 1"
proof -
  let ?seen = "fst (visits sample_services (ServeHTTP (\<lambda>_. []) [(''index.html'', [])]) [sample_opened, sample_opened] sample_server sample_manager)"
  have front: "ProductionHandler (\<lambda>_. []) [(''index.html'', [])] = Some (ServeHTTP (\<lambda>_. []) [(''index.html'', [])])"
    by (simp add: ProductionHandler_def)
  have "length (filter (\<lambda>(v, answer). hands_out answer) ?seen) \<le> 1"
    using session_is_handed_out_once [OF disjI1 [OF front], of sample_services "[sample_opened, sample_opened]" sample_server sample_manager]
    by (simp add: sample_server_def)
  moreover have "map (\<lambda>(v, answer). hands_out answer) ?seen = map fst (map (\<lambda>(v, answer). (hands_out answer, rp_Status answer)) ?seen)"
    by (simp add: split_beta)
  ultimately show ?thesis unfolding sample_opened_twice by simp
qed

subsection \<open>Outsiders\<close>

text \<open>
  What two servers have in common for whoever is outside the session, and a request that carries
  none of a server's credentials.
\<close>

definition looks_like :: "server \<Rightarrow> server \<Rightarrow> bool" where
  "looks_like s t \<longleftrightarrow> sn_addr s = sn_addr t \<and> sn_baseURL s = sn_baseURL t
     \<and> sn_bootstrapConsumed s = sn_bootstrapConsumed t \<and> sn_bootstrapExpires s = sn_bootstrapExpires t"

definition outside :: "server \<Rightarrow> http_request \<Rightarrow> bool" where
  "outside s rq \<longleftrightarrow> hr_Cookie rq \<noteq> Some (sn_sessionToken s) \<and> hr_CSRF rq \<noteq> sn_csrfToken s
     \<and> (sn_bootstrapConsumed s \<or> query_first rq ''token'' \<noteq> sn_bootstrapToken s)"

text \<open>The answer an outsider gets, in terms of what he knows.\<close>

lemma outside_boundary:
  assumes "outside s rq" and "outside t rq" and "looks_like s t"
  shows "validateRequestBoundary s rq = (validateRequestBoundary t rq :: 'j response option)"
  using assms by (auto simp: validateRequestBoundary_def constantTimeEqual_def outside_def looks_like_def Let_def)

lemma outside_session: "outside s rq \<Longrightarrow> requireSession s rq = Some (writeRequestBoundaryError rq 401 CodeSessionUnavailable)"
  by (auto simp: requireSession_def constantTimeEqual_def outside_def split: option.split)

lemma outside_bootstrap:
  assumes "outside s rq" and "outside t rq" and "looks_like s t"
  shows "fst (handleBootstrap now rq s) = (fst (handleBootstrap now rq t) :: 'j response)" "snd (handleBootstrap now rq s :: 'j response \<times> _) = s"
  using assms by (auto simp: handleBootstrap_def constantTimeEqual_def outside_def looks_like_def split: option.split)

text \<open>
  C8: A request without credentials learns nothing and changes nothing. Whatever the services
  hold, whatever the tokens are and whatever the frontend would show, a request that carries
  neither the session cookie, nor the page's token, nor an unused launch token gets the same
  answer from two servers that look alike, and leaves the server and the services as they were.
\<close>
theorem outsider_learns_nothing:
  assumes "outside s rq" and "outside t rq" and "looks_like s t" and "patterns svc1 = patterns svc2"
    and "sve_now env1 = sve_now env2"
  shows "fst (serve svc1 front1 env1 rq s st1) = fst (serve svc2 front2 env2 rq t st2)
    \<and> snd (serve svc1 front1 env1 rq s st1) = (s, st1)"
proof (cases "validateRequestBoundary s rq :: api_json response option")
  case (Some r)
  moreover from this have "validateRequestBoundary t rq = Some r"
    using outside_boundary [OF assms(1-3), where 'j = api_json] by simp
  ultimately show ?thesis by (simp add: serve_def)
next
  case None
  with outside_boundary [OF assms(1-3), where 'j = api_json]
  have b: "validateRequestBoundary t rq = (None :: api_json response option)" by simp
  have boot: "handleBootstrap now rq s = (fst (handleBootstrap now rq t) :: api_json response, s)" for now
    using outside_bootstrap [OF assms(1-3)] by (metis prod.collapse)
  note sess = outside_session [OF assms(1)] outside_session [OF assms(2)]
  show ?thesis
    unfolding serve_def None b sess assms(4,5) option.case boot
    by (simp add: split_beta Let_def split: mux_answer.split)
qed

theorem outsider_learns_nothing_witness:
  "fst (serve sample_services sample_front sample_visit_env (sample_get ''/api/v1/audit'') (sample_server\<lparr>sn_bootstrapToken := ''other''\<rparr>) sample_started)
     = fst (serve sample_services (\<lambda>rq. no_content) sample_visit_env (sample_get ''/api/v1/audit'')
         (sample_server\<lparr>sn_bootstrapToken := ''hidden'', sn_sessionToken := ''s2'', sn_csrfToken := ''c2''\<rparr>) sample_manager)"
  using outsider_learns_nothing [of "sample_server\<lparr>sn_bootstrapToken := ''other''\<rparr>" "sample_get ''/api/v1/audit''"
      "sample_server\<lparr>sn_bootstrapToken := ''hidden'', sn_sessionToken := ''s2'', sn_csrfToken := ''c2''\<rparr>"
      sample_services sample_services sample_visit_env sample_visit_env sample_front sample_started "\<lambda>rq. no_content" sample_manager]
  by (simp add: outside_def looks_like_def sample_server_def sample_get_def query_first_def)

end
