(* ===== verification/StreamSafety.thy ===== *)
theory StreamSafety
  imports RunApi RunSafety
begin

section \<open>What a stream delivers\<close>

text \<open>
  The promise of the event stream, proved over an interface: a log of numbered events that only
  grows while its run is kept and never again after its end, and a wait that answers with what
  follows a cursor. The run manager provides the interface.
\<close>

text \<open>The events among the frames, and whether the end of the run was sent.\<close>

fun sent_events :: "frame list \<Rightarrow> run_event list" where
  "sent_events [] = []"
| "sent_events (f # fs) = (case f of EventFrame rid e \<Rightarrow> e # sent_events fs | _ \<Rightarrow> sent_events fs)"

definition end_sent :: "frame list \<Rightarrow> bool" where
  "end_sent fs \<longleftrightarrow> list_ex (\<lambda>f. case f of CompleteFrame b n \<Rightarrow> True | _ \<Rightarrow> False) fs"

lemma sent_events_append [simp]: "sent_events (fs @ gs) = sent_events fs @ sent_events gs"
  by (induction fs) (auto split: frame.split)

lemma sent_events_map [simp]: "sent_events (map (EventFrame rid) es) = es"
  by (induction es) simp_all

lemma end_sent_append [simp]: "end_sent (fs @ gs) \<longleftrightarrow> end_sent fs \<or> end_sent gs"
  by (simp add: end_sent_def)

lemma end_sent_frames [simp]: "\<not> end_sent []" "\<not> end_sent [Heartbeat]" "end_sent [CompleteFrame b n]"
    "\<not> end_sent (map (EventFrame rid) es)"
  by (auto simp: end_sent_def list_ex_iff)

lemma batch_cursor_numbered:
  "map ev_Sequence es = [1..<length es + 1] \<Longrightarrow> c \<le> length es \<Longrightarrow> batch_cursor c (drop c es) = length es"
proof (induction "drop c es" arbitrary: c)
  case (Cons e fs)
  then have c: "c < length es" by (metis drop_all list.discI not_le)
  then have "drop c es = es ! c # drop (Suc c) es" by (simp add: Cons_nth_drop_Suc)
  moreover have "ev_Sequence (es ! c) = Suc c"
    using arg_cong [OF Cons.prems(1), of "\<lambda>xs. xs ! c"] c by (simp del: upt_Suc)
  ultimately show ?case using Cons.hyps(1) [of "Suc c"] Cons.hyps(2) Cons.prems(1) c by simp
next
  case Nil
  then have "drop c es = []" by simp
  with Nil.prems(2) show ?case by simp
qed

locale event_feed =
  fixes wait :: "string \<Rightarrow> nat \<Rightarrow> 'st \<Rightarrow> run_error + event_batch option"
    and log :: "string \<Rightarrow> 'st \<Rightarrow> run_event list option"
    and ended :: "string \<Rightarrow> 'st \<Rightarrow> bool"
    and sound :: "'st \<Rightarrow> bool"
    and later :: "string \<Rightarrow> 'st \<Rightarrow> 'st \<Rightarrow> bool"
  assumes batch: "sound st \<Longrightarrow> wait rid c st = Inr (Some b) \<Longrightarrow>
      \<exists>es. log rid st = Some es \<and> c \<le> length es \<and> eb_Events b = drop c es \<and> eb_Complete b = ended rid st"
    and numbered: "sound st \<Longrightarrow> log rid st = Some es \<Longrightarrow> map ev_Sequence es = [1..<length es + 1]"
    and grows: "sound st \<Longrightarrow> later rid st st' \<Longrightarrow> log rid st = Some es \<Longrightarrow>
      \<exists>fs. log rid st' = Some (es @ fs) \<and> (ended rid st \<longrightarrow> fs = [])"
begin

lemma stream_prefix:
  assumes "\<forall>r \<in> set rounds. sound (sr_state r) \<and> later rid (sr_state r) final" and "log rid final = Some es"
  shows "\<exists>rest. drop c es = sent_events (stream_frames wait rid c rounds) @ rest
    \<and> (end_sent (stream_frames wait rid c rounds) \<longrightarrow> rest = [])"
  using assms(1)
proof (induction rounds arbitrary: c)
  case (Cons r rs)
  show ?case
  proof (cases "stream_look wait rid c r")
    case LookTimeout
    obtain out ok where o: "send_frames r [Heartbeat] = (out, ok)" by fastforce
    then have "sent_events out = []" "\<not> end_sent out"
      by (auto simp: send_frames_def take_Cons' split: option.split_asm if_split_asm)
    with Cons o LookTimeout show ?thesis by (auto simp: Let_def)
  next
    case (LookBatch b)
    then have "wait rid c (sr_state r) = Inr (Some b)"
      by (auto simp: stream_look_def split: if_split_asm sum.split_asm option.split_asm)
    then obtain seen more where log: "log rid (sr_state r) = Some seen" "c \<le> length seen" "eb_Events b = drop c seen"
      and es: "es = seen @ more" "eb_Complete b \<longrightarrow> more = []"
      using batch [of "sr_state r" rid c b] grows [of "sr_state r" rid final] Cons.prems assms(2) by fastforce
    have cursor: "batch_cursor c (drop c seen) = length seen"
      using batch_cursor_numbered [OF numbered [OF _ log(1)] log(2)] Cons.prems by simp
    define fs where "fs = map (EventFrame (eb_RunID b)) (drop c seen)"
    define tail where "tail = (if eb_Complete b then [CompleteFrame b (length seen)] else [])"
    have sse: "writeSSEBatch b c = (length seen, eb_Complete b, fs @ tail)"
      by (simp add: writeSSEBatch_def log(3) cursor fs_def tail_def Let_def)
    obtain out ok where o: "send_frames r (fs @ tail) = (out, ok)" by fastforce
    have run: "stream_frames wait rid c (r # rs)
        = out @ (if ok \<and> \<not> eb_Complete b then stream_frames wait rid (length seen) rs else [])"
      by (simp add: LookBatch sse o)
    have rest: "drop c es = drop c seen @ more" using log(2) by (simp add: es(1))
    show ?thesis
    proof (cases ok)
      case True
      with o have out: "out = fs @ tail" by (auto simp: send_frames_def split: option.split_asm)
      have sent: "sent_events out = drop c seen" "end_sent out \<longleftrightarrow> eb_Complete b"
        by (simp_all add: out fs_def tail_def)
      show ?thesis
        using True Cons.IH [of "length seen"] Cons.prems sent unfolding run rest by (auto simp: es)
    next
      case False
      with o obtain n where n: "out = take n (fs @ tail)" "n < length (fs @ tail)"
        by (auto simp: send_frames_def split: option.split_asm)
      then have "n \<le> length fs" by (simp add: tail_def split: if_split_asm)
      then have out: "out = map (EventFrame (eb_RunID b)) (take n (drop c seen))"
        by (simp add: n(1) fs_def take_map)
      then have "drop c es = sent_events out @ drop n (drop c seen) @ more" "\<not> end_sent out"
        by (simp_all add: rest del: drop_drop)
      with False show ?thesis unfolding run by auto
    qed
  qed simp
qed simp

text \<open>A browser that reconnects with the last id it received goes on where it was.\<close>

lemma reconnect:
  assumes "\<forall>r \<in> set (first @ again). sound (sr_state r) \<and> later rid (sr_state r) final" and "log rid final = Some es"
    and "sound final" and "c \<le> length es" and "sent = sent_events (stream_frames wait rid c first)"
    and "frames = stream_frames wait rid (batch_cursor c sent) again"
  shows "\<exists>rest. drop c es = sent @ sent_events frames @ rest \<and> (end_sent frames \<longrightarrow> rest = [])"
proof -
  obtain more where m: "drop c es = sent @ more"
    using stream_prefix [OF _ assms(2), of first c] assms(1,5) by auto
  have len: "c + length sent \<le> length es"
    using arg_cong [OF m, of length] assms(4) by simp
  have "batch_cursor c sent = c + length sent"
  proof -
    have es: "es = take (c + length sent) es @ drop (c + length sent) es" by simp
    have "map ev_Sequence (take (c + length sent) es) = [1..<length (take (c + length sent) es) + 1]"
      using arg_cong [OF numbered [OF assms(3,2)], of "take (c + length sent)"] len
      by (simp add: take_map take_upt del: upt_Suc)
    moreover have "drop c (take (c + length sent) es) = sent" using m by (simp add: drop_take)
    ultimately show ?thesis using batch_cursor_numbered [of "take (c + length sent) es" c] len by simp
  qed
  then obtain rest where r: "drop (c + length sent) es = sent_events frames @ rest" "end_sent frames \<longrightarrow> rest = []"
    using stream_prefix [OF _ assms(2), of again "c + length sent"] assms(1,6) by auto
  have "more = drop (length sent) (drop c es)" by (simp add: m)
  also have "\<dots> = drop (c + length sent) es" by (simp add: add.commute)
  finally show ?thesis using m r by auto
qed

end

subsection \<open>The run manager\<close>

text \<open>The manager's steps for as long as the run is in its table.\<close>

inductive lasts :: "('w, 'a) manager_config \<Rightarrow> backend \<Rightarrow> string \<Rightarrow> 'a manager \<Rightarrow> 'a manager \<Rightarrow> bool" for cfg b rid m where
  lasts_none: "lasts cfg b rid m m"
| lasts_more: "lasts cfg b rid m m1 \<Longrightarrow> step cfg b m1 m2 \<Longrightarrow> get (mg_runs m2) rid \<noteq> None \<Longrightarrow> lasts cfg b rid m m2"

definition run_log :: "string \<Rightarrow> 'a manager \<Rightarrow> run_event list option" where
  "run_log rid m = map_option rr_events (get (mg_runs m) rid)"

definition run_ended :: "string \<Rightarrow> 'a manager \<Rightarrow> bool" where
  "run_ended rid m \<longleftrightarrow> (case get (mg_runs m) rid of None \<Rightarrow> False | Some r \<Rightarrow> finished r)"

lemma lasts_keeps:
  assumes "lasts cfg b rid m m'" and "manager_ok cfg m" and "config_ok cfg" and "get (mg_runs m) rid = Some r"
  shows "\<exists>r' es. get (mg_runs m') rid = Some r' \<and> rr_events r' = rr_events r @ es \<and> manager_ok cfg m' \<and> (finished r \<longrightarrow> r' = r)"
  using assms(1)
proof induction
  case lasts_none
  with assms show ?case by auto
next
  case (lasts_more m1 m2)
  then obtain r1 es where r1: "get (mg_runs m1) rid = Some r1" "rr_events r1 = rr_events r @ es" "manager_ok cfg m1"
    "finished r \<longrightarrow> r1 = r" by blast
  with keeps_run_step [OF lasts_more.hyps(2) r1(3) assms(3) r1(1)] step_ok [OF lasts_more.hyps(2) assms(3) r1(3)]
    lasts_more.hyps(3) show ?case
    by (auto simp: keeps_run_def split: if_split_asm)
qed

lemma WaitEvents_batch:
  assumes "manager_ok cfg m" and "WaitEvents rid c m = Inr (Some batch)"
  shows "\<exists>es. run_log rid m = Some es \<and> c \<le> length es \<and> eb_Events batch = drop c es \<and> eb_Complete batch = run_ended rid m"
proof -
  obtain r where r: "get (mg_runs m) rid = Some r" "c \<le> rr_nextSeq r"
    "eb_Events batch = cloneEventsAfter (rr_events r) c" "eb_Complete batch = finished r"
    using assms(2) by (auto simp: WaitEvents_def Let_def split: if_split_asm option.split_asm)
  from r(1) assms(1) have seq: "map ev_Sequence (rr_events r) = [1..<rr_nextSeq r + 1]"
    by (auto simp: manager_ok_def run_ok_def)
  have len: "length (rr_events r) = rr_nextSeq r"
    using arg_cong [OF seq, of length] by (simp del: upt_Suc)
  with sequence_after [of "rr_events r" 0 c] seq r show ?thesis
    by (simp add: run_log_def run_ended_def cloneEventsAfter_def)
qed

interpretation feed: event_feed WaitEvents run_log run_ended "\<lambda>m. config_ok cfg \<and> manager_ok cfg m" "lasts cfg b"
  for cfg :: "('w, 'a) manager_config" and b
proof
  fix m :: "'a manager" and rid c batch es m'
  assume ok: "config_ok cfg \<and> manager_ok cfg m"
  show "WaitEvents rid c m = Inr (Some batch) \<Longrightarrow>
      \<exists>es. run_log rid m = Some es \<and> c \<le> length es \<and> eb_Events batch = drop c es \<and> eb_Complete batch = run_ended rid m"
    using WaitEvents_batch ok by blast
  show "map ev_Sequence es = [1..<length es + 1]" if "run_log rid m = Some es"
  proof -
    from that obtain r where r: "get (mg_runs m) rid = Some r" "es = rr_events r" by (auto simp: run_log_def)
    then have seq: "map ev_Sequence es = [1..<rr_nextSeq r + 1]" using ok by (auto simp: manager_ok_def run_ok_def)
    have "length es = rr_nextSeq r" using arg_cong [OF seq, of length] by (simp del: upt_Suc)
    with seq show ?thesis by simp
  qed
  show "\<exists>fs. run_log rid m' = Some (es @ fs) \<and> (run_ended rid m \<longrightarrow> fs = [])"
    if "lasts cfg b rid m m'" and "run_log rid m = Some es"
  proof -
    from that(2) obtain r where r: "get (mg_runs m) rid = Some r" "es = rr_events r" by (auto simp: run_log_def)
    from lasts_keeps [OF that(1) _ _ r(1)] ok show ?thesis by (auto simp: run_log_def run_ended_def r)
  qed
qed

text \<open>
  C9: A stream and its reconnection deliver a run's log, in order and without a gap. Let a browser
  follow a run from a cursor, lose the connection at any point, even inside a batch, and connect
  again with the id of the last event it received: as long as the manager retains the run, what
  both connections delivered is exactly the log after the cursor as far as it goes, nothing is
  lost or repeated, and when the end of the run was sent it is all of it.
\<close>
theorem streams_deliver_the_log:
  assumes "config_ok cfg" and "manager_ok cfg final" and "get (mg_runs final) rid = Some r" and "c \<le> length (rr_events r)"
    and "\<forall>round \<in> set (first @ again). manager_ok cfg (sr_state round) \<and> lasts cfg b rid (sr_state round) final"
    and "sent = sent_events (stream_frames WaitEvents rid c first)"
    and "frames = stream_frames WaitEvents rid (batch_cursor c sent) again"
  shows "\<exists>rest. drop c (rr_events r) = sent @ sent_events frames @ rest \<and> (end_sent frames \<longrightarrow> rest = [])"
proof -
  have log: "run_log rid final = Some (rr_events r)" using assms(3) by (simp add: run_log_def)
  have "\<forall>round \<in> set (first @ again). (config_ok cfg \<and> manager_ok cfg (sr_state round)) \<and> lasts cfg b rid (sr_state round) final"
    using assms(1,5) by blast
  from feed.reconnect [OF this log _ assms(4,6,7)] assms(1,2) show ?thesis by blast
qed

text \<open>The finished sample run, followed over a connection that breaks after two frames and a second one.\<close>

definition sample_cut :: "store manager stream_round" where
  "sample_cut = \<lparr>sr_state = sample_finished, sr_cancelled = False, sr_writes = Some 2\<rparr>"

definition sample_rest :: "store manager stream_round" where
  "sample_rest = sample_cut\<lparr>sr_writes := None\<rparr>"

definition sample_sent :: "run_event list" where
  "sample_sent = sent_events (stream_frames WaitEvents sample_rid 0 [sample_cut])"

definition sample_resent :: "frame list" where
  "sample_resent = stream_frames WaitEvents sample_rid (batch_cursor 0 sample_sent) [sample_rest]"

lemma sample_stream_facts: "length sample_sent = 2 \<and> end_sent sample_resent"
proof -
  have "map_option rr_status (get (mg_runs sample_finished) sample_rid) = Some StatusExited"
    "map_option (length \<circ> rr_events) (get (mg_runs sample_finished) sample_rid) = Some 5"
    using sample_finished_facts by (simp_all add: Let_def)
  then obtain r where r: "get (mg_runs sample_finished) sample_rid = Some r" "finished r" "length (rr_events r) = 5"
    by (auto simp: finished_def)
  have "manager_ok sample_config sample_finished"
    by (rule steps_ok [OF sample_steps_finished]) (use sample_config_ok in simp_all)
  with r(1) have seq: "map ev_Sequence (rr_events r) = [1..<rr_nextSeq r + 1]" by (auto simp: manager_ok_def run_ok_def)
  have next_seq: "rr_nextSeq r = 5" using arg_cong [OF seq, of length] r(3) by (simp del: upt_Suc)
  have wait: "\<exists>b. WaitEvents sample_rid c sample_finished = Inr (Some b) \<and> eb_Events b = drop c (rr_events r) \<and> eb_Complete b"
    if "c \<le> 5" for c
    using sequence_after [of "rr_events r" 0 c] seq r that
    by (simp add: WaitEvents_def sample_rid_valid next_seq cloneEventsAfter_def Let_def del: upt_Suc)
  obtain b where b: "WaitEvents sample_rid 0 sample_finished = Inr (Some b)" "eb_Events b = rr_events r" "eb_Complete b"
    using wait [of 0] by auto
  have sent: "sample_sent = take 2 (rr_events r)"
    by (simp add: sample_sent_def sample_cut_def stream_look_def b writeSSEBatch_def send_frames_def r(3) take_map Let_def)
  have "map ev_Sequence (take 2 (rr_events r)) = [1..<3]"
    using arg_cong [OF seq, of "take 2"] by (simp add: next_seq take_map take_upt numeral_3_eq_3 del: upt_Suc)
  then have cursor: "batch_cursor 0 sample_sent = 2"
    using batch_cursor_numbered [of "take 2 (rr_events r)" 0] r(3) by (simp add: sent)
  obtain b' where b': "WaitEvents sample_rid 2 sample_finished = Inr (Some b')" "eb_Complete b'"
    using wait [of 2] by auto
  have "end_sent sample_resent"
    unfolding sample_resent_def cursor
    by (simp add: sample_rest_def sample_cut_def stream_look_def b' writeSSEBatch_def send_frames_def Let_def)
  moreover have "length sample_sent = 2" unfolding sent by (simp add: r(3))
  ultimately show ?thesis by simp
qed

theorem streams_deliver_the_log_witness:
  "\<exists>r. get (mg_runs sample_finished) sample_rid = Some r \<and> length sample_sent = 2
     \<and> rr_events r = sample_sent @ sent_events sample_resent"
proof -
  have ok: "manager_ok sample_config sample_finished"
    by (rule steps_ok [OF sample_steps_finished]) (use sample_config_ok in simp_all)
  have "map_option rr_status (get (mg_runs sample_finished) sample_rid) = Some StatusExited"
    using sample_finished_facts by (simp add: Let_def)
  then obtain r where r: "get (mg_runs sample_finished) sample_rid = Some r" by auto
  have rounds: "\<forall>round \<in> set ([sample_cut] @ [sample_rest]). manager_ok sample_config (sr_state round)
      \<and> lasts sample_config sample_backend sample_rid (sr_state round) sample_finished"
    using ok by (simp add: sample_cut_def sample_rest_def lasts_none)
  from streams_deliver_the_log [OF _ ok r _ rounds sample_sent_def sample_resent_def] sample_stream_facts r sample_config_ok
  show ?thesis by auto
qed

end
