(* ===== verification/Catalog.thy ===== *)
theory Catalog
  imports ServiceApi PlanSafety
begin

section \<open>The task catalogue (internal/app/task\_catalog.go)\<close>

text \<open>
  What the browser is offered: the commands of the registry that may be run from a browser and
  whose tool discovery found ready, and every tool's state with a reviewed message. The catalogue
  is rebuilt as a whole when a tool becomes ready; the two providers that a vendor platform may
  install are optional arguments of the listings.
\<close>

record catalog =
  ct_tasks :: "server_task list"
  ct_tools :: "tool_diagnostic list"

definition empty_catalog :: catalog where
  "empty_catalog = \<lparr>ct_tasks = [], ct_tools = []\<rparr>"

fun discovery_text :: "discovery_status \<Rightarrow> string" where
  "discovery_text StatusReady = ''ready''"
| "discovery_text StatusMissing = ''missing''"
| "discovery_text StatusAmbiguous = ''ambiguous''"
| "discovery_text StatusIncompatible = ''incompatible''"
| "discovery_text StatusProbeFailed = ''probe-failed''"
| "discovery_text StatusInvalidOverride = ''invalid-override''"
| "discovery_text StatusIdentityFailed = ''identity-failed''"
| "discovery_text StatusUnsupportedPlatform = ''unsupported-platform''"

fun input_type_text :: "input_type \<Rightarrow> string" where
  "input_type_text InputString = ''string''"
| "input_type_text InputInteger = ''integer''"
| "input_type_text InputBoolean = ''boolean''"
| "input_type_text InputEnum = ''enum''"
| "input_type_text InputMultiselect = ''multiselect''"
| "input_type_text InputSecret = ''secret''"
| "input_type_text (InputOther t) = t"

definition commandBrowserRunnable :: "command \<Rightarrow> bool" where
  "commandBrowserRunnable cmd \<longleftrightarrow>
     (if se_ContainsSecrets (ou_Sensitivity (cm_Output cmd)) then False
      else case cm_Risk cmd of
        RiskRead \<Rightarrow> \<not> rq_RequiresAuth (cm_Requirements cmd) \<or> rq_AuthMode (cm_Requirements cmd) = AuthModeVendorSession
      | RiskChange \<Rightarrow> \<not> rq_RequiresAuth (cm_Requirements cmd) \<or> rq_AuthMode (cm_Requirements cmd) = AuthModeVendorSession
      | RiskDestructive \<Rightarrow> \<not> rq_RequiresAuth (cm_Requirements cmd) \<or> rq_AuthMode (cm_Requirements cmd) = AuthModeVendorSession
      | _ \<Rightarrow> False)"

fun browserToolMessage :: "discovery_status \<Rightarrow> string" where
  "browserToolMessage StatusReady = []"
| "browserToolMessage StatusMissing = ''Tool was not found. Install it or configure an explicit backend tool path.''"
| "browserToolMessage StatusAmbiguous = ''Multiple matching tools were found. Configure an explicit backend tool path.''"
| "browserToolMessage StatusIncompatible = ''Detected tool version does not satisfy the trusted pack requirement.''"
| "browserToolMessage StatusProbeFailed = ''Tool version detection failed. Run cliharbor doctor for local diagnostic details.''"
| "browserToolMessage StatusInvalidOverride = ''Configured backend tool override is invalid. Run cliharbor doctor for local diagnostic details.''"
| "browserToolMessage StatusIdentityFailed = ''Resolved tool identity could not be verified. Run cliharbor doctor for local diagnostic details.''"
| "browserToolMessage StatusUnsupportedPlatform = ''The trusted pack does not support this operating system.''"

subsection \<open>Construction\<close>

definition vendor_session_tools :: "registry \<Rightarrow> tool_ref list" where
  "vendor_session_tools reg =
     concat (map (\<lambda>p. List.map_filter (\<lambda>(cid, cmd).
         if commandBrowserRunnable cmd \<and> rq_RequiresAuth (cm_Requirements cmd)
           \<and> rq_AuthMode (cm_Requirements cmd) = AuthModeVendorSession
         then Some (ToolRef (pack_id p) (cm_Tool cmd)) else None) (Commands reg (pack_id p))) (rg_packs reg))"

text \<open>\<open>host\<close> is \<open>GOOS-GOARCH\<close>.\<close>

definition diagnostic :: "string \<Rightarrow> registry \<Rightarrow> tool_state \<Rightarrow> tool_diagnostic option" where
  "diagnostic host reg st =
     (case FindPack reg (ts_PackID st) of
        None \<Rightarrow> None
      | Some p \<Rightarrow>
          let declared = get (rt_Tools (pk_Runtime (lp_Pack p))) (ts_ToolID st) in
          Some \<lparr>tdg_PackID = ts_PackID st, tdg_PackName = md_Name (pk_Metadata (lp_Pack p)),
             tdg_PackVersion = ts_PackVersion st, tdg_ToolID = ts_ToolID st, tdg_Status = discovery_text (ts_Status st),
             tdg_Version = ts_Version st, tdg_VersionConstraint = ts_VersionConstraint st,
             tdg_Message = browserToolMessage (ts_Status st),
             tdg_RequiresVendorSession = (ToolRef (ts_PackID st) (ts_ToolID st) \<in> set (vendor_session_tools reg)),
             tdg_SessionCheck = (case declared of
                 None \<Rightarrow> None
               | Some t \<Rightarrow> map_option (\<lambda>c. \<lparr>vsc_CommandID = sc_CommandID c,
                   vsc_UnauthenticatedStderrContains = sc_UnauthenticatedStderrContains c\<rparr>) (tl_SessionCheck t)),
             tdg_CredentialLogin = None,
             tdg_Install = (case declared of
                 None \<Rightarrow> None
               | Some t \<Rightarrow>
                   (case tl_Install t of
                      None \<Rightarrow> None
                    | Some ins \<Rightarrow>
                        if get (ti_Artifacts ins) host \<noteq> None \<and> ts_Status st \<noteq> StatusUnsupportedPlatform
                        then Some \<lparr>icp_Version = ti_Version ins, icp_CustomLocation = True\<rparr> else None))\<rparr>)"

definition task_validation_of :: "input_validation \<Rightarrow> task_validation" where
  "task_validation_of v =
     \<lparr>tkv_Min = iv_Min v, tkv_Max = iv_Max v, tkv_MinLength = iv_MinLength v, tkv_MaxLength = iv_MaxLength v,
      tkv_Pattern = iv_Pattern v, tkv_Enum = iv_Enum v, tkv_DisallowLeadingDash = iv_DisallowLeadingDash v\<rparr>"

definition task_input_of :: "input \<Rightarrow> task_input" where
  "task_input_of i =
     \<lparr>tki_ID = in_ID i, tki_Type = input_type_text (in_Type i), tki_Label = in_Label i, tki_Required = in_Required i,
      tki_Validation = task_validation_of (in_Validation i)\<rparr>"

definition task_of :: "snapshot \<Rightarrow> loaded_pack \<Rightarrow> string \<times> command \<Rightarrow> server_task option" where
  "task_of snap p named =
     (let cmd = snd named in
      if \<not> commandBrowserRunnable cmd then None
      else case Find snap (ToolRef (pack_id p) (cm_Tool cmd)) of
        None \<Rightarrow> None
      | Some state \<Rightarrow>
          if \<not> Healthy state then None
          else Some \<lparr>stk_PackID = pack_id p, stk_PackName = md_Name (pk_Metadata (lp_Pack p)), stk_CommandID = fst named,
             stk_Name = cm_Name cmd, stk_Description = cm_Description cmd, stk_ToolID = cm_Tool cmd,
             stk_ToolVersion = ts_Version state, stk_Risk = risk_text (cm_Risk cmd),
             stk_Impact = map_option (\<lambda>im. \<lparr>tkm_TargetInput = im_TargetInput im, tkm_TargetLabel = im_TargetLabel im,
                 tkm_Effect = im_Effect im, tkm_Scope = scope_text (im_Scope im)\<rparr>) (cm_Impact cmd),
             stk_RequiresAuth = rq_RequiresAuth (cm_Requirements cmd), stk_Inputs = map task_input_of (cm_Inputs cmd)\<rparr>)"

definition newTaskCatalog :: "string \<Rightarrow> registry option \<Rightarrow> snapshot \<Rightarrow> catalog" where
  "newTaskCatalog host reg0 snap =
     (case reg0 of
        None \<Rightarrow> empty_catalog
      | Some reg \<Rightarrow>
          \<lparr>ct_tasks = concat (map (\<lambda>p. List.map_filter (task_of snap p) (Commands reg (pack_id p))) (rg_packs reg)),
           ct_tools = List.map_filter (diagnostic host reg) (sn_tools snap)\<rparr>)"

subsection \<open>Listings\<close>

definition ListTasks :: "(string \<Rightarrow> string \<Rightarrow> bool) option \<Rightarrow> catalog \<Rightarrow> server_task list" where
  "ListTasks availability c =
     filter (\<lambda>t. case availability of None \<Rightarrow> True | Some f \<Rightarrow> f (stk_PackID t) (stk_CommandID t)) (ct_tasks c)"

definition offer_login :: "string \<Rightarrow> string \<Rightarrow> login_capability \<Rightarrow> tool_diagnostic \<Rightarrow> tool_diagnostic" where
  "offer_login packID toolID capability d =
     (if tdg_PackID d \<noteq> packID \<or> tdg_ToolID d \<noteq> toolID \<or> tdg_Status d \<noteq> discovery_text StatusReady
        \<or> \<not> tdg_RequiresVendorSession d then d
      else d\<lparr>tdg_CredentialLogin := Some capability\<rparr>)"

definition enableCredentialLogin :: "string \<Rightarrow> string \<Rightarrow> login_capability \<Rightarrow> catalog \<Rightarrow> catalog" where
  "enableCredentialLogin packID toolID capability c = c\<lparr>ct_tools := map (offer_login packID toolID capability) (ct_tools c)\<rparr>"

definition ListTools :: "(string \<times> string \<times> login_capability) option \<Rightarrow> catalog \<Rightarrow> tool_diagnostic list" where
  "ListTools provided c =
     (case provided of
        None \<Rightarrow> ct_tools c
      | Some (packID, toolID, capability) \<Rightarrow> map (offer_login packID toolID capability) (ct_tools c))"

definition catalog_refresh :: "string \<Rightarrow> registry option \<Rightarrow> snapshot \<Rightarrow> catalog \<Rightarrow> catalog" where
  "catalog_refresh host reg snap c =
     c\<lparr>ct_tasks := ct_tasks (newTaskCatalog host reg snap), ct_tools := ct_tools (newTaskCatalog host reg snap)\<rparr>"

subsection \<open>What discovery puts into a snapshot\<close>

lemma resolveTool_fields:
  "resolveTool env r state t override = Inr st \<Longrightarrow>
     ts_PackID st = ts_PackID state \<and> ts_ToolID st = ts_ToolID state \<and> ts_PackVersion st = ts_PackVersion state
     \<and> ts_VersionConstraint st = ts_VersionConstraint state"
  by (auto simp: resolveTool_def check_version_def Let_def split: option.split_asm list.split_asm sum.split_asm if_split_asm)

lemma discover_tool_fields:
  "discover_tool env r overrides p named = Inr st \<Longrightarrow>
     ts_PackID st = pack_id p \<and> ts_ToolID st = fst named \<and> ts_PackVersion st = md_Version (pk_Metadata (lp_Pack p))
     \<and> ts_VersionConstraint st = tl_VersionConstraint (snd named)"
  by (auto simp: discover_tool_def Let_def base_state_def split: if_split_asm dest!: resolveTool_fields)

lemma discover_tool_resolves:
  "discover_tool env r overrides p named = Inr st \<Longrightarrow> Healthy st \<Longrightarrow>
     \<exists>state override. resolveTool env r state (snd named) override = Inr st"
  by (auto simp: discover_tool_def Let_def Healthy_def split: if_split_asm)

lemma path_clean_nonempty: "path_clean p \<noteq> []"
  by (auto simp: path_clean_def Let_def)

lemma consider_all_paths:
  "\<forall>c \<in> set cs. cd_Path c \<noteq> [] \<Longrightarrow>
     \<forall>c \<in> set (foldl (\<lambda>cs n. consider_candidate fs goos declared (path_join d n) cs) cs ns). cd_Path c \<noteq> []"
proof (induction ns arbitrary: cs)
  case (Cons n ns)
  have "\<forall>c \<in> set (consider_candidate fs goos declared (path_join d n) cs). cd_Path c \<noteq> []"
    using Cons.prems path_clean_nonempty
    by (auto simp: consider_candidate_def inspectExecutable_def split: option.split if_split_asm)
  from Cons.IH [OF this] show ?case by simp
qed simp

lemma scan_directories_paths:
  "\<forall>c \<in> set cs. cd_Path c \<noteq> [] \<Longrightarrow> \<forall>c \<in> set (scan_directories fs goos declared seen cs ds). cd_Path c \<noteq> []"
  by (induction fs goos declared seen cs ds rule: scan_directories.induct) (simp_all add: Let_def consider_all_paths)

lemma tool_candidates_paths:
  assumes "tool_candidates fs r declared override = Some cs" and "c \<in> set cs"
  shows "cd_Path c \<noteq> []"
proof -
  have "cd_Path c \<noteq> []" if "c \<in> set (directoryCandidates fs (rs_goos r) declared ds)" for ds
    using that scan_directories_paths [of "[]" fs "rs_goos r" declared "[]" ds] by (simp add: directoryCandidates_def)
  moreover have "cd_Path c \<noteq> []" if "explicitCandidate fs r override declared = Some c"
    using that path_clean_nonempty
    by (auto simp: explicitCandidate_def inspectExecutable_def split: option.split_asm if_split_asm)
  ultimately show ?thesis
    using assms by (auto simp: tool_candidates_def Let_def split: if_split_asm)
qed

lemma ready_tool_usable:
  assumes "resolveTool env r state t override = Inr st" and "Healthy st"
  shows "ts_Path st \<noteq> [] \<and> identity_Valid (ts_Identity st)"
proof -
  obtain c i where c: "tool_candidates (pe_fs env) r (tl_ExecutableNames t) override = Some [c]"
    "CaptureExecutableIdentity (pe_sha env) (pe_fs env) (cd_Path c) = Some i"
    and st: "ts_Path st = cd_Path c" "ts_Identity st = i"
    using assms by (auto simp: resolveTool_def check_version_def Healthy_def Let_def
        split: option.split_asm list.split_asm sum.split_asm if_split_asm)
  with tool_candidates_paths [OF c(1)] capture_valid [OF c(2)] show ?thesis by simp
qed

lemma discover_all_Inr:
  "discover_all f xs = Inr ys \<Longrightarrow> list_all2 (\<lambda>x y. f x = Inr y) xs ys"
  by (induction xs arbitrary: ys) (auto simp: bindE_Inr_iff)

lemma list_all2_member: "list_all2 R xs ys \<Longrightarrow> y \<in> set ys \<Longrightarrow> \<exists>x \<in> set xs. R x y"
  by (induction rule: list_all2_induct) auto

text \<open>Every state of a discovered snapshot is that of one declared tool, under its own reference.\<close>

lemma registry_tools_refs:
  assumes "NewRegistry loaded = Inr reg"
  shows "distinct (map (\<lambda>(p, named). ToolRef (pack_id p) (fst named)) (registry_tools reg))"
proof -
  have keys: "distinct (map fst (Tools reg pid))" for pid
    by (auto simp: Tools_def keyed_entries_def o_def distinct_sorted_keys split: option.split)
  have "distinct (map (\<lambda>(p, named). ToolRef (pack_id p) (fst named)) (concat (map (\<lambda>p. map (Pair p) (Tools reg (pack_id p))) ps)))"
    if "distinct (map pack_id ps)" for ps
    using that
  proof (induction ps)
    case (Cons p ps)
    have "map (\<lambda>(p, named). ToolRef (pack_id p) (fst named)) (map (Pair p) (Tools reg (pack_id p)))
        = map (ToolRef (pack_id p)) (map fst (Tools reg (pack_id p)))"
      by simp
    then have "distinct (map (\<lambda>(p, named). ToolRef (pack_id p) (fst named)) (map (Pair p) (Tools reg (pack_id p))))"
      using keys [of "pack_id p"] by (simp add: distinct_map inj_on_def del: map_map)
    with Cons show ?case by (auto simp: o_def)
  qed simp
  with NewRegistry_Inr(2) [OF assms] show ?thesis by (simp add: registry_tools_def)
qed

lemma discovered_state:
  assumes "NewRegistry loaded = Inr reg" and "Discover env r reg overrides = Inr snap" and "Find snap ref = Some st"
  shows "\<exists>p named st0. st = sort_candidates st0 \<and> discover_tool env r overrides p named = Inr st0
    \<and> p \<in> set (rg_packs reg) \<and> ref = ToolRef (pack_id p) (fst named)"
proof -
  obtain states where all: "list_all2 (\<lambda>x y. (case x of (p, named) \<Rightarrow> discover_tool env r overrides p named) = Inr y)
      (registry_tools reg) states" and snap: "snap = NewSnapshot states"
    using assms(2) by (auto simp: Discover_def bindE_Inr_iff dest!: discover_all_Inr split: option.split_asm)
  have "map state_ref states = map (\<lambda>(p, named). ToolRef (pack_id p) (fst named)) (registry_tools reg)"
    using all by (induction rule: list_all2_induct) (auto simp: state_ref_def dest: discover_tool_fields)
  with registry_tools_refs [OF assms(1)] have "distinct (map state_ref states)" by simp
  from assms(3) [unfolded snap Find_iff [OF this]] obtain st0 where st0: "st0 \<in> set states" "st = sort_candidates st0" "state_ref st0 = ref"
    by blast
  from list_all2_member [OF all this(1)] obtain p named where
    "(p, named) \<in> set (registry_tools reg)" "discover_tool env r overrides p named = Inr st0" by auto
  with st0 discover_tool_fields show ?thesis
    by (fastforce simp: registry_tools_def state_ref_def)
qed

subsection \<open>What is offered can be planned\<close>

lemma runnable_iff_policy:
  assumes "is_mutation (cm_Risk cmd) \<longrightarrow> cm_Impact cmd \<noteq> None"
  shows "commandBrowserRunnable cmd \<longleftrightarrow> command_policy cmd = None"
  using assms by (auto simp: commandBrowserRunnable_def command_policy_def is_mutation_def split: risk.split)

lemma keyed_entries_member: "(k, v) \<in> set (keyed_entries d) \<longleftrightarrow> get d k = Some v"
proof -
  have "k \<in> fst ` set d \<longleftrightarrow> get d k \<noteq> None" by (simp add: map_of_eq_None_iff)
  then show ?thesis by (auto simp: keyed_entries_def)
qed

lemma Commands_iff: "(cid, cmd) \<in> set (Commands reg pid) \<longleftrightarrow> FindCommand reg pid cid = Some cmd"
  by (auto simp: Commands_def FindCommand_def keyed_entries_member split: option.split)

definition offered :: "string \<Rightarrow> registry \<Rightarrow> snapshot \<Rightarrow> string \<Rightarrow> string \<Rightarrow> bool" where
  "offered host reg snap pid cid \<longleftrightarrow>
     list_ex (\<lambda>t. stk_PackID t = pid \<and> stk_CommandID t = cid) (ct_tasks (newTaskCatalog host (Some reg) snap))"

lemma offered_iff:
  "offered host reg snap pid cid \<longleftrightarrow>
     (\<exists>p \<in> set (rg_packs reg). pack_id p = pid \<and> (\<exists>cmd st. FindCommand reg pid cid = Some cmd \<and> commandBrowserRunnable cmd
       \<and> Find snap (ToolRef pid (cm_Tool cmd)) = Some st \<and> Healthy st))"
proof
  assume "offered host reg snap pid cid"
  then obtain t p cmd where "p \<in> set (rg_packs reg)" "(fst cmd, snd cmd) \<in> set (Commands reg (pack_id p))"
    "task_of snap p cmd = Some t" "stk_PackID t = pid" "stk_CommandID t = cid"
    by (auto simp: offered_def newTaskCatalog_def list_ex_iff List.map_filter_def)
  then show "\<exists>p \<in> set (rg_packs reg). pack_id p = pid \<and> (\<exists>cmd st. FindCommand reg pid cid = Some cmd
      \<and> commandBrowserRunnable cmd \<and> Find snap (ToolRef pid (cm_Tool cmd)) = Some st \<and> Healthy st)"
    unfolding Commands_iff by (auto simp: task_of_def Let_def split: if_split_asm option.split_asm)
next
  assume "\<exists>p \<in> set (rg_packs reg). pack_id p = pid \<and> (\<exists>cmd st. FindCommand reg pid cid = Some cmd
      \<and> commandBrowserRunnable cmd \<and> Find snap (ToolRef pid (cm_Tool cmd)) = Some st \<and> Healthy st)"
  then obtain p cmd st where p: "p \<in> set (rg_packs reg)" "pack_id p = pid" "(cid, cmd) \<in> set (Commands reg (pack_id p))"
    and t: "commandBrowserRunnable cmd" "Find snap (ToolRef pid (cm_Tool cmd)) = Some st" "Healthy st"
    by (auto simp: Commands_iff)
  then have "\<exists>t. task_of snap p (cid, cmd) = Some t \<and> stk_PackID t = pid \<and> stk_CommandID t = cid"
    by (simp add: task_of_def)
  with p show "offered host reg snap pid cid"
    by (fastforce simp: offered_def newTaskCatalog_def list_ex_iff List.map_filter_def)
qed

text \<open>
  C17: The browser is offered exactly what the planner accepts. For validated packs and the
  snapshot that discovery made of them, a command is in the catalogue if and only if the planner's
  own gates, its policy on risk, sign-in and secrets and its check of the tool, let the command
  through; so every plan the planner builds is of an offered task.
\<close>
theorem offered_tasks_are_plannable:
  assumes "NewRegistry loaded = Inr reg" and "validated_registry lib reg" and "Discover env r reg overrides = Inr snap"
  shows "offered host reg snap pid cid = (\<exists>p cmd st. FindPack reg pid = Some p \<and> FindCommand reg pid cid = Some cmd
        \<and> command_policy cmd = None \<and> usable_tool snap pid (md_Version (pk_Metadata (lp_Pack p))) (cm_Tool cmd) = Inr st)
    \<and> ((\<exists>values plan. Build lib (Some reg) snap \<lparr>prq_PackID = pid, prq_CommandID = cid, prq_Values = values\<rparr> = Inr plan)
        \<longrightarrow> offered host reg snap pid cid)"
proof -
  have policy: "commandBrowserRunnable cmd \<longleftrightarrow> command_policy cmd = None"
    if "FindPack reg pid = Some p" "FindCommand reg pid cid = Some cmd" for p cmd
    using valid_command_parts(3) [OF validated_command [OF assms(2) that]]
    by (intro runnable_iff_policy; cases "cm_Impact cmd") (auto simp: validateRiskImpact_def is_mutation_def)
  have usable: "Healthy st \<longleftrightarrow> usable_tool snap pid (md_Version (pk_Metadata (lp_Pack p))) tid = Inr st"
    if st: "Find snap (ToolRef pid tid) = Some st" and p: "FindPack reg pid = Some p" for st tid p
  proof -
    obtain q named st0 where q: "st = sort_candidates st0" "discover_tool env r overrides q named = Inr st0"
      "q \<in> set (rg_packs reg)" "ToolRef pid tid = ToolRef (pack_id q) (fst named)"
      using discovered_state [OF assms(1,3) st] by blast
    then have "q = p"
      using p NewRegistry_Inr(1) [OF assms(1)] FindPack_iff [OF assms(1), of pid] by (metis set_sort tool_ref.inject option.inject)
    with discover_tool_fields [OF q(2)] have "ts_PackVersion st = md_Version (pk_Metadata (lp_Pack p))"
      by (simp add: q(1) sort_candidates_def)
    moreover have "ts_Path st \<noteq> [] \<and> identity_Valid (ts_Identity st)" if "Healthy st"
      using discover_tool_resolves [OF q(2)] ready_tool_usable that by (auto simp: q(1) sort_candidates_def Healthy_def)
    ultimately show ?thesis using st by (auto simp: usable_tool_def Healthy_def)
  qed
  have packs: "p \<in> set (rg_packs reg) \<and> pack_id p = pid \<longleftrightarrow> FindPack reg pid = Some p" for p
    using FindPack_iff [OF assms(1), of pid p] NewRegistry_Inr(1) [OF assms(1)] by simp
  have found: "usable_tool snap pid v tid = Inr st \<Longrightarrow> Find snap (ToolRef pid tid) = Some st" for v tid st
    by (auto simp: usable_tool_def split: option.split_asm if_split_asm)
  have gates: "offered host reg snap pid cid = (\<exists>p cmd st. FindPack reg pid = Some p \<and> FindCommand reg pid cid = Some cmd
        \<and> command_policy cmd = None \<and> usable_tool snap pid (md_Version (pk_Metadata (lp_Pack p))) (cm_Tool cmd) = Inr st)"
    unfolding offered_iff using policy usable packs found by (metis (no_types, lifting))
  then show ?thesis by (auto elim!: Build_Inr)
qed

lemma sample_discovered: "Discover sample_env sample_resolver vault_registry [] = Inr vault_snapshot"
  by code_simp

theorem offered_tasks_are_plannable_witness:
  "offered ''linux-amd64'' vault_registry vault_snapshot ''p'' ''list''
     = (\<exists>p cmd st. FindPack vault_registry ''p'' = Some p \<and> FindCommand vault_registry ''p'' ''list'' = Some cmd
        \<and> command_policy cmd = None \<and> usable_tool vault_snapshot ''p'' (md_Version (pk_Metadata (lp_Pack p))) (cm_Tool cmd) = Inr st)"
  using offered_tasks_are_plannable [OF vault_registry_built vault_validated sample_discovered] by blast

end
