(* ===== verification/Platforms.thy ===== *)
theory Platforms
  imports Catalog Approval
begin

section \<open>The set of dedicated platforms (internal/platforms/platforms.go)\<close>

text \<open>
  A platform adds vendor behaviour to one tool of one pack, behind an interface of hooks on a
  vendor state \<open>'p\<close>. The set holds the platforms whose tool is declared and routes each hook to
  the one platform that owns the pack; everything else gets the default of the core.
\<close>

record 'p platform =
  pf_Descriptor :: server_platform
  pf_ActivateTool :: "tool_state \<Rightarrow> 'p \<Rightarrow> 'p"
  pf_TaskAvailable :: "string \<Rightarrow> string \<Rightarrow> 'p \<Rightarrow> bool"
  pf_Resolve :: "plan \<Rightarrow> 'p \<Rightarrow> unit + execution_context"

record 'p platform_set =
  ps_items :: "'p platform list"
  ps_available :: "bool dict"
  ps_ready :: "bool dict"

definition platform_ref :: "'p platform \<Rightarrow> tool_ref" where
  "platform_ref item = ToolRef (spl_PackID (pf_Descriptor item)) (spl_ToolID (pf_Descriptor item))"

definition register_platform :: "snapshot \<Rightarrow> 'p platform_set \<Rightarrow> 'p platform \<Rightarrow> 'p platform_set" where
  "register_platform snap s item =
     (let d = pf_Descriptor item in
      case Find snap (platform_ref item) of
        None \<Rightarrow> s
      | Some state \<Rightarrow> s\<lparr>ps_items := ps_items s @ [item], ps_available := AList.update (spl_ID d) True (ps_available s),
             ps_ready := AList.update (spl_ID d) (Healthy state) (ps_ready s)\<rparr>)"

definition NewSet :: "snapshot \<Rightarrow> 'p platform list \<Rightarrow> 'p platform_set" where
  "NewSet snap items = foldl (register_platform snap) \<lparr>ps_items = [], ps_available = [], ps_ready = []\<rparr> items"

definition ListPlatforms :: "'p platform_set \<Rightarrow> server_platform list" where
  "ListPlatforms s =
     map (\<lambda>item. (pf_Descriptor item)\<lparr>spl_Ready := (get (ps_ready s) (spl_ID (pf_Descriptor item)) = Some True)\<rparr>) (ps_items s)"

definition owner :: "'p platform_set \<Rightarrow> string \<Rightarrow> string \<Rightarrow> 'p platform option" where
  "owner s packID toolID =
     List.find (\<lambda>item. spl_PackID (pf_Descriptor item) = packID \<and> (toolID = [] \<or> spl_ToolID (pf_Descriptor item) = toolID)) (ps_items s)"

definition set_ActivateTool :: "tool_state \<Rightarrow> 'p platform_set \<Rightarrow> 'p \<Rightarrow> 'p platform_set \<times> 'p" where
  "set_ActivateTool state s v =
     (case owner s (ts_PackID state) (ts_ToolID state) of
        None \<Rightarrow> (s, v)
      | Some item \<Rightarrow>
          (s\<lparr>ps_ready := AList.update (spl_ID (pf_Descriptor item)) (Healthy state) (ps_ready s)\<rparr>, pf_ActivateTool item state v))"

definition set_TaskAvailable :: "'p platform_set \<Rightarrow> 'p \<Rightarrow> string \<Rightarrow> string \<Rightarrow> bool" where
  "set_TaskAvailable s v packID commandID =
     (case owner s packID [] of None \<Rightarrow> True | Some item \<Rightarrow> pf_TaskAvailable item packID commandID v)"

definition set_ResolveExecutionContext :: "'p platform_set \<Rightarrow> 'p \<Rightarrow> plan \<Rightarrow> unit + execution_context" where
  "set_ResolveExecutionContext s v p =
     (case owner s (pl_PackID p) (pl_ToolID p) of None \<Rightarrow> Inl () | Some item \<Rightarrow> pf_Resolve item p v)"

end
