(* ===== verification/AppTools.thy ===== *)
theory AppTools
  imports Platforms ToolBootstrap RunManager
begin

section \<open>Installing and refreshing tools (internal/app/tool\_install.go, tool\_refresh.go)\<close>

text \<open>
  The installer behind the browser's install and refresh requests. Only a tool that discovery
  found missing may gain authority: it is fetched or found, qualified by ordinary discovery
  against its own pack, compared with the version and digest the pack pins, and then handed at
  once to the run manager, the platforms and the catalogue. The chosen install roots are kept as
  the map that their file holds, empty when it cannot be read; the JSON of that file is left out.
\<close>

subsection \<open>Install roots (internal/app/install\_locations.go)\<close>

definition validManagedInstallID :: "string \<Rightarrow> bool" where
  "validManagedInstallID v \<longleftrightarrow>
     v \<noteq> [] \<and> length v \<le> 63 \<and> 97 \<le> byte (hd v) \<and> byte (hd v) \<le> 122
     \<and> list_all (\<lambda>c. (97 \<le> byte c \<and> byte c \<le> 122) \<or> is_digit c \<or> c = CHR ''-'') (tl v)"

definition parseManagedInstallRef :: "string \<Rightarrow> tool_ref option" where
  "parseManagedInstallRef v =
     (case split_at slash v of
        [a, b] \<Rightarrow> if validManagedInstallID a \<and> validManagedInstallID b then Some (ToolRef a b) else None
      | _ \<Rightarrow> None)"

definition ref_text :: "tool_ref \<Rightarrow> string" where
  "ref_text ref = ref_pack ref @ ''/'' @ ref_tool ref"

text \<open>\<open>filepath.Rel\<close> on clean absolute paths.\<close>

definition path_parts :: "string \<Rightarrow> string list" where
  "path_parts p = filter (\<lambda>e. e \<noteq> []) (split_at slash p)"

fun strip_common :: "string list \<Rightarrow> string list \<Rightarrow> string list \<times> string list" where
  "strip_common (a # as) (b # bs) = (if a = b then strip_common as bs else (a # as, b # bs))"
| "strip_common as bs = (as, bs)"

definition path_rel :: "string \<Rightarrow> string \<Rightarrow> string" where
  "path_rel base target =
     (let (up, down) = strip_common (path_parts base) (path_parts target); parts = map (\<lambda>_. ''..'') up @ down
      in if parts = [] then ''.'' else join_slash parts)"

datatype lstat_answer = LstatMissing | LstatFailed | LstatEntry bool bool

text \<open>The entry's flags: a symbolic link, a directory. \<open>pt_Home\<close> is the store's home directory.\<close>

record path_env =
  pt_Home :: string
  pt_Lstat :: "string \<Rightarrow> lstat_answer"
  pt_EvalSymlinks :: "string \<Rightarrow> string option"

text \<open>The walk to the nearest existing ancestor; the parent of a clean path is shorter.\<close>

function existing_ancestor :: "path_env \<Rightarrow> string \<Rightarrow> string option" where
  "existing_ancestor env p =
     (case pt_Lstat env p of
        LstatEntry link dir \<Rightarrow>
          if link then map_option path_clean (pt_EvalSymlinks env p) else if dir then Some p else None
      | LstatFailed \<Rightarrow> None
      | LstatMissing \<Rightarrow>
          let parent = path_dir p in
          if parent = p \<or> length p \<le> length parent then None else existing_ancestor env parent)"
  by pat_completeness auto
termination by (relation "measure (\<lambda>(env, p). length p)") (auto simp: not_le)

declare existing_ancestor.simps [simp del]

definition below :: "string \<Rightarrow> bool" where
  "below rel \<longleftrightarrow> rel \<noteq> ''..'' \<and> \<not> has_prefix ''../'' rel"

definition validateManagedInstallRoot :: "path_env \<Rightarrow> string \<Rightarrow> string option" where
  "validateManagedInstallRoot env v =
     (if v = [] \<or> CHR 0x00 \<in> set v \<or> \<not> is_abs v then None
      else if \<exists>r \<in> set (runes v). r < 0x20 \<or> r = 0x7F then None
      else let root = path_clean v; home = path_clean (pt_Home env); rel = path_rel home root in
        if rel = ''.'' \<or> \<not> below rel then None
        else let resolvedHome = (case pt_EvalSymlinks env home of None \<Rightarrow> home | Some h \<Rightarrow> path_clean h) in
          (case existing_ancestor env root of
             None \<Rightarrow> None
           | Some ancestor \<Rightarrow>
               (case pt_EvalSymlinks env ancestor of
                  None \<Rightarrow> None
                | Some resolved \<Rightarrow> if below (path_rel resolvedHome (path_clean resolved)) then Some root else None)))"

text \<open>\<open>replaced\<close> is whether the file was replaced.\<close>

definition Save :: "path_env \<Rightarrow> bool \<Rightarrow> tool_ref \<Rightarrow> string \<Rightarrow> string dict \<Rightarrow> bool \<times> string dict" where
  "Save env replaced ref root0 stored =
     (case validateManagedInstallRoot env root0 of
        None \<Rightarrow> (False, stored)
      | Some root \<Rightarrow>
          if \<not> replaced then (False, stored)
          else (True, AList.update (ref_text ref) root
             (List.map_filter (\<lambda>(k, v). case parseManagedInstallRef k of
                  None \<Rightarrow> None
                | Some parsed \<Rightarrow> map_option (Pair (ref_text parsed)) (validateManagedInstallRoot env v)) stored)))"

definition Load :: "path_env \<Rightarrow> string dict \<Rightarrow> (tool_ref \<times> string) list" where
  "Load env stored =
     List.map_filter (\<lambda>(k, v). case parseManagedInstallRef k of
         None \<Rightarrow> None
       | Some ref \<Rightarrow> map_option (Pair ref) (validateManagedInstallRoot env v)) stored"

subsection \<open>The application's state\<close>

record ('a, 'p) app_state =
  ap_manager :: "'a manager"
  ap_catalog :: catalog
  ap_platforms :: "'p platform_set"
  ap_vendor :: 'p
  ap_snapshot :: snapshot
  ap_disk :: disk
  ap_locations :: "string dict"

text \<open>
  What one request finds: the library functions and the machine for the provisioner, for
  discovery, for the manager's own check of the executable, and for the install roots.
  \<open>ie_sameVersion\<close> is whether both texts are versions and equal ones; \<open>ie_home\<close> is the
  user's home directory, \<open>ie_located\<close> whether there is a store of install roots, \<open>ie_live\<close> whether the application gave the installer its
  \<open>activate\<close> function.
\<close>

record install_env =
  ie_sha :: "string \<Rightarrow> string"
  ie_parse :: "string \<Rightarrow> parsed_url option"
  ie_unzip :: "string \<Rightarrow> zip_entry list option"
  ie_provisioner :: provisioner
  ie_boot :: boot_env
  ie_probe :: probe_env
  ie_resolver :: resolver
  ie_home :: "string option"
  ie_sameVersion :: "string \<Rightarrow> string \<Rightarrow> bool"
  ie_fs :: file_system
  ie_path :: path_env
  ie_located :: bool
  ie_replaced :: bool
  ie_live :: bool
  ie_cancelled :: bool

definition host_of :: "provisioner \<Rightarrow> string" where
  "host_of p = pvn_goos p @ ''-'' @ pvn_goarch p"

definition defaultUserSearchDirectories :: "string \<Rightarrow> string \<Rightarrow> string list" where
  "defaultUserSearchDirectories goos home =
     (if goos = ''windows'' then
        [join_paths [home, ''AppData'', ''Local'', ''Microsoft'', ''WinGet'', ''Links''], join_paths [home, ''scoop'', ''shims''],
         join_paths [home, ''go'', ''bin''], join_paths [home, ''.local'', ''bin''], join_paths [home, ''bin'']]
      else [join_paths [home, ''go'', ''bin''], join_paths [home, ''.local'', ''bin''], join_paths [home, ''bin'']]
        @ (if goos = ''darwin'' then [join_paths [home, ''.docker'', ''bin''], ''/opt/homebrew/bin'', ''/usr/local/bin''] else []))"

definition DefaultUserSearchDirectories :: "string \<Rightarrow> string option \<Rightarrow> string list" where
  "DefaultUserSearchDirectories goos home0 =
     (case home0 of
        None \<Rightarrow> []
      | Some home \<Rightarrow> if home = [] \<or> \<not> is_abs home then [] else defaultUserSearchDirectories goos (path_clean home))"

definition user_resolver :: "install_env \<Rightarrow> resolver" where
  "user_resolver env =
     (ie_resolver env)\<lparr>rs_fallbackDirs := DefaultUserSearchDirectories (rs_goos (ie_resolver env)) (ie_home env)\<rparr>"

subsection \<open>Handing a ready tool over (internal/app/app.go)\<close>

definition activate_tool ::
    "(string \<Rightarrow> string) \<Rightarrow> file_system \<Rightarrow> string \<Rightarrow> registry \<Rightarrow> snapshot \<Rightarrow> tool_state \<Rightarrow> ('a, 'p) app_state
      \<Rightarrow> bool \<times> ('a, 'p) app_state" where
  "activate_tool sha fs host reg snap state app =
     (case ActivateTool sha fs state (ap_manager app) of
        (Some e, m) \<Rightarrow> (False, app\<lparr>ap_manager := m\<rparr>)
      | (None, m) \<Rightarrow>
          (case set_ActivateTool state (ap_platforms app) (ap_vendor app) of
             (ps, v) \<Rightarrow> (True, app\<lparr>ap_manager := m, ap_platforms := ps, ap_vendor := v,
               ap_catalog := catalog_refresh host (Some reg) snap (ap_catalog app)\<rparr>)))"

subsection \<open>Qualification\<close>

definition scoped_registry :: "registry \<Rightarrow> tool_ref \<Rightarrow> tool \<Rightarrow> registry option" where
  "scoped_registry reg ref t =
     (case FindPack reg (ref_pack ref) of
        None \<Rightarrow> None
      | Some p \<Rightarrow>
          let pk = lp_Pack p; scoped = pk\<lparr>pk_Runtime := (pk_Runtime pk)\<lparr>rt_Tools := [(ref_tool ref, t)]\<rparr>, pk_Commands := []\<rparr>
          in (case NewRegistry [p\<lparr>lp_Pack := scoped\<rparr>] of Inl e \<Rightarrow> None | Inr r \<Rightarrow> Some r))"

definition hex_text :: "string \<Rightarrow> string" where
  "hex_text s = concat (map (\<lambda>c. [hex_char (byte c div 16), hex_char (byte c mod 16)]) s)"

definition expected_digest :: "install_artifact \<Rightarrow> string" where
  "expected_digest a = (if ia_Format a = InstallFormatZIP then ia_ExecutableSHA256 a else ia_SHA256 a)"

definition qualified_tool :: "install_env \<Rightarrow> registry \<Rightarrow> tool_ref \<Rightarrow> tool \<Rightarrow> tool_install \<Rightarrow> string \<Rightarrow> tool_state option" where
  "qualified_tool env reg ref t ins path =
     (case scoped_registry reg ref t of
        None \<Rightarrow> None
      | Some scoped \<Rightarrow>
      (case Discover (ie_probe env) ((ie_resolver env)\<lparr>rs_fallbackDirs := []\<rparr>) scoped [(ref, path)] of
        Inl e \<Rightarrow> None
      | Inr found \<Rightarrow>
      (case Find found ref of
        None \<Rightarrow> None
      | Some state \<Rightarrow>
          if \<not> Healthy state \<or> \<not> ie_sameVersion env (ti_Version ins) (ts_Version state) then None
          else (case get (ti_Artifacts ins) (host_of (ie_provisioner env)) of
             None \<Rightarrow> None
           | Some a \<Rightarrow> if equal_fold (hex_text (ei_Digest (ts_Identity state))) (expected_digest a) then Some state else None))))"

definition replace_state :: "tool_ref \<Rightarrow> tool_state \<Rightarrow> snapshot \<Rightarrow> snapshot" where
  "replace_state ref state snap = NewSnapshot (map (\<lambda>s. if state_ref s = ref then state else s) (sn_tools snap))"

fun replace_first :: "tool_ref \<Rightarrow> tool_state \<Rightarrow> tool_state list \<Rightarrow> tool_state list" where
  "replace_first ref state [] = []"
| "replace_first ref state (s # ss) = (if state_ref s = ref then state # ss else s # replace_first ref state ss)"

subsection \<open>Install\<close>

text \<open>After the provisioner: qualification, the install root, and the handing over.\<close>

definition save_root :: "install_env \<Rightarrow> tool_ref \<Rightarrow> string \<Rightarrow> ('a, 'p) app_state \<Rightarrow> bool \<times> ('a, 'p) app_state" where
  "save_root env ref installRoot app =
     (if installRoot = [] then (True, app)
      else case Save (ie_path env) (ie_replaced env) ref installRoot (ap_locations app) of
        (ok, stored) \<Rightarrow> (ok, app\<lparr>ap_locations := stored\<rparr>))"

definition install_ready ::
    "install_env \<Rightarrow> registry \<Rightarrow> tool_ref \<Rightarrow> tool \<Rightarrow> tool_install \<Rightarrow> string \<Rightarrow> string \<Rightarrow> ('a, 'p) app_state
      \<Rightarrow> bool \<times> ('a, 'p) app_state" where
  "install_ready env reg ref t ins installRoot path app =
     (case qualified_tool env reg ref t ins path of
        None \<Rightarrow> (False, app)
      | Some state \<Rightarrow>
          let snap = replace_state ref state (ap_snapshot app) in
          (case save_root env ref installRoot app of
             (False, app') \<Rightarrow> (False, app')
           | (True, app') \<Rightarrow>
               (case activate_tool (pe_sha (ie_probe env)) (ie_fs env) (host_of (ie_provisioner env)) reg snap state app' of
                  (False, app'') \<Rightarrow> (False, app'')
                | (True, app'') \<Rightarrow> (True, app''\<lparr>ap_snapshot := snap\<rparr>))))"

text \<open>From the validated root to the answer.\<close>

definition install_at ::
    "install_env \<Rightarrow> registry \<Rightarrow> tool_ref \<Rightarrow> tool \<Rightarrow> tool_install \<Rightarrow> string \<Rightarrow> ('a, 'p) app_state
      \<Rightarrow> (install_error failure + install_result) \<times> ('a, 'p) app_state" where
  "install_at env reg ref t ins installRoot app =
     (case EnsureAt (ie_sha env) (ie_parse env) (ie_unzip env) (ie_provisioner env) (ie_boot env) ref t installRoot (ap_disk app) of
        (Inl e, fs) \<Rightarrow> (Inl (if ie_cancelled env then Foreign else Coded ToolInstallUnavailable), app\<lparr>ap_disk := fs\<rparr>)
      | (Inr (path, installed), fs) \<Rightarrow>
          if path = [] then (Inl (Coded ToolInstallUnsupported), app\<lparr>ap_disk := fs\<rparr>)
          else (case (if ie_live env then install_ready env reg ref t ins installRoot path (app\<lparr>ap_disk := fs\<rparr>)
                      else save_root env ref installRoot (app\<lparr>ap_disk := fs\<rparr>)) of
             (False, app') \<Rightarrow> (Inl (Coded ToolInstallUnavailable), app')
           | (True, app') \<Rightarrow> (Inr \<lparr>ir_Installed = installed, ir_Version = ti_Version ins, ir_RestartRequired = (\<not> ie_live env),
                ir_Message = (if ie_live env then ''Verified CLI installed and ready. Its approved tasks are now available.''
                  else ''Verified CLI installed for the current user. Restart CLIHarbor to activate it.'')\<rparr>, app')))"

definition InstallTool ::
    "install_env \<Rightarrow> registry option \<Rightarrow> install_request \<Rightarrow> ('a, 'p) app_state
      \<Rightarrow> (install_error failure + install_result) \<times> ('a, 'p) app_state" where
  "InstallTool env reg0 rq app =
     (let refuse = (\<lambda>e. (Inl (Coded e), app)); ref = ToolRef (irq_PackID rq) (irq_ToolID rq) in
      case reg0 of
        None \<Rightarrow> refuse ToolInstallUnsupported
      | Some reg \<Rightarrow>
      (case FindTool reg (irq_PackID rq) (irq_ToolID rq) of
        None \<Rightarrow> refuse ToolInstallUnsupported
      | Some t \<Rightarrow>
      (case tl_Install t of
        None \<Rightarrow> refuse ToolInstallUnsupported
      | Some ins \<Rightarrow>
      (case Find (ap_snapshot app) ref of
        None \<Rightarrow> refuse ToolInstallUnsupported
      | Some state \<Rightarrow>
      if ts_Status state \<noteq> StatusMissing then refuse ToolInstallUnsupported
      else if irq_InstallRoot rq \<noteq> [] \<and> \<not> ie_located env then refuse ToolInstallUnsupported
      else case (if irq_InstallRoot rq = [] then Some [] else validateManagedInstallRoot (ie_path env) (irq_InstallRoot rq)) of
        None \<Rightarrow> refuse ToolInstallInvalidLocation
      | Some installRoot \<Rightarrow> install_at env reg ref t ins installRoot app))))"

subsection \<open>Refresh\<close>

definition refreshed :: "discovery_status \<Rightarrow> bool \<Rightarrow> string \<Rightarrow> refresh_result" where
  "refreshed status is_ready msg = \<lparr>rf_Status = discovery_text status, rf_Ready = is_ready, rf_Notice = msg\<rparr>"

definition RefreshTool ::
    "install_env \<Rightarrow> registry option \<Rightarrow> install_request \<Rightarrow> ('a, 'p) app_state
      \<Rightarrow> (install_error failure + refresh_result) \<times> ('a, 'p) app_state" where
  "RefreshTool env reg0 rq app =
     (let ref = ToolRef (irq_PackID rq) (irq_ToolID rq) in
      case reg0 of
        None \<Rightarrow> (Inl (Coded ToolInstallUnsupported), app)
      | Some reg \<Rightarrow>
      if \<not> ie_live env \<or> irq_InstallRoot rq \<noteq> [] then (Inl (Coded ToolInstallUnsupported), app)
      else case Find (ap_snapshot app) ref of
        None \<Rightarrow> (Inl (Coded ToolInstallUnsupported), app)
      | Some before \<Rightarrow>
      if ts_Status before \<noteq> StatusMissing
      then (Inr (refreshed (ts_Status before) (Healthy before)
        ''The existing tool selection is unchanged. Relaunch CLIHarbor to change an approved installation or configured override.''), app)
      else case FindTool reg (irq_PackID rq) (irq_ToolID rq) of
        None \<Rightarrow> (Inl (Coded ToolInstallUnsupported), app)
      | Some t \<Rightarrow>
      (case scoped_registry reg ref t of
        None \<Rightarrow> (Inl (Coded ToolInstallUnavailable), app)
      | Some scoped \<Rightarrow>
      (case Discover (ie_probe env) (user_resolver env) scoped [] of
        Inl e \<Rightarrow> (Inl (if ie_cancelled env then Foreign else Coded ToolInstallUnavailable), app)
      | Inr found \<Rightarrow>
      if ie_cancelled env then (Inl Foreign, app)
      else case Find found ref of
        None \<Rightarrow> (Inl (Coded ToolInstallUnavailable), app)
      | Some candidate \<Rightarrow>
      if \<not> Healthy candidate
      then (Inr (refreshed (ts_Status candidate) False
        ''Tool verification did not succeed. Check the approved installation or local application-control restrictions; no tasks were enabled.''), app)
      else let snap = NewSnapshot (replace_first ref candidate (sn_tools (ap_snapshot app))) in
        (case activate_tool (pe_sha (ie_probe env)) (ie_fs env) (host_of (ie_provisioner env)) reg snap candidate app of
           (False, app') \<Rightarrow> (Inl (Coded ToolInstallUnavailable), app')
         | (True, app') \<Rightarrow> (Inr (refreshed StatusReady True ''CLI verified and ready. Its approved tasks are now available.''),
             app'\<lparr>ap_snapshot := snap\<rparr>)))))"

subsection \<open>Assembly (internal/app/app.go)\<close>

text \<open>
  The start of the application from what discovery found: the platforms, the manager, the catalogue
  and the installer are made from one snapshot. \<open>v\<close> is what the vendor platforms keep,
  \<open>fs\<close> and \<open>locations\<close> the disk and the stored install roots.
\<close>

definition assemble ::
    "string \<Rightarrow> registry \<Rightarrow> snapshot \<Rightarrow> 'p platform list \<Rightarrow> ('w, 'a) manager_config \<Rightarrow> 'a \<Rightarrow> 'p \<Rightarrow> disk \<Rightarrow> string dict
      \<Rightarrow> ('a, 'p) app_state option" where
  "assemble host reg snap items config sink v fs locations =
     (case NewManager True (Some reg) snap config sink of
        (_, None) \<Rightarrow> None
      | (_, Some m) \<Rightarrow> Some \<lparr>ap_manager = m, ap_catalog = newTaskCatalog host (Some reg) snap, ap_platforms = NewSet snap items,
          ap_vendor = v, ap_snapshot = snap, ap_disk = fs, ap_locations = locations\<rparr>)"

end
