(* ===== verification/AppSafety.thy ===== *)
theory AppSafety
  imports AppTools RunSamples
begin

section \<open>The views of the tools agree\<close>

text \<open>
  The installer's snapshot, the run manager's discovery, the catalogue and the platforms' readiness
  are four copies of one fact, which tools are usable. Installing and refreshing change them
  together, and only ever from a missing tool to a ready one.
\<close>

subsection \<open>Snapshots\<close>

definition snapshot_ok :: "snapshot \<Rightarrow> bool" where
  "snapshot_ok snap \<longleftrightarrow> snap = NewSnapshot (sn_tools snap) \<and> distinct (map state_ref (sn_tools snap))"

lemma NewSnapshot_ok:
  assumes "distinct (map state_ref states)"
  shows "snapshot_ok (NewSnapshot states)"
proof -
  let ?ordered = "sort_key state_ref (map sort_candidates states)"
  have "mset (map state_ref ?ordered) = mset (map state_ref states)" by (simp add: multiset.map_comp o_def)
  then have "distinct (map state_ref ?ordered)"
    using assms by (metis mset_eq_imp_distinct_iff)
  moreover have "map sort_candidates ?ordered = ?ordered"
    by (rule map_idI) auto
  ultimately show ?thesis
    by (simp add: snapshot_ok_def NewSnapshot_def Let_def sort_key_id_if_sorted)
qed

lemma Find_ref: "snapshot_ok snap \<Longrightarrow> Find snap ref = Some s \<Longrightarrow> state_ref s = ref \<and> sort_candidates s = s"
  by (metis snapshot_ok_def Find_iff state_ref_sort_candidates sort_candidates_idem)

lemma replace_refs:
  "state_ref state = ref \<Longrightarrow> map state_ref (map (\<lambda>s. if state_ref s = ref then state else s) ss) = map state_ref ss"
  by simp

lemma replace_state_ok:
  assumes "snapshot_ok snap" and "state_ref state = ref"
  shows "snapshot_ok (replace_state ref state snap)"
  unfolding replace_state_def
  using assms by (intro NewSnapshot_ok) (simp add: snapshot_ok_def replace_refs del: map_map)

lemma Find_replace_state:
  assumes "snapshot_ok snap" and "state_ref state = ref"
  shows "Find (replace_state ref state snap) r =
    (if r = ref \<and> Find snap ref \<noteq> None then Some (sort_candidates state) else Find snap r)"
proof -
  have snap: "Find snap r = Some s \<longleftrightarrow> (\<exists>t \<in> set (sn_tools snap). s = sort_candidates t \<and> state_ref t = r)" for r s
    using assms(1) Find_iff [of "sn_tools snap" r s] by (simp add: snapshot_ok_def)
  let ?new = "map (\<lambda>s. if state_ref s = ref then state else s) (sn_tools snap)"
  have "distinct (map state_ref ?new)"
    using assms by (simp add: snapshot_ok_def replace_refs del: map_map)
  from Find_iff [OF this] have new: "Find (replace_state ref state snap) r = Some s
      \<longleftrightarrow> (\<exists>t \<in> set (sn_tools snap). s = sort_candidates (if state_ref t = ref then state else t)
            \<and> state_ref (if state_ref t = ref then state else t) = r)" for s
    unfolding replace_state_def by (simp only: set_map bex_simps)
  have "Find (replace_state ref state snap) r = Some s \<longleftrightarrow>
      (if r = ref \<and> Find snap ref \<noteq> None then Some (sort_candidates state) else Find snap r) = Some s" for s
    unfolding new using assms(2) snap [of ref] snap [of r] by (auto split: if_splits)
  then show ?thesis by (metis option.exhaust)
qed

lemma replace_first_distinct:
  "distinct (map state_ref ss) \<Longrightarrow>
     replace_first ref state ss = map (\<lambda>s. if state_ref s = ref then state else s) ss"
  by (induction ss) (auto intro!: map_idI [symmetric] simp: image_iff)

lemma replace_first_snapshot:
  "snapshot_ok snap \<Longrightarrow> NewSnapshot (replace_first ref state (sn_tools snap)) = replace_state ref state snap"
  by (simp add: snapshot_ok_def replace_state_def replace_first_distinct)

lemma discovered_ok:
  assumes "NewRegistry loaded = Inr reg" and "Discover env r reg overrides = Inr snap"
  shows "snapshot_ok snap"
proof -
  obtain states where all: "list_all2 (\<lambda>x y. (case x of (p, named) \<Rightarrow> discover_tool env r overrides p named) = Inr y)
      (registry_tools reg) states" and snap: "snap = NewSnapshot states"
    using assms(2) by (auto simp: Discover_def bindE_Inr_iff dest!: discover_all_Inr split: option.split_asm)
  have "map state_ref states = map (\<lambda>(p, named). ToolRef (pack_id p) (fst named)) (registry_tools reg)"
    using all by (induction rule: list_all2_induct) (auto simp: state_ref_def dest: discover_tool_fields)
  with registry_tools_refs [OF assms(1)] snap show ?thesis by (simp add: NewSnapshot_ok)
qed

lemma qualified_tool_Some:
  assumes "qualified_tool env reg ref t ins path = Some state"
  shows "state_ref state = ref \<and> sort_candidates state = state \<and> Healthy state \<and> ie_sameVersion env (ti_Version ins) (ts_Version state)
    \<and> (\<exists>a. get (ti_Artifacts ins) (host_of (ie_provisioner env)) = Some a
          \<and> equal_fold (hex_text (ei_Digest (ts_Identity state))) (expected_digest a))"
proof -
  obtain scoped found loaded where "NewRegistry loaded = Inr scoped"
    "Discover (ie_probe env) ((ie_resolver env)\<lparr>rs_fallbackDirs := []\<rparr>) scoped [(ref, path)] = Inr found"
    "Find found ref = Some state"
    using assms by (auto simp: qualified_tool_def scoped_registry_def Let_def
        split: option.split_asm sum.split_asm if_split_asm)
  then have "state_ref state = ref \<and> sort_candidates state = state" using discovered_ok Find_ref by blast
  with assms show ?thesis by (auto simp: qualified_tool_def split: option.split_asm sum.split_asm if_split_asm)
qed

subsection \<open>The invariant\<close>

definition platforms_ok :: "snapshot \<Rightarrow> 'p platform_set \<Rightarrow> bool" where
  "platforms_ok snap s \<longleftrightarrow>
     distinct (map (\<lambda>i. spl_ID (pf_Descriptor i)) (ps_items s)) \<and> distinct (map platform_ref (ps_items s))
     \<and> (\<forall>i \<in> set (ps_items s). get (ps_ready s) (spl_ID (pf_Descriptor i)) = map_option Healthy (Find snap (platform_ref i)))"

definition views_agree :: "string \<Rightarrow> registry \<Rightarrow> ('a, 'p) app_state \<Rightarrow> bool" where
  "views_agree host reg app \<longleftrightarrow>
     snapshot_ok (ap_snapshot app) \<and> mg_discovery (ap_manager app) = ap_snapshot app
     \<and> ap_catalog app = newTaskCatalog host (Some reg) (ap_snapshot app) \<and> platforms_ok (ap_snapshot app) (ap_platforms app)"

text \<open>What a request may do to the snapshot: nothing, or make the one tool it names ready.\<close>

definition tool_gained :: "tool_ref \<Rightarrow> snapshot \<Rightarrow> snapshot \<Rightarrow> bool" where
  "tool_gained ref before after \<longleftrightarrow>
     (\<exists>old new. Find before ref = Some old \<and> ts_Status old = StatusMissing \<and> Find after ref = Some new \<and> Healthy new
       \<and> ts_PackVersion new = ts_PackVersion old \<and> ts_VersionConstraint new = ts_VersionConstraint old)
     \<and> (\<forall>r. r \<noteq> ref \<longrightarrow> Find after r = Find before r)"

lemma sort_candidates_fields [simp]:
  "Healthy (sort_candidates s) = Healthy s" "ts_Status (sort_candidates s) = ts_Status s"
  "ts_PackVersion (sort_candidates s) = ts_PackVersion s" "ts_VersionConstraint (sort_candidates s) = ts_VersionConstraint s"
  by (simp_all add: sort_candidates_def Healthy_def)

lemma platforms_ActivateTool:
  assumes "platforms_ok snap s" and "snapshot_ok snap" and "ts_ToolID state \<noteq> []" and "Find snap (state_ref state) \<noteq> None"
  shows "platforms_ok (replace_state (state_ref state) state snap) (fst (set_ActivateTool state s v))"
proof -
  note after = Find_replace_state [OF assms(2) refl]
  show ?thesis
  proof (cases "owner s (ts_PackID state) (ts_ToolID state)")
    case None
    then have "platform_ref i \<noteq> state_ref state" if "i \<in> set (ps_items s)" for i
      using that by (auto simp: owner_def find_None_iff platform_ref_def state_ref_def)
    with assms(1) None show ?thesis by (auto simp: set_ActivateTool_def platforms_ok_def after)
  next
    case (Some item)
    then have item: "item \<in> set (ps_items s)" "platform_ref item = state_ref state"
      using assms(3) by (auto simp: owner_def find_Some_iff platform_ref_def state_ref_def)
    have others: "spl_ID (pf_Descriptor i) \<noteq> spl_ID (pf_Descriptor item) \<and> platform_ref i \<noteq> platform_ref item"
      if "i \<in> set (ps_items s)" "i \<noteq> item" for i
      using that item(1) assms(1) by (auto simp: platforms_ok_def distinct_map dest: inj_onD)
    have "get (AList.update (spl_ID (pf_Descriptor item)) (Healthy state) (ps_ready s)) (spl_ID (pf_Descriptor i))
        = map_option Healthy (Find (replace_state (state_ref state) state snap) (platform_ref i))" if "i \<in> set (ps_items s)" for i
      using assms(1,4) others [OF that] item that by (cases "i = item") (auto simp: platforms_ok_def after update_conv')
    with Some assms(1) show ?thesis by (simp add: set_ActivateTool_def platforms_ok_def)
  qed
qed

lemma activate_tool_cases:
  assumes "activate_tool sha fs host reg snap state app = (ok, app')" and "views_agree host reg app"
    and "snap = replace_state (state_ref state) state (ap_snapshot app)" and "ts_ToolID state \<noteq> []"
  shows "if ok then views_agree host reg (app'\<lparr>ap_snapshot := snap\<rparr>) \<and> tool_gained (state_ref state) (ap_snapshot app) snap
    else app' = app"
proof -
  obtain e m where activated: "ActivateTool sha fs state (ap_manager app) = (e, m)" by fastforce
  note views = assms(2) [unfolded views_agree_def]
  show ?thesis
  proof (cases e)
    case (Some err)
    with activated have "m = ap_manager app"
      by (auto simp: ActivateTool_def Let_def split: option.split_asm if_split_asm)
    with assms(1) activated Some show ?thesis by (auto simp: activate_tool_def)
  next
    case None
    with activated obtain previous where
      previous: "Find (ap_snapshot app) (state_ref state) = Some previous" "ts_Status previous = StatusMissing" "Healthy state"
        "ts_PackVersion state = ts_PackVersion previous" "ts_VersionConstraint state = ts_VersionConstraint previous"
      and m: "mg_discovery m = snap"
      using views assms(3)
      by (auto simp: ActivateTool_def replace_state_def state_ref_def Let_def split: option.split_asm if_split_asm)
    have "platforms_ok snap (fst (set_ActivateTool state (ap_platforms app) (ap_vendor app)))"
      using platforms_ActivateTool views previous(1) assms(3,4) by fastforce
    moreover have "snapshot_ok snap" using replace_state_ok views assms(3) by blast
    moreover have "tool_gained (state_ref state) (ap_snapshot app) snap"
      using previous Find_replace_state [OF conjunct1 [OF views] refl] unfolding tool_gained_def assms(3) by auto
    ultimately show ?thesis
      using assms(1) activated None m
      by (auto simp: activate_tool_def views_agree_def catalog_refresh_def split: prod.split_asm)
  qed
qed

subsection \<open>One request\<close>

text \<open>What a request leaves in the views: all of them as they were, or one more ready tool in all.\<close>

definition request_kept :: "string \<Rightarrow> registry \<Rightarrow> tool_ref \<Rightarrow> ('a, 'p) app_state \<Rightarrow> ('a, 'p) app_state \<Rightarrow> bool" where
  "request_kept host reg ref app app' \<longleftrightarrow>
     views_agree host reg app'
     \<and> (ap_snapshot app' = ap_snapshot app \<or> tool_gained ref (ap_snapshot app) (ap_snapshot app'))"

lemma views_agree_other [simp]:
  "views_agree host reg (app\<lparr>ap_disk := d\<rparr>) = views_agree host reg app"
  "views_agree host reg (app\<lparr>ap_locations := l\<rparr>) = views_agree host reg app"
  by (simp_all add: views_agree_def)

lemma request_kept_refl: "views_agree host reg app \<Longrightarrow> request_kept host reg ref app app"
  by (simp add: request_kept_def)

lemma save_root_views:
  "save_root env ref root app = (ok, app') \<Longrightarrow> \<exists>l. app' = app\<lparr>ap_locations := l\<rparr>"
  by (cases app) (auto simp: save_root_def split: if_split_asm prod.split_asm)

lemma install_ready_kept:
  assumes "install_ready env reg ref t ins installRoot path app = (ok, app')" and "views_agree host reg app"
    and "host_of (ie_provisioner env) = host" and "ref_tool ref \<noteq> []"
  shows "request_kept host reg ref app app'
    \<and> (ok \<longrightarrow> tool_gained ref (ap_snapshot app) (ap_snapshot app') \<and> Find (ap_snapshot app') ref = qualified_tool env reg ref t ins path)
    \<and> (\<not> ok \<longrightarrow> ap_snapshot app' = ap_snapshot app)"
proof (cases "qualified_tool env reg ref t ins path")
  case None
  with assms show ?thesis by (simp add: install_ready_def request_kept_refl)
next
  case (Some state)
  then have state: "state_ref state = ref" "ts_ToolID state \<noteq> []" "sort_candidates state = state"
    using qualified_tool_Some [OF Some] assms(4) by (auto simp: state_ref_def)
  obtain saved app1 where saved: "save_root env ref installRoot app = (saved, app1)" by fastforce
  with save_root_views obtain l where app1: "app1 = app\<lparr>ap_locations := l\<rparr>" by blast
  let ?snap = "replace_state ref state (ap_snapshot app)"
  show ?thesis
  proof (cases saved)
    case False
    with assms(1,2) Some saved app1 show ?thesis by (auto simp: install_ready_def request_kept_def)
  next
    case True
    obtain ok1 app2 where act: "activate_tool (pe_sha (ie_probe env)) (ie_fs env) host reg ?snap state app1 = (ok1, app2)"
      by fastforce
    have "if ok1 then views_agree host reg (app2\<lparr>ap_snapshot := ?snap\<rparr>) \<and> tool_gained ref (ap_snapshot app) ?snap
        else app2 = app1"
      using activate_tool_cases [OF act] state(1,2) app1 assms(2) by auto
    then show ?thesis
      using assms Some saved True act app1 state(3) Find_replace_state [OF _ state(1)]
      by (auto simp: install_ready_def request_kept_def views_agree_def tool_gained_def split: if_split_asm)
  qed
qed

lemma InstallTool_cases:
  assumes "InstallTool env (Some reg) rq app = (answer, app')"
  obtains e where "answer = Inl e" "app' = app"
  | t ins root old where "FindTool reg (irq_PackID rq) (irq_ToolID rq) = Some t" "tl_Install t = Some ins"
      "Find (ap_snapshot app) (ToolRef (irq_PackID rq) (irq_ToolID rq)) = Some old" "ts_Status old = StatusMissing"
      "install_at env reg (ToolRef (irq_PackID rq) (irq_ToolID rq)) t ins root app = (answer, app')"
  using assms unfolding InstallTool_def Let_def option.case
  by (auto split: option.split_asm if_split_asm)

lemma install_at_kept:
  assumes "install_at env reg ref t ins root app = (answer, app')" and "views_agree host reg app"
    and "host_of (ie_provisioner env) = host" and "ref_tool ref \<noteq> []"
  shows "request_kept host reg ref app app'
    \<and> (case answer of Inl e \<Rightarrow> ap_snapshot app' = ap_snapshot app
       | Inr res \<Rightarrow> ir_Version res = ti_Version ins \<and> (\<exists>path. path \<noteq> []
           \<and> (\<exists>d. EnsureAt (ie_sha env) (ie_parse env) (ie_unzip env) (ie_provisioner env) (ie_boot env) ref t root (ap_disk app)
                = (Inr (path, ir_Installed res), d))
           \<and> (ie_live env \<longrightarrow> tool_gained ref (ap_snapshot app) (ap_snapshot app')
                \<and> Find (ap_snapshot app') ref = qualified_tool env reg ref t ins path)
           \<and> (\<not> ie_live env \<longrightarrow> ir_RestartRequired res \<and> ap_snapshot app' = ap_snapshot app)))"
proof (cases "EnsureAt (ie_sha env) (ie_parse env) (ie_unzip env) (ie_provisioner env) (ie_boot env) ref t root (ap_disk app)")
  case (Pair found d)
  let ?app = "app\<lparr>ap_disk := d\<rparr>"
  show ?thesis
  proof (cases "\<exists>path installed. found = Inr (path, installed) \<and> path \<noteq> []")
    case False
    with assms(1,2) Pair show ?thesis
      by (auto simp: install_at_def request_kept_def split: sum.split_asm prod.split_asm)
  next
    case True
    then obtain path installed where found: "found = Inr (path, installed)" "path \<noteq> []" by blast
    obtain ok app2 where ran: "(if ie_live env then install_ready env reg ref t ins root path ?app else save_root env ref root ?app) = (ok, app2)"
      by fastforce
    have "request_kept host reg ref ?app app2
        \<and> (ok \<longrightarrow> ie_live env \<longrightarrow> tool_gained ref (ap_snapshot ?app) (ap_snapshot app2)
             \<and> Find (ap_snapshot app2) ref = qualified_tool env reg ref t ins path)
        \<and> (\<not> ok \<or> \<not> ie_live env \<longrightarrow> ap_snapshot app2 = ap_snapshot ?app)"
    proof (cases "ie_live env")
      case True
      with ran have "install_ready env reg ref t ins root path ?app = (ok, app2)" by simp
      from install_ready_kept [OF this _ assms(3,4)] assms(2) True show ?thesis by simp
    next
      case False
      with ran save_root_views [of env ref root ?app ok app2] assms(2) show ?thesis
        by (auto simp: request_kept_def)
    qed
    then show ?thesis
      using assms(1) Pair found ran by (auto simp: install_at_def request_kept_def split: bool.split_asm)
  qed
qed

lemma InstallTool_kept:
  assumes "InstallTool env (Some reg) rq app = (answer, app')" and "views_agree host reg app"
    and "host_of (ie_provisioner env) = host" and "irq_ToolID rq \<noteq> []"
  shows "request_kept host reg (ToolRef (irq_PackID rq) (irq_ToolID rq)) app app'"
  using assms(1)
proof (cases rule: InstallTool_cases)
  case (2 t ins root old)
  with install_at_kept [OF _ assms(2,3)] assms(4) show ?thesis by auto
qed (use assms(2) in \<open>simp add: request_kept_refl\<close>)

lemma RefreshTool_kept:
  assumes "RefreshTool env (Some reg) rq app = (answer, app')" and "views_agree host reg app"
    and "host_of (ie_provisioner env) = host" and "irq_ToolID rq \<noteq> []"
  shows "request_kept host reg (ToolRef (irq_PackID rq) (irq_ToolID rq)) app app'"
proof (cases "app' = app")
  case False
  let ?ref = "ToolRef (irq_PackID rq) (irq_ToolID rq)"
  obtain scoped found candidate loaded ok app2 where
    scoped: "NewRegistry loaded = Inr scoped" "Discover (ie_probe env) (user_resolver env) scoped [] = Inr found"
      "Find found ?ref = Some candidate"
    and act: "activate_tool (pe_sha (ie_probe env)) (ie_fs env) host reg
        (NewSnapshot (replace_first ?ref candidate (sn_tools (ap_snapshot app)))) candidate app = (ok, app2)"
    and app': "app' = (if ok then app2\<lparr>ap_snapshot := NewSnapshot (replace_first ?ref candidate (sn_tools (ap_snapshot app)))\<rparr> else app2)"
    using assms(1,3) False
    by (auto simp: RefreshTool_def Let_def scoped_registry_def split: option.split_asm sum.split_asm if_split_asm prod.split_asm bool.split_asm)
  have "state_ref candidate = ?ref" using discovered_ok Find_ref scoped by blast
  moreover from this have "ts_ToolID candidate \<noteq> []" using assms(4) by (auto simp: state_ref_def)
  moreover have "NewSnapshot (replace_first ?ref candidate (sn_tools (ap_snapshot app))) = replace_state ?ref candidate (ap_snapshot app)"
    using assms(2) by (simp add: views_agree_def replace_first_snapshot)
  ultimately show ?thesis
    using activate_tool_cases [OF act assms(2)] app' assms(2) by (auto simp: request_kept_def split: if_split_asm)
qed (use assms(2) in \<open>simp add: request_kept_refl\<close>)

subsection \<open>Sequences of requests\<close>

datatype app_request = InstallRequest install_env install_request | RefreshRequest install_env install_request

fun request_env :: "app_request \<Rightarrow> install_env" where
  "request_env (InstallRequest env rq) = env"
| "request_env (RefreshRequest env rq) = env"

fun request_ref :: "app_request \<Rightarrow> tool_ref" where
  "request_ref (InstallRequest env rq) = ToolRef (irq_PackID rq) (irq_ToolID rq)"
| "request_ref (RefreshRequest env rq) = ToolRef (irq_PackID rq) (irq_ToolID rq)"

fun app_step :: "registry \<Rightarrow> ('a, 'p) app_state \<Rightarrow> app_request \<Rightarrow> ('a, 'p) app_state" where
  "app_step reg app (InstallRequest env rq) = snd (InstallTool env (Some reg) rq app)"
| "app_step reg app (RefreshRequest env rq) = snd (RefreshTool env (Some reg) rq app)"

text \<open>Requests to one server on one machine, each for a named tool.\<close>

definition requests_on :: "string \<Rightarrow> app_request list \<Rightarrow> bool" where
  "requests_on host rqs \<longleftrightarrow>
     list_all (\<lambda>rq. host_of (ie_provisioner (request_env rq)) = host \<and> ref_tool (request_ref rq) \<noteq> []) rqs"

lemma app_step_kept:
  assumes "views_agree host reg app" and "host_of (ie_provisioner (request_env rq)) = host" and "ref_tool (request_ref rq) \<noteq> []"
  shows "request_kept host reg (request_ref rq) app (app_step reg app rq)"
proof (cases rq)
  case (InstallRequest env r)
  then show ?thesis
    using InstallTool_kept [of env reg r app "fst (InstallTool env (Some reg) r app)" "snd (InstallTool env (Some reg) r app)" host]
      assms by simp
next
  case (RefreshRequest env r)
  then show ?thesis
    using RefreshTool_kept [of env reg r app "fst (RefreshTool env (Some reg) r app)" "snd (RefreshTool env (Some reg) r app)" host]
      assms by simp
qed

definition tools_grow :: "tool_ref set \<Rightarrow> snapshot \<Rightarrow> snapshot \<Rightarrow> bool" where
  "tools_grow refs before after \<longleftrightarrow>
     (\<forall>r. Find after r = Find before r
       \<or> r \<in> refs \<and> map_option ts_Status (Find before r) = Some StatusMissing \<and> map_option Healthy (Find after r) = Some True)"

lemma tools_grow_trans:
  "tools_grow refs a b \<Longrightarrow> tools_grow refs' b c \<Longrightarrow> tools_grow (refs \<union> refs') a c"
  unfolding tools_grow_def Healthy_def
  by (metis (no_types, lifting) UnCI)

lemma gained_grows: "tool_gained ref before after \<Longrightarrow> tools_grow {ref} before after"
  unfolding tools_grow_def tool_gained_def by fastforce

lemma app_steps_kept:
  assumes "views_agree host reg app" and "requests_on host rqs"
  shows "views_agree host reg (foldl (app_step reg) app rqs)
    \<and> tools_grow (request_ref ` set rqs) (ap_snapshot app) (ap_snapshot (foldl (app_step reg) app rqs))"
  using assms
proof (induction rqs arbitrary: app)
  case Nil
  then show ?case by (simp add: tools_grow_def)
next
  case (Cons rq rqs)
  then have step: "request_kept host reg (request_ref rq) app (app_step reg app rq)"
    by (intro app_step_kept) (auto simp: requests_on_def)
  then have "tools_grow {request_ref rq} (ap_snapshot app) (ap_snapshot (app_step reg app rq))"
    unfolding request_kept_def by (metis gained_grows tools_grow_def)
  moreover have "views_agree host reg (app_step reg app rq)" using step by (simp add: request_kept_def)
  ultimately show ?case
    using Cons.IH [of "app_step reg app rq"] Cons.prems(2) tools_grow_trans by (fastforce simp: requests_on_def)
qed

subsection \<open>The application starts with agreeing views\<close>

lemma NewSet_ok:
  assumes "distinct (map (\<lambda>i. spl_ID (pf_Descriptor i)) items)" and "distinct (map platform_ref items)"
  shows "platforms_ok snap (NewSet snap items)"
proof -
  have "platforms_ok snap (foldl (register_platform snap) s items)"
    if "platforms_ok snap s"
      and "distinct (map (\<lambda>i. spl_ID (pf_Descriptor i)) (ps_items s @ items))" and "distinct (map platform_ref (ps_items s @ items))"
    for s
    using that
  proof (induction items arbitrary: s)
    case (Cons item items)
    from Cons.prems have next_ok: "platforms_ok snap (register_platform snap s item)"
      by (auto simp: register_platform_def Let_def platforms_ok_def update_conv' image_iff split: option.split)
    have "ps_items (register_platform snap s item) \<in> {ps_items s, ps_items s @ [item]}"
      by (simp add: register_platform_def Let_def split: option.split)
    with Cons.prems(2,3) Cons.IH [OF next_ok] show ?case by auto
  qed simp
  from this [of "\<lparr>ps_items = [], ps_available = [], ps_ready = []\<rparr>"] assms show ?thesis
    by (simp add: NewSet_def platforms_ok_def)
qed

lemma assemble_agrees:
  assumes "assemble host reg snap items config sink v fs locations = Some app" and "snapshot_ok snap"
    and "distinct (map (\<lambda>i. spl_ID (pf_Descriptor i)) items)" and "distinct (map platform_ref items)"
  shows "views_agree host reg app"
  using assms(1,2) NewSet_ok [OF assms(3,4)]
  by (auto simp: assemble_def NewManager_def Let_def views_agree_def split: prod.split_asm option.split_asm if_split_asm)

subsection \<open>The properties\<close>

text \<open>
  C16: An installation enables exactly the tool it was asked for, and only the pinned bytes of it.
  When an install request succeeds, the run manager's discovery differs at most at the requested
  tool: the tool was missing and is now ready, its version is the pack's, and the digest of its
  executable is the one the pack pins for this platform.
\<close>
theorem installed_tool_is_pinned:
  assumes "InstallTool env (Some reg) rq app = (Inr res, app')" and "views_agree host reg app" and "ie_live env"
    and "host_of (ie_provisioner env) = host" and "irq_ToolID rq \<noteq> []"
  shows "(\<exists>t ins a old st. FindTool reg (irq_PackID rq) (irq_ToolID rq) = Some t \<and> tl_Install t = Some ins
      \<and> get (ti_Artifacts ins) host = Some a
      \<and> Find (mg_discovery (ap_manager app)) (ToolRef (irq_PackID rq) (irq_ToolID rq)) = Some old \<and> ts_Status old = StatusMissing
      \<and> Find (mg_discovery (ap_manager app')) (ToolRef (irq_PackID rq) (irq_ToolID rq)) = Some st \<and> Healthy st
      \<and> ie_sameVersion env (ti_Version ins) (ts_Version st) \<and> ir_Version res = ti_Version ins
      \<and> equal_fold (hex_text (ei_Digest (ts_Identity st))) (expected_digest a))
    \<and> (\<forall>r. r \<noteq> ToolRef (irq_PackID rq) (irq_ToolID rq) \<longrightarrow>
         Find (mg_discovery (ap_manager app')) r = Find (mg_discovery (ap_manager app)) r)"
  using assms(1)
proof (cases rule: InstallTool_cases)
  case (2 t ins root old)
  let ?ref = "ToolRef (irq_PackID rq) (irq_ToolID rq)"
  have ref: "ref_tool ?ref \<noteq> []" using assms(5) by simp
  from install_at_kept [OF 2(5) assms(2,4) ref] assms(3) obtain path where
    kept: "request_kept host reg ?ref app app'" "ir_Version res = ti_Version ins"
    and gained: "tool_gained ?ref (ap_snapshot app) (ap_snapshot app')"
      "Find (ap_snapshot app') ?ref = qualified_tool env reg ?ref t ins path"
    by auto
  then obtain st where st: "Find (ap_snapshot app') ?ref = Some st" "qualified_tool env reg ?ref t ins path = Some st"
    unfolding tool_gained_def by auto
  from kept(1) assms(2) have "mg_discovery (ap_manager app') = ap_snapshot app'" "mg_discovery (ap_manager app) = ap_snapshot app"
    by (simp_all add: request_kept_def views_agree_def)
  with 2(1-4) st kept(2) qualified_tool_Some [OF st(2)] gained(1) assms(4) show ?thesis
    by (auto simp: tool_gained_def)
qed simp

text \<open>
  C15: The four views of the tools never disagree. However many install and refresh requests a
  server has answered, successful or not, the installer's snapshot is the run manager's discovery,
  the catalogue the browser reads is the one of that snapshot, and a platform is shown ready
  exactly when its tool is.
\<close>
theorem tool_views_agree:
  assumes "NewRegistry loaded = Inr reg" and "Discover env r reg overrides = Inr snap"
    and "assemble host reg snap items config sink v fs locations = Some app" and "requests_on host rqs"
    and "distinct (map (\<lambda>i. spl_ID (pf_Descriptor i)) items)" and "distinct (map platform_ref items)"
    and "app' = foldl (app_step reg) app rqs"
  shows "mg_discovery (ap_manager app') = ap_snapshot app' \<and> ap_catalog app' = newTaskCatalog host (Some reg) (ap_snapshot app')
    \<and> (\<forall>p \<in> set (ListPlatforms (ap_platforms app')).
         spl_Ready p = (map_option Healthy (Find (ap_snapshot app') (ToolRef (spl_PackID p) (spl_ToolID p))) = Some True))"
proof -
  have "views_agree host reg app"
    using assemble_agrees [OF assms(3) discovered_ok [OF assms(1,2)] assms(5,6)] .
  then have "views_agree host reg app'" using app_steps_kept assms(4,7) by blast
  then show ?thesis
    by (auto simp: views_agree_def platforms_ok_def ListPlatforms_def platform_ref_def)
qed

text \<open>
  C18: Only a missing tool that somebody asked for gains authority. Through any sequence of install
  and refresh requests every tool's state stays as startup found it, unless a request named the
  tool, it was missing, and it is ready now; no task the browser was offered disappears, and a task
  that appears belongs to a tool that was asked for.
\<close>
theorem only_missing_tools_gain_authority:
  assumes "views_agree host reg app" and "requests_on host rqs" and "app' = foldl (app_step reg) app rqs"
  shows "(Find (ap_snapshot app') ref = Find (ap_snapshot app) ref
      \<or> ref \<in> request_ref ` set rqs \<and> map_option ts_Status (Find (ap_snapshot app) ref) = Some StatusMissing
        \<and> map_option Healthy (Find (ap_snapshot app') ref) = Some True)
    \<and> (offered host reg (ap_snapshot app) pid cid \<longrightarrow> offered host reg (ap_snapshot app') pid cid)
    \<and> (offered host reg (ap_snapshot app') pid cid \<longrightarrow> offered host reg (ap_snapshot app) pid cid
        \<or> (\<exists>cmd. FindCommand reg pid cid = Some cmd \<and> ToolRef pid (cm_Tool cmd) \<in> request_ref ` set rqs))"
proof -
  have grow: "tools_grow (request_ref ` set rqs) (ap_snapshot app) (ap_snapshot app')"
    using app_steps_kept [OF assms(1,2)] assms(3) by simp
  have healthy: "Find (ap_snapshot app) r = Some st \<Longrightarrow> Healthy st \<Longrightarrow> Find (ap_snapshot app') r = Some st" for r st
    using grow unfolding tools_grow_def Healthy_def by (metis discovery_status.distinct(1) option.inject option.map(2))
  have appeared: "Find (ap_snapshot app') r = Some st \<Longrightarrow> Find (ap_snapshot app) r = Some st \<or> r \<in> request_ref ` set rqs" for r st
    using grow unfolding tools_grow_def by metis
  from grow have "Find (ap_snapshot app') ref = Find (ap_snapshot app) ref
      \<or> ref \<in> request_ref ` set rqs \<and> map_option ts_Status (Find (ap_snapshot app) ref) = Some StatusMissing
        \<and> map_option Healthy (Find (ap_snapshot app') ref) = Some True"
    unfolding tools_grow_def by blast
  moreover have "offered host reg (ap_snapshot app) pid cid \<Longrightarrow> offered host reg (ap_snapshot app') pid cid"
    unfolding offered_iff using healthy by blast
  moreover have "offered host reg (ap_snapshot app') pid cid \<Longrightarrow> offered host reg (ap_snapshot app) pid cid
      \<or> (\<exists>cmd. FindCommand reg pid cid = Some cmd \<and> ToolRef pid (cm_Tool cmd) \<in> request_ref ` set rqs)"
    unfolding offered_iff using appeared by blast
  ultimately show ?thesis by blast
qed

subsection \<open>A sample application\<close>

definition app_artifact :: install_artifact where
  "app_artifact = boot_artifact\<lparr>ia_SHA256 := hex_text ''code''\<rparr>"

definition app_tool :: tool where
  "app_tool = sample_tool\<lparr>tl_Install := Some \<lparr>ti_Version = ''1.2.3'', ti_Artifacts = [(''linux-amd64'', app_artifact)]\<rparr>\<rparr>"

definition app_pack :: loaded_pack where
  "app_pack = vault_pack\<lparr>lp_Pack := (lp_Pack vault_pack)\<lparr>
     pk_Runtime := \<lparr>rt_Platforms = [''linux''], rt_Tools = [(''t'', app_tool)]\<rparr>\<rparr>\<rparr>"

definition app_registry :: registry where
  "app_registry = \<lparr>rg_packs = [app_pack], rg_byID = [(''p'', 0)]\<rparr>"

definition app_fs :: file_system where
  "app_fs = \<lparr>fs_Lstat = (\<lambda>p. if p = ''/h/tools/p/t/1.2.3/tool'' \<or> p = ''/h/bin/tool'' then Some sample_file else None),
     fs_Stat = (\<lambda>p. if p = ''/h/tools/p/t/1.2.3/tool'' \<or> p = ''/h/bin/tool'' then Some sample_file else None),
     fs_OpenStat = (\<lambda>p. Some sample_file), fs_Content = (\<lambda>p. Some ''code''),
     fs_EvalSymlinks = Some, fs_Abs = Some\<rparr>"

definition app_probe :: probe_env where
  "app_probe = sample_env\<lparr>pe_fs := app_fs, pe_fs_after := app_fs\<rparr>"

definition app_resolver :: resolver where
  "app_resolver = \<lparr>rs_goos = ''linux'', rs_pathValue = [], rs_fallbackDirs = []\<rparr>"

definition app_snapshot0 :: snapshot where
  "app_snapshot0 = (case Discover app_probe app_resolver app_registry [] of Inr s \<Rightarrow> s | Inl e \<Rightarrow> NewSnapshot [])"

definition app_env :: install_env where
  "app_env = \<lparr>ie_sha = hex_text, ie_parse = (\<lambda>_. Some boot_url), ie_unzip = (\<lambda>_. None),
     ie_provisioner = boot_host\<lparr>pvn_rootDir := ''/h''\<rparr>, ie_boot = boot_world, ie_probe = app_probe, ie_resolver = app_resolver,
     ie_home = Some ''/h'', ie_sameVersion = (=), ie_fs = app_fs,
     ie_path = \<lparr>pt_Home = ''/h'', pt_Lstat = (\<lambda>_. LstatMissing), pt_EvalSymlinks = (\<lambda>_. None)\<rparr>,
     ie_located = True, ie_replaced = True, ie_live = True, ie_cancelled = False\<rparr>"

definition app_request1 :: install_request where
  "app_request1 = \<lparr>irq_PackID = ''p'', irq_ToolID = ''t'', irq_InstallRoot = []\<rparr>"

definition app_platform :: "nat platform" where
  "app_platform = \<lparr>pf_Descriptor = \<lparr>spl_ID = ''v'', spl_Name = ''V'', spl_Summary = [], spl_PackID = ''p'', spl_ToolID = ''t'', spl_Ready = False,
     spl_Features = []\<rparr>, pf_ActivateTool = (\<lambda>_ n. Suc n), pf_TaskAvailable = (\<lambda>_ _ _. True), pf_Resolve = (\<lambda>_ _. Inl ())\<rparr>"

definition app_start :: "(store, nat) app_state" where
  "app_start = the (assemble ''linux-amd64'' app_registry app_snapshot0 [app_platform] sample_settings empty_store 0 boot_disk [])"

lemma app_snapshot_states:
  "Discover app_probe app_resolver app_registry [] = Inr app_snapshot0"
  "Find app_snapshot0 (ToolRef ''p'' ''t'') \<noteq> None"
  by code_simp+

lemma app_installed:
  "case InstallTool app_env (Some app_registry) app_request1 app_start of (Inr res, app) \<Rightarrow> ir_Installed res | _ \<Rightarrow> False"
  by code_simp

lemma app_refreshed:
  "case RefreshTool app_env (Some app_registry) app_request1 app_start of (Inr res, app) \<Rightarrow> rf_Ready res | _ \<Rightarrow> False"
  by code_simp

lemma app_assembled:
  "assemble ''linux-amd64'' app_registry app_snapshot0 [app_platform] sample_settings empty_store 0 boot_disk [] = Some app_start"
  by (simp add: app_start_def assemble_def NewManager_def sample_settings_def with_defaults_def positive_or_def wrap64_def Let_def)

lemma app_registry_built: "NewRegistry [app_pack] = Inr app_registry"
  by code_simp

lemma app_views: "views_agree ''linux-amd64'' app_registry app_start"
  using assemble_agrees [OF app_assembled discovered_ok [OF app_registry_built app_snapshot_states(1)]] by simp

lemma app_request_fields:
  "ie_live app_env" "host_of (ie_provisioner app_env) = ''linux-amd64''" "irq_ToolID app_request1 \<noteq> []"
  "ToolRef (irq_PackID app_request1) (irq_ToolID app_request1) = ToolRef ''p'' ''t''"
  by (simp_all add: app_env_def app_request1_def host_of_def boot_host_def)

theorem installed_tool_is_pinned_witness:
  "\<exists>res app' st. InstallTool app_env (Some app_registry) app_request1 app_start = (Inr res, app') \<and> ir_Version res = ''1.2.3''
     \<and> Find (mg_discovery (ap_manager app')) (ToolRef ''p'' ''t'') = Some st \<and> Healthy st
     \<and> equal_fold (hex_text (ei_Digest (ts_Identity st))) (hex_text ''code'')"
proof -
  obtain res app' where run: "InstallTool app_env (Some app_registry) app_request1 app_start = (Inr res, app')"
    using app_installed by (auto split: prod.split_asm sum.split_asm)
  have "FindTool app_registry ''p'' ''t'' = Some app_tool" "tl_Install app_tool = Some \<lparr>ti_Version = ''1.2.3'', ti_Artifacts = [(''linux-amd64'', app_artifact)]\<rparr>"
    "expected_digest app_artifact = hex_text ''code''"
    by code_simp+
  with installed_tool_is_pinned [OF run app_views app_request_fields(1-3)] run show ?thesis
    by (auto simp: app_request_fields(4) app_request1_def)
qed

definition app_requests :: "app_request list" where
  "app_requests = [RefreshRequest app_env app_request1, InstallRequest app_env app_request1]"

lemma app_requests_on: "requests_on ''linux-amd64'' app_requests"
  using app_request_fields by (simp add: requests_on_def app_requests_def)

lemma app_after_requests:
  "map_option Healthy (Find (ap_snapshot (foldl (app_step app_registry) app_start app_requests)) (ToolRef ''p'' ''t'')) = Some True"
  "map spl_Ready (ListPlatforms (ap_platforms (foldl (app_step app_registry) app_start app_requests))) = [True]"
  by code_simp+

theorem tool_views_agree_witness:
  "mg_discovery (ap_manager (foldl (app_step app_registry) app_start app_requests))
      = ap_snapshot (foldl (app_step app_registry) app_start app_requests)
   \<and> ap_snapshot (foldl (app_step app_registry) app_start app_requests) \<noteq> ap_snapshot app_start
   \<and> map spl_Ready (ListPlatforms (ap_platforms (foldl (app_step app_registry) app_start app_requests))) = [True]"
proof -
  have "map_option Healthy (Find (ap_snapshot app_start) (ToolRef ''p'' ''t'')) = Some False" by code_simp
  moreover have "distinct (map (\<lambda>i. spl_ID (pf_Descriptor i)) [app_platform])" "distinct (map platform_ref [app_platform])" by simp_all
  ultimately show ?thesis
    using tool_views_agree [OF app_registry_built app_snapshot_states(1) app_assembled app_requests_on _ _ refl] app_after_requests
    by auto
qed

theorem only_missing_tools_gain_authority_witness:
  "map_option ts_Status (Find (ap_snapshot app_start) (ToolRef ''p'' ''t'')) = Some StatusMissing
   \<and> map_option Healthy (Find (ap_snapshot (foldl (app_step app_registry) app_start app_requests)) (ToolRef ''p'' ''t'')) = Some True"
proof -
  have "map_option Healthy (Find (ap_snapshot app_start) (ToolRef ''p'' ''t'')) = Some False" by code_simp
  with conjunct1 [OF only_missing_tools_gain_authority
      [OF app_views app_requests_on refl, where ref = "ToolRef ''p'' ''t''" and pid = "''p''" and cid = "''list''"]]
  show ?thesis using app_after_requests(1) by auto
qed

end
